(* ===== verification/Prelude.thy ===== *)
theory Prelude
  imports Complex_Main "HOL-Library.AList" "HOL-Library.Multiset" "HOL-Library.Sublist"
begin

text \<open>
  The shared base of the development: the \<open>EntityResult\<close> type of
  \<open>src/db/types.ts\<close>, the exception-and-state monad in which the asynchronous
  methods of the server are written, the pieces of the JavaScript library they
  use (\<open>Math.round\<close>, \<open>Math.ceil\<close>, \<open>x || d\<close>, \<open>Array.slice\<close>,
  \<open>Array.sort\<close>), and the lemmas on lists and insertion-ordered maps that
  every component needs.

  A JavaScript number is modelled by its mathematical value: a count or a
  millisecond time stamp is an \<open>int\<close> (they stay far below 2 to the 53), an
  amount, a rate or a speed is a \<open>rat\<close>. IEEE rounding of amounts is not
  modelled.
\<close>

named_theorems act_simps \<open>evaluation of the exception-and-state monad\<close>
named_theorems keeps_rules \<open>introduction rules for what a method leaves unchanged\<close>
named_theorems key_simps \<open>the key builders of REDIS_KEYS\<close>

section \<open>Results\<close>

text \<open>\<open>DatabaseError\<close> and \<open>EntityResult\<close> of \<open>src/db/types.ts\<close>.\<close>

datatype DatabaseError =
    NotFound | AlreadyExists | UpdateFailed | InvalidInput | DatabaseFault
  | StorageError | CanisterError | Unknown

datatype 'a EntityResult = Success 'a | Failure DatabaseError string

fun succeeded :: "'a EntityResult \<Rightarrow> bool" where
  "succeeded (Success _) = True"
| "succeeded (Failure _ _) = False"

text \<open>\<open>return result\<close> of a failed result where the method's data type differs.\<close>

fun retype_failure :: "'a EntityResult \<Rightarrow> 'b EntityResult" where
  "retype_failure (Failure k m) = Failure k m"
| "retype_failure (Success _) = Failure Unknown []"

lemma succeeded_iff: "succeeded r \<longleftrightarrow> (\<exists>a. r = Success a)"
  by (cases r) auto

section \<open>Asynchronous methods\<close>

text \<open>
  An awaited method runs on a world \<open>'w\<close> and ends either by throwing (\<open>Inl\<close>
  with the text of the error) or by returning (\<open>Inr\<close>); what it changed in the
  world before it threw stays changed.
\<close>

type_synonym ('w, 'a) act = "'w \<Rightarrow> (string + 'a) \<times> 'w"

definition returnA :: "'a \<Rightarrow> ('w, 'a) act" where
  "returnA a = (\<lambda>w. (Inr a, w))"

definition throwA :: "string \<Rightarrow> ('w, 'a) act" where
  "throwA e = (\<lambda>w. (Inl e, w))"

definition bindA :: "('w, 'a) act \<Rightarrow> ('a \<Rightarrow> ('w, 'b) act) \<Rightarrow> ('w, 'b) act" where
  "bindA m f = (\<lambda>w. case m w of (r, w') \<Rightarrow>
     (case r of Inl e \<Rightarrow> (Inl e, w') | Inr a \<Rightarrow> f a w'))"

definition thenA :: "('w, 'a) act \<Rightarrow> ('w, 'b) act \<Rightarrow> ('w, 'b) act" where
  "thenA m n = bindA m (\<lambda>_. n)"

text \<open>\<open>try { m } catch (error) { h(error) }\<close>\<close>

definition catchA :: "('w, 'a) act \<Rightarrow> (string \<Rightarrow> ('w, 'a) act) \<Rightarrow> ('w, 'a) act" where
  "catchA m h = (\<lambda>w. case m w of (r, w') \<Rightarrow>
     (case r of Inl e \<Rightarrow> h e w' | Inr a \<Rightarrow> (Inr a, w')))"

text \<open>\<open>for (const x of xs) { s = await f(s, x) }\<close>\<close>

fun foldA :: "('s \<Rightarrow> 'x \<Rightarrow> ('w, 's) act) \<Rightarrow> 's \<Rightarrow> 'x list \<Rightarrow> ('w, 's) act" where
  "foldA f s [] = returnA s"
| "foldA f s (x # xs) = bindA (f s x) (\<lambda>s'. foldA f s' xs)"

text \<open>\<open>await Promise.all(xs.map(f))\<close>, the elements run one after the other.\<close>

fun mapA :: "('x \<Rightarrow> ('w, 'y) act) \<Rightarrow> 'x list \<Rightarrow> ('w, 'y list) act" where
  "mapA f [] = returnA []"
| "mapA f (x # xs) = bindA (f x) (\<lambda>y. bindA (mapA f xs) (\<lambda>ys. returnA (y # ys)))"

lemma returnA_apply [act_simps]: "returnA a w = (Inr a, w)"
  by (simp add: returnA_def)

lemma throwA_apply [act_simps]: "throwA e w = (Inl e, w)"
  by (simp add: throwA_def)

lemma bindA_apply [act_simps]:
  "bindA m f w = (case m w of (r, w') \<Rightarrow>
     (case r of Inl e \<Rightarrow> (Inl e, w') | Inr a \<Rightarrow> f a w'))"
  by (simp add: bindA_def)

lemma thenA_apply [act_simps]:
  "thenA m n w = (case m w of (r, w') \<Rightarrow>
     (case r of Inl e \<Rightarrow> (Inl e, w') | Inr a \<Rightarrow> n w'))"
  by (simp add: thenA_def bindA_def)

lemma catchA_apply [act_simps]:
  "catchA m h w = (case m w of (r, w') \<Rightarrow>
     (case r of Inl e \<Rightarrow> h e w' | Inr a \<Rightarrow> (Inr a, w')))"
  by (simp add: catchA_def)

text \<open>A method that never throws: whatever happens below it, it returns a value.\<close>

definition total :: "('w, 'a) act \<Rightarrow> bool" where
  "total m \<longleftrightarrow> (\<forall>w. \<exists>a w'. m w = (Inr a, w'))"

lemma total_return [intro]: "total (returnA a)"
  by (simp add: total_def returnA_def)

lemma total_catch [intro]: "(\<And>e. total (h e)) \<Longrightarrow> total (catchA m h)"
  unfolding total_def catchA_def by (auto split: prod.split sum.split)

lemma total_bind [intro]:
  assumes "total m" and "\<And>a. total (f a)"
  shows "total (bindA m f)"
  unfolding total_def
proof
  fix w
  obtain a w' where "m w = (Inr a, w')"
    using assms(1) unfolding total_def by blast
  then have "bindA m f w = f a w'" by (simp add: bindA_def)
  then show "\<exists>b w''. bindA m f w = (Inr b, w'')"
    using assms(2) unfolding total_def by simp
qed

lemma total_then [intro]: "total m \<Longrightarrow> total n \<Longrightarrow> total (thenA m n)"
  unfolding thenA_def by (rule total_bind)

lemma total_catch_return [simp, intro]: "total (catchA m (\<lambda>e. returnA (f e)))"
  by (rule total_catch) (rule total_return)

text \<open>A relation every run of a method keeps between its first and last world.\<close>

definition preserves :: "('w \<Rightarrow> bool) \<Rightarrow> ('w, 'a) act \<Rightarrow> bool" where
  "preserves P m \<longleftrightarrow> (\<forall>w. P w \<longrightarrow> P (snd (m w)))"

lemma preservesD: "preserves P m \<Longrightarrow> P w \<Longrightarrow> P (snd (m w))"
  by (simp add: preserves_def)

lemma preserves_return [intro, keeps_rules]: "preserves P (returnA a)"
  by (simp add: preserves_def returnA_def)

lemma preserves_throw [intro, keeps_rules]: "preserves P (throwA a)"
  by (simp add: preserves_def throwA_def)

lemma preserves_bind [intro, keeps_rules]:
  "preserves P m \<Longrightarrow> (\<And>a. preserves P (f a)) \<Longrightarrow> preserves P (bindA m f)"
  unfolding preserves_def bindA_def by (fastforce split: prod.split sum.split)

lemma preserves_then [intro, keeps_rules]: "preserves P m \<Longrightarrow> preserves P n \<Longrightarrow> preserves P (thenA m n)"
  unfolding thenA_def by (rule preserves_bind)

lemma preserves_catch [intro, keeps_rules]:
  "preserves P m \<Longrightarrow> (\<And>e. preserves P (h e)) \<Longrightarrow> preserves P (catchA m h)"
  unfolding preserves_def catchA_def by (fastforce split: prod.split sum.split)

lemma preserves_foldA [intro, keeps_rules]:
  assumes "\<And>s x. preserves P (f s x)"
  shows "preserves P (foldA f s xs)"
  by (induction xs arbitrary: s) (auto intro: assms)

lemma preserves_mapA [intro, keeps_rules]:
  assumes "\<And>x. preserves P (f x)"
  shows "preserves P (mapA f xs)"
  by (induction xs) (auto intro: assms)

lemma foldA_append: "foldA f s (xs @ ys) = bindA (foldA f s xs) (\<lambda>t. foldA f t ys)"
proof (induction xs arbitrary: s)
  case Nil
  then show ?case by (simp add: bindA_def returnA_def)
next
  case (Cons x xs)
  then show ?case
    by (auto simp: bindA_def fun_eq_iff split: prod.split sum.split)
qed

text \<open>Batching a loop whose batches run one after the other does not change it.\<close>

lemma foldA_concat: "foldA (foldA f) s xss = foldA f s (concat xss)"
  by (induction xss arbitrary: s) (simp_all add: foldA_append)

text \<open>The case distinctions of the methods.\<close>

lemma preserves_cases [keeps_rules]:
  "(b \<Longrightarrow> preserves P m) \<Longrightarrow> (\<not> b \<Longrightarrow> preserves P n) \<Longrightarrow> preserves P (if b then m else n)"
  "(opt = None \<Longrightarrow> preserves P m) \<Longrightarrow> (\<And>a. opt = Some a \<Longrightarrow> preserves P (f a)) \<Longrightarrow>
     preserves P (case opt of None \<Rightarrow> m | Some a \<Rightarrow> f a)"
  "(\<And>a. res = Success a \<Longrightarrow> preserves P (g a)) \<Longrightarrow> (\<And>k e. res = Failure k e \<Longrightarrow> preserves P (h k e)) \<Longrightarrow>
     preserves P (case res of Success a \<Rightarrow> g a | Failure k e \<Rightarrow> h k e)"
  "(xs = [] \<Longrightarrow> preserves P m) \<Longrightarrow> (\<And>y ys. xs = y # ys \<Longrightarrow> preserves P (l y ys)) \<Longrightarrow>
     preserves P (case xs of [] \<Rightarrow> m | y # ys \<Rightarrow> l y ys)"
  "(\<And>a b. pr = (a, b) \<Longrightarrow> preserves P (q a b)) \<Longrightarrow> preserves P (case pr of (a, b) \<Rightarrow> q a b)"
  by (auto split: option.split EntityResult.split list.split prod.split)

text \<open>A loop whose body only reads: it can be evaluated element by element.\<close>

lemma mapA_pure:
  assumes "\<And>x. x \<in> set xs \<Longrightarrow> f x w = (Inr (g x), w)"
  shows "mapA f xs w = (Inr (map g xs), w)"
  using assms by (induction xs) (auto simp: act_simps)

lemma foldA_pure:
  assumes "\<And>s x. x \<in> set xs \<Longrightarrow> f s x w = (Inr (g s x), w)"
  shows "foldA f s xs w = (Inr (foldl g s xs), w)"
  using assms by (induction xs arbitrary: s) (auto simp: act_simps)

section \<open>The JavaScript library\<close>

text \<open>\<open>x || d\<close> on a number, and the truth of a string.\<close>

definition or_num :: "'a::zero \<Rightarrow> 'a \<Rightarrow> 'a" where
  "or_num x d = (if x = 0 then d else x)"

definition or_num_opt :: "'a::zero option \<Rightarrow> 'a \<Rightarrow> 'a" where
  "or_num_opt x d = (case x of None \<Rightarrow> d | Some v \<Rightarrow> or_num v d)"

definition truthy :: "string \<Rightarrow> bool" where
  "truthy s \<longleftrightarrow> s \<noteq> []"

text \<open>\<open>Math.round\<close> rounds a half up; \<open>Math.ceil\<close> and \<open>Math.floor\<close> are HOL's.\<close>

definition js_round :: "rat \<Rightarrow> int" where
  "js_round x = \<lfloor>x + 1/2\<rfloor>"

lemma js_round_error: "\<bar>of_int (js_round x) - x\<bar> \<le> 1/2"
  unfolding js_round_def by linarith

lemma js_round_mono: "x \<le> y \<Longrightarrow> js_round x \<le> js_round y"
  unfolding js_round_def by (simp add: floor_mono)

lemma js_round_of_int [simp]: "js_round (of_int n) = n"
  unfolding js_round_def by linarith

text \<open>\<open>Math.round(x * 10^k) / 10^k\<close>\<close>

definition round_dec :: "rat \<Rightarrow> rat \<Rightarrow> rat" where
  "round_dec scale x = of_int (js_round (x * scale)) / scale"

lemma round_dec_error:
  assumes "0 < scale"
  shows "\<bar>round_dec scale x - x\<bar> \<le> 1 / (2 * scale)"
proof -
  have "\<bar>of_int (js_round (x * scale)) - x * scale\<bar> \<le> 1/2"
    by (rule js_round_error)
  then have "\<bar>of_int (js_round (x * scale)) - x * scale\<bar> / scale \<le> (1/2) / scale"
    using assms by (intro divide_right_mono) auto
  moreover have "round_dec scale x - x = (of_int (js_round (x * scale)) - x * scale) / scale"
    using assms by (simp add: round_dec_def diff_divide_distrib)
  ultimately show ?thesis
    using assms by (simp add: mult.commute)
qed

lemma round_dec_nonneg: "0 < scale \<Longrightarrow> 0 \<le> x \<Longrightarrow> 0 \<le> round_dec scale x"
  unfolding round_dec_def js_round_def by simp

lemma round_dec_mono: "0 < scale \<Longrightarrow> x \<le> y \<Longrightarrow> round_dec scale x \<le> round_dec scale y"
  unfolding round_dec_def by (simp add: divide_right_mono js_round_mono)

text \<open>\<open>xs.slice(a, b)\<close>: negative bounds count from the end, both are clamped.\<close>

definition slice_index :: "nat \<Rightarrow> int \<Rightarrow> nat" where
  "slice_index n i = (if i < 0 then nat (max 0 (int n + i)) else min n (nat i))"

definition js_slice :: "int \<Rightarrow> int \<Rightarrow> 'a list \<Rightarrow> 'a list" where
  "js_slice a b xs =
     (let i = slice_index (length xs) a; j = slice_index (length xs) b
      in take (j - i) (drop i xs))"

lemma js_slice_nonneg:
  assumes "0 \<le> a" "0 \<le> b"
  shows "js_slice a b xs = take (nat b - nat a) (drop (nat a) xs)"
  using assms by (auto simp: js_slice_def slice_index_def Let_def min_def take_all)

lemma set_js_slice: "set (js_slice a b xs) \<subseteq> set xs"
  unfolding js_slice_def Let_def using set_take_subset set_drop_subset by fast

text \<open>
  \<open>xs.sort((a, b) => k(b) - k(a))\<close> and its ascending form: \<open>Array.sort\<close> is
  stable, so it is the stable sort by the key.
\<close>

definition sort_asc :: "('a \<Rightarrow> 'k::linorder) \<Rightarrow> 'a list \<Rightarrow> 'a list" where
  "sort_asc k xs = sort_key k xs"

definition sort_desc :: "('a \<Rightarrow> 'k::linordered_ab_group_add) \<Rightarrow> 'a list \<Rightarrow> 'a list" where
  "sort_desc k xs = sort_key (\<lambda>x. - k x) xs"

lemma set_sort_desc [simp]: "set (sort_desc k xs) = set xs"
  by (simp add: sort_desc_def)

lemma length_sort_desc [simp]: "length (sort_desc k xs) = length xs"
  by (simp add: sort_desc_def)

lemma sorted_sort_desc: "sorted_wrt (\<lambda>a b. k b \<le> k a) (sort_desc k xs)"
proof -
  have "sorted (map (\<lambda>x. - k x) (sort_desc k xs))"
    by (simp add: sort_desc_def)
  then show ?thesis by (simp add: sorted_map sorted_wrt_mono_rel)
qed

text \<open>\<open>n.toString()\<close> of an integer.\<close>

definition digit_char :: "nat \<Rightarrow> char" where
  "digit_char d = char_of (48 + d)"

fun show_nat :: "nat \<Rightarrow> string" where
  "show_nat n = (if n < 10 then [digit_char n] else show_nat (n div 10) @ [digit_char (n mod 10)])"

declare show_nat.simps [simp del]

definition show_int :: "int \<Rightarrow> string" where
  "show_int i = (if i < 0 then CHR ''-'' # show_nat (nat (- i)) else show_nat (nat i))"

text \<open>The text of any number; \<open>num_text\<close> gives that of one that is not an integer.\<close>

definition show_num :: "(rat \<Rightarrow> string) \<Rightarrow> rat \<Rightarrow> string" where
  "show_num num_text x = (if of_int \<lfloor>x\<rfloor> = x then show_int \<lfloor>x\<rfloor> else num_text x)"

text \<open>\<open>xs.filter((x): x is T => x !== null)\<close>, and \<open>xs\<close> cut into pieces of \<open>n\<close>.\<close>

fun somes :: "'a option list \<Rightarrow> 'a list" where
  "somes [] = []"
| "somes (None # xs) = somes xs"
| "somes (Some x # xs) = x # somes xs"

lemma set_somes [simp]: "x \<in> set (somes xs) \<longleftrightarrow> Some x \<in> set xs"
  by (induction xs rule: somes.induct) auto

lemma somes_append: "somes (xs @ ys) = somes xs @ somes ys"
  by (induction xs rule: somes.induct) auto

lemma distinct_map_somes:
  assumes "distinct is" and "\<And>i x. i \<in> set is \<Longrightarrow> f i = Some x \<Longrightarrow> g x = i"
  shows "distinct (map g (somes (map f is)))"
  using assms
proof (induction "is")
  case (Cons i "is")
  then show ?case by (cases "f i") (auto, metis)
qed simp

lemma somes_map_Some [simp]: "somes (map (\<lambda>x. Some (f x)) xs) = map f xs"
  by (induction xs) auto

function batches :: "nat \<Rightarrow> 'a list \<Rightarrow> 'a list list" where
  "batches n xs = (if n = 0 \<or> xs = [] then [] else take n xs # batches n (drop n xs))"
  by pat_completeness auto
termination
  by (relation "measure (\<lambda>(n, xs). length xs)") auto

declare batches.simps [simp del]

lemma concat_batches: "0 < n \<Longrightarrow> concat (batches n xs) = xs"
proof (induction n xs rule: batches.induct)
  case (1 n xs)
  then show ?case by (subst batches.simps) auto
qed

lemma batch_length: "ys \<in> set (batches n xs) \<Longrightarrow> length ys \<le> n"
proof (induction n xs rule: batches.induct)
  case (1 n xs)
  then show ?case by (subst (asm) (2) batches.simps) (auto split: if_splits)
qed

text \<open>\<open>xs.find(p)\<close>\<close>

lemma find_Some_set: "List.find p xs = Some x \<Longrightarrow> x \<in> set xs \<and> p x"
  by (auto simp: find_Some_iff)

lemma find_None_set: "List.find p xs = None \<longleftrightarrow> (\<forall>x\<in>set xs. \<not> p x)"
  by (auto simp: find_None_iff)

section \<open>Dates and numbers in text\<close>

text \<open>
  \<open>new Date(ms).toISOString().split('T')[0]\<close>: the day of a time stamp in the
  proleptic Gregorian calendar, counted in 400-year eras of 146097 days that
  start on the first of March, for the years 0 to 9999.
\<close>

definition ms_per_day :: int where
  "ms_per_day = 86400000"

definition civil_of_days :: "int \<Rightarrow> int \<times> int \<times> int" where
  "civil_of_days z0 =
     (let z = z0 + 719468;
          era = z div 146097;
          doe = z mod 146097;
          yoe = (doe - doe div 1460 + doe div 36524 - doe div 146096) div 365;
          doy = doe - (365 * yoe + yoe div 4 - yoe div 100);
          mp = (5 * doy + 2) div 153;
          d = doy - (153 * mp + 2) div 5 + 1;
          m = (if mp < 10 then mp + 3 else mp - 9)
      in (yoe + era * 400 + (if m \<le> 2 then 1 else 0), m, d))"

fun pad :: "nat \<Rightarrow> string \<Rightarrow> string" where
  "pad n s = replicate (n - length s) (CHR ''0'') @ s"

definition iso_date :: "int \<Rightarrow> string" where
  "iso_date ms = (case civil_of_days (ms div ms_per_day) of (y, m, d) \<Rightarrow>
     pad 4 (show_int y) @ ''-'' @ pad 2 (show_int m) @ ''-'' @ pad 2 (show_int d))"

text \<open>\<open>parseFloat(s)\<close>: the longest decimal literal at the start, \<open>None\<close> for NaN.\<close>

definition is_digit :: "char \<Rightarrow> bool" where
  "is_digit c \<longleftrightarrow> (48::nat) \<le> of_char c \<and> of_char c \<le> (57::nat)"

definition digits_value :: "string \<Rightarrow> nat" where
  "digits_value s = foldl (\<lambda>n c. 10 * n + (of_char c - 48)) 0 s"

definition js_space :: "char \<Rightarrow> bool" where
  "js_space c \<longleftrightarrow> of_char c \<in> {9, 10, 11, 12, 13, 32 :: nat}"

fun split_sign :: "string \<Rightarrow> int \<times> string" where
  "split_sign (c # s) = (if c = CHR ''-'' then (-1, s) else if c = CHR ''+'' then (1, s) else (1, c # s))"
| "split_sign [] = (1, [])"

definition exponent_of :: "string \<Rightarrow> int" where
  "exponent_of s = (case s of
       c # r \<Rightarrow> if c = CHR ''e'' \<or> c = CHR ''E''
         then (case split_sign r of (sg, t) \<Rightarrow> sg * int (digits_value (takeWhile is_digit t)))
         else 0
     | [] \<Rightarrow> 0)"

definition parseFloat :: "string \<Rightarrow> rat option" where
  "parseFloat s0 = (case split_sign (dropWhile js_space s0) of (sg, s) \<Rightarrow>
     (let ip = takeWhile is_digit s;
          r = dropWhile is_digit s;
          fp = (case r of c # t \<Rightarrow> if c = CHR ''.'' then takeWhile is_digit t else [] | [] \<Rightarrow> []);
          e = (case r of c # t \<Rightarrow> if c = CHR ''.'' then dropWhile is_digit t else r | [] \<Rightarrow> [])
      in if ip = [] \<and> fp = [] then None
         else Some (of_int sg * of_nat (digits_value (ip @ fp)) / 10 ^ length fp
                    * (let x = exponent_of e in if 0 \<le> x then 10 ^ nat x else 1 / 10 ^ nat (- x)))))"

section \<open>Insertion-ordered maps\<close>

text \<open>
  A JavaScript \<open>Map\<close> is an association list: \<open>Map.set\<close> of a new key appends
  it, of an old key keeps its place (\<open>AList.update\<close>), \<open>Map.delete\<close> removes it
  (\<open>AList.delete\<close>), \<open>Map.get\<close> is \<open>map_of\<close>, iteration follows the list.
\<close>

type_synonym ('k, 'v) jsmap = "('k \<times> 'v) list"

abbreviation (input) map_get :: "('k, 'v) jsmap \<Rightarrow> 'k \<Rightarrow> 'v option" where
  "map_get m k \<equiv> map_of m k"

abbreviation (input) map_has :: "('k, 'v) jsmap \<Rightarrow> 'k \<Rightarrow> bool" where
  "map_has m k \<equiv> map_of m k \<noteq> None"

abbreviation (input) map_set :: "'k \<Rightarrow> 'v \<Rightarrow> ('k, 'v) jsmap \<Rightarrow> ('k, 'v) jsmap" where
  "map_set \<equiv> AList.update"

abbreviation (input) map_delete :: "'k \<Rightarrow> ('k, 'v) jsmap \<Rightarrow> ('k, 'v) jsmap" where
  "map_delete \<equiv> AList.delete"

definition keys_of :: "('k, 'v) jsmap \<Rightarrow> 'k list" where
  "keys_of m = map fst m"

definition is_jsmap :: "('k, 'v) jsmap \<Rightarrow> bool" where
  "is_jsmap m \<longleftrightarrow> distinct (map fst m)"

lemma is_jsmap_Nil [simp, intro]: "is_jsmap []"
  by (simp add: is_jsmap_def)

lemma is_jsmap_update [simp, intro]: "is_jsmap m \<Longrightarrow> is_jsmap (AList.update k v m)"
  by (simp add: is_jsmap_def distinct_update)

lemma is_jsmap_delete [simp, intro]: "is_jsmap m \<Longrightarrow> is_jsmap (AList.delete k m)"
  by (simp add: is_jsmap_def distinct_delete)

lemma map_of_update [simp]: "map_of (AList.update k v m) = (map_of m)(k \<mapsto> v)"
  by (rule update_conv')

lemma map_of_delete [simp]: "map_of (AList.delete k m) = (map_of m)(k := None)"
  by (rule delete_conv')

text \<open>How many entries satisfy a test, after an entry is set or deleted.\<close>

definition count_entries :: "('k \<Rightarrow> 'v \<Rightarrow> bool) \<Rightarrow> ('k, 'v) jsmap \<Rightarrow> nat" where
  "count_entries p m = length (filter (\<lambda>(k, v). p k v) m)"

lemma count_entries_update_new:
  "map_of m k = None \<Longrightarrow>
     count_entries p (AList.update k v m) = count_entries p m + (if p k v then 1 else 0)"
  by (induction m) (auto simp: count_entries_def split: if_splits)

lemma delete_absent: "map_of m k = None \<Longrightarrow> AList.delete k m = m"
  by (induction m) (auto simp: AList.delete_eq split: if_splits)

lemma count_entries_delete:
  "is_jsmap m \<Longrightarrow> map_of m k = Some v \<Longrightarrow>
     count_entries p m = count_entries p (AList.delete k m) + (if p k v then 1 else 0)"
proof (induction m)
  case Nil
  then show ?case by simp
next
  case (Cons e m)
  show ?case
  proof (cases "fst e = k")
    case True
    with Cons.prems have "map_of m k = None"
      by (cases e) (auto simp: is_jsmap_def map_of_eq_None_iff)
    with True Cons.prems show ?thesis
      by (cases e) (auto simp: count_entries_def delete_absent)
  next
    case False
    with Cons show ?thesis
      by (cases e) (auto simp: count_entries_def is_jsmap_def)
  qed
qed

lemma count_entries_pos: "map_of m k = Some v \<Longrightarrow> p k v \<Longrightarrow> 0 < count_entries p m"
  by (auto simp: count_entries_def filter_empty_conv dest!: map_of_SomeD)

end
