(* ===== verification/DbTypes.thy ===== *)
theory DbTypes
  imports Prelude
begin

text \<open>
  The data of the server, from \<open>src/db/types.ts\<close>: one record per interface
  (fields in the source's order, with a prefix that names the interface),
  one datatype per enum with the string the code stores for it, the key
  prefixes of \<open>REDIS_KEYS\<close>, and the values a Redis string key holds.

  A field \<open>x?: T\<close> is an \<open>option\<close>. \<open>ClientStruct\<close> and \<open>JobStruct\<close> also have
  the fields that \<open>markJobAsFailed\<close> writes through an \<open>any\<close> object.
\<close>

section \<open>Enums\<close>

datatype JobState = PENDING | ONGOING | COMPLETED | FAILED

primrec job_state :: "JobState \<Rightarrow> string" where
  "job_state PENDING = ''pending''"
| "job_state ONGOING = ''ongoing''"
| "job_state COMPLETED = ''completed''"
| "job_state FAILED = ''failed''"

datatype ClientState = WORKING | NOT_WORKING | DISCONNECTED

primrec client_state :: "ClientState \<Rightarrow> string" where
  "client_state WORKING = ''working''"
| "client_state NOT_WORKING = ''notWorking''"
| "client_state DISCONNECTED = ''disconnected''"

datatype ClientStatus = ACTIVE | INACTIVE | SUSPENDED

primrec client_status :: "ClientStatus \<Rightarrow> string" where
  "client_status ACTIVE = ''Active''"
| "client_status INACTIVE = ''Inactive''"
| "client_status SUSPENDED = ''Suspended''"

datatype ReferralRewardType = INSTALLATION | UPTIME | TASK

datatype Installation24hStatus = H24_PENDING | H24_COMPLETED | H24_FAILED

datatype DistributionCycle = IMMEDIATE | DAILY | WEEKLY | MONTHLY | MANUAL

datatype RewardStatus = RW_PENDING | RW_DISTRIBUTED | RW_FAILED | RW_CAPPED

datatype TxStatus = TX_PENDING | TX_CONFIRMED | TX_FAILED

datatype SessionStatus = SES_ACTIVE | SES_COMPLETED | SES_FORCE_CLOSED

datatype DistStatus = DIST_PENDING | DIST_IN_PROGRESS | DIST_COMPLETED | DIST_FAILED | DIST_SKIPPED

lemma job_state_inject [simp]: "job_state a = job_state b \<longleftrightarrow> a = b"
  by (cases a; cases b) simp_all

lemma job_state_truthy [simp]: "truthy (job_state a)"
  by (cases a) (simp_all add: truthy_def)

lemma client_status_inject [simp]: "client_status a = client_status b \<longleftrightarrow> a = b"
  by (cases a; cases b) simp_all

lemma client_status_truthy [simp]: "truthy (client_status a)"
  by (cases a) (simp_all add: truthy_def)

section \<open>Clients and jobs\<close>

record ClientStruct =
  c_user_principal_id :: string
  c_client_id :: string
  c_activeJobs :: "string list"
  c_maxConcurrentJobs :: int
  c_downloadSpeed :: rat
  c_ping :: rat
  c_wsConnect :: int
  c_wsDisconnect :: int
  c_todaysEarnings :: rat
  c_balance :: rat
  c_referralCode :: string
  c_totalReferral :: int
  c_clientStatus :: string
  c_pingTimestamp :: int
  c_totalUptime :: int
  c_dailyUptime :: int
  c_uptimeReward :: rat
  c_jobID :: "string option"
  c_jobStatus :: "string option"
  c_jobEndTime :: "int option"

record JobStruct =
  j_jobID :: string
  j_clientUUID :: string
  j_storedID :: string
  j_jobType :: string
  j_target :: string
  j_state :: string
  j_user_principal_id :: string
  j_assignedAt :: int
  j_completeAt :: int
  j_reward :: rat
  j_job_views :: int
  j_job_downloads :: int
  j_price :: "rat option"
  j_objectsCount :: "int option"
  j_fileSizeKB :: "int option"
  j_dataAnalysis :: "(int \<times> string list) option"
  j_error :: "string option"

text \<open>
  \<open>Partial<ClientStruct>\<close> and \<open>Partial<JobStruct>\<close>: the entries of an update
  object, and \<open>{ ...old, ...updates }\<close>.
\<close>

datatype client_field =
    Client_id string | ActiveJobs "string list" | MaxConcurrentJobs int
  | DownloadSpeed rat | Ping rat | WsConnect int | WsDisconnect int
  | TodaysEarnings rat | Balance rat | ReferralCode string | TotalReferral int
  | Client_status string | PingTimestamp int | TotalUptime int | DailyUptime int
  | UptimeReward rat | LegacyJobID string | LegacyJobStatus string | LegacyJobEndTime int

primrec set_client_field :: "client_field \<Rightarrow> ClientStruct \<Rightarrow> ClientStruct" where
  "set_client_field (Client_id x) c = c\<lparr>c_client_id := x\<rparr>"
| "set_client_field (ActiveJobs x) c = c\<lparr>c_activeJobs := x\<rparr>"
| "set_client_field (MaxConcurrentJobs x) c = c\<lparr>c_maxConcurrentJobs := x\<rparr>"
| "set_client_field (DownloadSpeed x) c = c\<lparr>c_downloadSpeed := x\<rparr>"
| "set_client_field (Ping x) c = c\<lparr>c_ping := x\<rparr>"
| "set_client_field (WsConnect x) c = c\<lparr>c_wsConnect := x\<rparr>"
| "set_client_field (WsDisconnect x) c = c\<lparr>c_wsDisconnect := x\<rparr>"
| "set_client_field (TodaysEarnings x) c = c\<lparr>c_todaysEarnings := x\<rparr>"
| "set_client_field (Balance x) c = c\<lparr>c_balance := x\<rparr>"
| "set_client_field (ReferralCode x) c = c\<lparr>c_referralCode := x\<rparr>"
| "set_client_field (TotalReferral x) c = c\<lparr>c_totalReferral := x\<rparr>"
| "set_client_field (Client_status x) c = c\<lparr>c_clientStatus := x\<rparr>"
| "set_client_field (PingTimestamp x) c = c\<lparr>c_pingTimestamp := x\<rparr>"
| "set_client_field (TotalUptime x) c = c\<lparr>c_totalUptime := x\<rparr>"
| "set_client_field (DailyUptime x) c = c\<lparr>c_dailyUptime := x\<rparr>"
| "set_client_field (UptimeReward x) c = c\<lparr>c_uptimeReward := x\<rparr>"
| "set_client_field (LegacyJobID x) c = c\<lparr>c_jobID := Some x\<rparr>"
| "set_client_field (LegacyJobStatus x) c = c\<lparr>c_jobStatus := Some x\<rparr>"
| "set_client_field (LegacyJobEndTime x) c = c\<lparr>c_jobEndTime := Some x\<rparr>"

definition spread_client :: "client_field list \<Rightarrow> ClientStruct \<Rightarrow> ClientStruct" where
  "spread_client us c = foldl (\<lambda>c u. set_client_field u c) c us"

text \<open>\<open>updates.clientStatus\<close>\<close>

fun status_of :: "client_field list \<Rightarrow> string option" where
  "status_of [] = None"
| "status_of (u # us) =
     (case status_of us of
        Some s \<Rightarrow> Some s
      | None \<Rightarrow> (case u of Client_status s \<Rightarrow> Some s | _ \<Rightarrow> None))"

datatype job_field =
    StoredID string | State string | JobUser string | AssignedAt int | CompleteAt int
  | Reward rat | Price rat | ObjectsCount int | FileSizeKB int
  | DataAnalysis "int \<times> string list" | JobError string

primrec set_job_field :: "job_field \<Rightarrow> JobStruct \<Rightarrow> JobStruct" where
  "set_job_field (StoredID x) j = j\<lparr>j_storedID := x\<rparr>"
| "set_job_field (State x) j = j\<lparr>j_state := x\<rparr>"
| "set_job_field (JobUser x) j = j\<lparr>j_user_principal_id := x\<rparr>"
| "set_job_field (AssignedAt x) j = j\<lparr>j_assignedAt := x\<rparr>"
| "set_job_field (CompleteAt x) j = j\<lparr>j_completeAt := x\<rparr>"
| "set_job_field (Reward x) j = j\<lparr>j_reward := x\<rparr>"
| "set_job_field (Price x) j = j\<lparr>j_price := Some x\<rparr>"
| "set_job_field (ObjectsCount x) j = j\<lparr>j_objectsCount := Some x\<rparr>"
| "set_job_field (FileSizeKB x) j = j\<lparr>j_fileSizeKB := Some x\<rparr>"
| "set_job_field (DataAnalysis x) j = j\<lparr>j_dataAnalysis := Some x\<rparr>"
| "set_job_field (JobError x) j = j\<lparr>j_error := Some x\<rparr>"

definition spread_job :: "job_field list \<Rightarrow> JobStruct \<Rightarrow> JobStruct" where
  "spread_job us j = foldl (\<lambda>j u. set_job_field u j) j us"

text \<open>\<open>updates.state\<close> and \<open>updates.user_principal_id\<close>\<close>

fun job_state_of :: "job_field list \<Rightarrow> string option" where
  "job_state_of [] = None"
| "job_state_of (u # us) =
     (case job_state_of us of
        Some s \<Rightarrow> Some s
      | None \<Rightarrow> (case u of State s \<Rightarrow> Some s | _ \<Rightarrow> None))"

fun job_user_of :: "job_field list \<Rightarrow> string option" where
  "job_user_of [] = None"
| "job_user_of (u # us) =
     (case job_user_of us of
        Some s \<Rightarrow> Some s
      | None \<Rightarrow> (case u of JobUser s \<Rightarrow> Some s | _ \<Rightarrow> None))"

lemma spread_client_Nil [simp]: "spread_client [] c = c"
  by (simp add: spread_client_def)

lemma spread_client_Cons [simp]: "spread_client (u # us) c = spread_client us (set_client_field u c)"
  by (simp add: spread_client_def)

lemma spread_client_append: "spread_client (us @ vs) c = spread_client vs (spread_client us c)"
  by (simp add: spread_client_def)

lemma set_client_field_user [simp]: "c_user_principal_id (set_client_field u c) = c_user_principal_id c"
  by (cases u) simp_all

lemma spread_client_user [simp]: "c_user_principal_id (spread_client us c) = c_user_principal_id c"
  by (induction us arbitrary: c) simp_all

lemma set_client_field_status:
  "c_clientStatus (set_client_field u c) =
     (case u of Client_status s \<Rightarrow> s | _ \<Rightarrow> c_clientStatus c)"
  by (cases u) simp_all

lemma spread_client_status:
  "c_clientStatus (spread_client us c) =
     (case status_of us of Some s \<Rightarrow> s | None \<Rightarrow> c_clientStatus c)"
  by (induction us arbitrary: c)
     (auto simp: set_client_field_status split: option.splits client_field.splits)

lemma spread_job_Nil [simp]: "spread_job [] j = j"
  by (simp add: spread_job_def)

lemma spread_job_Cons [simp]: "spread_job (u # us) j = spread_job us (set_job_field u j)"
  by (simp add: spread_job_def)

lemma set_job_field_id [simp]:
  "j_jobID (set_job_field u j) = j_jobID j" "j_clientUUID (set_job_field u j) = j_clientUUID j"
  by (cases u; simp)+

lemma spread_job_id [simp]:
  "j_jobID (spread_job us j) = j_jobID j" "j_clientUUID (spread_job us j) = j_clientUUID j"
  by (induction us arbitrary: j) simp_all

lemma set_job_field_state:
  "j_state (set_job_field u j) = (case u of State s \<Rightarrow> s | _ \<Rightarrow> j_state j)"
  by (cases u) simp_all

lemma set_job_field_userid:
  "j_user_principal_id (set_job_field u j) = (case u of JobUser s \<Rightarrow> s | _ \<Rightarrow> j_user_principal_id j)"
  by (cases u) simp_all

lemma spread_job_state:
  "j_state (spread_job us j) = (case job_state_of us of Some s \<Rightarrow> s | None \<Rightarrow> j_state j)"
  by (induction us arbitrary: j)
     (auto simp: set_job_field_state split: option.splits job_field.splits)

lemma spread_job_user:
  "j_user_principal_id (spread_job us j) =
     (case job_user_of us of Some s \<Rightarrow> s | None \<Rightarrow> j_user_principal_id j)"
  by (induction us arbitrary: j)
     (auto simp: set_job_field_userid split: option.splits job_field.splits)

end
