(* ===== verification/DbRecords.thy ===== *)
theory DbRecords
  imports DbTypes
begin

text \<open>
  The records of the session, API key, uptime, reward, referral and file parts of
  \<open>src/db/types.ts\<close>, and \<open>rvalue\<close>, the value of a Redis string key: the JSON
  text the code stores for one of these records, modelled by the record
  itself. \<open>JSON.parse\<close> of what \<open>JSON.stringify\<close> wrote gives the record back;
  reading a key that holds another kind of value is modelled as a throw of
  \<open>JSON.parse\<close>, inside the same \<open>try\<close>.
\<close>

record SessionData =
  s_sessionId :: string
  s_user_principal_id :: string
  s_client_id :: string
  s_startTime :: int
  s_endTime :: "int option"
  s_duration :: "int option"
  s_isActive :: bool

record APIKeyData =
  k_apiKey :: string
  k_usageCount :: int
  k_usageLimit :: int
  k_usageLog :: "int list"

record UptimeStats =
  us_totalUptime :: rat
  us_todayUptime :: rat
  us_isCurrentlyOnline :: bool
  us_currentSessionDuration :: int

record UptimeSession =
  t_session_id :: string
  t_user_principal_id :: string
  t_start_time :: int
  t_last_activity_time :: int
  t_end_time :: "int option"
  t_duration_minutes :: rat
  t_avg_speed :: rat
  t_avg_ping :: rat
  t_speed_samples :: "(int \<times> rat) list"
  t_ping_samples :: "(int \<times> rat) list"
  t_status :: SessionStatus
  t_close_reason :: "string option"

record DailyUptimeRecord =
  d_date :: string
  d_user_principal_id :: string
  d_total_minutes :: rat
  d_processed_minutes :: rat
  d_session_count :: int
  d_avg_speed :: rat
  d_avg_ping :: rat
  d_tier_level :: int
  d_base_reward :: rat
  d_bonus_reward :: rat
  d_total_reward :: rat
  d_last_updated :: int
  d_is_processed :: bool

record WeeklyUptimeRecord =
  w_week_start :: string
  w_user_principal_id :: string
  w_total_minutes :: rat
  w_days_active :: int
  w_total_reward :: rat
  w_avg_daily_uptime :: rat
  w_last_updated :: int

record RewardDistributionStatus =
  ds_distribution_id :: string
  ds_distribution_date :: string
  ds_status :: DistStatus
  ds_total_users :: int
  ds_total_rewards_distributed :: rat
  ds_started_at :: int
  ds_completed_at :: "int option"
  ds_error_details :: "string option"
  ds_skip_reason :: "string option"
  ds_retry_count :: int
  ds_max_retries :: int

record RewardTransaction =
  tx_transaction_id :: string
  tx_distribution_id :: string
  tx_user_principal_id :: string
  tx_amount :: rat
  tx_base_amount :: rat
  tx_bonus_amount :: rat
  tx_uptime_minutes :: rat
  tx_tier_level :: int
  tx_tier_bonus_rate :: rat
  tx_date :: string
  tx_timestamp :: int
  tx_blockchain_tx_hash :: "string option"
  tx_status :: TxStatus
  tx_retry_count :: int

record ReferralRelationship =
  r_user_principal_id :: string
  r_referrer_chain :: "string list"
  r_referral_code_used :: string
  r_signup_timestamp :: int
  r_referrer_l1_principal_id :: "string option"
  r_referrer_l2_principal_id :: "string option"
  r_first_24h_status :: Installation24hStatus
  r_first_24h_started_at :: int
  r_first_24h_completed_at :: "int option"
  r_installation_reward_claimed :: bool
  r_created_at :: int
  r_updated_at :: int

record ReferralReward =
  rw_reward_id :: string
  rw_referrer_principal_id :: string
  rw_referee_principal_id :: string
  rw_reward_type :: ReferralRewardType
  rw_tier :: int
  rw_base_amount :: rat
  rw_reward_percentage :: rat
  rw_reward_amount :: rat
  rw_timestamp :: int
  rw_distribution_date :: string
  rw_distributed_at :: "int option"
  rw_status :: RewardStatus
  rw_job_id :: "string option"
  rw_weekly_uptime_minutes :: "rat option"
  rw_created_at :: int
  rw_updated_at :: int

record ReferralMonthlyCap =
  m_referrer_principal_id :: string
  m_month :: string
  m_uptime_rewards_earned :: rat
  m_uptime_rewards_cap :: rat
  m_cap_reached :: bool
  m_cap_reached_at :: "int option"
  m_total_l1_uptime_rewards :: rat
  m_total_l2_uptime_rewards :: rat
  m_created_at :: int
  m_updated_at :: int

datatype StorageStrategy = STORE_LOCAL | STORE_CANISTER | STORE_DUAL

datatype SyncStatus = SYNCING | SYNCED | SYNC_FAILED | SYNC_FAILED_PERMANENTLY

record FileMetadata =
  f_id :: string
  f_name :: string
  f_content_type :: string
  f_size :: int
  f_created_at :: int
  f_updated_at :: int
  f_user_principal_id :: string
  f_job_id :: string
  f_file_path :: string
  f_hash :: "string option"
  f_storage_strategy :: "StorageStrategy option"
  f_local_file_path :: "string option"
  f_canister_file_key :: "string option"
  f_sync_status :: "SyncStatus option"

datatype rvalue =
    VClient ClientStruct | VJob JobStruct | VSession SessionData | VAPIKey APIKeyData
  | VPurchase string string int | VUptime UptimeSession | VDaily DailyUptimeRecord
  | VWeekly WeeklyUptimeRecord | VDist RewardDistributionStatus | VTx RewardTransaction
  | VRel ReferralRelationship | VReward ReferralReward | VCap ReferralMonthlyCap
  | VFile FileMetadata | VGateway string string int | VStr string

text \<open>\<open>JSON.parse(data)\<close> at the type the code declares for the result.\<close>

definition parse_error :: string where
  "parse_error = ''SyntaxError''"

definition parse_as :: "(rvalue \<Rightarrow> 'a option) \<Rightarrow> rvalue \<Rightarrow> ('w, 'a) act" where
  "parse_as p v = (case p v of Some a \<Rightarrow> returnA a | None \<Rightarrow> throwA parse_error)"

fun as_client :: "rvalue \<Rightarrow> ClientStruct option" where
  "as_client (VClient c) = Some c" | "as_client _ = None"

fun as_job :: "rvalue \<Rightarrow> JobStruct option" where
  "as_job (VJob c) = Some c" | "as_job _ = None"

fun as_session :: "rvalue \<Rightarrow> SessionData option" where
  "as_session (VSession c) = Some c" | "as_session _ = None"

fun as_apikey :: "rvalue \<Rightarrow> APIKeyData option" where
  "as_apikey (VAPIKey c) = Some c" | "as_apikey _ = None"

fun as_uptime :: "rvalue \<Rightarrow> UptimeSession option" where
  "as_uptime (VUptime c) = Some c" | "as_uptime _ = None"

fun as_daily :: "rvalue \<Rightarrow> DailyUptimeRecord option" where
  "as_daily (VDaily c) = Some c" | "as_daily _ = None"

fun as_weekly :: "rvalue \<Rightarrow> WeeklyUptimeRecord option" where
  "as_weekly (VWeekly c) = Some c" | "as_weekly _ = None"

fun as_tx :: "rvalue \<Rightarrow> RewardTransaction option" where
  "as_tx (VTx c) = Some c" | "as_tx _ = None"

fun as_rel :: "rvalue \<Rightarrow> ReferralRelationship option" where
  "as_rel (VRel c) = Some c" | "as_rel _ = None"

fun as_reward :: "rvalue \<Rightarrow> ReferralReward option" where
  "as_reward (VReward c) = Some c" | "as_reward _ = None"

fun as_cap :: "rvalue \<Rightarrow> ReferralMonthlyCap option" where
  "as_cap (VCap c) = Some c" | "as_cap _ = None"

fun as_file :: "rvalue \<Rightarrow> FileMetadata option" where
  "as_file (VFile f) = Some f" | "as_file _ = None"

fun as_str :: "rvalue \<Rightarrow> string option" where
  "as_str (VStr s) = Some s" | "as_str _ = None"

text \<open>\<open>if (!data)\<close> on what \<open>GET\<close> returned: \<open>null\<close> and the empty string are false.\<close>

fun present :: "rvalue option \<Rightarrow> rvalue option" where
  "present (Some (VStr [])) = None"
| "present x = x"

lemma present_None [simp]: "present x = None \<longleftrightarrow> x = None \<or> x = Some (VStr [])"
  by (cases x rule: present.cases) auto

lemma parse_as_apply [act_simps]:
  "parse_as p v w = (case p v of Some a \<Rightarrow> (Inr a, w) | None \<Rightarrow> (Inl parse_error, w))"
  by (simp add: parse_as_def act_simps split: option.split)

lemma parse_as_preserves [intro]: "preserves P (parse_as p v)"
  unfolding parse_as_def by (auto split: option.split)

section \<open>Keys\<close>

text \<open>The prefixes of \<open>REDIS_KEYS\<close>, each with the suffix a key has.\<close>

definition CLIENT_PREFIX :: string where [key_simps]: "CLIENT_PREFIX = ''client:''"
definition CLIENT :: "string \<Rightarrow> string" where [key_simps]: "CLIENT u = ''client:'' @ u"
definition JOB_PREFIX :: string where [key_simps]: "JOB_PREFIX = ''job:''"
definition JOB :: "string \<Rightarrow> string" where [key_simps]: "JOB u = ''job:'' @ u"
definition SESSION :: "string \<Rightarrow> string" where [key_simps]: "SESSION u = ''session:'' @ u"
definition API_KEY :: "string \<Rightarrow> string" where [key_simps]: "API_KEY u = ''apikey:'' @ u"
definition API_LOOKUP :: "string \<Rightarrow> string" where [key_simps]: "API_LOOKUP k = ''api_key_lookup:'' @ k"
definition PURCHASE :: "string \<Rightarrow> string \<Rightarrow> string" where
  [key_simps]: "PURCHASE u j = ''purchase:'' @ u @ '':'' @ j"
definition CLIENTS_BY_STATUS :: "string \<Rightarrow> string" where
  [key_simps]: "CLIENTS_BY_STATUS s = ''index:clients:status:'' @ s"
definition JOBS_BY_STATE :: "string \<Rightarrow> string" where
  [key_simps]: "JOBS_BY_STATE s = ''index:jobs:state:'' @ s"
definition JOBS_BY_USER :: "string \<Rightarrow> string" where
  [key_simps]: "JOBS_BY_USER u = ''index:jobs:user:'' @ u"
definition SESSIONS_BY_USER :: "string \<Rightarrow> string" where
  [key_simps]: "SESSIONS_BY_USER u = ''index:sessions:user:'' @ u"
definition PURCHASES_BY_USER :: "string \<Rightarrow> string" where
  [key_simps]: "PURCHASES_BY_USER u = ''index:purchases:user:'' @ u"
definition PURCHASES_BY_JOB :: "string \<Rightarrow> string" where
  [key_simps]: "PURCHASES_BY_JOB j = ''index:purchases:job:'' @ j"
definition UPTIME_SESSION :: "string \<Rightarrow> string" where
  [key_simps]: "UPTIME_SESSION s = ''uptime:session:'' @ s"
definition UPTIME_ACTIVE :: "string \<Rightarrow> string" where
  [key_simps]: "UPTIME_ACTIVE u = ''uptime:active:'' @ u"
definition UPTIME_DAILY_PREFIX :: string where [key_simps]: "UPTIME_DAILY_PREFIX = ''uptime:daily:''"
definition UPTIME_DAILY :: "string \<Rightarrow> string \<Rightarrow> string" where
  [key_simps]: "UPTIME_DAILY a b = ''uptime:daily:'' @ a @ '':'' @ b"
definition UPTIME_WEEKLY :: "string \<Rightarrow> string" where
  [key_simps]: "UPTIME_WEEKLY r = ''uptime:weekly:'' @ r"
definition UPTIME_DISTRIBUTION :: "string \<Rightarrow> string" where
  [key_simps]: "UPTIME_DISTRIBUTION d = ''uptime:distribution:'' @ d"
definition UPTIME_TRANSACTION_PREFIX :: string where
  [key_simps]: "UPTIME_TRANSACTION_PREFIX = ''uptime:transaction:''"
definition UPTIME_TRANSACTION :: "string \<Rightarrow> string" where
  [key_simps]: "UPTIME_TRANSACTION t = ''uptime:transaction:'' @ t"
definition UPTIME_USER_INDEX :: "string \<Rightarrow> string" where
  [key_simps]: "UPTIME_USER_INDEX u = ''uptime:index:user:'' @ u"
definition UPTIME_DATE_INDEX :: "string \<Rightarrow> string" where
  [key_simps]: "UPTIME_DATE_INDEX d = ''uptime:index:date:'' @ d"
definition RELATIONSHIP_PREFIX :: string where
  [key_simps]: "RELATIONSHIP_PREFIX = ''referral:relationship:''"
definition RELATIONSHIP :: "string \<Rightarrow> string" where
  [key_simps]: "RELATIONSHIP u = ''referral:relationship:'' @ u"
definition CODE_LOOKUP :: "string \<Rightarrow> string" where
  [key_simps]: "CODE_LOOKUP c = ''referral:code:'' @ c"
definition REFERRAL_REWARD :: "string \<Rightarrow> string" where
  [key_simps]: "REFERRAL_REWARD r = ''referral:reward:'' @ r"
definition MONTHLY_CAP_PREFIX :: string where [key_simps]: "MONTHLY_CAP_PREFIX = ''referral:cap:''"
definition MONTHLY_CAP :: "string \<Rightarrow> string \<Rightarrow> string" where
  [key_simps]: "MONTHLY_CAP u m = ''referral:cap:'' @ u @ '':'' @ m"
definition USER_L1_REFERRALS :: "string \<Rightarrow> string" where
  [key_simps]: "USER_L1_REFERRALS u = ''referral:index:user:l1:'' @ u"
definition USER_L2_REFERRALS :: "string \<Rightarrow> string" where
  [key_simps]: "USER_L2_REFERRALS u = ''referral:index:user:l2:'' @ u"
definition REWARDS_BY_USER :: "string \<Rightarrow> string" where
  [key_simps]: "REWARDS_BY_USER u = ''referral:index:rewards:user:'' @ u"
definition REWARDS_BY_REFEREE :: "string \<Rightarrow> string" where
  [key_simps]: "REWARDS_BY_REFEREE u = ''referral:index:rewards:referee:'' @ u"
definition FILE :: "string \<Rightarrow> string" where [key_simps]: "FILE f = ''file:'' @ f"
definition FILES_BY_USER :: "string \<Rightarrow> string" where
  [key_simps]: "FILES_BY_USER u = ''index:files:user:'' @ u"
definition FILES_BY_JOB :: "string \<Rightarrow> string" where
  [key_simps]: "FILES_BY_JOB j = ''index:files:job:'' @ j"
definition PENDING_24H :: string where [key_simps]: "PENDING_24H = ''referral:index:pending24h''"

end
