(* ===== verification/Redis.thy ===== *)
theory Redis
  imports DbRecords
begin

text \<open>
  The interface of the Redis server, which is not part of the repository. The
  state of the server is an abstract type \<open>'w\<close>; a record \<open>'w redis\<close> of
  operations on it is an argument of every definition that talks to Redis.
  The commands below are the ones the sources issue, in the monad of the
  prelude: each may fail to reach the server or be rejected by it, and then
  throws. \<open>redis_server\<close> states what Redis documents about the effects of the
  commands; \<open>redis_up\<close> adds that every command is accepted and that no other
  connection interferes with a transaction. The last section is an in-memory
  server that satisfies all of it.
\<close>

section \<open>Operations and commands\<close>

datatype queued = QSet string rvalue | QAdd string string | QRem string string

record 'w redis =
  attempt :: "'w \<Rightarrow> string option \<times> 'w"       \<comment> \<open>the error of the next command, if it fails\<close>
  strs :: "'w \<Rightarrow> string \<Rightarrow> rvalue option"      \<comment> \<open>GET\<close>
  put :: "string \<Rightarrow> rvalue \<Rightarrow> 'w \<Rightarrow> 'w"        \<comment> \<open>SET\<close>
  put_ex :: "string \<Rightarrow> rvalue \<Rightarrow> int \<Rightarrow> 'w \<Rightarrow> 'w"  \<comment> \<open>SET with EX, in seconds\<close>
  dele :: "string \<Rightarrow> 'w \<Rightarrow> 'w"                 \<comment> \<open>DEL\<close>
  mems :: "'w \<Rightarrow> string \<Rightarrow> string list"        \<comment> \<open>SMEMBERS, in the server's order\<close>
  addm :: "string \<Rightarrow> string \<Rightarrow> 'w \<Rightarrow> 'w"       \<comment> \<open>SADD\<close>
  remm :: "string \<Rightarrow> string \<Rightarrow> 'w \<Rightarrow> 'w"       \<comment> \<open>SREM\<close>
  allkeys :: "'w \<Rightarrow> string list"              \<comment> \<open>KEYS, in the server's order\<close>
  bump :: "string \<Rightarrow> 'w \<Rightarrow> int \<times> 'w"          \<comment> \<open>INCR\<close>
  watch :: "string \<Rightarrow> 'w \<Rightarrow> 'w"               \<comment> \<open>WATCH\<close>
  unwatch :: "'w \<Rightarrow> 'w"                       \<comment> \<open>UNWATCH\<close>
  commit :: "'w \<Rightarrow> bool \<times> 'w"                 \<comment> \<open>EXEC: are the watched keys untouched?\<close>

definition command :: "'w redis \<Rightarrow> ('w \<Rightarrow> 'a \<times> 'w) \<Rightarrow> ('w, 'a) act" where
  "command M f = (\<lambda>w. case attempt M w of (e, w') \<Rightarrow>
     (case e of Some msg \<Rightarrow> (Inl msg, w') | None \<Rightarrow> (case f w' of (a, w'') \<Rightarrow> (Inr a, w''))))"

definition GET :: "'w redis \<Rightarrow> string \<Rightarrow> ('w, rvalue option) act" where
  "GET M k = command M (\<lambda>w. (strs M w k, w))"

definition SET :: "'w redis \<Rightarrow> string \<Rightarrow> rvalue \<Rightarrow> ('w, unit) act" where
  "SET M k v = command M (\<lambda>w. ((), put M k v w))"

definition SETEX :: "'w redis \<Rightarrow> string \<Rightarrow> rvalue \<Rightarrow> int \<Rightarrow> ('w, unit) act" where
  "SETEX M k v ttl = command M (\<lambda>w. ((), put_ex M k v ttl w))"

definition DEL :: "'w redis \<Rightarrow> string \<Rightarrow> ('w, unit) act" where
  "DEL M k = command M (\<lambda>w. ((), dele M k w))"

definition SMEMBERS :: "'w redis \<Rightarrow> string \<Rightarrow> ('w, string list) act" where
  "SMEMBERS M k = command M (\<lambda>w. (mems M w k, w))"

definition SADD :: "'w redis \<Rightarrow> string \<Rightarrow> string \<Rightarrow> ('w, unit) act" where
  "SADD M k m = command M (\<lambda>w. ((), addm M k m w))"

definition SREM :: "'w redis \<Rightarrow> string \<Rightarrow> string \<Rightarrow> ('w, unit) act" where
  "SREM M k m = command M (\<lambda>w. ((), remm M k m w))"

text \<open>\<open>KEYS prefix*\<close>: the prefixes of the code hold no glob character.\<close>

definition KEYS :: "'w redis \<Rightarrow> string \<Rightarrow> ('w, string list) act" where
  "KEYS M p = command M (\<lambda>w. (filter (prefix p) (allkeys M w), w))"

definition INCR :: "'w redis \<Rightarrow> string \<Rightarrow> ('w, int) act" where
  "INCR M k = command M (bump M k)"

definition WATCH :: "'w redis \<Rightarrow> string \<Rightarrow> ('w, unit) act" where
  "WATCH M k = command M (\<lambda>w. ((), watch M k w))"

definition UNWATCH :: "'w redis \<Rightarrow> ('w, unit) act" where
  "UNWATCH M = command M (\<lambda>w. ((), unwatch M w))"

primrec run_queued :: "'w redis \<Rightarrow> queued \<Rightarrow> 'w \<Rightarrow> 'w" where
  "run_queued M (QSet k v) = put M k v"
| "run_queued M (QAdd k m) = addm M k m"
| "run_queued M (QRem k m) = remm M k m"

text \<open>\<open>multi.exec()\<close>: all queued commands, or none and the answer \<open>null\<close> (here \<open>False\<close>).\<close>

definition EXEC :: "'w redis \<Rightarrow> queued list \<Rightarrow> ('w, bool) act" where
  "EXEC M qs = command M (\<lambda>w. case commit M w of (b, w') \<Rightarrow>
     (b, if b then fold (run_queued M) qs w' else w'))"

section \<open>What Redis documents\<close>

locale redis_server =
  fixes M :: "'w redis"
  assumes strs_put: "strs M (put M k v w) = (strs M w)(k \<mapsto> v)"
    and strs_put_ex: "strs M (put_ex M k v ttl w) = (strs M w)(k \<mapsto> v)"
    and strs_dele: "strs M (dele M k w) = (strs M w)(k := None)"
    and strs_addm: "strs M (addm M k m w) = strs M w"
    and strs_remm: "strs M (remm M k m w) = strs M w"
    and strs_bump: "k' \<noteq> k \<Longrightarrow> strs M (snd (bump M k w)) k' = strs M w k'"
    and strs_watch: "strs M (watch M k w) = strs M w"
    and strs_unwatch: "strs M (unwatch M w) = strs M w"
    and mems_put: "k' \<noteq> k \<Longrightarrow> mems M (put M k v w) k' = mems M w k'"
    and mems_put_ex: "k' \<noteq> k \<Longrightarrow> mems M (put_ex M k v ttl w) k' = mems M w k'"
    and mems_dele: "k' \<noteq> k \<Longrightarrow> mems M (dele M k w) k' = mems M w k'"
    and mems_addm_same: "set (mems M (addm M k m w) k) = insert m (set (mems M w k))"
    and mems_addm_other: "k' \<noteq> k \<Longrightarrow> mems M (addm M k m w) k' = mems M w k'"
    and mems_remm_same: "set (mems M (remm M k m w) k) = set (mems M w k) - {m}"
    and mems_remm_other: "k' \<noteq> k \<Longrightarrow> mems M (remm M k m w) k' = mems M w k'"
    and mems_bump: "k' \<noteq> k \<Longrightarrow> mems M (snd (bump M k w)) k' = mems M w k'"
    and mems_watch: "mems M (watch M k w) = mems M w"
    and mems_unwatch: "mems M (unwatch M w) = mems M w"
    and mems_distinct: "distinct (mems M w k)"
    and keys_set: "set (allkeys M w) = {k. strs M w k \<noteq> None \<or> mems M w k \<noteq> []}"
    and keys_distinct: "distinct (allkeys M w)"
    and committed: "commit M w = (True, w') \<Longrightarrow> strs M w' = strs M w \<and> mems M w' = mems M w"
begin

lemmas strs_laws = strs_put strs_put_ex strs_dele strs_addm strs_remm strs_bump
  strs_watch strs_unwatch

lemmas mems_laws = mems_put mems_put_ex mems_dele mems_addm_same mems_addm_other
  mems_remm_same mems_remm_other mems_bump mems_watch mems_unwatch

lemma addm_iff:
  "x \<in> set (mems M (addm M k m w) k') \<longleftrightarrow> (k' = k \<and> x = m) \<or> x \<in> set (mems M w k')"
  by (cases "k' = k") (auto simp: mems_addm_same mems_addm_other)

lemma remm_iff:
  "x \<in> set (mems M (remm M k m w) k') \<longleftrightarrow> x \<in> set (mems M w k') \<and> \<not> (k' = k \<and> x = m)"
  by (cases "k' = k") (auto simp: mems_remm_same mems_remm_other)

lemma put_member: "k' \<noteq> k \<Longrightarrow> x \<in> set (mems M (put M k v w) k') \<longleftrightarrow> x \<in> set (mems M w k')"
  by (simp add: mems_put)

end

text \<open>
  A server whose commands may fail and whose transactions may abort, but whose
  data no other connection touches in between.
\<close>

locale redis_quiet = redis_server M for M :: "'w redis" +
  assumes attempt_quiet: "attempt M w = (e, w') \<Longrightarrow> strs M w' = strs M w \<and> mems M w' = mems M w"
    and commit_quiet: "commit M w = (b, w') \<Longrightarrow> strs M w' = strs M w \<and> mems M w' = mems M w"

text \<open>A server that takes every command, used by one connection.\<close>

locale redis_up = redis_server M for M :: "'w redis" +
  assumes accepted: "attempt M w = (None, w)"
    and uncontended: "commit M w = (True, w)"
begin

lemma GET_up [simp]: "GET M k w = (Inr (strs M w k), w)"
  by (simp add: GET_def command_def accepted)

lemma SET_up [simp]: "SET M k v w = (Inr (), put M k v w)"
  by (simp add: SET_def command_def accepted)

lemma SETEX_up [simp]: "SETEX M k v ttl w = (Inr (), put_ex M k v ttl w)"
  by (simp add: SETEX_def command_def accepted)

lemma DEL_up [simp]: "DEL M k w = (Inr (), dele M k w)"
  by (simp add: DEL_def command_def accepted)

lemma SMEMBERS_up [simp]: "SMEMBERS M k w = (Inr (mems M w k), w)"
  by (simp add: SMEMBERS_def command_def accepted)

lemma SADD_up [simp]: "SADD M k m w = (Inr (), addm M k m w)"
  by (simp add: SADD_def command_def accepted)

lemma SREM_up [simp]: "SREM M k m w = (Inr (), remm M k m w)"
  by (simp add: SREM_def command_def accepted)

lemma KEYS_up [simp]: "KEYS M p w = (Inr (filter (prefix p) (allkeys M w)), w)"
  by (simp add: KEYS_def command_def accepted)

lemma INCR_up [simp]: "INCR M k w = (Inr (fst (bump M k w)), snd (bump M k w))"
  by (simp add: INCR_def command_def accepted split: prod.split)

lemma WATCH_up [simp]: "WATCH M k w = (Inr (), watch M k w)"
  by (simp add: WATCH_def command_def accepted)

lemma UNWATCH_up [simp]: "UNWATCH M w = (Inr (), unwatch M w)"
  by (simp add: UNWATCH_def command_def accepted)

lemma EXEC_up [simp]: "EXEC M qs w = (Inr True, fold (run_queued M) qs w)"
  by (simp add: EXEC_def command_def accepted uncontended)

end

sublocale redis_up \<subseteq> redis_quiet
  by unfold_locales (simp_all add: accepted uncontended)

section \<open>An in-memory server\<close>

text \<open>
  The executable instance: strings and sets in insertion-ordered maps. It is
  the server the closed examples of the development run on.
\<close>

record mem =
  mem_strs :: "(string, rvalue) jsmap"
  mem_sets :: "(string, string list) jsmap"
  mem_ctrs :: "(string, int) jsmap"

definition mem0 :: mem where
  "mem0 = \<lparr>mem_strs = [], mem_sets = [], mem_ctrs = []\<rparr>"

definition mem_get_set :: "mem \<Rightarrow> string \<Rightarrow> string list" where
  "mem_get_set w k = (case map_of (mem_sets w) k of None \<Rightarrow> [] | Some xs \<Rightarrow> remdups xs)"

definition mem_bump :: "string \<Rightarrow> mem \<Rightarrow> int \<times> mem" where
  "mem_bump k w = (let n = (case map_of (mem_ctrs w) k of None \<Rightarrow> 1 | Some n \<Rightarrow> n + 1)
     in (n, w\<lparr>mem_ctrs := AList.update k n (mem_ctrs w)\<rparr>))"

definition mem_keys :: "mem \<Rightarrow> string list" where
  "mem_keys w = filter (\<lambda>k. map_of (mem_strs w) k \<noteq> None \<or> mem_get_set w k \<noteq> [])
     (remdups (map fst (mem_strs w) @ map fst (mem_sets w)))"

definition mem_redis :: "mem redis" where
  "mem_redis = \<lparr>
     attempt = (\<lambda>w. (None, w)),
     strs = (\<lambda>w. map_of (mem_strs w)),
     put = (\<lambda>k v w. w\<lparr>mem_strs := AList.update k v (mem_strs w)\<rparr>),
     put_ex = (\<lambda>k v ttl w. w\<lparr>mem_strs := AList.update k v (mem_strs w)\<rparr>),
     dele = (\<lambda>k w. w\<lparr>mem_strs := AList.delete k (mem_strs w)\<rparr>),
     mems = mem_get_set,
     addm = (\<lambda>k m w. w\<lparr>mem_sets := AList.update k (mem_get_set w k @ [m]) (mem_sets w)\<rparr>),
     remm = (\<lambda>k m w. w\<lparr>mem_sets := AList.update k (removeAll m (mem_get_set w k)) (mem_sets w)\<rparr>),
     allkeys = mem_keys,
     bump = mem_bump,
     watch = (\<lambda>k w. w),
     unwatch = (\<lambda>w. w),
     commit = (\<lambda>w. (True, w))\<rparr>"

lemma mem_redis_simps [simp]:
  "attempt mem_redis w = (None, w)"
  "strs mem_redis w = map_of (mem_strs w)"
  "put mem_redis k v w = w\<lparr>mem_strs := AList.update k v (mem_strs w)\<rparr>"
  "put_ex mem_redis k v ttl w = w\<lparr>mem_strs := AList.update k v (mem_strs w)\<rparr>"
  "dele mem_redis k w = w\<lparr>mem_strs := AList.delete k (mem_strs w)\<rparr>"
  "mems mem_redis = mem_get_set"
  "addm mem_redis k m w = w\<lparr>mem_sets := AList.update k (mem_get_set w k @ [m]) (mem_sets w)\<rparr>"
  "remm mem_redis k m w = w\<lparr>mem_sets := AList.update k (removeAll m (mem_get_set w k)) (mem_sets w)\<rparr>"
  "allkeys mem_redis = mem_keys"
  "bump mem_redis = mem_bump"
  "watch mem_redis k w = w"
  "unwatch mem_redis w = w"
  "commit mem_redis w = (True, w)"
  by (simp_all add: mem_redis_def)

interpretation mem: redis_up mem_redis
proof
  show "set (allkeys mem_redis w) =
      {k. strs mem_redis w k \<noteq> None \<or> mems mem_redis w k \<noteq> []}" for w
  proof -
    have "k \<in> fst ` set (mem_strs w)" if "map_of (mem_strs w) k \<noteq> None" for k
      using that by (metis domIff dom_map_of_conv_image_fst)
    moreover have "k \<in> fst ` set (mem_sets w)" if "mem_get_set w k \<noteq> []" for k
      using that by (force simp: mem_get_set_def split: option.splits dest: map_of_SomeD)
    ultimately show ?thesis by (auto simp: mem_keys_def)
  qed
qed (auto simp: mem_get_set_def mem_bump_def mem_keys_def Let_def split: option.split)

lemma mem_is_up: "redis_up mem_redis"
  by unfold_locales

lemma mem0_simps [simp]:
  "mem_strs mem0 = []" "mem_sets mem0 = []" "mem_ctrs mem0 = []" "mem_get_set mem0 k = []"
  by (simp_all add: mem0_def mem_get_set_def)

section \<open>An in-memory server with faults\<close>

text \<open>
  The same server behind a connection whose faults are scheduled: each command
  and each commit takes the next entry of a list, and fails if it is \<open>True\<close>.
\<close>

type_synonym faulty = "bool list \<times> mem"

definition next_fault :: "faulty \<Rightarrow> bool \<times> faulty" where
  "next_fault w = (case w of ([], m) \<Rightarrow> (False, ([], m)) | (f # fs, m) \<Rightarrow> (f, (fs, m)))"

definition faulty_redis :: "faulty redis" where
  "faulty_redis = \<lparr>
     attempt = (\<lambda>w. case next_fault w of (f, w') \<Rightarrow> (if f then Some ''ECONNRESET'' else None, w')),
     strs = (\<lambda>w. strs mem_redis (snd w)),
     put = (\<lambda>k v w. (fst w, put mem_redis k v (snd w))),
     put_ex = (\<lambda>k v t w. (fst w, put_ex mem_redis k v t (snd w))),
     dele = (\<lambda>k w. (fst w, dele mem_redis k (snd w))),
     mems = (\<lambda>w. mems mem_redis (snd w)),
     addm = (\<lambda>k m w. (fst w, addm mem_redis k m (snd w))),
     remm = (\<lambda>k m w. (fst w, remm mem_redis k m (snd w))),
     allkeys = (\<lambda>w. allkeys mem_redis (snd w)),
     bump = (\<lambda>k w. (fst (bump mem_redis k (snd w)), fst w, snd (bump mem_redis k (snd w)))),
     watch = (\<lambda>k w. w),
     unwatch = (\<lambda>w. w),
     commit = (\<lambda>w. case next_fault w of (f, w') \<Rightarrow> (\<not> f, w'))\<rparr>"

interpretation faulty: redis_quiet faulty_redis
proof
  show "commit faulty_redis w = (True, w') \<Longrightarrow>
      strs faulty_redis w' = strs faulty_redis w \<and> mems faulty_redis w' = mems faulty_redis w" for w w'
    by (auto simp: faulty_redis_def next_fault_def split: prod.splits list.splits)
  show "attempt faulty_redis w = (e, w') \<Longrightarrow>
      strs faulty_redis w' = strs faulty_redis w \<and> mems faulty_redis w' = mems faulty_redis w" for w e w'
    by (auto simp: faulty_redis_def next_fault_def split: prod.splits list.splits if_splits)
  show "commit faulty_redis w = (b, w') \<Longrightarrow>
      strs faulty_redis w' = strs faulty_redis w \<and> mems faulty_redis w' = mems faulty_redis w" for w b w'
    by (auto simp: faulty_redis_def next_fault_def split: prod.splits list.splits)
qed (simp_all add: faulty_redis_def mem.strs_laws mem.mems_laws mem.mems_distinct mem.keys_set
  mem.keys_distinct del: mem_redis_simps)

lemma faulty_is_quiet: "redis_quiet faulty_redis"
  by (rule faulty.redis_quiet_axioms)

end
