(* ===== verification/Database.thy ===== *)
theory Database
  imports Redis
begin

text \<open>
  The class \<open>Database\<close> of \<open>src/db/database.ts\<close>: every method that reads or
  writes Redis, in the source's order and with its \<open>try\<close>/\<open>catch\<close>. The clock
  reading \<open>Date.now()\<close>, the random number and the date of the day are
  arguments. Console output is left out.
\<close>

section \<open>Clients\<close>

definition new_client :: "string \<Rightarrow> string \<Rightarrow> string \<Rightarrow> int \<Rightarrow> ClientStruct" where
  "new_client uid cid code now = \<lparr>
     c_user_principal_id = uid, c_client_id = cid, c_activeJobs = [], c_maxConcurrentJobs = 10,
     c_downloadSpeed = 0, c_ping = 0, c_wsConnect = now, c_wsDisconnect = 0,
     c_todaysEarnings = 0, c_balance = 0, c_referralCode = code, c_totalReferral = 0,
     c_clientStatus = client_status INACTIVE, c_pingTimestamp = now, c_totalUptime = 0,
     c_dailyUptime = 0, c_uptimeReward = 0, c_jobID = None, c_jobStatus = None,
     c_jobEndTime = None\<rparr>"

definition getNextClientId :: "'w redis \<Rightarrow> ('w, string) act" where
  "getNextClientId M = bindA (INCR M ''counter:client_id'') (\<lambda>n. returnA (show_int n))"

definition createClient ::
  "'w redis \<Rightarrow> string \<Rightarrow> string \<Rightarrow> int \<Rightarrow> ('w, ClientStruct EntityResult) act" where
  "createClient M uid code now = catchA
     (bindA (getNextClientId M) (\<lambda>cid.
        let client = new_client uid cid code now in
        thenA (SET M (CLIENT uid) (VClient client))
       (thenA (SADD M (CLIENTS_BY_STATUS (c_clientStatus client)) uid)
       (thenA (SET M (CODE_LOOKUP code) (VStr uid))
       (returnA (Success client))))))
     (\<lambda>e. returnA (Failure DatabaseFault (''Failed to create client: '' @ e)))"

definition getClient :: "'w redis \<Rightarrow> string \<Rightarrow> ('w, ClientStruct EntityResult) act" where
  "getClient M uid = catchA
     (bindA (GET M (CLIENT uid)) (\<lambda>data.
        case present data of
          None \<Rightarrow> returnA (Failure NotFound ''Client not found'')
        | Some v \<Rightarrow> bindA (parse_as as_client v) (\<lambda>c. returnA (Success c))))
     (\<lambda>e. returnA (Failure DatabaseFault (''Failed to get client: '' @ e)))"

text \<open>
  \<open>updateClient\<close> is an optimistic transaction, tried at most five times:
  \<open>client_transaction\<close> is one turn of the loop (\<open>None\<close> for a conflict).
\<close>

definition client_moves :: "string \<Rightarrow> client_field list \<Rightarrow> ClientStruct \<Rightarrow> queued list" where
  "client_moves uid us c = (case status_of us of
       None \<Rightarrow> []
     | Some s \<Rightarrow> if truthy s \<and> s \<noteq> c_clientStatus c
         then [QRem (CLIENTS_BY_STATUS (c_clientStatus c)) uid, QAdd (CLIENTS_BY_STATUS s) uid]
         else [])"

definition client_transaction ::
  "'w redis \<Rightarrow> string \<Rightarrow> client_field list \<Rightarrow> ('w, unit EntityResult option) act" where
  "client_transaction M uid us = catchA
     (thenA (WATCH M (CLIENT uid))
     (bindA (getClient M uid) (\<lambda>result.
        case result of
          Failure k m \<Rightarrow> thenA (UNWATCH M) (returnA (Some (Failure k m)))
        | Success c \<Rightarrow>
            bindA (EXEC M (QSet (CLIENT uid) (VClient (spread_client us c)) # client_moves uid us c))
              (\<lambda>execResult. returnA (if execResult then Some (Success ()) else None)))))
     (\<lambda>txError. thenA (UNWATCH M) (throwA txError))"

primrec client_retries ::
  "nat \<Rightarrow> 'w redis \<Rightarrow> string \<Rightarrow> client_field list \<Rightarrow> ('w, unit EntityResult) act" where
  "client_retries 0 M uid us = returnA (Failure UpdateFailed
     ''Failed to update client after 5 retries: concurrent modification conflict'')"
| "client_retries (Suc n) M uid us = bindA (client_transaction M uid us) (\<lambda>r.
     case r of Some res \<Rightarrow> returnA res | None \<Rightarrow> client_retries n M uid us)"

definition updateClient ::
  "'w redis \<Rightarrow> string \<Rightarrow> client_field list \<Rightarrow> ('w, unit EntityResult) act" where
  "updateClient M uid us = catchA (client_retries 5 M uid us)
     (\<lambda>e. returnA (Failure UpdateFailed (''Failed to update client: '' @ e)))"

definition read_as :: "'w redis \<Rightarrow> (rvalue \<Rightarrow> 'a option) \<Rightarrow> string \<Rightarrow> ('w, 'a option) act" where
  "read_as M p key = bindA (GET M key) (\<lambda>data.
     case present data of
       None \<Rightarrow> returnA None
     | Some v \<Rightarrow> bindA (parse_as p v) (\<lambda>x. returnA (Some x)))"

definition getAllClients :: "'w redis \<Rightarrow> ('w, ClientStruct list EntityResult) act" where
  "getAllClients M = catchA
     (bindA (KEYS M CLIENT_PREFIX) (\<lambda>keys.
        if keys = [] then returnA (Success [])
        else bindA (mapA (read_as M as_client) keys) (\<lambda>clients.
          returnA (Success (somes clients)))))
     (\<lambda>e. returnA (Failure DatabaseFault (''Failed to get all clients: '' @ e)))"

definition data_or_null :: "'a EntityResult \<Rightarrow> 'a option" where
  "data_or_null r = (case r of Success a \<Rightarrow> Some a | Failure _ _ \<Rightarrow> None)"

definition getClientsByStatus ::
  "'w redis \<Rightarrow> string \<Rightarrow> ('w, ClientStruct list EntityResult) act" where
  "getClientsByStatus M status = catchA
     (bindA (SMEMBERS M (CLIENTS_BY_STATUS status)) (\<lambda>userIds.
        if userIds = [] then returnA (Success [])
        else bindA (mapA (\<lambda>u. bindA (getClient M u) (\<lambda>r. returnA (data_or_null r))) userIds)
          (\<lambda>clients. returnA (Success (somes clients)))))
     (\<lambda>e. returnA (Failure DatabaseFault (''Failed to get clients by status: '' @ e)))"

section \<open>Jobs\<close>

definition generateJobId :: "int \<Rightarrow> int \<Rightarrow> string" where
  "generateJobId now rnd = ''job_'' @ show_int now @ ''_'' @ show_int rnd"

text \<open>The argument \<open>jobData\<close> of \<open>createJob\<close> as a job whose other fields are not read.\<close>

definition createJob ::
  "'w redis \<Rightarrow> JobStruct \<Rightarrow> int \<Rightarrow> int \<Rightarrow> ('w, JobStruct EntityResult) act" where
  "createJob M jobData now rnd = catchA
     (let jobId = generateJobId now rnd;
          job = jobData\<lparr>j_jobID := jobId, j_assignedAt := now, j_completeAt := 0,
                        j_job_views := 0, j_job_downloads := 0\<rparr> in
      thenA (SET M (JOB jobId) (VJob job))
     (thenA (SADD M (JOBS_BY_STATE (j_state job)) jobId)
     (thenA (SADD M (JOBS_BY_USER (j_clientUUID job)) jobId)
     (thenA (if truthy (j_user_principal_id job)
             then SADD M (JOBS_BY_USER (j_user_principal_id job)) jobId
             else returnA ())
     (returnA (Success job))))))
     (\<lambda>e. returnA (Failure DatabaseFault (''Failed to create job: '' @ e)))"

definition getJob :: "'w redis \<Rightarrow> string \<Rightarrow> ('w, JobStruct EntityResult) act" where
  "getJob M jobId = catchA
     (bindA (GET M (JOB jobId)) (\<lambda>data.
        case present data of
          None \<Rightarrow> returnA (Failure NotFound ''Job not found'')
        | Some v \<Rightarrow> bindA (parse_as as_job v) (\<lambda>j. returnA (Success j))))
     (\<lambda>e. returnA (Failure DatabaseFault (''Failed to get job: '' @ e)))"

definition move_job_state ::
  "'w redis \<Rightarrow> string \<Rightarrow> job_field list \<Rightarrow> JobStruct \<Rightarrow> ('w, unit) act" where
  "move_job_state M jobId us old = (case job_state_of us of
       None \<Rightarrow> returnA ()
     | Some s \<Rightarrow> if truthy s \<and> s \<noteq> j_state old
         then thenA (SREM M (JOBS_BY_STATE (j_state old)) jobId) (SADD M (JOBS_BY_STATE s) jobId)
         else returnA ())"

definition move_job_user ::
  "'w redis \<Rightarrow> string \<Rightarrow> job_field list \<Rightarrow> JobStruct \<Rightarrow> ('w, unit) act" where
  "move_job_user M jobId us old = (case job_user_of us of
       None \<Rightarrow> returnA ()
     | Some u \<Rightarrow> if truthy u \<and> u \<noteq> j_user_principal_id old
         then thenA (if truthy (j_user_principal_id old)
                     then SREM M (JOBS_BY_USER (j_user_principal_id old)) jobId else returnA ())
                (SADD M (JOBS_BY_USER u) jobId)
         else returnA ())"

definition updateJob :: "'w redis \<Rightarrow> string \<Rightarrow> job_field list \<Rightarrow> ('w, unit EntityResult) act" where
  "updateJob M jobId us = catchA
     (bindA (getJob M jobId) (\<lambda>result.
        case result of
          Failure k m \<Rightarrow> returnA (Failure k m)
        | Success old \<Rightarrow>
            thenA (SET M (JOB jobId) (VJob (spread_job us old)))
           (thenA (move_job_state M jobId us old)
           (thenA (move_job_user M jobId us old)
           (returnA (Success ()))))))
     (\<lambda>e. returnA (Failure UpdateFailed (''Failed to update job: '' @ e)))"

definition jobs_of_ids :: "'w redis \<Rightarrow> string list \<Rightarrow> ('w, JobStruct list EntityResult) act" where
  "jobs_of_ids M jobIds =
     (if jobIds = [] then returnA (Success [])
      else bindA (mapA (\<lambda>j. bindA (getJob M j) (\<lambda>r. returnA (data_or_null r))) jobIds)
        (\<lambda>jobs. returnA (Success (somes jobs))))"

definition getJobsByState :: "'w redis \<Rightarrow> string \<Rightarrow> ('w, JobStruct list EntityResult) act" where
  "getJobsByState M state = catchA
     (bindA (SMEMBERS M (JOBS_BY_STATE state)) (jobs_of_ids M))
     (\<lambda>e. returnA (Failure DatabaseFault (''Failed to get jobs by state: '' @ e)))"

definition getJobsByUser :: "'w redis \<Rightarrow> string \<Rightarrow> ('w, JobStruct list EntityResult) act" where
  "getJobsByUser M uid = catchA
     (bindA (SMEMBERS M (JOBS_BY_USER uid)) (jobs_of_ids M))
     (\<lambda>e. returnA (Failure DatabaseFault (''Failed to get jobs by user: '' @ e)))"

definition getAllJobs :: "'w redis \<Rightarrow> ('w, JobStruct list EntityResult) act" where
  "getAllJobs M = catchA
     (bindA (KEYS M JOB_PREFIX) (\<lambda>keys.
        if keys = [] then returnA (Success [])
        else bindA (mapA (read_as M as_job) keys) (\<lambda>jobs. returnA (Success (somes jobs)))))
     (\<lambda>e. returnA (Failure DatabaseFault (''Failed to get all jobs: '' @ e)))"

definition incrementJobViews :: "'w redis \<Rightarrow> string \<Rightarrow> ('w, unit EntityResult) act" where
  "incrementJobViews M jobId = catchA
     (bindA (getJob M jobId) (\<lambda>result.
        case result of
          Failure k m \<Rightarrow> returnA (Failure k m)
        | Success j \<Rightarrow> thenA (SET M (JOB jobId) (VJob (j\<lparr>j_job_views := j_job_views j + 1\<rparr>)))
            (returnA (Success ()))))
     (\<lambda>e. returnA (Failure UpdateFailed (''Failed to increment job views: '' @ e)))"

definition incrementJobDownloads :: "'w redis \<Rightarrow> string \<Rightarrow> ('w, unit EntityResult) act" where
  "incrementJobDownloads M jobId = catchA
     (bindA (getJob M jobId) (\<lambda>result.
        case result of
          Failure k m \<Rightarrow> returnA (Failure k m)
        | Success j \<Rightarrow>
            thenA (SET M (JOB jobId) (VJob (j\<lparr>j_job_downloads := j_job_downloads j + 1\<rparr>)))
            (returnA (Success ()))))
     (\<lambda>e. returnA (Failure UpdateFailed (''Failed to increment job downloads: '' @ e)))"

section \<open>Job cleanup\<close>

definition deleteJob :: "'w redis \<Rightarrow> string \<Rightarrow> ('w, unit EntityResult) act" where
  "deleteJob M jobId = catchA
     (bindA (getJob M jobId) (\<lambda>jobResult.
        case jobResult of
          Failure _ _ \<Rightarrow> returnA (Success ())
        | Success job \<Rightarrow>
            thenA (DEL M (JOB jobId))
           (thenA (SREM M (JOBS_BY_STATE (j_state job)) jobId)
           (thenA (if truthy (j_clientUUID job)
                   then SREM M (JOBS_BY_USER (j_clientUUID job)) jobId else returnA ())
           (thenA (if truthy (j_user_principal_id job)
                   then SREM M (JOBS_BY_USER (j_user_principal_id job)) jobId else returnA ())
           (thenA (SREM M (PURCHASES_BY_JOB jobId) ''*'')
           (returnA (Success ()))))))))
     (\<lambda>e. returnA (Failure DatabaseFault (''Failed to delete job: '' @ e)))"

definition getJobsCreatedBefore :: "'w redis \<Rightarrow> int \<Rightarrow> ('w, JobStruct list EntityResult) act" where
  "getJobsCreatedBefore M timestamp = catchA
     (bindA (KEYS M JOB_PREFIX) (\<lambda>keys.
        if keys = [] then returnA (Success [])
        else bindA (mapA (\<lambda>k. bindA (read_as M as_job k) (\<lambda>job. returnA (case job of
                 None \<Rightarrow> None
               | Some j \<Rightarrow> if j_assignedAt j \<noteq> 0 \<and> j_assignedAt j < timestamp
                   then Some j else None))) keys)
          (\<lambda>jobs. returnA (Success (somes jobs)))))
     (\<lambda>e. returnA (Failure DatabaseFault (''Failed to get jobs created before timestamp: '' @ e)))"

record CleanupResult =
  cl_deletedCount :: int
  cl_failedDeletions :: "string list"
  cl_errors :: "string list"

definition cleanup_one ::
  "'w redis \<Rightarrow> CleanupResult \<Rightarrow> JobStruct \<Rightarrow> ('w, CleanupResult) act" where
  "cleanup_one M acc job = bindA (deleteJob M (j_jobID job)) (\<lambda>r. returnA (case r of
       Success _ \<Rightarrow> acc\<lparr>cl_deletedCount := cl_deletedCount acc + 1\<rparr>
     | Failure _ m \<Rightarrow> acc\<lparr>cl_failedDeletions := cl_failedDeletions acc @ [j_jobID job],
         cl_errors := cl_errors acc @ [''Failed to delete job '' @ j_jobID job @ '': '' @ m]\<rparr>))"

definition cleanupOldJobs :: "'w redis \<Rightarrow> int \<Rightarrow> ('w, CleanupResult EntityResult) act" where
  "cleanupOldJobs M cutoff = catchA
     (bindA (getJobsCreatedBefore M cutoff) (\<lambda>jobsResult.
        case jobsResult of
          Failure k m \<Rightarrow> returnA (Failure k m)
        | Success jobs \<Rightarrow>
            bindA (foldA (foldA (cleanup_one M))
                \<lparr>cl_deletedCount = 0, cl_failedDeletions = [], cl_errors = []\<rparr>
                (batches 10 jobs))
              (\<lambda>res. returnA (Success res))))
     (\<lambda>e. returnA (Failure DatabaseFault (''Failed to cleanup old jobs: '' @ e)))"

end
