(* ===== verification/Accounts.thy ===== *)
theory Accounts
  imports Database
begin

text \<open>
  The rest of the class \<open>Database\<close> of \<open>src/db/database.ts\<close>: sessions, uptime
  statistics, API keys, the raw file-metadata commands and purchases.
\<close>

section \<open>Sessions\<close>

definition generateSessionId :: "int \<Rightarrow> int \<Rightarrow> string" where
  "generateSessionId now rnd = ''session_'' @ show_int now @ ''_'' @ show_int rnd"

text \<open>\<open>ttl\<close> is \<open>config.timeouts.sessionTimeout\<close>.\<close>

definition createSession ::
  "'w redis \<Rightarrow> int \<Rightarrow> string \<Rightarrow> string \<Rightarrow> int \<Rightarrow> int \<Rightarrow> ('w, SessionData EntityResult) act" where
  "createSession M ttl uid cid now rnd = catchA
     (let sid = generateSessionId now rnd;
          session = \<lparr>s_sessionId = sid, s_user_principal_id = uid, s_client_id = cid,
            s_startTime = now, s_endTime = None, s_duration = None, s_isActive = True\<rparr> in
      thenA (SETEX M (SESSION sid) (VSession session) ttl)
     (thenA (SADD M (SESSIONS_BY_USER uid) sid)
     (returnA (Success session))))
     (\<lambda>e. returnA (Failure DatabaseFault (''Failed to create session: '' @ e)))"

definition endSession :: "'w redis \<Rightarrow> string \<Rightarrow> int \<Rightarrow> ('w, unit EntityResult) act" where
  "endSession M sid now = catchA
     (bindA (GET M (SESSION sid)) (\<lambda>data.
        case present data of
          None \<Rightarrow> returnA (Failure NotFound ''Session not found'')
        | Some v \<Rightarrow> bindA (parse_as as_session v) (\<lambda>session.
            thenA (SET M (SESSION sid) (VSession (session\<lparr>s_endTime := Some now,
                     s_duration := Some (now - s_startTime session), s_isActive := False\<rparr>)))
           (thenA (SREM M (SESSIONS_BY_USER (s_user_principal_id session)) sid)
           (returnA (Success ()))))))
     (\<lambda>e. returnA (Failure UpdateFailed (''Failed to end session: '' @ e)))"

section \<open>Uptime statistics\<close>

text \<open>
  Both detailed reads sit in a \<open>try\<close> of their own whose \<open>catch\<close> keeps the
  client's basic field.
\<close>

definition today_uptime :: "'w redis \<Rightarrow> string \<Rightarrow> string \<Rightarrow> rat \<Rightarrow> ('w, rat) act" where
  "today_uptime M uid today basic = catchA
     (bindA (read_as M as_daily (UPTIME_DAILY uid today)) (\<lambda>rec.
        returnA (case rec of None \<Rightarrow> basic | Some d \<Rightarrow> d_total_minutes d * 60 * 1000)))
     (\<lambda>_. returnA basic)"

definition total_uptime :: "'w redis \<Rightarrow> string \<Rightarrow> rat \<Rightarrow> ('w, rat) act" where
  "total_uptime M uid basic = catchA
     (bindA (SMEMBERS M (UPTIME_USER_INDEX uid)) (\<lambda>ids.
        if ids = [] then returnA basic
        else bindA (foldA (\<lambda>tot rid. bindA (read_as M as_weekly (UPTIME_WEEKLY rid)) (\<lambda>rec.
                returnA (case rec of None \<Rightarrow> tot | Some wk \<Rightarrow> tot + w_total_minutes wk))) 0 ids)
          (\<lambda>tot. returnA (tot * 60 * 1000))))
     (\<lambda>_. returnA basic)"

definition getUptimeStats ::
  "'w redis \<Rightarrow> string \<Rightarrow> int \<Rightarrow> string \<Rightarrow> ('w, UptimeStats EntityResult) act" where
  "getUptimeStats M uid now today = catchA
     (bindA (getClient M uid) (\<lambda>clientResult.
        case clientResult of
          Failure k m \<Rightarrow> returnA (Failure k m)
        | Success client \<Rightarrow>
            let online = (c_wsDisconnect client = 0);
                current = (if online then now - c_wsConnect client else 0) in
            bindA (today_uptime M uid today (of_int (c_dailyUptime client))) (\<lambda>todayUptime.
            bindA (total_uptime M uid (of_int (c_totalUptime client))) (\<lambda>totalUptime.
              returnA (Success \<lparr>us_totalUptime = totalUptime, us_todayUptime = todayUptime,
                us_isCurrentlyOnline = online, us_currentSessionDuration = current\<rparr>)))))
     (\<lambda>e. returnA (Failure DatabaseFault (''Failed to get uptime stats: '' @ e)))"

section \<open>API keys\<close>

text \<open>\<open>apiKey\<close> is the string of 32 random characters that \<open>generateAPIKey\<close> drew.\<close>

definition api_key_chars :: string where
  "api_key_chars = ''ABCDEFGHIJKLMNOPQRSTUVWXYZabcdefghijklmnopqrstuvwxyz0123456789''"

definition generateAPIKey :: "nat list \<Rightarrow> string" where
  "generateAPIKey rnds = map (\<lambda>r. api_key_chars ! (r mod length api_key_chars)) (take 32 rnds)"

definition createAPIKey ::
  "'w redis \<Rightarrow> int \<Rightarrow> string \<Rightarrow> nat list \<Rightarrow> int \<Rightarrow> ('w, APIKeyData EntityResult) act" where
  "createAPIKey M usageLimit uid rnds now = catchA
     (let apiKey = generateAPIKey rnds;
          keyData = \<lparr>k_apiKey = apiKey, k_usageCount = 0, k_usageLimit = usageLimit,
                     k_usageLog = [now]\<rparr> in
      thenA (SET M (API_KEY uid) (VAPIKey keyData))
     (thenA (SET M (API_LOOKUP apiKey) (VStr uid))
     (returnA (Success keyData))))
     (\<lambda>e. returnA (Failure DatabaseFault (''Failed to create API key: '' @ e)))"

definition getAPIKey :: "'w redis \<Rightarrow> string \<Rightarrow> ('w, APIKeyData EntityResult) act" where
  "getAPIKey M uid = catchA
     (bindA (GET M (API_KEY uid)) (\<lambda>data.
        case present data of
          None \<Rightarrow> returnA (Failure NotFound ''API key not found'')
        | Some v \<Rightarrow> bindA (parse_as as_apikey v) (\<lambda>k. returnA (Success k))))
     (\<lambda>e. returnA (Failure DatabaseFault (''Failed to get API key: '' @ e)))"

definition incrementAPIUsage :: "'w redis \<Rightarrow> string \<Rightarrow> int \<Rightarrow> ('w, unit EntityResult) act" where
  "incrementAPIUsage M uid now = catchA
     (bindA (getAPIKey M uid) (\<lambda>result.
        case result of
          Failure k m \<Rightarrow> returnA (Failure k m)
        | Success d \<Rightarrow>
            thenA (SET M (API_KEY uid) (VAPIKey (d\<lparr>k_usageCount := k_usageCount d + 1,
                                                  k_usageLog := k_usageLog d @ [now]\<rparr>)))
            (returnA (Success ()))))
     (\<lambda>e. returnA (Failure UpdateFailed (''Failed to increment API usage: '' @ e)))"

definition getUUIDFromAPIKey :: "'w redis \<Rightarrow> string \<Rightarrow> ('w, string EntityResult) act" where
  "getUUIDFromAPIKey M apiKey = catchA
     (bindA (GET M (API_LOOKUP apiKey)) (\<lambda>data.
        case present data of
          None \<Rightarrow> returnA (Failure NotFound ''UUID not found for API key'')
        | Some v \<Rightarrow> bindA (parse_as as_str v) (\<lambda>u. returnA (Success u))))
     (\<lambda>e. returnA (Failure DatabaseFault (''Failed to get UUID from API key: '' @ e)))"

section \<open>Raw metadata commands\<close>

text \<open>These methods have no \<open>try\<close>: a failed command is the caller's to catch.\<close>

definition setFileMetadata :: "'w redis \<Rightarrow> string \<Rightarrow> rvalue \<Rightarrow> ('w, unit) act" where
  "setFileMetadata M key v = SET M key v"

definition getFileMetadata :: "'w redis \<Rightarrow> string \<Rightarrow> ('w, rvalue option) act" where
  "getFileMetadata M key = GET M key"

definition addFileToUserIndex :: "'w redis \<Rightarrow> string \<Rightarrow> string \<Rightarrow> ('w, unit) act" where
  "addFileToUserIndex M key fid = SADD M key fid"

definition addFileToJobIndex :: "'w redis \<Rightarrow> string \<Rightarrow> string \<Rightarrow> ('w, unit) act" where
  "addFileToJobIndex M key fid = SADD M key fid"

definition getFileIdsFromIndex :: "'w redis \<Rightarrow> string \<Rightarrow> ('w, string list) act" where
  "getFileIdsFromIndex M key = SMEMBERS M key"

definition removeFileFromUserIndex :: "'w redis \<Rightarrow> string \<Rightarrow> string \<Rightarrow> ('w, unit) act" where
  "removeFileFromUserIndex M key fid = SREM M key fid"

definition removeFileFromJobIndex :: "'w redis \<Rightarrow> string \<Rightarrow> string \<Rightarrow> ('w, unit) act" where
  "removeFileFromJobIndex M key fid = SREM M key fid"

definition deleteFileMetadata :: "'w redis \<Rightarrow> string \<Rightarrow> ('w, unit) act" where
  "deleteFileMetadata M key = DEL M key"

section \<open>Purchases\<close>

definition storePurchase ::
  "'w redis \<Rightarrow> string \<Rightarrow> string \<Rightarrow> int \<Rightarrow> ('w, unit EntityResult) act" where
  "storePurchase M uid jobId now = catchA
     (thenA (SET M (PURCHASE uid jobId) (VPurchase uid jobId now))
     (thenA (SADD M (PURCHASES_BY_USER uid) jobId)
     (thenA (SADD M (PURCHASES_BY_JOB jobId) uid)
     (returnA (Success ())))))
     (\<lambda>e. returnA (Failure DatabaseFault (''Failed to store purchase: '' @ e)))"

definition hasPurchaseAccess ::
  "'w redis \<Rightarrow> string \<Rightarrow> string \<Rightarrow> ('w, bool EntityResult) act" where
  "hasPurchaseAccess M uid jobId = catchA
     (bindA (GET M (PURCHASE uid jobId)) (\<lambda>data. returnA (Success (data \<noteq> None))))
     (\<lambda>e. returnA (Failure DatabaseFault (''Failed to check purchase access: '' @ e)))"

definition getUserPurchases :: "'w redis \<Rightarrow> string \<Rightarrow> ('w, string list EntityResult) act" where
  "getUserPurchases M uid = catchA
     (bindA (SMEMBERS M (PURCHASES_BY_USER uid)) (\<lambda>ids. returnA (Success ids)))
     (\<lambda>e. returnA (Failure DatabaseFault (''Failed to get user purchases: '' @ e)))"

end
