(* ===== verification/DatabaseFacts.thy ===== *)
theory DatabaseFacts
  imports Accounts
begin

text \<open>
  What the methods of \<open>Database\<close> do to the data they keep in Redis. The content
  of the store is abstracted to two maps, \<open>clients\<close> and \<open>jobs\<close>; the invariant
  \<open>db_inv\<close> says that every entity key holds an entity with that identifier and
  that the secondary indexes agree with the entities. Under a server that
  answers (\<open>redis_up\<close>) every method is characterised by an equation over these
  maps, which the components above use by rewriting.
\<close>

section \<open>The abstraction\<close>

definition clients :: "'w redis \<Rightarrow> 'w \<Rightarrow> string \<Rightarrow> ClientStruct option" where
  "clients M w u = (case strs M w (CLIENT u) of Some v \<Rightarrow> as_client v | None \<Rightarrow> None)"

definition jobs :: "'w redis \<Rightarrow> 'w \<Rightarrow> string \<Rightarrow> JobStruct option" where
  "jobs M w i = (case strs M w (JOB i) of Some v \<Rightarrow> as_job v | None \<Rightarrow> None)"

text \<open>Every client key holds the client it names, every job key its job.\<close>

definition db_typed :: "'w redis \<Rightarrow> 'w \<Rightarrow> bool" where
  "db_typed M w \<longleftrightarrow>
     (\<forall>u v. strs M w (CLIENT u) = Some v \<longrightarrow> (\<exists>c. v = VClient c \<and> c_user_principal_id c = u)) \<and>
     (\<forall>i v. strs M w (JOB i) = Some v \<longrightarrow> (\<exists>j. v = VJob j \<and> j_jobID j = i))"

text \<open>
  The status and the state index list exactly the entities in that status or
  state; the user index of a real user lists only jobs the user asked for or
  was given.
\<close>

definition status_index :: "'w redis \<Rightarrow> 'w \<Rightarrow> bool" where
  "status_index M w \<longleftrightarrow> (\<forall>s u. u \<in> set (mems M w (CLIENTS_BY_STATUS s)) \<longleftrightarrow>
     (\<exists>c. clients M w u = Some c \<and> c_clientStatus c = s))"

definition state_index :: "'w redis \<Rightarrow> 'w \<Rightarrow> bool" where
  "state_index M w \<longleftrightarrow> (\<forall>s i. i \<in> set (mems M w (JOBS_BY_STATE s)) \<longleftrightarrow>
     (\<exists>j. jobs M w i = Some j \<and> j_state j = s))"

definition user_index :: "'w redis \<Rightarrow> 'w \<Rightarrow> bool" where
  "user_index M w \<longleftrightarrow> (\<forall>u i. u \<noteq> [] \<longrightarrow> i \<in> set (mems M w (JOBS_BY_USER u)) \<longrightarrow>
     (\<exists>j. jobs M w i = Some j \<and> (j_clientUUID j = u \<or> j_user_principal_id j = u)))"

definition db_inv :: "'w redis \<Rightarrow> 'w \<Rightarrow> bool" where
  "db_inv M w \<longleftrightarrow> db_typed M w \<and> status_index M w \<and> state_index M w \<and> user_index M w \<and>
     clients M w [] = None"

lemma db_inv_typed [dest]: "db_inv M w \<Longrightarrow> db_typed M w"
  by (simp add: db_inv_def)

text \<open>An update object that does not blank a field the indexes are keyed by.\<close>

definition proper_job_update :: "job_field list \<Rightarrow> bool" where
  "proper_job_update us \<longleftrightarrow> job_state_of us \<noteq> Some [] \<and> job_user_of us \<noteq> Some []"

definition proper_client_update :: "client_field list \<Rightarrow> bool" where
  "proper_client_update us \<longleftrightarrow> status_of us \<noteq> Some []"

lemma db_typedD_client:
  "db_typed M w \<Longrightarrow> strs M w (CLIENT u) = Some v \<Longrightarrow> \<exists>c. v = VClient c \<and> c_user_principal_id c = u"
  unfolding db_typed_def by blast

lemma db_typedD_job:
  "db_typed M w \<Longrightarrow> strs M w (JOB i) = Some v \<Longrightarrow> \<exists>j. v = VJob j \<and> j_jobID j = i"
  unfolding db_typed_def by blast

lemma db_typed_client:
  "db_typed M w \<Longrightarrow> clients M w u = Some c \<Longrightarrow>
     strs M w (CLIENT u) = Some (VClient c) \<and> c_user_principal_id c = u"
  by (auto simp: clients_def split: option.splits dest!: db_typedD_client)

lemma db_typed_job:
  "db_typed M w \<Longrightarrow> jobs M w i = Some j \<Longrightarrow> strs M w (JOB i) = Some (VJob j) \<and> j_jobID j = i"
  by (auto simp: jobs_def split: option.splits dest!: db_typedD_job)

lemma db_typed_client_None: "db_typed M w \<Longrightarrow> clients M w u = None \<longleftrightarrow> strs M w (CLIENT u) = None"
  by (auto simp: clients_def split: option.splits dest!: db_typedD_client)

lemma db_typed_job_None: "db_typed M w \<Longrightarrow> jobs M w i = None \<longleftrightarrow> strs M w (JOB i) = None"
  by (auto simp: jobs_def split: option.splits dest!: db_typedD_job)

lemma user_indexI:
  "(\<And>u i. u \<noteq> [] \<Longrightarrow> i \<in> set (mems M w (JOBS_BY_USER u)) \<Longrightarrow>
     \<exists>j. jobs M w i = Some j \<and> (j_clientUUID j = u \<or> j_user_principal_id j = u)) \<Longrightarrow> user_index M w"
  unfolding user_index_def by blast

lemma user_indexD:
  "user_index M w \<Longrightarrow> i \<in> set (mems M w (JOBS_BY_USER u)) \<Longrightarrow> u \<noteq> [] \<Longrightarrow>
     \<exists>j. jobs M w i = Some j \<and> (j_clientUUID j = u \<or> j_user_principal_id j = u)"
  unfolding user_index_def by blast

text \<open>The maps, the types and the invariant only depend on strings and sets.\<close>

lemma same_strs:
  assumes "strs M w' = strs M w"
  shows "clients M w' = clients M w" "jobs M w' = jobs M w" "db_typed M w' = db_typed M w"
  using assms by (auto simp: clients_def jobs_def db_typed_def fun_eq_iff)

lemma same_world:
  assumes "strs M w' = strs M w" "mems M w' = mems M w"
  shows "db_inv M w' = db_inv M w"
  using assms same_strs [OF assms(1)]
  by (simp add: db_inv_def status_index_def state_index_def user_index_def)

section \<open>Keys\<close>

lemma keys_distinct [simp]:
  "CLIENT u = CLIENT v \<longleftrightarrow> u = v" "JOB i = JOB j \<longleftrightarrow> i = j"
  "CLIENT u \<noteq> JOB i" "JOB i \<noteq> CLIENT u"
  "CLIENT u \<noteq> CODE_LOOKUP c" "CODE_LOOKUP c \<noteq> CLIENT u"
  "JOB i \<noteq> CODE_LOOKUP c" "CODE_LOOKUP c \<noteq> JOB i"
  "CLIENTS_BY_STATUS s = CLIENTS_BY_STATUS t \<longleftrightarrow> s = t"
  "JOBS_BY_STATE s = JOBS_BY_STATE t \<longleftrightarrow> s = t"
  "JOBS_BY_USER s = JOBS_BY_USER t \<longleftrightarrow> s = t"
  "CLIENTS_BY_STATUS s \<noteq> CLIENT u" "CLIENTS_BY_STATUS s \<noteq> JOB i"
  "JOBS_BY_STATE s \<noteq> CLIENT u" "JOBS_BY_STATE s \<noteq> JOB i"
  "JOBS_BY_USER s \<noteq> CLIENT u" "JOBS_BY_USER s \<noteq> JOB i"
  "CLIENTS_BY_STATUS s \<noteq> CODE_LOOKUP c" "JOBS_BY_STATE s \<noteq> CODE_LOOKUP c"
  "JOBS_BY_USER s \<noteq> CODE_LOOKUP c"
  "CLIENTS_BY_STATUS s \<noteq> JOBS_BY_STATE t" "JOBS_BY_STATE t \<noteq> CLIENTS_BY_STATUS s"
  "CLIENTS_BY_STATUS s \<noteq> JOBS_BY_USER t" "JOBS_BY_USER t \<noteq> CLIENTS_BY_STATUS s"
  "JOBS_BY_STATE s \<noteq> JOBS_BY_USER t" "JOBS_BY_USER t \<noteq> JOBS_BY_STATE s"
  "JOBS_BY_STATE s \<noteq> PURCHASES_BY_JOB i" "JOBS_BY_USER s \<noteq> PURCHASES_BY_JOB i"
  "CLIENTS_BY_STATUS s \<noteq> PURCHASES_BY_JOB i"
  by (simp_all add: key_simps)

lemma counter_key [simp]:
  "CLIENT u \<noteq> ''counter:client_id''" "JOB i \<noteq> ''counter:client_id''"
  "CLIENTS_BY_STATUS s \<noteq> ''counter:client_id''" "JOBS_BY_STATE s \<noteq> ''counter:client_id''"
  "JOBS_BY_USER s \<noteq> ''counter:client_id''"
  by (simp_all add: key_simps)

lemma prefix_keys [simp]:
  "prefix CLIENT_PREFIX (CLIENT u)" "prefix JOB_PREFIX (JOB i)"
  by (simp_all add: key_simps)

lemma prefix_CLIENT: "prefix CLIENT_PREFIX k \<longleftrightarrow> (\<exists>u. k = CLIENT u)"
  by (auto simp: key_simps prefix_def)

lemma prefix_JOB: "prefix JOB_PREFIX k \<longleftrightarrow> (\<exists>u. k = JOB u)"
  by (auto simp: key_simps prefix_def)

section \<open>Methods never throw\<close>

text \<open>
  Whatever the server answers, each public method of the class that has a
  \<open>try\<close> returns an \<open>EntityResult\<close>.
\<close>

lemma database_total [simp, intro]:
  "total (createClient M u code now)" "total (getClient M u)" "total (updateClient M u us)"
  "total (getAllClients M)" "total (getClientsByStatus M s)"
  "total (createJob M jd now rnd)" "total (getJob M i)" "total (updateJob M i js)"
  "total (getJobsByState M s)" "total (getJobsByUser M u)" "total (getAllJobs M)"
  "total (incrementJobViews M i)" "total (incrementJobDownloads M i)" "total (deleteJob M i)"
  "total (getJobsCreatedBefore M now)" "total (cleanupOldJobs M now)"
  by (simp_all add: createClient_def getClient_def updateClient_def getAllClients_def
    getClientsByStatus_def createJob_def getJob_def updateJob_def getJobsByState_def
    getJobsByUser_def getAllJobs_def incrementJobViews_def incrementJobDownloads_def
    deleteJob_def getJobsCreatedBefore_def cleanupOldJobs_def)

lemma accounts_total [simp, intro]:
  "total (createSession M ttl u c now rnd)" "total (endSession M s now)"
  "total (getUptimeStats M u now day)" "total (createAPIKey M ul u rnds now)"
  "total (getAPIKey M u)" "total (incrementAPIUsage M u now)" "total (getUUIDFromAPIKey M k)"
  "total (storePurchase M u i now)" "total (hasPurchaseAccess M u i)" "total (getUserPurchases M u)"
  by (simp_all add: createSession_def endSession_def getUptimeStats_def createAPIKey_def
    getAPIKey_def incrementAPIUsage_def getUUIDFromAPIKey_def storePurchase_def
    hasPurchaseAccess_def getUserPurchases_def)

section \<open>Methods that leave clients and jobs alone\<close>

definition same_db :: "'w redis \<Rightarrow> 'w \<Rightarrow> 'w \<Rightarrow> bool" where
  "same_db M w w' \<longleftrightarrow>
     (\<forall>u. strs M w' (CLIENT u) = strs M w (CLIENT u)) \<and> (\<forall>i. strs M w' (JOB i) = strs M w (JOB i)) \<and>
     (\<forall>s. set (mems M w' (CLIENTS_BY_STATUS s)) = set (mems M w (CLIENTS_BY_STATUS s))) \<and>
     (\<forall>s. set (mems M w' (JOBS_BY_STATE s)) = set (mems M w (JOBS_BY_STATE s))) \<and>
     (\<forall>u. set (mems M w' (JOBS_BY_USER u)) = set (mems M w (JOBS_BY_USER u)))"

definition keeps_db :: "'w redis \<Rightarrow> ('w, 'a) act \<Rightarrow> bool" where
  "keeps_db M m \<longleftrightarrow> (\<forall>w. same_db M w (snd (m w)))"

text \<open>A key of none of the five families.\<close>

definition foreign :: "string \<Rightarrow> bool" where
  "foreign k \<longleftrightarrow> (\<forall>u. k \<noteq> CLIENT u) \<and> (\<forall>u. k \<noteq> JOB u) \<and> (\<forall>u. k \<noteq> CLIENTS_BY_STATUS u) \<and>
     (\<forall>u. k \<noteq> JOBS_BY_STATE u) \<and> (\<forall>u. k \<noteq> JOBS_BY_USER u)"

lemma foreignD:
  assumes "foreign k"
  shows "CLIENT u \<noteq> k" "JOB u \<noteq> k" "CLIENTS_BY_STATUS u \<noteq> k" "JOBS_BY_STATE u \<noteq> k"
    "JOBS_BY_USER u \<noteq> k"
  using assms by (auto simp: foreign_def)

lemma same_db_maps:
  assumes "same_db M w w'"
  shows "clients M w' = clients M w" "jobs M w' = jobs M w" "db_inv M w' = db_inv M w"
proof -
  show cj: "clients M w' = clients M w" "jobs M w' = jobs M w"
    using assms by (auto simp: same_db_def clients_def jobs_def fun_eq_iff)
  have "db_typed M w' = db_typed M w"
    using assms unfolding same_db_def db_typed_def by simp
  then show "db_inv M w' = db_inv M w"
    using assms cj
    by (simp add: same_db_def db_inv_def status_index_def state_index_def user_index_def)
qed

lemma same_db_refl [simp, intro]: "same_db M w w"
  by (simp add: same_db_def)

lemma same_db_trans: "same_db M w w' \<Longrightarrow> same_db M w' w'' \<Longrightarrow> same_db M w w''"
  by (simp add: same_db_def)

lemma same_dbI: "strs M w' = strs M w \<Longrightarrow> mems M w' = mems M w \<Longrightarrow> same_db M w w'"
  by (simp add: same_db_def)

lemma keeps_dbD: "keeps_db M m \<Longrightarrow> same_db M w (snd (m w))"
  by (simp add: keeps_db_def)

lemma keeps_db_preserves: "keeps_db M m \<Longrightarrow> preserves (db_inv M) m"
  unfolding keeps_db_def preserves_def by (metis same_db_maps(3))

lemma keeps_db_return [simp, keeps_rules]: "keeps_db M (returnA a)"
  by (simp add: keeps_db_def act_simps)

lemma keeps_db_throw [simp, keeps_rules]: "keeps_db M (throwA e)"
  by (simp add: keeps_db_def act_simps)

lemma keeps_db_bind [keeps_rules]:
  "keeps_db M m \<Longrightarrow> (\<And>a. keeps_db M (f a)) \<Longrightarrow> keeps_db M (bindA m f)"
  unfolding keeps_db_def bindA_def
  by (auto split: prod.split sum.split) (metis same_db_trans snd_conv)+

lemma keeps_db_then [keeps_rules]: "keeps_db M m \<Longrightarrow> keeps_db M n \<Longrightarrow> keeps_db M (thenA m n)"
  unfolding thenA_def by (rule keeps_db_bind)

lemma keeps_db_catch [keeps_rules]:
  "keeps_db M m \<Longrightarrow> (\<And>e. keeps_db M (h e)) \<Longrightarrow> keeps_db M (catchA m h)"
  unfolding keeps_db_def catchA_def
  by (auto split: prod.split sum.split) (metis same_db_trans snd_conv)+

lemma keeps_db_foldA [keeps_rules]:
  assumes "\<And>s x. keeps_db M (f s x)"
  shows "keeps_db M (foldA f s xs)"
  by (induction xs arbitrary: s) (auto intro: assms keeps_rules)

lemma keeps_db_mapA [keeps_rules]:
  assumes "\<And>x. keeps_db M (f x)"
  shows "keeps_db M (mapA f xs)"
  by (induction xs) (auto intro: assms keeps_rules)

lemma keeps_db_parse_as [simp, keeps_rules]: "keeps_db M (parse_as p v)"
  by (simp add: parse_as_def split: option.split)

lemma keeps_db_cases [keeps_rules]:
  "(b \<Longrightarrow> keeps_db M m) \<Longrightarrow> (\<not> b \<Longrightarrow> keeps_db M n) \<Longrightarrow> keeps_db M (if b then m else n)"
  "(opt = None \<Longrightarrow> keeps_db M m) \<Longrightarrow> (\<And>a. opt = Some a \<Longrightarrow> keeps_db M (f a)) \<Longrightarrow>
     keeps_db M (case opt of None \<Rightarrow> m | Some a \<Rightarrow> f a)"
  "(\<And>a. res = Success a \<Longrightarrow> keeps_db M (g a)) \<Longrightarrow> (\<And>k e. res = Failure k e \<Longrightarrow> keeps_db M (h k e)) \<Longrightarrow>
     keeps_db M (case res of Success a \<Rightarrow> g a | Failure k e \<Rightarrow> h k e)"
  "(xs = [] \<Longrightarrow> keeps_db M m) \<Longrightarrow> (\<And>y ys. xs = y # ys \<Longrightarrow> keeps_db M (l y ys)) \<Longrightarrow>
     keeps_db M (case xs of [] \<Rightarrow> m | y # ys \<Rightarrow> l y ys)"
  "(\<And>a b. pr = (a, b) \<Longrightarrow> keeps_db M (q a b)) \<Longrightarrow> keeps_db M (case pr of (a, b) \<Rightarrow> q a b)"
  by (auto split: option.split EntityResult.split list.split prod.split)

lemma foreign_keys [simp, keeps_rules]:
  "foreign (SESSION s)" "foreign (SESSIONS_BY_USER u)" "foreign (API_KEY u)" "foreign (API_LOOKUP u)"
  "foreign (PURCHASE u j)" "foreign (PURCHASES_BY_USER u)" "foreign (PURCHASES_BY_JOB j)"
  "foreign (UPTIME_SESSION s)" "foreign (UPTIME_ACTIVE u)" "foreign (UPTIME_DAILY a b)"
  "foreign (UPTIME_WEEKLY u)" "foreign (UPTIME_DISTRIBUTION d)" "foreign (UPTIME_TRANSACTION t)"
  "foreign (UPTIME_USER_INDEX u)" "foreign (UPTIME_DATE_INDEX d)" "foreign (RELATIONSHIP u)"
  "foreign (CODE_LOOKUP c)" "foreign (REFERRAL_REWARD r)" "foreign (MONTHLY_CAP u m)"
  "foreign (USER_L1_REFERRALS u)" "foreign (USER_L2_REFERRALS u)" "foreign (REWARDS_BY_USER u)"
  "foreign (REWARDS_BY_REFEREE u)" "foreign PENDING_24H" "foreign ''counter:client_id''"
  by (simp_all add: foreign_def key_simps)

context redis_quiet
begin

lemma keeps_db_command:
  assumes "\<And>w. same_db M w (snd (f w))"
  shows "keeps_db M (command M f)"
  unfolding keeps_db_def command_def
proof (intro allI)
  fix w
  obtain e w' where a: "attempt M w = (e, w')" by fastforce
  then have "same_db M w w'" using attempt_quiet by (intro same_dbI) blast+
  then show "same_db M w (snd (case attempt M w of (e, w') \<Rightarrow> (case e of Some msg \<Rightarrow> (Inl msg, w')
      | None \<Rightarrow> (case f w' of (a, w'') \<Rightarrow> (Inr a, w'')))))"
    using assms [of w'] same_db_trans by (fastforce simp: a split: option.split prod.split)
qed

lemma keeps_db_reads [simp, keeps_rules]:
  "keeps_db M (GET M k)" "keeps_db M (SMEMBERS M k)" "keeps_db M (KEYS M k)"
  "keeps_db M (WATCH M k)" "keeps_db M (UNWATCH M)"
  by (auto simp: GET_def SMEMBERS_def KEYS_def WATCH_def UNWATCH_def strs_laws mems_laws
    intro!: keeps_db_command same_dbI)

lemma keeps_db_writes [simp, keeps_rules]:
  assumes "foreign k"
  shows "keeps_db M (SET M k v)" "keeps_db M (SETEX M k v t)" "keeps_db M (DEL M k)"
    "keeps_db M (SADD M k m)" "keeps_db M (SREM M k m)" "keeps_db M (INCR M k)"
  using foreignD [OF assms] unfolding SET_def SETEX_def DEL_def SADD_def SREM_def INCR_def
  by (auto simp: same_db_def strs_laws mems_laws intro!: keeps_db_command)

lemma keeps_db_read_as [simp, keeps_rules]: "keeps_db M (read_as M p k)"
  unfolding read_as_def by (intro keeps_rules)

lemma keeps_db_clients [simp, keeps_rules]:
  "keeps_db M (getClient M u)" "keeps_db M (getJob M i)" "keeps_db M (getAllClients M)"
  "keeps_db M (getAllJobs M)" "keeps_db M (getJobsCreatedBefore M t)"
  unfolding getClient_def getJob_def getAllClients_def getAllJobs_def getJobsCreatedBefore_def
  by (intro keeps_rules)+

lemma keeps_db_lists [simp, keeps_rules]:
  "keeps_db M (getClientsByStatus M s)" "keeps_db M (jobs_of_ids M is)"
  "keeps_db M (getJobsByState M s)" "keeps_db M (getJobsByUser M u)"
proof -
  have j: "keeps_db M (jobs_of_ids M is)" for "is"
    unfolding jobs_of_ids_def by (intro keeps_rules)
  show "keeps_db M (jobs_of_ids M is)" by (rule j)
  show "keeps_db M (getJobsByState M s)" "keeps_db M (getJobsByUser M u)"
    unfolding getJobsByState_def getJobsByUser_def by (intro keeps_rules j)+
  show "keeps_db M (getClientsByStatus M s)"
    unfolding getClientsByStatus_def by (intro keeps_rules)
qed

lemma keeps_db_apikey [simp, keeps_rules]: "keeps_db M (getAPIKey M u)"
  unfolding getAPIKey_def by (intro keeps_rules)

lemma keeps_db_uptime [simp, keeps_rules]:
  "keeps_db M (today_uptime M u day b)" "keeps_db M (total_uptime M u b)"
  unfolding today_uptime_def total_uptime_def by (intro keeps_rules)+

lemma keeps_db_accounts [simp, keeps_rules]:
  "keeps_db M (createSession M ttl u c now rnd)" "keeps_db M (endSession M s now)"
  "keeps_db M (getUptimeStats M u now day)" "keeps_db M (createAPIKey M ul u rnds now)"
  "keeps_db M (incrementAPIUsage M u now)" "keeps_db M (getUUIDFromAPIKey M k)"
  "keeps_db M (storePurchase M u i now)" "keeps_db M (hasPurchaseAccess M u i)"
  "keeps_db M (getUserPurchases M u)"
  unfolding createSession_def endSession_def getUptimeStats_def createAPIKey_def
    incrementAPIUsage_def getUUIDFromAPIKey_def storePurchase_def hasPurchaseAccess_def
    getUserPurchases_def Let_def
  by (intro keeps_rules)+

end

end
