(* ===== verification/DatabaseEffects.thy ===== *)
theory DatabaseEffects
  imports DatabaseFacts
begin

text \<open>
  The effect of every method of \<open>Database\<close> on clients and jobs, on a server that
  answers: \<open>put_client\<close>, \<open>put_job\<close> and \<open>drop_job\<close> name the worlds the writing
  methods end in, the \<open>_eq\<close> lemmas say that the methods end there, and the rest
  of the theory shows what these worlds hold and that they keep \<open>db_inv\<close>.
\<close>

section \<open>The worlds the methods end in\<close>

definition put_client ::
  "'w redis \<Rightarrow> string \<Rightarrow> client_field list \<Rightarrow> ClientStruct \<Rightarrow> 'w \<Rightarrow> 'w" where
  "put_client M u us c w = fold (run_queued M)
     (QSet (CLIENT u) (VClient (spread_client us c)) # client_moves u us c) w"

definition state_moved ::
  "'w redis \<Rightarrow> string \<Rightarrow> job_field list \<Rightarrow> JobStruct \<Rightarrow> 'w \<Rightarrow> 'w" where
  "state_moved M i us j w = (case job_state_of us of
       None \<Rightarrow> w
     | Some s \<Rightarrow> if truthy s \<and> s \<noteq> j_state j
         then addm M (JOBS_BY_STATE s) i (remm M (JOBS_BY_STATE (j_state j)) i w) else w)"

definition user_moved ::
  "'w redis \<Rightarrow> string \<Rightarrow> job_field list \<Rightarrow> JobStruct \<Rightarrow> 'w \<Rightarrow> 'w" where
  "user_moved M i us j w = (case job_user_of us of
       None \<Rightarrow> w
     | Some u \<Rightarrow> if truthy u \<and> u \<noteq> j_user_principal_id j
         then addm M (JOBS_BY_USER u) i
           (if truthy (j_user_principal_id j)
            then remm M (JOBS_BY_USER (j_user_principal_id j)) i w else w)
         else w)"

definition put_job ::
  "'w redis \<Rightarrow> string \<Rightarrow> job_field list \<Rightarrow> JobStruct \<Rightarrow> 'w \<Rightarrow> 'w" where
  "put_job M i us j w = user_moved M i us j (state_moved M i us j
     (put M (JOB i) (VJob (spread_job us j)) w))"

definition drop_job :: "'w redis \<Rightarrow> string \<Rightarrow> JobStruct \<Rightarrow> 'w \<Rightarrow> 'w" where
  "drop_job M i j w = remm M (PURCHASES_BY_JOB i) ''*''
     ((if truthy (j_user_principal_id j) then remm M (JOBS_BY_USER (j_user_principal_id j)) i else id)
     ((if truthy (j_clientUUID j) then remm M (JOBS_BY_USER (j_clientUUID j)) i else id)
     (remm M (JOBS_BY_STATE (j_state j)) i (dele M (JOB i) w))))"

definition new_job :: "JobStruct \<Rightarrow> int \<Rightarrow> int \<Rightarrow> JobStruct" where
  "new_job jd now rnd = jd\<lparr>j_jobID := generateJobId now rnd, j_assignedAt := now,
     j_completeAt := 0, j_job_views := 0, j_job_downloads := 0\<rparr>"

definition add_job :: "'w redis \<Rightarrow> JobStruct \<Rightarrow> 'w \<Rightarrow> 'w" where
  "add_job M j w =
     (if truthy (j_user_principal_id j)
      then addm M (JOBS_BY_USER (j_user_principal_id j)) (j_jobID j) else id)
     (addm M (JOBS_BY_USER (j_clientUUID j)) (j_jobID j)
     (addm M (JOBS_BY_STATE (j_state j)) (j_jobID j)
     (put M (JOB (j_jobID j)) (VJob j) w)))"

text \<open>The identifiers under which the store has a client or a job key, in \<open>KEYS\<close> order.\<close>

definition client_ids :: "'w redis \<Rightarrow> 'w \<Rightarrow> string list" where
  "client_ids M w = map (drop (length CLIENT_PREFIX)) (filter (prefix CLIENT_PREFIX) (allkeys M w))"

definition job_ids :: "'w redis \<Rightarrow> 'w \<Rightarrow> string list" where
  "job_ids M w = map (drop (length JOB_PREFIX)) (filter (prefix JOB_PREFIX) (allkeys M w))"

definition drop_jobs :: "'w redis \<Rightarrow> JobStruct list \<Rightarrow> 'w \<Rightarrow> 'w" where
  "drop_jobs M js w = fold (\<lambda>j. drop_job M (j_jobID j) j) js w"

context redis_server
begin

lemma same_data_watch [simp]:
  "clients M (watch M k w) = clients M w" "clients M (unwatch M w) = clients M w"
  "jobs M (watch M k w) = jobs M w" "jobs M (unwatch M w) = jobs M w"
  "db_inv M (watch M k w) = db_inv M w" "db_inv M (unwatch M w) = db_inv M w"
  using same_strs [OF strs_watch] same_strs [OF strs_unwatch] same_world [OF strs_watch mems_watch]
    same_world [OF strs_unwatch mems_unwatch] by auto

section \<open>Writing clients\<close>

lemma strs_put_client [simp]:
  "strs M (put_client M u us c w) = (strs M w)(CLIENT u \<mapsto> VClient (spread_client us c))"
  by (auto simp: put_client_def client_moves_def strs_laws split: option.split)

lemma clients_put_client [simp]:
  "clients M (put_client M u us c w) = (clients M w)(u \<mapsto> spread_client us c)"
  by (auto simp: clients_def fun_eq_iff)

lemma jobs_put_client [simp]: "jobs M (put_client M u us c w) = jobs M w"
  by (auto simp: jobs_def fun_eq_iff)

lemma mems_put_client:
  "x \<in> set (mems M (put_client M u us c w) (CLIENTS_BY_STATUS s)) \<longleftrightarrow>
     (if x = u \<and> (\<exists>t. status_of us = Some t \<and> truthy t \<and> t \<noteq> c_clientStatus c)
      then status_of us = Some s \<or> (x \<in> set (mems M w (CLIENTS_BY_STATUS s)) \<and> s \<noteq> c_clientStatus c)
      else x \<in> set (mems M w (CLIENTS_BY_STATUS s)))"
  by (auto simp: put_client_def client_moves_def addm_iff remm_iff mems_put split: option.splits)

lemma mems_put_client_other:
  "k \<noteq> CLIENT u \<Longrightarrow> (\<And>s. k \<noteq> CLIENTS_BY_STATUS s) \<Longrightarrow> mems M (put_client M u us c w) k = mems M w k"
  by (auto simp: put_client_def client_moves_def mems_laws split: option.split)

lemma db_inv_put_client:
  assumes inv: "db_inv M w" and c: "clients M w u = Some c" and us: "proper_client_update us"
  shows "db_inv M (put_client M u us c w)"
proof -
  have "c_user_principal_id c = u"
    using inv c db_typed_client unfolding db_inv_def by metis
  then have "db_typed M (put_client M u us c w)"
    using inv unfolding db_inv_def db_typed_def by auto
  moreover have "status_index M (put_client M u us c w)"
    using inv c us unfolding db_inv_def status_index_def proper_client_update_def
    by (auto simp: mems_put_client spread_client_status truthy_def split: option.splits)
  ultimately show ?thesis
    using inv c by (auto simp: db_inv_def state_index_def user_index_def mems_put_client_other)
qed

section \<open>Writing jobs\<close>

lemma strs_moved [simp]:
  "strs M (state_moved M i us j w) = strs M w" "strs M (user_moved M i us j w) = strs M w"
  by (auto simp: state_moved_def user_moved_def strs_laws split: option.split)

lemma mems_state_moved:
  "(\<And>s. k \<noteq> JOBS_BY_STATE s) \<Longrightarrow> mems M (state_moved M i us j w) k = mems M w k"
  by (auto simp: state_moved_def mems_laws split: option.split)

lemma mems_user_moved:
  "(\<And>s. k \<noteq> JOBS_BY_USER s) \<Longrightarrow> mems M (user_moved M i us j w) k = mems M w k"
  by (auto simp: user_moved_def mems_laws split: option.split)

lemma strs_put_job [simp]: "strs M (put_job M i us j w) = (strs M w)(JOB i \<mapsto> VJob (spread_job us j))"
  by (simp add: put_job_def strs_laws)

lemma jobs_put_job [simp]: "jobs M (put_job M i us j w) = (jobs M w)(i \<mapsto> spread_job us j)"
  by (auto simp: jobs_def fun_eq_iff)

lemma clients_put_job [simp]: "clients M (put_job M i us j w) = clients M w"
  by (auto simp: clients_def fun_eq_iff)

lemma state_put_job:
  "x \<in> set (mems M (put_job M i us j w) (JOBS_BY_STATE s)) \<longleftrightarrow>
     (case job_state_of us of
        None \<Rightarrow> x \<in> set (mems M w (JOBS_BY_STATE s))
      | Some t \<Rightarrow> if x = i \<and> truthy t \<and> t \<noteq> j_state j
          then s = t \<or> (x \<in> set (mems M w (JOBS_BY_STATE s)) \<and> s \<noteq> j_state j)
          else x \<in> set (mems M w (JOBS_BY_STATE s)))"
  by (auto simp: put_job_def mems_user_moved state_moved_def addm_iff remm_iff mems_put
    split: option.split)

lemma user_put_job:
  "x \<in> set (mems M (put_job M i us j w) (JOBS_BY_USER v)) \<longleftrightarrow>
     (case job_user_of us of
        None \<Rightarrow> x \<in> set (mems M w (JOBS_BY_USER v))
      | Some t \<Rightarrow> if x = i \<and> truthy t \<and> t \<noteq> j_user_principal_id j
          then v = t \<or> (x \<in> set (mems M w (JOBS_BY_USER v)) \<and> \<not> (truthy v \<and> v = j_user_principal_id j))
          else x \<in> set (mems M w (JOBS_BY_USER v)))"
  by (auto simp: put_job_def mems_state_moved user_moved_def addm_iff remm_iff mems_put
    split: option.split)

lemma mems_put_job_other:
  "k \<noteq> JOB i \<Longrightarrow> (\<And>s. k \<noteq> JOBS_BY_STATE s) \<Longrightarrow> (\<And>s. k \<noteq> JOBS_BY_USER s) \<Longrightarrow>
     mems M (put_job M i us j w) k = mems M w k"
  by (simp add: put_job_def mems_user_moved mems_state_moved mems_put)

lemma db_inv_put_job:
  assumes inv: "db_inv M w" and j: "jobs M w i = Some j" and us: "proper_job_update us"
  shows "db_inv M (put_job M i us j w)"
proof -
  have "j_jobID j = i"
    using inv j db_typed_job unfolding db_inv_def by metis
  then have "db_typed M (put_job M i us j w)"
    using inv unfolding db_inv_def db_typed_def by auto
  moreover have "state_index M (put_job M i us j w)"
    using inv j us unfolding db_inv_def state_index_def proper_job_update_def
    by (auto simp: state_put_job spread_job_state truthy_def split: option.splits)
  moreover have "user_index M (put_job M i us j w)"
  proof (rule user_indexI)
    fix v x assume v: "v \<noteq> []" and x: "x \<in> set (mems M (put_job M i us j w) (JOBS_BY_USER v))"
    have old: "x \<in> set (mems M w (JOBS_BY_USER v)) \<Longrightarrow>
        \<exists>k. jobs M w x = Some k \<and> (j_clientUUID k = v \<or> j_user_principal_id k = v)"
      using inv v unfolding db_inv_def by (blast dest: user_indexD)
    show "\<exists>k. jobs M (put_job M i us j w) x = Some k \<and> (j_clientUUID k = v \<or> j_user_principal_id k = v)"
      using old x v j us unfolding proper_job_update_def
      by (auto simp: user_put_job spread_job_user truthy_def split: option.splits if_splits)
  qed
  ultimately show ?thesis
    using inv by (simp add: db_inv_def status_index_def mems_put_job_other)
qed

lemma strs_add_job [simp]: "strs M (add_job M j w) = (strs M w)(JOB (j_jobID j) \<mapsto> VJob j)"
  by (simp add: add_job_def strs_laws)

lemma jobs_add_job [simp]: "jobs M (add_job M j w) = (jobs M w)(j_jobID j \<mapsto> j)"
  by (auto simp: jobs_def fun_eq_iff)

lemma clients_add_job [simp]: "clients M (add_job M j w) = clients M w"
  by (auto simp: clients_def fun_eq_iff)

lemma mems_add_job:
  "x \<in> set (mems M (add_job M j w) (JOBS_BY_STATE s)) \<longleftrightarrow>
     x = j_jobID j \<and> s = j_state j \<or> x \<in> set (mems M w (JOBS_BY_STATE s))"
  "x \<in> set (mems M (add_job M j w) (JOBS_BY_USER v)) \<longleftrightarrow>
     x = j_jobID j \<and> (v = j_clientUUID j \<or> truthy v \<and> v = j_user_principal_id j) \<or>
     x \<in> set (mems M w (JOBS_BY_USER v))"
  "mems M (add_job M j w) (CLIENTS_BY_STATUS t) = mems M w (CLIENTS_BY_STATUS t)"
  by (auto simp: add_job_def addm_iff mems_put mems_addm_other)

lemma db_inv_add_job:
  assumes inv: "db_inv M w" and fresh: "strs M w (JOB (j_jobID j)) = None"
  shows "db_inv M (add_job M j w)"
proof -
  have new: "jobs M w (j_jobID j) = None"
    using fresh by (simp add: jobs_def)
  have "db_typed M (add_job M j w)"
    using inv unfolding db_inv_def db_typed_def by auto
  moreover have "state_index M (add_job M j w)"
    using inv new unfolding db_inv_def state_index_def by (auto simp: mems_add_job)
  moreover have "user_index M (add_job M j w)"
  proof (rule user_indexI)
    fix v x assume v: "v \<noteq> []" and x: "x \<in> set (mems M (add_job M j w) (JOBS_BY_USER v))"
    have old: "x \<in> set (mems M w (JOBS_BY_USER v)) \<Longrightarrow>
        \<exists>k. jobs M w x = Some k \<and> (j_clientUUID k = v \<or> j_user_principal_id k = v)"
      using inv v unfolding db_inv_def by (blast dest: user_indexD)
    show "\<exists>k. jobs M (add_job M j w) x = Some k \<and> (j_clientUUID k = v \<or> j_user_principal_id k = v)"
      using old x v new by (auto simp: mems_add_job truthy_def)
  qed
  ultimately show ?thesis
    using inv by (simp add: db_inv_def status_index_def mems_add_job)
qed

lemma strs_drop_job [simp]: "strs M (drop_job M i j w) = (strs M w)(JOB i := None)"
  by (simp add: drop_job_def strs_laws)

lemma jobs_drop_job [simp]: "jobs M (drop_job M i j w) = (jobs M w)(i := None)"
  by (auto simp: jobs_def fun_eq_iff)

lemma clients_drop_job [simp]: "clients M (drop_job M i j w) = clients M w"
  by (auto simp: clients_def fun_eq_iff)

lemma mems_drop_job:
  "x \<in> set (mems M (drop_job M i j w) (JOBS_BY_STATE s)) \<longleftrightarrow>
     x \<in> set (mems M w (JOBS_BY_STATE s)) \<and> \<not> (x = i \<and> s = j_state j)"
  "x \<in> set (mems M (drop_job M i j w) (JOBS_BY_USER v)) \<longleftrightarrow>
     x \<in> set (mems M w (JOBS_BY_USER v)) \<and>
     \<not> (x = i \<and> truthy v \<and> (v = j_clientUUID j \<or> v = j_user_principal_id j))"
  "mems M (drop_job M i j w) (CLIENTS_BY_STATUS t) = mems M w (CLIENTS_BY_STATUS t)"
  by (auto simp: drop_job_def remm_iff mems_dele mems_remm_other)

lemma db_inv_drop_job:
  assumes inv: "db_inv M w" and j: "jobs M w i = Some j"
  shows "db_inv M (drop_job M i j w)"
proof -
  have "db_typed M (drop_job M i j w)"
    using inv unfolding db_inv_def db_typed_def by auto
  moreover have "state_index M (drop_job M i j w)"
    using inv j unfolding db_inv_def state_index_def by (auto simp: mems_drop_job)
  moreover have "user_index M (drop_job M i j w)"
  proof (rule user_indexI)
    fix v x assume v: "v \<noteq> []" and x: "x \<in> set (mems M (drop_job M i j w) (JOBS_BY_USER v))"
    have old: "x \<in> set (mems M w (JOBS_BY_USER v)) \<Longrightarrow>
        \<exists>k. jobs M w x = Some k \<and> (j_clientUUID k = v \<or> j_user_principal_id k = v)"
      using inv v unfolding db_inv_def by (blast dest: user_indexD)
    show "\<exists>k. jobs M (drop_job M i j w) x = Some k \<and> (j_clientUUID k = v \<or> j_user_principal_id k = v)"
      using old x v j by (auto simp: mems_drop_job truthy_def)
  qed
  ultimately show ?thesis
    using inv by (simp add: db_inv_def status_index_def mems_drop_job)
qed

text \<open>The counters of a job.\<close>

lemma db_inv_same_index:
  assumes inv: "db_inv M w" and j: "jobs M w i = Some j"
    and same: "j_jobID j' = i" "j_state j' = j_state j" "j_clientUUID j' = j_clientUUID j"
      "j_user_principal_id j' = j_user_principal_id j"
  shows "db_inv M (put M (JOB i) (VJob j') w)" "jobs M (put M (JOB i) (VJob j') w) = (jobs M w)(i \<mapsto> j')"
proof -
  let ?w = "put M (JOB i) (VJob j') w"
  show jb: "jobs M ?w = (jobs M w)(i \<mapsto> j')"
    by (auto simp: jobs_def strs_put fun_eq_iff)
  have cl: "clients M ?w = clients M w"
    by (auto simp: clients_def strs_put fun_eq_iff)
  have "db_typed M ?w"
    using inv same unfolding db_inv_def db_typed_def by (auto simp: strs_put)
  moreover have "state_index M ?w"
    using inv same j unfolding db_inv_def state_index_def by (auto simp: jb mems_put)
  moreover have "user_index M ?w"
  proof (rule user_indexI)
    fix v x assume v: "v \<noteq> []" and x: "x \<in> set (mems M ?w (JOBS_BY_USER v))"
    then have "\<exists>k. jobs M w x = Some k \<and> (j_clientUUID k = v \<or> j_user_principal_id k = v)"
      using inv unfolding db_inv_def by (auto simp: mems_put dest: user_indexD)
    then show "\<exists>k. jobs M ?w x = Some k \<and> (j_clientUUID k = v \<or> j_user_principal_id k = v)"
      using j same by (auto simp: jb)
  qed
  ultimately show "db_inv M ?w"
    using inv by (simp add: db_inv_def status_index_def cl mems_put)
qed

section \<open>Listings\<close>

lemma client_keys: "filter (prefix CLIENT_PREFIX) (allkeys M w) = map CLIENT (client_ids M w)"
  by (auto simp: client_ids_def o_def prefix_def key_simps intro!: map_idI [symmetric])

lemma job_keys: "filter (prefix JOB_PREFIX) (allkeys M w) = map JOB (job_ids M w)"
  by (auto simp: job_ids_def o_def prefix_def key_simps intro!: map_idI [symmetric])

lemma set_client_ids: "u \<in> set (client_ids M w) \<longleftrightarrow> CLIENT u \<in> set (allkeys M w)"
proof -
  have "u \<in> set (client_ids M w) \<longleftrightarrow> CLIENT u \<in> set (map CLIENT (client_ids M w))"
    by auto
  then show ?thesis by (simp add: client_keys [symmetric])
qed

lemma set_job_ids: "i \<in> set (job_ids M w) \<longleftrightarrow> JOB i \<in> set (allkeys M w)"
proof -
  have "i \<in> set (job_ids M w) \<longleftrightarrow> JOB i \<in> set (map JOB (job_ids M w))"
    by auto
  then show ?thesis by (simp add: job_keys [symmetric])
qed

lemma distinct_ids: "distinct (client_ids M w)" "distinct (job_ids M w)"
proof -
  have "distinct (map CLIENT (client_ids M w))" "distinct (map JOB (job_ids M w))"
    by (simp_all add: client_keys [symmetric] job_keys [symmetric] keys_distinct)
  then show "distinct (client_ids M w)" "distinct (job_ids M w)"
    by (simp_all add: distinct_map)
qed

lemma listed_clients:
  "c \<in> set (somes (map (clients M w) (client_ids M w))) \<longleftrightarrow> (\<exists>u. clients M w u = Some c)"
proof -
  have "clients M w u = Some c \<Longrightarrow> u \<in> set (client_ids M w)" for u
    by (auto simp: set_client_ids keys_set clients_def split: option.splits)
  then show ?thesis by (auto simp: image_iff) metis
qed

lemma listed_jobs:
  "j \<in> set (somes (map (jobs M w) (job_ids M w))) \<longleftrightarrow> (\<exists>i. jobs M w i = Some j)"
proof -
  have "jobs M w i = Some j \<Longrightarrow> i \<in> set (job_ids M w)" for i
    by (auto simp: set_job_ids keys_set jobs_def split: option.splits)
  then show ?thesis by (auto simp: image_iff) metis
qed

lemma distinct_listed_jobs:
  "db_typed M w \<Longrightarrow> distinct (map j_jobID (somes (map (jobs M w) (job_ids M w))))"
  by (rule distinct_map_somes [OF distinct_ids(2)]) (auto dest: db_typed_job)

lemma listed_by_status:
  "db_inv M w \<Longrightarrow> c \<in> set (somes (map (clients M w) (mems M w (CLIENTS_BY_STATUS s)))) \<longleftrightarrow>
     (\<exists>u. clients M w u = Some c) \<and> c_clientStatus c = s"
  unfolding db_inv_def status_index_def by (auto simp: image_iff) (metis option.inject)

lemma listed_by_state:
  "db_inv M w \<Longrightarrow> j \<in> set (somes (map (jobs M w) (mems M w (JOBS_BY_STATE s)))) \<longleftrightarrow>
     (\<exists>i. jobs M w i = Some j) \<and> j_state j = s"
  unfolding db_inv_def state_index_def by (auto simp: image_iff) (metis option.inject)

end

section \<open>A server that answers\<close>

context redis_up
begin

lemma getClient_eq:
  assumes "db_typed M w"
  shows "getClient M u w = (Inr (case clients M w u of
    None \<Rightarrow> Failure NotFound ''Client not found'' | Some c \<Rightarrow> Success c), w)"
proof (cases "strs M w (CLIENT u)")
  case None
  then show ?thesis by (simp add: getClient_def act_simps clients_def)
next
  case (Some v)
  with assms obtain c where "v = VClient c" by (blast dest: db_typedD_client)
  with Some show ?thesis by (simp add: getClient_def act_simps clients_def)
qed

lemma getJob_eq:
  assumes "db_typed M w"
  shows "getJob M i w = (Inr (case jobs M w i of
    None \<Rightarrow> Failure NotFound ''Job not found'' | Some j \<Rightarrow> Success j), w)"
proof (cases "strs M w (JOB i)")
  case None
  then show ?thesis by (simp add: getJob_def act_simps jobs_def)
next
  case (Some v)
  with assms obtain j where "v = VJob j" by (blast dest: db_typedD_job)
  with Some show ?thesis by (simp add: getJob_def act_simps jobs_def)
qed

lemma read_client:
  assumes "db_typed M w"
  shows "read_as M as_client (CLIENT u) w = (Inr (clients M w u), w)"
proof (cases "strs M w (CLIENT u)")
  case None
  then show ?thesis by (simp add: read_as_def act_simps clients_def)
next
  case (Some v)
  with assms obtain c where "v = VClient c" by (blast dest: db_typedD_client)
  with Some show ?thesis by (simp add: read_as_def act_simps clients_def)
qed

lemma read_job:
  assumes "db_typed M w"
  shows "read_as M as_job (JOB i) w = (Inr (jobs M w i), w)"
proof (cases "strs M w (JOB i)")
  case None
  then show ?thesis by (simp add: read_as_def act_simps jobs_def)
next
  case (Some v)
  with assms obtain j where "v = VJob j" by (blast dest: db_typedD_job)
  with Some show ?thesis by (simp add: read_as_def act_simps jobs_def)
qed

lemma getAllClients_eq:
  assumes "db_typed M w"
  shows "getAllClients M w = (Inr (Success (somes (map (clients M w) (client_ids M w)))), w)"
proof -
  have "mapA (read_as M as_client) (map CLIENT us) w = (Inr (map (clients M w) us), w)" for us
    by (induction us) (simp_all add: act_simps read_client [OF assms])
  then show ?thesis by (simp add: getAllClients_def act_simps client_keys)
qed

lemma getAllJobs_eq:
  assumes "db_typed M w"
  shows "getAllJobs M w = (Inr (Success (somes (map (jobs M w) (job_ids M w)))), w)"
proof -
  have "mapA (read_as M as_job) (map JOB us) w = (Inr (map (jobs M w) us), w)" for us
    by (induction us) (simp_all add: act_simps read_job [OF assms])
  then show ?thesis by (simp add: getAllJobs_def act_simps job_keys)
qed

lemma getJobsCreatedBefore_eq:
  assumes "db_typed M w"
  shows "getJobsCreatedBefore M t w = (Inr (Success (filter
    (\<lambda>j. j_assignedAt j \<noteq> 0 \<and> j_assignedAt j < t) (somes (map (jobs M w) (job_ids M w))))), w)"
proof -
  let ?keep = "\<lambda>job. case job of None \<Rightarrow> None
    | Some j \<Rightarrow> if j_assignedAt j \<noteq> 0 \<and> j_assignedAt j < t then Some j else None"
  have "mapA (\<lambda>k. bindA (read_as M as_job k) (\<lambda>job. returnA (?keep job))) (map JOB us) w
      = (Inr (map (\<lambda>u. ?keep (jobs M w u)) us), w)" for us
    by (induction us) (simp_all add: act_simps read_job [OF assms])
  moreover have "somes (map (\<lambda>u. ?keep (jobs M w u)) us)
      = filter (\<lambda>j. j_assignedAt j \<noteq> 0 \<and> j_assignedAt j < t) (somes (map (jobs M w) us))" for us
    by (induction us) (auto split: option.split)
  ultimately show ?thesis by (simp add: getJobsCreatedBefore_def act_simps job_keys)
qed

lemma getClientsByStatus_eq:
  assumes "db_typed M w"
  shows "getClientsByStatus M s w =
    (Inr (Success (somes (map (clients M w) (mems M w (CLIENTS_BY_STATUS s))))), w)"
proof -
  have "mapA (\<lambda>u. bindA (getClient M u) (\<lambda>r. returnA (data_or_null r))) us w
      = (Inr (map (clients M w) us), w)" for us
    by (induction us)
       (simp_all add: act_simps getClient_eq [OF assms] data_or_null_def split: option.split)
  then show ?thesis by (simp add: getClientsByStatus_def act_simps)
qed

lemma jobs_of_ids_eq:
  assumes "db_typed M w"
  shows "jobs_of_ids M is w = (Inr (Success (somes (map (jobs M w) is))), w)"
proof -
  have "mapA (\<lambda>i. bindA (getJob M i) (\<lambda>r. returnA (data_or_null r))) is w
      = (Inr (map (jobs M w) is), w)" for "is"
    by (induction "is")
       (simp_all add: act_simps getJob_eq [OF assms] data_or_null_def split: option.split)
  then show ?thesis by (simp add: jobs_of_ids_def act_simps)
qed

lemma getJobsByState_eq:
  "db_typed M w \<Longrightarrow> getJobsByState M s w =
    (Inr (Success (somes (map (jobs M w) (mems M w (JOBS_BY_STATE s))))), w)"
  by (simp add: getJobsByState_def act_simps jobs_of_ids_eq)

lemma getJobsByUser_eq:
  "db_typed M w \<Longrightarrow> getJobsByUser M u w =
    (Inr (Success (somes (map (jobs M w) (mems M w (JOBS_BY_USER u))))), w)"
  by (simp add: getJobsByUser_def act_simps jobs_of_ids_eq)

lemma client_transaction_eq:
  assumes "db_typed M w"
  shows "client_transaction M u us w = (case clients M w u of
      None \<Rightarrow> (Inr (Some (Failure NotFound ''Client not found'')), unwatch M (watch M (CLIENT u) w))
    | Some c \<Rightarrow> (Inr (Some (Success ())), put_client M u us c (watch M (CLIENT u) w)))"
proof -
  have "db_typed M (watch M (CLIENT u) w)" "clients M (watch M (CLIENT u) w) = clients M w"
    using assms same_strs [OF strs_watch] by auto
  then show ?thesis
    by (simp add: client_transaction_def act_simps getClient_eq put_client_def split: option.split)
qed

lemma updateClient_eq:
  assumes "db_typed M w"
  shows "updateClient M u us w = (case clients M w u of
      None \<Rightarrow> (Inr (Failure NotFound ''Client not found''), unwatch M (watch M (CLIENT u) w))
    | Some c \<Rightarrow> (Inr (Success ()), put_client M u us c (watch M (CLIENT u) w)))"
  by (simp add: updateClient_def act_simps numeral_eq_Suc client_transaction_eq [OF assms]
    split: option.split)

lemma move_job_up:
  "move_job_state M i us j w = (Inr (), state_moved M i us j w)"
  "move_job_user M i us j w = (Inr (), user_moved M i us j w)"
  by (auto simp: move_job_state_def move_job_user_def state_moved_def user_moved_def act_simps
    split: option.split)

lemma updateJob_eq:
  assumes "db_typed M w"
  shows "updateJob M i us w = (case jobs M w i of
      None \<Rightarrow> (Inr (Failure NotFound ''Job not found''), w)
    | Some j \<Rightarrow> (Inr (Success ()), put_job M i us j w))"
  by (simp add: updateJob_def act_simps getJob_eq [OF assms] move_job_up put_job_def
    split: option.split)

lemma createJob_eq:
  "createJob M jd now rnd w = (Inr (Success (new_job jd now rnd)), add_job M (new_job jd now rnd) w)"
  by (simp add: createJob_def act_simps Let_def new_job_def add_job_def)

lemma deleteJob_eq:
  assumes "db_typed M w"
  shows "deleteJob M i w = (Inr (Success ()), case jobs M w i of None \<Rightarrow> w | Some j \<Rightarrow> drop_job M i j w)"
  by (simp add: deleteJob_def act_simps getJob_eq [OF assms] drop_job_def split: option.split)

lemma createClient_eq:
  "createClient M u code now w =
     (let cid = show_int (fst (bump M ''counter:client_id'' w));
          c = new_client u cid code now
      in (Inr (Success c), put M (CODE_LOOKUP code) (VStr u)
           (addm M (CLIENTS_BY_STATUS (client_status INACTIVE)) u
           (put M (CLIENT u) (VClient c) (snd (bump M ''counter:client_id'' w))))))"
  by (simp add: createClient_def getNextClientId_def act_simps Let_def new_client_def)

lemma createClient_effect:
  assumes inv: "db_inv M w" and fresh: "strs M w (CLIENT u) = None" "u \<noteq> []"
    and r: "createClient M u code now w = (Inr (Success c), w')"
  shows "clients M w' = (clients M w)(u \<mapsto> c)" "jobs M w' = jobs M w" "db_inv M w'"
    "strs M w' (CODE_LOOKUP code) = Some (VStr u)"
proof -
  let ?w1 = "snd (bump M ''counter:client_id'' w)"
  have c: "c = new_client u (c_client_id c) code now"
    and w': "w' = put M (CODE_LOOKUP code) (VStr u)
      (addm M (CLIENTS_BY_STATUS (client_status INACTIVE)) u (put M (CLIENT u) (VClient c) ?w1))"
    using r by (auto simp: createClient_eq Let_def new_client_def)
  have st: "c_clientStatus c = client_status INACTIVE" "c_user_principal_id c = u"
    by (subst c, simp add: new_client_def)+
  have s: "strs M w' (CLIENT v) = (if v = u then Some (VClient c) else strs M w (CLIENT v))"
    "strs M w' (JOB i) = strs M w (JOB i)" for v i
    by (auto simp: w' strs_laws)
  show cl: "clients M w' = (clients M w)(u \<mapsto> c)" and jb: "jobs M w' = jobs M w"
    by (auto simp: clients_def jobs_def s fun_eq_iff)
  show "strs M w' (CODE_LOOKUP code) = Some (VStr u)"
    by (simp add: w' strs_laws)
  have m: "x \<in> set (mems M w' (CLIENTS_BY_STATUS t)) \<longleftrightarrow>
      t = client_status INACTIVE \<and> x = u \<or> x \<in> set (mems M w (CLIENTS_BY_STATUS t))"
    "mems M w' (JOBS_BY_STATE t) = mems M w (JOBS_BY_STATE t)"
    "mems M w' (JOBS_BY_USER t) = mems M w (JOBS_BY_USER t)" for x t
    by (auto simp: w' addm_iff mems_laws)
  have "clients M w u = None"
    using fresh by (simp add: clients_def)
  then have "status_index M w'"
    using inv st unfolding db_inv_def status_index_def by (auto simp: m cl)
  moreover have "db_typed M w'"
    using inv st unfolding db_inv_def db_typed_def by (auto simp: s)
  ultimately show "db_inv M w'"
    using inv fresh by (simp add: db_inv_def state_index_def user_index_def m jb cl)
qed

lemma incrementJobViews_eq:
  assumes "db_typed M w"
  shows "incrementJobViews M i w = (case jobs M w i of
      None \<Rightarrow> (Inr (Failure NotFound ''Job not found''), w)
    | Some j \<Rightarrow> (Inr (Success ()), put M (JOB i) (VJob (j\<lparr>j_job_views := j_job_views j + 1\<rparr>)) w))"
  by (simp add: incrementJobViews_def act_simps getJob_eq [OF assms] split: option.split)

lemma incrementJobDownloads_eq:
  assumes "db_typed M w"
  shows "incrementJobDownloads M i w = (case jobs M w i of
      None \<Rightarrow> (Inr (Failure NotFound ''Job not found''), w)
    | Some j \<Rightarrow> (Inr (Success ()), put M (JOB i) (VJob (j\<lparr>j_job_downloads := j_job_downloads j + 1\<rparr>)) w))"
  by (simp add: incrementJobDownloads_def act_simps getJob_eq [OF assms] split: option.split)

section \<open>Cleanup\<close>

lemma drop_jobs_effect:
  assumes "db_inv M w" "distinct (map j_jobID js)"
    and "\<And>j. j \<in> set js \<Longrightarrow> jobs M w (j_jobID j) = Some j"
  shows "db_inv M (drop_jobs M js w) \<and> clients M (drop_jobs M js w) = clients M w \<and>
    jobs M (drop_jobs M js w) = (\<lambda>i. if i \<in> j_jobID ` set js then None else jobs M w i) \<and>
    foldA (cleanup_one M) acc js w =
      (Inr (acc\<lparr>cl_deletedCount := cl_deletedCount acc + int (length js)\<rparr>), drop_jobs M js w)"
  using assms
proof (induction js arbitrary: w acc)
  case Nil
  then show ?case by (simp add: drop_jobs_def act_simps)
next
  case (Cons j js)
  let ?w = "drop_job M (j_jobID j) j w"
  have "db_typed M w" using Cons.prems by (simp add: db_inv_def)
  then have one: "cleanup_one M acc j w =
      (Inr (acc\<lparr>cl_deletedCount := cl_deletedCount acc + 1\<rparr>), ?w)" for acc
    using Cons.prems by (simp add: cleanup_one_def act_simps deleteJob_eq)
  have "db_inv M ?w" using Cons.prems by (intro db_inv_drop_job) auto
  moreover have "j_jobID k \<noteq> j_jobID j" if "k \<in> set js" for k
    using Cons.prems(2) that by (metis distinct.simps(2) image_eqI list.set_map list.simps(9))
  ultimately have IH: "db_inv M (drop_jobs M js ?w) \<and> clients M (drop_jobs M js ?w) = clients M ?w \<and>
    jobs M (drop_jobs M js ?w) = (\<lambda>i. if i \<in> j_jobID ` set js then None else jobs M ?w i) \<and>
    foldA (cleanup_one M) acc js ?w =
      (Inr (acc\<lparr>cl_deletedCount := cl_deletedCount acc + int (length js)\<rparr>), drop_jobs M js ?w)" for acc
    using Cons.prems by (intro Cons.IH) auto
  have "drop_jobs M (j # js) w = drop_jobs M js ?w" by (simp add: drop_jobs_def)
  with IH show ?case
    by (auto simp: act_simps one fun_eq_iff)
qed

lemma cleanupOldJobs_eq:
  fixes w t
  defines "old \<equiv> filter (\<lambda>j. j_assignedAt j \<noteq> 0 \<and> j_assignedAt j < t) (somes (map (jobs M w) (job_ids M w)))"
  assumes inv: "db_inv M w"
  shows "cleanupOldJobs M t w = (Inr (Success \<lparr>cl_deletedCount = int (length old),
      cl_failedDeletions = [], cl_errors = []\<rparr>), drop_jobs M old w)"
    and "db_inv M (drop_jobs M old w)" "clients M (drop_jobs M old w) = clients M w"
    and "jobs M (drop_jobs M old w) i = (case jobs M w i of None \<Rightarrow> None
      | Some j \<Rightarrow> if j_assignedAt j \<noteq> 0 \<and> j_assignedAt j < t then None else Some j)"
proof -
  have typed: "db_typed M w" using inv by (simp add: db_inv_def)
  have d: "distinct (map j_jobID old)"
    using distinct_listed_jobs [OF typed] by (simp add: old_def distinct_map_filter)
  have mem: "j \<in> set old \<longleftrightarrow> (\<exists>i. jobs M w i = Some j) \<and> j_assignedAt j \<noteq> 0 \<and> j_assignedAt j < t" for j
    using listed_jobs [of j w] by (simp add: old_def del: set_somes set_map)
  have stored: "jobs M w (j_jobID j) = Some j" if "j \<in> set old" for j
    using that typed by (auto simp: mem dest: db_typed_job)
  note eff = drop_jobs_effect [OF inv d stored]
  show "db_inv M (drop_jobs M old w)" "clients M (drop_jobs M old w) = clients M w"
    using eff by auto
  show "cleanupOldJobs M t w = (Inr (Success \<lparr>cl_deletedCount = int (length old),
      cl_failedDeletions = [], cl_errors = []\<rparr>), drop_jobs M old w)"
    using eff by (simp add: cleanupOldJobs_def act_simps getJobsCreatedBefore_eq [OF typed]
      foldA_concat concat_batches old_def [symmetric])
  have "jobs M (drop_jobs M old w) i = (if i \<in> j_jobID ` set old then None else jobs M w i)"
    using eff by auto
  moreover have "i \<in> j_jobID ` set old \<longleftrightarrow>
      (\<exists>j. jobs M w i = Some j \<and> j_assignedAt j \<noteq> 0 \<and> j_assignedAt j < t)"
  proof
    assume "i \<in> j_jobID ` set old"
    then show "\<exists>j. jobs M w i = Some j \<and> j_assignedAt j \<noteq> 0 \<and> j_assignedAt j < t"
      using stored mem by auto
  next
    assume "\<exists>j. jobs M w i = Some j \<and> j_assignedAt j \<noteq> 0 \<and> j_assignedAt j < t"
    then obtain j where "jobs M w i = Some j" "j \<in> set old" using mem by blast
    then show "i \<in> j_jobID ` set old"
      using db_typed_job [OF typed] by (metis image_eqI)
  qed
  ultimately show "jobs M (drop_jobs M old w) i = (case jobs M w i of None \<Rightarrow> None
      | Some j \<Rightarrow> if j_assignedAt j \<noteq> 0 \<and> j_assignedAt j < t then None else Some j)"
    by (auto split: option.split)
qed

end

end
