(* ===== verification/Pricing.thy ===== *)
theory Pricing
  imports Prelude "HOL-Library.List_Lexorder" "HOL-Library.Char_ord"
begin

text \<open>
  \<open>src/utils/pricing.ts\<close>: the price of a completed job and the analysis of the
  scraped JSON it is computed from. \<open>JSON.parse\<close> is an argument: it takes a
  text to a \<open>json\<close> value, or to \<open>None\<close> when it throws. The members of an object
  are an association list in \<open>Object.keys\<close> order.
\<close>

datatype json =
    JNull | JBool bool | JNum rat | JStr string | JArr "json list" | JObj "(string \<times> json) list"

definition json_truthy :: "json option \<Rightarrow> bool" where
  "json_truthy v = (case v of
       None \<Rightarrow> False | Some JNull \<Rightarrow> False | Some (JBool b) \<Rightarrow> b | Some (JNum r) \<Rightarrow> r \<noteq> 0
     | Some (JStr s) \<Rightarrow> s \<noteq> [] | Some (JArr _) \<Rightarrow> True | Some (JObj _) \<Rightarrow> True)"

text \<open>
  \<open>parsed.k\<close> on a parsed value that is not \<open>null\<close>; arrays and primitives have
  none of the members the code asks for.
\<close>

fun json_member :: "json \<Rightarrow> string \<Rightarrow> json option" where
  "json_member (JObj kvs) k = map_of kvs k"
| "json_member _ _ = None"

text \<open>\<open>typeof v === 'object' && v !== null\<close> and \<open>Object.keys(v)\<close>; an array's keys are its indices.\<close>

fun json_is_object :: "json \<Rightarrow> bool" where
  "json_is_object (JObj _) = True"
| "json_is_object (JArr _) = True"
| "json_is_object _ = False"

fun object_keys :: "json \<Rightarrow> string list" where
  "object_keys (JObj kvs) = map fst kvs"
| "object_keys (JArr xs) = map (\<lambda>i. show_int (int i)) [0..<length xs]"
| "object_keys _ = []"

section \<open>Prices\<close>

record PricingConstants =
  pc_baseFee :: rat
  pc_fileSizeUnitPrice :: rat
  pc_objectUnitPrice :: rat

definition DEFAULT_PRICING :: PricingConstants where
  "DEFAULT_PRICING = \<lparr>pc_baseFee = 1, pc_fileSizeUnitPrice = 2/10, pc_objectUnitPrice = 1/10\<rparr>"

record PricingResult =
  pr_baseFee :: rat
  pr_fileSizeCost :: rat
  pr_objectsCost :: rat
  pr_totalPrice :: rat

definition calculateJobPrice :: "int \<Rightarrow> int \<Rightarrow> PricingConstants \<Rightarrow> PricingResult" where
  "calculateJobPrice fileSizeKB objectsCount k =
     (let fileSizeCost = pc_fileSizeUnitPrice k * of_int fileSizeKB;
          objectsCost = pc_objectUnitPrice k * of_int objectsCount;
          totalPrice = pc_baseFee k + fileSizeCost + objectsCost
      in \<lparr>pr_baseFee = pc_baseFee k, pr_fileSizeCost = fileSizeCost,
          pr_objectsCost = objectsCost, pr_totalPrice = round_dec 100 totalPrice\<rparr>)"

definition bytesToKB :: "int \<Rightarrow> int" where
  "bytesToKB sizeInBytes = \<lceil>(of_int sizeInBytes :: rat) / 1024\<rceil>"

text \<open>\<open>Buffer.byteLength(content, 'utf8')\<close>: a model character is a byte.\<close>

definition getContentSizeKB :: "string \<Rightarrow> int" where
  "getContentSizeKB content = bytesToKB (int (length content))"

section \<open>Content analysis\<close>

text \<open>The distinct keys of the objects among the items, sorted.\<close>

definition item_keys :: "json list \<Rightarrow> string list" where
  "item_keys items = sort (remdups (concat (map object_keys (filter json_is_object items))))"

definition analyzeJsonContent ::
  "(string \<Rightarrow> json option) \<Rightarrow> string \<Rightarrow> (int \<times> string list) option" where
  "analyzeJsonContent parse content = (case parse content of
       Some (JArr items) \<Rightarrow> Some (int (length items), item_keys items)
     | _ \<Rightarrow> None)"

definition to_upper :: "string \<Rightarrow> string" where
  "to_upper s = map (\<lambda>c. if CHR ''a'' \<le> c \<and> c \<le> CHR ''z''
     then char_of (of_char c - (32::nat)) else c) s"

definition analyzeScrapedDataByType ::
  "(string \<Rightarrow> json option) \<Rightarrow> string \<Rightarrow> string \<Rightarrow> (int \<times> string list) option" where
  "analyzeScrapedDataByType parse content scrapeType =
     (case parse content of
        None \<Rightarrow> None
      | Some parsed \<Rightarrow>
          if to_upper scrapeType = ''TWITTER_POST'' then
            (if json_is_object parsed then
               (case (json_member parsed ''post'', json_member parsed ''reply'') of
                  (Some post, Some (JArr replies)) \<Rightarrow>
                    if json_truthy (Some post)
                    then Some (1 + int (length replies), item_keys (post # replies))
                    else analyzeJsonContent parse content
                | _ \<Rightarrow> analyzeJsonContent parse content)
             else Some (0, []))
          else if to_upper scrapeType = ''TWITTER_PROFILE'' then
            (case parsed of
               JArr tweets \<Rightarrow> Some (int (length tweets), item_keys tweets)
             | _ \<Rightarrow> Some (0, []))
          else analyzeJsonContent parse content)"

section \<open>Validation\<close>

datatype structure_type = ST_array | ST_object | ST_string | ST_number | ST_boolean

record DataStructure =
  dst_type :: structure_type
  dst_itemCount :: int
  dst_fields :: "string list"
  dst_fieldCount :: int

record ContentValidation =
  cv_isValidJson :: bool
  cv_contentType_json :: bool
  cv_isAnalyzable :: bool
  cv_objectsCount :: int
  cv_dataStructure :: "DataStructure option"
  cv_isCountable :: bool
  cv_hasStructuredData :: bool
  cv_isPriceable :: bool

definition structure_of :: "structure_type \<Rightarrow> int \<Rightarrow> string list \<Rightarrow> DataStructure" where
  "structure_of t n fs =
     \<lparr>dst_type = t, dst_itemCount = n, dst_fields = fs, dst_fieldCount = int (length fs)\<rparr>"

text \<open>The part of \<open>validateContentStructure\<close> that inspects the parsed value.\<close>

definition inspect_parsed ::
  "(string \<Rightarrow> json option) \<Rightarrow> string \<Rightarrow> int \<times> DataStructure option \<times> bool" where
  "inspect_parsed parse content = (case parse content of
       None \<Rightarrow> (0, None, False)
     | Some JNull \<Rightarrow> (0, None, False)
     | Some (JArr items) \<Rightarrow>
         (case analyzeJsonContent parse content of
            None \<Rightarrow> (0, None, False)
          | Some (n, fs) \<Rightarrow> (n, Some (structure_of ST_array n fs), True))
     | Some (JObj kvs) \<Rightarrow> (1, Some (structure_of ST_object 1 (map fst kvs)), True)
     | Some (JStr _) \<Rightarrow> (0, Some (structure_of ST_string 0 []), False)
     | Some (JNum _) \<Rightarrow> (0, Some (structure_of ST_number 0 []), False)
     | Some (JBool _) \<Rightarrow> (0, Some (structure_of ST_boolean 0 []), False))"

definition validateContentStructure ::
  "(string \<Rightarrow> json option) \<Rightarrow> string \<Rightarrow> ContentValidation" where
  "validateContentStructure parse content =
     (let isValidJson = (parse content \<noteq> None);
          (objectsCount, dataStructure, isAnalyzable) = inspect_parsed parse content
      in \<lparr>cv_isValidJson = isValidJson, cv_contentType_json = isValidJson,
          cv_isAnalyzable = isAnalyzable, cv_objectsCount = objectsCount,
          cv_dataStructure = dataStructure, cv_isCountable = (objectsCount > 0),
          cv_hasStructuredData = (dataStructure \<noteq> None),
          cv_isPriceable = (isValidJson \<and> objectsCount \<ge> 0)\<rparr>)"

section \<open>Properties\<close>

lemma bytesToKB_bounds:
  assumes "0 \<le> n"
  shows "n \<le> 1024 * bytesToKB n" and "1024 * bytesToKB n < n + 1024"
proof -
  have "(of_int n :: rat) / 1024 \<le> of_int (bytesToKB n)"
    unfolding bytesToKB_def by (rule le_of_int_ceiling)
  then have "(of_int n :: rat) \<le> of_int (1024 * bytesToKB n)" by simp
  then show "n \<le> 1024 * bytesToKB n" by (simp only: of_int_le_iff)
  have "of_int (bytesToKB n) < (of_int n :: rat) / 1024 + 1"
    unfolding bytesToKB_def by linarith
  then have "of_int (1024 * bytesToKB n) < (of_int (n + 1024) :: rat)" by simp
  then show "1024 * bytesToKB n < n + 1024" by (simp only: of_int_less_iff)
qed

lemma item_keys_spec:
  "sorted (item_keys items)" "distinct (item_keys items)"
  "k \<in> set (item_keys items) \<longleftrightarrow> (\<exists>x\<in>set items. json_is_object x \<and> k \<in> set (object_keys x))"
  by (auto simp: item_keys_def)

lemma price_rounding:
  "\<bar>pr_totalPrice (calculateJobPrice kb n k)
     - (pc_baseFee k + pc_fileSizeUnitPrice k * of_int kb + pc_objectUnitPrice k * of_int n)\<bar> \<le> 1/200"
  using round_dec_error [of 100] by (simp add: calculateJobPrice_def Let_def)

lemma price_mono:
  assumes "kb \<le> kb'" "n \<le> n'" "0 \<le> pc_fileSizeUnitPrice k" "0 \<le> pc_objectUnitPrice k"
  shows "pr_totalPrice (calculateJobPrice kb n k) \<le> pr_totalPrice (calculateJobPrice kb' n' k)"
proof -
  have "pc_fileSizeUnitPrice k * of_int kb \<le> pc_fileSizeUnitPrice k * of_int kb'"
    using assms by (intro mult_left_mono) auto
  moreover have "pc_objectUnitPrice k * of_int n \<le> pc_objectUnitPrice k * of_int n'"
    using assms by (intro mult_left_mono) auto
  ultimately show ?thesis
    by (simp add: calculateJobPrice_def Let_def round_dec_mono)
qed

lemma inspect_agrees:
  "inspect_parsed parse content = (n, ds, an) \<Longrightarrow>
     0 \<le> n \<and> (an \<longrightarrow> ds \<noteq> None) \<and> (ds \<noteq> None \<longrightarrow> parse content \<noteq> None)"
  by (auto simp: inspect_parsed_def analyzeJsonContent_def split: option.splits json.splits)

end
