(* ===== verification/Service.thy ===== *)
theory Service
  imports DatabaseEffects Pricing "HOL-Library.Product_Lexorder"
begin

text \<open>
  The class \<open>DatabaseService\<close> of \<open>src/db/service.ts\<close>, first part: the login and
  connection of clients, and the life of a job from its creation to its
  assignment, completion or failure. The class \<open>FileService\<close> and the injected
  \<open>referralService\<close> are the arguments \<open>fetch\<close> and \<open>referral\<close>: the methods of
  theirs that are called here. Clock readings and random numbers are arguments.
\<close>

section \<open>Clients\<close>

definition referral_chars :: string where
  "referral_chars = ''ABCDEFGHIJKLMNOPQRSTUVWXYZ0123456789''"

definition generateReferralCode :: "nat list \<Rightarrow> string" where
  "generateReferralCode rnds = map (\<lambda>r. referral_chars ! (r mod length referral_chars)) (take 8 rnds)"

definition login :: "'w redis \<Rightarrow> string \<Rightarrow> nat list \<Rightarrow> int \<Rightarrow> ('w, ClientStruct EntityResult) act" where
  "login M uid rnds now = catchA
     (bindA (getClient M uid) (\<lambda>existingClient.
        if succeeded existingClient then
          thenA (updateClient M uid [WsConnect now, WsDisconnect 0, Client_status (client_status ACTIVE)])
                (returnA existingClient)
        else
          bindA (createClient M uid (generateReferralCode rnds) now) (\<lambda>newClient.
          thenA (if succeeded newClient
                 then bindA (updateClient M uid [Client_status (client_status ACTIVE)]) (\<lambda>_. returnA ())
                 else returnA ())
                (returnA newClient))))
     (\<lambda>e. returnA (Failure DatabaseFault (''Login failed: '' @ e)))"

definition clientConnect ::
  "'w redis \<Rightarrow> int \<Rightarrow> string \<Rightarrow> string \<Rightarrow> int \<Rightarrow> int \<Rightarrow> ('w, string EntityResult) act" where
  "clientConnect M ttl uid cid now rnd = catchA
     (bindA (updateClient M uid [Client_id cid, WsConnect now, WsDisconnect 0,
               Client_status (client_status ACTIVE), PingTimestamp now]) (\<lambda>updateResult.
        case updateResult of
          Failure k m \<Rightarrow> returnA (Failure k m)
        | Success _ \<Rightarrow> thenA (createSession M ttl uid cid now rnd)
            (returnA (Success ''Client connected successfully''))))
     (\<lambda>e. returnA (Failure DatabaseFault (''Client connect failed: '' @ e)))"

text \<open>\<open>allClients.data.find(c => c.client_id === clientId)\<close>\<close>

definition find_client :: "string \<Rightarrow> ClientStruct list \<Rightarrow> ClientStruct option" where
  "find_client cid cs = List.find (\<lambda>c. c_client_id c = cid) cs"

definition clientDisconnect :: "'w redis \<Rightarrow> string \<Rightarrow> int \<Rightarrow> ('w, string) act" where
  "clientDisconnect M cid now = catchA
     (bindA (getAllClients M) (\<lambda>allClients.
        case allClients of
          Failure _ _ \<Rightarrow> returnA ''Failed to get clients''
        | Success cs \<Rightarrow> (case find_client cid cs of
            None \<Rightarrow> returnA ''Client not found''
          | Some client \<Rightarrow>
              let sessionDuration = now - c_wsConnect client in
              thenA (updateClient M (c_user_principal_id client)
                 [WsDisconnect now, Client_status (client_status INACTIVE),
                  TotalUptime (c_totalUptime client + sessionDuration),
                  DailyUptime (c_dailyUptime client + sessionDuration)])
              (returnA ''Client disconnected successfully''))))
     (\<lambda>e. returnA (''Client disconnect failed: '' @ e))"

definition clientAuthorization :: "'w redis \<Rightarrow> string \<Rightarrow> ('w, string EntityResult) act" where
  "clientAuthorization M uid = catchA
     (bindA (getClient M uid) (\<lambda>client. returnA (case client of
          Failure _ _ \<Rightarrow> Failure NotFound ''Client not found''
        | Success c \<Rightarrow> if c_clientStatus c \<noteq> client_status ACTIVE
            then Failure InvalidInput ''Client is not active''
            else Success ''Client authorized'')))
     (\<lambda>e. returnA (Failure DatabaseFault (''Authorization failed: '' @ e)))"

section \<open>Job assignment\<close>

definition blank_job :: "string \<Rightarrow> string \<Rightarrow> string \<Rightarrow> JobStruct" where
  "blank_job clientUUID jobType target = \<lparr>
     j_jobID = [], j_clientUUID = clientUUID, j_storedID = [], j_jobType = jobType,
     j_target = target, j_state = job_state PENDING, j_user_principal_id = [], j_assignedAt = 0,
     j_completeAt = 0, j_reward = 0, j_job_views = 0, j_job_downloads = 0, j_price = None,
     j_objectsCount = None, j_fileSizeKB = None, j_dataAnalysis = None, j_error = None\<rparr>"

definition addJobToDB ::
  "'w redis \<Rightarrow> string \<Rightarrow> string \<Rightarrow> string \<Rightarrow> int \<Rightarrow> int \<Rightarrow> ('w, string EntityResult) act" where
  "addJobToDB M clientUUID jobType target now rnd = catchA
     (bindA (createJob M (blank_job clientUUID jobType target) now rnd) (\<lambda>result. returnA
        (case result of Failure k m \<Rightarrow> Failure k m | Success j \<Rightarrow> Success (j_jobID j))))
     (\<lambda>e. returnA (Failure DatabaseFault (''Failed to add job: '' @ e)))"

text \<open>
  \<open>client.activeJobs || []\<close> and \<open>client.maxConcurrentJobs || 3\<close>: the load and the
  capacity that the capacity checks of the class compare.
\<close>

definition active_count :: "ClientStruct \<Rightarrow> int" where
  "active_count c = int (length (c_activeJobs c))"

definition max_capacity :: "ClientStruct \<Rightarrow> int" where
  "max_capacity c = or_num (c_maxConcurrentJobs c) 3"

definition assignJobToClient ::
  "'w redis \<Rightarrow> string \<Rightarrow> string \<Rightarrow> int \<Rightarrow> ('w, string EntityResult) act" where
  "assignJobToClient M jobId cid now = catchA
     (bindA (getAllClients M) (\<lambda>allClients.
        case allClients of
          Failure k m \<Rightarrow> returnA (Failure k m)
        | Success cs \<Rightarrow> (case find_client cid cs of
            None \<Rightarrow> returnA (Failure NotFound ''Client not found'')
          | Some client \<Rightarrow>
              if max_capacity client \<le> active_count client then
                returnA (Failure InvalidInput (''Client at maximum capacity ('' @
                  show_int (active_count client) @ ''/'' @ show_int (max_capacity client) @ '')''))
              else
                thenA (updateJob M jobId [JobUser (c_user_principal_id client),
                         State (job_state ONGOING), AssignedAt now])
               (thenA (updateClient M (c_user_principal_id client)
                         [ActiveJobs (c_activeJobs client @ [jobId])])
               (returnA (Success ''Job assigned successfully''))))))
     (\<lambda>e. returnA (Failure DatabaseFault (''Failed to assign job: '' @ e)))"

definition getJobWithID :: "'w redis \<Rightarrow> string \<Rightarrow> ('w, JobStruct EntityResult) act" where
  "getJobWithID M jobId = getJob M jobId"

section \<open>Completion and failure\<close>

record JobPricing =
  jp_price :: rat
  jp_objectsCount :: int
  jp_fileSizeKB :: int

text \<open>\<open>new FileService(this.db).getFileContentByStoredId\<close>, as the service calls it.\<close>

type_synonym 'w content_source = "string \<Rightarrow> ('w, string EntityResult) act"

definition completion_pricing ::
  "(string \<Rightarrow> json option) \<Rightarrow> 'w content_source \<Rightarrow> string option \<Rightarrow> string \<Rightarrow> ('w, JobPricing option) act" where
  "completion_pricing parse fetch storedFileId jobType = (case storedFileId of
       None \<Rightarrow> returnA None
     | Some fid \<Rightarrow> if \<not> truthy fid then returnA None else catchA
         (bindA (fetch fid) (\<lambda>contentResult. returnA (case contentResult of
             Failure _ _ \<Rightarrow> None
           | Success content \<Rightarrow> if \<not> truthy content then None else
               (let fileSizeKB = getContentSizeKB content;
                    objectsCount = (case analyzeScrapedDataByType parse content jobType of
                      None \<Rightarrow> 0 | Some (n, _) \<Rightarrow> n);
                    pricing = calculateJobPrice fileSizeKB objectsCount DEFAULT_PRICING
                in Some \<lparr>jp_price = pr_totalPrice pricing, jp_objectsCount = objectsCount,
                         jp_fileSizeKB = fileSizeKB\<rparr>))))
         (\<lambda>_. returnA None))"

definition job_reward :: "int \<Rightarrow> int \<Rightarrow> rat" where
  "job_reward assignedAt now = 12/1000 * (of_int (now - assignedAt) / 1000)"

definition completion_updates ::
  "ClientStruct \<Rightarrow> rat \<Rightarrow> string option \<Rightarrow> JobPricing option \<Rightarrow> int \<Rightarrow> job_field list" where
  "completion_updates client reward storedFileId pricingInfo now =
     [State (job_state COMPLETED), CompleteAt now, Reward reward, JobUser (c_user_principal_id client)]
     @ (case storedFileId of Some fid \<Rightarrow> if truthy fid then [StoredID fid] else [] | None \<Rightarrow> [])
     @ (case pricingInfo of
          None \<Rightarrow> []
        | Some p \<Rightarrow> [Price (jp_price p), ObjectsCount (jp_objectsCount p), FileSizeKB (jp_fileSizeKB p)])"

text \<open>\<open>this.referralService.calculateTaskReward\<close>, when the service is set.\<close>

type_synonym 'w task_referral = "(string \<Rightarrow> rat \<Rightarrow> string \<Rightarrow> ('w, rat EntityResult) act) option"

definition run_referral :: "'w task_referral \<Rightarrow> string \<Rightarrow> rat \<Rightarrow> string \<Rightarrow> ('w, unit) act" where
  "run_referral referral uid reward jobId = (case referral of
       None \<Rightarrow> returnA ()
     | Some f \<Rightarrow> catchA (bindA (f uid reward jobId) (\<lambda>_. returnA ())) (\<lambda>_. returnA ()))"

definition updateJobCompleted ::
  "'w redis \<Rightarrow> (string \<Rightarrow> json option) \<Rightarrow> 'w content_source \<Rightarrow> 'w task_referral \<Rightarrow>
   string \<Rightarrow> string \<Rightarrow> string option \<Rightarrow> int \<Rightarrow> ('w, rat EntityResult) act" where
  "updateJobCompleted M parse fetch referral jobId cid storedFileId now = catchA
     (bindA (getAllClients M) (\<lambda>allClients.
        case allClients of
          Failure k m \<Rightarrow> returnA (Failure k m)
        | Success cs \<Rightarrow> (case find_client cid cs of
            None \<Rightarrow> returnA (Failure NotFound ''Client not found'')
          | Some client \<Rightarrow> bindA (getJob M jobId) (\<lambda>jobResult.
              case jobResult of
                Failure _ _ \<Rightarrow> returnA (Failure NotFound ''Job not found'')
              | Success job \<Rightarrow>
                  let reward = job_reward (j_assignedAt job) now in
                  bindA (completion_pricing parse fetch storedFileId (j_jobType job)) (\<lambda>pricingInfo.
                  thenA (updateJob M jobId
                           (completion_updates client reward storedFileId pricingInfo now))
                 (thenA (updateClient M (c_user_principal_id client)
                           [ActiveJobs (filter (\<lambda>i. i \<noteq> jobId) (c_activeJobs client)),
                            TodaysEarnings (c_todaysEarnings client + reward),
                            Balance (c_balance client + reward)])
                 (thenA (run_referral referral (c_user_principal_id client) reward jobId)
                 (returnA (Success reward)))))))))
     (\<lambda>e. returnA (Failure DatabaseFault (''Failed to complete job: '' @ e)))"

definition markJobAsFailed ::
  "'w redis \<Rightarrow> string \<Rightarrow> string \<Rightarrow> string \<Rightarrow> int \<Rightarrow> ('w, string EntityResult) act" where
  "markJobAsFailed M jobId cid errorMessage now = catchA
     (bindA (getAllClients M) (\<lambda>allClients.
        case allClients of
          Failure k m \<Rightarrow> returnA (Failure k m)
        | Success cs \<Rightarrow> (case find_client cid cs of
            None \<Rightarrow> returnA (Failure NotFound ''Client not found'')
          | Some client \<Rightarrow>
              let rest = filter (\<lambda>i. i \<noteq> jobId) (c_activeJobs client) in
              thenA (updateJob M jobId [State (job_state FAILED), CompleteAt now, Reward 0,
                       JobError errorMessage])
             (thenA (updateClient M (c_user_principal_id client) (ActiveJobs rest #
                       (if rest = []
                        then [LegacyJobID [], LegacyJobStatus (client_state NOT_WORKING),
                              LegacyJobEndTime now]
                        else [LegacyJobID (hd rest), LegacyJobStatus (client_state WORKING)])))
             (returnA (Success ''Job marked as failed successfully''))))))
     (\<lambda>e. returnA (Failure DatabaseFault (''Failed to mark job as failed: '' @ e)))"

section \<open>Network speed\<close>

text \<open>
  \<open>parseFloat(v)\<close> of a parsed value: the value is first turned to text, and an
  array's text starts with that of its first element.
\<close>

fun float_of :: "json \<Rightarrow> rat option" where
  "float_of (JNum r) = Some r"
| "float_of (JStr s) = parseFloat s"
| "float_of (JArr (x # _)) = float_of x"
| "float_of _ = None"

definition speed_data :: "(string \<Rightarrow> json option) \<Rightarrow> string \<Rightarrow> rat option \<times> rat option" where
  "speed_data parse text = (case parse text of
       Some v \<Rightarrow> (if json_is_object v then
          (case json_member v ''downloadSpeed'' of
             Some d \<Rightarrow> (float_of d, case json_member v ''ping'' of
                 Some p \<Rightarrow> if json_truthy (Some p) then float_of p else None
               | None \<Rightarrow> None)
           | None \<Rightarrow> (parseFloat text, None))
         else (parseFloat text, None))
     | None \<Rightarrow> (parseFloat text, None))"

definition updateClientInternetSpeed ::
  "'w redis \<Rightarrow> (string \<Rightarrow> json option) \<Rightarrow> string \<Rightarrow> string \<Rightarrow> int \<Rightarrow> ('w, string EntityResult) act" where
  "updateClientInternetSpeed M parse uid speedData now = catchA
     (case speed_data parse speedData of (speed, ping) \<Rightarrow>
        (case speed of
           None \<Rightarrow> returnA (Failure InvalidInput ''Invalid speed data'')
         | Some s \<Rightarrow> thenA (updateClient M uid ([DownloadSpeed s, PingTimestamp now] @
                       (case ping of Some p \<Rightarrow> [Ping p] | None \<Rightarrow> [])))
             (returnA (Success ''Speed updated successfully''))))
     (\<lambda>e. returnA (Failure DatabaseFault (''Failed to update speed: '' @ e)))"

section \<open>Choosing a job or a node\<close>

record Assignment =
  an_user_principal_id :: string
  an_client_id :: string
  an_downloadSpeed :: rat
  an_target :: string
  an_jobType :: string

definition assignment :: "ClientStruct \<Rightarrow> JobStruct \<Rightarrow> Assignment" where
  "assignment c j = \<lparr>an_user_principal_id = c_user_principal_id c, an_client_id = c_client_id c,
     an_downloadSpeed = c_downloadSpeed c, an_target = j_target j, an_jobType = j_jobType j\<rparr>"

definition findAndAssignJob ::
  "'w redis \<Rightarrow> string \<Rightarrow> int \<Rightarrow> ('w, Assignment option EntityResult) act" where
  "findAndAssignJob M uid now = catchA
     (bindA (getClient M uid) (\<lambda>client.
        case client of
          Failure k m \<Rightarrow> returnA (Failure k m)
        | Success c \<Rightarrow> bindA (getJobsByState M (job_state PENDING)) (\<lambda>pendingJobs.
            case pendingJobs of
              Failure _ _ \<Rightarrow> returnA (Success None)
            | Success [] \<Rightarrow> returnA (Success None)
            | Success (job # _) \<Rightarrow>
                thenA (assignJobToClient M (j_jobID job) (c_client_id c) now)
                      (returnA (Success (Some (assignment c job)))))))
     (\<lambda>e. returnA (Failure DatabaseFault (''Failed to find and assign job: '' @ e)))"

definition findAndAssignJobToClient ::
  "'w redis \<Rightarrow> string \<Rightarrow> string \<Rightarrow> int \<Rightarrow> ('w, Assignment option EntityResult) act" where
  "findAndAssignJobToClient M uid targetJobType now = catchA
     (bindA (getClient M uid) (\<lambda>client.
        case client of
          Failure k m \<Rightarrow> returnA (Failure k m)
        | Success c \<Rightarrow> bindA (getJobsByState M (job_state PENDING)) (\<lambda>pendingJobs.
            case pendingJobs of
              Failure k m \<Rightarrow> returnA (Failure k m)
            | Success js \<Rightarrow> (case List.find (\<lambda>j. j_jobType j = targetJobType) js of
                None \<Rightarrow> returnA (Success None)
              | Some job \<Rightarrow>
                  thenA (assignJobToClient M (j_jobID job) (c_client_id c) now)
                        (returnA (Success (Some (assignment c job))))))))
     (\<lambda>e. returnA (Failure DatabaseFault (''Failed to find and assign job to client: '' @ e)))"

definition available :: "ClientStruct \<Rightarrow> bool" where
  "available c \<longleftrightarrow> c_wsDisconnect c = 0 \<and> active_count c < max_capacity c"

text \<open>More free capacity first, then more speed: the key the comparator sorts by.\<close>

definition node_key :: "ClientStruct \<Rightarrow> int \<times> rat" where
  "node_key c = (- (max_capacity c - active_count c), - c_downloadSpeed c)"

definition findOptimalNode ::
  "'w redis \<Rightarrow> string \<Rightarrow> int \<Rightarrow> ('w, Assignment option EntityResult) act" where
  "findOptimalNode M jobId now = catchA
     (bindA (getJob M jobId) (\<lambda>jobResult.
        case jobResult of
          Failure k m \<Rightarrow> returnA (Failure k m)
        | Success job \<Rightarrow> bindA (getClientsByStatus M (client_status ACTIVE)) (\<lambda>activeClients.
            case activeClients of
              Failure _ _ \<Rightarrow> returnA (Success None)
            | Success cs \<Rightarrow> (case sort_key node_key (filter available cs) of
                [] \<Rightarrow> returnA (Success None)
              | optimalClient # _ \<Rightarrow>
                  thenA (assignJobToClient M jobId (c_client_id optimalClient) now)
                        (returnA (Success (Some (assignment optimalClient job))))))))
     (\<lambda>e. returnA (Failure DatabaseFault (''Failed to find optimal node: '' @ e)))"

definition findOptimalNodeWithId ::
  "'w redis \<Rightarrow> string \<Rightarrow> string \<Rightarrow> int \<Rightarrow> ('w, Assignment option EntityResult) act" where
  "findOptimalNodeWithId M jobId principalId now = catchA
     (bindA (getJob M jobId) (\<lambda>jobResult.
        case jobResult of
          Failure k m \<Rightarrow> returnA (Failure k m)
        | Success job \<Rightarrow> bindA (getClient M principalId) (\<lambda>client.
            case client of
              Failure _ _ \<Rightarrow> returnA (Success None)
            | Success c \<Rightarrow>
                if c_clientStatus c \<noteq> client_status ACTIVE \<or> c_wsDisconnect c \<noteq> 0 \<or>
                   max_capacity c \<le> active_count c
                then returnA (Success None)
                else thenA (assignJobToClient M jobId (c_client_id c) now)
                       (returnA (Success (Some (assignment c job)))))))
     (\<lambda>e. returnA (Failure DatabaseFault (''Failed to find optimal node with ID: '' @ e)))"

end
