(* ===== verification/ServiceReports.thy ===== *)
theory ServiceReports
  imports Service
begin

text \<open>
  The class \<open>DatabaseService\<close> of \<open>src/db/service.ts\<close>, second part: rewards and
  their history, sessions, API keys, listings, and the capacity reports.
\<close>

section \<open>Rewards and earnings\<close>

definition addRewardsToDB :: "'w redis \<Rightarrow> string \<Rightarrow> rat \<Rightarrow> ('w, rat EntityResult) act" where
  "addRewardsToDB M uid reward = catchA
     (bindA (getClient M uid) (\<lambda>client.
        case client of
          Failure k m \<Rightarrow> returnA (Failure k m)
        | Success c \<Rightarrow>
            thenA (updateClient M uid [Balance (c_balance c + reward),
                     TodaysEarnings (c_todaysEarnings c + reward),
                     UptimeReward (c_uptimeReward c + reward)])
                  (returnA (Success (c_balance c + reward)))))
     (\<lambda>e. returnA (Failure DatabaseFault (''Failed to add rewards: '' @ e)))"

text \<open>The confirmed uptime transactions of a user among the transaction keys.\<close>

definition user_transactions ::
  "'w redis \<Rightarrow> string \<Rightarrow> string list \<Rightarrow> ('w, RewardTransaction list) act" where
  "user_transactions M uid keys = foldA (\<lambda>acc txKey.
     bindA (read_as M as_tx txKey) (\<lambda>rec. returnA (case rec of
        None \<Rightarrow> acc
      | Some tx \<Rightarrow> if tx_user_principal_id tx = uid \<and> tx_status tx = TX_CONFIRMED
          then acc @ [tx] else acc))) [] keys"

datatype reward_type = RT_job | RT_uptime

record UserReward =
  ur_type :: reward_type
  ur_amount :: rat
  ur_timestamp :: int
  ur_state :: string
  ur_completeAt :: int
  ur_date :: string
  ur_job_id :: "string option"

record Pagination =
  pg_currentPage :: int
  pg_totalPages :: int
  pg_totalItems :: int
  pg_itemsPerPage :: int
  pg_hasNextPage :: bool
  pg_hasPrevPage :: bool

record RewardSummary =
  rs_totalJobRewards :: rat
  rs_totalUptimeRewards :: rat
  rs_totalRewards :: rat
  rs_totalUptimeMinutes :: rat
  rs_jobRewardsCount :: int
  rs_uptimeRewardsCount :: int

record RewardHistory =
  rh_rewards :: "UserReward list"
  rh_pagination :: Pagination
  rh_summary :: RewardSummary

definition uptime_entry :: "RewardTransaction \<Rightarrow> UserReward" where
  "uptime_entry tx = \<lparr>ur_type = RT_uptime, ur_amount = tx_amount tx, ur_timestamp = tx_timestamp tx,
     ur_state = ''completed'', ur_completeAt = tx_timestamp tx, ur_date = tx_date tx,
     ur_job_id = None\<rparr>"

definition job_entry :: "JobStruct \<Rightarrow> UserReward" where
  "job_entry j = (let t = or_num (j_completeAt j) (j_assignedAt j) in
     \<lparr>ur_type = RT_job, ur_amount = j_reward j, ur_timestamp = t, ur_state = j_state j,
      ur_completeAt = j_completeAt j, ur_date = iso_date t, ur_job_id = Some (j_jobID j)\<rparr>)"

definition completed_jobs :: "JobStruct list \<Rightarrow> JobStruct list" where
  "completed_jobs js = filter (\<lambda>j. j_state j = job_state COMPLETED) js"

definition total_pages :: "int \<Rightarrow> int \<Rightarrow> int" where
  "total_pages totalItems limit = \<lceil>(of_int totalItems :: rat) / of_int limit\<rceil>"

text \<open>The page that the method cuts out of the combined list; \<open>limit\<close> is positive.\<close>

definition page_of :: "int \<Rightarrow> int \<Rightarrow> 'a list \<Rightarrow> 'a list" where
  "page_of page limit xs = (let startIndex = (page - 1) * limit in
     js_slice startIndex (startIndex + limit) xs)"

definition reward_history ::
  "JobStruct list \<Rightarrow> RewardTransaction list \<Rightarrow> rat \<Rightarrow> int \<Rightarrow> int \<Rightarrow> RewardHistory" where
  "reward_history js txs totalUptimeMinutes page limit =
     (let jobRewards = map job_entry (completed_jobs js);
          uptimeRewards = map uptime_entry txs;
          allRewards = sort_desc ur_timestamp (jobRewards @ uptimeRewards);
          totalItems = int (length allRewards);
          totalPages = total_pages totalItems limit;
          totalJobRewards = sum_list (map ur_amount jobRewards);
          totalUptimeRewards = sum_list (map ur_amount uptimeRewards)
      in \<lparr>rh_rewards = page_of page limit allRewards,
          rh_pagination = \<lparr>pg_currentPage = page, pg_totalPages = totalPages,
            pg_totalItems = totalItems, pg_itemsPerPage = limit,
            pg_hasNextPage = (page < totalPages), pg_hasPrevPage = (page > 1)\<rparr>,
          rh_summary = \<lparr>rs_totalJobRewards = totalJobRewards,
            rs_totalUptimeRewards = totalUptimeRewards,
            rs_totalRewards = totalJobRewards + totalUptimeRewards,
            rs_totalUptimeMinutes = totalUptimeMinutes,
            rs_jobRewardsCount = int (length jobRewards),
            rs_uptimeRewardsCount = int (length uptimeRewards)\<rparr>\<rparr>)"

definition getUserRewardHistory ::
  "'w redis \<Rightarrow> string \<Rightarrow> int \<Rightarrow> int \<Rightarrow> ('w, RewardHistory EntityResult) act" where
  "getUserRewardHistory M uid page limit = catchA
     (bindA (getJobsByUser M uid) (\<lambda>jobsResult.
        case jobsResult of
          Failure k m \<Rightarrow> returnA (Failure k m)
        | Success js \<Rightarrow>
            bindA (KEYS M UPTIME_TRANSACTION_PREFIX) (\<lambda>transactionKeys.
            bindA (user_transactions M uid transactionKeys) (\<lambda>txs.
            bindA (user_transactions M uid transactionKeys) (\<lambda>again.
              returnA (Success (reward_history js txs
                (sum_list (map tx_uptime_minutes again)) page limit)))))))
     (\<lambda>e. returnA (Failure DatabaseFault (''Failed to get combined reward history: '' @ e)))"

section \<open>Rewards by date\<close>

record DailyReward =
  dr_date :: string
  dr_jobRewards :: rat
  dr_uptimeRewards :: rat
  dr_totalRewards :: rat
  dr_jobCount :: int
  dr_uptimeMinutes :: rat

record DailySummary =
  dm_totalJobRewards :: rat
  dm_totalUptimeRewards :: rat
  dm_totalRewards :: rat
  dm_totalDays :: int
  dm_averageDailyRewards :: rat

text \<open>\<open>map.get(date) || { zero }\<close>, and one turn of each grouping loop.\<close>

definition get_or :: "'v \<Rightarrow> ('k, 'v) jsmap \<Rightarrow> 'k \<Rightarrow> 'v" where
  "get_or z m k = (case map_get m k of Some v \<Rightarrow> v | None \<Rightarrow> z)"

definition add_job_day :: "(string, rat \<times> int) jsmap \<Rightarrow> JobStruct \<Rightarrow> (string, rat \<times> int) jsmap" where
  "add_job_day m j = (if j_completeAt j = 0 then m else
     (let date = iso_date (j_completeAt j); (r, n) = get_or (0, 0) m date
      in map_set date (r + j_reward j, n + 1) m))"

definition add_tx_day ::
  "(string, rat \<times> rat) jsmap \<Rightarrow> RewardTransaction \<Rightarrow> (string, rat \<times> rat) jsmap" where
  "add_tx_day m tx = (let (r, n) = get_or (0, 0) m (tx_date tx)
     in map_set (tx_date tx) (r + tx_amount tx, n + tx_uptime_minutes tx) m)"

definition daily_reward ::
  "(string, rat \<times> int) jsmap \<Rightarrow> (string, rat \<times> rat) jsmap \<Rightarrow> string \<Rightarrow> DailyReward" where
  "daily_reward jobMap txMap date =
     (let (jr, jc) = get_or (0, 0) jobMap date; (ur, um) = get_or (0, 0) txMap date
      in \<lparr>dr_date = date, dr_jobRewards = jr, dr_uptimeRewards = ur, dr_totalRewards = jr + ur,
          dr_jobCount = jc, dr_uptimeMinutes = um\<rparr>)"

definition in_range :: "string option \<Rightarrow> string option \<Rightarrow> string \<Rightarrow> bool" where
  "in_range startDate endDate d \<longleftrightarrow>
     (case startDate of Some s \<Rightarrow> truthy s \<longrightarrow> s \<le> d | None \<Rightarrow> True) \<and>
     (case endDate of Some s \<Rightarrow> truthy s \<longrightarrow> d \<le> s | None \<Rightarrow> True)"

definition rewards_by_date ::
  "JobStruct list \<Rightarrow> RewardTransaction list \<Rightarrow> string option \<Rightarrow> string option \<Rightarrow>
   DailyReward list \<times> DailySummary" where
  "rewards_by_date js txs startDate endDate =
     (let jobMap = foldl add_job_day [] (completed_jobs js);
          txMap = foldl add_tx_day [] txs;
          sortedDates = sort (remdups (keys_of jobMap @ keys_of txMap));
          dailyRewards = map (daily_reward jobMap txMap) (filter (in_range startDate endDate) sortedDates);
          totalJobRewards = sum_list (map dr_jobRewards dailyRewards);
          totalUptimeRewards = sum_list (map dr_uptimeRewards dailyRewards);
          totalRewards = totalJobRewards + totalUptimeRewards;
          totalDays = int (length dailyRewards)
      in (dailyRewards, \<lparr>dm_totalJobRewards = totalJobRewards,
            dm_totalUptimeRewards = totalUptimeRewards, dm_totalRewards = totalRewards,
            dm_totalDays = totalDays,
            dm_averageDailyRewards = (if totalDays > 0 then totalRewards / of_int totalDays else 0)\<rparr>))"

definition getUserRewardHistoryByDate ::
  "'w redis \<Rightarrow> string \<Rightarrow> string option \<Rightarrow> string option \<Rightarrow>
   ('w, (DailyReward list \<times> DailySummary) EntityResult) act" where
  "getUserRewardHistoryByDate M uid startDate endDate = catchA
     (bindA (getJobsByUser M uid) (\<lambda>jobsResult.
        case jobsResult of
          Failure k m \<Rightarrow> returnA (Failure k m)
        | Success js \<Rightarrow>
            bindA (KEYS M UPTIME_TRANSACTION_PREFIX) (\<lambda>transactionKeys.
            bindA (user_transactions M uid transactionKeys) (\<lambda>txs.
              returnA (Success (rewards_by_date js txs startDate endDate))))))
     (\<lambda>e. returnA (Failure DatabaseFault (''Failed to get reward history by date: '' @ e)))"

section \<open>Sessions, listings, API keys\<close>

definition wsCreateSession ::
  "'w redis \<Rightarrow> int \<Rightarrow> string \<Rightarrow> string \<Rightarrow> int \<Rightarrow> int \<Rightarrow> ('w, string) act" where
  "wsCreateSession M ttl uid cid now rnd = catchA
     (bindA (createSession M ttl uid cid now rnd) (\<lambda>session. returnA (case session of
        Failure _ _ \<Rightarrow> ''Failed to create session'' | Success s \<Rightarrow> s_sessionId s)))
     (\<lambda>e. returnA (''Session creation failed: '' @ e))"

definition wsEndSession :: "'w redis \<Rightarrow> string \<Rightarrow> int \<Rightarrow> ('w, unit EntityResult) act" where
  "wsEndSession M sid now = endSession M sid now"

definition wsUpdateHeartbeat :: "'w redis \<Rightarrow> string \<Rightarrow> int \<Rightarrow> ('w, unit EntityResult) act" where
  "wsUpdateHeartbeat M uid now = catchA
     (thenA (updateClient M uid [PingTimestamp now]) (returnA (Success ())))
     (\<lambda>e. returnA (Failure DatabaseFault (''Failed to update heartbeat: '' @ e)))"

definition wsGetUptimeStats ::
  "'w redis \<Rightarrow> string \<Rightarrow> int \<Rightarrow> string \<Rightarrow> ('w, UptimeStats EntityResult) act" where
  "wsGetUptimeStats M uid now today = getUptimeStats M uid now today"

definition getAllNodes :: "'w redis \<Rightarrow> ('w, ClientStruct list EntityResult) act" where
  "getAllNodes M = getAllClients M"

definition getAllRunningNodes :: "'w redis \<Rightarrow> ('w, ClientStruct list EntityResult) act" where
  "getAllRunningNodes M = getClientsByStatus M (client_status ACTIVE)"

definition listJobs :: "'w redis \<Rightarrow> string option \<Rightarrow> ('w, JobStruct list EntityResult) act" where
  "listJobs M uid = (case uid of
       Some u \<Rightarrow> if truthy u then getJobsByUser M u else getAllJobs M
     | None \<Rightarrow> getAllJobs M)"

definition getAllPendingJobs :: "'w redis \<Rightarrow> string option \<Rightarrow> ('w, JobStruct list EntityResult) act" where
  "getAllPendingJobs M uid =
     (if (case uid of Some u \<Rightarrow> truthy u | None \<Rightarrow> False) then
        bindA (getJobsByUser M (the uid)) (\<lambda>userJobs. returnA (case userJobs of
            Failure k m \<Rightarrow> Failure k m
          | Success js \<Rightarrow> Success (filter (\<lambda>j. j_state j = job_state PENDING) js)))
      else getJobsByState M (job_state PENDING))"

definition resendJob :: "'w redis \<Rightarrow> string \<Rightarrow> ('w, Assignment option EntityResult) act" where
  "resendJob M jobId = catchA
     (bindA (getJob M jobId) (\<lambda>job.
        case job of
          Failure k m \<Rightarrow> returnA (Failure k m)
        | Success j \<Rightarrow>
            if truthy (j_user_principal_id j) then
              bindA (getClient M (j_user_principal_id j)) (\<lambda>client. returnA (case client of
                  Success c \<Rightarrow> Success (Some (assignment c j)) | Failure _ _ \<Rightarrow> Success None))
            else returnA (Success None)))
     (\<lambda>e. returnA (Failure DatabaseFault (''Failed to resend job: '' @ e)))"

definition service_createAPIKey ::
  "'w redis \<Rightarrow> int \<Rightarrow> string \<Rightarrow> nat list \<Rightarrow> int \<Rightarrow> ('w, string EntityResult) act" where
  "service_createAPIKey M usageLimit uid rnds now = catchA
     (bindA (createAPIKey M usageLimit uid rnds now) (\<lambda>result. returnA (case result of
        Failure k m \<Rightarrow> Failure k m | Success d \<Rightarrow> Success (k_apiKey d))))
     (\<lambda>e. returnA (Failure DatabaseFault (''Failed to create API key: '' @ e)))"

definition getAPIKeyData :: "'w redis \<Rightarrow> string \<Rightarrow> ('w, (string \<times> int \<times> int) EntityResult) act" where
  "getAPIKeyData M uid = catchA
     (bindA (getAPIKey M uid) (\<lambda>result. returnA (case result of
        Failure k m \<Rightarrow> Failure k m
      | Success d \<Rightarrow> Success (k_apiKey d, k_usageCount d, k_usageLimit d))))
     (\<lambda>e. returnA (Failure DatabaseFault (''Failed to get API key data: '' @ e)))"

definition service_getUUIDFromAPIKey :: "'w redis \<Rightarrow> string \<Rightarrow> ('w, string EntityResult) act" where
  "service_getUUIDFromAPIKey M apiKey = catchA (getUUIDFromAPIKey M apiKey)
     (\<lambda>e. returnA (Failure DatabaseFault (''Failed to get UUID from API key: '' @ e)))"

definition recordAPIUsage :: "'w redis \<Rightarrow> string \<Rightarrow> int \<Rightarrow> ('w, bool) act" where
  "recordAPIUsage M uid now = catchA
     (bindA (incrementAPIUsage M uid now) (\<lambda>r. returnA (succeeded r))) (\<lambda>_. returnA False)"

text \<open>The JSON text of the report, as the value it is made from.\<close>

datatype UsageReport = UsageError string | Usage string int int "int list"

definition getUsageInDateRange :: "'w redis \<Rightarrow> string \<Rightarrow> int \<Rightarrow> int \<Rightarrow> ('w, UsageReport) act" where
  "getUsageInDateRange M uid fromDate toDate = catchA
     (bindA (getAPIKey M uid) (\<lambda>result. returnA (case result of
        Failure _ _ \<Rightarrow> UsageError ''API key not found''
      | Success d \<Rightarrow> Usage uid fromDate toDate
          (filter (\<lambda>t. fromDate \<le> t \<and> t \<le> toDate) (k_usageLog d)))))
     (\<lambda>e. returnA (UsageError (''Failed to get usage in date range: '' @ e)))"

definition getStoredIdFromJobId :: "'w redis \<Rightarrow> string \<Rightarrow> ('w, string EntityResult) act" where
  "getStoredIdFromJobId M jobId = catchA
     (bindA (getJob M jobId) (\<lambda>job. returnA (case job of
        Failure k m \<Rightarrow> Failure k m | Success j \<Rightarrow> Success (j_storedID j))))
     (\<lambda>e. returnA (Failure DatabaseFault (''Failed to get stored ID from job ID: '' @ e)))"

definition updateJobPricingInfo ::
  "'w redis \<Rightarrow> string \<Rightarrow> JobPricing \<Rightarrow> (int \<times> string list) option \<Rightarrow> ('w, unit EntityResult) act" where
  "updateJobPricingInfo M jobId p analysis = catchA
     (updateJob M jobId ([Price (jp_price p), ObjectsCount (jp_objectsCount p),
        FileSizeKB (jp_fileSizeKB p)] @ (case analysis of Some a \<Rightarrow> [DataAnalysis a] | None \<Rightarrow> [])))
     (\<lambda>e. returnA (Failure UpdateFailed (''Failed to update job pricing info: '' @ e)))"

definition service_cleanupOldJobs :: "'w redis \<Rightarrow> int \<Rightarrow> ('w, CleanupResult EntityResult) act" where
  "service_cleanupOldJobs M cutoff = catchA (cleanupOldJobs M cutoff)
     (\<lambda>e. returnA (Failure DatabaseFault (''Failed to cleanup old jobs: '' @ e)))"

section \<open>Capacity\<close>

definition getClientActiveJobCount :: "'w redis \<Rightarrow> string \<Rightarrow> ('w, int) act" where
  "getClientActiveJobCount M uid = catchA
     (bindA (getClient M uid) (\<lambda>client. returnA (case client of
        Failure _ _ \<Rightarrow> 0 | Success c \<Rightarrow> active_count c)))
     (\<lambda>_. returnA 0)"

definition isClientAvailable :: "'w redis \<Rightarrow> string \<Rightarrow> ('w, bool) act" where
  "isClientAvailable M uid = catchA
     (bindA (getClient M uid) (\<lambda>client. returnA (case client of
        Failure _ _ \<Rightarrow> False
      | Success c \<Rightarrow> c_clientStatus c = client_status ACTIVE \<and> c_wsDisconnect c = 0 \<and>
          active_count c < max_capacity c)))
     (\<lambda>_. returnA False)"

record CapacityInfo =
  ci_activeJobs :: int
  ci_maxConcurrentJobs :: int
  ci_availableCapacity :: int
  ci_utilizationRate :: rat
  ci_isOnline :: bool
  ci_isActive :: bool

definition no_capacity :: CapacityInfo where
  "no_capacity = \<lparr>ci_activeJobs = 0, ci_maxConcurrentJobs = 0, ci_availableCapacity = 0,
     ci_utilizationRate = 0, ci_isOnline = False, ci_isActive = False\<rparr>"

text \<open>\<open>Math.round(rate * 10) / 10\<close> of the percentage in use.\<close>

definition utilization :: "int \<Rightarrow> int \<Rightarrow> rat" where
  "utilization used capacity =
     round_dec 10 (if capacity > 0 then of_int used / of_int capacity * 100 else 0)"

definition capacity_info :: "ClientStruct \<Rightarrow> CapacityInfo" where
  "capacity_info c = \<lparr>ci_activeJobs = active_count c, ci_maxConcurrentJobs = max_capacity c,
     ci_availableCapacity = max_capacity c - active_count c,
     ci_utilizationRate = utilization (active_count c) (max_capacity c),
     ci_isOnline = (c_wsDisconnect c = 0), ci_isActive = (c_clientStatus c = client_status ACTIVE)\<rparr>"

definition getClientCapacityInfo :: "'w redis \<Rightarrow> string \<Rightarrow> ('w, CapacityInfo) act" where
  "getClientCapacityInfo M uid = catchA
     (bindA (getClient M uid) (\<lambda>client. returnA (case client of
        Failure _ _ \<Rightarrow> no_capacity | Success c \<Rightarrow> capacity_info c)))
     (\<lambda>_. returnA no_capacity)"

definition updateClientCapacity :: "'w redis \<Rightarrow> string \<Rightarrow> int \<Rightarrow> ('w, unit EntityResult) act" where
  "updateClientCapacity M uid n = catchA
     (if n < 1 \<or> n > 10
      then returnA (Failure InvalidInput ''maxConcurrentJobs must be between 1 and 10'')
      else updateClient M uid [MaxConcurrentJobs n])
     (\<lambda>e. returnA (Failure DatabaseFault (''Failed to update client capacity: '' @ e)))"

text \<open>The utilization of a client is kept as the number that is printed with a \<open>%\<close>.\<close>

record ClientCapacity =
  cc_user_principal_id :: string
  cc_client_id :: string
  cc_activeJobs :: int
  cc_maxConcurrentJobs :: int
  cc_availableCapacity :: int
  cc_utilizationRate :: rat
  cc_downloadSpeed :: rat
  cc_clientStatus :: string
  cc_isOnline :: bool
  cc_lastSeen :: int

definition client_capacity :: "ClientStruct \<Rightarrow> ClientCapacity" where
  "client_capacity c = \<lparr>cc_user_principal_id = c_user_principal_id c, cc_client_id = c_client_id c,
     cc_activeJobs = active_count c, cc_maxConcurrentJobs = max_capacity c,
     cc_availableCapacity = max_capacity c - active_count c,
     cc_utilizationRate = utilization (active_count c) (max_capacity c),
     cc_downloadSpeed = c_downloadSpeed c, cc_clientStatus = c_clientStatus c,
     cc_isOnline = (c_wsDisconnect c = 0), cc_lastSeen = c_pingTimestamp c\<rparr>"

definition getAllClientsWithCapacity :: "'w redis \<Rightarrow> ('w, ClientCapacity list EntityResult) act" where
  "getAllClientsWithCapacity M = catchA
     (bindA (getAllClients M) (\<lambda>result. returnA (case result of
        Failure k m \<Rightarrow> Failure k m | Success cs \<Rightarrow> Success (map client_capacity cs))))
     (\<lambda>e. returnA (Failure DatabaseFault (''Failed to get clients with capacity: '' @ e)))"

record SystemCapacity =
  sc_totalClients :: int
  sc_activeClients :: int
  sc_totalCapacity :: int
  sc_totalActiveJobs :: int
  sc_totalAvailableCapacity :: int
  sc_averageUtilization :: rat
  sc_highUtilizationClients :: int

definition system_capacity :: "ClientCapacity list \<Rightarrow> SystemCapacity" where
  "system_capacity cs =
     (let totalCapacity = sum_list (map cc_maxConcurrentJobs cs);
          totalActiveJobs = sum_list (map cc_activeJobs cs)
      in \<lparr>sc_totalClients = int (length cs),
          sc_activeClients = int (length (filter cc_isOnline cs)),
          sc_totalCapacity = totalCapacity, sc_totalActiveJobs = totalActiveJobs,
          sc_totalAvailableCapacity = sum_list (map cc_availableCapacity cs),
          sc_averageUtilization = utilization totalActiveJobs totalCapacity,
          sc_highUtilizationClients = int (length (filter (\<lambda>c. cc_utilizationRate c > 80) cs))\<rparr>)"

definition getSystemCapacityStats :: "'w redis \<Rightarrow> ('w, SystemCapacity EntityResult) act" where
  "getSystemCapacityStats M = catchA
     (bindA (getAllClientsWithCapacity M) (\<lambda>result. returnA (case result of
        Failure k m \<Rightarrow> Failure k m | Success cs \<Rightarrow> Success (system_capacity cs))))
     (\<lambda>e. returnA (Failure DatabaseFault (''Failed to get system capacity stats: '' @ e)))"

end
