(* ===== verification/DatabaseFaults.thy ===== *)
theory DatabaseFaults
  imports DatabaseEffects
begin

text \<open>
  What the class \<open>Database\<close> guarantees when Redis commands fail or its
  transaction is aborted (\<open>redis_quiet\<close>), and the properties of the class.
\<close>

section \<open>The client transaction under faults\<close>

definition same_data :: "'w redis \<Rightarrow> 'w \<Rightarrow> 'w \<Rightarrow> bool" where
  "same_data M w w' \<longleftrightarrow> strs M w' = strs M w \<and> mems M w' = mems M w"

lemma same_data_trans: "same_data M w w' \<Longrightarrow> same_data M w' w'' \<Longrightarrow> same_data M w w''"
  by (simp add: same_data_def)

lemma same_data_db: "same_data M w w' \<Longrightarrow>
    clients M w' = clients M w \<and> jobs M w' = jobs M w \<and> db_typed M w' = db_typed M w \<and> db_inv M w' = db_inv M w"
  using same_strs same_world unfolding same_data_def by metis

context redis_quiet
begin

lemma command_quiet:
  assumes "command M f w = (r, w')"
  obtains e where "r = Inl e" "same_data M w w'"
  | a w1 where "same_data M w w1" "f w1 = (a, w')" "r = Inr a"
proof -
  obtain e w1 where a: "attempt M w = (e, w1)" by fastforce
  then have sd: "same_data M w w1"
    using attempt_quiet by (simp add: same_data_def)
  show ?thesis
    using assms a sd that by (cases e) (auto simp: command_def split: prod.splits)
qed

lemma GET_quiet: "GET M k w = (r, w') \<Longrightarrow> same_data M w w' \<and> (r = Inr (strs M w k) \<or> (\<exists>e. r = Inl e))"
  unfolding GET_def by (erule command_quiet) (auto simp: same_data_def)

lemma getClient_quiet:
  assumes "getClient M u w = (r, w')" "db_typed M w"
  shows "same_data M w w' \<and> (\<exists>res. r = Inr res \<and> (\<forall>c. res = Success c \<longrightarrow> clients M w u = Some c))"
proof -
  obtain g w1 where g: "GET M (CLIENT u) w = (g, w1)" by fastforce
  note q = GET_quiet [OF g]
  show ?thesis
  proof (cases "g = Inr (strs M w (CLIENT u))")
    case True
    show ?thesis
    proof (cases "strs M w (CLIENT u)")
      case None
      with True q g assms show ?thesis by (auto simp: getClient_def act_simps)
    next
      case (Some v)
      with assms(2) obtain c where "v = VClient c" by (blast dest: db_typedD_client)
      with Some True q g assms show ?thesis by (auto simp: getClient_def act_simps clients_def)
    qed
  next
    case False
    with q g assms show ?thesis by (auto simp: getClient_def act_simps)
  qed
qed

lemma UNWATCH_quiet: "UNWATCH M w = (r, w') \<Longrightarrow> same_data M w w' \<and> (r = Inr () \<or> (\<exists>e. r = Inl e))"
  unfolding UNWATCH_def by (erule command_quiet) (auto simp: same_data_def strs_unwatch mems_unwatch)

lemma WATCH_quiet: "WATCH M k w = (r, w') \<Longrightarrow> same_data M w w' \<and> (r = Inr () \<or> (\<exists>e. r = Inl e))"
  unfolding WATCH_def by (erule command_quiet) (auto simp: same_data_def strs_watch mems_watch)

lemma EXEC_quiet:
  assumes "EXEC M qs w = (r, w')"
  shows "(same_data M w w' \<and> (r = Inr False \<or> (\<exists>e. r = Inl e))) \<or>
    (r = Inr True \<and> (\<exists>w1. same_data M w w1 \<and> w' = fold (run_queued M) qs w1))"
  using assms unfolding EXEC_def
proof (rule command_quiet)
  fix a w1
  assume sd: "same_data M w w1" and f: "(case commit M w1 of
      (b, w') \<Rightarrow> (b, if b then fold (run_queued M) qs w' else w')) = (a, w')" and r: "r = Inr a"
  obtain b w2 where c: "commit M w1 = (b, w2)" by fastforce
  then have "same_data M w1 w2" using commit_quiet by (simp add: same_data_def)
  with sd have "same_data M w w2" by (rule same_data_trans)
  with c f r show ?thesis by (cases b) auto
qed auto

text \<open>One turn of the loop: it changed nothing, or it committed the whole update.\<close>

definition turn_ok :: "string \<Rightarrow> client_field list \<Rightarrow> 'w \<Rightarrow> 'w \<Rightarrow> string + unit EntityResult option \<Rightarrow> bool" where
  "turn_ok u us w w' r \<longleftrightarrow>
     (same_data M w w' \<and> r \<noteq> Inr (Some (Success ()))) \<or>
     (r = Inr (Some (Success ())) \<and>
      (\<exists>c w1. clients M w u = Some c \<and> same_data M w w1 \<and> w' = put_client M u us c w1))"

lemma client_transaction_quiet:
  assumes "client_transaction M u us w = (r, w')" "db_typed M w"
  shows "turn_ok u us w w' r"
proof -
  obtain r1 w1 where W: "WATCH M (CLIENT u) w = (r1, w1)" by fastforce
  note W' = WATCH_quiet [OF W]
  obtain r2 w2 where G: "getClient M u w1 = (r2, w2)" by fastforce
  have sd1: "same_data M w w1" using W' by (rule conjunct1)
  have t1: "db_typed M w1" and cl: "clients M w1 = clients M w"
    using same_data_db [OF sd1] assms(2) by simp_all
  have "same_data M w1 w2" using getClient_quiet [OF G t1] by (rule conjunct1)
  with sd1 have sd2: "same_data M w w2" by (rule same_data_trans)
  obtain res where res: "r2 = Inr res" "\<forall>c. res = Success c \<longrightarrow> clients M w u = Some c"
    using conjunct2 [OF getClient_quiet [OF G t1]] unfolding cl by (elim exE conjE) (rule that)
  show ?thesis
  proof (cases r1)
    case (Inl e)
    obtain r3 w3 where U: "UNWATCH M w1 = (r3, w3)" by fastforce
    have "same_data M w w3" by (rule same_data_trans [OF sd1 conjunct1 [OF UNWATCH_quiet [OF U]]])
    with Inl W U UNWATCH_quiet [OF U] assms(1) show ?thesis
      by (auto simp: client_transaction_def act_simps turn_ok_def split: sum.splits)
  next
    case (Inr x)
    show ?thesis
    proof (cases res)
      case (Failure k m)
      obtain r3 w3 where U: "UNWATCH M w2 = (r3, w3)" by fastforce
      have sd3: "same_data M w w3" by (rule same_data_trans [OF sd2 conjunct1 [OF UNWATCH_quiet [OF U]]])
      obtain r4 w4 where U2: "UNWATCH M w3 = (r4, w4)" by fastforce
      have "same_data M w w4" by (rule same_data_trans [OF sd3 conjunct1 [OF UNWATCH_quiet [OF U2]]])
      with sd3 Failure Inr W G U U2 res assms(1) show ?thesis
        by (auto simp: client_transaction_def act_simps turn_ok_def split: sum.splits)
    next
      case (Success c)
      obtain r3 w3 where E: "EXEC M (QSet (CLIENT u) (VClient (spread_client us c)) # client_moves u us c) w2
          = (r3, w3)" by fastforce
      from EXEC_quiet [OF E] show ?thesis
      proof (elim disjE)
        assume a: "same_data M w2 w3 \<and> (r3 = Inr False \<or> (\<exists>e. r3 = Inl e))"
        obtain r4 w4 where U: "UNWATCH M w3 = (r4, w4)" by fastforce
        have sd3: "same_data M w w3" by (rule same_data_trans [OF sd2 conjunct1 [OF a]])
        have "same_data M w w4" by (rule same_data_trans [OF sd3 conjunct1 [OF UNWATCH_quiet [OF U]]])
        with sd3 a Success Inr W G E U res assms(1) show ?thesis
          by (auto simp: client_transaction_def act_simps turn_ok_def split: sum.splits)
      next
        assume a: "r3 = Inr True \<and> (\<exists>w1. same_data M w2 w1 \<and> w3 =
          fold (run_queued M) (QSet (CLIENT u) (VClient (spread_client us c)) # client_moves u us c) w1)"
        then obtain v where "same_data M w2 v" and v2: "w3 = put_client M u us c v"
          unfolding put_client_def by blast
        with sd2 have v: "same_data M w v" by (rule_tac same_data_trans)
        from a Success Inr W G E res assms(1) have "r = Inr (Some (Success ()))" "w' = w3"
          by (auto simp: client_transaction_def act_simps)
        with v v2 res Success show ?thesis unfolding turn_ok_def by blast
      qed
    qed
  qed
qed

lemma client_retries_quiet:
  assumes "client_retries n M u us w = (r, w')" "db_typed M w"
  shows "(same_data M w w' \<and> r \<noteq> Inr (Success ())) \<or> (r = Inr (Success ()) \<and>
    (\<exists>c w1. clients M w u = Some c \<and> same_data M w w1 \<and> w' = put_client M u us c w1))"
  using assms
proof (induction n arbitrary: w)
  case 0
  then show ?case by (auto simp: act_simps same_data_def)
next
  case (Suc n)
  obtain r1 w1 where T: "client_transaction M u us w = (r1, w1)" by fastforce
  note ok = client_transaction_quiet [OF T Suc.prems(2)]
  show ?case
  proof (cases "r1 = Inr None")
    case True
    with ok have sd: "same_data M w w1" by (auto simp: turn_ok_def)
    from True T Suc.prems have go: "client_retries n M u us w1 = (r, w')" by (simp add: act_simps)
    have cl: "clients M w1 = clients M w" and t1: "db_typed M w1"
      using Suc.prems(2) same_data_db [OF sd] by simp_all
    from Suc.IH [OF go t1] same_data_trans [OF sd] show ?thesis
      unfolding cl by metis
  next
    case False
    with ok T Suc.prems show ?thesis
      by (cases r1) (auto simp: act_simps turn_ok_def split: option.splits)
  qed
qed

lemma updateClient_quiet:
  assumes inv: "db_inv M w" and us: "proper_client_update us" and r: "updateClient M u us w = (r, w')"
  shows "db_inv M w' \<and> jobs M w' = jobs M w \<and>
    ((\<exists>k m. r = Inr (Failure k m)) \<and> clients M w' = clients M w \<or>
     r = Inr (Success ()) \<and>
       (\<exists>c. clients M w u = Some c \<and> clients M w' = (clients M w)(u \<mapsto> spread_client us c)))"
proof -
  obtain r1 w1 where R: "client_retries 5 M u us w = (r1, w1)" by fastforce
  have w': "w' = w1" and r': "r = (case r1 of
      Inl e \<Rightarrow> Inr (Failure UpdateFailed (''Failed to update client: '' @ e)) | Inr x \<Rightarrow> Inr x)"
    using r R by (auto simp: updateClient_def act_simps split: sum.splits)
  from client_retries_quiet [OF R db_inv_typed [OF inv]] show ?thesis
  proof (elim disjE conjE exE)
    assume sd: "same_data M w w1" and "r1 \<noteq> Inr (Success ())"
    then have "\<exists>k m. r = Inr (Failure k m)"
      unfolding r' by (cases r1) (auto, metis EntityResult.exhaust unit.exhaust)
    with sd inv same_data_db [OF sd] show ?thesis by (auto simp: w')
  next
    fix c v assume c: "clients M w u = Some c" and sd: "same_data M w v"
      and e: "w1 = put_client M u us c v" and r1: "r1 = Inr (Success ())"
    have "db_inv M v" "clients M v = clients M w" "jobs M v = jobs M w"
      using inv same_data_db [OF sd] by auto
    with c e r1 show ?thesis using db_inv_put_client [OF _ _ us] by (auto simp: w' r')
  qed
qed

end

end
