(* ===== verification/DatabaseProperties.thy ===== *)
theory DatabaseProperties
  imports DatabaseFaults
begin

text \<open>The properties of the class \<open>Database\<close> of \<open>src/db/database.ts\<close>.\<close>

section \<open>A concrete store\<close>

text \<open>A store with one client and one job, on which the properties are applied.\<close>

definition demo_client :: ClientStruct where
  "demo_client = (new_client ''u1'' ''c1'' ''CODE0001'' 1000)
     \<lparr>c_clientStatus := client_status ACTIVE\<rparr>"

definition demo_job :: JobStruct where
  "demo_job = \<lparr>j_jobID = ''job_1'', j_clientUUID = ''boss'', j_storedID = [],
     j_jobType = ''TWITTER_POST'', j_target = ''t'', j_state = job_state PENDING,
     j_user_principal_id = [], j_assignedAt = 1000, j_completeAt = 0, j_reward = 0, j_job_views = 0,
     j_job_downloads = 0, j_price = None, j_objectsCount = None, j_fileSizeKB = None,
     j_dataAnalysis = None, j_error = None\<rparr>"

definition demo_world :: mem where
  "demo_world = add_job mem_redis demo_job
     (addm mem_redis (CLIENTS_BY_STATUS (client_status ACTIVE)) ''u1''
     (put mem_redis (CLIENT ''u1'') (VClient demo_client) mem0))"

lemma demo_client_simps [simp]:
  "c_user_principal_id demo_client = ''u1''" "c_client_id demo_client = ''c1''"
  "c_clientStatus demo_client = ''Active''" "c_activeJobs demo_client = []"
  "c_maxConcurrentJobs demo_client = 10" "c_balance demo_client = 0"
  "c_wsDisconnect demo_client = 0" "c_downloadSpeed demo_client = 0"
  "c_todaysEarnings demo_client = 0"
  by (simp_all add: demo_client_def new_client_def)

lemma demo_job_simps [simp]:
  "j_jobID demo_job = ''job_1''" "j_clientUUID demo_job = ''boss''" "j_state demo_job = ''pending''"
  "j_user_principal_id demo_job = []" "j_assignedAt demo_job = 1000"
  by (simp_all add: demo_job_def)

lemma demo_base:
  "db_inv mem_redis (addm mem_redis (CLIENTS_BY_STATUS (client_status ACTIVE)) ''u1''
     (put mem_redis (CLIENT ''u1'') (VClient demo_client) mem0))"
  by (auto simp: db_inv_def db_typed_def status_index_def state_index_def user_index_def
    clients_def jobs_def mem_get_set_def split: if_splits option.splits)

lemma demo_inv: "db_inv mem_redis demo_world"
  unfolding demo_world_def by (rule mem.db_inv_add_job [OF demo_base]) simp

lemma demo_maps:
  "clients mem_redis demo_world = [''u1'' \<mapsto> demo_client]"
  "jobs mem_redis demo_world = [''job_1'' \<mapsto> demo_job]"
proof -
  have "clients mem_redis mem0 = Map.empty" "jobs mem_redis mem0 = Map.empty"
    by (auto simp: clients_def jobs_def fun_eq_iff)
  show "clients mem_redis demo_world = [''u1'' \<mapsto> demo_client]"
    by (auto simp: demo_world_def clients_def fun_eq_iff)
  show "jobs mem_redis demo_world = [''job_1'' \<mapsto> demo_job]"
    by (auto simp: demo_world_def jobs_def fun_eq_iff)
qed

section \<open>Faults\<close>

lemma faulty_db [simp]: "db_inv faulty_redis (fs, m) = db_inv mem_redis m"
  by (simp add: db_inv_def db_typed_def status_index_def state_index_def user_index_def
    clients_def jobs_def faulty_redis_def)



text \<open>no public method of \<open>Database\<close> that answers an \<open>EntityResult\<close> ever throws:
  whatever Redis does, each of them returns a value.\<close>

theorem database_never_throws:
  "total (createClient M u code now) \<and> total (getClient M u) \<and> total (updateClient M u us) \<and>
   total (getAllClients M) \<and> total (getClientsByStatus M s) \<and> total (createJob M jd now rnd) \<and>
   total (getJob M i) \<and> total (updateJob M i js) \<and> total (getJobsByState M s) \<and>
   total (getJobsByUser M u) \<and> total (getAllJobs M) \<and> total (incrementJobViews M i) \<and>
   total (incrementJobDownloads M i) \<and> total (deleteJob M i) \<and> total (getJobsCreatedBefore M t) \<and>
   total (cleanupOldJobs M t) \<and> total (createSession M ttl u cid now rnd) \<and>
   total (endSession M sid now) \<and> total (getUptimeStats M u now day) \<and>
   total (createAPIKey M ul u rnds now) \<and> total (getAPIKey M u) \<and> total (incrementAPIUsage M u now) \<and>
   total (getUUIDFromAPIKey M k) \<and> total (storePurchase M u i now) \<and>
   total (hasPurchaseAccess M u i) \<and> total (getUserPurchases M u)"
  by (intro conjI database_total accounts_total)

section \<open>The store\<close>

context redis_up
begin

lemma writes_keep_inv:
  assumes inv: "db_inv M w"
  shows "u \<noteq> [] \<Longrightarrow> strs M w (CLIENT u) = None \<Longrightarrow> db_inv M (snd (createClient M u code now w))"
    and "proper_client_update us \<Longrightarrow> db_inv M (snd (updateClient M u us w))"
    and "strs M w (JOB (generateJobId now rnd)) = None \<Longrightarrow> db_inv M (snd (createJob M jd now rnd w))"
    and "proper_job_update js \<Longrightarrow> db_inv M (snd (updateJob M i js w))"
    and "db_inv M (snd (incrementJobViews M i w))" and "db_inv M (snd (incrementJobDownloads M i w))"
    and "db_inv M (snd (deleteJob M i w))" and "db_inv M (snd (cleanupOldJobs M t w))"
proof -
  have typed: "db_typed M w" using inv by (rule db_inv_typed)
  show "u \<noteq> [] \<Longrightarrow> strs M w (CLIENT u) = None \<Longrightarrow> db_inv M (snd (createClient M u code now w))"
    using createClient_effect(3) [OF inv, of u code now] by (simp add: createClient_eq Let_def)
  show "proper_client_update us \<Longrightarrow> db_inv M (snd (updateClient M u us w))"
    using inv by (simp add: updateClient_eq [OF typed] db_inv_put_client split: option.split)
  show "strs M w (JOB (generateJobId now rnd)) = None \<Longrightarrow> db_inv M (snd (createJob M jd now rnd w))"
    using inv by (simp add: createJob_eq new_job_def db_inv_add_job)
  show "proper_job_update js \<Longrightarrow> db_inv M (snd (updateJob M i js w))"
    using inv by (simp add: updateJob_eq [OF typed] db_inv_put_job split: option.split)
  show "db_inv M (snd (incrementJobViews M i w))" "db_inv M (snd (incrementJobDownloads M i w))"
    using inv db_typed_job [OF typed]
    by (auto simp: incrementJobViews_eq [OF typed] incrementJobDownloads_eq [OF typed]
      intro!: db_inv_same_index(1) split: option.split)
  show "db_inv M (snd (deleteJob M i w))"
    using inv by (simp add: deleteJob_eq [OF typed] db_inv_drop_job split: option.split)
  show "db_inv M (snd (cleanupOldJobs M t w))"
    using cleanupOldJobs_eq(1,2) [OF inv, of t] by simp
qed

lemma cleanup_spec:
  assumes inv: "db_inv M w" and r: "cleanupOldJobs M t w = (r, w')"
  shows "r = Inr (Success \<lparr>cl_deletedCount = int (card {i. \<exists>j. jobs M w i = Some j \<and>
        j_assignedAt j \<noteq> 0 \<and> j_assignedAt j < t}), cl_failedDeletions = [], cl_errors = []\<rparr>) \<and>
    jobs M w' = (\<lambda>i. case jobs M w i of None \<Rightarrow> None
      | Some j \<Rightarrow> if j_assignedAt j \<noteq> 0 \<and> j_assignedAt j < t then None else Some j) \<and>
    clients M w' = clients M w \<and> db_inv M w'"
proof -
  have typed: "db_typed M w" using inv by (rule db_inv_typed)
  let ?all = "somes (map (jobs M w) (job_ids M w))"
  let ?old = "filter (\<lambda>j. j_assignedAt j \<noteq> 0 \<and> j_assignedAt j < t) ?all"
  have "distinct (map j_jobID ?old)"
    using distinct_listed_jobs [OF typed] by (rule distinct_map_filter)
  from distinct_card [OF this] have len: "length ?old = card (j_jobID ` set ?old)"
    by (simp only: length_map set_map)
  have mem: "j \<in> set ?old \<longleftrightarrow>
      (\<exists>i. jobs M w i = Some j) \<and> j_assignedAt j \<noteq> 0 \<and> j_assignedAt j < t" for j
    unfolding set_filter mem_Collect_eq listed_jobs by (rule refl)
  have ids: "j_jobID ` set ?old = {i. \<exists>j. jobs M w i = Some j \<and> j_assignedAt j \<noteq> 0 \<and> j_assignedAt j < t}"
  proof (intro set_eqI iffI)
    fix i assume "i \<in> j_jobID ` set ?old"
    then obtain j where "i = j_jobID j" "j \<in> set ?old" by (rule imageE)
    then show "i \<in> {i. \<exists>j. jobs M w i = Some j \<and> j_assignedAt j \<noteq> 0 \<and> j_assignedAt j < t}"
      unfolding mem using db_typed_job [OF typed] by auto
  next
    fix i assume "i \<in> {i. \<exists>j. jobs M w i = Some j \<and> j_assignedAt j \<noteq> 0 \<and> j_assignedAt j < t}"
    then obtain j where j: "j \<in> set ?old" and "i = j_jobID j"
      unfolding mem using db_typed_job [OF typed] by auto
    then show "i \<in> j_jobID ` set ?old" by (simp only: imageI)
  qed
  note eq = cleanupOldJobs_eq [OF inv, of t, unfolded len ids]
  from eq(1) r have "r = Inr (Success \<lparr>cl_deletedCount = int (card {i. \<exists>j. jobs M w i = Some j \<and>
        j_assignedAt j \<noteq> 0 \<and> j_assignedAt j < t}), cl_failedDeletions = [], cl_errors = []\<rparr>)"
    and w': "w' = drop_jobs M ?old w"
    by (simp_all only: prod.inject)
  then show ?thesis
    using eq(2-4) by (simp only: w' fun_eq_iff simp_thms)
qed

lemma jobs_by_state_spec:
  assumes inv: "db_inv M w"
  shows "\<exists>js. getJobsByState M s w = (Inr (Success js), w) \<and> distinct (map j_jobID js) \<and>
    set js = {j. \<exists>i. jobs M w i = Some j \<and> j_state j = s}"
proof -
  have typed: "db_typed M w" using inv by (rule db_inv_typed)
  have "distinct (map j_jobID (somes (map (jobs M w) (mems M w (JOBS_BY_STATE s)))))"
    by (rule distinct_map_somes [OF mems_distinct]) (auto dest: db_typed_job [OF typed])
  moreover have "set (somes (map (jobs M w) (mems M w (JOBS_BY_STATE s))))
      = {j. \<exists>i. jobs M w i = Some j \<and> j_state j = s}"
    using listed_by_state [OF inv, of _ s] by (auto simp del: set_somes set_map)
  ultimately show ?thesis by (simp add: getJobsByState_eq [OF typed])
qed

lemma updateJob_spec:
  assumes typed: "db_typed M w" and r: "updateJob M i us w = (r, w')"
  shows "(case jobs M w i of
      None \<Rightarrow> r = Inr (Failure NotFound ''Job not found'') \<and> w' = w
    | Some j \<Rightarrow> r = Inr (Success ()) \<and> jobs M w' = (jobs M w)(i \<mapsto> spread_job us j) \<and>
        clients M w' = clients M w \<and>
        (\<forall>k s. k \<noteq> i \<longrightarrow> (k \<in> set (mems M w' (JOBS_BY_STATE s)) \<longleftrightarrow> k \<in> set (mems M w (JOBS_BY_STATE s)))))"
proof (cases "jobs M w i")
  case None
  with r show ?thesis by (simp add: updateJob_eq [OF typed])
next
  case (Some j)
  with r have "r = Inr (Success ())" and w': "w' = put_job M i us j w"
    by (simp_all add: updateJob_eq [OF typed])
  moreover have "k \<noteq> i \<Longrightarrow>
      k \<in> set (mems M w' (JOBS_BY_STATE s)) \<longleftrightarrow> k \<in> set (mems M w (JOBS_BY_STATE s))" for k s
    by (simp add: w' state_put_job split: option.split)
  ultimately show ?thesis by (simp add: Some)
qed

end





text \<open>C4: on the map of jobs, \<open>updateJob\<close> is the map update that merges the given fields into
  the job; an unknown job changes nothing; other jobs keep their place in the state index.\<close>

theorem updateJob_refines:
  assumes "redis_up M" and "db_typed M w" and "updateJob M i us w = (r, w')"
  shows "(case jobs M w i of
      None \<Rightarrow> r = Inr (Failure NotFound ''Job not found'') \<and> w' = w
    | Some j \<Rightarrow> r = Inr (Success ()) \<and> jobs M w' = (jobs M w)(i \<mapsto> spread_job us j) \<and>
        clients M w' = clients M w \<and>
        (\<forall>k s. k \<noteq> i \<longrightarrow> (k \<in> set (mems M w' (JOBS_BY_STATE s)) \<longleftrightarrow> k \<in> set (mems M w (JOBS_BY_STATE s)))))"
  by (rule redis_up.updateJob_spec [OF assms])

theorem updateJob_refines_witness:
  "jobs mem_redis (snd (updateJob mem_redis ''job_1'' [State ''failed''] demo_world)) ''job_1''
     = Some (demo_job\<lparr>j_state := ''failed''\<rparr>)"
  using updateJob_refines [OF mem_is_up db_inv_typed [OF demo_inv] prod.collapse [symmetric],
      of "''job_1''" "[State ''failed'']"]
  by (simp add: demo_maps)

text \<open>\<open>getJobsByState\<close> answers exactly the stored jobs in that state, each once, and reads
  only.\<close>

theorem getJobsByState_exact:
  assumes "redis_up M" and "db_inv M w"
  shows "\<exists>js. getJobsByState M s w = (Inr (Success js), w) \<and> distinct (map j_jobID js) \<and>
    set js = {j. \<exists>i. jobs M w i = Some j \<and> j_state j = s}"
  by (rule redis_up.jobs_by_state_spec [OF assms])

theorem getJobsByState_exact_witness:
  "\<exists>js. getJobsByState mem_redis ''pending'' demo_world = (Inr (Success js), demo_world) \<and>
     set js = {demo_job}"
proof -
  have "{j. \<exists>i. jobs mem_redis demo_world i = Some j \<and> j_state j = ''pending''} = {demo_job}"
    by (auto simp: demo_maps split: if_splits)
  then show ?thesis
    using getJobsByState_exact [OF mem_is_up demo_inv, of "''pending''"] by auto
qed

section \<open>API keys and purchases\<close>

text \<open>\<open>n\<close> recorded uses of an API key.\<close>

primrec use_key :: "'w redis \<Rightarrow> string \<Rightarrow> int list \<Rightarrow> 'w \<Rightarrow> 'w" where
  "use_key M u [] w = w"
| "use_key M u (t # ts) w = use_key M u ts (snd (incrementAPIUsage M u t w))"

context redis_up
begin

lemma getAPIKey_eq:
  "strs M w (API_KEY u) = Some (VAPIKey d) \<Longrightarrow> getAPIKey M u w = (Inr (Success d), w)"
  by (simp add: getAPIKey_def act_simps)

lemma use_key_spec:
  assumes "strs M w (API_KEY u) = Some (VAPIKey d)" "strs M w (API_LOOKUP k) = Some (VStr v)"
  shows "strs M (use_key M u ts w) (API_KEY u) = Some (VAPIKey (d\<lparr>k_usageCount := k_usageCount d + int (length ts),
      k_usageLog := k_usageLog d @ ts\<rparr>)) \<and> strs M (use_key M u ts w) (API_LOOKUP k) = Some (VStr v)"
  using assms
proof (induction ts arbitrary: w d)
  case (Cons t ts)
  let ?d = "d\<lparr>k_usageCount := k_usageCount d + 1, k_usageLog := k_usageLog d @ [t]\<rparr>"
  let ?w = "put M (API_KEY u) (VAPIKey ?d) w"
  have "snd (incrementAPIUsage M u t w) = ?w"
    using Cons.prems(1) by (simp add: incrementAPIUsage_def act_simps getAPIKey_eq)
  moreover have "strs M ?w (API_KEY u) = Some (VAPIKey ?d)" "strs M ?w (API_LOOKUP k) = Some (VStr v)"
    using Cons.prems(2) by (simp_all add: strs_put key_simps)
  ultimately show ?case
    using Cons.IH [of ?w ?d] by (simp add: ac_simps)
qed simp

lemma apikey_spec:
  fixes ts :: "int list"
  assumes u: "u \<noteq> []" and c: "createAPIKey M ul u rnds now w = (r, w1)"
  defines "k \<equiv> generateAPIKey rnds" and "w2 \<equiv> use_key M u ts w1"
  shows "getUUIDFromAPIKey M k w2 = (Inr (Success u), w2) \<and>
    getAPIKey M u w2 = (Inr (Success \<lparr>k_apiKey = k, k_usageCount = int (length ts),
      k_usageLimit = ul, k_usageLog = now # ts\<rparr>), w2)"
proof -
  let ?d = "\<lparr>k_apiKey = k, k_usageCount = 0, k_usageLimit = ul, k_usageLog = [now]\<rparr>"
  have "w1 = put M (API_LOOKUP k) (VStr u) (put M (API_KEY u) (VAPIKey ?d) w)"
    using c by (simp add: createAPIKey_def act_simps Let_def k_def)
  then have "strs M w1 (API_KEY u) = Some (VAPIKey ?d)" "strs M w1 (API_LOOKUP k) = Some (VStr u)"
    by (simp_all add: strs_put key_simps)
  from use_key_spec [OF this, of ts] have
    "strs M w2 (API_KEY u) = Some (VAPIKey \<lparr>k_apiKey = k, k_usageCount = int (length ts),
      k_usageLimit = ul, k_usageLog = now # ts\<rparr>)" "strs M w2 (API_LOOKUP k) = Some (VStr u)"
    by (simp_all add: w2_def)
  then show ?thesis
    using u by (cases u) (simp_all add: getAPIKey_eq getUUIDFromAPIKey_def act_simps)
qed

lemma purchase_spec:
  assumes "CHR '':'' \<notin> set u" "CHR '':'' \<notin> set v"
  shows "hasPurchaseAccess M v j (snd (storePurchase M u i now w)) =
    (Inr (Success ((v = u \<and> j = i) \<or> strs M w (PURCHASE v j) \<noteq> None)), snd (storePurchase M u i now w))"
proof -
  have "PURCHASE v j = PURCHASE u i \<longleftrightarrow> v = u \<and> j = i"
  proof -
    have "v @ '':'' @ j = u @ '':'' @ i \<Longrightarrow> v = u \<and> j = i"
      using assms by (induction v arbitrary: u) (case_tac u; auto)+
    then show ?thesis by (auto simp: key_simps)
  qed
  then show ?thesis
    by (auto simp: hasPurchaseAccess_def storePurchase_def act_simps strs_laws)
qed

end

text \<open>an API key is a key to its user: after a key was created and used \<open>n\<close> times, looking
  it up answers the user, and the record of the user has the key, the count \<open>n\<close>, the limit and
  the time stamps of the creation and of all the uses in order.\<close>

theorem apikey_roundtrip:
  assumes "redis_up M" and "u \<noteq> []" and "createAPIKey M ul u rnds now w = (r, w1)"
  shows "getUUIDFromAPIKey M (generateAPIKey rnds) (use_key M u ts w1) = (Inr (Success u), use_key M u ts w1) \<and>
    getAPIKey M u (use_key M u ts w1) = (Inr (Success \<lparr>k_apiKey = generateAPIKey rnds,
      k_usageCount = int (length ts), k_usageLimit = ul, k_usageLog = now # ts\<rparr>), use_key M u ts w1)"
  by (rule redis_up.apikey_spec [OF assms])

theorem apikey_roundtrip_witness:
  "fst (getUUIDFromAPIKey mem_redis (generateAPIKey (replicate 32 7))
     (use_key mem_redis ''u1'' [5, 6] (snd (createAPIKey mem_redis 100 ''u1'' (replicate 32 7) 4 mem0))))
   = Inr (Success ''u1'')"
  using apikey_roundtrip [OF mem_is_up _ prod.collapse [symmetric], where u = "''u1''" and ul = 100 and
      rnds = "replicate 32 7" and now = 4 and w = mem0 and ts = "[5, 6]"] by simp

text \<open>a stored purchase grants access to exactly that job for exactly that user: the access of
  every other pair is what it was (user identifiers have no colon, the separator of the key).\<close>

theorem purchase_access:
  assumes "redis_up M" and "CHR '':'' \<notin> set u" and "CHR '':'' \<notin> set v"
  shows "hasPurchaseAccess M v j (snd (storePurchase M u i now w)) =
    (Inr (Success ((v = u \<and> j = i) \<or> strs M w (PURCHASE v j) \<noteq> None)), snd (storePurchase M u i now w))"
  by (rule redis_up.purchase_spec [OF assms])

theorem purchase_access_witness:
  "fst (hasPurchaseAccess mem_redis ''u2'' ''j'' (snd (storePurchase mem_redis ''u1'' ''j'' 4 mem0)))
     = Inr (Success False)"
  using purchase_access [OF mem_is_up, of "''u1''" "''u2''" "''j''" "''j''" 4 mem0] by simp

end
