(* ===== verification/ServiceFacts.thy ===== *)
theory ServiceFacts
  imports ServiceReports DatabaseProperties
begin

text \<open>
  What the job operations of \<open>DatabaseService\<close> do to the maps of clients and
  jobs: each is an equation that names the branch taken and the world it ends
  in, from which the properties of the next theory follow by rewriting.
\<close>

section \<open>Finding a client by its connection\<close>

definition all_clients :: "'w redis \<Rightarrow> 'w \<Rightarrow> ClientStruct list" where
  "all_clients M w = somes (map (clients M w) (client_ids M w))"

definition client_named :: "'w redis \<Rightarrow> 'w \<Rightarrow> string \<Rightarrow> ClientStruct option" where
  "client_named M w cid = find_client cid (all_clients M w)"

text \<open>No two clients have the same connection identifier.\<close>

definition unique_connections :: "'w redis \<Rightarrow> 'w \<Rightarrow> bool" where
  "unique_connections M w \<longleftrightarrow> (\<forall>u v c d. clients M w u = Some c \<longrightarrow> clients M w v = Some d \<longrightarrow>
     c_client_id c = c_client_id d \<longrightarrow> u = v)"

text \<open>No client has more active jobs than it has capacity for.\<close>

definition capacity_ok :: "'w redis \<Rightarrow> 'w \<Rightarrow> bool" where
  "capacity_ok M w \<longleftrightarrow> (\<forall>u c. clients M w u = Some c \<longrightarrow> active_count c \<le> max_capacity c)"

section \<open>The worlds of assignment, completion and failure\<close>

definition update_job_if :: "'w redis \<Rightarrow> string \<Rightarrow> job_field list \<Rightarrow> 'w \<Rightarrow> 'w" where
  "update_job_if M i us w = (case jobs M w i of None \<Rightarrow> w | Some j \<Rightarrow> put_job M i us j w)"

definition update_pair ::
  "'w redis \<Rightarrow> string \<Rightarrow> job_field list \<Rightarrow> client_field list \<Rightarrow> ClientStruct \<Rightarrow> 'w \<Rightarrow> 'w" where
  "update_pair M i js us c w = put_client M (c_user_principal_id c) us c
     (watch M (CLIENT (c_user_principal_id c)) (update_job_if M i js w))"

definition assign_job :: "ClientStruct \<Rightarrow> int \<Rightarrow> job_field list" where
  "assign_job c now = [JobUser (c_user_principal_id c), State (job_state ONGOING), AssignedAt now]"

definition fail_client :: "ClientStruct \<Rightarrow> string \<Rightarrow> int \<Rightarrow> client_field list" where
  "fail_client c i now = (let rest = filter (\<lambda>k. k \<noteq> i) (c_activeJobs c) in ActiveJobs rest #
     (if rest = [] then [LegacyJobID [], LegacyJobStatus (client_state NOT_WORKING), LegacyJobEndTime now]
      else [LegacyJobID (hd rest), LegacyJobStatus (client_state WORKING)]))"

definition complete_client :: "ClientStruct \<Rightarrow> string \<Rightarrow> rat \<Rightarrow> client_field list" where
  "complete_client c i reward = [ActiveJobs (filter (\<lambda>k. k \<noteq> i) (c_activeJobs c)),
     TodaysEarnings (c_todaysEarnings c + reward), Balance (c_balance c + reward)]"

lemma completion_updates_fields [simp]:
  "job_state_of (completion_updates c r sid p now) = Some (job_state COMPLETED)"
  "job_user_of (completion_updates c r sid p now) = Some (c_user_principal_id c)"
  "j_reward (spread_job (completion_updates c r sid p now) j) = r"
  "j_completeAt (spread_job (completion_updates c r sid p now) j) = now"
  by (auto simp: completion_updates_def split: option.split)

context redis_up
begin

lemma client_named_Some:
  assumes "db_typed M w" "client_named M w cid = Some c"
  shows "clients M w (c_user_principal_id c) = Some c" "c_client_id c = cid"
proof -
  from assms(2) have "c \<in> set (all_clients M w)" and id: "c_client_id c = cid"
    unfolding client_named_def find_client_def by (auto dest: find_Some_set)
  then obtain u where "clients M w u = Some c"
    unfolding all_clients_def listed_clients by blast
  with assms(1) show "clients M w (c_user_principal_id c) = Some c"
    using db_typed_client by metis
  show "c_client_id c = cid" by (rule id)
qed

lemma client_named_None:
  "client_named M w cid = None \<longleftrightarrow> (\<forall>u c. clients M w u = Some c \<longrightarrow> c_client_id c \<noteq> cid)"
  unfolding client_named_def find_client_def all_clients_def find_None_set
  using listed_clients by blast

lemma client_named_unique:
  assumes "db_typed M w" "unique_connections M w" "clients M w u = Some c"
  shows "client_named M w (c_client_id c) = Some c"
proof (cases "client_named M w (c_client_id c)")
  case None
  with assms(3) show ?thesis by (auto simp: client_named_None)
next
  case (Some d)
  note d = client_named_Some [OF assms(1) Some]
  have "u = c_user_principal_id d"
    using assms(2,3) d unfolding unique_connections_def by metis
  with Some d(1) assms(3) show ?thesis by simp
qed

lemma no_empty_user:
  "db_inv M w \<Longrightarrow> clients M w (c_user_principal_id c) = Some c \<Longrightarrow> c_user_principal_id c \<noteq> []"
  by (auto simp: db_inv_def)

lemma update_job_if_facts:
  assumes "db_inv M w" "proper_job_update us"
  shows "db_inv M (update_job_if M i us w)" "clients M (update_job_if M i us w) = clients M w"
    "jobs M (update_job_if M i us w) = (case jobs M w i of None \<Rightarrow> jobs M w
       | Some j \<Rightarrow> (jobs M w)(i \<mapsto> spread_job us j))"
  using assms by (auto simp: update_job_if_def db_inv_put_job split: option.split)

lemma updateJob_if:
  "db_typed M w \<Longrightarrow> updateJob M i us w = (Inr (case jobs M w i of
      None \<Rightarrow> Failure NotFound ''Job not found'' | Some j \<Rightarrow> Success ()), update_job_if M i us w)"
  by (simp add: updateJob_eq update_job_if_def split: option.split)

lemma update_pair_facts:
  assumes inv: "db_inv M w" and js: "proper_job_update js" and us: "proper_client_update us"
    and c: "clients M w (c_user_principal_id c) = Some c"
  shows "db_inv M (update_pair M i js us c w)"
    "clients M (update_pair M i js us c w) = (clients M w)(c_user_principal_id c \<mapsto> spread_client us c)"
    "jobs M (update_pair M i js us c w) = (case jobs M w i of None \<Rightarrow> jobs M w
       | Some j \<Rightarrow> (jobs M w)(i \<mapsto> spread_job js j))"
  using update_job_if_facts [OF inv js] us c
  by (simp_all add: update_pair_def db_inv_put_client)

lemma update_pair_runs:
  assumes inv: "db_inv M w" and js: "proper_job_update js"
    and c: "clients M w (c_user_principal_id c) = Some c"
  shows "thenA (updateJob M i js) (thenA (updateClient M (c_user_principal_id c) us) m) w =
    m (update_pair M i js us c w)"
  using update_job_if_facts [OF inv js] c db_inv_typed [OF inv]
    db_inv_typed [OF update_job_if_facts(1) [OF inv js]]
  by (simp add: act_simps updateJob_if updateClient_eq update_pair_def)

lemma assignJobToClient_eq:
  assumes inv: "db_inv M w"
  shows "assignJobToClient M i cid now w = (case client_named M w cid of
      None \<Rightarrow> (Inr (Failure NotFound ''Client not found''), w)
    | Some c \<Rightarrow> if max_capacity c \<le> active_count c
        then (Inr (Failure InvalidInput (''Client at maximum capacity ('' @
               show_int (active_count c) @ ''/'' @ show_int (max_capacity c) @ '')'')), w)
        else (Inr (Success ''Job assigned successfully''),
              update_pair M i (assign_job c now) [ActiveJobs (c_activeJobs c @ [i])] c w))"
proof (cases "client_named M w cid")
  case None
  then show ?thesis
    by (simp add: assignJobToClient_def act_simps getAllClients_eq [OF db_inv_typed [OF inv]]
      client_named_def all_clients_def)
next
  case (Some c)
  note c = client_named_Some [OF db_inv_typed [OF inv] Some]
  have "proper_job_update (assign_job c now)"
    using no_empty_user [OF inv c(1)] by (simp add: proper_job_update_def assign_job_def)
  note run = update_pair_runs [OF inv this c(1), unfolded assign_job_def]
  show ?thesis
    using Some by (simp add: assignJobToClient_def catchA_apply bindA_apply run returnA_apply
      getAllClients_eq [OF db_inv_typed [OF inv]] client_named_def all_clients_def assign_job_def
      del: job_state.simps)
qed

lemma markJobAsFailed_eq:
  assumes inv: "db_inv M w"
  shows "markJobAsFailed M i cid msg now w = (case client_named M w cid of
      None \<Rightarrow> (Inr (Failure NotFound ''Client not found''), w)
    | Some c \<Rightarrow> (Inr (Success ''Job marked as failed successfully''),
        update_pair M i [State (job_state FAILED), CompleteAt now, Reward 0, JobError msg]
          (fail_client c i now) c w))"
proof (cases "client_named M w cid")
  case None
  then show ?thesis
    by (simp add: markJobAsFailed_def act_simps getAllClients_eq [OF db_inv_typed [OF inv]]
      client_named_def all_clients_def)
next
  case (Some c)
  note c = client_named_Some [OF db_inv_typed [OF inv] Some]
  have "proper_job_update [State (job_state FAILED), CompleteAt now, Reward 0, JobError msg]"
    by (simp add: proper_job_update_def)
  note run = update_pair_runs [OF inv this c(1)]
  show ?thesis
    using Some by (simp add: markJobAsFailed_def catchA_apply bindA_apply run returnA_apply Let_def
      getAllClients_eq [OF db_inv_typed [OF inv]] client_named_def all_clients_def fail_client_def
      del: job_state.simps client_state.simps)
qed

lemma keeps_db_pricing [keeps_rules]:
  "(\<And>fid. keeps_db M (fetch fid)) \<Longrightarrow> keeps_db M (completion_pricing parse fetch sid jt)"
  unfolding completion_pricing_def by (intro keeps_rules)

lemma completion_pricing_result:
  obtains p w' where "completion_pricing parse fetch sid jt w = (Inr p, w')"
proof -
  have "total (completion_pricing parse fetch sid jt)"
    unfolding completion_pricing_def by (auto split: option.split)
  then show ?thesis using that unfolding total_def by blast
qed

lemma updateJobCompleted_eq:
  fixes now :: int
  assumes inv: "db_inv M w" and fetch: "\<And>fid. keeps_db M (fetch fid)"
    and c: "client_named M w cid = Some c" and j: "jobs M w i = Some j"
  defines "reward \<equiv> job_reward (j_assignedAt j) now"
  obtains p w1 where "same_db M w w1"
    "updateJobCompleted M parse fetch referral i cid sid now w = (Inr (Success reward),
       snd (run_referral referral (c_user_principal_id c) reward i
         (update_pair M i (completion_updates c reward sid p now) (complete_client c i reward) c w1)))"
    "completion_pricing parse fetch sid (j_jobType j) w = (Inr p, w1)"
proof -
  note c' = client_named_Some [OF db_inv_typed [OF inv] c]
  obtain p w1 where p: "completion_pricing parse fetch sid (j_jobType j) w = (Inr p, w1)"
    by (rule completion_pricing_result)
  have "keeps_db M (completion_pricing parse fetch sid (j_jobType j))"
    by (rule keeps_db_pricing) (rule fetch)
  from keeps_dbD [OF this, of w] p have sd: "same_db M w w1" by simp
  note m = same_db_maps [OF sd]
  have inv1: "db_inv M w1" and c1: "clients M w1 (c_user_principal_id c) = Some c"
    using inv c' m by simp_all
  have "proper_job_update (completion_updates c reward sid p now)"
    using no_empty_user [OF inv c'(1)] by (simp add: proper_job_update_def)
  note run = update_pair_runs [OF inv1 this c1]
  let ?v = "update_pair M i (completion_updates c reward sid p now) (complete_client c i reward) c w1"
  have "total (run_referral referral (c_user_principal_id c) reward i)"
    unfolding run_referral_def by (auto split: option.split)
  then obtain a v where v: "run_referral referral (c_user_principal_id c) reward i ?v = (Inr a, v)"
    unfolding total_def by blast
  have "updateJobCompleted M parse fetch referral i cid sid now w = (Inr (Success reward), v)"
    using c j p v
    by (simp add: updateJobCompleted_def catchA_apply bindA_apply Let_def
      getAllClients_eq [OF db_inv_typed [OF inv]] getJob_eq [OF db_inv_typed [OF inv]]
      client_named_def all_clients_def reward_def [symmetric] run [unfolded complete_client_def]
      complete_client_def thenA_apply [of "run_referral _ _ _ _"] returnA_apply)
  then have "updateJobCompleted M parse fetch referral i cid sid now w = (Inr (Success reward),
      snd (run_referral referral (c_user_principal_id c) reward i ?v))"
    using v by simp
  with sd p that show ?thesis by blast
qed

end

end
