(* ===== verification/ServiceProperties.thy ===== *)
theory ServiceProperties
  imports ServiceFacts
begin

text \<open>The properties of the job operations of \<open>DatabaseService\<close> (\<open>src/db/service.ts\<close>).\<close>

section \<open>The states the service can reach\<close>

definition service_inv :: "'w redis \<Rightarrow> 'w \<Rightarrow> bool" where
  "service_inv M w \<longleftrightarrow> db_inv M w \<and> capacity_ok M w"

definition empty_store :: "'w redis \<Rightarrow> 'w \<Rightarrow> bool" where
  "empty_store M w \<longleftrightarrow> (\<forall>k. strs M w k = None \<and> mems M w k = [])"

text \<open>
  One call of the service. A job identifier is drawn fresh (it has the time and
  a random number in it), users have a non-empty identifier, and a referral
  service, where one is set, keeps the invariant itself.
\<close>

inductive service_step :: "'w redis \<Rightarrow> (string \<Rightarrow> json option) \<Rightarrow> 'w \<Rightarrow> 'w \<Rightarrow> bool" for M parse where
  Login: "uid \<noteq> [] \<Longrightarrow> service_step M parse w (snd (login M uid rnds now w))"
| Connect: "service_step M parse w (snd (clientConnect M ttl uid cid now rnd w))"
| Disconnect: "service_step M parse w (snd (clientDisconnect M cid now w))"
| Speed: "service_step M parse w (snd (updateClientInternetSpeed M parse uid text now w))"
| Heartbeat: "service_step M parse w (snd (wsUpdateHeartbeat M uid now w))"
| Rewards: "service_step M parse w (snd (addRewardsToDB M uid reward w))"
| AddJob: "strs M w (JOB (generateJobId now rnd)) = None \<Longrightarrow>
    service_step M parse w (snd (addJobToDB M uid jobType target now rnd w))"
| Assign: "service_step M parse w (snd (assignJobToClient M i cid now w))"
| FindJob: "service_step M parse w (snd (findAndAssignJob M uid now w))"
| FindNode: "service_step M parse w (snd (findOptimalNode M i now w))"
| FindNodeWithId: "service_step M parse w (snd (findOptimalNodeWithId M i uid now w))"
| Complete: "(\<And>fid. keeps_db M (fetch fid)) \<Longrightarrow>
    (\<And>f u x k. referral = Some f \<Longrightarrow> preserves (service_inv M) (f u x k)) \<Longrightarrow>
    service_step M parse w (snd (updateJobCompleted M parse fetch referral i cid sid now w))"
| Fail: "service_step M parse w (snd (markJobAsFailed M i cid msg now w))"
| Cleanup: "service_step M parse w (snd (service_cleanupOldJobs M t w))"
| Delete: "service_step M parse w (snd (deleteJob M i w))"

inductive_cases service_stepE: "service_step M parse w w'"

section \<open>Every call keeps the invariant\<close>

lemma service_inv_db: "service_inv M w \<Longrightarrow> db_inv M w"
  by (simp add: service_inv_def)

lemma same_db_service_inv: "same_db M w w' \<Longrightarrow> service_inv M w' = service_inv M w"
  by (simp add: service_inv_def capacity_ok_def same_db_maps)

lemma keeps_db_service: "keeps_db M m \<Longrightarrow> preserves (service_inv M) m"
  unfolding keeps_db_def preserves_def by (metis same_db_service_inv)

text \<open>An update that touches neither the active jobs nor the capacity.\<close>

definition capacity_neutral :: "client_field list \<Rightarrow> bool" where
  "capacity_neutral us \<longleftrightarrow> (\<forall>u \<in> set us. case u of ActiveJobs _ \<Rightarrow> False
     | MaxConcurrentJobs _ \<Rightarrow> False | _ \<Rightarrow> True)"

lemma capacity_neutral_simps [simp]:
  "capacity_neutral []"
  "capacity_neutral (u # us) \<longleftrightarrow> (case u of ActiveJobs _ \<Rightarrow> False | MaxConcurrentJobs _ \<Rightarrow> False
     | _ \<Rightarrow> True) \<and> capacity_neutral us"
  "capacity_neutral (us @ vs) \<longleftrightarrow> capacity_neutral us \<and> capacity_neutral vs"
  by (auto simp: capacity_neutral_def)

lemma capacity_neutral_spread:
  "capacity_neutral us \<Longrightarrow> active_count (spread_client us c) = active_count c \<and>
     max_capacity (spread_client us c) = max_capacity c"
proof (induction us arbitrary: c)
  case (Cons u us)
  then have "active_count (set_client_field u c) = active_count c"
    "max_capacity (set_client_field u c) = max_capacity c"
    by (cases u; simp add: active_count_def max_capacity_def)+
  with Cons show ?case by simp
qed simp

context redis_up
begin

lemma capacity_ok_update:
  "capacity_ok M w \<Longrightarrow> clients M w' = (clients M w)(u \<mapsto> d) \<Longrightarrow> active_count d \<le> max_capacity d \<Longrightarrow>
     capacity_ok M w'"
  unfolding capacity_ok_def by auto

lemma updateClient_keeps:
  assumes "proper_client_update us" "capacity_neutral us"
  shows "preserves (service_inv M) (updateClient M u us)"
  unfolding preserves_def
proof (intro allI impI)
  fix w assume inv: "service_inv M w"
  then have d: "db_inv M w" and t: "db_typed M w" by (auto simp: service_inv_def)
  show "service_inv M (snd (updateClient M u us w))"
  proof (cases "clients M w u")
    case None
    with inv show ?thesis by (simp add: updateClient_eq [OF t] service_inv_def capacity_ok_def)
  next
    case (Some c)
    have "active_count (spread_client us c) \<le> max_capacity (spread_client us c)"
      using inv Some capacity_neutral_spread [OF assms(2)] by (simp add: service_inv_def capacity_ok_def)
    with inv have "capacity_ok M (put_client M u us c (watch M (CLIENT u) w))"
      by (rule_tac capacity_ok_update [of w _ u "spread_client us c"]) (simp_all add: service_inv_def)
    moreover have "db_inv M (put_client M u us c (watch M (CLIENT u) w))"
      using d Some assms(1) by (intro db_inv_put_client) simp_all
    ultimately show ?thesis using Some by (simp add: updateClient_eq [OF t] service_inv_def)
  qed
qed

lemma reads_keep_inv [keeps_rules]:
  "preserves (service_inv M) (getClient M u)" "preserves (service_inv M) (getJob M i)"
  "preserves (service_inv M) (getAllClients M)" "preserves (service_inv M) (getJobsByState M s)"
  "preserves (service_inv M) (getClientsByStatus M s)"
  "preserves (service_inv M) (createSession M ttl u cid now rnd)"
  by (intro keeps_db_service keeps_rules)+

lemma calls_keep_inv:
  "preserves (service_inv M) (clientConnect M ttl uid cid now rnd)"
  "preserves (service_inv M) (clientDisconnect M cid now)"
  "preserves (service_inv M) (updateClientInternetSpeed M parse uid text now)"
  "preserves (service_inv M) (wsUpdateHeartbeat M uid now)"
  "preserves (service_inv M) (addRewardsToDB M uid reward)"
  unfolding clientConnect_def clientDisconnect_def updateClientInternetSpeed_def
    wsUpdateHeartbeat_def addRewardsToDB_def Let_def
  by (intro keeps_rules updateClient_keeps;
      simp add: proper_client_update_def split: option.split)+

lemma login_keeps:
  assumes inv: "service_inv M w" and u: "u \<noteq> []"
  shows "service_inv M (snd (login M u rnds now w))"
proof (cases "clients M w u")
  case (Some c)
  have "preserves (service_inv M) (updateClient M u
      [WsConnect now, WsDisconnect 0, Client_status (client_status ACTIVE)])"
    by (rule updateClient_keeps) (simp_all add: proper_client_update_def)
  from preservesD [OF this inv] Some inv show ?thesis
    by (simp add: login_def act_simps getClient_eq db_inv_typed service_inv_def updateClient_eq)
next
  case None
  have t: "db_typed M w" using inv by (auto simp: service_inv_def)
  let ?code = "generateReferralCode rnds"
  obtain c w1 where cr: "createClient M u ?code now w = (Inr (Success c), w1)"
    by (simp add: createClient_eq Let_def)
  note e = createClient_effect [OF service_inv_db [OF inv] _ u cr]
  have fresh: "strs M w (CLIENT u) = None" using None db_typed_client_None [OF t] by blast
  have c: "active_count c \<le> max_capacity c"
    using cr by (auto simp: createClient_eq Let_def new_client_def active_count_def max_capacity_def or_num_def)
  have inv1: "service_inv M w1"
    using e(3) [OF fresh] capacity_ok_update [OF _ e(1) [OF fresh] c] inv by (simp add: service_inv_def)
  have "preserves (service_inv M) (updateClient M u [Client_status (client_status ACTIVE)])"
    by (rule updateClient_keeps) (simp_all add: proper_client_update_def)
  from preservesD [OF this inv1] e(1) [OF fresh] inv1 cr None show ?thesis
    by (simp add: login_def act_simps getClient_eq [OF t] updateClient_eq db_inv_typed service_inv_def)
qed

lemma update_pair_keeps:
  assumes inv: "service_inv M w" and c: "clients M w (c_user_principal_id c) = Some c"
    and js: "proper_job_update js" and us: "proper_client_update us"
    and cap: "active_count (spread_client us c) \<le> max_capacity (spread_client us c)"
  shows "service_inv M (update_pair M i js us c w)"
  using update_pair_facts [OF service_inv_db [OF inv] js us c] cap inv
  by (auto simp: service_inv_def intro: capacity_ok_update)

lemma assign_keeps:
  assumes inv: "service_inv M w"
  shows "service_inv M (snd (assignJobToClient M i cid now w))"
proof (cases "client_named M w cid")
  case None
  with inv show ?thesis by (simp add: assignJobToClient_eq service_inv_db)
next
  case (Some c)
  note c = client_named_Some [OF db_inv_typed [OF service_inv_db [OF inv]] Some]
  have "c_user_principal_id c \<noteq> []" by (rule no_empty_user [OF service_inv_db [OF inv] c(1)])
  then have "\<not> max_capacity c \<le> active_count c \<Longrightarrow>
      service_inv M (update_pair M i (assign_job c now) [ActiveJobs (c_activeJobs c @ [i])] c w)"
    by (intro update_pair_keeps [OF inv c(1)])
       (simp_all add: proper_job_update_def proper_client_update_def assign_job_def
         active_count_def max_capacity_def)
  with Some inv show ?thesis by (simp add: assignJobToClient_eq service_inv_db)
qed

lemma finders_keep:
  "preserves (service_inv M) (findAndAssignJob M uid now)"
  "preserves (service_inv M) (findOptimalNode M i now)"
  "preserves (service_inv M) (findOptimalNodeWithId M i uid now)"
proof -
  have [keeps_rules]: "preserves (service_inv M) (assignJobToClient M i cid now)" for i cid
    using assign_keeps by (simp add: preserves_def)
  show "preserves (service_inv M) (findAndAssignJob M uid now)"
    "preserves (service_inv M) (findOptimalNode M i now)"
    "preserves (service_inv M) (findOptimalNodeWithId M i uid now)"
    unfolding findAndAssignJob_def findOptimalNode_def findOptimalNodeWithId_def
    by (intro keeps_rules assign_keeps; simp)+
qed

lemma filter_count_le: "int (length xs) \<le> n \<Longrightarrow> int (length (filter p xs)) \<le> n"
  by (meson length_filter_le of_nat_le_iff order_trans)

lemma fail_keeps:
  assumes inv: "service_inv M w"
  shows "service_inv M (snd (markJobAsFailed M i cid msg now w))"
proof (cases "client_named M w cid")
  case None
  with inv show ?thesis by (simp add: markJobAsFailed_eq service_inv_db)
next
  case (Some c)
  note c = client_named_Some [OF db_inv_typed [OF service_inv_db [OF inv]] Some]
  have "active_count c \<le> max_capacity c"
    using inv c(1) unfolding service_inv_def capacity_ok_def by blast
  then have "service_inv M (update_pair M i [State (job_state FAILED), CompleteAt now, Reward 0, JobError msg]
      (fail_client c i now) c w)"
    by (intro update_pair_keeps [OF inv c(1)])
       (simp_all add: proper_job_update_def proper_client_update_def fail_client_def Let_def
         active_count_def max_capacity_def filter_count_le)
  with Some inv show ?thesis by (simp add: markJobAsFailed_eq service_inv_db)
qed

lemma complete_pair_keeps:
  assumes inv: "service_inv M w" and c: "clients M w (c_user_principal_id c) = Some c"
  shows "service_inv M (update_pair M i (completion_updates c x sid p now) (complete_client c i x) c w)"
proof -
  have "active_count c \<le> max_capacity c"
    using inv c unfolding service_inv_def capacity_ok_def by blast
  then show ?thesis
    using no_empty_user [OF service_inv_db [OF inv] c]
    by (intro update_pair_keeps [OF inv c])
       (simp_all add: proper_job_update_def proper_client_update_def complete_client_def
         active_count_def max_capacity_def filter_count_le)
qed

lemma complete_keeps:
  assumes inv: "service_inv M w" and fetch: "\<And>fid. keeps_db M (fetch fid)"
    and ref: "\<And>f u x k. referral = Some f \<Longrightarrow> preserves (service_inv M) (f u x k)"
  shows "service_inv M (snd (updateJobCompleted M parse fetch referral i cid sid now w))"
proof -
  note d = service_inv_db [OF inv] note t = db_inv_typed [OF d]
  show ?thesis
  proof (cases "client_named M w cid")
    case None
    then show ?thesis using inv by (simp add: updateJobCompleted_def act_simps getAllClients_eq [OF t]
      client_named_def all_clients_def)
  next
    case (Some c)
    note c = client_named_Some [OF t Some]
    show ?thesis
    proof (cases "jobs M w i")
      case None
      with Some show ?thesis using inv
        by (simp add: updateJobCompleted_def act_simps getAllClients_eq [OF t] getJob_eq [OF t]
          client_named_def all_clients_def)
    next
      case (Some j)
      let ?x = "job_reward (j_assignedAt j) now"
      obtain p w1 where sd: "same_db M w w1" and
        run: "updateJobCompleted M parse fetch referral i cid sid now w = (Inr (Success ?x),
          snd (run_referral referral (c_user_principal_id c) ?x i
            (update_pair M i (completion_updates c ?x sid p now) (complete_client c i ?x) c w1)))"
        by (rule updateJobCompleted_eq [OF d fetch \<open>client_named M w cid = Some c\<close> Some])
      have "service_inv M w1" "clients M w1 (c_user_principal_id c) = Some c"
        using inv c(1) same_db_service_inv [OF sd] same_db_maps [OF sd] by simp_all
      then have mid: "service_inv M (update_pair M i (completion_updates c ?x sid p now)
          (complete_client c i ?x) c w1)"
        by (rule complete_pair_keeps)
      have "preserves (service_inv M) (run_referral referral (c_user_principal_id c) ?x i)"
        unfolding run_referral_def by (intro keeps_rules ref)
      from preservesD [OF this mid] show ?thesis by (simp add: run)
    qed
  qed
qed

lemma step_keeps_inv:
  assumes "service_step M parse w w'" and inv: "service_inv M w"
  shows "service_inv M w'"
  using assms
proof cases
  case (AddJob now rnd uid jobType target)
  have "capacity_ok M (snd (createJob M (blank_job uid jobType target) now rnd w))"
    using inv by (simp add: createJob_eq service_inv_def capacity_ok_def)
  then show ?thesis
    using AddJob writes_keep_inv(3) [OF service_inv_db [OF inv] AddJob(2)]
    by (simp add: addJobToDB_def act_simps createJob_eq service_inv_def)
next
  case (Cleanup t)
  have "capacity_ok M (snd (cleanupOldJobs M t w))"
    using cleanupOldJobs_eq(1,3) [OF service_inv_db [OF inv], of t] inv
    by (simp add: service_inv_def capacity_ok_def)
  moreover have "total (cleanupOldJobs M t)" by simp
  then have "snd (service_cleanupOldJobs M t w) = snd (cleanupOldJobs M t w)"
    unfolding total_def service_cleanupOldJobs_def catchA_def
    by (metis (no_types, lifting) case_prod_conv old.sum.simps(6) snd_conv)
  ultimately show ?thesis
    using Cleanup writes_keep_inv(8) [OF service_inv_db [OF inv]] by (simp add: service_inv_def)
next
  case (Delete i)
  have "capacity_ok M (snd (deleteJob M i w))"
    using inv by (simp add: deleteJob_eq db_inv_typed service_inv_def capacity_ok_def split: option.split)
  then show ?thesis
    using Delete writes_keep_inv(7) [OF service_inv_db [OF inv]] by (simp add: service_inv_def)
next
  case (Complete fetch referral i cid sid now)
  then show ?thesis using complete_keeps [OF inv, of fetch referral] by blast
qed (simp_all only: login_keeps [OF inv] assign_keeps [OF inv] fail_keeps [OF inv]
  preservesD [OF calls_keep_inv(1) inv] preservesD [OF calls_keep_inv(2) inv]
  preservesD [OF calls_keep_inv(3) inv] preservesD [OF calls_keep_inv(4) inv]
  preservesD [OF calls_keep_inv(5) inv] preservesD [OF finders_keep(1) inv]
  preservesD [OF finders_keep(2) inv] preservesD [OF finders_keep(3) inv] not_False_eq_True)

end

section \<open>The job life cycle\<close>

context redis_up
begin

lemma reach_inv:
  assumes "empty_store M w0" "(service_step M parse)\<^sup>*\<^sup>* w0 w"
  shows "service_inv M w"
  using assms(2)
proof (induction rule: rtranclp_induct)
  case base
  then show ?case
    using assms(1) by (auto simp: empty_store_def service_inv_def db_inv_def db_typed_def
      status_index_def state_index_def user_index_def clients_def jobs_def capacity_ok_def)
next
  case (step y z)
  then show ?case using step_keeps_inv by blast
qed

lemma assign_spec:
  assumes inv: "service_inv M w" and r: "assignJobToClient M i cid now w = (r, w')"
  shows "(case client_named M w cid of
      None \<Rightarrow> r = Inr (Failure NotFound ''Client not found'') \<and> w' = w
    | Some c \<Rightarrow>
        if active_count c = max_capacity c then (\<exists>m. r = Inr (Failure InvalidInput m)) \<and> w' = w
        else r = Inr (Success ''Job assigned successfully'') \<and>
          clients M w' = (clients M w)(c_user_principal_id c \<mapsto> c\<lparr>c_activeJobs := c_activeJobs c @ [i]\<rparr>) \<and>
          jobs M w' = (case jobs M w i of None \<Rightarrow> jobs M w | Some j \<Rightarrow> (jobs M w)(i \<mapsto>
            j\<lparr>j_state := job_state ONGOING, j_user_principal_id := c_user_principal_id c,
              j_assignedAt := now\<rparr>)) \<and> service_inv M w')"
proof (cases "client_named M w cid")
  case None
  with r show ?thesis by (simp add: assignJobToClient_eq service_inv_db [OF inv])
next
  case (Some c)
  note c = client_named_Some [OF db_inv_typed [OF service_inv_db [OF inv]] Some]
  have "active_count c \<le> max_capacity c"
    using inv c(1) unfolding service_inv_def capacity_ok_def by blast
  moreover have "proper_job_update (assign_job c now)"
    using no_empty_user [OF service_inv_db [OF inv] c(1)]
    by (simp add: proper_job_update_def assign_job_def)
  note facts = update_pair_facts [OF service_inv_db [OF inv] this _ c(1), of "[ActiveJobs (c_activeJobs c @ [i])]" i]
  have "service_inv M w'" using assign_keeps [OF inv, of i cid now] r by simp
  ultimately show ?thesis
    using r Some facts
    by (auto simp: assignJobToClient_eq service_inv_db [OF inv] proper_client_update_def assign_job_def
      split: option.splits)
qed

lemma complete_spec:
  assumes inv: "service_inv M w" and fetch: "\<And>fid. keeps_db M (fetch fid)"
    and c: "client_named M w cid = Some c" and j: "jobs M w i = Some j"
    and r: "updateJobCompleted M parse fetch None i cid sid now w = (r, w')"
  defines "u \<equiv> c_user_principal_id c" and "x \<equiv> job_reward (j_assignedAt j) now"
  shows "r = Inr (Success x) \<and>
    clients M w' = (clients M w)(u \<mapsto> c\<lparr>c_activeJobs := filter (\<lambda>k. k \<noteq> i) (c_activeJobs c),
      c_todaysEarnings := c_todaysEarnings c + x, c_balance := c_balance c + x\<rparr>) \<and>
    (\<exists>j'. jobs M w' = (jobs M w)(i \<mapsto> j') \<and> j_state j' = job_state COMPLETED \<and>
       j_reward j' = x \<and> j_completeAt j' = now \<and> j_user_principal_id j' = u) \<and>
    service_inv M w'"
proof -
  note d = service_inv_db [OF inv] note t = db_inv_typed [OF d]
  obtain p w1 where sd: "same_db M w w1" and
    run: "updateJobCompleted M parse fetch None i cid sid now w = (Inr (Success x),
      snd (run_referral None (c_user_principal_id c) x i
        (update_pair M i (completion_updates c x sid p now) (complete_client c i x) c w1)))"
    unfolding x_def by (rule updateJobCompleted_eq [OF d fetch c j])
  note c' = client_named_Some [OF t c]
  have inv1: "service_inv M w1" "clients M w1 (c_user_principal_id c) = Some c"
    using inv c'(1) same_db_service_inv [OF sd] same_db_maps [OF sd] by simp_all
  have w': "r = Inr (Success x)"
    "w' = update_pair M i (completion_updates c x sid p now) (complete_client c i x) c w1"
    using r by (simp_all add: run run_referral_def act_simps)
  have "proper_job_update (completion_updates c x sid p now)" "proper_client_update (complete_client c i x)"
    using no_empty_user [OF d c'(1)] by (simp_all add: proper_job_update_def proper_client_update_def complete_client_def)
  note facts = update_pair_facts [OF service_inv_db [OF inv1(1)] this inv1(2), of i]
  have "service_inv M w'" unfolding w' by (rule complete_pair_keeps [OF inv1])
  let ?j = "spread_job (completion_updates c x sid p now) j"
  have "jobs M w' = (jobs M w)(i \<mapsto> ?j) \<and> j_state ?j = job_state COMPLETED \<and> j_reward ?j = x \<and>
      j_completeAt ?j = now \<and> j_user_principal_id ?j = u"
    using facts w' j same_db_maps [OF sd] by (simp add: u_def spread_job_state spread_job_user)
  then have "\<exists>j'. jobs M w' = (jobs M w)(i \<mapsto> j') \<and> j_state j' = job_state COMPLETED \<and>
      j_reward j' = x \<and> j_completeAt j' = now \<and> j_user_principal_id j' = u"
    by (rule exI)
  moreover have "clients M w' = (clients M w)(u \<mapsto> c\<lparr>c_activeJobs := filter (\<lambda>k. k \<noteq> i) (c_activeJobs c),
      c_todaysEarnings := c_todaysEarnings c + x, c_balance := c_balance c + x\<rparr>)"
    using facts w' same_db_maps [OF sd] by (simp add: complete_client_def u_def)
  ultimately show ?thesis
    using \<open>service_inv M w'\<close> w'(1) by (intro conjI)
qed

lemma fail_spec:
  assumes inv: "service_inv M w"
    and c: "client_named M w cid = Some c" and j: "jobs M w i = Some j"
    and r: "markJobAsFailed M i cid msg now w = (r, w')"
  shows "r = Inr (Success ''Job marked as failed successfully'') \<and>
    jobs M w' = (jobs M w)(i \<mapsto> j\<lparr>j_state := job_state FAILED, j_completeAt := now, j_reward := 0,
      j_error := Some msg\<rparr>) \<and>
    (\<exists>c'. clients M w' = (clients M w)(c_user_principal_id c \<mapsto> c') \<and>
      c_activeJobs c' = filter (\<lambda>k. k \<noteq> i) (c_activeJobs c) \<and>
      c_balance c' = c_balance c \<and> c_todaysEarnings c' = c_todaysEarnings c) \<and> service_inv M w'"
proof -
  note d = service_inv_db [OF inv] note t = db_inv_typed [OF d]
  note c' = client_named_Some [OF t c]
  have ok: "proper_job_update [State (job_state FAILED), CompleteAt now, Reward 0, JobError msg]"
    "proper_client_update (fail_client c i now)"
    by (simp_all add: proper_job_update_def proper_client_update_def fail_client_def Let_def)
  note facts = update_pair_facts [OF d ok c'(1), of i]
  have w': "r = Inr (Success ''Job marked as failed successfully'')"
    "w' = update_pair M i [State (job_state FAILED), CompleteAt now, Reward 0, JobError msg]
      (fail_client c i now) c w"
    using r c by (simp_all add: markJobAsFailed_eq [OF d])
  have "service_inv M w'" using fail_keeps [OF inv, of i cid msg now] r by simp
  with facts w' j show ?thesis
    by (auto simp: fail_client_def Let_def)
qed

lemma assign_total: "total (assignJobToClient M i cid now)"
  by (simp add: assignJobToClient_def)

lemma optimal_spec:
  assumes inv: "service_inv M w" and j: "jobs M w i = Some j"
    and r: "findOptimalNode M i now w = (r, w')"
  shows "(r = Inr (Success None) \<and> w' = w \<and>
      (\<forall>u c. clients M w u = Some c \<longrightarrow> c_clientStatus c = client_status ACTIVE \<longrightarrow> \<not> available c)) \<or>
    (\<exists>u c. r = Inr (Success (Some (assignment c j))) \<and> clients M w u = Some c \<and>
      c_clientStatus c = client_status ACTIVE \<and> available c \<and>
      w' = snd (assignJobToClient M i (c_client_id c) now w) \<and>
      (\<forall>v d. clients M w v = Some d \<longrightarrow> c_clientStatus d = client_status ACTIVE \<longrightarrow> available d \<longrightarrow>
         max_capacity d - active_count d < max_capacity c - active_count c \<or>
         max_capacity d - active_count d = max_capacity c - active_count c \<and>
           c_downloadSpeed d \<le> c_downloadSpeed c))"
proof -
  note d = service_inv_db [OF inv] note t = db_inv_typed [OF d]
  let ?act = "somes (map (clients M w) (mems M w (CLIENTS_BY_STATUS (client_status ACTIVE))))"
  let ?s = "sort_key node_key (filter available ?act)"
  have mem: "c \<in> set ?s \<longleftrightarrow>
      (\<exists>u. clients M w u = Some c) \<and> c_clientStatus c = client_status ACTIVE \<and> available c" for c
    unfolding set_sort set_filter mem_Collect_eq listed_by_status [OF d] by blast
  show ?thesis
  proof (cases ?s)
    case Nil
    then have "findOptimalNode M i now w = (Inr (Success None), w)"
      by (simp add: findOptimalNode_def catchA_apply bindA_apply getJob_eq [OF t]
        getClientsByStatus_eq [OF t] j returnA_apply del: client_status.simps)
    moreover have "\<forall>u c. clients M w u = Some c \<longrightarrow> c_clientStatus c = client_status ACTIVE \<longrightarrow> \<not> available c"
      using mem unfolding Nil by fastforce
    ultimately show ?thesis using r by simp
  next
    case (Cons c cs)
    obtain a v where a: "assignJobToClient M i (c_client_id c) now w = (Inr a, v)"
      using assign_total [of i "c_client_id c" now] unfolding total_def by blast
    have "findOptimalNode M i now w = (Inr (Success (Some (assignment c j))), v)"
      using a by (simp add: findOptimalNode_def catchA_apply bindA_apply thenA_apply getJob_eq [OF t]
        getClientsByStatus_eq [OF t] j returnA_apply Cons del: client_status.simps)
    then have res: "r = Inr (Success (Some (assignment c j)))"
      "w' = snd (assignJobToClient M i (c_client_id c) now w)"
      using r a by simp_all
    have "c \<in> set ?s" unfolding Cons by simp
    then obtain u where u: "clients M w u = Some c" "c_clientStatus c = client_status ACTIVE" "available c"
      unfolding mem by blast
    have "sorted (map node_key ?s)" by (rule sorted_sort_key)
    then have least: "node_key c \<le> node_key d" if "d \<in> set ?s" for d
      using that unfolding Cons by auto
    have "max_capacity d - active_count d < max_capacity c - active_count c \<or>
        max_capacity d - active_count d = max_capacity c - active_count c \<and>
        c_downloadSpeed d \<le> c_downloadSpeed c"
      if "clients M w v = Some d" "c_clientStatus d = client_status ACTIVE" "available d" for v d
    proof -
      have "node_key c \<le> node_key d" using that mem least by blast
      then show ?thesis by (auto simp: node_key_def less_eq_prod_def)
    qed
    with res u show ?thesis by blast
  qed
qed

end




text \<open>C6: an assignment to an unknown connection or to a full client changes nothing and says so;
  any other appends the job to the client's active jobs and makes the job (if it exists)
  ongoing, given to that client and dated now; the capacity bound and the indexes still hold.\<close>

theorem assign_exact:
  assumes "redis_up M" and "service_inv M w" and "assignJobToClient M i cid now w = (r, w')"
  shows "(case client_named M w cid of
      None \<Rightarrow> r = Inr (Failure NotFound ''Client not found'') \<and> w' = w
    | Some c \<Rightarrow>
        if active_count c = max_capacity c then (\<exists>m. r = Inr (Failure InvalidInput m)) \<and> w' = w
        else r = Inr (Success ''Job assigned successfully'') \<and>
          clients M w' = (clients M w)(c_user_principal_id c \<mapsto> c\<lparr>c_activeJobs := c_activeJobs c @ [i]\<rparr>) \<and>
          jobs M w' = (case jobs M w i of None \<Rightarrow> jobs M w | Some j \<Rightarrow> (jobs M w)(i \<mapsto>
            j\<lparr>j_state := job_state ONGOING, j_user_principal_id := c_user_principal_id c,
              j_assignedAt := now\<rparr>)) \<and> service_inv M w')"
  by (rule redis_up.assign_spec [OF assms])

lemma demo_service: "service_inv mem_redis demo_world"
  by (simp add: service_inv_def demo_inv capacity_ok_def demo_maps active_count_def max_capacity_def or_num_def)

lemma demo_named [simp]: "client_named mem_redis demo_world ''c1'' = Some demo_client"
proof -
  have "unique_connections mem_redis demo_world"
    by (auto simp: unique_connections_def demo_maps split: if_splits)
  from mem.client_named_unique [OF db_inv_typed [OF demo_inv] this, of "''u1''" demo_client]
  show ?thesis by (simp add: demo_maps)
qed

theorem assign_exact_witness:
  "clients mem_redis (snd (assignJobToClient mem_redis ''job_1'' ''c1'' 2000 demo_world)) ''u1''
     = Some (demo_client\<lparr>c_activeJobs := [''job_1'']\<rparr>)"
  using assign_exact [OF mem_is_up demo_service prod.collapse [symmetric], of "''job_1''" "''c1''" 2000]
  by (simp add: active_count_def max_capacity_def or_num_def)



text \<open>nothing stops a second completion: on a job that is already completed, the call pays the
  reward again.\<close>

theorem completion_pays_twice:
  assumes "redis_up M" and "service_inv M w" and "\<And>fid. keeps_db M (fetch fid)"
    and "client_named M w cid = Some c" and "jobs M w i = Some j"
    and "j_state j = job_state COMPLETED"
    and "updateJobCompleted M parse fetch None i cid sid now w = (r, w')"
  shows "\<exists>c'. clients M w' (c_user_principal_id c) = Some c' \<and>
    c_balance c' = c_balance c + job_reward (j_assignedAt j) now"
  using redis_up.complete_spec [OF assms(1-5,7)] by simp

theorem completion_pays_twice_witness:
  "\<exists>c'. clients mem_redis (snd (updateJobCompleted mem_redis (\<lambda>_. None) (\<lambda>_. throwA ''x'') None ''job_1'' ''c1''
     None 11000 (put_job mem_redis ''job_1'' [State ''completed''] demo_job demo_world))) ''u1'' = Some c' \<and>
     c_balance c' = 12/100"
proof -
  let ?w = "put_job mem_redis ''job_1'' [State ''completed''] demo_job demo_world"
  have inv: "service_inv mem_redis ?w"
    using mem.db_inv_put_job [OF demo_inv, of "''job_1''" demo_job "[State ''completed'']"] demo_service
    by (simp add: service_inv_def capacity_ok_def proper_job_update_def demo_maps)
  have "unique_connections mem_redis ?w"
    by (auto simp: unique_connections_def demo_maps split: if_splits)
  from mem.client_named_unique [OF db_inv_typed [OF service_inv_db [OF inv]] this, of "''u1''" demo_client]
  have c: "client_named mem_redis ?w ''c1'' = Some demo_client" by (simp add: demo_maps)
  show ?thesis
    using completion_pays_twice [OF mem_is_up inv keeps_db_throw c _ _ prod.collapse [symmetric],
        of "''job_1''" "demo_job\<lparr>j_state := ''completed''\<rparr>" "\<lambda>_. None" "\<lambda>_. ''x''" None 11000]
    by (simp add: demo_maps job_reward_def)
qed

text \<open>a failed job pays nothing: it is failed with reward zero and the error text, leaves the
  client's active jobs, and the balance and the earnings of the client are what they were.\<close>

theorem failure_pays_nothing:
  assumes "redis_up M" and "service_inv M w" and "client_named M w cid = Some c"
    and "jobs M w i = Some j" and "markJobAsFailed M i cid msg now w = (r, w')"
  shows "r = Inr (Success ''Job marked as failed successfully'') \<and>
    jobs M w' = (jobs M w)(i \<mapsto> j\<lparr>j_state := job_state FAILED, j_completeAt := now, j_reward := 0,
      j_error := Some msg\<rparr>) \<and>
    (\<exists>c'. clients M w' = (clients M w)(c_user_principal_id c \<mapsto> c') \<and>
      c_activeJobs c' = filter (\<lambda>k. k \<noteq> i) (c_activeJobs c) \<and>
      c_balance c' = c_balance c \<and> c_todaysEarnings c' = c_todaysEarnings c) \<and> service_inv M w'"
  by (rule redis_up.fail_spec [OF assms])

theorem failure_pays_nothing_witness:
  "jobs mem_redis (snd (markJobAsFailed mem_redis ''job_1'' ''c1'' ''boom'' 2000 demo_world)) ''job_1''
     = Some (demo_job\<lparr>j_state := ''failed'', j_completeAt := 2000, j_reward := 0, j_error := Some ''boom''\<rparr>)"
  using failure_pays_nothing [OF mem_is_up demo_service demo_named _ prod.collapse [symmetric],
      of "''job_1''" demo_job "''boom''" 2000]
  by (simp add: demo_maps)

text \<open>C8: \<open>findOptimalNode\<close> gives the job to an active, connected client with free capacity than
  which no such client has more free capacity, nor as much and a faster connection; it answers
  nothing, and changes nothing, exactly when there is no such client.\<close>

theorem findOptimalNode_optimal:
  assumes "redis_up M" and "service_inv M w" and "jobs M w i = Some j"
    and "findOptimalNode M i now w = (r, w')"
  shows "(r = Inr (Success None) \<and> w' = w \<and>
      (\<forall>u c. clients M w u = Some c \<longrightarrow> c_clientStatus c = client_status ACTIVE \<longrightarrow> \<not> available c)) \<or>
    (\<exists>u c. r = Inr (Success (Some (assignment c j))) \<and> clients M w u = Some c \<and>
      c_clientStatus c = client_status ACTIVE \<and> available c \<and>
      w' = snd (assignJobToClient M i (c_client_id c) now w) \<and>
      (\<forall>v d. clients M w v = Some d \<longrightarrow> c_clientStatus d = client_status ACTIVE \<longrightarrow> available d \<longrightarrow>
         max_capacity d - active_count d < max_capacity c - active_count c \<or>
         max_capacity d - active_count d = max_capacity c - active_count c \<and>
           c_downloadSpeed d \<le> c_downloadSpeed c))"
  by (rule redis_up.optimal_spec [OF assms])

theorem findOptimalNode_optimal_witness:
  "fst (findOptimalNode mem_redis ''job_1'' 2000 demo_world) = Inr (Success (Some (assignment demo_client demo_job)))"
  using findOptimalNode_optimal [OF mem_is_up demo_service _ prod.collapse [symmetric], of "''job_1''" demo_job 2000]
  by (auto simp: demo_maps available_def active_count_def max_capacity_def or_num_def split: if_splits)

end
