(* ===== verification/ReportProperties.thy ===== *)
theory ReportProperties
  imports ServiceProperties
begin

text \<open>
  The properties of the reports of \<open>DatabaseService\<close> (\<open>src/db/service.ts\<close>): the
  paginated reward history, the rewards by date and the capacity statistics.
\<close>

section \<open>Pages\<close>

lemma concat_chunks: "concat (map (\<lambda>k. take l (drop (k * l) xs)) [0..<n]) = take (n * l) xs"
  by (induction n) (simp_all add: take_add [symmetric] add.commute)

lemma upto_as_upt: "map (\<lambda>k. int k + 1) [0..<n] = [1..int n]"
  by (induction n) (simp_all add: upto_rec2)

lemma page_of_take:
  "0 < limit \<Longrightarrow> page_of (int k + 1) limit xs = take (nat limit) (drop (k * nat limit) xs)"
  by (simp add: page_of_def Let_def js_slice_nonneg nat_add_distrib nat_mult_distrib)

lemma total_pages_bound:
  assumes "0 < limit" "0 \<le> n"
  shows "0 \<le> total_pages n limit" "n \<le> total_pages n limit * limit"
proof -
  have "0 \<le> (of_int n :: rat) / of_int limit" using assms by simp
  then show "0 \<le> total_pages n limit" unfolding total_pages_def by linarith
  have "(of_int n :: rat) / of_int limit \<le> of_int (total_pages n limit)"
    unfolding total_pages_def by (rule le_of_int_ceiling)
  then have "(of_int n :: rat) \<le> of_int (total_pages n limit) * of_int limit"
    using assms(1) by (simp add: pos_divide_le_eq)
  then show "n \<le> total_pages n limit * limit"
    by (simp only: of_int_mult [symmetric] of_int_le_iff)
qed

lemma concat_pages:
  assumes "0 < limit"
  shows "concat (map (\<lambda>p. page_of p limit xs) [1..total_pages (int (length xs)) limit]) = xs"
proof -
  let ?t = "total_pages (int (length xs)) limit"
  note b = total_pages_bound [OF assms, of "int (length xs)"]
  have "[1..?t] = map (\<lambda>k. int k + 1) [0..<nat ?t]"
    using b(1) by (simp add: upto_as_upt)
  then have "concat (map (\<lambda>p. page_of p limit xs) [1..?t]) = take (nat ?t * nat limit) xs"
    using assms by (simp add: o_def page_of_take concat_chunks)
  moreover have "int (length xs) \<le> int (nat ?t * nat limit)"
    using b assms by simp
  ultimately show ?thesis by simp
qed

definition all_rewards :: "JobStruct list \<Rightarrow> RewardTransaction list \<Rightarrow> UserReward list" where
  "all_rewards js txs = sort_desc ur_timestamp (map job_entry (completed_jobs js) @ map uptime_entry txs)"

definition history_pages_of :: "JobStruct list \<Rightarrow> RewardTransaction list \<Rightarrow> int \<Rightarrow> int" where
  "history_pages_of js txs limit = pg_totalPages (rh_pagination (reward_history js txs 0 1 limit))"

text \<open>the pages of the reward history are a partition of it: put one after the other, the pages
  1 to \<open>totalPages\<close> are all the rewards, newest first; no page is longer than the limit, and the
  flags say whether there is a page after and before.\<close>

theorem history_pages:
  assumes "0 < limit"
  shows "concat (map (\<lambda>p. rh_rewards (reward_history js txs m p limit)) [1..history_pages_of js txs limit])
      = all_rewards js txs \<and>
    sorted_wrt (\<lambda>a b. ur_timestamp b \<le> ur_timestamp a) (all_rewards js txs) \<and>
    mset (all_rewards js txs) = mset (map job_entry (completed_jobs js)) + mset (map uptime_entry txs) \<and>
    (\<forall>p. int (length (rh_rewards (reward_history js txs m p limit))) \<le> limit \<and>
       pg_hasNextPage (rh_pagination (reward_history js txs m p limit)) = (p < history_pages_of js txs limit) \<and>
       pg_hasPrevPage (rh_pagination (reward_history js txs m p limit)) = (1 < p))"
proof -
  define all where "all = all_rewards js txs"
  define pages where "pages = history_pages_of js txs limit"
  have r: "rh_rewards (reward_history js txs m p limit) = page_of p limit all" for p
    by (simp add: reward_history_def Let_def all_def all_rewards_def)
  have "int (length (page_of p limit all)) \<le> limit" for p
  proof -
    have "js_slice ((p - 1) * limit) ((p - 1) * limit + limit) all = [] \<or>
        length (js_slice ((p - 1) * limit) ((p - 1) * limit + limit) all) \<le> nat limit"
    proof (cases "0 \<le> (p - 1) * limit")
      case True
      then show ?thesis using assms(1) by (simp add: js_slice_nonneg nat_add_distrib)
    next
      case False
      then have "slice_index (length all) ((p - 1) * limit + limit)
          \<le> slice_index (length all) ((p - 1) * limit) + nat limit"
        using assms(1) by (auto simp: slice_index_def)
      then show ?thesis by (auto simp: js_slice_def Let_def)
    qed
    then show ?thesis using assms(1) by (auto simp: page_of_def Let_def)
  qed
  moreover have "pages = total_pages (int (length all)) limit"
    by (simp add: pages_def history_pages_of_def reward_history_def Let_def all_def all_rewards_def)
  moreover have "mset all = mset (map job_entry (completed_jobs js)) + mset (map uptime_entry txs)"
    by (simp add: all_def all_rewards_def sort_desc_def)
  moreover have "sorted_wrt (\<lambda>a b. ur_timestamp b \<le> ur_timestamp a) all"
    unfolding all_def all_rewards_def by (rule sorted_sort_desc)
  moreover have "pg_hasNextPage (rh_pagination (reward_history js txs m p limit)) = (p < pages)"
    "pg_hasPrevPage (rh_pagination (reward_history js txs m p limit)) = (1 < p)" for p
    by (simp_all add: pages_def history_pages_of_def reward_history_def Let_def)
  ultimately show ?thesis
    using concat_pages [OF assms(1), of all]
    by (simp add: r all_def [symmetric] pages_def [symmetric])
qed

theorem history_pages_witness:
  "concat (map (\<lambda>p. rh_rewards (reward_history [demo_job\<lparr>j_state := ''completed''\<rparr>] [] 0 p 5))
     [1..history_pages_of [demo_job\<lparr>j_state := ''completed''\<rparr>] [] 5])
   = [job_entry (demo_job\<lparr>j_state := ''completed''\<rparr>)]"
  using history_pages [of 5 "[demo_job\<lparr>j_state := ''completed''\<rparr>]" "[]" 0]
  by (simp add: completed_jobs_def all_rewards_def sort_desc_def)

section \<open>Rewards by date\<close>

lemma sum_by_key:
  fixes f :: "'a \<Rightarrow> 'b::comm_monoid_add"
  assumes "distinct ds" and "\<And>x. x \<in> set xs \<Longrightarrow> g x \<in> set ds"
  shows "(\<Sum>d\<leftarrow>ds. \<Sum>x\<leftarrow>filter (\<lambda>x. g x = d) xs. f x) = (\<Sum>x\<leftarrow>xs. f x)"
  using assms(2)
proof (induction xs)
  case Nil
  then show ?case by simp
next
  case (Cons x xs)
  have one: "(\<Sum>d\<leftarrow>ds. if g x = d then f x else 0) = f x"
    using assms(1) Cons.prems [of x] by (simp add: sum_list_distinct_conv_sum_set)
  have "(\<Sum>d\<leftarrow>ds. \<Sum>x\<leftarrow>filter (\<lambda>x. g x = d) (x # xs). f x) =
      (\<Sum>d\<leftarrow>ds. (if g x = d then f x else 0) + (\<Sum>x\<leftarrow>filter (\<lambda>x. g x = d) xs. f x))"
    by (intro arg_cong [of _ _ sum_list] map_cong) auto
  also have "\<dots> = f x + (\<Sum>x\<leftarrow>xs. f x)"
    using Cons by (simp add: sum_list_addf one)
  finally show ?case by simp
qed

definition dated :: "JobStruct list \<Rightarrow> JobStruct list" where
  "dated js = filter (\<lambda>j. j_completeAt j \<noteq> 0) (completed_jobs js)"

definition job_day :: "JobStruct \<Rightarrow> string" where
  "job_day j = iso_date (j_completeAt j)"

lemma get_or_Nil: "get_or z [] d = z"
  by (simp add: get_or_def)

lemma job_days:
  "get_or (0, 0) (foldl add_job_day m js) d =
     (let on = filter (\<lambda>j. job_day j = d) (filter (\<lambda>j. j_completeAt j \<noteq> 0) js) in
      (fst (get_or (0, 0) m d) + sum_list (map j_reward on), snd (get_or (0, 0) m d) + int (length on)))"
proof (induction js arbitrary: m)
  case Nil
  then show ?case by simp
next
  case (Cons j js)
  have "get_or (0, 0) (add_job_day m j) d = (if j_completeAt j \<noteq> 0 \<and> job_day j = d
      then (fst (get_or (0, 0) m d) + j_reward j, snd (get_or (0, 0) m d) + 1) else get_or (0, 0) m d)"
    by (auto simp: add_job_day_def Let_def get_or_def job_day_def split: prod.split option.split)
  then show ?case
    using Cons by (simp add: Let_def)
qed

lemma tx_days:
  "get_or (0, 0) (foldl add_tx_day m txs) d =
     (let on = filter (\<lambda>t. tx_date t = d) txs in
      (fst (get_or (0, 0) m d) + sum_list (map tx_amount on),
       snd (get_or (0, 0) m d) + sum_list (map tx_uptime_minutes on)))"
proof (induction txs arbitrary: m)
  case Nil
  then show ?case by simp
next
  case (Cons t txs)
  have "get_or (0, 0) (add_tx_day m t) d = (if tx_date t = d
      then (fst (get_or (0, 0) m d) + tx_amount t, snd (get_or (0, 0) m d) + tx_uptime_minutes t)
      else get_or (0, 0) m d)"
    by (auto simp: add_tx_day_def Let_def get_or_def split: prod.split option.split)
  then show ?case
    using Cons by (simp add: Let_def)
qed

lemma set_keys_update: "set (keys_of (AList.update k v m)) = insert k (set (keys_of m))"
  by (simp add: keys_of_def dom_update)

lemma job_day_keys:
  "set (keys_of (foldl add_job_day m js)) =
     set (keys_of m) \<union> job_day ` set (filter (\<lambda>j. j_completeAt j \<noteq> 0) js)"
proof (induction js arbitrary: m)
  case (Cons j js)
  have "set (keys_of (add_job_day m j)) =
      (if j_completeAt j = 0 then set (keys_of m) else insert (job_day j) (set (keys_of m)))"
    by (simp add: add_job_day_def Let_def job_day_def set_keys_update split: prod.split)
  then show ?case using Cons by auto
qed simp

lemma tx_day_keys:
  "set (keys_of (foldl add_tx_day m txs)) = set (keys_of m) \<union> tx_date ` set txs"
proof (induction txs arbitrary: m)
  case (Cons t txs)
  have "set (keys_of (add_tx_day m t)) = insert (tx_date t) (set (keys_of m))"
    by (simp add: add_tx_day_def Let_def set_keys_update split: prod.split)
  then show ?case using Cons by auto
qed simp

text \<open>grouping by date loses and invents nothing. The days come in strictly increasing order;
  each day carries the rewards and the number of the jobs completed on it and the amounts of its
  transactions; without a date range the totals are those of all dated jobs and transactions.\<close>

theorem by_date_totals:
  "case rewards_by_date js txs None None of (days, summary) \<Rightarrow>
     sorted_wrt (<) (map dr_date days) \<and>
     (\<forall>day\<in>set days.
        dr_jobRewards day = sum_list (map j_reward (filter (\<lambda>j. job_day j = dr_date day) (dated js))) \<and>
        dr_jobCount day = int (length (filter (\<lambda>j. job_day j = dr_date day) (dated js))) \<and>
        dr_uptimeRewards day = sum_list (map tx_amount (filter (\<lambda>t. tx_date t = dr_date day) txs))) \<and>
     dm_totalJobRewards summary = sum_list (map j_reward (dated js)) \<and>
     dm_totalUptimeRewards summary = sum_list (map tx_amount txs) \<and>
     dm_totalRewards summary = sum_list (map j_reward (dated js)) + sum_list (map tx_amount txs)"
proof -
  let ?J = "foldl add_job_day [] (completed_jobs js)"
  let ?T = "foldl add_tx_day [] txs"
  let ?ds = "sort (remdups (keys_of ?J @ keys_of ?T))"
  have eval: "rewards_by_date js txs None None = (map (daily_reward ?J ?T) ?ds, snd (rewards_by_date js txs None None))"
    by (simp add: rewards_by_date_def Let_def in_range_def)
  have day: "dr_jobRewards (daily_reward ?J ?T d) = sum_list (map j_reward (filter (\<lambda>j. job_day j = d) (dated js)))"
    "dr_jobCount (daily_reward ?J ?T d) = int (length (filter (\<lambda>j. job_day j = d) (dated js)))"
    "dr_uptimeRewards (daily_reward ?J ?T d) = sum_list (map tx_amount (filter (\<lambda>t. tx_date t = d) txs))"
    "dr_date (daily_reward ?J ?T d) = d" for d
    by (simp_all add: daily_reward_def job_days tx_days Let_def get_or_Nil dated_def split: prod.split)
  have keys: "set ?ds = job_day ` set (dated js) \<union> tx_date ` set txs"
    using job_day_keys [of "[]" "completed_jobs js"] tx_day_keys [of "[]" txs]
    by (simp add: keys_of_def dated_def)
  have dist: "distinct ?ds" by simp
  have "sorted_wrt (<) ?ds"
    by (simp add: strict_sorted_iff)
  moreover have "map dr_date (map (daily_reward ?J ?T) ?ds) = ?ds"
    using day(4) by (simp add: o_def)
  moreover have "(\<Sum>d\<leftarrow>?ds. dr_jobRewards (daily_reward ?J ?T d)) = sum_list (map j_reward (dated js))"
    unfolding day by (rule sum_by_key [OF dist]) (auto simp: keys simp del: set_sort)
  moreover have "(\<Sum>d\<leftarrow>?ds. dr_uptimeRewards (daily_reward ?J ?T d)) = sum_list (map tx_amount txs)"
    unfolding day by (rule sum_by_key [OF dist]) (auto simp: keys simp del: set_sort)
  ultimately have tot: "dm_totalJobRewards (snd (rewards_by_date js txs None None)) = sum_list (map j_reward (dated js))"
    "dm_totalUptimeRewards (snd (rewards_by_date js txs None None)) = sum_list (map tx_amount txs)"
    "dm_totalRewards (snd (rewards_by_date js txs None None)) =
       sum_list (map j_reward (dated js)) + sum_list (map tx_amount txs)"
    and ord: "sorted_wrt (<) (map dr_date (map (daily_reward ?J ?T) ?ds))"
    by (simp_all add: rewards_by_date_def Let_def in_range_def o_def del: sorted_wrt_map)
  show ?thesis
    by (subst eval) (use tot ord day in \<open>simp del: set_sort sorted_wrt_map\<close>)
qed

theorem by_date_totals_witness:
  "dm_totalRewards (snd (rewards_by_date
     [demo_job\<lparr>j_state := ''completed'', j_completeAt := 86400000, j_reward := 3/2\<rparr>, demo_job] [] None None)) = 3/2"
  using by_date_totals [of "[demo_job\<lparr>j_state := ''completed'', j_completeAt := 86400000, j_reward := 3/2\<rparr>, demo_job]" "[]"]
  by (simp add: dated_def completed_jobs_def split: prod.splits)

section \<open>Capacity\<close>

lemma utilization_bounds:
  assumes "0 \<le> used" "used \<le> cap"
  shows "0 \<le> utilization used cap" "utilization used cap \<le> 100"
proof -
  let ?x = "if cap > 0 then of_int used / of_int cap * 100 else 0 :: rat"
  have "0 \<le> ?x" using assms by simp
  moreover have "?x \<le> 100"
  proof (cases "0 < cap")
    case True
    have "(of_int used :: rat) \<le> of_int cap" using assms(2) by simp
    then show ?thesis using True by (simp add: pos_divide_le_eq)
  qed simp
  moreover have "round_dec 10 0 = 0" "round_dec 10 100 = 100"
    using js_round_of_int [of 0] js_round_of_int [of 1000] by (simp_all add: round_dec_def)
  ultimately show "0 \<le> utilization used cap" "utilization used cap \<le> 100"
    unfolding utilization_def using round_dec_mono [of 10 0 ?x] round_dec_mono [of 10 ?x 100] by simp_all
qed

text \<open>in every state that respects the capacities, the system statistics are consistent: the
  available capacity is what is left of the total and not negative, the average utilization is a
  percentage, and the active clients are among the clients.\<close>

theorem capacity_stats:
  assumes "redis_up M" and "service_inv M w"
  shows "\<exists>s. getSystemCapacityStats M w = (Inr (Success s), w) \<and>
    sc_totalAvailableCapacity s = sc_totalCapacity s - sc_totalActiveJobs s \<and>
    0 \<le> sc_totalActiveJobs s \<and> 0 \<le> sc_totalAvailableCapacity s \<and>
    0 \<le> sc_averageUtilization s \<and> sc_averageUtilization s \<le> 100 \<and>
    sc_activeClients s \<le> sc_totalClients s \<and> sc_highUtilizationClients s \<le> sc_totalClients s"
proof -
  let ?cs = "map client_capacity (all_clients M w)"
  have t: "db_typed M w" using assms(2) by (auto simp: service_inv_def)
  have ok: "cc_activeJobs c \<le> cc_maxConcurrentJobs c" "0 \<le> cc_activeJobs c"
    "cc_availableCapacity c = cc_maxConcurrentJobs c - cc_activeJobs c" if mem: "c \<in> set ?cs" for c
  proof -
    obtain d where d: "c = client_capacity d" "d \<in> set (all_clients M w)"
      using mem unfolding set_map by (rule imageE)
    then obtain u where "clients M w u = Some d"
      unfolding all_clients_def redis_server.listed_clients [OF redis_up.axioms(1) [OF assms(1)]] by blast
    with d(1) show "cc_activeJobs c \<le> cc_maxConcurrentJobs c" "0 \<le> cc_activeJobs c"
      "cc_availableCapacity c = cc_maxConcurrentJobs c - cc_activeJobs c"
      using assms(2) unfolding service_inv_def capacity_ok_def
      by (auto simp: client_capacity_def active_count_def)
  qed
  have "sum_list (map cc_availableCapacity xs) = sum_list (map cc_maxConcurrentJobs xs) - sum_list (map cc_activeJobs xs)
      \<and> 0 \<le> sum_list (map cc_activeJobs xs) \<and> sum_list (map cc_activeJobs xs) \<le> sum_list (map cc_maxConcurrentJobs xs)"
    if "set xs \<subseteq> set ?cs" for xs
    using that
  proof (induction xs)
    case (Cons x xs)
    then show ?case using ok [of x] by simp
  qed simp
  from this [OF subset_refl] have sums: "sc_totalAvailableCapacity (system_capacity ?cs) =
      sc_totalCapacity (system_capacity ?cs) - sc_totalActiveJobs (system_capacity ?cs)"
    "0 \<le> sc_totalActiveJobs (system_capacity ?cs)"
    "sc_totalActiveJobs (system_capacity ?cs) \<le> sc_totalCapacity (system_capacity ?cs)"
    by (simp_all add: system_capacity_def Let_def)
  have avg: "sc_averageUtilization (system_capacity ?cs) =
      utilization (sc_totalActiveJobs (system_capacity ?cs)) (sc_totalCapacity (system_capacity ?cs))"
    by (simp add: system_capacity_def Let_def)
  have "getSystemCapacityStats M w = (Inr (Success (system_capacity ?cs)), w)"
    by (simp add: getSystemCapacityStats_def getAllClientsWithCapacity_def act_simps
      redis_up.getAllClients_eq [OF assms(1) t] all_clients_def)
  moreover have "sc_activeClients (system_capacity xs) \<le> sc_totalClients (system_capacity xs)"
    "sc_highUtilizationClients (system_capacity xs) \<le> sc_totalClients (system_capacity xs)" for xs
    by (simp_all add: system_capacity_def Let_def)
  ultimately show ?thesis
    using sums utilization_bounds [OF sums(2,3)] avg by auto
qed

theorem capacity_stats_witness:
  "\<exists>s. getSystemCapacityStats mem_redis demo_world = (Inr (Success s), demo_world) \<and>
     sc_averageUtilization s \<le> 100"
  using capacity_stats [OF mem_is_up demo_service] by blast

end
