(* ===== verification/WaitingJobs.thy ===== *)
theory WaitingJobs
  imports Prelude
begin

text \<open>
  The waiting side of the class \<open>JobQueueManager\<close>
  (\<open>src/services/job_queue_manager.ts\<close>): the promises of
  \<open>waitForJobCompletion\<close>, the maps \<open>waitingJobs\<close> and \<open>clientJobCounts\<close>, the
  pending timeouts, and every method that settles a promise. A promise is a
  number; \<open>settled\<close> lists the outcomes in the order they happened, and a call
  of \<open>resolve\<close> or \<open>reject\<close> on a settled promise has no effect.
\<close>

section \<open>State\<close>

datatype 'r outcome = Resolved 'r | Rejected string

record JobWaitingPromise =
  wp_promise :: nat
  wp_startTime :: int
  wp_clientId :: string
  wp_userPrincipalId :: string
  wp_jobId :: string
  wp_timeoutMs :: int

text \<open>A timeout callback closes over its promise, its job and its client.\<close>

record Timeout =
  to_promise :: nat
  to_jobId :: string
  to_clientId :: string
  to_ms :: int

record 'r WaitState =
  waitingJobs :: "(string, JobWaitingPromise) jsmap"
  clientJobCounts :: "(string, int) jsmap"
  timeouts :: "Timeout list"
  next_promise :: nat
  settled :: "(nat \<times> 'r outcome) list"

definition no_waits :: "'r WaitState" where
  "no_waits = \<lparr>waitingJobs = [], clientJobCounts = [], timeouts = [], next_promise = 0, settled = []\<rparr>"

definition JOB_TIMEOUT_DEFAULT :: int where
  "JOB_TIMEOUT_DEFAULT = 300000"

definition GRACE_PERIOD :: int where
  "GRACE_PERIOD = 300000"

section \<open>Operations\<close>

definition settle :: "nat \<Rightarrow> 'r outcome \<Rightarrow> 'r WaitState \<Rightarrow> 'r WaitState" where
  "settle p out s = (if p \<in> fst ` set (settled s) then s else s\<lparr>settled := settled s @ [(p, out)]\<rparr>)"

text \<open>\<open>this.clientJobCounts.get(clientId) || 0\<close>, and the guarded decrement.\<close>

definition count_of :: "'r WaitState \<Rightarrow> string \<Rightarrow> int" where
  "count_of s cid = or_num_opt (map_get (clientJobCounts s) cid) 0"

definition decrement_count :: "string \<Rightarrow> 'r WaitState \<Rightarrow> 'r WaitState" where
  "decrement_count cid s = (let currentCount = count_of s cid in
     if currentCount > 0 then s\<lparr>clientJobCounts := map_set cid (currentCount - 1) (clientJobCounts s)\<rparr> else s)"

definition waitForJobCompletion ::
  "string \<Rightarrow> string \<Rightarrow> string \<Rightarrow> int \<Rightarrow> int \<Rightarrow> 'r WaitState \<Rightarrow> nat \<times> 'r WaitState" where
  "waitForJobCompletion jobId cid uid timeoutMs now s0 =
     (let p = next_promise s0; s = s0\<lparr>next_promise := p + 1\<rparr> in
      (p, if map_has (waitingJobs s) jobId
          then settle p (Rejected (''Job '' @ jobId @ '' is already being processed'')) s
          else s\<lparr>timeouts := timeouts s @ [\<lparr>to_promise = p, to_jobId = jobId, to_clientId = cid,
                   to_ms = timeoutMs\<rparr>],
                 clientJobCounts := map_set cid (count_of s cid + 1) (clientJobCounts s),
                 waitingJobs := map_set jobId \<lparr>wp_promise = p, wp_startTime = now, wp_clientId = cid,
                   wp_userPrincipalId = uid, wp_jobId = jobId, wp_timeoutMs = timeoutMs\<rparr> (waitingJobs s)\<rparr>))"

definition clear_timeout :: "nat \<Rightarrow> 'r WaitState \<Rightarrow> 'r WaitState" where
  "clear_timeout p s = s\<lparr>timeouts := filter (\<lambda>t. to_promise t \<noteq> p) (timeouts s)\<rparr>"

text \<open>The callback of the \<open>setTimeout\<close> of \<open>waitForJobCompletion\<close> runs.\<close>

definition fire_timeout :: "Timeout \<Rightarrow> 'r WaitState \<Rightarrow> 'r WaitState" where
  "fire_timeout t s =
     settle (to_promise t) (Rejected (''Job '' @ to_jobId t @ '' timed out after '' @ show_int (to_ms t) @ ''ms''))
       (decrement_count (to_clientId t)
         (let s' = clear_timeout (to_promise t) s in
          s'\<lparr>waitingJobs := map_delete (to_jobId t) (waitingJobs s')\<rparr>))"

text \<open>\<open>log_error\<close> is what \<open>ScrapeLogger.logJobCompletionDuration\<close> throws, if it does.\<close>

definition resolveJobCompletion ::
  "string option \<Rightarrow> string \<Rightarrow> 'r \<Rightarrow> 'r WaitState \<Rightarrow> 'r WaitState" where
  "resolveJobCompletion log_error jobId result s =
     (case map_get (waitingJobs s) jobId of
        None \<Rightarrow> s
      | Some w \<Rightarrow>
          (let s1 = clear_timeout (wp_promise w) s;
               s2 = s1\<lparr>waitingJobs := map_delete jobId (waitingJobs s1)\<rparr>;
               s3 = decrement_count (wp_clientId w) s2
           in case log_error of
                None \<Rightarrow> settle (wp_promise w) (Resolved result) s3
              | Some e \<Rightarrow> settle (wp_promise w) (Rejected e) s3))"

definition rejectJobCompletion :: "string \<Rightarrow> string \<Rightarrow> 'r WaitState \<Rightarrow> 'r WaitState" where
  "rejectJobCompletion jobId err s =
     (case map_get (waitingJobs s) jobId of
        None \<Rightarrow> s
      | Some w \<Rightarrow>
          (let s1 = clear_timeout (wp_promise w) s;
               s2 = s1\<lparr>waitingJobs := map_delete jobId (waitingJobs s1)\<rparr>;
               s3 = decrement_count (wp_clientId w) s2
           in settle (wp_promise w) (Rejected err) s3))"

text \<open>The part of \<open>clearClientQueue\<close> that concerns the waiting jobs.\<close>

definition clearClientWaits :: "string \<Rightarrow> 'r WaitState \<Rightarrow> int \<times> 'r WaitState" where
  "clearClientWaits cid s =
     (let ids = map fst (filter (\<lambda>(_, w). wp_clientId w = cid) (waitingJobs s));
          s1 = fold (\<lambda>jobId. rejectJobCompletion jobId (''Client '' @ cid @ '' disconnected'')) ids s
      in (int (length ids), s1\<lparr>clientJobCounts := map_delete cid (clientJobCounts s1)\<rparr>))"

definition orphaned :: "int \<Rightarrow> JobWaitingPromise \<Rightarrow> bool" where
  "orphaned now w \<longleftrightarrow> now - wp_startTime w > or_num (wp_timeoutMs w) JOB_TIMEOUT_DEFAULT + GRACE_PERIOD"

definition cleanupOrphanedJobs :: "int \<Rightarrow> 'r WaitState \<Rightarrow> 'r WaitState" where
  "cleanupOrphanedJobs now s =
     fold (\<lambda>jobId. rejectJobCompletion jobId
         (''Job '' @ jobId @ '' was orphaned and cleaned up (exceeded timeout + grace period)''))
       (map fst (filter (\<lambda>(_, w). orphaned now w) (waitingJobs s))) s"

section \<open>Runs\<close>

inductive wait_step :: "'r WaitState \<Rightarrow> 'r WaitState \<Rightarrow> bool" where
  Wait: "wait_step s (snd (waitForJobCompletion jobId cid uid timeoutMs now s))"
| Fire: "t \<in> set (timeouts s) \<Longrightarrow> wait_step s (fire_timeout t s)"
| Resolve: "wait_step s (resolveJobCompletion log_error jobId result s)"
| Reject: "wait_step s (rejectJobCompletion jobId err s)"
| Clear: "wait_step s (snd (clearClientWaits cid s))"
| Orphans: "wait_step s (cleanupOrphanedJobs now s)"

inductive_cases wait_stepE: "wait_step s s'"

text \<open>
  The invariant. The count of a client is the number of its waiting jobs; each
  waiting job has one pending timeout, its own, and there is no other timeout;
  every promise handed out is either waiting or settled, never both, and
  settled at most once.
\<close>

definition counts_ok :: "'r WaitState \<Rightarrow> bool" where
  "counts_ok s \<longleftrightarrow> (\<forall>cid. count_of s cid = int (count_entries (\<lambda>_ w. wp_clientId w = cid) (waitingJobs s)))"

definition armed :: "'r WaitState \<Rightarrow> (nat \<times> string \<times> string) set" where
  "armed s = (\<lambda>t. (to_promise t, to_jobId t, to_clientId t)) ` set (timeouts s)"

definition expected :: "'r WaitState \<Rightarrow> (nat \<times> string \<times> string) set" where
  "expected s = {(p, i, c). \<exists>w. map_of (waitingJobs s) i = Some w \<and> wp_promise w = p \<and> wp_clientId w = c}"

definition timeouts_ok :: "'r WaitState \<Rightarrow> bool" where
  "timeouts_ok s \<longleftrightarrow> distinct (map to_promise (timeouts s)) \<and> armed s = expected s"

definition awaited :: "'r WaitState \<Rightarrow> nat set" where
  "awaited s = {p. \<exists>i w. map_of (waitingJobs s) i = Some w \<and> wp_promise w = p}"

definition promises_ok :: "'r WaitState \<Rightarrow> bool" where
  "promises_ok s \<longleftrightarrow> distinct (map fst (settled s)) \<and>
     (\<forall>i j v w. map_of (waitingJobs s) i = Some v \<longrightarrow> map_of (waitingJobs s) j = Some w \<longrightarrow>
        wp_promise v = wp_promise w \<longrightarrow> i = j) \<and>
     {p. p < next_promise s} = fst ` set (settled s) \<union> awaited s \<and>
     awaited s \<inter> fst ` set (settled s) = {}"

definition waits_ok :: "'r WaitState \<Rightarrow> bool" where
  "waits_ok s \<longleftrightarrow> is_jsmap (waitingJobs s) \<and> is_jsmap (clientJobCounts s) \<and> counts_ok s \<and>
     timeouts_ok s \<and> promises_ok s"

text \<open>
  Removing a waiting job: the common core of the timeout, the resolution and
  the rejection.
\<close>

definition take_out :: "string \<Rightarrow> JobWaitingPromise \<Rightarrow> 'r outcome \<Rightarrow> 'r WaitState \<Rightarrow> 'r WaitState" where
  "take_out jobId w out s = settle (wp_promise w) out (decrement_count (wp_clientId w)
     ((clear_timeout (wp_promise w) s)\<lparr>waitingJobs := AList.delete jobId (waitingJobs s)\<rparr>))"

lemma resolve_take_out:
  "resolveJobCompletion log_error jobId result s = (case map_of (waitingJobs s) jobId of None \<Rightarrow> s
     | Some w \<Rightarrow> take_out jobId w (case log_error of None \<Rightarrow> Resolved result | Some e \<Rightarrow> Rejected e) s)"
  by (simp add: resolveJobCompletion_def take_out_def Let_def clear_timeout_def split: option.split)

lemma reject_take_out:
  "rejectJobCompletion jobId err s = (case map_of (waitingJobs s) jobId of None \<Rightarrow> s
     | Some w \<Rightarrow> take_out jobId w (Rejected err) s)"
  by (simp add: rejectJobCompletion_def take_out_def Let_def clear_timeout_def split: option.split)

lemma fire_take_out:
  assumes "waits_ok s" "t \<in> set (timeouts s)"
  obtains w where "map_of (waitingJobs s) (to_jobId t) = Some w"
    "fire_timeout t s = take_out (to_jobId t) w
       (Rejected (''Job '' @ to_jobId t @ '' timed out after '' @ show_int (to_ms t) @ ''ms'')) s"
proof -
  obtain w where "map_of (waitingJobs s) (to_jobId t) = Some w" "wp_promise w = to_promise t"
    "wp_clientId w = to_clientId t"
  proof -
    have "(to_promise t, to_jobId t, to_clientId t) \<in> armed s"
      using assms(2) unfolding armed_def by (rule imageI)
    then have "(to_promise t, to_jobId t, to_clientId t) \<in> expected s"
      using assms(1) by (simp add: waits_ok_def timeouts_ok_def)
    then show ?thesis using that by (auto simp: expected_def)
  qed
  with that show ?thesis
    by (simp add: fire_timeout_def take_out_def Let_def clear_timeout_def)
qed

lemma settle_fields [simp]:
  "waitingJobs (settle p out s) = waitingJobs s" "clientJobCounts (settle p out s) = clientJobCounts s"
  "timeouts (settle p out s) = timeouts s" "next_promise (settle p out s) = next_promise s"
  "fst ` set (settled (settle p out s)) = insert p (fst ` set (settled s))"
  by (auto simp: settle_def)

lemma settle_distinct [simp]:
  "distinct (map fst (settled (settle p out s))) = distinct (map fst (settled s))"
  by (auto simp: settle_def)

lemma decrement_fields [simp]:
  "waitingJobs (decrement_count cid s) = waitingJobs s" "timeouts (decrement_count cid s) = timeouts s"
  "next_promise (decrement_count cid s) = next_promise s" "settled (decrement_count cid s) = settled s"
  by (simp_all add: decrement_count_def Let_def)

lemma count_of_decrement:
  "0 \<le> count_of s cid \<Longrightarrow> count_of (decrement_count cid s) d =
     (if d = cid \<and> count_of s cid > 0 then count_of s cid - 1 else count_of s d)"
  by (auto simp: decrement_count_def Let_def count_of_def or_num_opt_def or_num_def)

lemma waits_ok_take_out:
  assumes ok: "waits_ok s" and w: "map_of (waitingJobs s) jobId = Some w"
  shows "waits_ok (take_out jobId w out s)"
proof -
  let ?s = "take_out jobId w out s"
  let ?c = "(clear_timeout (wp_promise w) s)\<lparr>waitingJobs := AList.delete jobId (waitingJobs s)\<rparr>"
  have wj: "waitingJobs ?s = AList.delete jobId (waitingJobs s)"
    and to: "timeouts ?s = filter (\<lambda>t. to_promise t \<noteq> wp_promise w) (timeouts s)"
    and np: "next_promise ?s = next_promise s"
    and st: "fst ` set (settled ?s) = insert (wp_promise w) (fst ` set (settled s))"
    and ds: "distinct (map fst (settled ?s)) = distinct (map fst (settled s))"
    by (simp_all add: take_out_def clear_timeout_def)
  have inj': "\<forall>i j v w. map_of (waitingJobs s) i = Some v \<longrightarrow> map_of (waitingJobs s) j = Some w \<longrightarrow>
      wp_promise v = wp_promise w \<longrightarrow> i = j"
    using ok unfolding waits_ok_def promises_ok_def by (elim conjE)
  then have inj: "map_of (waitingJobs s) i = Some v \<Longrightarrow> wp_promise v = wp_promise w \<Longrightarrow> i = jobId" for i v
    using w by blast
  have left: "map_of (waitingJobs ?s) i = Some v \<longleftrightarrow>
      map_of (waitingJobs s) i = Some v \<and> wp_promise v \<noteq> wp_promise w" for i v
    using w inj [of i v] by (auto simp: wj)
  have maps: "is_jsmap (waitingJobs ?s)" "is_jsmap (clientJobCounts ?s)"
    using ok by (auto simp: waits_ok_def take_out_def decrement_count_def clear_timeout_def Let_def)
  have cnt: "count_of s cid = int (count_entries (\<lambda>_ w. wp_clientId w = cid) (waitingJobs s))" for cid
    using ok by (simp add: waits_ok_def counts_ok_def)
  have "count_of ?s cid = int (count_entries (\<lambda>_ w. wp_clientId w = cid) (waitingJobs ?s))" for cid
  proof -
    have "count_of ?c d = count_of s d" for d by (simp add: count_of_def clear_timeout_def)
    moreover have "count_of ?s cid = count_of (decrement_count (wp_clientId w) ?c) cid"
      by (simp add: take_out_def count_of_def)
    moreover have "count_entries (\<lambda>_ v. wp_clientId v = cid) (waitingJobs s) =
        count_entries (\<lambda>_ v. wp_clientId v = cid) (AList.delete jobId (waitingJobs s))
          + (if wp_clientId w = cid then 1 else 0)"
      using ok by (intro count_entries_delete w) (simp add: waits_ok_def)
    ultimately show ?thesis
      using cnt [of cid] cnt [of "wp_clientId w"] by (simp add: wj count_of_decrement split: if_splits)
  qed
  moreover have "timeouts_ok ?s"
  proof -
    have "armed ?s = {x \<in> armed s. fst x \<noteq> wp_promise w}"
      unfolding armed_def to by auto
    moreover have "expected ?s = {x \<in> expected s. fst x \<noteq> wp_promise w}"
      unfolding expected_def left by auto
    ultimately show ?thesis
      using ok unfolding waits_ok_def timeouts_ok_def to by (simp add: distinct_map_filter)
  qed
  moreover have "promises_ok ?s"
  proof -
    have aw: "awaited ?s = awaited s - {wp_promise w}"
      unfolding awaited_def left by blast
    have mem: "wp_promise w \<in> awaited s" using w unfolding awaited_def by blast
    have old: "distinct (map fst (settled s))" "{p. p < next_promise s} = fst ` set (settled s) \<union> awaited s"
      "awaited s \<inter> fst ` set (settled s) = {}"
      using ok by (simp_all add: waits_ok_def promises_ok_def)
    show ?thesis
      unfolding promises_ok_def np st ds
    proof (intro conjI)
      show "\<forall>i j v w. map_of (waitingJobs ?s) i = Some v \<longrightarrow> map_of (waitingJobs ?s) j = Some w \<longrightarrow>
          wp_promise v = wp_promise w \<longrightarrow> i = j"
        unfolding left using inj' by blast
    qed (use old mem in \<open>auto simp: aw\<close>)
  qed
  ultimately show ?thesis
    using maps by (simp add: waits_ok_def counts_ok_def)
qed

lemma waits_ok_wait:
  assumes ok: "waits_ok s"
  shows "waits_ok (snd (waitForJobCompletion jobId cid uid timeoutMs now s))"
proof -
  let ?p = "next_promise s"
  let ?s = "snd (waitForJobCompletion jobId cid uid timeoutMs now s)"
  have old: "distinct (map fst (settled s))" "{p. p < ?p} = fst ` set (settled s) \<union> awaited s"
    "awaited s \<inter> fst ` set (settled s) = {}" "distinct (map to_promise (timeouts s))"
    "armed s = expected s" "is_jsmap (waitingJobs s)" "is_jsmap (clientJobCounts s)"
    and inj: "\<forall>i j v w. map_of (waitingJobs s) i = Some v \<longrightarrow> map_of (waitingJobs s) j = Some w \<longrightarrow>
      wp_promise v = wp_promise w \<longrightarrow> i = j"
    and cnt: "\<And>cid. count_of s cid = int (count_entries (\<lambda>_ w. wp_clientId w = cid) (waitingJobs s))"
    using ok by (simp_all add: waits_ok_def promises_ok_def timeouts_ok_def counts_ok_def)
  have fresh: "?p \<notin> fst ` set (settled s)" "?p \<notin> awaited s"
    using old(2) by auto
  have nxt: "{p. p < Suc ?p} = insert ?p {p. p < ?p}" by auto
  show ?thesis
  proof (cases "map_of (waitingJobs s) jobId")
    case (Some v)
    then have "?s = settle ?p (Rejected (''Job '' @ jobId @ '' is already being processed''))
        (s\<lparr>next_promise := ?p + 1\<rparr>)"
      by (simp add: waitForJobCompletion_def Let_def)
    then show ?thesis
      using old inj cnt fresh
      by (auto simp: waits_ok_def counts_ok_def count_of_def timeouts_ok_def armed_def expected_def
        promises_ok_def awaited_def nxt)
  next
    case None
    let ?w = "\<lparr>wp_promise = ?p, wp_startTime = now, wp_clientId = cid, wp_userPrincipalId = uid,
      wp_jobId = jobId, wp_timeoutMs = timeoutMs\<rparr>"
    have s': "?s = s\<lparr>next_promise := ?p + 1,
        timeouts := timeouts s @ [\<lparr>to_promise = ?p, to_jobId = jobId, to_clientId = cid, to_ms = timeoutMs\<rparr>],
        clientJobCounts := AList.update cid (count_of s cid + 1) (clientJobCounts s),
        waitingJobs := AList.update jobId ?w (waitingJobs s)\<rparr>"
      using None by (simp add: waitForJobCompletion_def Let_def count_of_def)
    have wj: "map_of (waitingJobs ?s) i = Some v \<longleftrightarrow> (i = jobId \<and> v = ?w) \<or> map_of (waitingJobs s) i = Some v"
      for i v using None by (auto simp: s')
    have new: "wp_promise v \<noteq> ?p" if "map_of (waitingJobs s) i = Some v" for i v
      using that fresh(2) unfolding awaited_def by blast
    have aw: "awaited ?s = insert ?p (awaited s)"
    proof -
      have "awaited ?s = insert (wp_promise ?w) (awaited s)" unfolding awaited_def wj by blast
      then show ?thesis by simp
    qed
    have ex: "expected ?s = insert (?p, jobId, cid) (expected s)"
    proof -
      have "expected ?s = insert (wp_promise ?w, jobId, wp_clientId ?w) (expected s)"
        unfolding expected_def wj by blast
      then show ?thesis by simp
    qed
    have ar: "armed ?s = insert (?p, jobId, cid) (armed s)"
      unfolding armed_def by (auto simp: s')
    have to: "to_promise t \<noteq> ?p" if "t \<in> set (timeouts s)" for t
    proof -
      have "(to_promise t, to_jobId t, to_clientId t) \<in> armed s"
        using that unfolding armed_def by (rule imageI)
      then show ?thesis using new unfolding old(5) expected_def by auto
    qed
    have "count_of ?s d = int (count_entries (\<lambda>_ w. wp_clientId w = d) (waitingJobs ?s))" for d
    proof -
      have "count_of ?s d = (if d = cid then count_of s cid + 1 else count_of s d)"
        using cnt [of cid] by (auto simp: s' count_of_def or_num_opt_def or_num_def)
      moreover have "count_entries (\<lambda>_ w. wp_clientId w = d) (waitingJobs ?s) =
          count_entries (\<lambda>_ w. wp_clientId w = d) (waitingJobs s) + (if cid = d then 1 else 0)"
        using count_entries_update_new [OF None, of "\<lambda>_ w. wp_clientId w = d" ?w] by (simp add: s')
      ultimately show ?thesis using cnt by simp
    qed
    moreover have "?p \<notin> to_promise ` set (timeouts s)"
      using to by (metis imageE)
    then have "timeouts_ok ?s"
      unfolding timeouts_ok_def ex ar using old(4,5) by (simp add: s')
    moreover have "promises_ok ?s"
      unfolding promises_ok_def aw
    proof (intro conjI)
      show "\<forall>i j v w. map_of (waitingJobs ?s) i = Some v \<longrightarrow> map_of (waitingJobs ?s) j = Some w \<longrightarrow>
          wp_promise v = wp_promise w \<longrightarrow> i = j"
        unfolding wj using inj by (auto dest: new new [THEN not_sym])
    qed (use old fresh in \<open>auto simp: s' nxt\<close>)
    ultimately show ?thesis
      using old(6,7) by (simp add: waits_ok_def counts_ok_def s')
  qed
qed

lemma waits_ok_reject: "waits_ok s \<Longrightarrow> waits_ok (rejectJobCompletion i e s)"
  by (auto simp: reject_take_out waits_ok_take_out split: option.split)

lemma waiting_reject [simp]:
  "map_of (waitingJobs (rejectJobCompletion i e s)) = (map_of (waitingJobs s))(i := None)"
  by (auto simp: reject_take_out take_out_def fun_eq_iff split: option.split)

lemma reject_all:
  "waits_ok s \<Longrightarrow> waits_ok (fold (\<lambda>i. rejectJobCompletion i (m i)) is s)"
  "map_of (waitingJobs (fold (\<lambda>i. rejectJobCompletion i (m i)) is s)) =
     (\<lambda>i. if i \<in> set is then None else map_of (waitingJobs s) i)"
  by (induction "is" arbitrary: s) (auto simp: waits_ok_reject fun_eq_iff)

lemma chosen_ids:
  "is_jsmap m \<Longrightarrow> i \<in> set (map fst (filter (\<lambda>(_, w). P w) m)) \<longleftrightarrow> (\<exists>w. map_of m i = Some w \<and> P w)"
  by (force simp: is_jsmap_def dest: map_of_SomeD intro: rev_image_eqI)

lemma chosen_distinct: "is_jsmap m \<Longrightarrow> distinct (map fst (filter (\<lambda>(_, w). P w) m))"
  by (simp add: is_jsmap_def distinct_map_filter)

lemma count_entries_None:
  "(\<And>i w. map_of m i = Some w \<Longrightarrow> \<not> P w) \<Longrightarrow> is_jsmap m \<Longrightarrow> count_entries (\<lambda>_. P) m = 0"
  by (auto simp: count_entries_def filter_empty_conv is_jsmap_def)

lemma waits_ok_counts:
  assumes ok: "waits_ok s" and m: "is_jsmap m" and c: "\<And>d. count_of (s\<lparr>clientJobCounts := m\<rparr>) d = count_of s d"
  shows "waits_ok (s\<lparr>clientJobCounts := m\<rparr>)"
proof -
  have "timeouts_ok (s\<lparr>clientJobCounts := m\<rparr>) = timeouts_ok s"
    by (simp add: timeouts_ok_def armed_def expected_def)
  moreover have "promises_ok (s\<lparr>clientJobCounts := m\<rparr>) = promises_ok s"
    by (simp add: promises_ok_def awaited_def)
  ultimately show ?thesis
    using ok m c by (simp add: waits_ok_def counts_ok_def)
qed

lemma waits_ok_clear:
  assumes ok: "waits_ok s"
  shows "waits_ok (snd (clearClientWaits cid s))"
    and "map_of (waitingJobs (snd (clearClientWaits cid s))) = (\<lambda>i. case map_of (waitingJobs s) i of
      None \<Rightarrow> None | Some w \<Rightarrow> if wp_clientId w = cid then None else Some w)"
    and "fst (clearClientWaits cid s) = count_of s cid"
    and "count_of (snd (clearClientWaits cid s)) cid = 0"
proof -
  let ?ids = "map fst (filter (\<lambda>(_, w). wp_clientId w = cid) (waitingJobs s))"
  let ?s1 = "fold (\<lambda>i. rejectJobCompletion i (''Client '' @ cid @ '' disconnected'')) ?ids s"
  have js: "is_jsmap (waitingJobs s)" using ok by (simp add: waits_ok_def)
  have ok1: "waits_ok ?s1" by (rule reject_all(1) [OF ok])
  have wj: "map_of (waitingJobs ?s1) = (\<lambda>i. case map_of (waitingJobs s) i of
      None \<Rightarrow> None | Some w \<Rightarrow> if wp_clientId w = cid then None else Some w)"
    unfolding reject_all(2) chosen_ids [OF js] by (auto simp: fun_eq_iff split: option.split)
  have "count_entries (\<lambda>_ w. wp_clientId w = cid) (waitingJobs ?s1) = 0"
    by (rule count_entries_None) (use wj ok1 in \<open>auto simp: waits_ok_def split: option.splits if_splits\<close>)
  then have zero: "count_of ?s1 cid = 0"
    using ok1 unfolding waits_ok_def counts_ok_def by simp
  have res: "clearClientWaits cid s = (int (length ?ids), ?s1\<lparr>clientJobCounts := AList.delete cid (clientJobCounts ?s1)\<rparr>)"
    by (simp add: clearClientWaits_def Let_def)
  have cnt: "count_of (snd (clearClientWaits cid s)) d = count_of ?s1 d" for d
    using zero by (simp add: res count_of_def or_num_opt_def)
  have "is_jsmap (AList.delete cid (clientJobCounts ?s1))" using ok1 by (simp add: waits_ok_def)
  then show "waits_ok (snd (clearClientWaits cid s))"
    using waits_ok_counts [OF ok1] cnt by (simp add: res)
  show "map_of (waitingJobs (snd (clearClientWaits cid s))) = (\<lambda>i. case map_of (waitingJobs s) i of
      None \<Rightarrow> None | Some w \<Rightarrow> if wp_clientId w = cid then None else Some w)"
    using wj by (simp add: res)
  show "fst (clearClientWaits cid s) = count_of s cid"
    using ok by (simp add: res waits_ok_def counts_ok_def count_entries_def case_prod_unfold)
  show "count_of (snd (clearClientWaits cid s)) cid = 0" by (simp only: cnt zero)
qed

lemma waits_ok_step: "wait_step s s' \<Longrightarrow> waits_ok s \<Longrightarrow> waits_ok s'"
proof (induction rule: wait_step.induct)
  case (Fire t s)
  obtain w e where "map_of (waitingJobs s) (to_jobId t) = Some w" "fire_timeout t s = take_out (to_jobId t) w (Rejected e) s"
    by (rule fire_take_out [OF Fire(2,1)])
  then show ?case using Fire by (simp add: waits_ok_take_out)
next
  case (Resolve s log_error jobId result)
  then show ?case by (auto simp: resolve_take_out waits_ok_take_out split: option.split)
next
  case (Orphans s now)
  then show ?case unfolding cleanupOrphanedJobs_def by (rule reject_all(1))
qed (simp_all add: waits_ok_wait waits_ok_reject waits_ok_clear(1))

lemma waits_ok_init: "waits_ok no_waits"
  by (auto simp: waits_ok_def no_waits_def counts_ok_def count_of_def or_num_opt_def count_entries_def
    timeouts_ok_def armed_def expected_def promises_ok_def awaited_def)

lemma waits_ok_reach: "wait_step\<^sup>*\<^sup>* no_waits s \<Longrightarrow> waits_ok s"
  by (induction rule: rtranclp_induct) (auto intro: waits_ok_init waits_ok_step)

section \<open>Outcomes are final\<close>

lemma settle_prefix: "prefix (settled s) (settled (settle p out s))"
  by (simp add: settle_def)

lemma take_out_prefix: "prefix (settled s) (settled (take_out i w out s))"
  using settle_prefix [of "decrement_count (wp_clientId w) ((clear_timeout (wp_promise w) s)
    \<lparr>waitingJobs := AList.delete i (waitingJobs s)\<rparr>)"]
  by (simp add: take_out_def clear_timeout_def)

lemma reject_prefix: "prefix (settled s) (settled (rejectJobCompletion i e s))"
  by (simp add: reject_take_out take_out_prefix split: option.split)

lemma reject_all_prefix: "prefix (settled s) (settled (fold (\<lambda>i. rejectJobCompletion i (m i)) is s))"
  by (induction "is" arbitrary: s) (auto intro: prefix_order.trans reject_prefix)

lemma step_prefix: "wait_step s s' \<Longrightarrow> prefix (settled s) (settled s')"
proof (induction rule: wait_step.induct)
  case (Wait s jobId cid uid timeoutMs now)
  then show ?case by (simp add: waitForJobCompletion_def Let_def settle_def)
next
  case (Fire t s)
  have "prefix (settled s) (settled (settle (to_promise t) out (decrement_count (to_clientId t)
      ((clear_timeout (to_promise t) s)\<lparr>waitingJobs := AList.delete (to_jobId t) (waitingJobs s)\<rparr>))))" for out
    using settle_prefix [of "decrement_count (to_clientId t) ((clear_timeout (to_promise t) s)
      \<lparr>waitingJobs := AList.delete (to_jobId t) (waitingJobs s)\<rparr>)"] by (simp add: clear_timeout_def)
  then show ?case by (simp add: fire_timeout_def Let_def clear_timeout_def)
next
  case (Clear s cid)
  then show ?case by (simp add: clearClientWaits_def Let_def reject_all_prefix)
qed (simp_all add: resolve_take_out take_out_prefix reject_prefix cleanupOrphanedJobs_def
    reject_all_prefix split: option.split)

section \<open>Every promise is settled\<close>

lemma in_set_map_promise: "to_promise u = p \<Longrightarrow> u \<in> set ts \<Longrightarrow> p \<in> to_promise ` set ts"
  by blast

lemma fire_all:
  assumes "waits_ok s"
  shows "waits_ok (fold fire_timeout (timeouts s) s) \<and> waitingJobs (fold fire_timeout (timeouts s) s) = [] \<and>
    next_promise (fold fire_timeout (timeouts s) s) = next_promise s"
  using assms
proof (induction "length (timeouts s)" arbitrary: s)
  case 0
  then have "expected s = {}" by (simp add: waits_ok_def timeouts_ok_def armed_def)
  moreover have "map_of (waitingJobs s) i = Some w \<Longrightarrow> (wp_promise w, i, wp_clientId w) \<in> expected s" for i w
    by (simp add: expected_def)
  ultimately have "map_of (waitingJobs s) i = None" for i
    by (cases "map_of (waitingJobs s) i") auto
  then have "map_of (waitingJobs s) = Map.empty" by (rule ext)
  then have "waitingJobs s = []" by (simp only: map_of_eq_empty_iff)
  then show ?case using 0 by simp
next
  case (Suc n)
  then obtain t ts where t: "timeouts s = t # ts" by (cases "timeouts s") auto
  obtain w e where w: "map_of (waitingJobs s) (to_jobId t) = Some w"
    and f: "fire_timeout t s = take_out (to_jobId t) w (Rejected e) s"
    by (rule fire_take_out [OF Suc.prems, of t]) (auto simp: t)
  have "distinct (map to_promise (t # ts))"
    using Suc.prems by (simp add: waits_ok_def timeouts_ok_def t)
  then have "filter (\<lambda>u. to_promise u \<noteq> to_promise t) ts = ts"
    unfolding filter_id_conv by (auto dest: in_set_map_promise)
  then have ts: "timeouts (fire_timeout t s) = ts"
    by (simp add: fire_timeout_def Let_def clear_timeout_def t)
  have "waits_ok (fire_timeout t s)" using w Suc.prems by (simp add: f waits_ok_take_out)
  from Suc.hyps(1) [OF _ this] Suc.hyps(2) show ?case
    by (simp add: t ts) (simp add: f take_out_def clear_timeout_def)
qed

section \<open>Properties\<close>

lemma demo_wait: "wait_step\<^sup>*\<^sup>* (no_waits :: string WaitState)
    (snd (waitForJobCompletion ''j'' ''c'' ''u'' 1000 0 no_waits))"
  by (rule r_into_rtranclp) (rule Wait)

text \<open>C9: in every reachable state the count of each client is the number of its waiting jobs,
  exactly one timeout is armed for each waiting job, and every promise handed out is either
  waiting or settled, never both, and settled once.\<close>

theorem waiting_jobs_invariant:
  assumes "wait_step\<^sup>*\<^sup>* (no_waits :: 'r WaitState) s"
  shows "(\<forall>cid. count_of s cid = int (count_entries (\<lambda>_ w. wp_clientId w = cid) (waitingJobs s))) \<and>
    armed s = expected s \<and> distinct (map to_promise (timeouts s)) \<and>
    (\<forall>p. p < next_promise s \<longleftrightarrow> p \<in> awaited s \<or> p \<in> fst ` set (settled s)) \<and>
    awaited s \<inter> fst ` set (settled s) = {} \<and> distinct (map fst (settled s))"
  using waits_ok_reach [OF assms]
  by (auto simp: waits_ok_def counts_ok_def timeouts_ok_def promises_ok_def)

theorem waiting_jobs_invariant_witness:
  "count_of (snd (waitForJobCompletion ''j'' ''c'' ''u'' 1000 0 (no_waits :: string WaitState))) ''c'' = 1"
  using waiting_jobs_invariant [OF demo_wait]
  by (simp add: waitForJobCompletion_def Let_def no_waits_def count_entries_def)

text \<open>an outcome is final: no later event changes or removes it.\<close>

theorem outcomes_final:
  assumes "wait_step\<^sup>*\<^sup>* s s'"
  shows "prefix (settled s) (settled s')"
  using assms
  by (induction rule: rtranclp_induct) (auto intro: prefix_order.trans step_prefix)

theorem outcomes_final_witness:
  "prefix (settled (settle 0 (Resolved ''r'') no_waits))
     (settled (rejectJobCompletion ''j'' ''late'' (settle 0 (Resolved ''r'') no_waits)))"
  by (rule outcomes_final) (rule r_into_rtranclp, rule Reject)

text \<open>nobody waits forever: once the armed timeouts of a reachable state have run, no job is
  waiting and every promise handed out so far is settled.\<close>

theorem timeouts_settle_everything:
  assumes "wait_step\<^sup>*\<^sup>* (no_waits :: 'r WaitState) s"
  shows "waitingJobs (fold fire_timeout (timeouts s) s) = [] \<and>
    (\<forall>p < next_promise s. \<exists>out. (p, out) \<in> set (settled (fold fire_timeout (timeouts s) s)))"
proof -
  let ?s = "fold fire_timeout (timeouts s) s"
  have f: "waits_ok ?s" "waitingJobs ?s = []" "next_promise ?s = next_promise s"
    using fire_all [OF waits_ok_reach [OF assms]] by auto
  then have "{p. p < next_promise s} = fst ` set (settled ?s)"
    by (simp add: waits_ok_def promises_ok_def awaited_def)
  then have "\<exists>out. (p, out) \<in> set (settled ?s)" if "p < next_promise s" for p
    using that by (metis (mono_tags) imageE mem_Collect_eq prod.collapse)
  with f(2) show ?thesis by blast
qed

theorem timeouts_settle_everything_witness:
  "\<exists>out. (0, out) \<in> set (settled (fold fire_timeout
     (timeouts (snd (waitForJobCompletion ''j'' ''c'' ''u'' 1000 0 (no_waits :: string WaitState))))
     (snd (waitForJobCompletion ''j'' ''c'' ''u'' 1000 0 (no_waits :: string WaitState)))))"
proof -
  have "0 < next_promise (snd (waitForJobCompletion ''j'' ''c'' ''u'' 1000 0 (no_waits :: string WaitState)))"
    by (simp add: waitForJobCompletion_def Let_def no_waits_def)
  then show ?thesis
    using timeouts_settle_everything [OF demo_wait] by blast
qed

text \<open>the orphan cleanup rejects exactly the jobs that have waited longer than their own
  timeout (five minutes if they have none) plus five minutes, and leaves the others waiting.\<close>

theorem orphan_cleanup_exact:
  assumes "wait_step\<^sup>*\<^sup>* (no_waits :: 'r WaitState) s"
  shows "map_of (waitingJobs (cleanupOrphanedJobs now s)) i = (case map_of (waitingJobs s) i of
      None \<Rightarrow> None | Some w \<Rightarrow> if orphaned now w then None else Some w)"
proof -
  have "is_jsmap (waitingJobs s)" using waits_ok_reach [OF assms] by (simp add: waits_ok_def)
  from chosen_ids [OF this, of _ "orphaned now"] show ?thesis
    unfolding cleanupOrphanedJobs_def reject_all(2) by (auto split: option.split)
qed

theorem orphan_cleanup_exact_witness:
  "map_of (waitingJobs (cleanupOrphanedJobs 600000
     (snd (waitForJobCompletion ''j'' ''c'' ''u'' 1000 0 (no_waits :: string WaitState))))) ''j'' = None"
  using orphan_cleanup_exact [OF demo_wait]
  by (simp add: waitForJobCompletion_def Let_def no_waits_def orphaned_def or_num_def
      JOB_TIMEOUT_DEFAULT_def GRACE_PERIOD_def)

end
