(* ===== verification/JobQueue.thy ===== *)
theory JobQueue
  imports WaitingJobs
begin

text \<open>
  The delivery side of the class \<open>JobQueueManager\<close>
  (\<open>src/services/job_queue_manager.ts\<close>): the queues of pending jobs, the locks,
  and the asynchronous loop of \<open>processClientQueue\<close>, cut at its two \<open>await\<close>s.
  A queue object lives in a heap, because a suspended loop keeps its reference
  to it when \<open>clearClientQueue\<close> takes it out of the map. The listener of
  \<open>deliverJob\<close> is another module: its answer is an argument of the step in
  which it arrives.
\<close>

section \<open>State\<close>

record PendingJob =
  pj_jobId :: string
  pj_userPrincipalId :: string
  pj_url :: string
  pj_scrapeType :: string
  pj_timestamp :: int
  pj_priority :: int
  pj_post_count :: int
  pj_replies_count :: int
  pj_scrollPauseTime :: int

record ClientJobQueue =
  cq_clientId :: string
  cq_pendingJobs :: "PendingJob list"
  cq_isProcessing :: bool
  cq_lastProcessedAt :: int

text \<open>
  What \<open>await deliverJobToClient(job)\<close> can end in: the answer of the callback
  (or of the five-second timeout, which is a refusal), or an exception thrown
  by a listener.
\<close>

datatype delivery = Delivered | Refused string | Thrown string

text \<open>A suspended run of \<open>processClientQueue\<close>, at one of its two \<open>await\<close>s.\<close>

datatype phase = Delivering PendingJob | Pausing

record Activation =
  ac_clientId :: string
  ac_queue :: nat
  ac_phase :: phase

datatype queue_event = DeliverJob PendingJob | DeliveryFailed string string

record QueueState =
  queue_objects :: "nat \<Rightarrow> ClientJobQueue"
  next_queue :: nat
  clientQueues :: "(string, nat) jsmap"
  processingLocks :: "string list"
  activations :: "Activation list"
  events :: "queue_event list"

definition empty_queue :: "string \<Rightarrow> ClientJobQueue" where
  "empty_queue cid = \<lparr>cq_clientId = cid, cq_pendingJobs = [], cq_isProcessing = False,
     cq_lastProcessedAt = 0\<rparr>"

definition no_queues :: QueueState where
  "no_queues = \<lparr>queue_objects = (\<lambda>_. empty_queue []), next_queue = 0, clientQueues = [],
     processingLocks = [], activations = [], events = []\<rparr>"

definition MAX_QUEUE_SIZE :: nat where
  "MAX_QUEUE_SIZE = 50"

definition modify_queue :: "nat \<Rightarrow> (ClientJobQueue \<Rightarrow> ClientJobQueue) \<Rightarrow> QueueState \<Rightarrow> QueueState" where
  "modify_queue a f s = s\<lparr>queue_objects := (queue_objects s)(a := f (queue_objects s a))\<rparr>"

definition pending :: "QueueState \<Rightarrow> nat \<Rightarrow> PendingJob list" where
  "pending s a = cq_pendingJobs (queue_objects s a)"

section \<open>The processing loop\<close>

text \<open>
  The head of the \<open>while\<close> loop: the next job is taken and its delivery
  started, or the loop ends, and the \<open>finally\<close> block releases the lock.
\<close>

definition loop_head :: "string \<Rightarrow> nat \<Rightarrow> QueueState \<Rightarrow> QueueState" where
  "loop_head cid a s = (case pending s a of
       [] \<Rightarrow> (modify_queue a (cq_isProcessing_update (\<lambda>_. False)) s)
                \<lparr>processingLocks := removeAll cid (processingLocks s)\<rparr>
     | job # rest \<Rightarrow> (modify_queue a (cq_pendingJobs_update (\<lambda>_. rest)) s)
                \<lparr>events := events s @ [DeliverJob job],
                 activations := activations s @ [\<lparr>ac_clientId = cid, ac_queue = a, ac_phase = Delivering job\<rparr>]\<rparr>)"

definition processClientQueue :: "string \<Rightarrow> QueueState \<Rightarrow> QueueState" where
  "processClientQueue cid s =
     (if cid \<in> set (processingLocks s) then s
      else (case map_get (clientQueues s) cid of
          None \<Rightarrow> s
        | Some a \<Rightarrow> if pending s a = [] then s
            else loop_head cid a (modify_queue a (cq_isProcessing_update (\<lambda>_. True))
                   (s\<lparr>processingLocks := processingLocks s @ [cid]\<rparr>))))"

text \<open>The delivery of the job of an activation has ended with \<open>res\<close>.\<close>

definition after_delivery :: "string \<Rightarrow> nat \<Rightarrow> PendingJob \<Rightarrow> delivery \<Rightarrow> int \<Rightarrow> QueueState \<Rightarrow> QueueState" where
  "after_delivery cid a job res now s = (case res of
       Delivered \<Rightarrow> modify_queue a (cq_lastProcessedAt_update (\<lambda>_. now)) s
     | Refused _ \<Rightarrow> if pj_priority job > -5
         then modify_queue a (cq_pendingJobs_update
                (\<lambda>js. job\<lparr>pj_priority := pj_priority job - 1\<rparr> # js)) s
         else s\<lparr>events := events s @ [DeliveryFailed (pj_jobId job) cid]\<rparr>
     | Thrown _ \<Rightarrow> s\<lparr>events := events s @ [DeliveryFailed (pj_jobId job) cid]\<rparr>)"

definition suspend :: "string \<Rightarrow> nat \<Rightarrow> delivery \<Rightarrow> QueueState \<Rightarrow> QueueState" where
  "suspend cid a res s = (case res of
       Thrown _ \<Rightarrow> loop_head cid a s
     | _ \<Rightarrow> if pending s a = [] then loop_head cid a s
         else s\<lparr>activations := activations s @ [\<lparr>ac_clientId = cid, ac_queue = a, ac_phase = Pausing\<rparr>]\<rparr>)"

definition deliveryEnded :: "Activation \<Rightarrow> delivery \<Rightarrow> int \<Rightarrow> QueueState \<Rightarrow> QueueState" where
  "deliveryEnded act res now s = (case ac_phase act of
       Pausing \<Rightarrow> s
     | Delivering job \<Rightarrow> suspend (ac_clientId act) (ac_queue act) res
         (after_delivery (ac_clientId act) (ac_queue act) job res now
           (s\<lparr>activations := remove1 act (activations s)\<rparr>)))"

text \<open>The 100 ms pause between two deliveries is over.\<close>

definition pauseOver :: "Activation \<Rightarrow> QueueState \<Rightarrow> QueueState" where
  "pauseOver act s = (case ac_phase act of
       Delivering _ \<Rightarrow> s
     | Pausing \<Rightarrow> loop_head (ac_clientId act) (ac_queue act) (s\<lparr>activations := remove1 act (activations s)\<rparr>))"

section \<open>The other methods\<close>

text \<open>\<open>findIndex(job => job.priority < priority)\<close>, then \<open>push\<close> or \<open>splice\<close>.\<close>

definition insert_by_priority :: "PendingJob \<Rightarrow> PendingJob list \<Rightarrow> PendingJob list" where
  "insert_by_priority job js =
     takeWhile (\<lambda>j. \<not> pj_priority j < pj_priority job) js @ job #
     dropWhile (\<lambda>j. \<not> pj_priority j < pj_priority job) js"

definition ensure_queue :: "string \<Rightarrow> QueueState \<Rightarrow> QueueState" where
  "ensure_queue cid s = (if map_has (clientQueues s) cid then s
     else s\<lparr>queue_objects := (queue_objects s)(next_queue s := empty_queue cid),
            clientQueues := map_set cid (next_queue s) (clientQueues s),
            next_queue := next_queue s + 1\<rparr>)"

definition queue_at :: "QueueState \<Rightarrow> string \<Rightarrow> nat" where
  "queue_at s cid = (case map_get (clientQueues s) cid of Some a \<Rightarrow> a | None \<Rightarrow> 0)"

text \<open>The answer: the position, or the error that the queue is full.\<close>

definition queueJobForClient :: "string \<Rightarrow> PendingJob \<Rightarrow> QueueState \<Rightarrow> (string + nat) \<times> QueueState" where
  "queueJobForClient cid job s0 =
     (let s = ensure_queue cid s0; a = queue_at s cid in
      if length (pending s a) \<ge> MAX_QUEUE_SIZE
      then (Inl (''Client '' @ cid @ '' queue is full ('' @ show_nat MAX_QUEUE_SIZE @ '' jobs)''), s)
      else (let s1 = processClientQueue cid
                       (modify_queue a (cq_pendingJobs_update (insert_by_priority job)) s)
            in (Inr (length (pending s1 a)), s1)))"

text \<open>The part of \<open>clearClientQueue\<close> that concerns the queue.\<close>

definition clearClientPending :: "string \<Rightarrow> QueueState \<Rightarrow> nat \<times> QueueState" where
  "clearClientPending cid s = (case map_get (clientQueues s) cid of
       None \<Rightarrow> (0, s)
     | Some a \<Rightarrow> (length (pending s a),
         (modify_queue a (\<lambda>q. q\<lparr>cq_pendingJobs := [], cq_isProcessing := False\<rparr>) s)
           \<lparr>clientQueues := map_delete cid (clientQueues s)\<rparr>))"

definition stale :: "int \<Rightarrow> ClientJobQueue \<Rightarrow> bool" where
  "stale now q \<longleftrightarrow> cq_pendingJobs q = [] \<and> \<not> cq_isProcessing q \<and> now - cq_lastProcessedAt q > 3600000"

definition cleanupStaleQueues :: "int \<Rightarrow> QueueState \<Rightarrow> QueueState" where
  "cleanupStaleQueues now s = s\<lparr>clientQueues := fold map_delete
     (map fst (filter (\<lambda>(_, a). stale now (queue_objects s a)) (clientQueues s))) (clientQueues s)\<rparr>"

section \<open>The whole manager\<close>

record 'r JobQueueManager =
  jm_queues :: QueueState
  jm_waits :: "'r WaitState"

definition clearClientQueue :: "string \<Rightarrow> 'r JobQueueManager \<Rightarrow> (nat \<times> int) \<times> 'r JobQueueManager" where
  "clearClientQueue cid m =
     (let (clearedPending, q) = clearClientPending cid (jm_queues m);
          (clearedWaiting, w) = clearClientWaits cid (jm_waits m)
      in ((clearedPending, clearedWaiting), m\<lparr>jm_queues := q, jm_waits := w\<rparr>))"

record QueueStatus =
  qs_exists :: bool
  qs_pendingJobs :: nat
  qs_isProcessing :: bool
  qs_lastProcessedAt :: int
  qs_waitingJobs :: int

definition getClientQueueStatus :: "string \<Rightarrow> 'r JobQueueManager \<Rightarrow> QueueStatus" where
  "getClientQueueStatus cid m =
     (let waitingJobsCount = count_of (jm_waits m) cid in
      case map_get (clientQueues (jm_queues m)) cid of
        None \<Rightarrow> \<lparr>qs_exists = False, qs_pendingJobs = 0, qs_isProcessing = False,
                  qs_lastProcessedAt = 0, qs_waitingJobs = waitingJobsCount\<rparr>
      | Some a \<Rightarrow> (let q = queue_objects (jm_queues m) a in
          \<lparr>qs_exists = True, qs_pendingJobs = length (cq_pendingJobs q),
           qs_isProcessing = cq_isProcessing q, qs_lastProcessedAt = cq_lastProcessedAt q,
           qs_waitingJobs = waitingJobsCount\<rparr>))"

record SystemQueueStatus =
  ss_totalClients :: nat
  ss_activeQueues :: nat
  ss_totalPendingJobs :: nat
  ss_totalWaitingJobs :: int
  ss_clientQueues :: "(string \<times> nat \<times> bool \<times> int) list"

definition getSystemQueueStatus :: "'r JobQueueManager \<Rightarrow> SystemQueueStatus" where
  "getSystemQueueStatus m =
     (let qs = map (\<lambda>(cid, a). (cid, queue_objects (jm_queues m) a)) (clientQueues (jm_queues m))
      in \<lparr>ss_totalClients = length qs,
          ss_activeQueues = length (filter (\<lambda>(_, q). cq_isProcessing q \<or> cq_pendingJobs q \<noteq> []) qs),
          ss_totalPendingJobs = sum_list (map (\<lambda>(_, q). length (cq_pendingJobs q)) qs),
          ss_totalWaitingJobs = sum_list (map snd (clientJobCounts (jm_waits m))),
          ss_clientQueues = map (\<lambda>(cid, q). (cid, length (cq_pendingJobs q), cq_isProcessing q,
            count_of (jm_waits m) cid)) qs\<rparr>)"

section \<open>Runs\<close>

text \<open>The first argument tells whether \<open>clearClientQueue\<close> may happen in the run.\<close>

inductive queue_step :: "bool \<Rightarrow> QueueState \<Rightarrow> QueueState \<Rightarrow> bool" for clears where
  Queue: "queue_step clears s (snd (queueJobForClient cid job s))"
| Ended: "act \<in> set (activations s) \<Longrightarrow> queue_step clears s (deliveryEnded act res now s)"
| Resume: "act \<in> set (activations s) \<Longrightarrow> queue_step clears s (pauseOver act s)"
| Stale: "queue_step clears s (cleanupStaleQueues now s)"
| Clear: "clears \<Longrightarrow> queue_step clears s (snd (clearClientPending cid s))"

inductive_cases queue_stepE: "queue_step clears s s'"

end
