(* ===== verification/JobQueueProperties.thy ===== *)
theory JobQueueProperties
  imports JobQueue
begin

text \<open>
  What holds of the queues of \<open>JobQueueManager\<close>: the invariant of the locks,
  the suspended loops and the queue sizes in every reachable state; that a
  queued job always has a loop that will deliver it as long as no queue is
  cleared, and what a clear during a delivery does; that a loop ends and has
  handed out every job of its queue by then.
\<close>

section \<open>The invariant\<close>

definition serves :: "QueueState \<Rightarrow> nat \<Rightarrow> bool" where
  "serves s a \<longleftrightarrow> a \<in> ac_queue ` set (activations s)"

definition delivering :: "Activation \<Rightarrow> bool" where
  "delivering act \<longleftrightarrow> ac_phase act \<noteq> Pausing"

definition queue_limit :: "QueueState \<Rightarrow> nat \<Rightarrow> nat" where
  "queue_limit s a = (if \<exists>act \<in> set (activations s). ac_queue act = a \<and> delivering act
     then MAX_QUEUE_SIZE else MAX_QUEUE_SIZE + 1)"

definition sizes_ok :: "QueueState \<Rightarrow> bool" where
  "sizes_ok s \<longleftrightarrow> (\<forall>a < next_queue s. length (pending s a) \<le> queue_limit s a)"

definition owned :: "QueueState \<Rightarrow> string \<Rightarrow> nat \<Rightarrow> bool" where
  "owned s cid a \<longleftrightarrow> a < next_queue s \<and> cq_clientId (queue_objects s a) = cid"

definition locks_ok :: "QueueState \<Rightarrow> bool" where
  "locks_ok s \<longleftrightarrow> is_jsmap (clientQueues s) \<and>
     (\<forall>cid a. map_of (clientQueues s) cid = Some a \<longrightarrow> owned s cid a \<and>
        (cq_isProcessing (queue_objects s a) \<longleftrightarrow> serves s a)) \<and>
     (\<forall>act \<in> set (activations s). owned s (ac_clientId act) (ac_queue act)) \<and>
     distinct (map ac_clientId (activations s)) \<and>
     set (processingLocks s) = ac_clientId ` set (activations s)"

definition queues_ok :: "QueueState \<Rightarrow> bool" where
  "queues_ok s \<longleftrightarrow> locks_ok s \<and> sizes_ok s"

text \<open>A loop of \<open>cid\<close> on the queue \<open>a\<close> that is running: its lock is held, no suspended loop has it.\<close>

definition running :: "string \<Rightarrow> nat \<Rightarrow> QueueState \<Rightarrow> bool" where
  "running cid a s \<longleftrightarrow> is_jsmap (clientQueues s) \<and>
     (\<forall>c b. map_of (clientQueues s) c = Some b \<longrightarrow> owned s c b \<and>
        (cq_isProcessing (queue_objects s b) \<longleftrightarrow> serves s b \<or> b = a)) \<and>
     (\<forall>act \<in> set (activations s). owned s (ac_clientId act) (ac_queue act)) \<and>
     distinct (map ac_clientId (activations s)) \<and>
     set (processingLocks s) = insert cid (ac_clientId ` set (activations s)) \<and>
     cid \<notin> ac_clientId ` set (activations s) \<and> owned s cid a"

lemma pending_modify [simp]:
  "pending (modify_queue a f s) b = (if b = a then cq_pendingJobs (f (queue_objects s a)) else pending s b)"
  by (simp add: pending_def modify_queue_def)

lemma modify_queue_simps [simp]:
  "next_queue (modify_queue a f s) = next_queue s"
  "clientQueues (modify_queue a f s) = clientQueues s"
  "processingLocks (modify_queue a f s) = processingLocks s"
  "activations (modify_queue a f s) = activations s"
  "events (modify_queue a f s) = events s"
  "queue_objects (modify_queue a f s) b = (if b = a then f (queue_objects s a) else queue_objects s b)"
  by (simp_all add: modify_queue_def)

lemma pending_simps [simp]:
  "pending (s\<lparr>activations := x\<rparr>) = pending s"
  "pending (s\<lparr>events := e\<rparr>) = pending s"
  "pending (s\<lparr>processingLocks := l\<rparr>) = pending s"
  "pending (s\<lparr>clientQueues := m\<rparr>) = pending s"
  by (simp_all add: pending_def fun_eq_iff)

lemma queue_limit_simps [simp]:
  "queue_limit (modify_queue a f s) = queue_limit s"
  "queue_limit (s\<lparr>events := e\<rparr>) = queue_limit s"
  "queue_limit (s\<lparr>processingLocks := l\<rparr>) = queue_limit s"
  "queue_limit (s\<lparr>clientQueues := m\<rparr>) = queue_limit s"
  by (simp_all add: queue_limit_def fun_eq_iff)

lemma queue_limit_delivering:
  "act \<in> set (activations s) \<Longrightarrow> delivering act \<Longrightarrow> queue_limit s (ac_queue act) = MAX_QUEUE_SIZE"
  unfolding queue_limit_def by auto

lemma running_not_served: "running cid a s \<Longrightarrow> \<not> serves s a"
  by (auto simp: running_def serves_def owned_def)

lemma queues_ok_loop_head:
  assumes r: "running cid a s" and sz: "sizes_ok s"
  shows "queues_ok (loop_head cid a s)"
proof (cases "pending s a")
  case Nil
  have ns: "\<not> serves s a" by (rule running_not_served [OF r])
  have e: "loop_head cid a s = (modify_queue a (cq_isProcessing_update (\<lambda>_. False)) s)
                \<lparr>processingLocks := removeAll cid (processingLocks s)\<rparr>"
    using Nil by (simp add: loop_head_def)
  have "locks_ok (loop_head cid a s)"
    using r ns unfolding e by (auto simp: locks_ok_def running_def owned_def serves_def)
  moreover have "pending (loop_head cid a s) b = pending s b" "queue_limit (loop_head cid a s) b = queue_limit s b"
    "next_queue (loop_head cid a s) = next_queue s" for b
    unfolding e by (simp_all add: queue_limit_def pending_def)
  then have "sizes_ok (loop_head cid a s)" using sz by (simp add: sizes_ok_def)
  ultimately show ?thesis by (simp add: queues_ok_def)
next
  case (Cons job rest)
  let ?act = "\<lparr>ac_clientId = cid, ac_queue = a, ac_phase = Delivering job\<rparr>"
  have e: "loop_head cid a s = (modify_queue a (cq_pendingJobs_update (\<lambda>_. rest)) s)
                \<lparr>events := events s @ [DeliverJob job], activations := activations s @ [?act]\<rparr>"
    using Cons by (simp add: loop_head_def)
  have ns: "\<not> serves s a" by (rule running_not_served [OF r])
  then have "queue_limit s a = MAX_QUEUE_SIZE + 1" by (auto simp: queue_limit_def serves_def)
  moreover have "a < next_queue s" using r by (simp add: running_def owned_def)
  ultimately have len: "length rest \<le> MAX_QUEUE_SIZE"
    using sz Cons by (auto simp: sizes_ok_def)
  have "locks_ok (loop_head cid a s)"
    using r ns unfolding e by (auto simp: locks_ok_def running_def owned_def serves_def)
  moreover have "queue_limit (loop_head cid a s) b = (if b = a then MAX_QUEUE_SIZE else queue_limit s b)" for b
    unfolding e by (simp add: queue_limit_def delivering_def)
  then have "sizes_ok (loop_head cid a s)"
    using sz len unfolding sizes_ok_def by (simp add: e)
  ultimately show ?thesis by (simp add: queues_ok_def)
qed

text \<open>Taking the loop \<open>act\<close> out of the suspended ones makes it the running one.\<close>

definition woken :: "Activation \<Rightarrow> QueueState \<Rightarrow> QueueState" where
  "woken act s = s\<lparr>activations := remove1 act (activations s)\<rparr>"

lemma woken_simps [simp]:
  "pending (woken act s) = pending s" "queue_objects (woken act s) = queue_objects s"
  "next_queue (woken act s) = next_queue s" "clientQueues (woken act s) = clientQueues s"
  "processingLocks (woken act s) = processingLocks s" "events (woken act s) = events s"
  by (simp_all add: woken_def)

lemma same_client_same_loop:
  "locks_ok s \<Longrightarrow> act \<in> set (activations s) \<Longrightarrow> act' \<in> set (activations s) \<Longrightarrow>
     ac_clientId act = ac_clientId act' \<Longrightarrow> act = act'"
  by (auto simp: locks_ok_def distinct_map inj_on_def)

lemma same_queue_same_loop:
  "locks_ok s \<Longrightarrow> act \<in> set (activations s) \<Longrightarrow> act' \<in> set (activations s) \<Longrightarrow>
     ac_queue act = ac_queue act' \<Longrightarrow> act = act'"
  by (rule same_client_same_loop, assumption+) (auto simp: locks_ok_def owned_def, metis)

lemma set_woken:
  assumes "locks_ok s"
  shows "set (activations (woken act s)) = set (activations s) - {act}"
proof -
  have "distinct (activations s)" using assms by (simp add: locks_ok_def distinct_map)
  then show ?thesis by (simp add: woken_def)
qed

lemma running_woken:
  assumes ok: "locks_ok s" and act: "act \<in> set (activations s)"
  shows "running (ac_clientId act) (ac_queue act) (woken act s)"
proof -
  have sv: "serves s b \<longleftrightarrow> serves (woken act s) b \<or> b = ac_queue act" for b
    unfolding serves_def set_woken [OF ok] using act by auto
  have "distinct (map ac_clientId (activations s))" using ok by (simp add: locks_ok_def)
  moreover have "map ac_clientId (activations (woken act s)) = map ac_clientId (remove1 act (activations s))"
    by (simp add: woken_def)
  ultimately have d: "distinct (map ac_clientId (activations (woken act s)))"
    by (simp add: distinct_map inj_on_def)
  have nin: "ac_clientId act \<notin> ac_clientId ` set (activations (woken act s))"
    unfolding set_woken [OF ok] using same_client_same_loop [OF ok act] by auto
  have ins: "insert (ac_clientId act) (ac_clientId ` set (activations (woken act s))) = ac_clientId ` set (activations s)"
    unfolding set_woken [OF ok] using act by auto
  have ow: "owned (woken act s) = owned s" by (simp add: owned_def fun_eq_iff)
  show ?thesis
    using ok act nin d unfolding running_def ins ow sv [symmetric]
    by (auto simp: locks_ok_def sv [symmetric] set_woken [OF ok])
qed

lemma sizes_ok_woken:
  assumes "queues_ok s" and "act \<in> set (activations s)"
  shows "sizes_ok (woken act s)"
    and "delivering act \<Longrightarrow> length (pending s (ac_queue act)) \<le> MAX_QUEUE_SIZE"
proof -
  have ok: "locks_ok s" "sizes_ok s" using assms by (simp_all add: queues_ok_def)
  have "queue_limit s a \<le> queue_limit (woken act s) a" for a
    by (auto simp: queue_limit_def set_woken [OF ok(1)])
  then show "sizes_ok (woken act s)"
    using ok(2) unfolding sizes_ok_def by (auto intro: order.trans)
  have "ac_queue act < next_queue s" using ok(1) assms(2) by (auto simp: locks_ok_def owned_def)
  then show "length (pending s (ac_queue act)) \<le> MAX_QUEUE_SIZE" if "delivering act"
    using ok(2) queue_limit_delivering [OF assms(2) that] unfolding sizes_ok_def by (metis)
qed

text \<open>What the running loop does to its own queue keeps everybody else's.\<close>

lemma running_modify:
  "running cid a s \<Longrightarrow> (\<And>q. cq_clientId (f q) = cq_clientId q) \<Longrightarrow>
     cq_isProcessing (f (queue_objects s a)) = cq_isProcessing (queue_objects s a) \<Longrightarrow>
     running cid a (modify_queue a f s)"
  by (auto simp: running_def owned_def serves_def)

lemma running_events: "running cid a (s\<lparr>events := e\<rparr>) = running cid a s"
  by (simp add: running_def owned_def serves_def)

lemma limit_when_running: "running cid a s \<Longrightarrow> queue_limit s a = MAX_QUEUE_SIZE + 1"
  by (drule running_not_served) (auto simp: queue_limit_def serves_def)

lemma sizes_ok_modify:
  "sizes_ok s \<Longrightarrow> length (cq_pendingJobs (f (queue_objects s a))) \<le> queue_limit s a \<Longrightarrow>
     sizes_ok (modify_queue a f s)"
  by (simp add: sizes_ok_def)

lemma sizes_ok_events: "sizes_ok (s\<lparr>events := e\<rparr>) = sizes_ok s"
  by (simp add: sizes_ok_def)

lemma running_after_delivery:
  assumes "running cid a s" and "sizes_ok s" and "length (pending s a) \<le> MAX_QUEUE_SIZE"
  shows "running cid a (after_delivery cid a job res now s) \<and> sizes_ok (after_delivery cid a job res now s)"
  using assms limit_when_running [OF assms(1)]
  by (cases res) (auto simp: after_delivery_def running_events sizes_ok_events pending_def
    intro!: running_modify sizes_ok_modify)

lemma queues_ok_suspend:
  assumes r: "running cid a s" and sz: "sizes_ok s"
  shows "queues_ok (suspend cid a res s)"
proof -
  let ?s = "s\<lparr>activations := activations s @ [\<lparr>ac_clientId = cid, ac_queue = a, ac_phase = Pausing\<rparr>]\<rparr>"
  have "locks_ok ?s"
    using r by (auto simp: locks_ok_def running_def owned_def serves_def)
  moreover have "sizes_ok ?s"
    using sz by (simp add: sizes_ok_def queue_limit_def delivering_def)
  ultimately have "queues_ok ?s" by (simp add: queues_ok_def)
  then show ?thesis
    using queues_ok_loop_head [OF r sz] by (simp add: suspend_def split: delivery.split)
qed

lemma queues_ok_ended:
  assumes "queues_ok s" and "act \<in> set (activations s)"
  shows "queues_ok (deliveryEnded act res now s)"
proof (cases "ac_phase act")
  case (Delivering job)
  have ok: "locks_ok s" using assms(1) by (simp add: queues_ok_def)
  have len: "length (pending (woken act s) (ac_queue act)) \<le> MAX_QUEUE_SIZE"
    using sizes_ok_woken(2) [OF assms] by (simp add: delivering_def Delivering)
  from running_after_delivery [OF running_woken [OF ok assms(2)] sizes_ok_woken(1) [OF assms] len]
  show ?thesis
    by (simp add: deliveryEnded_def Delivering woken_def queues_ok_suspend)
qed (use assms in \<open>simp add: deliveryEnded_def\<close>)

lemma queues_ok_resumed:
  assumes "queues_ok s" and "act \<in> set (activations s)"
  shows "queues_ok (pauseOver act s)"
proof (cases "ac_phase act")
  case Pausing
  have ok: "locks_ok s" using assms(1) by (simp add: queues_ok_def)
  from queues_ok_loop_head [OF running_woken [OF ok assms(2)] sizes_ok_woken(1) [OF assms]]
  show ?thesis by (simp add: pauseOver_def Pausing woken_def)
qed (use assms in \<open>simp add: pauseOver_def\<close>)

lemma length_insert_by_priority [simp]: "length (insert_by_priority job js) = Suc (length js)"
proof -
  have "length (takeWhile P js) + length (dropWhile P js) = length js" for P :: "PendingJob \<Rightarrow> bool"
    by (metis length_append takeWhile_dropWhile_id)
  then show ?thesis by (simp add: insert_by_priority_def)
qed

lemma queues_ok_start:
  assumes ok: "queues_ok s"
  shows "queues_ok (processClientQueue cid s)"
proof (cases "cid \<in> set (processingLocks s) \<or> map_get (clientQueues s) cid = None \<or>
    pending s (the (map_get (clientQueues s) cid)) = []")
  case True
  then have "processClientQueue cid s = s" by (auto simp: processClientQueue_def split: option.split)
  then show ?thesis using ok by simp
next
  case False
  then obtain a where a: "map_of (clientQueues s) cid = Some a" "cid \<notin> set (processingLocks s)" "pending s a \<noteq> []"
    by auto
  let ?s = "modify_queue a (cq_isProcessing_update (\<lambda>_. True)) (s\<lparr>processingLocks := processingLocks s @ [cid]\<rparr>)"
  have "running cid a ?s"
    using ok a by (auto simp: queues_ok_def locks_ok_def running_def owned_def serves_def)
  moreover have "sizes_ok ?s"
    using ok by (simp add: queues_ok_def sizes_ok_def pending_def)
  ultimately show ?thesis
    using a queues_ok_loop_head [of cid a ?s] by (simp add: processClientQueue_def)
qed

lemma queues_ok_ensure:
  assumes ok: "queues_ok s"
  shows "queues_ok (ensure_queue cid s)"
    and "map_of (clientQueues (ensure_queue cid s)) cid = Some (queue_at (ensure_queue cid s) cid)"
proof -
  have fresh: "\<not> serves s (next_queue s)"
    using ok by (auto simp: queues_ok_def locks_ok_def owned_def serves_def)
  show "queues_ok (ensure_queue cid s)"
  proof (cases "map_of (clientQueues s) cid")
    case None
    then have e: "ensure_queue cid s = s\<lparr>queue_objects := (queue_objects s)(next_queue s := empty_queue cid),
            clientQueues := map_set cid (next_queue s) (clientQueues s), next_queue := next_queue s + 1\<rparr>"
      by (simp add: ensure_queue_def)
    have sv: "serves (ensure_queue cid s) = serves s" by (simp add: e serves_def fun_eq_iff)
    have ow: "owned (ensure_queue cid s) c b \<longleftrightarrow> owned s c b \<or> (b = next_queue s \<and> c = cid)" for c b
      unfolding e by (auto simp: owned_def empty_queue_def)
    have "cq_isProcessing (queue_objects (ensure_queue cid s) b) \<longleftrightarrow>
        cq_isProcessing (queue_objects s b)" if "owned s c b" for b c
      using that by (simp add: e owned_def)
    moreover have "\<not> cq_isProcessing (queue_objects (ensure_queue cid s) (next_queue s))"
      by (simp add: e empty_queue_def)
    ultimately have "locks_ok (ensure_queue cid s)"
      using ok fresh unfolding queues_ok_def locks_ok_def sv ow by (auto simp: e)
    moreover have "queue_limit (ensure_queue cid s) = queue_limit s"
      by (simp add: e queue_limit_def fun_eq_iff)
    then have "sizes_ok (ensure_queue cid s)"
      using ok unfolding queues_ok_def sizes_ok_def
      by (auto simp: e pending_def empty_queue_def less_Suc_eq)
    ultimately show ?thesis by (simp add: queues_ok_def)
  qed (use ok in \<open>simp add: ensure_queue_def\<close>)
  show "map_of (clientQueues (ensure_queue cid s)) cid = Some (queue_at (ensure_queue cid s) cid)"
    by (auto simp: ensure_queue_def queue_at_def)
qed

lemma queues_ok_insert:
  assumes "queues_ok s" and "length (pending s a) < MAX_QUEUE_SIZE"
  shows "queues_ok (modify_queue a (cq_pendingJobs_update (insert_by_priority job)) s)"
proof -
  have "MAX_QUEUE_SIZE \<le> queue_limit s a" by (simp add: queue_limit_def)
  then show ?thesis
    using assms by (auto simp: queues_ok_def locks_ok_def owned_def serves_def pending_def intro!: sizes_ok_modify)
qed

lemma queues_ok_queue:
  assumes ok: "queues_ok s"
  shows "queues_ok (snd (queueJobForClient cid job s))"
  using queues_ok_ensure(1) [OF ok, of cid]
  by (simp add: queueJobForClient_def Let_def queues_ok_start queues_ok_insert)

lemma queues_ok_clear:
  assumes ok: "queues_ok s"
  shows "queues_ok (snd (clearClientPending cid s))"
proof (cases "map_of (clientQueues s) cid")
  case (Some a)
  have other: "b \<noteq> a" if "map_of (clientQueues s) c = Some b" "c \<noteq> cid" for b c
    using ok Some that unfolding queues_ok_def locks_ok_def owned_def by metis
  show ?thesis
    using ok Some other unfolding queues_ok_def
    by (auto simp: clearClientPending_def locks_ok_def owned_def serves_def pending_def sizes_ok_def)
qed (use ok in \<open>simp add: clearClientPending_def\<close>)

lemma delete_all:
  "map_of (fold map_delete ks m) = (\<lambda>k. if k \<in> set ks then None else map_of m k)"
  "is_jsmap m \<Longrightarrow> is_jsmap (fold map_delete ks m)"
  by (induction ks arbitrary: m) (auto simp: fun_eq_iff)

lemma queues_ok_stale:
  assumes ok: "queues_ok s"
  shows "queues_ok (cleanupStaleQueues now s)"
  using ok by (auto simp: queues_ok_def locks_ok_def owned_def serves_def sizes_ok_def
    cleanupStaleQueues_def delete_all split: if_splits)

lemma queues_ok_step: "queue_step clears s s' \<Longrightarrow> queues_ok s \<Longrightarrow> queues_ok s'"
  by (induction rule: queue_step.induct)
    (simp_all add: queues_ok_queue queues_ok_ended queues_ok_resumed queues_ok_stale queues_ok_clear)

lemma queues_ok_init: "queues_ok no_queues"
  by (simp add: queues_ok_def locks_ok_def sizes_ok_def no_queues_def)

lemma queues_ok_reach: "(queue_step clears)\<^sup>*\<^sup>* no_queues s \<Longrightarrow> queues_ok s"
  by (induction rule: rtranclp_induct) (auto intro: queues_ok_init queues_ok_step)

section \<open>No queue is forgotten\<close>

text \<open>Every queue with a job has a suspended loop, and every suspended loop works on the queue of the map.\<close>

definition awake :: "QueueState \<Rightarrow> bool" where
  "awake s \<longleftrightarrow> (\<forall>cid a. map_of (clientQueues s) cid = Some a \<longrightarrow> pending s a \<noteq> [] \<longrightarrow> serves s a) \<and>
     (\<forall>act \<in> set (activations s). map_of (clientQueues s) (ac_clientId act) = Some (ac_queue act))"

definition awake_but :: "string \<Rightarrow> nat \<Rightarrow> QueueState \<Rightarrow> bool" where
  "awake_but cid a s \<longleftrightarrow> map_of (clientQueues s) cid = Some a \<and>
     (\<forall>c b. map_of (clientQueues s) c = Some b \<longrightarrow> pending s b \<noteq> [] \<longrightarrow> b = a \<or> serves s b) \<and>
     (\<forall>act \<in> set (activations s). map_of (clientQueues s) (ac_clientId act) = Some (ac_queue act))"

lemma awake_loop_head: "awake_but cid a s \<Longrightarrow> awake (loop_head cid a s)"
  by (cases "pending s a")
    (auto simp: loop_head_def awake_def awake_but_def serves_def, simp add: pending_def)

lemma awake_but_modify:
  "awake_but cid a s \<Longrightarrow> awake_but cid a (modify_queue a f s)"
  by (auto simp: awake_but_def serves_def)

lemma awake_but_events: "awake_but cid a (s\<lparr>events := e\<rparr>) = awake_but cid a s"
  by (simp add: awake_but_def serves_def)

lemma awake_suspend: "awake_but cid a s \<Longrightarrow> awake (suspend cid a res s)"
  using awake_loop_head [of cid a s]
  by (auto simp: suspend_def awake_but_def awake_def serves_def split: delivery.split)

lemma awake_woken:
  assumes "awake s" and "locks_ok s" and "act \<in> set (activations s)"
  shows "awake_but (ac_clientId act) (ac_queue act) (woken act s)"
  using assms by (auto simp: awake_def awake_but_def serves_def set_woken)

lemma awake_after_delivery:
  "awake_but cid a s \<Longrightarrow> awake_but cid a (after_delivery cid a job res now s)"
  by (auto simp: after_delivery_def awake_but_events intro: awake_but_modify split: delivery.split)

lemma awake_ended:
  assumes "awake s" and "locks_ok s" and "act \<in> set (activations s)"
  shows "awake (deliveryEnded act res now s)"
  using assms(1) awake_suspend [OF awake_after_delivery [OF awake_woken [OF assms]]]
  by (auto simp: deliveryEnded_def woken_def split: phase.split)

lemma awake_resumed:
  assumes "awake s" and "locks_ok s" and "act \<in> set (activations s)"
  shows "awake (pauseOver act s)"
  using assms(1) awake_loop_head [OF awake_woken [OF assms]]
  by (auto simp: pauseOver_def woken_def split: phase.split)

lemma awake_start:
  assumes "awake_but cid a s" and ok: "queues_ok s"
  shows "awake (processClientQueue cid s)"
proof (cases "cid \<in> set (processingLocks s)")
  case True
  then obtain act where act: "act \<in> set (activations s)" "ac_clientId act = cid"
    using ok by (auto simp: queues_ok_def locks_ok_def)
  then have "serves s a" using assms(1) by (auto simp: awake_but_def serves_def)
  then show ?thesis
    using assms(1) True by (auto simp: processClientQueue_def awake_but_def awake_def)
next
  case False
  let ?s = "modify_queue a (cq_isProcessing_update (\<lambda>_. True)) (s\<lparr>processingLocks := processingLocks s @ [cid]\<rparr>)"
  have "awake_but cid a ?s"
    using assms(1) by (auto simp: awake_but_def serves_def pending_def)
  from awake_loop_head [OF this] show ?thesis
    using assms(1) False by (auto simp: processClientQueue_def awake_but_def awake_def)
qed

lemma awake_queue:
  assumes aw: "awake s" and ok: "queues_ok s"
  shows "awake (snd (queueJobForClient cid job s))"
proof -
  let ?s = "ensure_queue cid s"
  let ?a = "queue_at ?s cid"
  note en = queues_ok_ensure [OF ok, of cid]
  have acts: "activations ?s = activations s" by (simp add: ensure_queue_def)
  have pend: "pending ?s b = (if map_of (clientQueues s) cid = None \<and> b = next_queue s then [] else pending s b)" for b
    by (simp add: ensure_queue_def pending_def empty_queue_def)
  have aw1: "awake ?s"
    using aw unfolding awake_def serves_def acts pend by (auto simp: ensure_queue_def)
  then have "awake_but cid ?a ?s" using en(2) by (auto simp: awake_def awake_but_def)
  then have "awake_but cid ?a (modify_queue ?a (cq_pendingJobs_update (insert_by_priority job)) ?s)"
    by (rule awake_but_modify)
  then show ?thesis
    using aw1 awake_start queues_ok_insert [OF en(1), of ?a job]
    by (simp add: queueJobForClient_def Let_def)
qed

lemma awake_stale:
  assumes "awake s" and "locks_ok s"
  shows "awake (cleanupStaleQueues now s)"
proof -
  let ?ks = "map fst (filter (\<lambda>(_, a). stale now (queue_objects s a)) (clientQueues s))"
  have busy: "\<not> stale now (queue_objects s (ac_queue act))" if "act \<in> set (activations s)" for act
  proof -
    have "map_of (clientQueues s) (ac_clientId act) = Some (ac_queue act)"
      using assms(1) that by (simp add: awake_def)
    then have "cq_isProcessing (queue_objects s (ac_queue act))"
      using assms(2) that by (auto simp: locks_ok_def serves_def)
    then show ?thesis by (simp add: stale_def)
  qed
  have kept: "ac_clientId act \<notin> set ?ks" if "act \<in> set (activations s)" for act
  proof
    assume "ac_clientId act \<in> set ?ks"
    then obtain b where b: "(ac_clientId act, b) \<in> set (clientQueues s)" "stale now (queue_objects s b)"
      by auto
    have "map_of (clientQueues s) (ac_clientId act) = Some b"
      using assms(2) b(1) by (intro map_of_is_SomeI) (simp_all add: locks_ok_def is_jsmap_def)
    moreover have "map_of (clientQueues s) (ac_clientId act) = Some (ac_queue act)"
      using assms(1) that by (simp add: awake_def)
    ultimately show False using busy [OF that] b(2) by simp
  qed
  have acts: "activations (cleanupStaleQueues now s) = activations s"
    and pend: "pending (cleanupStaleQueues now s) = pending s"
    and cq: "map_of (clientQueues (cleanupStaleQueues now s)) =
        (\<lambda>k. if k \<in> set ?ks then None else map_of (clientQueues s) k)"
    unfolding cleanupStaleQueues_def by (simp, simp, simp add: delete_all)
  show ?thesis
    unfolding awake_def serves_def acts pend cq
  proof (intro conjI allI impI ballI)
    fix cid a
    assume "(if cid \<in> set ?ks then None else map_of (clientQueues s) cid) = Some a" "pending s a \<noteq> []"
    then show "a \<in> ac_queue ` set (activations s)"
      using assms(1) unfolding awake_def serves_def by (metis option.distinct(1))
  next
    fix act
    assume "act \<in> set (activations s)"
    then show "(if ac_clientId act \<in> set ?ks then None else map_of (clientQueues s) (ac_clientId act)) =
        Some (ac_queue act)"
      using kept assms(1) unfolding awake_def by simp
  qed
qed

lemma awake_step: "queue_step False s s' \<Longrightarrow> queues_ok s \<Longrightarrow> awake s \<Longrightarrow> awake s'"
  by (induction rule: queue_step.induct)
    (simp_all add: awake_queue awake_ended awake_resumed awake_stale queues_ok_def)

lemma awake_reach: "(queue_step False)\<^sup>*\<^sup>* no_queues s \<Longrightarrow> awake s"
proof (induction rule: rtranclp_induct)
  case base
  show ?case by (simp add: awake_def no_queues_def)
next
  case (step s s')
  then show ?case using awake_step queues_ok_reach by blast
qed

section \<open>The loop ends\<close>

text \<open>The suspended loop of a client.\<close>

definition loop_of :: "string \<Rightarrow> QueueState \<Rightarrow> Activation option" where
  "loop_of cid s = find (\<lambda>act. ac_clientId act = cid) (activations s)"

text \<open>How often a job with this priority is handed out when every delivery is refused.\<close>

definition tries :: "PendingJob \<Rightarrow> nat" where
  "tries job = nat (max 1 (pj_priority job + 6))"

text \<open>An upper bound for the steps the loop on the queue \<open>a\<close> still takes.\<close>

fun phase_work :: "phase \<Rightarrow> nat" where
  "phase_work (Delivering job) = 3 * tries job - 1"
| "phase_work Pausing = 1"

definition queue_work :: "QueueState \<Rightarrow> nat \<Rightarrow> nat" where
  "queue_work s a = sum_list (map (\<lambda>j. 3 * tries j) (pending s a))"

definition loop_work :: "QueueState \<Rightarrow> string \<Rightarrow> nat" where
  "loop_work s cid = (case loop_of cid s of
       None \<Rightarrow> 0 | Some act \<Rightarrow> phase_work (ac_phase act) + queue_work s (ac_queue act))"

text \<open>The next step of the loop of a client: its delivery ends with the given result, or its pause is over.\<close>

definition advance :: "string \<Rightarrow> int \<Rightarrow> delivery \<Rightarrow> QueueState \<Rightarrow> QueueState" where
  "advance cid now res s = (case loop_of cid s of
       None \<Rightarrow> s
     | Some act \<Rightarrow> (case ac_phase act of
           Delivering _ \<Rightarrow> deliveryEnded act res now s
         | Pausing \<Rightarrow> pauseOver act s))"

lemma tries_pos: "1 \<le> tries job"
  by (simp add: tries_def)

lemma loop_of_Some: "loop_of cid s = Some act \<Longrightarrow> act \<in> set (activations s) \<and> ac_clientId act = cid"
  by (auto simp: loop_of_def find_Some_iff)

lemma loop_of_None: "loop_of cid s = None \<longleftrightarrow> cid \<notin> ac_clientId ` set (activations s)"
  by (auto simp: loop_of_def find_None_iff)

lemma find_append: "find P (xs @ ys) = (case find P xs of None \<Rightarrow> find P ys | Some x \<Rightarrow> Some x)"
  by (induction xs) auto

lemma loop_of_running: "running cid a s \<Longrightarrow> loop_of cid s = None"
  by (simp add: running_def loop_of_None)

lemma loop_head_ends:
  assumes "running cid a s" and "pending s a = []"
  shows "loop_of cid (loop_head cid a s) = None" "pending (loop_head cid a s) a = []"
    "events (loop_head cid a s) = events s"
  using assms loop_of_running [OF assms(1)] by (simp_all add: loop_head_def loop_of_def pending_def)

lemma loop_head_goes_on:
  assumes "running cid a s" and "pending s a = job # rest"
  shows "loop_of cid (loop_head cid a s) = Some \<lparr>ac_clientId = cid, ac_queue = a, ac_phase = Delivering job\<rparr>"
    "pending (loop_head cid a s) a = rest"
    "events (loop_head cid a s) = events s @ [DeliverJob job]"
  using assms loop_of_running [OF assms(1)] by (simp_all add: loop_head_def loop_of_def find_append)

text \<open>
  What one step of the loop on the queue \<open>a\<close> achieves: the loop is over and
  the queue empty, or it works on with less left to do; and no job leaves the
  queue without being handed out.
\<close>

definition progress :: "string \<Rightarrow> nat \<Rightarrow> nat \<Rightarrow> QueueState \<Rightarrow> QueueState \<Rightarrow> bool" where
  "progress cid a n s s' \<longleftrightarrow>
     (case loop_of cid s' of
        None \<Rightarrow> pending s' a = []
      | Some act \<Rightarrow> ac_queue act = a \<and> phase_work (ac_phase act) + queue_work s' a < n) \<and>
     set (events s) \<subseteq> set (events s') \<and>
     (\<forall>job \<in> set (pending s a). job \<in> set (pending s' a) \<or> DeliverJob job \<in> set (events s'))"

lemma progress_loop_head:
  assumes "running cid a s" and "queue_work s a \<le> n"
  shows "progress cid a n s (loop_head cid a s)"
proof (cases "pending s a")
  case Nil
  then show ?thesis using loop_head_ends [OF assms(1)] by (simp add: progress_def)
next
  case (Cons job rest)
  have "0 < tries job" using tries_pos [of job] by simp
  then show ?thesis
    using loop_head_goes_on [OF assms(1) Cons] assms(2) by (auto simp: progress_def Cons queue_work_def)
qed

lemma progress_suspend:
  assumes r: "running cid a s" and "queue_work s a + 1 < n"
  shows "progress cid a n s (suspend cid a res s)"
proof -
  have "progress cid a n s (s\<lparr>activations := activations s @ [\<lparr>ac_clientId = cid, ac_queue = a, ac_phase = Pausing\<rparr>]\<rparr>)"
    using loop_of_running [OF r] assms(2) by (auto simp: progress_def loop_of_def find_append queue_work_def)
  then show ?thesis
    using progress_loop_head [OF r, of n] assms(2) by (simp add: suspend_def split: delivery.split)
qed

lemma tries_lower:
  "pj_priority job > -5 \<Longrightarrow> tries (job\<lparr>pj_priority := pj_priority job - 1\<rparr>) + 1 = tries job"
  by (simp add: tries_def)

lemma after_delivery_work:
  "queue_work (after_delivery cid a job res now s) a + 1 < phase_work (Delivering job) + queue_work s a"
  using tries_pos [of job] tries_lower [of job]
  by (auto simp: after_delivery_def queue_work_def pending_def split: delivery.split)

lemma after_delivery_keeps:
  "set (events s) \<subseteq> set (events (after_delivery cid a job res now s))"
  "set (pending s a) \<subseteq> set (pending (after_delivery cid a job res now s) a)"
  by (auto simp: after_delivery_def pending_def split: delivery.split)

lemma progress_trans:
  "progress cid a n s1 s2 \<Longrightarrow> set (events s) \<subseteq> set (events s1) \<Longrightarrow>
     \<forall>job \<in> set (pending s a). job \<in> set (pending s1 a) \<or> DeliverJob job \<in> set (events s1) \<Longrightarrow>
     progress cid a n s s2"
  by (auto simp: progress_def)

lemma progress_advance:
  assumes ok: "queues_ok s" and l: "loop_of cid s = Some act" and a: "ac_queue act = a"
  shows "progress cid a (phase_work (ac_phase act) + queue_work s a) s (advance cid now res s)"
proof -
  have act: "act \<in> set (activations s)" "ac_clientId act = cid" using loop_of_Some [OF l] by auto
  have lk: "locks_ok s" using ok by (simp add: queues_ok_def)
  have r: "running cid a (woken act s)" using running_woken [OF lk act(1)] by (simp add: act a)
  have q: "queue_work (woken act s) = queue_work s" by (simp add: queue_work_def fun_eq_iff)
  have adv: "advance cid now res s = (case ac_phase act of
           Delivering _ \<Rightarrow> deliveryEnded act res now s | Pausing \<Rightarrow> pauseOver act s)"
    using l by (simp add: advance_def loop_of_def)
  show ?thesis
  proof (cases "ac_phase act")
    case (Delivering job)
    let ?s1 = "after_delivery cid a job res now (woken act s)"
    have "length (pending (woken act s) a) \<le> MAX_QUEUE_SIZE"
      using sizes_ok_woken(2) [OF ok act(1)] a by (simp add: delivering_def Delivering)
    then have "running cid a ?s1"
      using running_after_delivery [OF r sizes_ok_woken(1) [OF ok act(1)]] by blast
    moreover have "queue_work ?s1 a + 1 < phase_work (ac_phase act) + queue_work s a"
      using after_delivery_work [of cid a job res now "woken act s"] by (simp add: Delivering q)
    ultimately have "progress cid a (phase_work (ac_phase act) + queue_work s a) ?s1 (suspend cid a res ?s1)"
      by (rule progress_suspend)
    then have "progress cid a (phase_work (ac_phase act) + queue_work s a) s (suspend cid a res ?s1)"
      by (rule progress_trans) (use after_delivery_keeps(1) [of "woken act s"]
          after_delivery_keeps(2) [of "woken act s" a cid job res now] in \<open>simp_all add: subset_iff\<close>)
    then show ?thesis by (simp add: adv Delivering deliveryEnded_def act a woken_def)
  next
    case Pausing
    have "progress cid a (phase_work (ac_phase act) + queue_work s a) (woken act s) (loop_head cid a (woken act s))"
      by (rule progress_loop_head [OF r]) (simp add: q)
    then have "progress cid a (phase_work (ac_phase act) + queue_work s a) s (loop_head cid a (woken act s))"
      by (rule progress_trans) auto
    then show ?thesis by (simp add: adv Pausing pauseOver_def act a woken_def)
  qed
qed

lemma advance_step: "advance cid now res s = s \<or> queue_step clears s (advance cid now res s)"
  using loop_of_Some [of cid s]
  by (auto simp: advance_def loop_of_def intro: queue_step.intros split: option.split phase.split)

lemma queues_ok_advance: "queues_ok s \<Longrightarrow> queues_ok (advance cid now res s)"
  using advance_step [of cid now res s True] queues_ok_step by auto

lemma advance_done: "loop_of cid s = None \<Longrightarrow> fold (\<lambda>(now, res). advance cid now res) rs s = s"
  by (induction rs) (auto simp: advance_def loop_of_def)

lemma loop_drains:
  assumes "queues_ok s" and "loop_of cid s = Some act" and "ac_queue act = a"
    and "phase_work (ac_phase act) + queue_work s a \<le> length rs"
  shows "let s' = fold (\<lambda>(now, res). advance cid now res) rs s in
     queues_ok s' \<and> loop_of cid s' = None \<and> pending s' a = [] \<and>
     set (events s) \<subseteq> set (events s') \<and> (\<forall>job \<in> set (pending s a). DeliverJob job \<in> set (events s'))"
  using assms
proof (induction rs arbitrary: s act)
  case Nil
  have "0 < phase_work (ac_phase act)"
  proof (cases "ac_phase act")
    case (Delivering job)
    then show ?thesis using tries_pos [of job] by simp
  qed simp
  then show ?case using Nil by simp
next
  case (Cons x rs)
  obtain now res where x: "x = (now, res)" by (cases x)
  let ?s1 = "advance cid now res s"
  have pr: "progress cid a (phase_work (ac_phase act) + queue_work s a) s ?s1"
    by (rule progress_advance [OF Cons.prems(1,2,3)])
  have ok: "queues_ok ?s1" by (rule queues_ok_advance [OF Cons.prems(1)])
  show ?case
  proof (cases "loop_of cid ?s1")
    case None
    then show ?thesis using pr ok advance_done [OF None] by (auto simp: progress_def x Let_def)
  next
    case (Some act1)
    then have "phase_work (ac_phase act1) + queue_work ?s1 a \<le> length rs" "ac_queue act1 = a"
      using pr Cons.prems(4) by (auto simp: progress_def)
    from Cons.IH [OF ok Some this(2) this(1)] show ?thesis
      using pr by (auto simp: progress_def x Let_def)
  qed
qed

section \<open>The order of a queue\<close>

definition by_priority :: "PendingJob list \<Rightarrow> bool" where
  "by_priority js \<longleftrightarrow> sorted_wrt (\<lambda>i j. pj_priority i \<ge> pj_priority j) js"

lemma insert_split:
  assumes "by_priority js"
  shows "insert_by_priority job js =
    filter (\<lambda>j. pj_priority j \<ge> pj_priority job) js @ job # filter (\<lambda>j. pj_priority j < pj_priority job) js"
proof -
  have "takeWhile (\<lambda>j. \<not> pj_priority j < pj_priority job) js = filter (\<lambda>j. pj_priority j \<ge> pj_priority job) js \<and>
      dropWhile (\<lambda>j. \<not> pj_priority j < pj_priority job) js = filter (\<lambda>j. pj_priority j < pj_priority job) js"
    using assms unfolding by_priority_def
  proof (induction js)
    case (Cons j js)
    show ?case
    proof (cases "pj_priority j < pj_priority job")
      case True
      with Cons.prems have "\<forall>i \<in> set js. pj_priority i < pj_priority job" by auto
      then have "filter (\<lambda>j. pj_priority j \<ge> pj_priority job) js = []"
        "filter (\<lambda>j. pj_priority j < pj_priority job) js = js"
        by (auto simp: filter_empty_conv filter_id_conv)
      with True show ?thesis by simp
    qed (use Cons in auto)
  qed simp
  then show ?thesis by (simp add: insert_by_priority_def)
qed

lemma by_priority_insert: "by_priority js \<Longrightarrow> by_priority (insert_by_priority job js)"
  unfolding insert_split unfolding by_priority_def
  by (auto simp: sorted_wrt_append intro: sorted_wrt_filter)

section \<open>Properties\<close>

definition demo_pending :: "string \<Rightarrow> int \<Rightarrow> PendingJob" where
  "demo_pending jid p = \<lparr>pj_jobId = jid, pj_userPrincipalId = ''u'', pj_url = ''x.com'', pj_scrapeType = ''TWITTER_POST'',
     pj_timestamp = 0, pj_priority = p, pj_post_count = 0, pj_replies_count = 0, pj_scrollPauseTime = 0\<rparr>"

definition one_queued :: QueueState where
  "one_queued = snd (queueJobForClient ''c'' (demo_pending ''j1'' 0) no_queues)"

lemma reach_one: "(queue_step clears)\<^sup>*\<^sup>* no_queues one_queued"
  unfolding one_queued_def by (rule r_into_rtranclp) (rule Queue)

lemmas queue_eval = one_queued_def queueJobForClient_def processClientQueue_def loop_head_def ensure_queue_def
  queue_at_def no_queues_def empty_queue_def modify_queue_def pending_def insert_by_priority_def
  MAX_QUEUE_SIZE_def Let_def demo_pending_def

text \<open>C10: in every reachable state, clears of queues included, each client has at most one
  suspended loop, the locks are exactly the clients with a loop, a queue of the map is marked as
  processing exactly when a loop works on it, and no queue is longer than MAX_QUEUE_SIZE plus the one
  job a refused delivery puts back.\<close>

theorem queues_reachable:
  assumes "(queue_step clears)\<^sup>*\<^sup>* no_queues s"
  shows "distinct (map ac_clientId (activations s)) \<and>
    set (processingLocks s) = ac_clientId ` set (activations s) \<and>
    (\<forall>cid a. map_of (clientQueues s) cid = Some a \<longrightarrow> cq_clientId (queue_objects s a) = cid \<and>
       (cq_isProcessing (queue_objects s a) \<longleftrightarrow> a \<in> ac_queue ` set (activations s)) \<and>
       length (cq_pendingJobs (queue_objects s a)) \<le> 51)"
proof -
  have ok: "locks_ok s" "sizes_ok s" using queues_ok_reach [OF assms] by (simp_all add: queues_ok_def)
  have "length (pending s a) \<le> 51" if "a < next_queue s" for a
  proof -
    have "queue_limit s a \<le> 51" by (simp add: queue_limit_def MAX_QUEUE_SIZE_def)
    then show ?thesis using ok(2) that unfolding sizes_ok_def by (meson le_trans)
  qed
  then show ?thesis using ok(1) by (auto simp: locks_ok_def owned_def serves_def pending_def)
qed

theorem queues_reachable_witness:
  "set (processingLocks one_queued) = ac_clientId ` set (activations one_queued) \<and>
   cq_isProcessing (queue_objects one_queued 0)"
  using queues_reachable [OF reach_one [of True]] by (simp add: queue_eval)

text \<open>C11: as long as no queue is cleared, a queued job is never forgotten: every queue of the map
  that has a job also has a loop, which holds the client's lock and works on this very queue.\<close>

theorem no_lost_wakeup:
  assumes "(queue_step False)\<^sup>*\<^sup>* no_queues s" and "map_of (clientQueues s) cid = Some a"
    and "cq_pendingJobs (queue_objects s a) \<noteq> []"
  shows "\<exists>act \<in> set (activations s). ac_clientId act = cid \<and> ac_queue act = a \<and> cid \<in> set (processingLocks s)"
proof -
  have lk: "locks_ok s" using queues_ok_reach [OF assms(1)] by (simp add: queues_ok_def)
  obtain act where act: "act \<in> set (activations s)" "ac_queue act = a"
    using awake_reach [OF assms(1)] assms(2,3) by (auto simp: awake_def serves_def pending_def)
  then have "owned s (ac_clientId act) a" "owned s cid a"
    using lk assms(2) by (auto simp: locks_ok_def)
  then have "ac_clientId act = cid" by (simp add: owned_def)
  then show ?thesis using act lk by (auto simp: locks_ok_def)
qed

definition two_queued :: QueueState where
  "two_queued = snd (queueJobForClient ''c'' (demo_pending ''j2'' 0) one_queued)"

lemma reach_two: "(queue_step clears)\<^sup>*\<^sup>* no_queues two_queued"
  unfolding two_queued_def by (rule rtranclp.rtrancl_into_rtrancl [OF reach_one]) (rule Queue)

theorem no_lost_wakeup_witness:
  "cq_pendingJobs (queue_objects two_queued 0) \<noteq> [] \<and> (\<exists>act \<in> set (activations two_queued). ac_clientId act = ''c'')"
proof -
  have "map_of (clientQueues two_queued) ''c'' = Some 0" "cq_pendingJobs (queue_objects two_queued 0) \<noteq> []"
    by (simp_all add: two_queued_def queue_eval)
  from no_lost_wakeup [OF reach_two this] this(2) show ?thesis by blast
qed

text \<open>a clear while a delivery is under way breaks this: a job queued for the reconnected client
  during that delivery is in the map's queue, and once the delivery has ended nothing is left that
  would deliver it.\<close>

theorem clear_loses_wakeup:
  "\<exists>s a. (queue_step True)\<^sup>*\<^sup>* no_queues s \<and> map_of (clientQueues s) ''c'' = Some a \<and>
     cq_pendingJobs (queue_objects s a) = [demo_pending ''j2'' 0] \<and>
     activations s = [] \<and> processingLocks s = []"
proof -
  let ?s1 = "snd (clearClientPending ''c'' one_queued)"
  let ?s2 = "snd (queueJobForClient ''c'' (demo_pending ''j2'' 0) ?s1)"
  let ?act = "hd (activations one_queued)"
  let ?s3 = "deliveryEnded ?act Delivered 1 ?s2"
  have "queue_step True one_queued ?s1" by (rule Clear) simp
  moreover have "queue_step True ?s1 ?s2" by (rule Queue)
  moreover have "queue_step True ?s2 ?s3"
    by (rule Ended) (simp add: queue_eval clearClientPending_def)
  ultimately have "(queue_step True)\<^sup>*\<^sup>* no_queues ?s3"
    using reach_one [of True] by (meson rtranclp.rtrancl_into_rtrancl)
  moreover have "map_of (clientQueues ?s3) ''c'' = Some 1 \<and>
     cq_pendingJobs (queue_objects ?s3 1) = [demo_pending ''j2'' 0] \<and> activations ?s3 = [] \<and> processingLocks ?s3 = []"
    by (simp add: queue_eval clearClientPending_def deliveryEnded_def after_delivery_def suspend_def)
  ultimately show ?thesis by blast
qed

text \<open>C12: every loop ends: after as many steps as its queue has work (three per remaining try of a
  job, whatever the deliveries answer), the queue is empty, the lock is released, and every job that was in
  the queue has been handed out.\<close>

theorem queue_drains:
  assumes "(queue_step clears)\<^sup>*\<^sup>* no_queues s" and "loop_of cid s = Some act"
    and "phase_work (ac_phase act) + queue_work s (ac_queue act) \<le> length rs"
  shows "let s' = fold (\<lambda>(now, res). advance cid now res) rs s in
     cq_pendingJobs (queue_objects s' (ac_queue act)) = [] \<and> cid \<notin> set (processingLocks s') \<and>
     (\<forall>job \<in> set (cq_pendingJobs (queue_objects s (ac_queue act))). DeliverJob job \<in> set (events s'))"
  using loop_drains [OF queues_ok_reach [OF assms(1)] assms(2) refl assms(3)]
  by (auto simp: Let_def pending_def queues_ok_def locks_ok_def loop_of_None)

theorem queue_drains_witness:
  "DeliverJob (demo_pending ''j2'' 0) \<in>
     set (events (fold (\<lambda>(now, res). advance ''c'' now res) (replicate 35 (0, Refused ''offline'')) two_queued))"
proof -
  have "loop_of ''c'' two_queued = Some \<lparr>ac_clientId = ''c'', ac_queue = 0, ac_phase = Delivering (demo_pending ''j1'' 0)\<rparr>"
    by (simp add: two_queued_def queue_eval loop_of_def)
  from queue_drains [OF reach_two this, of "replicate 35 (0, Refused ''offline'')"] show ?thesis
    by (simp add: two_queued_def queue_eval queue_work_def tries_def Let_def del: replicate.simps fold_replicate)
qed

text \<open>a queue that is in priority order stays so when a job is queued: the new job goes behind
  every job of its own or a higher priority and before every job of a lower one.\<close>

theorem insert_keeps_order:
  assumes "by_priority js"
  shows "by_priority (insert_by_priority job js) \<and>
    insert_by_priority job js = filter (\<lambda>j. pj_priority j \<ge> pj_priority job) js @ [job] @
      filter (\<lambda>j. pj_priority j < pj_priority job) js"
  using by_priority_insert [OF assms] insert_split [OF assms] by simp

theorem insert_keeps_order_witness:
  "insert_by_priority (demo_pending ''n'' 1) [demo_pending ''a'' 2, demo_pending ''b'' 1, demo_pending ''c'' 0] =
     [demo_pending ''a'' 2, demo_pending ''b'' 1, demo_pending ''n'' 1, demo_pending ''c'' 0]"
  using insert_keeps_order [of "[demo_pending ''a'' 2, demo_pending ''b'' 1, demo_pending ''c'' 0]" "demo_pending ''n'' 1"]
  by (simp add: by_priority_def demo_pending_def)

text \<open>lowering the priority of a refused job does not let the others go first: unless a new job
  arrives during the pause, the very next delivery is the refused job again.\<close>

theorem refused_goes_first:
  assumes "(queue_step clears)\<^sup>*\<^sup>* no_queues s" and "loop_of cid s = Some act"
    and "ac_phase act = Delivering job" and "pj_priority job > -5"
  shows "events (advance cid later res' (advance cid now (Refused e) s)) =
    events s @ [DeliverJob (job\<lparr>pj_priority := pj_priority job - 1\<rparr>)]"
proof -
  let ?a = "ac_queue act"
  let ?job = "job\<lparr>pj_priority := pj_priority job - 1\<rparr>"
  let ?s1 = "modify_queue ?a (cq_pendingJobs_update (\<lambda>js. ?job # js)) (woken act s)"
  have lk: "locks_ok s" using queues_ok_reach [OF assms(1)] by (simp add: queues_ok_def)
  have act: "act \<in> set (activations s)" "ac_clientId act = cid" using loop_of_Some [OF assms(2)] by auto
  have "loop_of cid (woken act s) = None"
    using loop_of_running [OF running_woken [OF lk act(1)]] act(2) by simp
  moreover have s2: "advance cid now (Refused e) s =
      ?s1\<lparr>activations := activations ?s1 @ [\<lparr>ac_clientId = cid, ac_queue = ?a, ac_phase = Pausing\<rparr>]\<rparr>"
    using assms(2-4) act(2) by (simp add: advance_def deliveryEnded_def after_delivery_def suspend_def woken_def)
  ultimately have "loop_of cid (advance cid now (Refused e) s) =
      Some \<lparr>ac_clientId = cid, ac_queue = ?a, ac_phase = Pausing\<rparr>"
    by (simp add: loop_of_def find_append)
  then show ?thesis
    by (simp add: advance_def [of cid later] pauseOver_def loop_head_def) (simp add: s2)
qed

theorem refused_goes_first_witness:
  "events (advance ''c'' 2 Delivered (advance ''c'' 1 (Refused ''busy'') two_queued)) =
     [DeliverJob (demo_pending ''j1'' 0), DeliverJob (demo_pending ''j1'' (- 1))]"
proof -
  have "loop_of ''c'' two_queued = Some \<lparr>ac_clientId = ''c'', ac_queue = 0, ac_phase = Delivering (demo_pending ''j1'' 0)\<rparr>"
    by (simp add: two_queued_def queue_eval loop_of_def)
  from refused_goes_first [OF reach_two this, of "demo_pending ''j1'' 0" 2 Delivered 1 "''busy''"] show ?thesis
    by (simp add: two_queued_def queue_eval)
qed

end
