(* ===== verification/ReferralConfig.thy ===== *)
theory ReferralConfig
  imports DbRecords
begin

text \<open>
  The class \<open>ReferralConfigManager\<close> (\<open>src/services/referral_config_manager.ts\<close>)
  with the configuration interfaces of \<open>src/db/types.ts\<close>: a method that
  changes the configuration returns the new one. A \<open>Partial\<close> of an interface is
  a record of options.
\<close>

section \<open>The configuration\<close>

record TierRewardConfig =
  tc_tier_level :: int
  tc_reward_percentage :: rat
  tc_has_monthly_cap :: bool
  tc_monthly_cap_amount :: "rat option"
  tc_enabled :: bool

record RewardRequirements =
  rq_min_uptime_hours :: "rat option"
  rq_min_uptime_hours_weekly :: "rat option"
  rq_required_uptime_hours :: "rat option"

record RewardTypeConfig =
  rt_type :: ReferralRewardType
  rt_enabled :: bool
  rt_distribution_cycle :: DistributionCycle
  rt_tier_configs :: "TierRewardConfig list"
  rt_requirements :: "RewardRequirements option"

record ReferralConfig =
  rc_enabled :: bool
  rc_max_tier_depth :: int
  rc_referral_code_length :: int
  rc_installation_reward :: RewardTypeConfig
  rc_uptime_reward :: RewardTypeConfig
  rc_task_reward :: RewardTypeConfig

record PartialRewardTypeConfig =
  pt_type :: "ReferralRewardType option"
  pt_enabled :: "bool option"
  pt_distribution_cycle :: "DistributionCycle option"
  pt_tier_configs :: "TierRewardConfig list option"
  pt_requirements :: "RewardRequirements option"

record PartialReferralConfig =
  pc_enabled :: "bool option"
  pc_max_tier_depth :: "int option"
  pc_referral_code_length :: "int option"
  pc_installation_reward :: "PartialRewardTypeConfig option"
  pc_uptime_reward :: "PartialRewardTypeConfig option"
  pc_task_reward :: "PartialRewardTypeConfig option"
  pc_installation_reward_points :: "rat option"
  pc_installation_required_uptime_hours :: "rat option"
  pc_uptime_l1_percentage :: "rat option"
  pc_uptime_l2_percentage :: "rat option"
  pc_uptime_required_weekly_hours :: "rat option"
  pc_uptime_monthly_cap_per_referrer :: "rat option"
  pc_task_l1_percentage :: "rat option"
  pc_task_l2_percentage :: "rat option"

definition no_requirements :: RewardRequirements where
  "no_requirements = \<lparr>rq_min_uptime_hours = None, rq_min_uptime_hours_weekly = None,
     rq_required_uptime_hours = None\<rparr>"

section \<open>Building and changing it\<close>

definition buildDefaultConfig :: ReferralConfig where
  "buildDefaultConfig = \<lparr>
     rc_enabled = True, rc_max_tier_depth = 2, rc_referral_code_length = 8,
     rc_installation_reward = \<lparr>rt_type = INSTALLATION, rt_enabled = True, rt_distribution_cycle = IMMEDIATE,
       rt_tier_configs = [\<lparr>tc_tier_level = 1, tc_reward_percentage = 100, tc_has_monthly_cap = False,
         tc_monthly_cap_amount = None, tc_enabled = True\<rparr>],
       rt_requirements = Some (no_requirements\<lparr>rq_required_uptime_hours := Some 24\<rparr>)\<rparr>,
     rc_uptime_reward = \<lparr>rt_type = UPTIME, rt_enabled = True, rt_distribution_cycle = WEEKLY,
       rt_tier_configs =
         [\<lparr>tc_tier_level = 1, tc_reward_percentage = 2, tc_has_monthly_cap = True,
           tc_monthly_cap_amount = Some 10000, tc_enabled = True\<rparr>,
          \<lparr>tc_tier_level = 2, tc_reward_percentage = 1, tc_has_monthly_cap = True,
           tc_monthly_cap_amount = Some 10000, tc_enabled = True\<rparr>],
       rt_requirements = Some (no_requirements\<lparr>rq_min_uptime_hours_weekly := Some 100\<rparr>)\<rparr>,
     rc_task_reward = \<lparr>rt_type = TASK, rt_enabled = True, rt_distribution_cycle = IMMEDIATE,
       rt_tier_configs =
         [\<lparr>tc_tier_level = 1, tc_reward_percentage = 5, tc_has_monthly_cap = False,
           tc_monthly_cap_amount = None, tc_enabled = True\<rparr>,
          \<lparr>tc_tier_level = 2, tc_reward_percentage = 2, tc_has_monthly_cap = False,
           tc_monthly_cap_amount = None, tc_enabled = True\<rparr>],
       rt_requirements = None\<rparr>\<rparr>"

text \<open>\<open>if (tier_configs[i]) tier_configs[i].reward_percentage = p\<close>\<close>

definition set_percentage :: "nat \<Rightarrow> rat option \<Rightarrow> RewardTypeConfig \<Rightarrow> RewardTypeConfig" where
  "set_percentage i p rt = (case p of
       None \<Rightarrow> rt
     | Some p \<Rightarrow> if i < length (rt_tier_configs rt)
         then rt\<lparr>rt_tier_configs := (rt_tier_configs rt)
                [i := (rt_tier_configs rt ! i)\<lparr>tc_reward_percentage := p\<rparr>]\<rparr>
         else rt)"

text \<open>\<open>{ ...old, ...custom }\<close>\<close>

definition spread_opt :: "'a \<Rightarrow> 'a option \<Rightarrow> 'a" where
  "spread_opt old new = (case new of None \<Rightarrow> old | Some x \<Rightarrow> x)"

definition spread_reward :: "RewardTypeConfig \<Rightarrow> PartialRewardTypeConfig option \<Rightarrow> RewardTypeConfig" where
  "spread_reward rt p = (case p of
       None \<Rightarrow> rt
     | Some p \<Rightarrow> \<lparr>rt_type = spread_opt (rt_type rt) (pt_type p),
         rt_enabled = spread_opt (rt_enabled rt) (pt_enabled p),
         rt_distribution_cycle = spread_opt (rt_distribution_cycle rt) (pt_distribution_cycle p),
         rt_tier_configs = spread_opt (rt_tier_configs rt) (pt_tier_configs p),
         rt_requirements = (case pt_requirements p of None \<Rightarrow> rt_requirements rt | Some r \<Rightarrow> Some r)\<rparr>)"

definition legacy_installation :: "PartialReferralConfig \<Rightarrow> RewardTypeConfig \<Rightarrow> RewardTypeConfig" where
  "legacy_installation p rt =
     (let rt1 = set_percentage 0 (map_option (\<lambda>_. 100) (pc_installation_reward_points p)) rt
      in case pc_installation_required_uptime_hours p of
           None \<Rightarrow> rt1
         | Some h \<Rightarrow> rt1\<lparr>rt_requirements := Some (no_requirements\<lparr>rq_required_uptime_hours := Some h\<rparr>)\<rparr>)"

definition legacy_uptime :: "PartialReferralConfig \<Rightarrow> RewardTypeConfig \<Rightarrow> RewardTypeConfig" where
  "legacy_uptime p rt =
     (let rt1 = set_percentage 1 (pc_uptime_l2_percentage p) (set_percentage 0 (pc_uptime_l1_percentage p) rt);
          rt2 = (case pc_uptime_required_weekly_hours p of
                   None \<Rightarrow> rt1
                 | Some h \<Rightarrow> rt1\<lparr>rt_requirements := Some ((case rt_requirements rt1 of
                       None \<Rightarrow> no_requirements | Some r \<Rightarrow> r)\<lparr>rq_min_uptime_hours_weekly := Some h\<rparr>)\<rparr>)
      in case pc_uptime_monthly_cap_per_referrer p of
           None \<Rightarrow> rt2
         | Some m \<Rightarrow> rt2\<lparr>rt_tier_configs := map (\<lambda>t. if tc_has_monthly_cap t
               then t\<lparr>tc_monthly_cap_amount := Some m\<rparr> else t) (rt_tier_configs rt2)\<rparr>)"

definition legacy_task :: "PartialReferralConfig \<Rightarrow> RewardTypeConfig \<Rightarrow> RewardTypeConfig" where
  "legacy_task p rt = set_percentage 1 (pc_task_l2_percentage p) (set_percentage 0 (pc_task_l1_percentage p) rt)"

text \<open>
  \<open>tier_configs[0].reward_percentage = 100\<close> of the installation reward is
  unguarded; it throws when the list is empty.
\<close>

definition applyCustomConfig :: "PartialReferralConfig \<Rightarrow> ReferralConfig \<Rightarrow> string + ReferralConfig" where
  "applyCustomConfig p cfg =
     (if pc_installation_reward_points p \<noteq> None \<and> rt_tier_configs (rc_installation_reward cfg) = []
      then Inl ''TypeError''
      else Inr \<lparr>
        rc_enabled = spread_opt (rc_enabled cfg) (pc_enabled p),
        rc_max_tier_depth = spread_opt (rc_max_tier_depth cfg) (pc_max_tier_depth p),
        rc_referral_code_length = spread_opt (rc_referral_code_length cfg) (pc_referral_code_length p),
        rc_installation_reward = spread_reward (legacy_installation p (rc_installation_reward cfg)) (pc_installation_reward p),
        rc_uptime_reward = spread_reward (legacy_uptime p (rc_uptime_reward cfg)) (pc_uptime_reward p),
        rc_task_reward = spread_reward (legacy_task p (rc_task_reward cfg)) (pc_task_reward p)\<rparr>)"

section \<open>Reading it\<close>

definition getRewardConfig :: "ReferralConfig \<Rightarrow> ReferralRewardType \<Rightarrow> RewardTypeConfig" where
  "getRewardConfig cfg t = (case t of
       INSTALLATION \<Rightarrow> rc_installation_reward cfg
     | UPTIME \<Rightarrow> rc_uptime_reward cfg
     | TASK \<Rightarrow> rc_task_reward cfg)"

definition getTierConfig :: "ReferralConfig \<Rightarrow> ReferralRewardType \<Rightarrow> int \<Rightarrow> TierRewardConfig option" where
  "getTierConfig cfg t l = List.find (\<lambda>tc. tc_tier_level tc = l) (rt_tier_configs (getRewardConfig cfg t))"

definition getEnabledTiers :: "ReferralConfig \<Rightarrow> ReferralRewardType \<Rightarrow> TierRewardConfig list" where
  "getEnabledTiers cfg t = (if rt_enabled (getRewardConfig cfg t)
     then filter tc_enabled (rt_tier_configs (getRewardConfig cfg t)) else [])"

definition getMaxTierDepth :: "ReferralConfig \<Rightarrow> int" where
  "getMaxTierDepth cfg = rc_max_tier_depth cfg"

definition isRewardTypeEnabled :: "ReferralConfig \<Rightarrow> ReferralRewardType \<Rightarrow> bool" where
  "isRewardTypeEnabled cfg t = rt_enabled (getRewardConfig cfg t)"

definition isTierEnabled :: "ReferralConfig \<Rightarrow> ReferralRewardType \<Rightarrow> int \<Rightarrow> bool" where
  "isTierEnabled cfg t l = (case getTierConfig cfg t l of None \<Rightarrow> False | Some tc \<Rightarrow> tc_enabled tc)"

definition getDistributionCycle :: "ReferralConfig \<Rightarrow> ReferralRewardType \<Rightarrow> DistributionCycle" where
  "getDistributionCycle cfg t = rt_distribution_cycle (getRewardConfig cfg t)"

definition getInstallationRewardAmount :: rat where
  "getInstallationRewardAmount = 500"

section \<open>Tiers\<close>

definition set_tiers :: "ReferralRewardType \<Rightarrow> TierRewardConfig list \<Rightarrow> ReferralConfig \<Rightarrow> ReferralConfig" where
  "set_tiers t tcs cfg = (case t of
       INSTALLATION \<Rightarrow> cfg\<lparr>rc_installation_reward := (rc_installation_reward cfg)\<lparr>rt_tier_configs := tcs\<rparr>\<rparr>
     | UPTIME \<Rightarrow> cfg\<lparr>rc_uptime_reward := (rc_uptime_reward cfg)\<lparr>rt_tier_configs := tcs\<rparr>\<rparr>
     | TASK \<Rightarrow> cfg\<lparr>rc_task_reward := (rc_task_reward cfg)\<lparr>rt_tier_configs := tcs\<rparr>\<rparr>)"

text \<open>\<open>findIndex\<close>, then the assignment at the index, or \<open>push\<close> and \<open>sort\<close>.\<close>

fun replace_first :: "('a \<Rightarrow> bool) \<Rightarrow> ('a \<Rightarrow> 'a) \<Rightarrow> 'a list \<Rightarrow> 'a list option" where
  "replace_first p f [] = None"
| "replace_first p f (x # xs) = (if p x then Some (f x # xs) else map_option ((#) x) (replace_first p f xs))"

definition addTier :: "ReferralRewardType \<Rightarrow> TierRewardConfig \<Rightarrow> ReferralConfig \<Rightarrow> ReferralConfig" where
  "addTier t tc cfg =
     (let tcs = rt_tier_configs (getRewardConfig cfg t) in
      set_tiers t (case replace_first (\<lambda>x. tc_tier_level x = tc_tier_level tc) (\<lambda>_. tc) tcs of
          Some tcs' \<Rightarrow> tcs'
        | None \<Rightarrow> sort_asc tc_tier_level (tcs @ [tc])) cfg)"

definition removeTier :: "ReferralRewardType \<Rightarrow> int \<Rightarrow> ReferralConfig \<Rightarrow> ReferralConfig" where
  "removeTier t l cfg = set_tiers t (filter (\<lambda>tc. tc_tier_level tc \<noteq> l) (rt_tier_configs (getRewardConfig cfg t))) cfg"

definition setTierEnabled :: "ReferralRewardType \<Rightarrow> int \<Rightarrow> bool \<Rightarrow> ReferralConfig \<Rightarrow> ReferralConfig" where
  "setTierEnabled t l b cfg =
     (case replace_first (\<lambda>tc. tc_tier_level tc = l) (\<lambda>tc. tc\<lparr>tc_enabled := b\<rparr>) (rt_tier_configs (getRewardConfig cfg t)) of
        None \<Rightarrow> cfg
      | Some tcs \<Rightarrow> set_tiers t tcs cfg)"

section \<open>The tiers of a reward type stay in order\<close>

definition tiers_ok :: "ReferralConfig \<Rightarrow> bool" where
  "tiers_ok cfg \<longleftrightarrow> (\<forall>t. sorted_wrt (<) (map tc_tier_level (rt_tier_configs (getRewardConfig cfg t))))"

lemma get_set_tiers [simp]:
  "rt_tier_configs (getRewardConfig (set_tiers t tcs cfg) t') =
     (if t' = t then tcs else rt_tier_configs (getRewardConfig cfg t'))"
  by (cases t; cases t') (simp_all add: set_tiers_def getRewardConfig_def)

lemma replace_first_map:
  "replace_first p f xs = Some ys \<Longrightarrow> (\<And>x. p x \<Longrightarrow> g (f x) = g x) \<Longrightarrow> map g ys = map g xs"
  by (induction xs arbitrary: ys) (auto split: if_splits)

lemma replace_first_None: "replace_first p f xs = None \<longleftrightarrow> (\<forall>x \<in> set xs. \<not> p x)"
  by (induction xs) auto

lemma replace_first_same:
  "replace_first p (\<lambda>_. y) xs = Some ys \<Longrightarrow> (\<And>x. p x \<Longrightarrow> g y = g x) \<Longrightarrow> map g ys = map g xs"
  by (induction xs arbitrary: ys) (auto split: if_splits)

lemma tiers_ok_default: "tiers_ok buildDefaultConfig"
proof -
  have "sorted_wrt (<) (map tc_tier_level (rt_tier_configs (getRewardConfig buildDefaultConfig t)))" for t
    by (cases t) (simp_all add: buildDefaultConfig_def getRewardConfig_def)
  then show ?thesis by (simp add: tiers_ok_def)
qed

lemma tiers_ok_addTier:
  assumes "tiers_ok cfg"
  shows "tiers_ok (addTier t tc cfg)"
proof -
  let ?tcs = "rt_tier_configs (getRewardConfig cfg t)"
  let ?p = "\<lambda>x. tc_tier_level x = tc_tier_level tc"
  have srt: "sorted_wrt (<) (map tc_tier_level ?tcs)" using assms by (simp add: tiers_ok_def)
  have "sorted_wrt (<) (map tc_tier_level (case replace_first ?p (\<lambda>_. tc) ?tcs of
          Some tcs' \<Rightarrow> tcs' | None \<Rightarrow> sort_asc tc_tier_level (?tcs @ [tc])))"
  proof (cases "replace_first ?p (\<lambda>_. tc) ?tcs")
    case None
    then have "tc_tier_level tc \<notin> tc_tier_level ` set ?tcs" by (auto simp: replace_first_None)
    then have "distinct (map tc_tier_level (?tcs @ [tc]))"
      using srt by (simp add: strict_sorted_iff)
    moreover have "mset (map tc_tier_level (sort_asc tc_tier_level (?tcs @ [tc]))) = mset (map tc_tier_level (?tcs @ [tc]))"
      by (simp add: sort_asc_def)
    ultimately have "distinct (map tc_tier_level (sort_asc tc_tier_level (?tcs @ [tc])))"
      using mset_eq_imp_distinct_iff by blast
    then show ?thesis using None by (simp add: strict_sorted_iff sort_asc_def)
  next
    case (Some tcs')
    then show ?thesis using srt replace_first_same [OF Some, of tc_tier_level] by simp
  qed
  then show ?thesis using assms by (simp add: tiers_ok_def addTier_def Let_def)
qed

lemma tiers_ok_removeTier: "tiers_ok cfg \<Longrightarrow> tiers_ok (removeTier t l cfg)"
  by (simp add: tiers_ok_def removeTier_def sorted_wrt_map sorted_wrt_filter)

lemma tiers_ok_setTierEnabled:
  assumes "tiers_ok cfg"
  shows "tiers_ok (setTierEnabled t l b cfg)"
proof -
  let ?tcs = "rt_tier_configs (getRewardConfig cfg t)"
  have "map tc_tier_level tcs = map tc_tier_level ?tcs"
    if "replace_first (\<lambda>tc. tc_tier_level tc = l) (\<lambda>tc. tc\<lparr>tc_enabled := b\<rparr>) ?tcs = Some tcs" for tcs
    by (rule replace_first_map [OF that]) simp
  then show ?thesis using assms by (auto simp: tiers_ok_def setTierEnabled_def split: option.split)
qed

lemma find_replaced:
  "replace_first p f xs = Some ys \<Longrightarrow> (\<And>x. p x \<Longrightarrow> p (f x)) \<Longrightarrow>
     List.find p ys = map_option f (List.find p xs)"
  by (induction xs arbitrary: ys) (auto split: if_splits)

lemma isTierEnabled_set:
  assumes "getTierConfig cfg t l \<noteq> None"
  shows "isTierEnabled (setTierEnabled t l b cfg) t l = b"
proof -
  let ?p = "\<lambda>tc. tc_tier_level tc = l"
  let ?tcs = "rt_tier_configs (getRewardConfig cfg t)"
  obtain tc where tc: "List.find ?p ?tcs = Some tc" using assms by (auto simp: getTierConfig_def)
  then have "replace_first ?p (\<lambda>tc. tc\<lparr>tc_enabled := b\<rparr>) ?tcs \<noteq> None"
    unfolding replace_first_None by (auto dest: find_Some_set)
  then obtain ys where ys: "replace_first ?p (\<lambda>tc. tc\<lparr>tc_enabled := b\<rparr>) ?tcs = Some ys" by auto
  have "List.find ?p ys = Some (tc\<lparr>tc_enabled := b\<rparr>)"
    using find_replaced [OF ys] tc by simp
  then show ?thesis by (simp add: isTierEnabled_def getTierConfig_def setTierEnabled_def ys)
qed

end
