(* ===== verification/Blockchain.thy ===== *)
theory Blockchain
  imports DatabaseFacts
begin

text \<open>
  The class \<open>BlockchainService\<close> (\<open>src/services/blockchain_service.ts\<close>). The
  ledger canister and the agent in front of it are not part of the repository:
  a record \<open>'w ledger\<close> of what the service asks of them is an argument.
  \<open>num_text\<close> is the decimal text of a number that is not an integer.
\<close>

section \<open>Requests and results\<close>

datatype ChainRewardType = UPTIME_REWARD | JOB_REWARD | BONUS_REWARD

record BlockchainTransactionRequest =
  br_userPrincipalId :: string
  br_amount :: rat
  br_rewardType :: ChainRewardType
  br_uptime_minutes :: "rat option"
  br_tier_level :: "int option"
  br_date :: "string option"

record BlockchainTransactionResult =
  bx_success :: bool
  bx_transactionHash :: "string option"
  bx_error :: "string option"
  bx_blockchainNetwork :: "string option"
  bx_confirmationTime :: "int option"

record ICPTransactionRequest =
  ic_to :: string
  ic_amount :: int
  ic_memo :: string
  ic_rewardType :: ChainRewardType

text \<open>The variants of \<open>TransferError\<close> in \<open>getICRC1Interface\<close>.\<close>

datatype TransferError =
    GenericError string int | TemporarilyUnavailable | BadBurn int | Duplicate int
  | BadFee int | CreatedInFuture int | TooOld | InsufficientFunds int

record BlockchainService =
  bs_network :: string
  bs_isEnabled :: bool
  bs_controller :: "string option"

text \<open>\<open>Principal.fromText\<close>, and \<open>icrc1_transfer(owner, amount, memo)\<close> and the balance of an owner.\<close>

record 'w ledger =
  lg_fromText :: "string \<Rightarrow> string + string"
  lg_transfer :: "string \<Rightarrow> int \<Rightarrow> string \<Rightarrow> ('w, TransferError + nat) act"
  lg_balance_of :: "string \<Rightarrow> ('w, nat) act"

definition chain_failure :: "string \<Rightarrow> BlockchainTransactionResult" where
  "chain_failure e = \<lparr>bx_success = False, bx_transactionHash = None, bx_error = Some e,
     bx_blockchainNetwork = None, bx_confirmationTime = None\<rparr>"

definition chain_success :: "string \<Rightarrow> string \<Rightarrow> int \<Rightarrow> BlockchainTransactionResult" where
  "chain_success network h now = \<lparr>bx_success = True, bx_transactionHash = Some h, bx_error = None,
     bx_blockchainNetwork = Some network, bx_confirmationTime = Some now\<rparr>"

section \<open>Operations\<close>

fun transfer_message :: "TransferError \<Rightarrow> string" where
  "transfer_message (GenericError m _) = m"
| "transfer_message (InsufficientFunds b) = ''Insufficient funds. Balance: '' @ show_int b"
| "transfer_message (BadFee f) = ''Bad fee. Expected: '' @ show_int f"
| "transfer_message (BadBurn m) = ''Bad burn. Min amount: '' @ show_int m"
| "transfer_message (Duplicate d) = ''Duplicate transaction: '' @ show_int d"
| "transfer_message (CreatedInFuture t) = ''Created in future. Ledger time: '' @ show_int t"
| "transfer_message TemporarilyUnavailable = ''Temporarily unavailable''"
| "transfer_message TooOld = ''Transaction too old''"

definition mintSelaPoints ::
  "BlockchainService \<Rightarrow> 'w ledger \<Rightarrow> int \<Rightarrow> ICPTransactionRequest \<Rightarrow> ('w, BlockchainTransactionResult) act" where
  "mintSelaPoints svc L now req = catchA
     (case bs_controller svc of
        None \<Rightarrow> returnA (chain_failure (''Controller identity not available. '' @
          ''Please set CANISTER_CONTROLLER_PEM environment variable.''))
      | Some _ \<Rightarrow> (case lg_fromText L (ic_to req) of
          Inl e \<Rightarrow> throwA e
        | Inr owner \<Rightarrow> bindA (lg_transfer L owner (ic_amount req) (ic_memo req)) (\<lambda>result.
            returnA (case result of
              Inr block \<Rightarrow> chain_success ''icp'' (show_nat block) now
            | Inl err \<Rightarrow> chain_failure (''Sela Points minting failed: '' @ transfer_message err)))))
     (\<lambda>e. returnA (chain_failure (''Sela Points minting error: '' @ e)))"

text \<open>\<open>Math.floor(amount * 1e8)\<close>\<close>

definition to_e8 :: "rat \<Rightarrow> int" where
  "to_e8 amount = \<lfloor>amount * 100000000\<rfloor>"

definition reward_memo :: "(rat \<Rightarrow> string) \<Rightarrow> BlockchainTransactionRequest \<Rightarrow> string" where
  "reward_memo num_text req =
     (let rewardType = (case br_rewardType req of
            UPTIME_REWARD \<Rightarrow> ''U'' | JOB_REWARD \<Rightarrow> ''J'' | BONUS_REWARD \<Rightarrow> ''B'');
          minutes = min (or_num_opt (br_uptime_minutes req) 0) 999;
          tier = min (or_num_opt (br_tier_level req) 1) 9
      in rewardType @ show_num num_text minutes @ ''T'' @ show_int tier)"

definition sendRewardTransaction ::
  "BlockchainService \<Rightarrow> 'w ledger \<Rightarrow> (rat \<Rightarrow> string) \<Rightarrow> int \<Rightarrow> BlockchainTransactionRequest \<Rightarrow>
   ('w, BlockchainTransactionResult) act" where
  "sendRewardTransaction svc L num_text now req =
     (if \<not> bs_isEnabled svc
      then returnA (chain_success (bs_network svc) (''dummy_'' @ show_int now) now)
      else catchA
        (mintSelaPoints svc L now \<lparr>ic_to = br_userPrincipalId req, ic_amount = to_e8 (br_amount req),
           ic_memo = reward_memo num_text req, ic_rewardType = br_rewardType req\<rparr>)
        (\<lambda>e. returnA (chain_failure (''Blockchain transaction failed: '' @ e))))"

definition confirmTransaction :: "BlockchainService \<Rightarrow> string \<Rightarrow> int \<Rightarrow> BlockchainTransactionResult" where
  "confirmTransaction svc h now =
     (if \<not> bs_isEnabled svc then chain_success (bs_network svc) h now else chain_success ''icp'' h now)"

definition request_of_transaction :: "RewardTransaction \<Rightarrow> BlockchainTransactionRequest" where
  "request_of_transaction t = \<lparr>br_userPrincipalId = tx_user_principal_id t, br_amount = tx_amount t,
     br_rewardType = UPTIME_REWARD, br_uptime_minutes = Some (tx_uptime_minutes t),
     br_tier_level = Some (tx_tier_level t), br_date = Some (tx_date t)\<rparr>"

definition batchSendRewards ::
  "BlockchainService \<Rightarrow> 'w ledger \<Rightarrow> (rat \<Rightarrow> string) \<Rightarrow> int \<Rightarrow> RewardTransaction list \<Rightarrow>
   ('w, BlockchainTransactionResult list) act" where
  "batchSendRewards svc L num_text now txs =
     mapA (\<lambda>t. sendRewardTransaction svc L num_text now (request_of_transaction t)) txs"

definition getTransactionStatus :: "BlockchainService \<Rightarrow> string \<Rightarrow> TxStatus" where
  "getTransactionStatus svc h = TX_CONFIRMED"

definition getNetworkInfo :: "BlockchainService \<Rightarrow> string \<times> bool \<times> string \<times> string option" where
  "getNetworkInfo svc = (bs_network svc, bs_isEnabled svc,
     if bs_isEnabled svc then ''ACTIVE'' else ''DUMMY_MODE'', bs_controller svc)"

definition getSelaPointsBalance :: "'w ledger \<Rightarrow> string \<Rightarrow> ('w, nat) act" where
  "getSelaPointsBalance L uid = catchA
     (case lg_fromText L uid of Inl e \<Rightarrow> throwA e | Inr owner \<Rightarrow> lg_balance_of L owner)
     (\<lambda>e. returnA 0)"

section \<open>The contract the reward services rely on\<close>

text \<open>
  A payout always returns a result, and the ledger it writes to is not the
  Redis server.
\<close>

locale payout =
  fixes M :: "'w redis" and send :: "BlockchainTransactionRequest \<Rightarrow> ('w, BlockchainTransactionResult) act"
  assumes send_returns: "\<exists>r. fst (send req w) = Inr r"
    and send_strs: "strs M (snd (send req w)) = strs M w"
    and send_mems: "mems M (snd (send req w)) = mems M w"
begin

lemma send_result:
  obtains r w' where "send req w = (Inr r, w')" "strs M w' = strs M w" "mems M w' = mems M w"
proof (cases "send req w")
  case (Pair x w')
  then show ?thesis using send_returns [of req w] send_strs [of req w] send_mems [of req w] that by auto
qed

lemma bind_send: "\<exists>r w'. bindA (send req) f w = f r w' \<and> strs M w' = strs M w \<and> mems M w' = mems M w"
  by (rule send_result [of req w]) (auto simp: act_simps)

end

text \<open>A ledger that leaves Redis alone, whatever else it does: it may refuse or be unreachable.\<close>

definition separate_ledger :: "'w redis \<Rightarrow> 'w ledger \<Rightarrow> bool" where
  "separate_ledger M L \<longleftrightarrow> (\<forall>p a m w. strs M (snd (lg_transfer L p a m w)) = strs M w \<and>
     mems M (snd (lg_transfer L p a m w)) = mems M w)"

lemma mint_total: "total (mintSelaPoints svc L now req)"
  unfolding mintSelaPoints_def by (rule total_catch_return)

lemma mint_separate:
  assumes "separate_ledger M L"
  shows "strs M (snd (mintSelaPoints svc L now req w)) = strs M w \<and>
    mems M (snd (mintSelaPoints svc L now req w)) = mems M w"
proof (cases "bs_controller svc")
  case (Some c)
  show ?thesis
  proof (cases "lg_fromText L (ic_to req)")
    case (Inr owner)
    obtain x w' where x: "lg_transfer L owner (ic_amount req) (ic_memo req) w = (x, w')" by fastforce
    have "strs M w' = strs M w \<and> mems M w' = mems M w"
      using assms x unfolding separate_ledger_def by (metis snd_conv)
    then show ?thesis
      using Some Inr x by (simp add: mintSelaPoints_def act_simps split: sum.split)
  qed (use Some in \<open>simp add: mintSelaPoints_def act_simps\<close>)
qed (simp add: mintSelaPoints_def act_simps)

lemma payout_send:
  assumes "separate_ledger M L"
  shows "payout M (sendRewardTransaction svc L num_text now)"
proof
  fix req w
  let ?mint = "mintSelaPoints svc L now \<lparr>ic_to = br_userPrincipalId req, ic_amount = to_e8 (br_amount req),
           ic_memo = reward_memo num_text req, ic_rewardType = br_rewardType req\<rparr>"
  have "total ?mint" by (rule mint_total)
  then obtain r w' where m: "?mint w = (Inr r, w')" unfolding total_def by blast
  then have "strs M w' = strs M w" "mems M w' = mems M w"
    using mint_separate [OF assms] by (metis snd_conv)+
  then show "\<exists>r. fst (sendRewardTransaction svc L num_text now req w) = Inr r"
    "strs M (snd (sendRewardTransaction svc L num_text now req w)) = strs M w"
    "mems M (snd (sendRewardTransaction svc L num_text now req w)) = mems M w"
    using m by (auto simp: sendRewardTransaction_def act_simps)
qed

text \<open>The service as deployed without \<open>BLOCKCHAIN_ENABLED\<close>, in front of a ledger nobody reaches.\<close>

definition no_ledger :: "'w ledger" where
  "no_ledger = \<lparr>lg_fromText = Inr, lg_transfer = (\<lambda>_ _ _. throwA ''fetch failed''),
     lg_balance_of = (\<lambda>_. throwA ''fetch failed'')\<rparr>"

definition dummy_service :: BlockchainService where
  "dummy_service = \<lparr>bs_network = ''icp'', bs_isEnabled = False, bs_controller = None\<rparr>"

lemma no_ledger_separate: "separate_ledger M no_ledger"
  by (simp add: separate_ledger_def no_ledger_def act_simps)

interpretation minting: payout mem_redis "sendRewardTransaction svc no_ledger num_text now" for svc num_text now
  by (rule payout_send [OF no_ledger_separate])

section \<open>What is minted\<close>

lemma to_e8_bounds: "of_int (to_e8 x) \<le> x * 100000000" "x * 100000000 < of_int (to_e8 x) + 1"
  unfolding to_e8_def by linarith+

lemma show_nat_short: "n < 10 \<Longrightarrow> length (show_nat n) = 1" "n < 100 \<Longrightarrow> length (show_nat n) \<le> 2"
  "n < 1000 \<Longrightarrow> length (show_nat n) \<le> 3"
proof -
  show a: "n < 10 \<Longrightarrow> length (show_nat n) = 1" for n by (subst show_nat.simps) simp
  have a': "n < 10 \<Longrightarrow> length (show_nat n) \<le> 1" for n using a [of n] by simp
  show b: "n < 100 \<Longrightarrow> length (show_nat n) \<le> 2" for n
    using a' [of n] a' [of "n div 10"] by (subst show_nat.simps) simp
  show "n < 1000 \<Longrightarrow> length (show_nat n) \<le> 3"
    using a' [of n] b [of "n div 10"] by (subst show_nat.simps) simp
qed

lemma reward_memo_short:
  assumes "br_uptime_minutes req = map_option of_nat minutes" and "br_tier_level req = map_option int tier"
  shows "length (reward_memo num_text req) \<le> 6"
proof -
  define m where "m = min (case minutes of None \<Rightarrow> 0 | Some n \<Rightarrow> n) 999"
  have "min (or_num_opt (br_uptime_minutes req) 0) 999 = (of_int (int m) :: rat)"
    unfolding assms m_def by (cases minutes) (auto simp: or_num_opt_def or_num_def min_def)
  then have mins: "show_num num_text (min (or_num_opt (br_uptime_minutes req) 0) 999) = show_nat m"
    by (simp add: show_num_def show_int_def)
  define t where "t = min (case tier of None \<Rightarrow> 1 | Some n \<Rightarrow> if n = 0 then 1 else n) 9"
  have "min (or_num_opt (br_tier_level req) 1) 9 = int t"
    unfolding assms t_def by (cases tier) (auto simp: or_num_opt_def or_num_def min_def)
  then have tier: "show_int (min (or_num_opt (br_tier_level req) 1) 9) = show_nat t" by (simp add: show_int_def)
  have "length (show_nat m) \<le> 3" "length (show_nat t) = 1"
    using show_nat_short [of m] show_nat_short [of t] by (auto simp: m_def t_def)
  then show ?thesis
    by (simp add: reward_memo_def Let_def mins tier split: ChainRewardType.split)
qed

text \<open>an enabled service with an identity asks the ledger for exactly one transfer, of the points
  rounded down to the ledger's hundred-millionths, to the owner of the principal, with a memo of at
  most six characters when the minutes are whole; it answers success exactly when the ledger accepted,
  and never throws.\<close>

theorem minted_exactly:
  assumes "bs_isEnabled svc" and "bs_controller svc = Some ident" and "lg_fromText L (br_userPrincipalId req) = Inr owner"
    and "br_uptime_minutes req = map_option of_nat minutes" and "br_tier_level req = map_option int tier"
    and "sendRewardTransaction svc L num_text now req w = (r, w')"
  shows "\<exists>amount memo res result. lg_transfer L owner amount memo w = (res, w') \<and> r = Inr result \<and>
    (bx_success result \<longleftrightarrow> (\<exists>block. res = Inr (Inr block))) \<and>
    of_int amount \<le> br_amount req * 100000000 \<and> br_amount req * 100000000 < of_int amount + 1 \<and>
    length memo \<le> 6"
proof -
  let ?amount = "to_e8 (br_amount req)" and ?memo = "reward_memo num_text req"
  obtain res w1 where t: "lg_transfer L owner ?amount ?memo w = (res, w1)" by fastforce
  have "w1 = w'" "\<exists>result. r = Inr result \<and> (bx_success result \<longleftrightarrow> (\<exists>block. res = Inr (Inr block)))"
    using assms(1-3,6) t by (auto simp: sendRewardTransaction_def mintSelaPoints_def act_simps
      chain_success_def chain_failure_def split: sum.splits)
  then show ?thesis using t to_e8_bounds [of "br_amount req"] reward_memo_short [OF assms(4,5)] by blast
qed

definition active_service :: BlockchainService where
  "active_service = \<lparr>bs_network = ''icp'', bs_isEnabled = True, bs_controller = Some ''aaaaa''\<rparr>"

definition demo_request :: BlockchainTransactionRequest where
  "demo_request = \<lparr>br_userPrincipalId = ''u1'', br_amount = 3/2, br_rewardType = BONUS_REWARD,
    br_uptime_minutes = Some 60, br_tier_level = Some 1, br_date = None\<rparr>"

theorem minted_exactly_witness:
  "\<exists>result w'. sendRewardTransaction active_service no_ledger (\<lambda>_. []) 0 demo_request mem0 = (Inr result, w') \<and>
     \<not> bx_success result"
proof -
  obtain r w' where run: "sendRewardTransaction active_service no_ledger (\<lambda>_. []) 0 demo_request mem0 = (r, w')"
    by fastforce
  from minted_exactly [OF _ _ _ _ _ this, of "''aaaaa''" "''u1''" "Some 60" "Some 1"] show ?thesis
    using run by (auto simp: no_ledger_def active_service_def demo_request_def act_simps)
qed

end
