(* ===== verification/Referral.thy ===== *)
theory Referral
  imports ReferralConfig Blockchain
begin

text \<open>
  The class \<open>ReferralService\<close> (\<open>src/services/referral_service.ts\<close>): referral
  codes and the chains of referrers they build, the rewards for installation,
  uptime and tasks with their monthly cap, and the queries. The configuration
  manager is its configuration \<open>cfg\<close>, the blockchain service its method
  \<open>send\<close>; the clock is read once per method.
\<close>

section \<open>Queries the other methods use\<close>

definition db_failure :: "string \<Rightarrow> string \<Rightarrow> ('w, 'a EntityResult) act" where
  "db_failure what e = returnA (Failure DatabaseFault (what @ e))"

definition getReferralRelationship ::
  "'w redis \<Rightarrow> string \<Rightarrow> ('w, ReferralRelationship option EntityResult) act" where
  "getReferralRelationship M uid = catchA
     (bindA (GET M (RELATIONSHIP uid)) (\<lambda>data.
        case present data of
          None \<Rightarrow> returnA (Success None)
        | Some v \<Rightarrow> bindA (parse_as as_rel v) (\<lambda>r. returnA (Success (Some r)))))
     (db_failure ''Failed to get referral relationship: '')"

definition getL1Referrals :: "'w redis \<Rightarrow> string \<Rightarrow> ('w, string list EntityResult) act" where
  "getL1Referrals M uid = catchA
     (bindA (SMEMBERS M (USER_L1_REFERRALS uid)) (\<lambda>rs. returnA (Success rs)))
     (db_failure ''Failed to get L1 referrals: '')"

definition getL2Referrals :: "'w redis \<Rightarrow> string \<Rightarrow> ('w, string list EntityResult) act" where
  "getL2Referrals M uid = catchA
     (bindA (SMEMBERS M (USER_L2_REFERRALS uid)) (\<lambda>rs. returnA (Success rs)))
     (db_failure ''Failed to get L2 referrals: '')"

definition getReferralRewards :: "'w redis \<Rightarrow> string \<Rightarrow> ('w, ReferralReward list EntityResult) act" where
  "getReferralRewards M uid = catchA
     (bindA (SMEMBERS M (REWARDS_BY_USER uid)) (\<lambda>rewardIds.
        if rewardIds = [] then returnA (Success [])
        else bindA (foldA (\<lambda>rewards rewardId.
               bindA (GET M (REFERRAL_REWARD rewardId)) (\<lambda>rewardData.
                 case present rewardData of
                   None \<Rightarrow> returnA rewards
                 | Some v \<Rightarrow> bindA (parse_as as_reward v) (\<lambda>r. returnA (rewards @ [r])))) [] rewardIds)
          (\<lambda>rewards. returnA (Success (sort_desc rw_timestamp rewards)))))
     (db_failure ''Failed to get referral rewards: '')"

section \<open>Codes and registration\<close>

record CodeValidation =
  cv_valid :: bool
  cv_referrer_principal_id :: "string option"
  cv_message :: string

definition validateReferralCode :: "'w redis \<Rightarrow> string \<Rightarrow> ('w, CodeValidation EntityResult) act" where
  "validateReferralCode M code = catchA
     (bindA (GET M (CODE_LOOKUP code)) (\<lambda>data.
        case present data of
          None \<Rightarrow> returnA (Success \<lparr>cv_valid = False, cv_referrer_principal_id = None,
                    cv_message = ''Invalid referral code''\<rparr>)
        | Some v \<Rightarrow> bindA (parse_as as_str v) (\<lambda>referrer.
            bindA (getClient M referrer) (\<lambda>referrerResult.
            if succeeded referrerResult
            then returnA (Success \<lparr>cv_valid = True, cv_referrer_principal_id = Some referrer,
                   cv_message = ''Valid referral code''\<rparr>)
            else returnA (Success \<lparr>cv_valid = False, cv_referrer_principal_id = None,
                   cv_message = ''Referrer account not found''\<rparr>)))))
     (db_failure ''Failed to validate referral code: '')"

text \<open>The loop over the tiers 2 to \<open>maxDepth\<close>, with the number of turns left.\<close>

primrec build_chain :: "nat \<Rightarrow> 'w redis \<Rightarrow> string \<Rightarrow> string list \<Rightarrow> ('w, string list) act" where
  "build_chain 0 M current chain = returnA chain"
| "build_chain (Suc n) M current chain =
     bindA (getReferralRelationship M current) (\<lambda>r. case r of
         Success (Some rel) \<Rightarrow> (case r_referrer_chain rel of
             next # _ \<Rightarrow> if truthy next then build_chain n M next (chain @ [next]) else returnA chain
           | [] \<Rightarrow> returnA chain)
       | _ \<Rightarrow> returnA chain)"

definition new_relationship :: "string \<Rightarrow> string list \<Rightarrow> string \<Rightarrow> int \<Rightarrow> ReferralRelationship" where
  "new_relationship uid chain code now = \<lparr>
     r_user_principal_id = uid, r_referrer_chain = chain, r_referral_code_used = code,
     r_signup_timestamp = now,
     r_referrer_l1_principal_id = (if length chain > 0 then Some (chain ! 0) else None),
     r_referrer_l2_principal_id = (if length chain > 1 then Some (chain ! 1) else None),
     r_first_24h_status = H24_PENDING, r_first_24h_started_at = now, r_first_24h_completed_at = None,
     r_installation_reward_claimed = False, r_created_at = now, r_updated_at = now\<rparr>"

definition tier_index :: "nat \<Rightarrow> string \<Rightarrow> string" where
  "tier_index tierLevel uid = (if tierLevel = 1 then USER_L1_REFERRALS uid
     else if tierLevel = 2 then USER_L2_REFERRALS uid
     else ''referral:index:user:l'' @ show_nat tierLevel @ '':'' @ uid)"

definition index_chain :: "'w redis \<Rightarrow> string \<Rightarrow> string list \<Rightarrow> ('w, unit) act" where
  "index_chain M uid chain =
     foldA (\<lambda>_ (i, referrer). SADD M (tier_index (i + 1) referrer) uid) () (enumerate 0 chain)"

definition registerWithReferralCode ::
  "'w redis \<Rightarrow> ReferralConfig \<Rightarrow> string \<Rightarrow> string \<Rightarrow> int \<Rightarrow> ('w, ReferralRelationship EntityResult) act" where
  "registerWithReferralCode M cfg uid code now = catchA
     (bindA (validateReferralCode M code) (\<lambda>validationResult.
        case validationResult of
          Failure _ _ \<Rightarrow> returnA (Failure InvalidInput ''Invalid referral code'')
        | Success v \<Rightarrow> (case (cv_valid v, cv_referrer_principal_id v) of
            (True, Some referrerL1) \<Rightarrow>
            bindA (getReferralRelationship M uid) (\<lambda>existing.
              case existing of
                Success (Some _) \<Rightarrow>
                  returnA (Failure AlreadyExists ''User already registered with a referral code'')
              | _ \<Rightarrow>
                bindA (build_chain (nat (getMaxTierDepth cfg - 1)) M referrerL1 [referrerL1]) (\<lambda>chain.
                let relationship = new_relationship uid chain code now in
                thenA (SET M (RELATIONSHIP uid) (VRel relationship))
               (thenA (index_chain M uid chain)
               (thenA (SADD M PENDING_24H uid)
               (bindA (getClient M referrerL1) (\<lambda>referrerClient.
                thenA (case referrerClient of
                         Success c \<Rightarrow> bindA (updateClient M referrerL1 [TotalReferral (c_totalReferral c + 1)])
                                       (\<lambda>_. returnA ())
                       | Failure _ _ \<Rightarrow> returnA ())
                  (returnA (Success relationship))))))))
          | _ \<Rightarrow> returnA (Failure InvalidInput (cv_message v)))))
     (db_failure ''Failed to register with referral code: '')"

definition createReferralCodeLookup :: "'w redis \<Rightarrow> string \<Rightarrow> string \<Rightarrow> ('w, unit EntityResult) act" where
  "createReferralCodeLookup M uid code = catchA
     (thenA (SET M (CODE_LOOKUP code) (VStr uid)) (returnA (Success ())))
     (db_failure ''Failed to create referral code lookup: '')"

section \<open>Paying a reward\<close>

type_synonym 'w payer = "BlockchainTransactionRequest \<Rightarrow> ('w, BlockchainTransactionResult) act"

text \<open>The reward and its two indexes.\<close>

definition store_reward :: "'w redis \<Rightarrow> ReferralReward \<Rightarrow> ('w, unit) act" where
  "store_reward M rw =
     thenA (SET M (REFERRAL_REWARD (rw_reward_id rw)) (VReward rw))
    (thenA (SADD M (REWARDS_BY_USER (rw_referrer_principal_id rw)) (rw_reward_id rw))
           (SADD M (REWARDS_BY_REFEREE (rw_referee_principal_id rw)) (rw_reward_id rw)))"

text \<open>The points on the referrer's balance, from the balance that was read.\<close>

definition credit ::
  "'w redis \<Rightarrow> string \<Rightarrow> (ClientStruct \<Rightarrow> client_field list) \<Rightarrow> ('w, unit) act" where
  "credit M uid updates = bindA (getClient M uid) (\<lambda>r. case r of
       Failure _ _ \<Rightarrow> returnA ()
     | Success c \<Rightarrow> bindA (updateClient M uid (updates c)) (\<lambda>_. returnA ()))"

definition points :: "rat \<Rightarrow> ClientStruct \<Rightarrow> client_field list" where
  "points amount c = [Balance (c_balance c + amount), TodaysEarnings (c_todaysEarnings c + amount)]"

definition uptime_points :: "rat \<Rightarrow> ClientStruct \<Rightarrow> client_field list" where
  "uptime_points amount c = points amount c @ [UptimeReward (c_uptimeReward c + amount)]"

definition bonus_request :: "string \<Rightarrow> rat \<Rightarrow> int \<Rightarrow> rat option \<Rightarrow> BlockchainTransactionRequest" where
  "bonus_request uid amount tier minutes = \<lparr>br_userPrincipalId = uid, br_amount = amount,
     br_rewardType = BONUS_REWARD, br_uptime_minutes = minutes, br_tier_level = Some tier, br_date = None\<rparr>"

definition new_reward ::
  "string \<Rightarrow> string \<Rightarrow> string \<Rightarrow> ReferralRewardType \<Rightarrow> int \<Rightarrow> rat \<Rightarrow> rat \<Rightarrow> rat \<Rightarrow> int \<Rightarrow> ReferralReward" where
  "new_reward rid referrer referee t tier base pct amount now = \<lparr>
     rw_reward_id = rid, rw_referrer_principal_id = referrer, rw_referee_principal_id = referee,
     rw_reward_type = t, rw_tier = tier, rw_base_amount = base, rw_reward_percentage = pct,
     rw_reward_amount = amount, rw_timestamp = now, rw_distribution_date = iso_date now,
     rw_distributed_at = Some now, rw_status = RW_DISTRIBUTED, rw_job_id = None,
     rw_weekly_uptime_minutes = None, rw_created_at = now, rw_updated_at = now\<rparr>"

text \<open>\<open>Math.round(((earnedPoints * percentage) / 100) * 10000) / 10000\<close>\<close>

definition percentage_of :: "rat \<Rightarrow> rat \<Rightarrow> rat" where
  "percentage_of earnedPoints percentage = round_dec 10000 (earnedPoints * percentage / 100)"

definition distributeInstallationReward ::
  "'w redis \<Rightarrow> 'w payer \<Rightarrow> string \<Rightarrow> string \<Rightarrow> int \<Rightarrow> ('w, ReferralReward EntityResult) act" where
  "distributeInstallationReward M send referrer referee now =
     (let rewardAmount = getInstallationRewardAmount;
          rid = ''reward_install_'' @ referrer @ ''_'' @ referee @ ''_'' @ show_int now;
          reward = new_reward rid referrer referee INSTALLATION 1 rewardAmount 100 rewardAmount now
      in catchA
        (thenA (store_reward M reward)
        (thenA (credit M referrer (points rewardAmount))
        (bindA (send (bonus_request referrer rewardAmount 1 None)) (\<lambda>blockchainResult.
           returnA (Success reward)))))
        (db_failure ''Failed to distribute installation reward: ''))"

definition distributeTaskReward ::
  "'w redis \<Rightarrow> 'w payer \<Rightarrow> string \<Rightarrow> string \<Rightarrow> rat \<Rightarrow> string \<Rightarrow> int \<Rightarrow> rat \<Rightarrow> int \<Rightarrow>
   ('w, ReferralReward EntityResult) act" where
  "distributeTaskReward M send referrer referee earned jobId tier percentage now =
     (let rewardAmount = percentage_of earned percentage;
          rid = ''reward_task_'' @ referrer @ ''_'' @ referee @ ''_'' @ show_int tier @ ''_'' @ jobId @ ''_'' @ show_int now;
          reward = (new_reward rid referrer referee TASK tier earned percentage rewardAmount now)
                     \<lparr>rw_job_id := Some jobId\<rparr>
      in catchA
        (thenA (store_reward M reward)
        (thenA (credit M referrer (points rewardAmount))
        (bindA (send (bonus_request referrer rewardAmount tier None)) (\<lambda>blockchainResult.
           returnA (Success reward)))))
        (db_failure ''Failed to distribute task reward: ''))"

section \<open>The monthly cap\<close>

record CapStatus =
  ca_cap_reached :: bool
  ca_earned :: rat
  ca_cap :: rat
  ca_remaining :: rat

text \<open>\<open>uptimeConfig?.tier_configs[0]?.monthly_cap_amount || 10000\<close>\<close>

definition default_cap :: "ReferralConfig \<Rightarrow> rat" where
  "default_cap cfg = (case rt_tier_configs (getRewardConfig cfg UPTIME) of
       [] \<Rightarrow> 10000
     | tc # _ \<Rightarrow> or_num_opt (tc_monthly_cap_amount tc) 10000)"

definition checkMonthlyCap ::
  "'w redis \<Rightarrow> ReferralConfig \<Rightarrow> string \<Rightarrow> string \<Rightarrow> ('w, CapStatus EntityResult) act" where
  "checkMonthlyCap M cfg uid month = catchA
     (bindA (GET M (MONTHLY_CAP uid month)) (\<lambda>capData.
        case present capData of
          None \<Rightarrow> returnA (Success \<lparr>ca_cap_reached = False, ca_earned = 0, ca_cap = default_cap cfg,
                    ca_remaining = default_cap cfg\<rparr>)
        | Some v \<Rightarrow> bindA (parse_as as_cap v) (\<lambda>cap.
            returnA (Success \<lparr>ca_cap_reached = m_cap_reached cap, ca_earned = m_uptime_rewards_earned cap,
              ca_cap = m_uptime_rewards_cap cap,
              ca_remaining = max 0 (m_uptime_rewards_cap cap - m_uptime_rewards_earned cap)\<rparr>))))
     (db_failure ''Failed to check monthly cap: '')"

definition first_cap :: "ReferralConfig \<Rightarrow> string \<Rightarrow> string \<Rightarrow> rat \<Rightarrow> int \<Rightarrow> int \<Rightarrow> ReferralMonthlyCap" where
  "first_cap cfg uid month amount tier now = \<lparr>
     m_referrer_principal_id = uid, m_month = month, m_uptime_rewards_earned = amount,
     m_uptime_rewards_cap = default_cap cfg, m_cap_reached = False, m_cap_reached_at = None,
     m_total_l1_uptime_rewards = (if tier = 1 then amount else 0),
     m_total_l2_uptime_rewards = (if tier = 2 then amount else 0),
     m_created_at = now, m_updated_at = now\<rparr>"

definition raise_cap :: "ReferralMonthlyCap \<Rightarrow> rat \<Rightarrow> int \<Rightarrow> int \<Rightarrow> ReferralMonthlyCap" where
  "raise_cap cap amount tier now =
     (let cap1 = cap\<lparr>m_uptime_rewards_earned := m_uptime_rewards_earned cap + amount, m_updated_at := now\<rparr>
      in if tier = 1
         then cap1\<lparr>m_total_l1_uptime_rewards := m_total_l1_uptime_rewards cap + amount\<rparr>
         else cap1\<lparr>m_total_l2_uptime_rewards := m_total_l2_uptime_rewards cap + amount\<rparr>)"

definition mark_reached :: "int \<Rightarrow> ReferralMonthlyCap \<Rightarrow> ReferralMonthlyCap" where
  "mark_reached now cap =
     (if m_uptime_rewards_cap cap \<le> m_uptime_rewards_earned cap \<and> \<not> m_cap_reached cap
      then cap\<lparr>m_cap_reached := True, m_cap_reached_at := Some now\<rparr> else cap)"

definition updateMonthlyCap ::
  "'w redis \<Rightarrow> ReferralConfig \<Rightarrow> string \<Rightarrow> string \<Rightarrow> rat \<Rightarrow> int \<Rightarrow> int \<Rightarrow> ('w, unit EntityResult) act" where
  "updateMonthlyCap M cfg uid month amount tier now = catchA
     (bindA (GET M (MONTHLY_CAP uid month)) (\<lambda>capData.
      bindA (case present capData of
               None \<Rightarrow> returnA (first_cap cfg uid month amount tier now)
             | Some v \<Rightarrow> bindA (parse_as as_cap v) (\<lambda>cap. returnA (raise_cap cap amount tier now))) (\<lambda>cap.
      thenA (SET M (MONTHLY_CAP uid month) (VCap (mark_reached now cap)))
            (returnA (Success ())))))
     (db_failure ''Failed to update monthly cap: '')"

text \<open>What is left of a reward under the cap, and whether it is paid.\<close>

definition capped :: "CapStatus EntityResult \<Rightarrow> rat \<Rightarrow> RewardStatus \<times> rat" where
  "capped capResult rewardAmount = (case capResult of
       Success c \<Rightarrow> if ca_cap_reached c then (RW_CAPPED, 0)
                    else if ca_remaining c < rewardAmount then (RW_DISTRIBUTED, ca_remaining c)
                    else (RW_DISTRIBUTED, rewardAmount)
     | Failure _ _ \<Rightarrow> (RW_DISTRIBUTED, rewardAmount))"

definition month_of :: "int \<Rightarrow> string" where
  "month_of now = take 7 (iso_date now)"

definition distributeUptimeReward ::
  "'w redis \<Rightarrow> ReferralConfig \<Rightarrow> 'w payer \<Rightarrow> string \<Rightarrow> string \<Rightarrow> rat \<Rightarrow> rat \<Rightarrow> int \<Rightarrow> rat \<Rightarrow> int \<Rightarrow>
   ('w, ReferralReward EntityResult) act" where
  "distributeUptimeReward M cfg send referrer referee earned weeklyMinutes tier percentage now = catchA
     (bindA (checkMonthlyCap M cfg referrer (month_of now)) (\<lambda>capResult.
        let (status, rewardAmount) = capped capResult (percentage_of earned percentage);
            rid = ''reward_uptime_'' @ referrer @ ''_'' @ referee @ ''_'' @ show_int tier @ ''_'' @ show_int now;
            reward = (new_reward rid referrer referee UPTIME tier earned percentage rewardAmount now)
              \<lparr>rw_status := status, rw_distributed_at := (if status = RW_DISTRIBUTED then Some now else None),
               rw_weekly_uptime_minutes := Some weeklyMinutes\<rparr>
        in thenA (store_reward M reward)
          (thenA (if status = RW_DISTRIBUTED \<and> rewardAmount > 0
                  then bindA (updateMonthlyCap M cfg referrer (month_of now) rewardAmount tier now) (\<lambda>_.
                       thenA (credit M referrer (uptime_points rewardAmount))
                      (bindA (send (bonus_request referrer rewardAmount tier (Some weeklyMinutes))) (\<lambda>_.
                       returnA ())))
                  else returnA ())
          (returnA (Success reward)))))
     (db_failure ''Failed to distribute uptime reward: '')"

section \<open>Rewards along the chain\<close>

record TierRewards =
  tr_rewards :: "(int, ReferralReward) jsmap"
  tr_total_distributed :: rat

definition no_rewards :: TierRewards where
  "no_rewards = \<lparr>tr_rewards = [], tr_total_distributed = 0\<rparr>"

text \<open>\<open>referrer_chain[tier_level - 1]\<close>, if it is there and not empty.\<close>

definition referrer_at :: "string list \<Rightarrow> int \<Rightarrow> string option" where
  "referrer_at chain tier =
     (if 1 \<le> tier \<and> tier \<le> int (length chain) \<and> truthy (chain ! nat (tier - 1))
      then Some (chain ! nat (tier - 1)) else None)"

definition reward_tier ::
  "(string \<Rightarrow> TierRewardConfig \<Rightarrow> ('w, ReferralReward EntityResult) act) \<Rightarrow> string list \<Rightarrow>
   TierRewards \<Rightarrow> TierRewardConfig \<Rightarrow> ('w, TierRewards) act" where
  "reward_tier distribute chain acc tc = (case referrer_at chain (tc_tier_level tc) of
       None \<Rightarrow> returnA acc
     | Some referrer \<Rightarrow> bindA (distribute referrer tc) (\<lambda>tierReward. returnA (case tierReward of
           Failure _ _ \<Rightarrow> acc
         | Success r \<Rightarrow> \<lparr>tr_rewards = map_set (tc_tier_level tc) r (tr_rewards acc),
                          tr_total_distributed = tr_total_distributed acc + rw_reward_amount r\<rparr>)))"

definition calculateTaskReward ::
  "'w redis \<Rightarrow> ReferralConfig \<Rightarrow> 'w payer \<Rightarrow> string \<Rightarrow> rat \<Rightarrow> string \<Rightarrow> int \<Rightarrow> ('w, TierRewards EntityResult) act" where
  "calculateTaskReward M cfg send referee earned jobId now = catchA
     (bindA (getReferralRelationship M referee) (\<lambda>relationshipResult.
        case relationshipResult of
          Success (Some relationship) \<Rightarrow>
            bindA (foldA (reward_tier (\<lambda>referrer tc. distributeTaskReward M send referrer referee earned jobId
                     (tc_tier_level tc) (tc_reward_percentage tc) now) (r_referrer_chain relationship))
                   no_rewards (getEnabledTiers cfg TASK))
              (\<lambda>acc. returnA (Success acc))
        | _ \<Rightarrow> returnA (Success no_rewards)))
     (db_failure ''Failed to calculate task rewards: '')"

definition calculateUptimeReward ::
  "'w redis \<Rightarrow> ReferralConfig \<Rightarrow> 'w payer \<Rightarrow> string \<Rightarrow> rat \<Rightarrow> rat \<Rightarrow> int \<Rightarrow> ('w, TierRewards EntityResult) act" where
  "calculateUptimeReward M cfg send referee earned weeklyMinutes now = catchA
     (let requiredWeeklyHours = or_num_opt (Option.bind (rt_requirements (getRewardConfig cfg UPTIME))
            rq_min_uptime_hours_weekly) 100
      in if weeklyMinutes < requiredWeeklyHours * 60 then returnA (Success no_rewards)
         else bindA (getReferralRelationship M referee) (\<lambda>relationshipResult.
        case relationshipResult of
          Success (Some relationship) \<Rightarrow>
            bindA (foldA (reward_tier (\<lambda>referrer tc. distributeUptimeReward M cfg send referrer referee earned
                     weeklyMinutes (tc_tier_level tc) (tc_reward_percentage tc) now) (r_referrer_chain relationship))
                   no_rewards (getEnabledTiers cfg UPTIME))
              (\<lambda>acc. returnA (Success acc))
        | _ \<Rightarrow> returnA (Success no_rewards)))
     (db_failure ''Failed to calculate uptime rewards: '')"

section \<open>The 24-hour installation\<close>

record Completion24h =
  h_completed :: bool
  h_reward_distributed :: bool
  h_reward_amount :: "rat option"

definition completion24h :: "bool \<Rightarrow> bool \<Rightarrow> Completion24h" where
  "completion24h c d = \<lparr>h_completed = c, h_reward_distributed = d, h_reward_amount = None\<rparr>"

definition totalUptimeHours :: "ClientStruct \<Rightarrow> rat" where
  "totalUptimeHours c = of_int (c_totalUptime c) / (1000 * 60 * 60)"

definition required_hours :: "ReferralConfig \<Rightarrow> rat" where
  "required_hours cfg = or_num_opt (Option.bind (rt_requirements (getRewardConfig cfg INSTALLATION))
     rq_required_uptime_hours) 24"

definition check24HourCompletion ::
  "'w redis \<Rightarrow> ReferralConfig \<Rightarrow> 'w payer \<Rightarrow> string \<Rightarrow> int \<Rightarrow> ('w, Completion24h EntityResult) act" where
  "check24HourCompletion M cfg send uid now = catchA
     (bindA (getReferralRelationship M uid) (\<lambda>relationshipResult.
        case relationshipResult of
          Success (Some relationship) \<Rightarrow>
            if r_first_24h_status relationship = H24_COMPLETED
            then returnA (Success (completion24h True (r_installation_reward_claimed relationship)))
            else bindA (getClient M uid) (\<lambda>clientResult.
              case clientResult of
                Failure _ _ \<Rightarrow> returnA (Failure NotFound ''Client not found'')
              | Success client \<Rightarrow>
                  if totalUptimeHours client < required_hours cfg
                  then returnA (Success (completion24h False False))
                  else (let rel1 = relationship\<lparr>r_first_24h_status := H24_COMPLETED,
                              r_first_24h_completed_at := Some now, r_updated_at := now\<rparr>
                        in
                    thenA (SET M (RELATIONSHIP uid) (VRel rel1))
                   (thenA (SREM M PENDING_24H uid)
                   (case r_referrer_l1_principal_id rel1 of
                      Some referrer \<Rightarrow>
                        if truthy referrer \<and> \<not> r_installation_reward_claimed rel1
                        then bindA (distributeInstallationReward M send referrer uid now) (\<lambda>rewardResult.
                             if succeeded rewardResult
                             then thenA (SET M (RELATIONSHIP uid) (VRel (rel1\<lparr>r_installation_reward_claimed := True\<rparr>)))
                                  (returnA (Success \<lparr>h_completed = True, h_reward_distributed = True,
                                     h_reward_amount = Some getInstallationRewardAmount\<rparr>))
                             else returnA (Success (completion24h True False)))
                        else returnA (Success (completion24h True False))
                    | None \<Rightarrow> returnA (Success (completion24h True False))))))
        | _ \<Rightarrow> returnA (Success (completion24h False False))))
     (db_failure ''Failed to check 24h completion: '')"

section \<open>Statistics\<close>

record ReferralCounts =
  rn_active :: int
  rn_pending :: int
  rn_qualified :: int

definition count_referee :: "'w redis \<Rightarrow> ReferralCounts \<Rightarrow> string \<Rightarrow> ('w, ReferralCounts) act" where
  "count_referee M n referee =
     bindA (getClient M referee) (\<lambda>clientResult.
     bindA (getReferralRelationship M referee) (\<lambda>relationshipResult.
       let n1 = (case clientResult of
                   Success c \<Rightarrow> if c_clientStatus c = client_status ACTIVE \<and> c_wsDisconnect c = 0
                     then n\<lparr>rn_active := rn_active n + 1\<rparr> else n
                 | Failure _ _ \<Rightarrow> n)
       in returnA (case relationshipResult of
            Success (Some rel) \<Rightarrow> (case r_first_24h_status rel of
                H24_PENDING \<Rightarrow> n1\<lparr>rn_pending := rn_pending n1 + 1\<rparr>
              | H24_COMPLETED \<Rightarrow> n1\<lparr>rn_qualified := rn_qualified n1 + 1\<rparr>
              | H24_FAILED \<Rightarrow> n1)
          | _ \<Rightarrow> n1)))"

definition count_referees :: "'w redis \<Rightarrow> string list \<Rightarrow> ('w, ReferralCounts) act" where
  "count_referees M rs = foldA (count_referee M) \<lparr>rn_active = 0, rn_pending = 0, rn_qualified = 0\<rparr> rs"

record ReferralStats =
  st_user_principal_id :: string
  st_l1_total_referrals :: int
  st_l1_active_referrals :: int
  st_l1_pending_24h :: int
  st_l2_total_referrals :: int
  st_l2_active_referrals :: int
  st_total_earned :: rat
  st_installation_earnings :: rat
  st_uptime_earnings :: rat
  st_task_earnings :: rat
  st_l1_total_earned :: rat
  st_l2_total_earned :: rat
  st_current_month :: string
  st_current_month_uptime_earned :: rat
  st_current_month_cap_remaining :: rat
  st_total_referral_rewards :: rat
  st_this_week_referral_rewards :: rat
  st_qualified_referrals :: int
  st_pending_referrals :: int
  st_last_updated :: int

text \<open>The sum over the rewards that pass a test, as each accumulator of the loop computes it.\<close>

definition earned_by :: "(ReferralReward \<Rightarrow> bool) \<Rightarrow> ReferralReward list \<Rightarrow> rat" where
  "earned_by p rs = sum_list (map rw_reward_amount (filter p rs))"

definition referral_stats ::
  "string \<Rightarrow> string list \<Rightarrow> string list \<Rightarrow> ReferralCounts \<Rightarrow> ReferralCounts \<Rightarrow> ReferralReward list \<Rightarrow>
   CapStatus EntityResult \<Rightarrow> int \<Rightarrow> int \<Rightarrow> ReferralStats" where
  "referral_stats uid l1 l2 n1 n2 all_rewards capResult startOfWeek now =
     (let rewards = filter (\<lambda>r. rw_status r = RW_DISTRIBUTED) all_rewards;
          installation = earned_by (\<lambda>r. rw_reward_type r = INSTALLATION) rewards;
          uptime = earned_by (\<lambda>r. rw_reward_type r = UPTIME) rewards;
          task = earned_by (\<lambda>r. rw_reward_type r = TASK) rewards;
          totalEarned = installation + uptime + task
      in \<lparr>st_user_principal_id = uid,
          st_l1_total_referrals = int (length l1), st_l1_active_referrals = rn_active n1,
          st_l1_pending_24h = rn_pending n1,
          st_l2_total_referrals = int (length l2), st_l2_active_referrals = rn_active n2,
          st_total_earned = totalEarned, st_installation_earnings = installation,
          st_uptime_earnings = uptime, st_task_earnings = task,
          st_l1_total_earned = earned_by (\<lambda>r. rw_tier r = 1) rewards,
          st_l2_total_earned = earned_by (\<lambda>r. rw_tier r \<noteq> 1) rewards,
          st_current_month = month_of now,
          st_current_month_uptime_earned = (case capResult of Success c \<Rightarrow> ca_earned c | Failure _ _ \<Rightarrow> 0),
          st_current_month_cap_remaining = (case capResult of Success c \<Rightarrow> ca_remaining c | Failure _ _ \<Rightarrow> 0),
          st_total_referral_rewards = totalEarned,
          st_this_week_referral_rewards = earned_by (\<lambda>r. startOfWeek \<le> rw_timestamp r) rewards,
          st_qualified_referrals = rn_qualified n1 + rn_qualified n2,
          st_pending_referrals = rn_pending n1 + rn_pending n2,
          st_last_updated = now\<rparr>)"

text \<open>\<open>startOfWeek\<close> is the Monday of the machine's local calendar.\<close>

definition getReferralStats ::
  "'w redis \<Rightarrow> ReferralConfig \<Rightarrow> string \<Rightarrow> int \<Rightarrow> int \<Rightarrow> ('w, ReferralStats EntityResult) act" where
  "getReferralStats M cfg uid startOfWeek now = catchA
     (bindA (getL1Referrals M uid) (\<lambda>l1Result.
      bindA (getL2Referrals M uid) (\<lambda>l2Result.
        case (l1Result, l2Result) of
          (Success l1, Success l2) \<Rightarrow>
            bindA (count_referees M l1) (\<lambda>n1.
            bindA (count_referees M l2) (\<lambda>n2.
            bindA (getReferralRewards M uid) (\<lambda>rewardsResult.
              case rewardsResult of
                Failure _ _ \<Rightarrow> returnA (Failure DatabaseFault ''Failed to get rewards'')
              | Success rewards \<Rightarrow>
                  bindA (checkMonthlyCap M cfg uid (month_of now)) (\<lambda>capResult.
                  returnA (Success (referral_stats uid l1 l2 n1 n2 rewards capResult startOfWeek now))))))
        | _ \<Rightarrow> returnA (Failure DatabaseFault ''Failed to get referrals''))))
     (db_failure ''Failed to get referral stats: '')"

section \<open>The dashboard\<close>

record RecentReferral =
  rr_user_principal_id :: string
  rr_tier :: int
  rr_signup_date :: int
  rr_status :: string
  rr_is_online :: bool
  rr_total_earned_for_me :: rat

record Dashboard =
  db_my_referral_code :: string
  db_stats :: ReferralStats
  db_tier1_breakdown :: "rat \<times> rat \<times> rat"
  db_tier2_breakdown :: "rat \<times> rat"
  db_cap :: rat
  db_percentage_used :: int
  db_recent_referrals :: "RecentReferral list"
  db_recent_rewards :: "ReferralReward list"

definition earned_for ::
  "'w redis \<Rightarrow> string \<Rightarrow> string list \<Rightarrow> ('w, rat) act" where
  "earned_for M uid rewardIds = foldA (\<lambda>sum rewardId.
     bindA (GET M (REFERRAL_REWARD rewardId)) (\<lambda>rewardData.
       case present rewardData of
         None \<Rightarrow> returnA sum
       | Some v \<Rightarrow> bindA (parse_as as_reward v) (\<lambda>reward.
           returnA (if rw_referrer_principal_id reward = uid \<and> rw_status reward = RW_DISTRIBUTED
                    then sum + rw_reward_amount reward else sum)))) 0 rewardIds"

definition recent_status :: "Installation24hStatus \<Rightarrow> string" where
  "recent_status s = (case s of H24_COMPLETED \<Rightarrow> ''ACTIVE'' | H24_PENDING \<Rightarrow> ''PENDING_24H''
     | H24_FAILED \<Rightarrow> ''INACTIVE'')"

definition recent_referral ::
  "'w redis \<Rightarrow> string \<Rightarrow> RecentReferral list \<Rightarrow> string \<Rightarrow> ('w, RecentReferral list) act" where
  "recent_referral M uid acc referee =
     bindA (getClient M referee) (\<lambda>refereeClient.
     bindA (getReferralRelationship M referee) (\<lambda>relationship.
       case (refereeClient, relationship) of
         (Success c, Success (Some rel)) \<Rightarrow>
           bindA (SMEMBERS M (REWARDS_BY_REFEREE referee)) (\<lambda>refereeRewards.
           bindA (earned_for M uid refereeRewards) (\<lambda>totalEarnedForMe.
           returnA (acc @ [\<lparr>rr_user_principal_id = referee, rr_tier = 1,
             rr_signup_date = r_signup_timestamp rel, rr_status = recent_status (r_first_24h_status rel),
             rr_is_online = (c_wsDisconnect c = 0), rr_total_earned_for_me = totalEarnedForMe\<rparr>])))
       | _ \<Rightarrow> returnA acc))"

definition getReferralDashboard ::
  "'w redis \<Rightarrow> ReferralConfig \<Rightarrow> string \<Rightarrow> int \<Rightarrow> int \<Rightarrow> ('w, Dashboard EntityResult) act" where
  "getReferralDashboard M cfg uid startOfWeek now = catchA
     (bindA (getClient M uid) (\<lambda>clientResult.
        case clientResult of
          Failure _ _ \<Rightarrow> returnA (Failure NotFound ''Client not found'')
        | Success client \<Rightarrow>
            bindA (getReferralStats M cfg uid startOfWeek now) (\<lambda>statsResult.
              case statsResult of
                Failure k m \<Rightarrow> returnA (Failure k m)
              | Success stats \<Rightarrow>
                  bindA (getReferralRewards M uid) (\<lambda>rewardsResult.
                  bindA (getL1Referrals M uid) (\<lambda>l1Result.
                  let recentRewards = (case rewardsResult of Success rs \<Rightarrow> take 10 rs | Failure _ _ \<Rightarrow> []);
                      of_tier = (\<lambda>l t. earned_by (\<lambda>r. rw_tier r = l \<and> rw_reward_type r = t \<and>
                        rw_status r = RW_DISTRIBUTED) recentRewards)
                  in
                  bindA (case l1Result of
                           Success l1 \<Rightarrow> foldA (recent_referral M uid) [] (take 5 l1)
                         | Failure _ _ \<Rightarrow> returnA []) (\<lambda>recentReferrals.
                  returnA (Success \<lparr>db_my_referral_code = c_referralCode client, db_stats = stats,
                    db_tier1_breakdown = (of_tier 1 INSTALLATION, of_tier 1 UPTIME, of_tier 1 TASK),
                    db_tier2_breakdown = (of_tier 2 UPTIME, of_tier 2 TASK),
                    db_cap = default_cap cfg,
                    db_percentage_used = js_round (st_current_month_uptime_earned stats / default_cap cfg * 100),
                    db_recent_referrals = recentReferrals,
                    db_recent_rewards = recentRewards\<rparr>)))))))
     (db_failure ''Failed to get referral dashboard: '')"

end
