(* ===== verification/UptimeTracker.thy ===== *)
theory UptimeTracker
  imports Referral
begin

text \<open>
  The class \<open>UptimeTracker\<close> (\<open>src/services/uptime_tracker.ts\<close>): the active
  session of a user, its samples, the daily record its minutes are added to,
  and the queries. The map \<open>activeSessions\<close> of the object is an argument and
  part of the result of the methods that write it; \<open>referral\<close> is the method
  \<open>check24HourCompletion\<close> of the referral service, if one is set and enabled.
  The clock is read once per method.
\<close>

section \<open>Configuration\<close>

record PerformanceTier =
  pf_tier :: int
  pf_min_speed :: rat
  pf_max_ping :: rat
  pf_bonus_rate :: rat
  pf_description :: string

record UptimeConfig =
  uf_heartbeat_interval :: int
  uf_timeout_threshold :: int
  uf_max_missed_heartbeats :: int
  uf_sample_interval :: int
  uf_base_reward_rate :: rat
  uf_daily_min_reward :: rat
  uf_daily_max_reward :: rat
  uf_daily_max_reward_with_bonus :: rat
  uf_weekly_max_reward :: rat
  uf_performance_tiers :: "PerformanceTier list"
  uf_reward_distribution_enabled :: bool
  uf_reward_distribution_interval :: string
  uf_reward_log_directory :: string
  uf_reward_max_log_files :: int
  uf_reward_max_log_size_mb :: int

definition default_tiers :: "PerformanceTier list" where
  "default_tiers = [
     \<lparr>pf_tier = 1, pf_min_speed = 50, pf_max_ping = 50, pf_bonus_rate = 20/100,
       pf_description = ''Tier 1: High Performance''\<rparr>,
     \<lparr>pf_tier = 2, pf_min_speed = 20, pf_max_ping = 100, pf_bonus_rate = 10/100,
       pf_description = ''Tier 2: Good Performance''\<rparr>,
     \<lparr>pf_tier = 3, pf_min_speed = 5, pf_max_ping = 150, pf_bonus_rate = 5/100,
       pf_description = ''Tier 3: Standard Performance''\<rparr>,
     \<lparr>pf_tier = 4, pf_min_speed = 0, pf_max_ping = 999, pf_bonus_rate = 0,
       pf_description = ''Tier 4: Basic Performance''\<rparr>]"

text \<open>The arguments are what the environment variables \<open>REWARD_*\<close> give.\<close>

definition getDefaultConfig :: "bool \<Rightarrow> string \<Rightarrow> string \<Rightarrow> int \<Rightarrow> int \<Rightarrow> UptimeConfig" where
  "getDefaultConfig enabled interval logs maxFiles maxSize = \<lparr>
     uf_heartbeat_interval = 30000, uf_timeout_threshold = 30000, uf_max_missed_heartbeats = 3,
     uf_sample_interval = 300000, uf_base_reward_rate = 1/2, uf_daily_min_reward = 1/2,
     uf_daily_max_reward = 720, uf_daily_max_reward_with_bonus = 864, uf_weekly_max_reward = 5040,
     uf_performance_tiers = default_tiers,
     uf_reward_distribution_enabled = enabled, uf_reward_distribution_interval = interval,
     uf_reward_log_directory = logs, uf_reward_max_log_files = maxFiles,
     uf_reward_max_log_size_mb = maxSize\<rparr>"

text \<open>\<open>Partial<UptimeConfig>\<close>, and \<open>{ ...config, ...newConfig }\<close>\<close>

record PartialUptimeConfig =
  up_heartbeat_interval :: "int option"
  up_timeout_threshold :: "int option"
  up_max_missed_heartbeats :: "int option"
  up_sample_interval :: "int option"
  up_base_reward_rate :: "rat option"
  up_daily_min_reward :: "rat option"
  up_daily_max_reward :: "rat option"
  up_daily_max_reward_with_bonus :: "rat option"
  up_weekly_max_reward :: "rat option"
  up_performance_tiers :: "PerformanceTier list option"
  up_reward_distribution_enabled :: "bool option"
  up_reward_distribution_interval :: "string option"
  up_reward_log_directory :: "string option"
  up_reward_max_log_files :: "int option"
  up_reward_max_log_size_mb :: "int option"

definition updateConfig :: "PartialUptimeConfig \<Rightarrow> UptimeConfig \<Rightarrow> UptimeConfig" where
  "updateConfig n c = \<lparr>
     uf_heartbeat_interval = spread_opt (uf_heartbeat_interval c) (up_heartbeat_interval n),
     uf_timeout_threshold = spread_opt (uf_timeout_threshold c) (up_timeout_threshold n),
     uf_max_missed_heartbeats = spread_opt (uf_max_missed_heartbeats c) (up_max_missed_heartbeats n),
     uf_sample_interval = spread_opt (uf_sample_interval c) (up_sample_interval n),
     uf_base_reward_rate = spread_opt (uf_base_reward_rate c) (up_base_reward_rate n),
     uf_daily_min_reward = spread_opt (uf_daily_min_reward c) (up_daily_min_reward n),
     uf_daily_max_reward = spread_opt (uf_daily_max_reward c) (up_daily_max_reward n),
     uf_daily_max_reward_with_bonus =
       spread_opt (uf_daily_max_reward_with_bonus c) (up_daily_max_reward_with_bonus n),
     uf_weekly_max_reward = spread_opt (uf_weekly_max_reward c) (up_weekly_max_reward n),
     uf_performance_tiers = spread_opt (uf_performance_tiers c) (up_performance_tiers n),
     uf_reward_distribution_enabled =
       spread_opt (uf_reward_distribution_enabled c) (up_reward_distribution_enabled n),
     uf_reward_distribution_interval =
       spread_opt (uf_reward_distribution_interval c) (up_reward_distribution_interval n),
     uf_reward_log_directory = spread_opt (uf_reward_log_directory c) (up_reward_log_directory n),
     uf_reward_max_log_files = spread_opt (uf_reward_max_log_files c) (up_reward_max_log_files n),
     uf_reward_max_log_size_mb = spread_opt (uf_reward_max_log_size_mb c) (up_reward_max_log_size_mb n)\<rparr>"

text \<open>\<open>for (const tier of performance_tiers) if (...) return tier.tier; return 4\<close>\<close>

definition determineTier :: "UptimeConfig \<Rightarrow> rat \<Rightarrow> rat \<Rightarrow> int" where
  "determineTier cfg avgSpeed avgPing =
     (case find (\<lambda>tier. pf_min_speed tier \<le> avgSpeed \<and> avgPing \<le> pf_max_ping tier) (uf_performance_tiers cfg) of
        Some tier \<Rightarrow> pf_tier tier
      | None \<Rightarrow> 4)"

definition getTierBonusRate :: "UptimeConfig \<Rightarrow> int \<Rightarrow> rat" where
  "getTierBonusRate cfg tierLevel =
     (case find (\<lambda>t. pf_tier t = tierLevel) (uf_performance_tiers cfg) of
        Some tier \<Rightarrow> pf_bonus_rate tier
      | None \<Rightarrow> 0)"

definition calculateAverage :: "rat list \<Rightarrow> rat" where
  "calculateAverage values = (if values = [] then 0 else foldl (+) 0 values / of_nat (length values))"

definition minutes_between :: "int \<Rightarrow> int \<Rightarrow> rat" where
  "minutes_between start now = of_int (now - start) / (1000 * 60)"

text \<open>\<open>rnd\<close> is the hexadecimal text of the eight random bytes.\<close>

definition newSessionId :: "int \<Rightarrow> string \<Rightarrow> string" where
  "newSessionId now rnd = ''session_'' @ show_int now @ ''_'' @ rnd"

section \<open>Keys\<close>

definition SESSION_KEY :: "string \<Rightarrow> string \<Rightarrow> string" where
  "SESSION_KEY uid sid = UPTIME_SESSION (uid @ '':'' @ sid)"

definition USER_SESSIONS :: "string \<Rightarrow> string" where
  "USER_SESSIONS uid = UPTIME_USER_INDEX (uid @ '':sessions'')"

definition USER_DAILY :: "string \<Rightarrow> string" where
  "USER_DAILY uid = UPTIME_USER_INDEX (uid @ '':daily'')"

section \<open>The session of a user\<close>

type_synonym sessions = "(string, UptimeSession) jsmap"

definition new_session :: "string \<Rightarrow> string \<Rightarrow> int \<Rightarrow> UptimeSession" where
  "new_session sid uid now = \<lparr>
     t_session_id = sid, t_user_principal_id = uid, t_start_time = now, t_last_activity_time = now,
     t_end_time = None, t_duration_minutes = 0, t_avg_speed = 0, t_avg_ping = 0,
     t_speed_samples = [], t_ping_samples = [], t_status = SES_ACTIVE, t_close_reason = None\<rparr>"

definition initializeUptimeTracking ::
  "'w redis \<Rightarrow> sessions \<Rightarrow> string \<Rightarrow> int \<Rightarrow> string \<Rightarrow> ('w, string EntityResult \<times> sessions) act" where
  "initializeUptimeTracking M activeSessions uid now rnd = catchA
     (let sessionId = newSessionId now rnd;
          session = new_session sessionId uid now in
      thenA (setFileMetadata M (UPTIME_ACTIVE uid) (VUptime session))
     (thenA (addFileToUserIndex M (USER_SESSIONS uid) sessionId)
     (thenA (addFileToUserIndex M (UPTIME_DATE_INDEX (iso_date now)) sessionId)
     (returnA (Success sessionId, map_set sessionId session activeSessions)))))
     (\<lambda>e. returnA (Failure DatabaseFault (''Failed to initialize uptime tracking: '' @ e), activeSessions))"

text \<open>The session after a heartbeat with a speed and a ping, if they were measured.\<close>

definition touched :: "int \<Rightarrow> UptimeSession \<Rightarrow> UptimeSession" where
  "touched now s = s\<lparr>t_duration_minutes := minutes_between (t_start_time s) now, t_last_activity_time := now\<rparr>"

definition sampled_speed :: "int \<Rightarrow> rat option \<Rightarrow> UptimeSession \<Rightarrow> UptimeSession" where
  "sampled_speed now speed s = (case speed of
       None \<Rightarrow> s
     | Some v \<Rightarrow> (let samples = t_speed_samples s @ [(now, v)]
         in s\<lparr>t_speed_samples := samples, t_avg_speed := calculateAverage (map snd samples)\<rparr>))"

definition sampled_ping :: "int \<Rightarrow> rat option \<Rightarrow> UptimeSession \<Rightarrow> UptimeSession" where
  "sampled_ping now ping s = (case ping of
       None \<Rightarrow> s
     | Some v \<Rightarrow> (let samples = t_ping_samples s @ [(now, v)]
         in s\<lparr>t_ping_samples := samples, t_avg_ping := calculateAverage (map snd samples)\<rparr>))"

definition updateClientActivity ::
  "'w redis \<Rightarrow> sessions \<Rightarrow> string \<Rightarrow> rat option \<Rightarrow> rat option \<Rightarrow> int \<Rightarrow> ('w, unit EntityResult \<times> sessions) act" where
  "updateClientActivity M activeSessions uid speed ping now = catchA
     (bindA (getFileMetadata M (UPTIME_ACTIVE uid)) (\<lambda>activeSessionData.
        case present activeSessionData of
          None \<Rightarrow> returnA (Success (), activeSessions)
        | Some v \<Rightarrow> bindA (parse_as as_uptime v) (\<lambda>s0.
            let session = sampled_ping now ping (sampled_speed now speed (touched now s0)) in
            thenA (setFileMetadata M (UPTIME_ACTIVE uid) (VUptime session))
            (returnA (Success (), map_set (t_session_id session) session activeSessions)))))
     (\<lambda>e. returnA (Failure DatabaseFault (''Failed to update client activity: '' @ e), activeSessions))"

section \<open>The daily record\<close>

text \<open>The sessions are those of every day: the date is not looked at.\<close>

definition getUserSessionsForDate :: "'w redis \<Rightarrow> string \<Rightarrow> string \<Rightarrow> ('w, UptimeSession list) act" where
  "getUserSessionsForDate M uid date = catchA
     (bindA (getFileIdsFromIndex M (USER_SESSIONS uid)) (\<lambda>sessionIds.
      foldA (\<lambda>sessions sid. bindA (getFileMetadata M (SESSION_KEY uid sid)) (\<lambda>sessionData.
         case present sessionData of
           None \<Rightarrow> returnA sessions
         | Some v \<Rightarrow> bindA (parse_as as_uptime v) (\<lambda>session.
             returnA (if t_status session = SES_COMPLETED then sessions @ [session] else sessions)))) [] sessionIds))
     (\<lambda>_. returnA [])"

definition new_daily :: "UptimeConfig \<Rightarrow> string \<Rightarrow> string \<Rightarrow> UptimeSession \<Rightarrow> int \<Rightarrow> DailyUptimeRecord" where
  "new_daily cfg today uid session now = \<lparr>
     d_date = today, d_user_principal_id = uid, d_total_minutes = t_duration_minutes session,
     d_processed_minutes = 0, d_session_count = 1,
     d_avg_speed = t_avg_speed session, d_avg_ping = t_avg_ping session,
     d_tier_level = determineTier cfg (t_avg_speed session) (t_avg_ping session),
     d_base_reward = 0, d_bonus_reward = 0, d_total_reward = 0, d_last_updated = now, d_is_processed = False\<rparr>"

definition grown_daily :: "UptimeConfig \<Rightarrow> UptimeSession \<Rightarrow> UptimeSession list \<Rightarrow> int \<Rightarrow> DailyUptimeRecord \<Rightarrow> DailyUptimeRecord" where
  "grown_daily cfg session allSessions now d =
     (let speed = calculateAverage (map t_avg_speed allSessions);
          ping = calculateAverage (map t_avg_ping allSessions)
      in d\<lparr>d_total_minutes := d_total_minutes d + t_duration_minutes session,
           d_session_count := d_session_count d + 1, d_last_updated := now, d_is_processed := False,
           d_avg_speed := speed, d_avg_ping := ping, d_tier_level := determineTier cfg speed ping\<rparr>)"

definition completion_check ::
  "'w redis \<Rightarrow> (string \<Rightarrow> ('w, Completion24h EntityResult) act) option \<Rightarrow> string \<Rightarrow> ('w, unit) act" where
  "completion_check M referral uid = (case referral of
       None \<Rightarrow> returnA ()
     | Some check24 \<Rightarrow> catchA
         (bindA (getClient M uid) (\<lambda>clientResult.
            case clientResult of
              Success client \<Rightarrow>
                if 24 \<le> totalUptimeHours client then bindA (check24 uid) (\<lambda>_. returnA ()) else returnA ()
            | Failure _ _ \<Rightarrow> returnA ()))
         (\<lambda>_. returnA ()))"

definition updateDailyUptimeRecord ::
  "'w redis \<Rightarrow> UptimeConfig \<Rightarrow> (string \<Rightarrow> ('w, Completion24h EntityResult) act) option \<Rightarrow>
   string \<Rightarrow> UptimeSession \<Rightarrow> int \<Rightarrow> ('w, unit) act" where
  "updateDailyUptimeRecord M cfg referral uid session now = catchA
     (let today = iso_date now; dailyKey = UPTIME_DAILY today uid in
      bindA (getFileMetadata M dailyKey) (\<lambda>existingData.
      bindA (case present existingData of
               Some v \<Rightarrow> bindA (parse_as as_daily v) (\<lambda>d.
                 bindA (getUserSessionsForDate M uid today) (\<lambda>allSessions.
                   returnA (grown_daily cfg session allSessions now d)))
             | None \<Rightarrow>
                 thenA (addFileToUserIndex M (UPTIME_DATE_INDEX today) uid)
                (thenA (addFileToUserIndex M (USER_DAILY uid) today)
                 (returnA (new_daily cfg today uid session now)))) (\<lambda>dailyRecord.
      thenA (setFileMetadata M dailyKey (VDaily dailyRecord))
            (completion_check M referral uid))))
     (\<lambda>_. returnA ())"

definition finalized :: "int \<Rightarrow> string \<Rightarrow> UptimeSession \<Rightarrow> UptimeSession" where
  "finalized now reason s = s\<lparr>t_end_time := Some now, t_duration_minutes := minutes_between (t_start_time s) now,
     t_status := SES_COMPLETED, t_close_reason := Some reason\<rparr>"

definition finalizeUptimeSession ::
  "'w redis \<Rightarrow> UptimeConfig \<Rightarrow> (string \<Rightarrow> ('w, Completion24h EntityResult) act) option \<Rightarrow>
   sessions \<Rightarrow> string \<Rightarrow> string \<Rightarrow> int \<Rightarrow> ('w, UptimeSession option EntityResult \<times> sessions) act" where
  "finalizeUptimeSession M cfg referral activeSessions uid reason now = catchA
     (bindA (getFileMetadata M (UPTIME_ACTIVE uid)) (\<lambda>activeSessionData.
        case present activeSessionData of
          None \<Rightarrow> returnA (Success None, activeSessions)
        | Some v \<Rightarrow> bindA (parse_as as_uptime v) (\<lambda>s0.
            let session = finalized now reason s0 in
            thenA (setFileMetadata M (SESSION_KEY uid (t_session_id session)) (VUptime session))
           (thenA (deleteFileMetadata M (UPTIME_ACTIVE uid))
           (thenA (updateDailyUptimeRecord M cfg referral uid session now)
           (returnA (Success (Some session), map_delete (t_session_id session) activeSessions)))))))
     (\<lambda>e. returnA (Failure DatabaseFault (''Failed to finalize uptime session: '' @ e), activeSessions))"

section \<open>Queries\<close>

definition maxInactivityAge :: int where
  "maxInactivityAge = 30 * 1000"

record TodayUptime =
  ty_total_minutes :: rat
  ty_active_session_minutes :: rat
  ty_avg_speed :: rat
  ty_avg_ping :: rat
  ty_tier_level :: int

definition today_of :: "DailyUptimeRecord option \<Rightarrow> UptimeSession option \<Rightarrow> int \<Rightarrow> TodayUptime" where
  "today_of daily active now =
     (let minutes = (case active of
            Some s \<Rightarrow> if now - t_last_activity_time s < maxInactivityAge
                      then minutes_between (t_start_time s) now else 0
          | None \<Rightarrow> 0)
      in case daily of
           Some d \<Rightarrow> \<lparr>ty_total_minutes = d_total_minutes d + minutes, ty_active_session_minutes = minutes,
             ty_avg_speed = d_avg_speed d, ty_avg_ping = d_avg_ping d, ty_tier_level = d_tier_level d\<rparr>
         | None \<Rightarrow> \<lparr>ty_total_minutes = 0 + minutes, ty_active_session_minutes = minutes,
             ty_avg_speed = 0, ty_avg_ping = 0, ty_tier_level = 4\<rparr>)"

definition parse_opt :: "(rvalue \<Rightarrow> 'a option) \<Rightarrow> rvalue option \<Rightarrow> ('w, 'a option) act" where
  "parse_opt p data = (case present data of
       None \<Rightarrow> returnA None
     | Some v \<Rightarrow> bindA (parse_as p v) (\<lambda>a. returnA (Some a)))"

definition getUserTodayUptime :: "'w redis \<Rightarrow> string \<Rightarrow> int \<Rightarrow> ('w, TodayUptime EntityResult) act" where
  "getUserTodayUptime M uid now = catchA
     (bindA (getFileMetadata M (UPTIME_DAILY (iso_date now) uid)) (\<lambda>dailyData.
      bindA (getFileMetadata M (UPTIME_ACTIVE uid)) (\<lambda>activeData.
      bindA (parse_opt as_daily dailyData) (\<lambda>dailyRecord.
      bindA (parse_opt as_uptime activeData) (\<lambda>activeSession.
        returnA (Success (today_of dailyRecord activeSession now)))))))
     (db_failure ''Failed to get user today uptime: '')"

record LifetimeUptime =
  lu_total_minutes :: rat
  lu_total_days :: int
  lu_avg_daily_uptime :: rat

definition getUserTotalUptime :: "'w redis \<Rightarrow> string \<Rightarrow> ('w, LifetimeUptime EntityResult) act" where
  "getUserTotalUptime M uid = catchA
     (bindA (getFileIdsFromIndex M (USER_DAILY uid)) (\<lambda>dailyDates.
        if dailyDates = [] then returnA (Success \<lparr>lu_total_minutes = 0, lu_total_days = 0, lu_avg_daily_uptime = 0\<rparr>)
        else bindA (foldA (\<lambda>totalMinutes date.
               bindA (getFileMetadata M (UPTIME_DAILY date uid)) (\<lambda>dailyData.
               bindA (parse_opt as_daily dailyData) (\<lambda>dailyRecord.
                 returnA (case dailyRecord of
                   Some d \<Rightarrow> totalMinutes + d_total_minutes d
                 | None \<Rightarrow> totalMinutes)))) 0 dailyDates)
          (\<lambda>totalMinutes. returnA (Success \<lparr>lu_total_minutes = totalMinutes,
             lu_total_days = int (length dailyDates),
             lu_avg_daily_uptime = totalMinutes / of_nat (length dailyDates)\<rparr>))))
     (db_failure ''Failed to get user total uptime: '')"

record ActiveRewards =
  ar_activeSessionMinutes :: rat
  ar_baseReward :: rat
  ar_bonusReward :: rat
  ar_totalReward :: rat
  ar_tierLevel :: int
  ar_isOnline :: bool

definition offline_rewards :: ActiveRewards where
  "offline_rewards = \<lparr>ar_activeSessionMinutes = 0, ar_baseReward = 0, ar_bonusReward = 0,
     ar_totalReward = 0, ar_tierLevel = 4, ar_isOnline = False\<rparr>"

definition active_rewards :: "UptimeConfig \<Rightarrow> UptimeSession \<Rightarrow> int \<Rightarrow> ActiveRewards" where
  "active_rewards cfg s now =
     (if maxInactivityAge \<le> now - t_last_activity_time s then offline_rewards
      else let minutes = minutes_between (t_start_time s) now;
               tierLevel = determineTier cfg (t_avg_speed s) (t_avg_ping s);
               baseReward = minutes * uf_base_reward_rate cfg;
               bonusReward = baseReward * getTierBonusRate cfg tierLevel
           in \<lparr>ar_activeSessionMinutes = minutes, ar_baseReward = baseReward, ar_bonusReward = bonusReward,
                ar_totalReward = baseReward + bonusReward, ar_tierLevel = tierLevel, ar_isOnline = True\<rparr>)"

definition calculateActiveSessionRewards ::
  "'w redis \<Rightarrow> UptimeConfig \<Rightarrow> string \<Rightarrow> int \<Rightarrow> ('w, ActiveRewards EntityResult) act" where
  "calculateActiveSessionRewards M cfg uid now = catchA
     (bindA (getFileMetadata M (UPTIME_ACTIVE uid)) (\<lambda>data.
        case present data of
          None \<Rightarrow> returnA (Success offline_rewards)
        | Some v \<Rightarrow> bindA (parse_as as_uptime v) (\<lambda>s. returnA (Success (active_rewards cfg s now)))))
     (db_failure ''Failed to calculate active session rewards: '')"

end
