(* ===== verification/RewardDistribution.thy ===== *)
theory RewardDistribution
  imports UptimeTracker
begin

text \<open>
  The classes \<open>RewardDistributionService\<close> (\<open>src/services/reward_distribution_service.ts\<close>)
  and \<open>ReferralDistributionService\<close> (\<open>src/services/referral_distribution_service.ts\<close>):
  the scheduled payment of the daily uptime records, the weekly referral
  rewards for uptime, the monthly reset of the caps. A scheduled task is its
  cron expression; \<open>cron_ok\<close> is the check of \<open>node-cron\<close> on an expression.
  \<open>send\<close> is the blockchain service. The log files are not modelled; the clock
  is read once per method, and \<open>rnd\<close> gives the random numbers of a run in order.
\<close>

section \<open>One record\<close>

record RewardCalculationResult =
  cr_userPrincipalId :: string
  cr_uptimeMinutes :: rat
  cr_tierLevel :: int
  cr_baseReward :: rat
  cr_bonusReward :: rat
  cr_totalReward :: rat
  cr_dailyRecord :: DailyUptimeRecord

definition unprocessed_minutes :: "DailyUptimeRecord \<Rightarrow> rat" where
  "unprocessed_minutes d = d_total_minutes d - or_num (d_processed_minutes d) 0"

definition calculateRewards :: "UptimeConfig \<Rightarrow> DailyUptimeRecord \<Rightarrow> RewardCalculationResult" where
  "calculateRewards cfg d =
     (let unprocessedMinutes = unprocessed_minutes d;
          baseReward = unprocessedMinutes * uf_base_reward_rate cfg;
          bonusReward = baseReward * getTierBonusRate cfg (d_tier_level d);
          totalReward = baseReward + bonusReward
      in \<lparr>cr_userPrincipalId = d_user_principal_id d, cr_uptimeMinutes = unprocessedMinutes,
           cr_tierLevel = d_tier_level d, cr_baseReward = baseReward, cr_bonusReward = bonusReward,
           cr_totalReward = (if totalReward < 0 then 0 else totalReward), cr_dailyRecord = d\<rparr>)"

definition generateDistributionId :: "int \<Rightarrow> int \<Rightarrow> string" where
  "generateDistributionId now rnd = ''dist_'' @ show_int now @ ''_'' @ show_int rnd"

definition generateTransactionId :: "int \<Rightarrow> int \<Rightarrow> string" where
  "generateTransactionId now rnd = ''tx_'' @ show_int now @ ''_'' @ show_int rnd"

definition storeDistributionStatus :: "'w redis \<Rightarrow> RewardDistributionStatus \<Rightarrow> ('w, unit) act" where
  "storeDistributionStatus M s = setFileMetadata M (UPTIME_DISTRIBUTION (ds_distribution_id s)) (VDist s)"

definition storeRewardTransaction :: "'w redis \<Rightarrow> RewardTransaction \<Rightarrow> ('w, unit) act" where
  "storeRewardTransaction M t = setFileMetadata M (UPTIME_TRANSACTION (tx_transaction_id t)) (VTx t)"

definition storeDailyRecord :: "'w redis \<Rightarrow> DailyUptimeRecord \<Rightarrow> ('w, unit) act" where
  "storeDailyRecord M d = setFileMetadata M (UPTIME_DAILY (d_date d) (d_user_principal_id d)) (VDaily d)"

definition updateUserBalance :: "'w redis \<Rightarrow> string \<Rightarrow> rat \<Rightarrow> ('w, unit) act" where
  "updateUserBalance M uid rewardAmount = catchA (credit M uid (uptime_points rewardAmount)) (\<lambda>_. returnA ())"

definition reward_transaction ::
  "UptimeConfig \<Rightarrow> DailyUptimeRecord \<Rightarrow> RewardCalculationResult \<Rightarrow> string \<Rightarrow> int \<Rightarrow> int \<Rightarrow> RewardTransaction" where
  "reward_transaction cfg d calc distributionId now rnd = \<lparr>
     tx_transaction_id = generateTransactionId now rnd, tx_distribution_id = distributionId,
     tx_user_principal_id = d_user_principal_id d, tx_amount = cr_totalReward calc,
     tx_base_amount = cr_baseReward calc, tx_bonus_amount = cr_bonusReward calc,
     tx_uptime_minutes = d_total_minutes d, tx_tier_level = d_tier_level d,
     tx_tier_bonus_rate = getTierBonusRate cfg (d_tier_level d), tx_date = d_date d, tx_timestamp = now,
     tx_blockchain_tx_hash = None, tx_status = TX_PENDING, tx_retry_count = 0\<rparr>"

definition reward_request :: "DailyUptimeRecord \<Rightarrow> RewardCalculationResult \<Rightarrow> BlockchainTransactionRequest" where
  "reward_request d calc = \<lparr>br_userPrincipalId = d_user_principal_id d, br_amount = cr_totalReward calc,
     br_rewardType = UPTIME_REWARD, br_uptime_minutes = Some (d_total_minutes d),
     br_tier_level = Some (d_tier_level d), br_date = None\<rparr>"

text \<open>The record after it was paid for.\<close>

definition settled :: "RewardCalculationResult \<Rightarrow> DailyUptimeRecord \<Rightarrow> DailyUptimeRecord" where
  "settled calc d = d\<lparr>d_processed_minutes := d_total_minutes d,
     d_base_reward := d_base_reward d + cr_baseReward calc,
     d_bonus_reward := d_bonus_reward d + cr_bonusReward calc,
     d_total_reward := d_total_reward d + cr_totalReward calc, d_is_processed := True\<rparr>"

text \<open>The result holds the record object itself, so it shows the settled record.\<close>

definition processUserReward ::
  "'w redis \<Rightarrow> UptimeConfig \<Rightarrow> 'w payer \<Rightarrow> DailyUptimeRecord \<Rightarrow> string \<Rightarrow> int \<Rightarrow> int \<Rightarrow>
   ('w, RewardCalculationResult EntityResult) act" where
  "processUserReward M cfg send d distributionId now rnd = catchA
     (let calc = calculateRewards cfg d;
          transaction = reward_transaction cfg d calc distributionId now rnd
      in thenA (storeRewardTransaction M transaction)
        (bindA (send (reward_request d calc)) (\<lambda>blockchainResult.
           if bx_success blockchainResult
           then thenA (storeRewardTransaction M (transaction\<lparr>
                    tx_blockchain_tx_hash := bx_transactionHash blockchainResult, tx_status := TX_CONFIRMED\<rparr>))
               (thenA (updateUserBalance M (d_user_principal_id d) (cr_totalReward calc))
               (thenA (storeDailyRecord M (settled calc d))
               (returnA (Success (calc\<lparr>cr_dailyRecord := settled calc d\<rparr>)))))
           else thenA (storeRewardTransaction M (transaction\<lparr>tx_status := TX_FAILED\<rparr>))
               (returnA (Failure DatabaseFault (''Blockchain transaction failed: '' @
                  (case bx_error blockchainResult of Some e \<Rightarrow> e | None \<Rightarrow> ''undefined'')))))))
     (db_failure ''Failed to process user reward: '')"

section \<open>A distribution\<close>

definition is_unprocessed :: "DailyUptimeRecord \<Rightarrow> bool" where
  "is_unprocessed d \<longleftrightarrow> \<not> d_is_processed d \<and> unprocessed_minutes d > 0"

definition gather_record ::
  "'w redis \<Rightarrow> DailyUptimeRecord list \<Rightarrow> string \<Rightarrow> ('w, DailyUptimeRecord list) act" where
  "gather_record M records key = bindA (getFileMetadata M key) (\<lambda>data.
     case present data of
       None \<Rightarrow> returnA records
     | Some v \<Rightarrow> bindA (parse_as as_daily v) (\<lambda>record.
         returnA (if is_unprocessed record then records @ [record] else records)))"

definition getUnprocessedDailyRecords :: "'w redis \<Rightarrow> ('w, DailyUptimeRecord list) act" where
  "getUnprocessedDailyRecords M = catchA
     (bindA (KEYS M UPTIME_DAILY_PREFIX) (foldA (gather_record M) []))
     (\<lambda>_. returnA [])"

record Tally =
  ta_successCount :: nat
  ta_failureCount :: nat
  ta_totalRewardsDistributed :: rat

definition no_tally :: Tally where
  "no_tally = \<lparr>ta_successCount = 0, ta_failureCount = 0, ta_totalRewardsDistributed = 0\<rparr>"

definition tally :: "Tally \<Rightarrow> RewardCalculationResult EntityResult \<Rightarrow> Tally" where
  "tally t result = (case result of
       Success c \<Rightarrow> t\<lparr>ta_successCount := ta_successCount t + 1,
         ta_totalRewardsDistributed := ta_totalRewardsDistributed t + cr_totalReward c\<rparr>
     | Failure _ _ \<Rightarrow> t\<lparr>ta_failureCount := ta_failureCount t + 1\<rparr>)"

definition distribution_status :: "string \<Rightarrow> DistStatus \<Rightarrow> int \<Rightarrow> RewardDistributionStatus" where
  "distribution_status distributionId status now = \<lparr>
     ds_distribution_id = distributionId, ds_distribution_date = iso_date now, ds_status = status,
     ds_total_users = 0, ds_total_rewards_distributed = 0, ds_started_at = now, ds_completed_at = None,
     ds_error_details = None, ds_skip_reason = None, ds_retry_count = 0, ds_max_retries = 3\<rparr>"

definition finished_status :: "RewardDistributionStatus \<Rightarrow> nat \<Rightarrow> Tally \<Rightarrow> int \<Rightarrow> RewardDistributionStatus" where
  "finished_status status users t now = status\<lparr>
     ds_status := (if ta_failureCount t > 0 then DIST_FAILED else DIST_COMPLETED),
     ds_total_users := int users, ds_total_rewards_distributed := ta_totalRewardsDistributed t,
     ds_completed_at := Some now,
     ds_error_details := (if ta_failureCount t > 0
       then Some (show_int (int (ta_failureCount t)) @ '' users failed to process'') else None)\<rparr>"

definition pay_one ::
  "'w redis \<Rightarrow> UptimeConfig \<Rightarrow> 'w payer \<Rightarrow> string \<Rightarrow> int \<Rightarrow> (nat \<Rightarrow> int) \<Rightarrow>
   Tally \<Rightarrow> nat \<times> DailyUptimeRecord \<Rightarrow> ('w, Tally) act" where
  "pay_one M cfg send distributionId now rnd t p = catchA
     (bindA (processUserReward M cfg send (snd p) distributionId now (rnd (fst p))) (\<lambda>result.
        returnA (tally t result)))
     (\<lambda>_. returnA (t\<lparr>ta_failureCount := ta_failureCount t + 1\<rparr>))"

definition runRewardDistribution ::
  "'w redis \<Rightarrow> UptimeConfig \<Rightarrow> 'w payer \<Rightarrow> int \<Rightarrow> (nat \<Rightarrow> int) \<Rightarrow>
   ('w, RewardDistributionStatus EntityResult) act" where
  "runRewardDistribution M cfg send now rnd =
     (let distributionId = generateDistributionId now (rnd 0) in catchA
       (bindA (getUnprocessedDailyRecords M) (\<lambda>unprocessedRecords.
          if unprocessedRecords = []
          then returnA (Success ((distribution_status distributionId DIST_SKIPPED now)
                 \<lparr>ds_completed_at := Some now, ds_skip_reason := Some ''No unprocessed records found''\<rparr>))
          else (let status = distribution_status distributionId DIST_IN_PROGRESS now in
               thenA (storeDistributionStatus M status)
              (bindA (foldA (pay_one M cfg send distributionId now rnd) no_tally
                       (enumerate 1 unprocessedRecords)) (\<lambda>t.
               let final = finished_status status (length unprocessedRecords) t now in
               thenA (storeDistributionStatus M final)
                     (returnA (Success final)))))))
       (db_failure ''Distribution failed: ''))"

section \<open>The referral distribution\<close>

datatype ReferralDistributionType = WEEKLY_UPTIME | DAILY_TASK | MONTHLY_CAP_RESET

record ReferralDistributionResult =
  rd_distribution_id :: string
  rd_distribution_type :: ReferralDistributionType
  rd_processed_count :: int
  rd_total_rewards_distributed :: rat
  rd_errors :: "string list"
  rd_timestamp :: int

definition distribution_result :: "ReferralDistributionType \<Rightarrow> string \<Rightarrow> int \<Rightarrow> ReferralDistributionResult" where
  "distribution_result t name now = \<lparr>rd_distribution_id = name @ show_int now, rd_distribution_type = t,
     rd_processed_count = 0, rd_total_rewards_distributed = 0, rd_errors = [], rd_timestamp = now\<rparr>"

definition add_error :: "string \<Rightarrow> ReferralDistributionResult \<Rightarrow> ReferralDistributionResult" where
  "add_error e r = r\<lparr>rd_errors := rd_errors r @ [e]\<rparr>"

text \<open>The minutes and points of the seven days before today, read from \<open>uptime:daily:{user}:{date}\<close>.\<close>

definition week_dates :: "int \<Rightarrow> string list" where
  "week_dates now = map (\<lambda>i. iso_date (now - 7 * 24 * 60 * 60 * 1000 + int i * (24 * 60 * 60 * 1000))) [0..<7]"

definition getWeeklyUptimeData :: "'w redis \<Rightarrow> string \<Rightarrow> int \<Rightarrow> ('w, (rat \<times> rat) EntityResult) act" where
  "getWeeklyUptimeData M uid now = catchA
     (bindA (foldA (\<lambda>(totalMinutes, earnedPoints) dateStr.
          bindA (GET M (UPTIME_DAILY uid dateStr)) (\<lambda>recordData.
          bindA (parse_opt as_daily recordData) (\<lambda>record. returnA (case record of
              None \<Rightarrow> (totalMinutes, earnedPoints)
            | Some d \<Rightarrow> (totalMinutes + d_total_minutes d, earnedPoints + or_num (d_total_reward d) 0)))))
        (0, 0) (week_dates now)) (\<lambda>totals. returnA (Success totals)))
     (db_failure ''Failed to get weekly uptime data: '')"

definition required_minutes :: "ReferralConfig \<Rightarrow> rat" where
  "required_minutes cfg = or_num_opt (Option.bind (rt_requirements (rc_uptime_reward cfg))
     rq_min_uptime_hours_weekly) 100 * 60"

definition weekly_reward ::
  "'w redis \<Rightarrow> ReferralConfig \<Rightarrow> 'w payer \<Rightarrow> int \<Rightarrow> ReferralDistributionResult \<Rightarrow> string \<Rightarrow>
   ('w, ReferralDistributionResult) act" where
  "weekly_reward M cfg send now result userKey = catchA
     (let uid = drop (length RELATIONSHIP_PREFIX) userKey in
      bindA (getWeeklyUptimeData M uid now) (\<lambda>weekly.
        case weekly of
          Failure _ _ \<Rightarrow> returnA result
        | Success (totalMinutes, earnedPoints) \<Rightarrow>
            if required_minutes cfg \<le> totalMinutes
            then bindA (calculateUptimeReward M cfg send uid earnedPoints totalMinutes now) (\<lambda>rewardResult.
              returnA (case rewardResult of
                Success tr \<Rightarrow> result\<lparr>rd_processed_count := rd_processed_count result + 1,
                  rd_total_rewards_distributed := rd_total_rewards_distributed result + tr_total_distributed tr\<rparr>
              | Failure _ m \<Rightarrow> add_error (''Failed to process '' @ uid @ '': '' @ m) result))
            else returnA result))
     (\<lambda>e. returnA (add_error (''Error processing user '' @ userKey @ '': '' @ e) result))"

definition processWeeklyUptimeRewards ::
  "'w redis \<Rightarrow> ReferralConfig \<Rightarrow> 'w payer \<Rightarrow> int \<Rightarrow> ('w, ReferralDistributionResult) act" where
  "processWeeklyUptimeRewards M cfg send now =
     (let result = distribution_result WEEKLY_UPTIME ''weekly_uptime_'' now in catchA
       (bindA (KEYS M RELATIONSHIP_PREFIX) (foldA (weekly_reward M cfg send now) result))
       (\<lambda>e. returnA (add_error (''Weekly uptime distribution failed: '' @ e) result)))"

text \<open>A placeholder in the code: it processes nothing.\<close>

definition processDailyTaskRewards :: "int \<Rightarrow> ReferralDistributionResult" where
  "processDailyTaskRewards now = distribution_result DAILY_TASK ''daily_task_'' now"

text \<open>\<open>s.split(':')\<close>, and \<open>a < b\<close> on strings where \<open>a\<close> may be \<open>undefined\<close>.\<close>

fun split_colon :: "string \<Rightarrow> string list" where
  "split_colon [] = [[]]"
| "split_colon (c # s) = (if c = CHR '':'' then [] # split_colon s
     else (case split_colon s of p # ps \<Rightarrow> (c # p) # ps | [] \<Rightarrow> [[c]]))"

fun string_less :: "string \<Rightarrow> string \<Rightarrow> bool" where
  "string_less xs [] = False"
| "string_less [] (y # ys) = True"
| "string_less (x # xs) (y # ys) = (of_char x < (of_char y :: nat) \<or> (x = y \<and> string_less xs ys))"

definition month_of_key :: "string \<Rightarrow> string option" where
  "month_of_key capKey = (let keyParts = split_colon capKey in
     if 3 < length keyParts then Some (keyParts ! 3) else None)"

definition outdated :: "int \<Rightarrow> string \<Rightarrow> bool" where
  "outdated now capKey = (case month_of_key capKey of Some month \<Rightarrow> string_less month (month_of now) | None \<Rightarrow> False)"

definition reset_cap ::
  "'w redis \<Rightarrow> int \<Rightarrow> ReferralDistributionResult \<Rightarrow> string \<Rightarrow> ('w, ReferralDistributionResult) act" where
  "reset_cap M now result capKey = catchA
     (if outdated now capKey
      then thenA (DEL M capKey) (returnA (result\<lparr>rd_processed_count := rd_processed_count result + 1\<rparr>))
      else returnA result)
     (\<lambda>e. returnA (add_error (''Error resetting cap '' @ capKey @ '': '' @ e) result))"

definition resetMonthlyCaps :: "'w redis \<Rightarrow> int \<Rightarrow> ('w, ReferralDistributionResult) act" where
  "resetMonthlyCaps M now =
     (let result = distribution_result MONTHLY_CAP_RESET ''monthly_cap_reset_'' now in catchA
       (bindA (KEYS M MONTHLY_CAP_PREFIX) (foldA (reset_cap M now) result))
       (\<lambda>e. returnA (add_error (''Monthly cap reset failed: '' @ e) result)))"

section \<open>The schedules\<close>

record ReferralDistributionService =
  rs_cronJobs :: "(string, string) jsmap"
  rs_isRunning :: bool

definition startReferral :: "ReferralConfig \<Rightarrow> ReferralDistributionService \<Rightarrow> ReferralDistributionService" where
  "startReferral cfg s = (if rs_isRunning s then s else
     (let jobs1 = map_set ''weekly_uptime'' ''0 2 * * 0'' (rs_cronJobs s);
          jobs2 = (if rt_distribution_cycle (rc_task_reward cfg) = DAILY
                   then map_set ''daily_task'' ''0 1 * * *'' jobs1 else jobs1)
      in \<lparr>rs_cronJobs = map_set ''monthly_cap_reset'' ''0 3 1 * *'' jobs2, rs_isRunning = True\<rparr>))"

definition stopReferral :: "ReferralDistributionService \<Rightarrow> ReferralDistributionService" where
  "stopReferral s = (if \<not> rs_isRunning s then s else \<lparr>rs_cronJobs = [], rs_isRunning = False\<rparr>)"

definition referralStatus :: "ReferralDistributionService \<Rightarrow> bool \<times> string list" where
  "referralStatus s = (rs_isRunning s, keys_of (rs_cronJobs s))"

record RewardDistributionService =
  ps_cronJob :: "string option"
  ps_isRunning :: bool
  ps_referral :: "ReferralDistributionService option"

definition startRewards ::
  "(string \<Rightarrow> bool) \<Rightarrow> UptimeConfig \<Rightarrow> ReferralConfig \<Rightarrow> RewardDistributionService \<Rightarrow>
   (string + unit) \<times> RewardDistributionService" where
  "startRewards cron_ok cfg rcfg s =
     (if \<not> uf_reward_distribution_enabled cfg \<or> ps_isRunning s then (Inr (), s)
      else if \<not> cron_ok (uf_reward_distribution_interval cfg) then (Inl ''invalid cron expression'', s)
      else (Inr (), \<lparr>ps_cronJob = Some (uf_reward_distribution_interval cfg), ps_isRunning = True,
                     ps_referral = map_option (startReferral rcfg) (ps_referral s)\<rparr>))"

definition stopRewards :: "RewardDistributionService \<Rightarrow> RewardDistributionService" where
  "stopRewards s = (if \<not> ps_isRunning s then s
     else \<lparr>ps_cronJob = None, ps_isRunning = False, ps_referral = map_option stopReferral (ps_referral s)\<rparr>)"

end
