(* ===== verification/ReferralFacts.thy ===== *)
theory ReferralFacts
  imports Referral DatabaseEffects
begin

text \<open>
  The effect of every method of \<open>ReferralService\<close> on the clients, the referral
  relationships and the monthly caps, for a server that answers and a payout
  that keeps away from Redis (\<open>rewarding\<close>).
\<close>

section \<open>Relationships and caps\<close>

definition rels :: "'w redis \<Rightarrow> 'w \<Rightarrow> string \<Rightarrow> ReferralRelationship option" where
  "rels M w u = (case strs M w (RELATIONSHIP u) of Some v \<Rightarrow> as_rel v | None \<Rightarrow> None)"

definition caps :: "'w redis \<Rightarrow> 'w \<Rightarrow> string \<Rightarrow> string \<Rightarrow> ReferralMonthlyCap option" where
  "caps M w u m = (case strs M w (MONTHLY_CAP u m) of Some v \<Rightarrow> as_cap v | None \<Rightarrow> None)"

definition referral_typed :: "'w redis \<Rightarrow> 'w \<Rightarrow> bool" where
  "referral_typed M w \<longleftrightarrow> (\<forall>u v. strs M w (RELATIONSHIP u) = Some v \<longrightarrow> as_rel v \<noteq> None) \<and>
     (\<forall>u m v. strs M w (MONTHLY_CAP u m) = Some v \<longrightarrow> as_cap v \<noteq> None)"

lemma as_rel_iff: "as_rel v = Some r \<longleftrightarrow> v = VRel r"
  by (cases v) auto

lemma as_cap_iff: "as_cap v = Some c \<longleftrightarrow> v = VCap c"
  by (cases v) auto

lemma typed_cap: "referral_typed M w \<Longrightarrow> strs M w (MONTHLY_CAP u m) = Some v \<Longrightarrow> \<exists>c. v = VCap c"
  unfolding referral_typed_def by (metis as_cap_iff not_None_eq)

lemma typed_rel: "referral_typed M w \<Longrightarrow> strs M w (RELATIONSHIP u) = Some v \<Longrightarrow> \<exists>r. v = VRel r"
  unfolding referral_typed_def by (metis as_rel_iff not_None_eq)

lemma referral_keys [simp]:
  "RELATIONSHIP u = RELATIONSHIP v \<longleftrightarrow> u = v" "MONTHLY_CAP u m = MONTHLY_CAP v m \<longleftrightarrow> u = v"
  "MONTHLY_CAP u m = MONTHLY_CAP u n \<longleftrightarrow> m = n"
  "RELATIONSHIP u \<noteq> MONTHLY_CAP v m" "MONTHLY_CAP v m \<noteq> RELATIONSHIP u"
  "RELATIONSHIP u \<noteq> CLIENT v" "MONTHLY_CAP u m \<noteq> CLIENT v"
  "RELATIONSHIP u \<noteq> REFERRAL_REWARD r" "MONTHLY_CAP u m \<noteq> REFERRAL_REWARD r"
  "CLIENT v \<noteq> RELATIONSHIP u" "CLIENT v \<noteq> MONTHLY_CAP u m" "CLIENT v \<noteq> REFERRAL_REWARD r"
  "JOB v \<noteq> RELATIONSHIP u" "JOB v \<noteq> MONTHLY_CAP u m" "JOB v \<noteq> REFERRAL_REWARD r"
  by (simp_all add: key_simps)

text \<open>All of the views depend on strings and sets only.\<close>

lemma referral_same_strs:
  assumes "strs M w' = strs M w"
  shows "rels M w' = rels M w" "caps M w' = caps M w" "referral_typed M w' = referral_typed M w"
  using assms by (auto simp: rels_def caps_def referral_typed_def fun_eq_iff)

text \<open>The world after \<open>store_reward\<close> and after \<open>credit\<close>.\<close>

definition stored :: "'w redis \<Rightarrow> ReferralReward \<Rightarrow> 'w \<Rightarrow> 'w" where
  "stored M rw w = addm M (REWARDS_BY_REFEREE (rw_referee_principal_id rw)) (rw_reward_id rw)
     (addm M (REWARDS_BY_USER (rw_referrer_principal_id rw)) (rw_reward_id rw)
     (put M (REFERRAL_REWARD (rw_reward_id rw)) (VReward rw) w))"

definition credited :: "'w redis \<Rightarrow> string \<Rightarrow> (ClientStruct \<Rightarrow> client_field list) \<Rightarrow> 'w \<Rightarrow> 'w" where
  "credited M u f w = (case clients M w u of
       None \<Rightarrow> w
     | Some c \<Rightarrow> put_client M u (f c) c (watch M (CLIENT u) w))"

lemma spread_points:
  "spread_client (points a c) c = c\<lparr>c_balance := c_balance c + a, c_todaysEarnings := c_todaysEarnings c + a\<rparr>"
  "spread_client (uptime_points a c) c = c\<lparr>c_balance := c_balance c + a,
     c_todaysEarnings := c_todaysEarnings c + a, c_uptimeReward := c_uptimeReward c + a\<rparr>"
  "spread_client [TotalReferral n] c = c\<lparr>c_totalReferral := n\<rparr>"
  by (simp_all add: spread_client_def points_def uptime_points_def)

lemma proper_points:
  "proper_client_update (points a c)" "proper_client_update (uptime_points a c)"
  "proper_client_update [TotalReferral n]"
  by (simp_all add: proper_client_update_def points_def uptime_points_def)

lemma tier_index_keys:
  "tier_index n u \<noteq> CLIENT v" "tier_index n u \<noteq> JOB v" "tier_index n u \<noteq> CLIENTS_BY_STATUS v"
  "tier_index n u \<noteq> JOBS_BY_STATE v" "tier_index n u \<noteq> JOBS_BY_USER v" "tier_index n u \<noteq> RELATIONSHIP v"
  "tier_index n u \<noteq> MONTHLY_CAP v m" "tier_index n u \<noteq> PENDING_24H"
  by (simp_all add: tier_index_def key_simps)

lemma foreign_tier_index [simp]: "foreign (tier_index n u)"
  by (simp add: foreign_def tier_index_keys)

text \<open>What the tiers of a chain pay: to one user, and in all.\<close>

definition paid_to :: "string list \<Rightarrow> (TierRewardConfig \<Rightarrow> rat) \<Rightarrow> TierRewardConfig list \<Rightarrow> string \<Rightarrow> rat" where
  "paid_to chain amount tcs u =
     (\<Sum>tc\<leftarrow>filter (\<lambda>tc. referrer_at chain (tc_tier_level tc) = Some u) tcs. amount tc)"

definition paid_in_all :: "string list \<Rightarrow> (TierRewardConfig \<Rightarrow> rat) \<Rightarrow> TierRewardConfig list \<Rightarrow> rat" where
  "paid_in_all chain amount tcs =
     (\<Sum>tc\<leftarrow>filter (\<lambda>tc. referrer_at chain (tc_tier_level tc) \<noteq> None) tcs. amount tc)"

definition raise :: "rat \<Rightarrow> ClientStruct \<Rightarrow> ClientStruct" where
  "raise a c = c\<lparr>c_balance := c_balance c + a, c_todaysEarnings := c_todaysEarnings c + a\<rparr>"

definition raise_uptime :: "rat \<Rightarrow> ClientStruct \<Rightarrow> ClientStruct" where
  "raise_uptime a c = (raise a c)\<lparr>c_uptimeReward := c_uptimeReward c + a\<rparr>"

lemma raise_simps [simp]:
  "raise 0 c = c" "raise b (raise a c) = raise (a + b) c"
  "raise_uptime 0 c = c" "raise_uptime b (raise_uptime a c) = raise_uptime (a + b) c"
  by (simp_all add: raise_def raise_uptime_def add.assoc)

lemma map_raise [simp]: "map_option (raise 0) x = x" "map_option (raise_uptime 0) x = x"
  by (cases x; simp)+

lemma spread_raise: "spread_client (points a c) c = raise a c" "spread_client (uptime_points a c) c = raise_uptime a c"
  by (simp_all add: spread_points raise_def raise_uptime_def)

text \<open>The cap record of a month: it is marked as reached exactly when nothing is left.\<close>

definition cap_ok :: "ReferralMonthlyCap \<Rightarrow> bool" where
  "cap_ok c \<longleftrightarrow> m_uptime_rewards_earned c \<le> m_uptime_rewards_cap c \<and>
     (m_cap_reached c \<longleftrightarrow> m_uptime_rewards_cap c \<le> m_uptime_rewards_earned c)"

definition caps_ok :: "'w redis \<Rightarrow> 'w \<Rightarrow> bool" where
  "caps_ok M w \<longleftrightarrow> (\<forall>u m c. caps M w u m = Some c \<longrightarrow> cap_ok c)"

definition cap_left :: "'w redis \<Rightarrow> ReferralConfig \<Rightarrow> 'w \<Rightarrow> string \<Rightarrow> string \<Rightarrow> rat" where
  "cap_left M cfg w u m = (case caps M w u m of
       None \<Rightarrow> default_cap cfg
     | Some c \<Rightarrow> m_uptime_rewards_cap c - m_uptime_rewards_earned c)"

definition cap_after :: "ReferralConfig \<Rightarrow> string \<Rightarrow> string \<Rightarrow> ReferralMonthlyCap option \<Rightarrow> rat \<Rightarrow> int \<Rightarrow> int \<Rightarrow> ReferralMonthlyCap" where
  "cap_after cfg u m old a tier now = mark_reached now (case old of
       None \<Rightarrow> first_cap cfg u m a tier now
     | Some c \<Rightarrow> raise_cap c a tier now)"

lemma cap_after_ok:
  assumes "a \<le> (case old of None \<Rightarrow> default_cap cfg | Some c \<Rightarrow> m_uptime_rewards_cap c - m_uptime_rewards_earned c)"
    and "\<And>c. old = Some c \<Longrightarrow> cap_ok c" and "0 < a"
  shows "cap_ok (cap_after cfg u m old a tier now)"
    and "m_uptime_rewards_cap (cap_after cfg u m old a tier now) - m_uptime_rewards_earned (cap_after cfg u m old a tier now) =
      (case old of None \<Rightarrow> default_cap cfg | Some c \<Rightarrow> m_uptime_rewards_cap c - m_uptime_rewards_earned c) - a"
  using assms by (auto simp: cap_after_def cap_ok_def mark_reached_def first_cap_def raise_cap_def Let_def
    split: option.splits)

text \<open>The chain a registration builds, and the indexes it enters.\<close>

primrec referrers_above :: "nat \<Rightarrow> (string \<Rightarrow> ReferralRelationship option) \<Rightarrow> string \<Rightarrow> string list" where
  "referrers_above 0 R u = []"
| "referrers_above (Suc n) R u = (case R u of
       None \<Rightarrow> []
     | Some rel \<Rightarrow> (case r_referrer_chain rel of
           [] \<Rightarrow> []
         | next # _ \<Rightarrow> if truthy next then next # referrers_above n R next else []))"

lemma length_referrers_above: "length (referrers_above n R u) \<le> n"
  by (induction n arbitrary: u) (auto split: option.split list.split)

definition indexed :: "'w redis \<Rightarrow> string \<Rightarrow> string list \<Rightarrow> 'w \<Rightarrow> 'w" where
  "indexed M uid chain w = fold (\<lambda>(i, referrer). addm M (tier_index (i + 1) referrer) uid) (enumerate 0 chain) w"

text \<open>\<open>codes\<close>: the user a referral code leads to.\<close>

definition codes :: "'w redis \<Rightarrow> 'w \<Rightarrow> string \<Rightarrow> string option" where
  "codes M w code = (case present (strs M w (CODE_LOOKUP code)) of Some v \<Rightarrow> as_str v | None \<Rightarrow> None)"

definition codes_typed :: "'w redis \<Rightarrow> 'w \<Rightarrow> bool" where
  "codes_typed M w \<longleftrightarrow> (\<forall>c v. strs M w (CODE_LOOKUP c) = Some v \<longrightarrow> (\<exists>u. v = VStr u))"

text \<open>Uptime rewards of one referrer, one after the other, and the points they add up to.\<close>

record UptimeCall =
  uc_referee :: string
  uc_earned :: rat
  uc_minutes :: rat
  uc_tier :: int
  uc_percentage :: rat
  uc_now :: int

definition uptime_step ::
  "'w redis \<Rightarrow> ReferralConfig \<Rightarrow> 'w payer \<Rightarrow> string \<Rightarrow> rat \<Rightarrow> UptimeCall \<Rightarrow> ('w, rat) act" where
  "uptime_step M cfg send referrer t0 u =
     bindA (distributeUptimeReward M cfg send referrer (uc_referee u) (uc_earned u) (uc_minutes u)
              (uc_tier u) (uc_percentage u) (uc_now u))
       (\<lambda>r. returnA (case r of Success rw \<Rightarrow> t0 + rw_reward_amount rw | Failure _ _ \<Rightarrow> t0))"

definition uptime_run ::
  "'w redis \<Rightarrow> ReferralConfig \<Rightarrow> 'w payer \<Rightarrow> string \<Rightarrow> UptimeCall list \<Rightarrow> ('w, rat) act" where
  "uptime_run M cfg send referrer calls = foldA (uptime_step M cfg send referrer) 0 calls"

context redis_server
begin

lemma strs_stored [simp]: "strs M (stored M rw w) = (strs M w)(REFERRAL_REWARD (rw_reward_id rw) \<mapsto> VReward rw)"
  by (simp add: stored_def strs_laws)

lemma stored_views [simp]:
  "clients M (stored M rw w) = clients M w" "jobs M (stored M rw w) = jobs M w"
  "rels M (stored M rw w) = rels M w" "caps M (stored M rw w) = caps M w"
  "db_typed M (stored M rw w) = db_typed M w" "referral_typed M (stored M rw w) = referral_typed M w"
  by (auto simp: clients_def jobs_def rels_def caps_def db_typed_def referral_typed_def fun_eq_iff)

lemma same_db_stored: "same_db M w (stored M rw w)"
  by (auto simp: same_db_def stored_def strs_laws mems_laws key_simps)

lemma strs_credited:
  "k \<noteq> CLIENT u \<Longrightarrow> strs M (credited M u f w) k = strs M w k"
  by (auto simp: credited_def strs_watch split: option.split)

lemma credited_views [simp]:
  "clients M (credited M u f w) = (clients M w)(u := map_option (\<lambda>c. spread_client (f c) c) (clients M w u))"
  "jobs M (credited M u f w) = jobs M w"
  "rels M (credited M u f w) = rels M w" "caps M (credited M u f w) = caps M w"
  "referral_typed M (credited M u f w) = referral_typed M w"
proof -
  show "clients M (credited M u f w) = (clients M w)(u := map_option (\<lambda>c. spread_client (f c) c) (clients M w u))"
    by (auto simp: credited_def fun_eq_iff split: option.split)
  show "jobs M (credited M u f w) = jobs M w"
    by (auto simp: credited_def split: option.split)
qed (auto simp: rels_def caps_def referral_typed_def strs_credited fun_eq_iff)

lemma db_inv_watched: "db_inv M (watch M k w) = db_inv M w"
  by (rule same_world) (simp_all add: strs_watch mems_watch)

lemma db_inv_credited:
  assumes "db_inv M w" and "\<And>c. proper_client_update (f c)"
  shows "db_inv M (credited M u f w)"
  using assms by (auto simp: credited_def db_inv_watched intro!: db_inv_put_client split: option.split)

lemma db_inv_stored: "db_inv M w \<Longrightarrow> db_inv M (stored M rw w)"
  using same_db_maps(3) [OF same_db_stored] by simp

lemma put_views:
  "clients M (put M (RELATIONSHIP u) v w) = clients M w" "clients M (put M (MONTHLY_CAP u m) v w) = clients M w"
  "rels M (put M (RELATIONSHIP u) (VRel r) w) = (rels M w)(u \<mapsto> r)"
  "rels M (put M (MONTHLY_CAP u m) v w) = rels M w"
  "caps M (put M (RELATIONSHIP u) v w) = caps M w"
  "caps M (put M (MONTHLY_CAP u m) (VCap c) w) u m = Some c"
  "u' \<noteq> u \<Longrightarrow> caps M (put M (MONTHLY_CAP u m) (VCap c) w) u' m = caps M w u' m"
  "n \<noteq> m \<Longrightarrow> caps M (put M (MONTHLY_CAP u m) (VCap c) w) u n = caps M w u n"
  by (auto simp: clients_def rels_def caps_def strs_put fun_eq_iff)

lemma referral_typed_put_rel:
  "referral_typed M w \<Longrightarrow> referral_typed M (put M (RELATIONSHIP u) (VRel r) w)"
  by (simp add: referral_typed_def strs_put)

lemma db_inv_addm_foreign: "foreign k \<Longrightarrow> db_inv M (addm M k x w) = db_inv M w"
  by (intro same_db_maps(3)) (simp add: same_db_def strs_laws mems_laws foreignD)

lemma db_inv_remm_foreign: "foreign k \<Longrightarrow> db_inv M (remm M k x w) = db_inv M w"
  by (intro same_db_maps(3)) (simp add: same_db_def strs_laws mems_laws foreignD)

lemma db_inv_put_foreign: "foreign k \<Longrightarrow> db_inv M (put M k v w) = db_inv M w"
  by (intro same_db_maps(3)) (simp add: same_db_def strs_laws mems_laws foreignD)

lemma strs_fold_addm: "strs M (fold (\<lambda>(i, r). addm M (k i r) x) xs w) = strs M w"
  by (induction xs arbitrary: w) (auto simp: strs_addm)

lemma mems_fold_addm:
  "y \<in> set (mems M (fold (\<lambda>(i, r). addm M (k i r) x) xs w) k') \<longleftrightarrow>
     (y = x \<and> (\<exists>p \<in> set xs. k' = k (fst p) (snd p))) \<or> y \<in> set (mems M w k')"
proof (induction xs arbitrary: w)
  case (Cons p xs)
  obtain i r where p: "p = (i, r)" by (cases p)
  show ?case by (simp add: p Cons.IH addm_iff) blast
qed simp

lemma strs_indexed [simp]: "strs M (indexed M uid chain w) = strs M w"
  by (simp add: indexed_def strs_fold_addm)

lemma mems_indexed:
  "y \<in> set (mems M (indexed M uid chain w) k) \<longleftrightarrow>
     (y = uid \<and> (\<exists>i < length chain. k = tier_index (i + 1) (chain ! i))) \<or> y \<in> set (mems M w k)"
proof -
  have "(\<exists>p \<in> set (enumerate 0 chain). k = tier_index (fst p + 1) (snd p)) \<longleftrightarrow>
      (\<exists>i < length chain. k = tier_index (i + 1) (chain ! i))"
    by (auto simp: in_set_enumerate_eq Bex_def)
  then show ?thesis unfolding indexed_def mems_fold_addm by simp
qed

lemma mems_indexed_other:
  "(\<And>n r. k \<noteq> tier_index n r) \<Longrightarrow> set (mems M (indexed M uid chain w) k) = set (mems M w k)"
  by (rule set_eqI) (simp add: mems_indexed)

lemma same_db_indexed: "same_db M w (indexed M uid chain w)"
  by (simp add: same_db_def mems_indexed_other tier_index_keys [THEN not_sym])

lemma indexed_views [simp]:
  "clients M (indexed M uid chain w) = clients M w" "rels M (indexed M uid chain w) = rels M w"
  using same_strs [OF strs_indexed] referral_same_strs [OF strs_indexed] by auto

end

section \<open>Methods that never throw\<close>

lemma total_db_failure [simp, intro]: "total (db_failure what e)"
  unfolding db_failure_def by (rule total_return)

lemma total_catch_failure [simp, intro]: "total (catchA m (db_failure what))"
  by (rule total_catch) (rule total_db_failure)

lemma referral_total [simp]:
  "total (getReferralRelationship M u)" "total (getReferralRewards M u)" "total (validateReferralCode M code)"
  "total (registerWithReferralCode M cfg u code now)" "total (checkMonthlyCap M cfg u m)"
  "total (updateMonthlyCap M cfg u m amount t now)" "total (distributeUptimeReward M cfg send a b e wk t p now)"
  "total (distributeTaskReward M send a b e j t p now)" "total (distributeInstallationReward M send a b now)"
  "total (calculateTaskReward M cfg send u e j now)" "total (calculateUptimeReward M cfg send u e wk now)"
  "total (check24HourCompletion M cfg send u now)" "total (getReferralStats M cfg u d now)"
  "total (getReferralDashboard M cfg u d now)"
  by (simp_all add: getReferralRelationship_def getReferralRewards_def validateReferralCode_def
    registerWithReferralCode_def checkMonthlyCap_def updateMonthlyCap_def distributeUptimeReward_def
    distributeTaskReward_def distributeInstallationReward_def calculateTaskReward_def calculateUptimeReward_def
    check24HourCompletion_def getReferralStats_def getReferralDashboard_def Let_def)

section \<open>A server that answers\<close>

text \<open>The world after a registration.\<close>

definition registered :: "'w redis \<Rightarrow> ReferralRelationship \<Rightarrow> string \<Rightarrow> 'w \<Rightarrow> 'w" where
  "registered M rel referrer w = credited M referrer (\<lambda>c. [TotalReferral (c_totalReferral c + 1)])
     (addm M PENDING_24H (r_user_principal_id rel) (indexed M (r_user_principal_id rel) (r_referrer_chain rel)
       (put M (RELATIONSHIP (r_user_principal_id rel)) (VRel rel) w)))"

context redis_up
begin

lemma getReferralRelationship_eq:
  assumes "referral_typed M w"
  shows "getReferralRelationship M u w = (Inr (Success (rels M w u)), w)"
proof (cases "strs M w (RELATIONSHIP u)")
  case (Some v)
  then obtain r where "v = VRel r" using typed_rel [OF assms] by blast
  with Some show ?thesis by (simp add: getReferralRelationship_def act_simps rels_def)
qed (simp add: getReferralRelationship_def act_simps rels_def)

lemma store_reward_eq: "store_reward M rw w = (Inr (), stored M rw w)"
  by (simp add: store_reward_def act_simps stored_def)

lemma credit_eq:
  assumes "db_typed M w"
  shows "credit M u f w = (Inr (), credited M u f w)"
  by (simp add: credit_def act_simps getClient_eq [OF assms] updateClient_eq [OF assms] credited_def
    split: option.split)

lemma checkMonthlyCap_eq:
  assumes "referral_typed M w"
  shows "checkMonthlyCap M cfg u m w = (Inr (Success (case caps M w u m of
      None \<Rightarrow> \<lparr>ca_cap_reached = False, ca_earned = 0, ca_cap = default_cap cfg, ca_remaining = default_cap cfg\<rparr>
    | Some c \<Rightarrow> \<lparr>ca_cap_reached = m_cap_reached c, ca_earned = m_uptime_rewards_earned c,
        ca_cap = m_uptime_rewards_cap c,
        ca_remaining = max 0 (m_uptime_rewards_cap c - m_uptime_rewards_earned c)\<rparr>)), w)"
proof (cases "strs M w (MONTHLY_CAP u m)")
  case (Some v)
  then obtain c where "v = VCap c" using typed_cap [OF assms] by blast
  with Some show ?thesis by (simp add: checkMonthlyCap_def act_simps caps_def)
qed (simp add: checkMonthlyCap_def act_simps caps_def)

lemma updateMonthlyCap_eq:
  assumes "referral_typed M w"
  shows "updateMonthlyCap M cfg u m a tier now w =
    (Inr (Success ()), put M (MONTHLY_CAP u m) (VCap (cap_after cfg u m (caps M w u m) a tier now)) w)"
proof (cases "strs M w (MONTHLY_CAP u m)")
  case (Some v)
  then obtain c where "v = VCap c" using typed_cap [OF assms] by blast
  with Some show ?thesis by (simp add: updateMonthlyCap_def act_simps caps_def cap_after_def)
qed (simp add: updateMonthlyCap_def act_simps caps_def cap_after_def)

text \<open>With a sound cap record the amount paid is what is left of the cap, at most.\<close>

lemma capped_eq:
  assumes "referral_typed M w" and "caps_ok M w" and "0 \<le> p" and "0 \<le> default_cap cfg"
  shows "snd (capped (Success (case caps M w u m of
      None \<Rightarrow> \<lparr>ca_cap_reached = False, ca_earned = 0, ca_cap = default_cap cfg, ca_remaining = default_cap cfg\<rparr>
    | Some c \<Rightarrow> \<lparr>ca_cap_reached = m_cap_reached c, ca_earned = m_uptime_rewards_earned c,
        ca_cap = m_uptime_rewards_cap c,
        ca_remaining = max 0 (m_uptime_rewards_cap c - m_uptime_rewards_earned c)\<rparr>)) p) = min (cap_left M cfg w u m) p"
proof (cases "caps M w u m")
  case (Some c)
  then have "cap_ok c" using assms(2) by (simp add: caps_ok_def)
  then show ?thesis using Some assms(3)
    by (auto simp: capped_def cap_left_def cap_ok_def max_def min_def)
qed (auto simp: capped_def cap_left_def)

lemma status_of_capped: "0 < snd (capped r p) \<Longrightarrow> fst (capped r p) = RW_DISTRIBUTED"
  by (auto simp: capped_def split: EntityResult.splits)

lemma build_chain_eq:
  assumes "referral_typed M w"
  shows "build_chain n M u chain w = (Inr (chain @ referrers_above n (rels M w) u), w)"
proof (induction n arbitrary: u chain)
  case (Suc n)
  then show ?case
    by (simp add: act_simps getReferralRelationship_eq [OF assms] split: option.split list.split)
qed (simp add: act_simps)

lemma index_chain_eq: "index_chain M uid chain w = (Inr (), indexed M uid chain w)"
proof -
  have "foldA (\<lambda>_ (i, r). SADD M (tier_index (i + 1) r) uid) () xs w =
      (Inr (), fold (\<lambda>(i, r). addm M (tier_index (i + 1) r) uid) xs w)" for xs w
    by (induction xs arbitrary: w) (auto simp: act_simps)
  then show ?thesis by (simp add: index_chain_def indexed_def)
qed

lemma validateReferralCode_eq:
  assumes "codes_typed M w" and "db_typed M w"
  shows "validateReferralCode M code w = (Inr (Success (case codes M w code of
      None \<Rightarrow> \<lparr>cv_valid = False, cv_referrer_principal_id = None, cv_message = ''Invalid referral code''\<rparr>
    | Some u \<Rightarrow> if clients M w u = None
        then \<lparr>cv_valid = False, cv_referrer_principal_id = None, cv_message = ''Referrer account not found''\<rparr>
        else \<lparr>cv_valid = True, cv_referrer_principal_id = Some u, cv_message = ''Valid referral code''\<rparr>)), w)"
proof (cases "present (strs M w (CODE_LOOKUP code))")
  case None
  then show ?thesis by (simp add: validateReferralCode_def codes_def act_simps del: present_None)
next
  case (Some v)
  then have "strs M w (CODE_LOOKUP code) = Some v" by (cases "strs M w (CODE_LOOKUP code)" rule: present.cases) auto
  then obtain u where "v = VStr u" using assms(1) unfolding codes_typed_def by blast
  with Some show ?thesis
    by (simp add: validateReferralCode_def codes_def act_simps getClient_eq [OF assms(2)] split: option.split)
qed

lemma register_eq:
  assumes ct: "codes_typed M w" and inv: "db_inv M w" and rt: "referral_typed M w"
  shows "registerWithReferralCode M cfg uid code now w = (case codes M w code of
      None \<Rightarrow> (Inr (Failure InvalidInput ''Invalid referral code''), w)
    | Some referrer \<Rightarrow> if clients M w referrer = None
        then (Inr (Failure InvalidInput ''Referrer account not found''), w)
        else if rels M w uid \<noteq> None
        then (Inr (Failure AlreadyExists ''User already registered with a referral code''), w)
        else let rel = new_relationship uid
                   (referrer # referrers_above (nat (getMaxTierDepth cfg - 1)) (rels M w) referrer) code now
             in (Inr (Success rel), registered M rel referrer w))"
proof (cases "codes M w code")
  case (Some referrer)
  show ?thesis
  proof (cases "clients M w referrer \<noteq> None \<and> rels M w uid = None")
    case True
    then obtain c where c: "clients M w referrer = Some c" by auto
    let ?chain = "referrer # referrers_above (nat (getMaxTierDepth cfg - 1)) (rels M w) referrer"
    let ?rel = "new_relationship uid ?chain code now"
    have rel: "r_user_principal_id ?rel = uid" "r_referrer_chain ?rel = ?chain"
      by (simp_all add: new_relationship_def)
    let ?w1 = "addm M PENDING_24H uid (indexed M uid ?chain (put M (RELATIONSHIP uid) (VRel ?rel) w))"
    have cl: "clients M ?w1 = clients M w"
      using same_strs(1) [OF strs_addm] by (simp add: put_views)
    have dt: "db_typed M ?w1"
      using db_inv_typed [OF inv] unfolding db_typed_def by (simp add: strs_addm strs_put)
    show ?thesis
      using Some True c rt
      by (simp add: registerWithReferralCode_def act_simps validateReferralCode_eq [OF ct db_inv_typed [OF inv]]
        getReferralRelationship_eq build_chain_eq Let_def index_chain_eq getClient_eq [OF dt] updateClient_eq [OF dt]
        cl registered_def rel credited_def)
  next
    case False
    then show ?thesis
      using Some rt by (auto simp: registerWithReferralCode_def act_simps getReferralRelationship_eq
        validateReferralCode_eq [OF ct db_inv_typed [OF inv]])
  qed
qed (simp add: registerWithReferralCode_def act_simps validateReferralCode_eq [OF ct db_inv_typed [OF inv]])

lemma registered_effect:
  assumes "db_inv M w"
  shows "rels M (registered M rel referrer w) = (rels M w)(r_user_principal_id rel \<mapsto> rel)"
    and "clients M (registered M rel referrer w) = (clients M w)(referrer :=
      map_option (\<lambda>c. c\<lparr>c_totalReferral := c_totalReferral c + 1\<rparr>) (clients M w referrer))"
    and "db_inv M (registered M rel referrer w)"
    and "i < length (r_referrer_chain rel) \<Longrightarrow> r_user_principal_id rel \<in>
      set (mems M (registered M rel referrer w) (tier_index (i + 1) (r_referrer_chain rel ! i)))"
proof -
  let ?u = "r_user_principal_id rel"
  let ?w1 = "addm M PENDING_24H ?u (indexed M ?u (r_referrer_chain rel) (put M (RELATIONSHIP ?u) (VRel rel) w))"
  have v: "rels M ?w1 = (rels M w)(?u \<mapsto> rel)" "clients M ?w1 = clients M w"
    using same_strs(1) [OF strs_addm] referral_same_strs(1) [OF strs_addm] by (simp_all add: put_views)
  show "rels M (registered M rel referrer w) = (rels M w)(?u \<mapsto> rel)"
    unfolding registered_def by (simp add: v)
  show "clients M (registered M rel referrer w) = (clients M w)(referrer :=
      map_option (\<lambda>c. c\<lparr>c_totalReferral := c_totalReferral c + 1\<rparr>) (clients M w referrer))"
    unfolding registered_def by (simp add: v spread_points)
  have "db_inv M (indexed M ?u (r_referrer_chain rel) (put M (RELATIONSHIP ?u) (VRel rel) w))"
    using assms same_db_maps(3) [OF same_db_indexed] by (simp add: db_inv_put_foreign)
  then have "db_inv M ?w1" by (simp add: db_inv_addm_foreign)
  then show "db_inv M (registered M rel referrer w)"
    unfolding registered_def by (rule db_inv_credited) (rule proper_points)
  assume i: "i < length (r_referrer_chain rel)"
  let ?k = "tier_index (i + 1) (r_referrer_chain rel ! i)"
  have "?u \<in> set (mems M ?w1 ?k)"
    using i by (auto simp: addm_iff mems_indexed)
  moreover have "mems M (registered M rel referrer w) ?k = mems M ?w1 ?k"
    unfolding registered_def credited_def
    by (simp add: mems_put_client_other tier_index_keys mems_watch split: option.split)
  ultimately show "?u \<in> set (mems M (registered M rel referrer w) ?k)" by simp
qed

lemma referral_typed_registered:
  "referral_typed M w \<Longrightarrow> referral_typed M (registered M rel referrer w)"
  unfolding registered_def credited_views by (simp add: referral_typed_def strs_addm strs_put)

lemma register_success:
  assumes "codes_typed M w" and inv: "db_inv M w" and rt: "referral_typed M w"
    and "codes M w code = Some owner" and "clients M w owner \<noteq> None" and "rels M w uid = None"
  obtains rel w' where "registerWithReferralCode M cfg uid code now w = (Inr (Success rel), w')"
    "db_inv M w'" "referral_typed M w'" "rels M w' = (rels M w)(uid \<mapsto> rel)"
    "r_referrer_chain rel = owner # referrers_above (nat (rc_max_tier_depth cfg - 1)) (rels M w) owner"
    "int (length (r_referrer_chain rel)) \<le> max 1 (rc_max_tier_depth cfg)"
    "\<forall>i < length (r_referrer_chain rel). uid \<in> set (mems M w' (tier_index (i + 1) (r_referrer_chain rel ! i)))"
    "clients M w' = (clients M w)(owner := map_option (\<lambda>c. c\<lparr>c_totalReferral := c_totalReferral c + 1\<rparr>) (clients M w owner))"
proof -
  let ?chain = "owner # referrers_above (nat (rc_max_tier_depth cfg - 1)) (rels M w) owner"
  define rel where "rel = new_relationship uid ?chain code now"
  have rel: "r_user_principal_id rel = uid" "r_referrer_chain rel = ?chain"
    by (simp_all add: rel_def new_relationship_def)
  have len: "int (length ?chain) \<le> max 1 (rc_max_tier_depth cfg)"
    using length_referrers_above [of "nat (rc_max_tier_depth cfg - 1)" "rels M w" owner] by simp
  have run: "registerWithReferralCode M cfg uid code now w = (Inr (Success rel), registered M rel owner w)"
    using register_eq [OF assms(1-3)] assms(4-6) by (simp add: rel_def Let_def getMaxTierDepth_def)
  note eff = registered_effect [OF inv, where rel = rel and referrer = owner, unfolded rel(1)]
  show thesis
    by (rule that [OF run eff(3) referral_typed_registered [OF rt] eff(1) rel(2) _ _ eff(2)])
      (use eff(4) len rel(2) in auto)
qed

lemma check24_incomplete:
  assumes "referral_typed M w" and "db_typed M w"
    and "rels M w uid = None \<or> clients M w uid = None \<or>
      (\<forall>c. clients M w uid = Some c \<longrightarrow> totalUptimeHours c < required_hours cfg)"
    and "\<forall>rel. rels M w uid = Some rel \<longrightarrow> r_first_24h_status rel \<noteq> H24_COMPLETED"
    and "check24HourCompletion M cfg send uid now w = (Inr (Success res), w')"
  shows "\<not> h_completed res"
proof (cases "rels M w uid")
  case (Some rel)
  then show ?thesis
    using assms by (cases "clients M w uid")
      (auto simp: check24HourCompletion_def act_simps getReferralRelationship_eq getClient_eq completion24h_def)
qed (use assms(5) in \<open>auto simp: check24HourCompletion_def act_simps getReferralRelationship_eq [OF assms(1)] completion24h_def\<close>)

text \<open>The 24-hour check: once completed it does nothing more.\<close>

lemma check24_done:
  assumes "referral_typed M w" and "rels M w uid = Some rel" and "r_first_24h_status rel = H24_COMPLETED"
  shows "check24HourCompletion M cfg send uid now w =
    (Inr (Success (completion24h True (r_installation_reward_claimed rel))), w)"
  using assms by (simp add: check24HourCompletion_def act_simps getReferralRelationship_eq)

end

locale rewarding = redis_up M + payout M send
  for M :: "'w redis" and send :: "BlockchainTransactionRequest \<Rightarrow> ('w, BlockchainTransactionResult) act"
begin

text \<open>The world a reward of \<open>amount\<close> points leaves, up to the payout.\<close>

definition rewarded :: "ReferralReward \<Rightarrow> (ClientStruct \<Rightarrow> client_field list) \<Rightarrow> 'w \<Rightarrow> 'w \<Rightarrow> bool" where
  "rewarded rw f w w' \<longleftrightarrow>
     strs M w' = strs M (credited M (rw_referrer_principal_id rw) f (stored M rw w)) \<and>
     mems M w' = mems M (credited M (rw_referrer_principal_id rw) f (stored M rw w))"

lemma rewarded_views:
  assumes "rewarded rw f w w'"
  shows "clients M w' = (clients M w)(rw_referrer_principal_id rw :=
      map_option (\<lambda>c. spread_client (f c) c) (clients M w (rw_referrer_principal_id rw)))"
    "jobs M w' = jobs M w" "rels M w' = rels M w" "caps M w' = caps M w"
    "referral_typed M w' = referral_typed M w"
  using assms same_strs [of M w'] referral_same_strs [of M w'] by (simp_all add: rewarded_def)

lemma rewarded_inv:
  assumes "rewarded rw f w w'" and "db_inv M w" and "\<And>c. proper_client_update (f c)"
  shows "db_inv M w'"
proof -
  have "db_inv M w' = db_inv M (credited M (rw_referrer_principal_id rw) f (stored M rw w))"
    using assms(1) by (intro same_world) (simp_all add: rewarded_def)
  then show ?thesis using assms(2,3) by (simp add: db_inv_credited db_inv_stored)
qed

lemma reward_and_pay:
  assumes "db_typed M w"
  shows "\<exists>w'. thenA (store_reward M rw) (thenA (credit M (rw_referrer_principal_id rw) f)
      (bindA (send req) (\<lambda>_. returnA a))) w = (Inr a, w') \<and> rewarded rw f w w'"
proof -
  let ?w1 = "credited M (rw_referrer_principal_id rw) f (stored M rw w)"
  have "thenA (store_reward M rw) (thenA (credit M (rw_referrer_principal_id rw) f)
      (bindA (send req) (\<lambda>_. returnA a))) w = bindA (send req) (\<lambda>_. returnA a) ?w1"
    using assms by (simp add: act_simps store_reward_eq credit_eq)
  moreover obtain r w' where "bindA (send req) (\<lambda>_. returnA a) ?w1 = (Inr a, w')"
    "strs M w' = strs M ?w1" "mems M w' = mems M ?w1"
    using bind_send [of req "\<lambda>_. returnA a" ?w1] by (auto simp: act_simps)
  ultimately show ?thesis by (auto simp: rewarded_def)
qed

lemma task_effect:
  assumes "db_typed M w"
  shows "\<exists>rw w'. distributeTaskReward M send referrer referee earned jobId tier pct now w = (Inr (Success rw), w') \<and>
    rw_reward_amount rw = percentage_of earned pct \<and> rw_referrer_principal_id rw = referrer \<and>
    rewarded rw (points (percentage_of earned pct)) w w'"
proof -
  define rid where "rid = ''reward_task_'' @ referrer @ ''_'' @ referee @ ''_'' @ show_int tier @ ''_'' @ jobId @ ''_'' @ show_int now"
  define rw where "rw = (new_reward rid referrer referee TASK tier earned pct (percentage_of earned pct) now)\<lparr>rw_job_id := Some jobId\<rparr>"
  have rw: "rw_referrer_principal_id rw = referrer" "rw_reward_amount rw = percentage_of earned pct"
    by (simp_all add: rw_def new_reward_def)
  obtain w' where w': "thenA (store_reward M rw) (thenA (credit M referrer (points (percentage_of earned pct)))
      (bindA (send (bonus_request referrer (percentage_of earned pct) tier None)) (\<lambda>_. returnA (Success rw)))) w
      = (Inr (Success rw), w')" "rewarded rw (points (percentage_of earned pct)) w w'"
    using reward_and_pay [OF assms, of rw "points (percentage_of earned pct)"
      "bonus_request referrer (percentage_of earned pct) tier None" "Success rw"]
    unfolding rw by (elim exE conjE)
  then have "distributeTaskReward M send referrer referee earned jobId tier pct now w = (Inr (Success rw), w')"
    unfolding distributeTaskReward_def Let_def catchA_apply rid_def [symmetric] rw_def [symmetric] by simp
  with w'(2) rw show ?thesis by blast
qed

lemma installation_effect:
  assumes "db_typed M w"
  shows "\<exists>rw w'. distributeInstallationReward M send referrer referee now w = (Inr (Success rw), w') \<and>
    rw_referrer_principal_id rw = referrer \<and> rewarded rw (points getInstallationRewardAmount) w w'"
proof -
  define rid where "rid = ''reward_install_'' @ referrer @ ''_'' @ referee @ ''_'' @ show_int now"
  define rw where "rw = new_reward rid referrer referee INSTALLATION 1 getInstallationRewardAmount 100 getInstallationRewardAmount now"
  have rw: "rw_referrer_principal_id rw = referrer" by (simp add: rw_def new_reward_def)
  obtain w' where w': "thenA (store_reward M rw) (thenA (credit M referrer (points getInstallationRewardAmount))
      (bindA (send (bonus_request referrer getInstallationRewardAmount 1 None)) (\<lambda>_. returnA (Success rw)))) w
      = (Inr (Success rw), w')" "rewarded rw (points getInstallationRewardAmount) w w'"
    using reward_and_pay [OF assms, of rw "points getInstallationRewardAmount"
      "bonus_request referrer getInstallationRewardAmount 1 None" "Success rw"]
    unfolding rw by (elim exE conjE)
  then have "distributeInstallationReward M send referrer referee now w = (Inr (Success rw), w')"
    unfolding distributeInstallationReward_def Let_def catchA_apply rid_def [symmetric] rw_def [symmetric] by simp
  with w'(2) rw show ?thesis by blast
qed

lemma task_chain:
  assumes "db_inv M w"
  shows "\<exists>acc' w'. foldA (reward_tier (\<lambda>referrer tc. distributeTaskReward M send referrer referee earned jobId
        (tc_tier_level tc) (tc_reward_percentage tc) now) chain) acc tcs w = (Inr acc', w') \<and>
      tr_total_distributed acc' = tr_total_distributed acc +
        paid_in_all chain (\<lambda>tc. percentage_of earned (tc_reward_percentage tc)) tcs \<and>
      clients M w' = (\<lambda>u. map_option (raise (paid_to chain
        (\<lambda>tc. percentage_of earned (tc_reward_percentage tc)) tcs u)) (clients M w u)) \<and>
      db_inv M w' \<and> jobs M w' = jobs M w \<and> rels M w' = rels M w \<and> caps M w' = caps M w"
  using assms
proof (induction tcs arbitrary: acc w)
  case Nil
  then show ?case by (simp add: act_simps paid_in_all_def paid_to_def option.map_ident)
next
  case (Cons tc tcs)
  let ?amt = "\<lambda>tc. percentage_of earned (tc_reward_percentage tc)"
  show ?case
  proof (cases "referrer_at chain (tc_tier_level tc)")
    case None
    then show ?thesis using Cons.IH [OF Cons.prems, of acc]
      by (simp add: act_simps reward_tier_def paid_in_all_def paid_to_def)
  next
    case (Some referrer)
    obtain rw w1 where w1: "distributeTaskReward M send referrer referee earned jobId (tc_tier_level tc)
          (tc_reward_percentage tc) now w = (Inr (Success rw), w1)"
        "rw_reward_amount rw = ?amt tc" "rw_referrer_principal_id rw = referrer" "rewarded rw (points (?amt tc)) w w1"
      using task_effect [OF db_inv_typed [OF Cons.prems]] by blast
    note v = rewarded_views [OF w1(4)]
    have inv: "db_inv M w1" by (rule rewarded_inv [OF w1(4) Cons.prems proper_points(1)])
    let ?acc = "\<lparr>tr_rewards = map_set (tc_tier_level tc) rw (tr_rewards acc),
      tr_total_distributed = tr_total_distributed acc + rw_reward_amount rw\<rparr>"
    obtain acc' w' where IH: "foldA (reward_tier (\<lambda>referrer tc. distributeTaskReward M send referrer referee earned jobId
        (tc_tier_level tc) (tc_reward_percentage tc) now) chain) ?acc tcs w1 = (Inr acc', w')"
      "tr_total_distributed acc' = tr_total_distributed ?acc + paid_in_all chain ?amt tcs"
      "clients M w' = (\<lambda>u. map_option (raise (paid_to chain ?amt tcs u)) (clients M w1 u))"
      "db_inv M w'" "jobs M w' = jobs M w1" "rels M w' = rels M w1" "caps M w' = caps M w1"
      using Cons.IH [OF inv, of ?acc] by blast
    have cl: "clients M w' = (\<lambda>u. map_option (raise (paid_to chain ?amt (tc # tcs) u)) (clients M w u))"
      unfolding IH(3) v(1) w1(3) using Some
      by (auto simp: spread_raise paid_to_def option.map_comp o_def fun_eq_iff)
    have run: "foldA (reward_tier (\<lambda>referrer tc. distributeTaskReward M send referrer referee earned jobId
        (tc_tier_level tc) (tc_reward_percentage tc) now) chain) acc (tc # tcs) w = (Inr acc', w')"
      using IH(1) by (simp add: act_simps reward_tier_def Some w1(1))
    have tot: "tr_total_distributed acc' = tr_total_distributed acc + paid_in_all chain ?amt (tc # tcs)"
      using IH(2) Some w1(2) by (simp add: paid_in_all_def)
    show ?thesis
      using run tot cl IH(4-7) v(2-4) by (intro exI [of _ acc'] exI [of _ w']) simp
  qed
qed

text \<open>One uptime reward: what is left of the cap bounds it, and it is taken from the cap.\<close>

lemma uptime_effect:
  assumes inv: "db_inv M w" and rt: "referral_typed M w" and ok: "caps_ok M w"
    and p: "0 \<le> percentage_of earned pct" and d: "0 \<le> default_cap cfg"
    and a: "a = min (cap_left M cfg w referrer (month_of now)) (percentage_of earned pct)"
  shows "\<exists>rw w'. distributeUptimeReward M cfg send referrer referee earned minutes tier pct now w = (Inr (Success rw), w') \<and>
    rw_reward_amount rw = a \<and> 0 \<le> a \<and>
    clients M w' = (clients M w)(referrer := map_option (raise_uptime a) (clients M w referrer)) \<and>
    cap_left M cfg w' referrer (month_of now) = cap_left M cfg w referrer (month_of now) - a \<and>
    caps_ok M w' \<and> referral_typed M w' \<and> db_inv M w'"
proof -
  let ?m = "month_of now"
  define cs where "cs = (case caps M w referrer ?m of
      None \<Rightarrow> \<lparr>ca_cap_reached = False, ca_earned = 0, ca_cap = default_cap cfg, ca_remaining = default_cap cfg\<rparr>
    | Some c \<Rightarrow> \<lparr>ca_cap_reached = m_cap_reached c, ca_earned = m_uptime_rewards_earned c,
        ca_cap = m_uptime_rewards_cap c,
        ca_remaining = max 0 (m_uptime_rewards_cap c - m_uptime_rewards_earned c)\<rparr>)"
  have check: "checkMonthlyCap M cfg referrer ?m w = (Inr (Success cs), w)"
    unfolding cs_def by (rule checkMonthlyCap_eq [OF rt])
  have amt: "snd (capped (Success cs) (percentage_of earned pct)) = a"
    unfolding cs_def a by (rule capped_eq [OF rt ok p d])
  define status where "status = fst (capped (Success cs) (percentage_of earned pct))"
  have pair: "capped (Success cs) (percentage_of earned pct) = (status, a)"
    unfolding status_def using amt by (metis prod.collapse)
  have left: "0 \<le> cap_left M cfg w referrer ?m"
    using ok d by (auto simp: cap_left_def caps_ok_def cap_ok_def split: option.split)
  then have a0: "0 \<le> a" using a p by simp
  define rid where "rid = ''reward_uptime_'' @ referrer @ ''_'' @ referee @ ''_'' @ show_int tier @ ''_'' @ show_int now"
  define rw where "rw = (new_reward rid referrer referee UPTIME tier earned pct a now)
      \<lparr>rw_status := status, rw_distributed_at := (if status = RW_DISTRIBUTED then Some now else None),
       rw_weekly_uptime_minutes := Some minutes\<rparr>"
  have rw: "rw_reward_amount rw = a" by (simp add: rw_def new_reward_def)
  let ?w1 = "stored M rw w"
  let ?rest = "if status = RW_DISTRIBUTED \<and> a > 0
                  then bindA (updateMonthlyCap M cfg referrer ?m a tier now) (\<lambda>_.
                       thenA (credit M referrer (uptime_points a))
                      (bindA (send (bonus_request referrer a tier (Some minutes))) (\<lambda>_.
                       returnA ()))) else returnA ()"
  have run: "distributeUptimeReward M cfg send referrer referee earned minutes tier pct now w =
      catchA (thenA ?rest (returnA (Success rw))) (db_failure ''Failed to distribute uptime reward: '') ?w1"
    by (simp only: distributeUptimeReward_def catchA_apply bindA_apply [of "checkMonthlyCap M cfg referrer ?m"]
      check pair Let_def prod.case sum.case rid_def [symmetric] rw_def [symmetric]
      thenA_apply [of "store_reward M rw"] store_reward_eq)
  show ?thesis
  proof (cases "0 < a")
    case False
    then have "a = 0" using a0 by simp
    then have "distributeUptimeReward M cfg send referrer referee earned minutes tier pct now w = (Inr (Success rw), ?w1)"
      unfolding run by (simp add: act_simps)
    moreover have "caps_ok M ?w1 = caps_ok M w" "cap_left M cfg ?w1 = cap_left M cfg w"
      by (simp_all add: caps_ok_def cap_left_def fun_eq_iff)
    ultimately show ?thesis
      using \<open>a = 0\<close> rw ok rt db_inv_stored [OF inv] by (intro exI [of _ rw] exI [of _ ?w1]) simp
  next
    case True
    then have st: "status = RW_DISTRIBUTED" using status_of_capped [of "Success cs" "percentage_of earned pct"]
      by (simp add: pair)
    define c where "c = cap_after cfg referrer ?m (caps M w referrer ?m) a tier now"
    let ?w2 = "put M (MONTHLY_CAP referrer ?m) (VCap c) ?w1"
    let ?w3 = "credited M referrer (uptime_points a) ?w2"
    have inv2: "db_inv M ?w2" using db_inv_stored [OF inv] by (simp add: db_inv_put_foreign)
    obtain r w' where w': "bindA (send (bonus_request referrer a tier (Some minutes))) (\<lambda>_. returnA ()) ?w3 = (Inr (), w')"
      "strs M w' = strs M ?w3" "mems M w' = mems M ?w3"
      using bind_send [of "bonus_request referrer a tier (Some minutes)" "\<lambda>_. returnA ()" ?w3] by (auto simp: act_simps)
    have "distributeUptimeReward M cfg send referrer referee earned minutes tier pct now w = (Inr (Success rw), w')"
      unfolding run using st True w'(1) rt
      by (simp add: act_simps updateMonthlyCap_eq c_def [symmetric] credit_eq [OF db_inv_typed [OF inv2]])
    moreover have "db_inv M w'"
      using same_world [OF w'(2,3)] db_inv_credited [OF inv2 proper_points(2)] by simp
    moreover have view: "clients M w' = clients M ?w3" "caps M w' = caps M ?w3" "referral_typed M w' = referral_typed M ?w3"
      using same_strs [OF w'(2)] referral_same_strs [OF w'(2)] by auto
    have capok: "cap_ok c" and left': "m_uptime_rewards_cap c - m_uptime_rewards_earned c = cap_left M cfg w referrer ?m - a"
      using cap_after_ok [of a cfg "caps M w referrer ?m" referrer ?m tier now] a True ok
      by (auto simp: cap_left_def caps_ok_def c_def)
    have strs2: "strs M ?w2 = (strs M w)(REFERRAL_REWARD (rw_reward_id rw) \<mapsto> VReward rw, MONTHLY_CAP referrer ?m \<mapsto> VCap c)"
      by (simp add: strs_put)
    have "referral_typed M ?w2"
      using rt unfolding referral_typed_def strs2 by (auto simp: key_simps)
    then have "referral_typed M w'" by (simp add: view)
    moreover have "caps_ok M ?w2"
      using ok capok unfolding caps_ok_def caps_def strs2 by (auto split: option.splits if_splits)
    then have "caps_ok M w'" by (simp add: caps_ok_def view)
    moreover have "clients M w' = (clients M w)(referrer := map_option (raise_uptime a) (clients M w referrer))"
      unfolding view by (simp add: put_views spread_raise)
    moreover have "cap_left M cfg w' referrer ?m = cap_left M cfg w referrer ?m - a"
      unfolding left' [symmetric] by (simp add: cap_left_def view put_views)
    ultimately show ?thesis using rw a0 by blast
  qed
qed

lemma check24_completes:
  assumes inv: "db_inv M w" and rt: "referral_typed M w" and rel: "rels M w uid = Some rel"
    and st: "r_first_24h_status rel \<noteq> H24_COMPLETED" and c: "clients M w uid = Some c"
    and hours: "\<not> totalUptimeHours c < required_hours cfg"
  shows "\<exists>res w' rel'. check24HourCompletion M cfg send uid now w = (Inr (Success res), w') \<and> h_completed res \<and>
    db_inv M w' \<and> referral_typed M w' \<and> rels M w' = (rels M w)(uid \<mapsto> rel') \<and> r_first_24h_status rel' = H24_COMPLETED \<and>
    (case r_referrer_l1_principal_id rel of
       Some referrer \<Rightarrow> if truthy referrer \<and> \<not> r_installation_reward_claimed rel
         then h_reward_distributed res \<and> clients M w' = (clients M w)(referrer :=
                map_option (raise getInstallationRewardAmount) (clients M w referrer))
         else \<not> h_reward_distributed res \<and> clients M w' = clients M w
     | None \<Rightarrow> \<not> h_reward_distributed res \<and> clients M w' = clients M w)"
proof -
  let ?rel1 = "rel\<lparr>r_first_24h_status := H24_COMPLETED, r_first_24h_completed_at := Some now, r_updated_at := now\<rparr>"
  let ?w1 = "remm M PENDING_24H uid (put M (RELATIONSHIP uid) (VRel ?rel1) w)"
  have inv1: "db_inv M ?w1" using inv by (simp add: db_inv_put_foreign db_inv_remm_foreign)
  have t1: "referral_typed M ?w1"
    using referral_typed_put_rel [OF rt] referral_same_strs(3) [OF strs_remm] by blast
  have v1: "clients M ?w1 = clients M w" "rels M ?w1 = (rels M w)(uid \<mapsto> ?rel1)"
    using same_strs(1) [OF strs_remm] referral_same_strs(1) [OF strs_remm] by (simp_all add: put_views)
  note start = getReferralRelationship_eq [OF rt] getClient_eq [OF db_inv_typed [OF inv]] rel st c hours
  show ?thesis
  proof (cases "\<exists>referrer. r_referrer_l1_principal_id rel = Some referrer \<and> truthy referrer \<and> \<not> r_installation_reward_claimed rel")
    case True
    then obtain referrer where r: "r_referrer_l1_principal_id rel = Some referrer" "truthy referrer"
      "\<not> r_installation_reward_claimed rel" by blast
    obtain rw w2 where w2: "distributeInstallationReward M send referrer uid now ?w1 = (Inr (Success rw), w2)"
      "rw_referrer_principal_id rw = referrer" "rewarded rw (points getInstallationRewardAmount) ?w1 w2"
      using installation_effect [OF db_inv_typed [OF inv1]] by blast
    note v2 = rewarded_views [OF w2(3)]
    have inv2: "db_inv M w2" by (rule rewarded_inv [OF w2(3) inv1 proper_points(1)])
    have t2: "referral_typed M w2" using t1 v2(5) by simp
    let ?rel2 = "?rel1\<lparr>r_installation_reward_claimed := True\<rparr>"
    let ?w3 = "put M (RELATIONSHIP uid) (VRel ?rel2) w2"
    have "check24HourCompletion M cfg send uid now w = (Inr (Success \<lparr>h_completed = True,
        h_reward_distributed = True, h_reward_amount = Some getInstallationRewardAmount\<rparr>), ?w3)"
      using r w2(1) by (simp add: check24HourCompletion_def act_simps start Let_def)
    moreover have "rels M ?w3 = (rels M w)(uid \<mapsto> ?rel2)" by (simp add: put_views v2 v1)
    moreover have "clients M ?w3 = (clients M w)(referrer := map_option (raise getInstallationRewardAmount) (clients M w referrer))"
      by (simp add: put_views v2(1) w2(2) v1 spread_raise)
    moreover have "db_inv M ?w3" "referral_typed M ?w3"
      using inv2 referral_typed_put_rel [OF t2] by (simp_all add: db_inv_put_foreign)
    ultimately show ?thesis using r
      by (intro exI [of _ "\<lparr>h_completed = True, h_reward_distributed = True,
        h_reward_amount = Some getInstallationRewardAmount\<rparr>"] exI [of _ ?w3] exI [of _ ?rel2]) simp
  next
    case False
    then have "check24HourCompletion M cfg send uid now w = (Inr (Success (completion24h True False)), ?w1)"
      by (auto simp: check24HourCompletion_def act_simps start Let_def split: option.split)
    then show ?thesis using v1 inv1 t1 False
      by (intro exI [of _ "completion24h True False"] exI [of _ ?w1] exI [of _ ?rel1])
        (auto simp: completion24h_def split: option.split)
  qed
qed

lemma calculateTaskReward_eq:
  assumes "db_inv M w" and "referral_typed M w" and "rels M w referee = Some rel"
  obtains acc w' where "calculateTaskReward M cfg send referee earned jobId now w = (Inr (Success acc), w')"
    "tr_total_distributed acc = paid_in_all (r_referrer_chain rel)
       (\<lambda>tc. percentage_of earned (tc_reward_percentage tc)) (getEnabledTiers cfg TASK)"
    "clients M w' = (\<lambda>u. map_option (raise (paid_to (r_referrer_chain rel)
       (\<lambda>tc. percentage_of earned (tc_reward_percentage tc)) (getEnabledTiers cfg TASK) u)) (clients M w u))"
    "db_inv M w'"
proof -
  obtain acc w' where run: "foldA (reward_tier (\<lambda>referrer tc. distributeTaskReward M send referrer referee earned jobId
        (tc_tier_level tc) (tc_reward_percentage tc) now) (r_referrer_chain rel)) no_rewards (getEnabledTiers cfg TASK) w = (Inr acc, w')"
    and eff: "tr_total_distributed acc = tr_total_distributed no_rewards +
        paid_in_all (r_referrer_chain rel) (\<lambda>tc. percentage_of earned (tc_reward_percentage tc)) (getEnabledTiers cfg TASK)"
      "clients M w' = (\<lambda>u. map_option (raise (paid_to (r_referrer_chain rel)
        (\<lambda>tc. percentage_of earned (tc_reward_percentage tc)) (getEnabledTiers cfg TASK) u)) (clients M w u))"
      "db_inv M w'"
    using task_chain [OF assms(1), of referee earned jobId now "r_referrer_chain rel" no_rewards "getEnabledTiers cfg TASK"]
    by blast
  have "calculateTaskReward M cfg send referee earned jobId now w = (Inr (Success acc), w')"
    using run by (simp add: calculateTaskReward_def act_simps getReferralRelationship_eq [OF assms(2)] assms(3))
  then show thesis using eff by (intro that) (simp_all add: no_rewards_def)
qed

lemma uptime_step_effect:
  assumes "db_inv M w" and "referral_typed M w" and "caps_ok M w" and "0 \<le> default_cap cfg"
    and "0 \<le> percentage_of (uc_earned u) (uc_percentage u)" and "month_of (uc_now u) = m"
    and "a = min (cap_left M cfg w referrer m) (percentage_of (uc_earned u) (uc_percentage u))"
  obtains w' where "uptime_step M cfg send referrer t0 u w = (Inr (t0 + a), w')" "0 \<le> a"
    "clients M w' = (clients M w)(referrer := map_option (raise_uptime a) (clients M w referrer))"
    "cap_left M cfg w' referrer m = cap_left M cfg w referrer m - a"
    "caps_ok M w'" "referral_typed M w'" "db_inv M w'"
proof -
  obtain rw w1 where w1: "distributeUptimeReward M cfg send referrer (uc_referee u) (uc_earned u) (uc_minutes u)
        (uc_tier u) (uc_percentage u) (uc_now u) w = (Inr (Success rw), w1)"
      "rw_reward_amount rw = a" "0 \<le> a"
      "clients M w1 = (clients M w)(referrer := map_option (raise_uptime a) (clients M w referrer))"
      "cap_left M cfg w1 referrer m = cap_left M cfg w referrer m - a"
      "caps_ok M w1" "referral_typed M w1" "db_inv M w1"
    using uptime_effect [OF assms(1-3,5,4) assms(7) [folded assms(6)], of "uc_referee u" "uc_minutes u" "uc_tier u"]
    unfolding assms(6) by (elim exE conjE)
  have "uptime_step M cfg send referrer t0 u w = (Inr (t0 + a), w1)"
    by (simp add: uptime_step_def act_simps w1(1,2))
  then show thesis using w1(3-) by (rule that)
qed

lemma uptime_run_effect:
  assumes "db_inv M w" and "referral_typed M w" and "caps_ok M w" and "0 \<le> default_cap cfg"
    and "\<forall>u \<in> set calls. 0 \<le> percentage_of (uc_earned u) (uc_percentage u) \<and> month_of (uc_now u) = m"
  shows "\<exists>total w'. foldA (uptime_step M cfg send referrer) t0 calls w = (Inr (t0 + total), w') \<and>
      0 \<le> total \<and> (calls \<noteq> [] \<longrightarrow> total \<le> cap_left M cfg w referrer m) \<and>
      cap_left M cfg w' referrer m = cap_left M cfg w referrer m - total \<and>
      clients M w' = (clients M w)(referrer := map_option (raise_uptime total) (clients M w referrer))"
  using assms
proof (induction calls arbitrary: w t0)
  case Nil
  then show ?case by (intro exI [of _ 0] exI [of _ w]) (simp add: act_simps option.map_ident fun_eq_iff)
next
  case (Cons u calls)
  define a where "a = min (cap_left M cfg w referrer m) (percentage_of (uc_earned u) (uc_percentage u))"
  have u: "0 \<le> percentage_of (uc_earned u) (uc_percentage u)" "month_of (uc_now u) = m" using Cons.prems(5) by auto
  obtain w1 where w1: "uptime_step M cfg send referrer t0 u w = (Inr (t0 + a), w1)" "0 \<le> a"
      "clients M w1 = (clients M w)(referrer := map_option (raise_uptime a) (clients M w referrer))"
      "cap_left M cfg w1 referrer m = cap_left M cfg w referrer m - a"
      "caps_ok M w1" "referral_typed M w1" "db_inv M w1"
    by (rule uptime_step_effect [OF Cons.prems(1-4) u a_def])
  have "\<forall>u \<in> set calls. 0 \<le> percentage_of (uc_earned u) (uc_percentage u) \<and> month_of (uc_now u) = m"
    using Cons.prems(5) by simp
  from Cons.IH [OF w1(7,6,5) Cons.prems(4) this, of "t0 + a"]
  obtain total w' where IH: "foldA (uptime_step M cfg send referrer) (t0 + a) calls w1 = (Inr (t0 + a + total), w')"
      "0 \<le> total" "calls \<noteq> [] \<longrightarrow> total \<le> cap_left M cfg w1 referrer m"
      "cap_left M cfg w' referrer m = cap_left M cfg w1 referrer m - total"
      "clients M w' = (clients M w1)(referrer := map_option (raise_uptime total) (clients M w1 referrer))"
    by (elim exE conjE)
  have zero: "calls = [] \<Longrightarrow> total = 0" using IH(1) by (simp add: act_simps)
  have "a \<le> cap_left M cfg w referrer m" by (simp add: a_def)
  then have "a + total \<le> cap_left M cfg w referrer m"
    using IH(3) w1(4) zero by (cases "calls = []") auto
  moreover have "foldA (uptime_step M cfg send referrer) t0 (u # calls) w = (Inr (t0 + (a + total)), w')"
    using IH(1) by (simp add: bindA_apply w1(1) add.assoc)
  moreover have "clients M w' = (clients M w)(referrer := map_option (raise_uptime (a + total)) (clients M w referrer))"
    unfolding IH(5) w1(3) by (simp add: option.map_comp o_def)
  ultimately show ?case
    using IH(2,4) w1(2,4) by (intro exI [of _ "a + total"] exI [of _ w']) simp
qed

end

text \<open>The service as it runs without a ledger, over the store in memory.\<close>

interpretation ledgerless: rewarding mem_redis "sendRewardTransaction svc no_ledger num_text now" for svc num_text now
  by unfold_locales

end
