(* ===== verification/RewardFacts.thy ===== *)
theory RewardFacts
  imports RewardDistribution ReferralFacts
begin

text \<open>
  The daily records a store holds, what one payment and one distribution do to
  them and to the balances, for a server that answers and any payout
  (\<open>rewarding\<close>).
\<close>

section \<open>The daily records of a store\<close>

definition is_daily_key :: "string \<Rightarrow> bool" where
  "is_daily_key k \<longleftrightarrow> prefix UPTIME_DAILY_PREFIX k"

definition daily_key :: "DailyUptimeRecord \<Rightarrow> string" where
  "daily_key d = UPTIME_DAILY (d_date d) (d_user_principal_id d)"

definition daily_at :: "'w redis \<Rightarrow> 'w \<Rightarrow> string \<Rightarrow> DailyUptimeRecord option" where
  "daily_at M w k = (if is_daily_key k then Option.bind (strs M w k) as_daily else None)"

definition dailies_typed :: "'w redis \<Rightarrow> 'w \<Rightarrow> bool" where
  "dailies_typed M w \<longleftrightarrow> (\<forall>k v. is_daily_key k \<longrightarrow> strs M w k = Some v \<longrightarrow> (\<exists>d. v = VDaily d \<and> daily_key d = k))"

definition due_records :: "'w redis \<Rightarrow> 'w \<Rightarrow> DailyUptimeRecord list" where
  "due_records M w = filter is_unprocessed (somes (map (daily_at M w) (filter is_daily_key (allkeys M w))))"

lemma daily_key_simps [simp]:
  "is_daily_key (UPTIME_DAILY a b)" "is_daily_key (daily_key d)"
  "\<not> is_daily_key (CLIENT u)" "\<not> is_daily_key (JOB u)" "\<not> is_daily_key (UPTIME_TRANSACTION t)"
  "\<not> is_daily_key (UPTIME_DISTRIBUTION t)" "\<not> is_daily_key (UPTIME_ACTIVE t)" "\<not> is_daily_key (UPTIME_SESSION t)"
  "\<not> is_daily_key (RELATIONSHIP t)" "\<not> is_daily_key (REFERRAL_REWARD t)" "\<not> is_daily_key (MONTHLY_CAP t m)"
  "\<not> is_daily_key (CLIENTS_BY_STATUS t)"
  by (simp_all add: is_daily_key_def daily_key_def key_simps)

lemma as_daily_iff: "as_daily v = Some d \<longleftrightarrow> v = VDaily d"
  by (cases v) auto

lemma daily_at_iff: "daily_at M w k = Some d \<longleftrightarrow> is_daily_key k \<and> strs M w k = Some (VDaily d)"
  by (auto simp: daily_at_def as_daily_iff bind_eq_Some_conv)

lemma daily_at_key: "dailies_typed M w \<Longrightarrow> daily_at M w k = Some d \<Longrightarrow> daily_key d = k"
  unfolding dailies_typed_def daily_at_iff by fastforce

lemma daily_at_typed:
  "dailies_typed M w \<Longrightarrow> is_daily_key k \<Longrightarrow> strs M w k = map_option VDaily (daily_at M w k)"
  by (cases "strs M w k") (fastforce simp: dailies_typed_def daily_at_def)+

text \<open>What a record earns, and how the ledger decides.\<close>

definition due_amount :: "UptimeConfig \<Rightarrow> DailyUptimeRecord \<Rightarrow> rat" where
  "due_amount cfg d = cr_totalReward (calculateRewards cfg d)"

definition request_of :: "UptimeConfig \<Rightarrow> DailyUptimeRecord \<Rightarrow> BlockchainTransactionRequest" where
  "request_of cfg d = reward_request d (calculateRewards cfg d)"

definition settle_record :: "UptimeConfig \<Rightarrow> DailyUptimeRecord \<Rightarrow> DailyUptimeRecord" where
  "settle_record cfg d = settled (calculateRewards cfg d) d"

definition decides :: "'w payer \<Rightarrow> (BlockchainTransactionRequest \<Rightarrow> bool) \<Rightarrow> bool" where
  "decides send ok \<longleftrightarrow> (\<forall>req w r w'. send req w = (Inr r, w') \<longrightarrow> bx_success r = ok req)"

definition earned_in :: "UptimeConfig \<Rightarrow> (DailyUptimeRecord \<Rightarrow> bool) \<Rightarrow> DailyUptimeRecord list \<Rightarrow> rat" where
  "earned_in cfg p ds = (\<Sum>d\<leftarrow>filter p ds. due_amount cfg d)"

lemma earned_in_simps [simp]:
  "earned_in cfg p [] = 0"
  "earned_in cfg p (d # ds) = (if p d then due_amount cfg d else 0) + earned_in cfg p ds"
  by (simp_all add: earned_in_def)

lemma earned_in_cong: "(\<And>d. d \<in> set ds \<Longrightarrow> p d = q d) \<Longrightarrow> earned_in cfg p ds = earned_in cfg q ds"
  by (simp add: earned_in_def cong: filter_cong)

lemma settle_record_simps [simp]:
  "daily_key (settle_record cfg d) = daily_key d" "\<not> is_unprocessed (settle_record cfg d)"
  by (simp_all add: settle_record_def settled_def daily_key_def is_unprocessed_def)

lemma reward_totals [simp]:
  "total (processUserReward M cfg send d did now rnd)" "total (runRewardDistribution M cfg send now rnds)"
  "total (getUnprocessedDailyRecords M)" "total (getWeeklyUptimeData M u now)"
  by (simp_all add: processUserReward_def runRewardDistribution_def getUnprocessedDailyRecords_def
    getWeeklyUptimeData_def Let_def)

definition tally_of :: "UptimeConfig \<Rightarrow> (DailyUptimeRecord \<Rightarrow> bool) \<Rightarrow> DailyUptimeRecord list \<Rightarrow> Tally \<Rightarrow> Tally" where
  "tally_of cfg paid ds t = \<lparr>ta_successCount = ta_successCount t + length (filter paid ds),
     ta_failureCount = ta_failureCount t + length (filter (Not \<circ> paid) ds),
     ta_totalRewardsDistributed = ta_totalRewardsDistributed t + earned_in cfg paid ds\<rparr>"

definition outcome_of ::
  "UptimeConfig \<Rightarrow> (DailyUptimeRecord \<Rightarrow> bool) \<Rightarrow> DailyUptimeRecord list \<Rightarrow> string \<Rightarrow> int \<Rightarrow> RewardDistributionStatus" where
  "outcome_of cfg paid ds did now = (if ds = []
     then (distribution_status did DIST_SKIPPED now)
       \<lparr>ds_completed_at := Some now, ds_skip_reason := Some ''No unprocessed records found''\<rparr>
     else finished_status (distribution_status did DIST_IN_PROGRESS now) (length ds) (tally_of cfg paid ds no_tally) now)"

context redis_server
begin

lemma due_records_set:
  assumes "dailies_typed M w"
  shows "d \<in> set (due_records M w) \<longleftrightarrow> daily_at M w (daily_key d) = Some d \<and> is_unprocessed d"
proof -
  have "Some d \<in> daily_at M w ` set (filter is_daily_key (allkeys M w)) \<longleftrightarrow> daily_at M w (daily_key d) = Some d"
  proof
    assume "daily_at M w (daily_key d) = Some d"
    moreover from this have "daily_key d \<in> set (filter is_daily_key (allkeys M w))"
      by (simp add: daily_at_iff keys_set)
    ultimately show "Some d \<in> daily_at M w ` set (filter is_daily_key (allkeys M w))" by (metis imageI)
  next
    assume "Some d \<in> daily_at M w ` set (filter is_daily_key (allkeys M w))"
    then obtain k where "daily_at M w k = Some d" by (elim imageE) metis
    then show "daily_at M w (daily_key d) = Some d" using daily_at_key [OF assms] by metis
  qed
  then show ?thesis by (simp add: due_records_def conj_commute)
qed

lemma due_records_distinct:
  assumes "dailies_typed M w"
  shows "distinct (map daily_key (due_records M w))"
proof -
  have "distinct (map daily_key (somes (map (daily_at M w) (filter is_daily_key (allkeys M w)))))"
    by (rule distinct_map_somes) (auto simp: keys_distinct daily_at_key [OF assms])
  then show ?thesis unfolding due_records_def by (rule distinct_map_filter)
qed

end

context redis_up
begin

lemma getUnprocessed_eq:
  assumes "dailies_typed M w"
  shows "getUnprocessedDailyRecords M w = (Inr (due_records M w), w)"
proof -
  define step where "step rs k = rs @ (case daily_at M w k of
      Some d \<Rightarrow> if is_unprocessed d then [d] else [] | None \<Rightarrow> [])" for rs k
  have fold: "foldl step acc ks = acc @ filter is_unprocessed (somes (map (daily_at M w) ks))" for acc ks
    by (induction ks arbitrary: acc) (auto simp: step_def split: option.split)
  have "gather_record M rs k w = (Inr (step rs k), w)"
    if "k \<in> set (filter is_daily_key (allkeys M w))" for rs k
  proof -
    have "strs M w k = map_option VDaily (daily_at M w k)"
      using that by (intro daily_at_typed assms) simp
    then show ?thesis
      by (cases "daily_at M w k") (simp_all add: gather_record_def step_def act_simps getFileMetadata_def)
  qed
  then have "foldA (gather_record M) [] (filter is_daily_key (allkeys M w)) w = (Inr (due_records M w), w)"
    using foldA_pure [of "filter is_daily_key (allkeys M w)" "gather_record M" w step "[]"]
    by (simp add: fold due_records_def)
  then show ?thesis
    by (simp add: getUnprocessedDailyRecords_def catchA_apply bindA_apply is_daily_key_def [abs_def])
qed

end

section \<open>One payment\<close>

context redis_server
begin

lemma same_db_put_foreign: "foreign k \<Longrightarrow> same_db M w (put M k v w)"
  by (simp add: same_db_def strs_laws mems_laws foreignD)

lemma clients_put_foreign: "foreign k \<Longrightarrow> clients M (put M k v w) = clients M w"
  by (rule same_db_maps(1) [OF same_db_put_foreign])

end

text \<open>The keys a payment writes, besides those of the record it settles.\<close>

definition payment_key :: "string \<Rightarrow> bool" where
  "payment_key k \<longleftrightarrow> (\<exists>t. k = UPTIME_TRANSACTION t) \<or> (\<exists>u. k = CLIENT u)"

lemma payment_keys [simp]:
  "payment_key (UPTIME_TRANSACTION t)" "payment_key (CLIENT u)"
  "\<not> payment_key (UPTIME_DAILY a b)" "\<not> payment_key (UPTIME_ACTIVE u)" "\<not> payment_key (UPTIME_DISTRIBUTION u)"
  "\<not> payment_key (daily_key d)" "\<not> payment_key (RELATIONSHIP u)"
  by (auto simp: payment_key_def daily_key_def key_simps)

lemma daily_not_payment: "is_daily_key k \<Longrightarrow> \<not> payment_key k"
  by (auto simp: payment_key_def)

context rewarding
begin

text \<open>What a payment that went through, or was refused, leaves.\<close>

definition paid_world :: "UptimeConfig \<Rightarrow> bool \<Rightarrow> DailyUptimeRecord \<Rightarrow> 'w \<Rightarrow> 'w \<Rightarrow> bool" where
  "paid_world cfg b d w w' \<longleftrightarrow>
     db_inv M w' \<and>
     clients M w' = (if b then (clients M w)(d_user_principal_id d :=
       map_option (raise_uptime (due_amount cfg d)) (clients M w (d_user_principal_id d))) else clients M w) \<and>
     (\<forall>k. \<not> payment_key k \<longrightarrow> strs M w' k =
       (if b \<and> k = daily_key d then Some (VDaily (settle_record cfg d)) else strs M w k))"

lemma updateUserBalance_eq:
  assumes "db_typed M w"
  shows "updateUserBalance M u a w = (Inr (), credited M u (uptime_points a) w)"
  by (simp add: updateUserBalance_def act_simps credit_eq [OF assms])

lemma pay_effect:
  assumes inv: "db_inv M w"
  shows "\<exists>b msg w'. processUserReward M cfg send d did now rnd w =
      (Inr (if b then Success ((calculateRewards cfg d)\<lparr>cr_dailyRecord := settle_record cfg d\<rparr>)
            else Failure DatabaseFault msg), w') \<and>
    paid_world cfg b d w w' \<and> (\<forall>ok. decides send ok \<longrightarrow> b = ok (request_of cfg d))"
proof -
  define calc where "calc = calculateRewards cfg d"
  define tx where "tx = reward_transaction cfg d calc did now rnd"
  define w1 where "w1 = put M (UPTIME_TRANSACTION (tx_transaction_id tx)) (VTx tx) w"
  obtain r w2 where send: "send (reward_request d calc) w1 = (Inr r, w2)"
    and w2: "strs M w2 = strs M w1" "mems M w2 = mems M w1"
    by (rule send_result)
  have b: "\<forall>ok. decides send ok \<longrightarrow> bx_success r = ok (request_of cfg d)"
    using send unfolding decides_def request_of_def calc_def by blast
  have inv2: "db_inv M w2"
    using same_world [OF w2] inv by (simp add: w1_def db_inv_put_foreign)
  have c2: "clients M w2 = clients M w"
    using same_strs [OF w2(1)] by (simp add: w1_def clients_put_foreign)
  show ?thesis
  proof (cases "bx_success r")
    case True
    define tx2 where "tx2 = tx\<lparr>tx_blockchain_tx_hash := bx_transactionHash r, tx_status := TX_CONFIRMED\<rparr>"
    define w3 where "w3 = put M (UPTIME_TRANSACTION (tx_transaction_id tx2)) (VTx tx2) w2"
    define w4 where "w4 = credited M (d_user_principal_id d) (uptime_points (cr_totalReward calc)) w3"
    define w5 where "w5 = put M (daily_key d) (VDaily (settled calc d)) w4"
    have inv3: "db_inv M w3" using inv2 by (simp add: w3_def db_inv_put_foreign)
    have inv4: "db_inv M w4" unfolding w4_def by (intro db_inv_credited inv3 proper_points)
    have inv5: "db_inv M w5" using inv4 by (simp add: w5_def daily_key_def db_inv_put_foreign)
    have "processUserReward M cfg send d did now rnd w =
        (Inr (Success (calc\<lparr>cr_dailyRecord := settled calc d\<rparr>)), w5)"
      using send True
      by (simp add: processUserReward_def act_simps Let_def calc_def [symmetric] tx_def [symmetric]
        storeRewardTransaction_def storeDailyRecord_def setFileMetadata_def w1_def [symmetric] w3_def [symmetric]
        tx2_def [symmetric] updateUserBalance_eq [OF db_inv_typed [OF inv3]] w4_def [symmetric] w5_def
        settled_def daily_key_def)
    moreover have "paid_world cfg True d w w5"
      unfolding paid_world_def
    proof (intro conjI allI impI)
      show "clients M w5 = (if True then (clients M w)(d_user_principal_id d :=
          map_option (raise_uptime (due_amount cfg d)) (clients M w (d_user_principal_id d))) else clients M w)"
        by (simp add: w5_def daily_key_def clients_put_foreign w4_def w3_def c2 spread_raise due_amount_def calc_def)
      show "strs M w5 k = (if True \<and> k = daily_key d then Some (VDaily (settle_record cfg d)) else strs M w k)"
        if "\<not> payment_key k" for k
        using that
        by (auto simp: payment_key_def w5_def w4_def w3_def w2 w1_def strs_put strs_credited settle_record_def calc_def)
    qed (rule inv5)
    ultimately show ?thesis
      using b True by (intro exI [of _ True] exI [of _ "[]"] exI [of _ w5]) (simp add: calc_def settle_record_def)
  next
    case False
    define tx2 where "tx2 = tx\<lparr>tx_status := TX_FAILED\<rparr>"
    define w3 where "w3 = put M (UPTIME_TRANSACTION (tx_transaction_id tx2)) (VTx tx2) w2"
    define msg where "msg = ''Blockchain transaction failed: '' @ (case bx_error r of Some e \<Rightarrow> e | None \<Rightarrow> ''undefined'')"
    have inv3: "db_inv M w3" using inv2 by (simp add: w3_def db_inv_put_foreign)
    have "processUserReward M cfg send d did now rnd w = (Inr (Failure DatabaseFault msg), w3)"
      using send False
      by (simp add: processUserReward_def act_simps Let_def calc_def [symmetric] tx_def [symmetric]
        storeRewardTransaction_def setFileMetadata_def w1_def [symmetric] w3_def [symmetric]
        tx2_def [symmetric] msg_def)
    moreover have "paid_world cfg False d w w3"
      unfolding paid_world_def
      using inv3 c2 by (auto simp: payment_key_def w3_def clients_put_foreign w2 w1_def strs_put)
    ultimately show ?thesis
      using b False by (intro exI [of _ False] exI [of _ msg] exI [of _ w3]) simp
  qed
qed

section \<open>All payments of a distribution\<close>

definition paid_all :: "UptimeConfig \<Rightarrow> (DailyUptimeRecord \<Rightarrow> bool) \<Rightarrow> DailyUptimeRecord list \<Rightarrow> 'w \<Rightarrow> 'w \<Rightarrow> bool" where
  "paid_all cfg paid ds w w' \<longleftrightarrow>
     db_inv M w' \<and>
     clients M w' = (\<lambda>u. map_option (raise_uptime (earned_in cfg (\<lambda>d. paid d \<and> d_user_principal_id d = u) ds)) (clients M w u)) \<and>
     (\<forall>k. \<not> payment_key k \<longrightarrow> strs M w' k =
       (case find (\<lambda>d. daily_key d = k \<and> paid d) ds of
          Some d \<Rightarrow> Some (VDaily (settle_record cfg d)) | None \<Rightarrow> strs M w k))"

lemma paid_all_Cons:
  assumes one: "paid_world cfg (p d) d w w1" and all: "paid_all cfg paid ds w1 w'"
    and new: "daily_key d \<notin> daily_key ` set ds" and p: "\<And>x. x \<in> set ds \<Longrightarrow> p x = paid x"
  shows "paid_all cfg p (d # ds) w w'"
proof -
  have f: "find (\<lambda>x. daily_key x = k \<and> p x) ds = find (\<lambda>x. daily_key x = k \<and> paid x) ds" for k
    using p by (intro find_cong) auto
  have e: "earned_in cfg (\<lambda>x. p x \<and> d_user_principal_id x = u) ds =
      earned_in cfg (\<lambda>x. paid x \<and> d_user_principal_id x = u) ds" for u
    using p by (intro earned_in_cong) auto
  have none: "find (\<lambda>x. daily_key x = daily_key d \<and> paid x) ds = None"
    using new by (force simp: find_None_iff image_iff)
  show ?thesis
    unfolding paid_all_def
  proof (intro conjI allI impI)
    show "db_inv M w'" using all by (simp add: paid_all_def)
    show "clients M w' = (\<lambda>u. map_option (raise_uptime (earned_in cfg
        (\<lambda>x. p x \<and> d_user_principal_id x = u) (d # ds))) (clients M w u))"
      using one all by (cases "p d") (simp_all add: paid_all_def paid_world_def e option.map_comp o_def fun_eq_iff)
    show "strs M w' k = (case find (\<lambda>x. daily_key x = k \<and> p x) (d # ds) of
        Some x \<Rightarrow> Some (VDaily (settle_record cfg x)) | None \<Rightarrow> strs M w k)" if "\<not> payment_key k" for k
      using one all that none
      by (cases "p d"; cases "k = daily_key d") (simp_all add: paid_all_def paid_world_def f split: option.split)
  qed
qed

lemma pay_fold:
  assumes "db_inv M w" and "distinct (map daily_key ds)"
  shows "\<exists>paid w'. foldA (pay_one M cfg send did now rnd) t (enumerate n ds) w = (Inr (tally_of cfg paid ds t), w') \<and>
    paid_all cfg paid ds w w' \<and> (\<forall>ok. decides send ok \<longrightarrow> (\<forall>d \<in> set ds. paid d = ok (request_of cfg d)))"
  using assms
proof (induction ds arbitrary: w t n)
  case Nil
  then show ?case by (intro exI [of _ "\<lambda>_. True"] exI [of _ w]) (simp add: act_simps tally_of_def paid_all_def)
next
  case (Cons d ds)
  obtain b msg w1 where p: "processUserReward M cfg send d did now (rnd n) w =
      (Inr (if b then Success ((calculateRewards cfg d)\<lparr>cr_dailyRecord := settle_record cfg d\<rparr>)
            else Failure DatabaseFault msg), w1)"
    and pw: "paid_world cfg b d w w1" and b: "\<forall>ok. decides send ok \<longrightarrow> b = ok (request_of cfg d)"
    using pay_effect [OF Cons.prems(1), of cfg d did now "rnd n"] by (elim exE conjE)
  define t1 where "t1 = tally_of cfg (\<lambda>_. b) [d] t"
  have one: "pay_one M cfg send did now rnd t (n, d) w = (Inr t1, w1)"
    by (cases b) (simp_all add: pay_one_def act_simps p t1_def tally_of_def tally_def due_amount_def)
  have inv1: "db_inv M w1" using pw by (simp add: paid_world_def)
  have new: "distinct (map daily_key ds)" "daily_key d \<notin> daily_key ` set ds" using Cons.prems(2) by auto
  obtain paid w' where IH:
      "foldA (pay_one M cfg send did now rnd) t1 (enumerate (Suc n) ds) w1 = (Inr (tally_of cfg paid ds t1), w')"
      "paid_all cfg paid ds w1 w'" "\<forall>ok. decides send ok \<longrightarrow> (\<forall>d \<in> set ds. paid d = ok (request_of cfg d))"
    using Cons.IH [OF inv1 new(1), of t1 "Suc n"] by (elim exE conjE)
  define p where "p = paid(d := b)"
  have ps: "p x = paid x" if "x \<in> set ds" for x
    using new(2) that by (auto simp: p_def)
  have pd: "p d = b" by (simp add: p_def)
  have cong: "filter p ds = filter paid ds" "filter (Not \<circ> p) ds = filter (Not \<circ> paid) ds"
      "earned_in cfg p ds = earned_in cfg paid ds"
    using ps by (auto intro!: filter_cong earned_in_cong)
  have "foldA (pay_one M cfg send did now rnd) t (enumerate n (d # ds)) w = (Inr (tally_of cfg p (d # ds) t), w')"
    using IH(1) cong pd by (simp add: bindA_apply one tally_of_def t1_def)
  moreover have "paid_all cfg p (d # ds) w w'"
    by (rule paid_all_Cons [OF _ IH(2) new(2) ps]) (simp_all add: pw pd)
  moreover have "\<forall>ok. decides send ok \<longrightarrow> (\<forall>x \<in> set (d # ds). p x = ok (request_of cfg x))"
    using b IH(3) ps pd by simp
  ultimately show ?case by (intro exI [of _ p] exI [of _ w'] conjI)
qed

section \<open>A distribution\<close>

definition distributed_world ::
  "UptimeConfig \<Rightarrow> (DailyUptimeRecord \<Rightarrow> bool) \<Rightarrow> 'w \<Rightarrow> 'w \<Rightarrow> bool" where
  "distributed_world cfg paid w w' \<longleftrightarrow>
     db_inv M w' \<and> dailies_typed M w' \<and>
     clients M w' = (\<lambda>u. map_option (raise_uptime (earned_in cfg
       (\<lambda>d. paid d \<and> d_user_principal_id d = u) (due_records M w))) (clients M w u)) \<and>
     (\<forall>k. daily_at M w' k = map_option (\<lambda>d. if is_unprocessed d \<and> paid d then settle_record cfg d else d) (daily_at M w k)) \<and>
     (\<forall>u. strs M w' (UPTIME_ACTIVE u) = strs M w (UPTIME_ACTIVE u))"

lemma distributed_by_payments:
  assumes typed: "dailies_typed M w" and all: "paid_all cfg paid (due_records M w) w1 w2"
    and w1: "\<And>k. is_daily_key k \<or> (\<exists>u. k = UPTIME_ACTIVE u) \<Longrightarrow> strs M w1 k = strs M w k" "clients M w1 = clients M w"
    and w3: "\<And>k. is_daily_key k \<or> (\<exists>u. k = UPTIME_ACTIVE u) \<Longrightarrow> strs M w3 k = strs M w2 k" "clients M w3 = clients M w2"
      "db_inv M w3"
  shows "distributed_world cfg paid w w3"
proof -
  let ?due = "due_records M w"
  have strs: "strs M w3 k = (case find (\<lambda>d. daily_key d = k \<and> paid d) ?due of
      Some d \<Rightarrow> Some (VDaily (settle_record cfg d)) | None \<Rightarrow> strs M w k)" if "is_daily_key k" for k
    using all that daily_not_payment [OF that] w1(1) [of k] w3(1) [of k]
    by (simp add: paid_all_def split: option.split)
  have at: "daily_at M w3 k = map_option (\<lambda>d. if is_unprocessed d \<and> paid d then settle_record cfg d else d) (daily_at M w k)"
    if k: "is_daily_key k" for k
  proof (cases "find (\<lambda>d. daily_key d = k \<and> paid d) ?due")
    case None
    then have "\<not> (is_unprocessed d \<and> paid d)" if "daily_at M w k = Some d" for d
      using that daily_at_key [OF typed that] due_records_set [OF typed, of d] by (auto simp: find_None_iff)
    moreover have "daily_at M w3 k = daily_at M w k" using strs [OF k] None by (simp add: daily_at_def)
    ultimately show ?thesis by (cases "daily_at M w k") auto
  next
    case (Some d)
    then have d: "d \<in> set ?due" "daily_key d = k" "paid d" by (auto simp: find_Some_iff)
    then have "daily_at M w k = Some d" "is_unprocessed d" using due_records_set [OF typed, of d] by auto
    moreover have "daily_at M w3 k = Some (settle_record cfg d)"
      using strs [OF k] Some by (simp add: daily_at_iff k)
    ultimately show ?thesis using d(3) by simp
  qed
  have typed3: "dailies_typed M w3"
    unfolding dailies_typed_def
  proof (intro allI impI)
    fix k v assume k: "is_daily_key k" "strs M w3 k = Some v"
    show "\<exists>d. v = VDaily d \<and> daily_key d = k"
    proof (cases "find (\<lambda>d. daily_key d = k \<and> paid d) ?due")
      case None
      then show ?thesis using k strs [OF k(1)] typed by (simp add: dailies_typed_def)
    next
      case (Some d)
      then have "daily_key d = k" by (auto simp: find_Some_iff)
      then show ?thesis using k strs [OF k(1)] Some by auto
    qed
  qed
  have none: "find (\<lambda>d. daily_key d = UPTIME_ACTIVE u \<and> paid d) ?due = None" for u
    by (auto simp: find_None_iff daily_key_def key_simps)
  have "strs M w3 (UPTIME_ACTIVE u) = strs M w (UPTIME_ACTIVE u)" for u
    using all w1(1) [OF disjI2 [OF exI [of _ u]]] w3(1) [OF disjI2 [OF exI [of _ u]]] none [of u]
    by (simp add: paid_all_def)
  moreover have "daily_at M w3 k = map_option (\<lambda>d. if is_unprocessed d \<and> paid d then settle_record cfg d else d) (daily_at M w k)" for k
    using at [of k] by (cases "is_daily_key k") (simp_all add: daily_at_def)
  ultimately show ?thesis
    using all w1(2) w3(2,3) typed3 by (simp add: distributed_world_def paid_all_def)
qed

lemma run_effect:
  assumes inv: "db_inv M w" and typed: "dailies_typed M w"
  shows "\<exists>paid w'. runRewardDistribution M cfg send now rnd w =
      (Inr (Success (outcome_of cfg paid (due_records M w) (generateDistributionId now (rnd 0)) now)), w') \<and>
    distributed_world cfg paid w w' \<and>
    (\<forall>ok. decides send ok \<longrightarrow> (\<forall>d \<in> set (due_records M w). paid d = ok (request_of cfg d)))"
proof (cases "due_records M w = []")
  case True
  have no: "\<not> is_unprocessed d" if "daily_at M w k = Some d" for k d
    using True due_records_set [OF typed, of d] daily_at_key [OF typed that] that by simp
  have "map_option (\<lambda>d. if is_unprocessed d \<and> True then settle_record cfg d else d) (daily_at M w k) = daily_at M w k" for k
    using no by (cases "daily_at M w k") auto
  then have "distributed_world cfg (\<lambda>_. True) w w"
    using inv typed by (simp add: distributed_world_def True)
  moreover have "runRewardDistribution M cfg send now rnd w =
      (Inr (Success (outcome_of cfg (\<lambda>_. True) [] (generateDistributionId now (rnd 0)) now)), w)"
    by (simp add: runRewardDistribution_def act_simps Let_def getUnprocessed_eq [OF typed] True outcome_of_def)
  ultimately show ?thesis using True by (intro exI [of _ "\<lambda>_. True"] exI [of _ w]) simp
next
  case False
  let ?due = "due_records M w"
  define did where "did = generateDistributionId now (rnd 0)"
  define w1 where "w1 = put M (UPTIME_DISTRIBUTION did) (VDist (distribution_status did DIST_IN_PROGRESS now)) w"
  have inv1: "db_inv M w1" using inv by (simp add: w1_def db_inv_put_foreign)
  obtain paid w2 where f: "foldA (pay_one M cfg send did now rnd) no_tally (enumerate 1 ?due) w1 =
      (Inr (tally_of cfg paid ?due no_tally), w2)" and all: "paid_all cfg paid ?due w1 w2"
    and ok: "\<forall>ok. decides send ok \<longrightarrow> (\<forall>d \<in> set ?due. paid d = ok (request_of cfg d))"
    using pay_fold [OF inv1 due_records_distinct [OF typed], of cfg did now rnd no_tally 1] by (elim exE conjE)
  define st where "st = outcome_of cfg paid ?due did now"
  have st: "st = finished_status (distribution_status did DIST_IN_PROGRESS now) (length ?due) (tally_of cfg paid ?due no_tally) now"
    using False by (simp add: st_def outcome_of_def)
  have sid: "ds_distribution_id st = did" "ds_distribution_id (distribution_status did DIST_IN_PROGRESS now) = did"
    by (simp_all add: st finished_status_def distribution_status_def)
  define w3 where "w3 = put M (UPTIME_DISTRIBUTION did) (VDist st) w2"
  have "runRewardDistribution M cfg send now rnd w = (Inr (Success st), w3)"
    using f False sid
    by (simp add: runRewardDistribution_def act_simps getUnprocessed_eq [OF typed] did_def [symmetric] Let_def
      storeDistributionStatus_def setFileMetadata_def w1_def [symmetric] st [symmetric] w3_def)
  moreover have "distributed_world cfg paid w w3"
  proof (rule distributed_by_payments [OF typed all])
    show "clients M w1 = clients M w" "clients M w3 = clients M w2"
      by (simp_all add: w1_def w3_def clients_put_foreign)
    show "db_inv M w3" using all by (simp add: w3_def db_inv_put_foreign paid_all_def)
    fix k assume "is_daily_key k \<or> (\<exists>u. k = UPTIME_ACTIVE u)"
    then have "k \<noteq> UPTIME_DISTRIBUTION did" by (auto simp: key_simps is_daily_key_def)
    then show "strs M w1 k = strs M w k" "strs M w3 k = strs M w2 k" by (simp_all add: w1_def w3_def strs_put)
  qed
  ultimately show ?thesis using ok unfolding st_def did_def by (intro exI [of _ paid] exI [of _ w3]) simp
qed

end

end
