(* ===== verification/UptimeFacts.thy ===== *)
theory UptimeFacts
  imports RewardFacts
begin

text \<open>
  The effect of the tracker's methods on the active sessions and the daily
  records, and the reachable states of the tracker and the distribution.
\<close>

section \<open>Active sessions\<close>

definition uptime_key :: "string \<Rightarrow> bool" where
  "uptime_key k \<longleftrightarrow> is_daily_key k \<or> (\<exists>u. k = UPTIME_ACTIVE u)"

definition active_at :: "'w redis \<Rightarrow> 'w \<Rightarrow> string \<Rightarrow> UptimeSession option" where
  "active_at M w u = Option.bind (strs M w (UPTIME_ACTIVE u)) as_uptime"

definition actives_typed :: "'w redis \<Rightarrow> 'w \<Rightarrow> bool" where
  "actives_typed M w \<longleftrightarrow> (\<forall>u v. strs M w (UPTIME_ACTIVE u) = Some v \<longrightarrow> (\<exists>s. v = VUptime s \<and> t_user_principal_id s = u))"

lemma uptime_key_simps [simp]:
  "uptime_key (UPTIME_DAILY a b)" "uptime_key (daily_key d)" "uptime_key (UPTIME_ACTIVE u)"
  "\<not> uptime_key (CLIENT u)" "\<not> uptime_key (UPTIME_SESSION s)" "\<not> uptime_key (RELATIONSHIP s)"
  "\<not> uptime_key (REFERRAL_REWARD s)"
  by (auto simp: uptime_key_def is_daily_key_def daily_key_def key_simps)

lemma as_uptime_iff: "as_uptime v = Some s \<longleftrightarrow> v = VUptime s"
  by (cases v) auto

lemma active_at_iff: "active_at M w u = Some s \<longleftrightarrow> strs M w (UPTIME_ACTIVE u) = Some (VUptime s)"
  by (auto simp: active_at_def as_uptime_iff bind_eq_Some_conv)

lemma active_strs: "actives_typed M w \<Longrightarrow> strs M w (UPTIME_ACTIVE u) = map_option VUptime (active_at M w u)"
  by (cases "strs M w (UPTIME_ACTIVE u)") (fastforce simp: actives_typed_def active_at_def)+

lemma active_user: "actives_typed M w \<Longrightarrow> active_at M w u = Some s \<Longrightarrow> t_user_principal_id s = u"
  by (fastforce simp: actives_typed_def active_at_iff)

lemma UPTIME_ACTIVE_inject [simp]: "UPTIME_ACTIVE u = UPTIME_ACTIVE v \<longleftrightarrow> u = v"
  by (simp add: key_simps)

definition heartbeat :: "int \<Rightarrow> rat option \<Rightarrow> rat option \<Rightarrow> UptimeSession \<Rightarrow> UptimeSession" where
  "heartbeat now speed ping s = sampled_ping now ping (sampled_speed now speed (touched now s))"

lemma bind_typed [simp]:
  "Option.bind (map_option VDaily r) as_daily = r" "Option.bind (map_option VUptime a) as_uptime = a"
  by (cases r; simp) (cases a; simp)

text \<open>A world that differs elsewhere has the same sessions and records.\<close>

lemma same_uptime:
  assumes "\<And>k. uptime_key k \<Longrightarrow> strs M w' k = strs M w k"
  shows "active_at M w' = active_at M w" "daily_at M w' = daily_at M w"
    "actives_typed M w' = actives_typed M w" "dailies_typed M w' = dailies_typed M w"
  using assms
  by (auto simp: active_at_def daily_at_def actives_typed_def dailies_typed_def uptime_key_def fun_eq_iff)

text \<open>The referral hook of the tracker: no service, or the method of a referral service.\<close>

definition referral_hook ::
  "'w redis \<Rightarrow> 'w payer \<Rightarrow> (string \<Rightarrow> ('w, Completion24h EntityResult) act) option \<Rightarrow> bool" where
  "referral_hook M send referral \<longleftrightarrow> referral = None \<or>
     (\<exists>rcfg now. referral = Some (\<lambda>u. check24HourCompletion M rcfg send u now))"

section \<open>The referral check keeps away from the uptime data\<close>

context rewarding
begin

definition upkeep :: "string \<Rightarrow> rvalue option \<Rightarrow> 'w \<Rightarrow> bool" where
  "upkeep k x w \<longleftrightarrow> db_inv M w \<and> strs M w k = x"

lemma upkeep_reads [keeps_rules]:
  "preserves (upkeep k x) (GET M k')" "preserves (upkeep k x) (SMEMBERS M k')"
  "preserves (upkeep k x) (parse_as p v)" "preserves (upkeep k x) (getClient M u)"
  "preserves (upkeep k x) (db_failure what e)"
  by (auto simp: preserves_def upkeep_def act_simps db_failure_def getClient_eq [OF db_inv_typed] split: option.split)

lemma upkeep_writes [keeps_rules]:
  "foreign k' \<Longrightarrow> k' \<noteq> k \<Longrightarrow> preserves (upkeep k x) (SET M k' v)"
  "foreign k' \<Longrightarrow> preserves (upkeep k x) (SADD M k' m)"
  "foreign k' \<Longrightarrow> preserves (upkeep k x) (SREM M k' m)"
  by (auto simp: preserves_def upkeep_def db_inv_put_foreign db_inv_addm_foreign db_inv_remm_foreign strs_laws)

lemma upkeep_send [keeps_rules]: "preserves (upkeep k x) (send req)"
  unfolding preserves_def upkeep_def
proof (intro allI impI)
  fix w assume "db_inv M w \<and> strs M w k = x"
  moreover obtain r w' where "send req w = (Inr r, w')" "strs M w' = strs M w" "mems M w' = mems M w"
    by (rule send_result)
  ultimately show "db_inv M (snd (send req w)) \<and> strs M (snd (send req w)) k = x"
    using same_world [of M w' w] by auto
qed

lemma upkeep_credit [keeps_rules]:
  assumes "uptime_key k" and "\<And>c. proper_client_update (f c)"
  shows "preserves (upkeep k x) (credit M u f)"
proof -
  have "k \<noteq> CLIENT u" using assms(1) by auto
  then show ?thesis
    using db_inv_credited [OF _ assms(2)]
    by (auto simp: preserves_def upkeep_def credit_eq [OF db_inv_typed] strs_credited)
qed

lemma upkeep_check24:
  assumes k: "uptime_key k"
  shows "preserves (upkeep k x) (check24HourCompletion M cfg send u now)"
proof -
  have ne: "RELATIONSHIP v \<noteq> k" "REFERRAL_REWARD v \<noteq> k" for v using k by auto
  show ?thesis
    unfolding check24HourCompletion_def getReferralRelationship_def distributeInstallationReward_def
      store_reward_def Let_def
    by (intro keeps_rules ne k proper_points foreign_keys)
qed

lemma upkeep_completion_check [keeps_rules]:
  assumes "uptime_key k" and "referral_hook M send referral"
  shows "preserves (upkeep k x) (completion_check M referral u)"
  using assms(2) unfolding referral_hook_def completion_check_def
  by (elim disjE exE; simp) (intro keeps_rules upkeep_check24 assms(1) | simp)+

lemma completion_check_effect:
  assumes "db_inv M w" and "referral_hook M send referral"
  obtains w' where "completion_check M referral u w = (Inr (), w')" "db_inv M w'"
    "\<And>k. uptime_key k \<Longrightarrow> strs M w' k = strs M w k" "referral = None \<Longrightarrow> w' = w"
proof -
  have "total (completion_check M referral u)"
    by (auto simp: completion_check_def split: option.split)
  then obtain w' where w': "completion_check M referral u w = (Inr (), w')" unfolding total_def by force
  have "upkeep k (strs M w k) w'" if "uptime_key k" for k
    using preservesD [OF upkeep_completion_check [OF that assms(2), of "strs M w k" u], of w] assms(1) w'
    by (simp add: upkeep_def)
  then have "db_inv M w'" "\<And>k. uptime_key k \<Longrightarrow> strs M w' k = strs M w k"
    using uptime_key_simps(3) unfolding upkeep_def by blast+
  moreover have "referral = None \<Longrightarrow> w' = w" using w' by (simp add: completion_check_def act_simps)
  ultimately show ?thesis using that w' by blast
qed

section \<open>The methods of the tracker\<close>

lemma init_effect:
  assumes "db_inv M w"
  shows "\<exists>w' ss. initializeUptimeTracking M ses uid now rnd w = (Inr (Success (newSessionId now rnd), ss), w') \<and>
    db_inv M w' \<and> strs M w' = (strs M w)(UPTIME_ACTIVE uid \<mapsto> VUptime (new_session (newSessionId now rnd) uid now))"
  using assms
  by (auto simp: initializeUptimeTracking_def act_simps Let_def setFileMetadata_def addFileToUserIndex_def
    USER_SESSIONS_def strs_laws db_inv_addm_foreign db_inv_put_foreign)

lemma activity_effect:
  assumes "db_inv M w" and "actives_typed M w"
  shows "\<exists>w' ss. updateClientActivity M ses uid speed ping now w = (Inr (Success (), ss), w') \<and> db_inv M w' \<and>
    strs M w' = (case active_at M w uid of None \<Rightarrow> strs M w
      | Some s \<Rightarrow> (strs M w)(UPTIME_ACTIVE uid \<mapsto> VUptime (heartbeat now speed ping s)))"
  using assms(1) active_strs [OF assms(2), of uid]
  by (cases "active_at M w uid") (auto simp: updateClientActivity_def act_simps Let_def getFileMetadata_def
    setFileMetadata_def heartbeat_def strs_laws db_inv_put_foreign)

lemma sessions_read: "\<exists>ss. getUserSessionsForDate M uid date w = (Inr ss, w)"
proof -
  define step where "step ss sid = bindA (getFileMetadata M (SESSION_KEY uid sid)) (\<lambda>sessionData.
         case present sessionData of
           None \<Rightarrow> returnA ss
         | Some v \<Rightarrow> bindA (parse_as as_uptime v) (\<lambda>session.
             returnA (if t_status session = SES_COMPLETED then ss @ [session] else ss)))"
    for ss :: "UptimeSession list" and sid
  have one: "\<exists>r. step ss sid w = (r, w)" for ss sid
    by (auto simp: step_def act_simps getFileMetadata_def split: option.split)
  have "\<exists>r. foldA step acc ids w = (r, w)" for acc ids
  proof (induction ids arbitrary: acc)
    case (Cons i ids)
    obtain r where "step acc i w = (r, w)" using one by blast
    then show ?case using Cons by (cases r) (simp_all add: bindA_apply)
  qed (simp add: act_simps)
  then obtain r where "foldA step [] (mems M w (USER_SESSIONS uid)) w = (r, w)" by blast
  then show ?thesis
    unfolding getUserSessionsForDate_def step_def [symmetric, abs_def]
    by (cases r) (simp_all add: act_simps getFileIdsFromIndex_def)
qed

lemma daily_effect:
  assumes inv: "db_inv M w" and typed: "dailies_typed M w" and hook: "referral_hook M send referral"
  shows "\<exists>w' ss. updateDailyUptimeRecord M cfg referral uid session now w = (Inr (), w') \<and> db_inv M w' \<and>
    (\<forall>k. uptime_key k \<longrightarrow> strs M w' k = ((strs M w)(UPTIME_DAILY (iso_date now) uid \<mapsto>
       VDaily (case daily_at M w (UPTIME_DAILY (iso_date now) uid) of
         Some d \<Rightarrow> grown_daily cfg session ss now d
       | None \<Rightarrow> new_daily cfg (iso_date now) uid session now))) k) \<and>
    (referral = None \<longrightarrow> clients M w' = clients M w)"
proof -
  define key where "key = UPTIME_DAILY (iso_date now) uid"
  have data: "strs M w key = map_option VDaily (daily_at M w key)"
    by (rule daily_at_typed [OF typed]) (simp add: key_def)
  obtain ss where ss: "getUserSessionsForDate M uid (iso_date now) w = (Inr ss, w)" using sessions_read by blast
  define w1 where "w1 = (case daily_at M w key of
      Some d \<Rightarrow> w
    | None \<Rightarrow> addm M (USER_DAILY uid) (iso_date now) (addm M (UPTIME_DATE_INDEX (iso_date now)) uid w))"
  define rec where "rec = (case daily_at M w key of
      Some d \<Rightarrow> grown_daily cfg session ss now d | None \<Rightarrow> new_daily cfg (iso_date now) uid session now)"
  define w2 where "w2 = put M key (VDaily rec) w1"
  have s1: "strs M w1 = strs M w" "db_inv M w1" "clients M w1 = clients M w"
    using inv same_strs(1) [of M w1 w]
    by (auto simp: w1_def USER_DAILY_def strs_laws db_inv_addm_foreign split: option.split)
  have inv2: "db_inv M w2" using s1(2) by (simp add: w2_def key_def db_inv_put_foreign)
  obtain w' where c: "completion_check M referral uid w2 = (Inr (), w')" "db_inv M w'"
    "\<And>k. uptime_key k \<Longrightarrow> strs M w' k = strs M w2 k" "referral = None \<Longrightarrow> w' = w2"
    using completion_check_effect [OF inv2 hook] by metis
  have "updateDailyUptimeRecord M cfg referral uid session now w = (Inr (), w')"
    using data ss c(1)
    by (cases "daily_at M w key")
       (simp_all add: updateDailyUptimeRecord_def Let_def act_simps key_def [symmetric] getFileMetadata_def
         setFileMetadata_def addFileToUserIndex_def w1_def rec_def w2_def)
  moreover have "strs M w' k = ((strs M w)(key \<mapsto> VDaily rec)) k" if "uptime_key k" for k
    using c(3) [OF that] s1(1) by (simp add: w2_def strs_put)
  moreover have "referral = None \<longrightarrow> clients M w' = clients M w"
    using c(4) s1(3) by (auto simp: w2_def key_def clients_put_foreign)
  ultimately show ?thesis
    using c(2) unfolding rec_def key_def by (intro exI [of _ w'] exI [of _ ss]) simp
qed

lemma finalize_effect:
  assumes inv: "db_inv M w" and typed: "dailies_typed M w" "actives_typed M w" and hook: "referral_hook M send referral"
    and s: "active_at M w uid = Some s"
  shows "\<exists>w' ss ses'. finalizeUptimeSession M cfg referral ses uid reason now w =
      (Inr (Success (Some (finalized now reason s)), ses'), w') \<and> db_inv M w' \<and>
    (\<forall>k. uptime_key k \<longrightarrow> strs M w' k = ((strs M w)(UPTIME_ACTIVE uid := None,
       UPTIME_DAILY (iso_date now) uid \<mapsto> VDaily (case daily_at M w (UPTIME_DAILY (iso_date now) uid) of
         Some d \<Rightarrow> grown_daily cfg (finalized now reason s) ss now d
       | None \<Rightarrow> new_daily cfg (iso_date now) uid (finalized now reason s) now))) k) \<and>
    (referral = None \<longrightarrow> clients M w' = clients M w)"
proof -
  define f where "f = finalized now reason s"
  define w1 where "w1 = put M (SESSION_KEY uid (t_session_id f)) (VUptime f) w"
  define w2 where "w2 = dele M (UPTIME_ACTIVE uid) w1"
  have strs2: "strs M w2 k = ((strs M w)(UPTIME_ACTIVE uid := None)) k" if "uptime_key k" for k
  proof -
    have "k \<noteq> SESSION_KEY uid (t_session_id f)" using that by (auto simp: SESSION_KEY_def)
    then show ?thesis by (simp add: w2_def w1_def strs_laws)
  qed
  have same2: "same_db M w w2"
    unfolding w2_def w1_def by (auto simp: same_db_def strs_laws mems_laws SESSION_KEY_def key_simps)
  have daily2: "daily_at M w2 = daily_at M w"
    using strs2 by (auto simp: daily_at_def uptime_key_def fun_eq_iff is_daily_key_def key_simps)
  have typed2: "dailies_typed M w2"
    using typed(1) strs2 by (simp add: dailies_typed_def uptime_key_def)
  have inv2: "db_inv M w2" using inv same_db_maps(3) [OF same2] by simp
  obtain w' ss where d: "updateDailyUptimeRecord M cfg referral uid f now w2 = (Inr (), w')" "db_inv M w'"
    "\<forall>k. uptime_key k \<longrightarrow> strs M w' k = ((strs M w2)(UPTIME_DAILY (iso_date now) uid \<mapsto>
       VDaily (case daily_at M w2 (UPTIME_DAILY (iso_date now) uid) of
         Some d \<Rightarrow> grown_daily cfg f ss now d | None \<Rightarrow> new_daily cfg (iso_date now) uid f now))) k"
    "referral = None \<longrightarrow> clients M w' = clients M w2"
    using daily_effect [OF inv2 typed2 hook, of cfg uid f now] by (elim exE conjE)
  have "finalizeUptimeSession M cfg referral ses uid reason now w =
      (Inr (Success (Some f), map_delete (t_session_id f) ses), w')"
    using active_strs [OF typed(2), of uid] s d(1)
    by (simp add: finalizeUptimeSession_def act_simps Let_def getFileMetadata_def setFileMetadata_def
      deleteFileMetadata_def f_def [symmetric] w1_def [symmetric] w2_def [symmetric])
  moreover have "strs M w' k = ((strs M w)(UPTIME_ACTIVE uid := None,
       UPTIME_DAILY (iso_date now) uid \<mapsto> VDaily (case daily_at M w (UPTIME_DAILY (iso_date now) uid) of
         Some d \<Rightarrow> grown_daily cfg f ss now d | None \<Rightarrow> new_daily cfg (iso_date now) uid f now))) k"
    if "uptime_key k" for k
    using d(3) strs2 [OF that] that by (simp add: daily2)
  moreover have "referral = None \<longrightarrow> clients M w' = clients M w"
    using d(4) same_db_maps(1) [OF same2] by simp
  ultimately show ?thesis using d(2) unfolding f_def by (intro exI conjI allI impI) (assumption | simp)+
qed

lemma finalize_none:
  assumes "actives_typed M w" and "active_at M w uid = None"
  shows "finalizeUptimeSession M cfg referral ses uid reason now w = (Inr (Success None, ses), w)"
  using active_strs [OF assms(1), of uid] assms(2)
  by (simp add: finalizeUptimeSession_def act_simps getFileMetadata_def)

end

section \<open>Records that are paid for what they show\<close>

text \<open>The minutes paid for are among those counted, and the rewards are those of the minutes paid for.\<close>

definition record_ok :: "UptimeConfig \<Rightarrow> rat \<Rightarrow> DailyUptimeRecord \<Rightarrow> bool" where
  "record_ok cfg B d \<longleftrightarrow>
     0 \<le> d_processed_minutes d \<and> d_processed_minutes d \<le> d_total_minutes d \<and>
     (d_is_processed d \<longrightarrow> d_processed_minutes d = d_total_minutes d) \<and>
     d_base_reward d = d_processed_minutes d * uf_base_reward_rate cfg \<and>
     0 \<le> d_bonus_reward d \<and> d_bonus_reward d \<le> B * d_base_reward d \<and>
     d_total_reward d = d_base_reward d + d_bonus_reward d"

definition config_ok :: "UptimeConfig \<Rightarrow> rat \<Rightarrow> bool" where
  "config_ok cfg B \<longleftrightarrow> 0 \<le> uf_base_reward_rate cfg \<and> 0 \<le> B \<and>
     (\<forall>t \<in> set (uf_performance_tiers cfg). 0 \<le> pf_bonus_rate t \<and> pf_bonus_rate t \<le> B)"

lemma bonus_rate_bounds:
  assumes "config_ok cfg B"
  shows "0 \<le> getTierBonusRate cfg t" "getTierBonusRate cfg t \<le> B"
  using assms by (auto simp: config_ok_def getTierBonusRate_def find_Some_iff split: option.split dest!: nth_mem)

lemma config_ok_default: "config_ok (getDefaultConfig e i l f s) (1/5)"
  by (simp add: config_ok_def getDefaultConfig_def default_tiers_def)

text \<open>A payment is not clamped, and it is what the calculation says.\<close>

lemma due_amount_eq:
  assumes "config_ok cfg B" and "0 \<le> unprocessed_minutes d"
  shows "due_amount cfg d = unprocessed_minutes d * uf_base_reward_rate cfg * (1 + getTierBonusRate cfg (d_tier_level d))"
    "0 \<le> due_amount cfg d"
proof -
  have "0 \<le> unprocessed_minutes d * uf_base_reward_rate cfg"
    using assms by (simp add: config_ok_def)
  moreover have "0 \<le> getTierBonusRate cfg (d_tier_level d)" by (rule bonus_rate_bounds [OF assms(1)])
  ultimately have "0 \<le> unprocessed_minutes d * uf_base_reward_rate cfg * getTierBonusRate cfg (d_tier_level d)"
    by (rule mult_nonneg_nonneg)
  with \<open>0 \<le> unprocessed_minutes d * uf_base_reward_rate cfg\<close>
  show "due_amount cfg d = unprocessed_minutes d * uf_base_reward_rate cfg * (1 + getTierBonusRate cfg (d_tier_level d))"
    "0 \<le> due_amount cfg d"
    by (auto simp: due_amount_def calculateRewards_def Let_def algebra_simps)
qed

lemma unprocessed_simp: "unprocessed_minutes d = d_total_minutes d - d_processed_minutes d"
  by (simp add: unprocessed_minutes_def or_num_def)

lemma record_ok_settled:
  assumes cfg: "config_ok cfg B" and ok: "record_ok cfg B d"
  shows "record_ok cfg B (settle_record cfg d)"
proof -
  define base where "base = unprocessed_minutes d * uf_base_reward_rate cfg"
  define bonus where "bonus = base * getTierBonusRate cfg (d_tier_level d)"
  have base: "0 \<le> base" using cfg ok by (simp add: base_def unprocessed_simp config_ok_def record_ok_def)
  have bonus: "0 \<le> bonus" "bonus \<le> B * base"
    using base bonus_rate_bounds [OF cfg, of "d_tier_level d"] unfolding bonus_def
    by (auto simp: mult.commute [of B] intro: mult_left_mono)
  have "settle_record cfg d = d\<lparr>d_processed_minutes := d_total_minutes d, d_base_reward := d_base_reward d + base,
      d_bonus_reward := d_bonus_reward d + bonus, d_total_reward := d_total_reward d + (base + bonus),
      d_is_processed := True\<rparr>"
    using base bonus(1)
    by (simp add: settle_record_def settled_def calculateRewards_def Let_def base_def [symmetric] bonus_def [symmetric])
  moreover have "d_base_reward d + base = d_total_minutes d * uf_base_reward_rate cfg"
    using ok by (simp add: record_ok_def base_def unprocessed_simp algebra_simps)
  moreover have "d_bonus_reward d + bonus \<le> B * (d_base_reward d + base)"
  proof -
    have "d_bonus_reward d \<le> B * d_base_reward d" using ok unfolding record_ok_def by blast
    then show ?thesis using bonus(2) by (simp add: distrib_left)
  qed
  ultimately show ?thesis
    using ok base bonus(1) by (auto simp: record_ok_def)
qed

lemma minutes_nonneg: "s \<le> t \<Longrightarrow> 0 \<le> minutes_between s t"
  by (simp add: minutes_between_def)

lemma record_ok_new:
  "0 \<le> t_duration_minutes s \<Longrightarrow> record_ok cfg B (new_daily cfg day u s now)"
  by (simp add: record_ok_def new_daily_def)

lemma record_ok_grown:
  "record_ok cfg B d \<Longrightarrow> 0 \<le> t_duration_minutes s \<Longrightarrow> record_ok cfg B (grown_daily cfg s ss now d)"
  by (auto simp: record_ok_def grown_daily_def Let_def)

lemma daily_key_updates [simp]:
  "daily_key (grown_daily cfg s ss now d) = daily_key d" "daily_key (new_daily cfg day u s now) = UPTIME_DAILY day u"
  by (simp_all add: daily_key_def grown_daily_def new_daily_def Let_def)

lemma session_updates [simp]:
  "t_start_time (heartbeat now speed ping s) = t_start_time s"
  "t_user_principal_id (heartbeat now speed ping s) = t_user_principal_id s"
  "t_duration_minutes (finalized now reason s) = minutes_between (t_start_time s) now"
  by (auto simp: heartbeat_def sampled_ping_def sampled_speed_def touched_def finalized_def Let_def split: option.split)

section \<open>Reachable states\<close>

text \<open>
  What the tracker, the distribution and the rest of the server make of a
  store without uptime data, with a clock that does not go back. The rest of
  the server does not write the keys of active sessions and daily records.
\<close>

inductive uptime_reachable :: "'w redis \<Rightarrow> UptimeConfig \<Rightarrow> 'w \<Rightarrow> int \<Rightarrow> bool" for M cfg where
  fresh: "uptime_reachable M cfg w t"
    if "db_inv M w" "\<And>k. uptime_key k \<Longrightarrow> strs M w k = None"
| connect: "uptime_reachable M cfg w' now"
    if "uptime_reachable M cfg w t" "t \<le> now" "initializeUptimeTracking M ses uid now rnd w = (r, w')"
| activity: "uptime_reachable M cfg w' now"
    if "uptime_reachable M cfg w t" "t \<le> now" "updateClientActivity M ses uid speed ping now w = (r, w')"
| disconnect: "uptime_reachable M cfg w' now"
    if "uptime_reachable M cfg w t" "t \<le> now" "payout M send" "referral_hook M send referral"
      "finalizeUptimeSession M cfg referral ses uid reason now w = (r, w')"
| distribute: "uptime_reachable M cfg w' now"
    if "uptime_reachable M cfg w t" "t \<le> now" "payout M send" "runRewardDistribution M cfg send now rnds w = (r', w')"
| elsewhere: "uptime_reachable M cfg w' now"
    if "uptime_reachable M cfg w t" "t \<le> now" "db_inv M w'" "\<And>k. uptime_key k \<Longrightarrow> strs M w' k = strs M w k"

definition uptime_inv :: "'w redis \<Rightarrow> UptimeConfig \<Rightarrow> rat \<Rightarrow> 'w \<Rightarrow> int \<Rightarrow> bool" where
  "uptime_inv M cfg B w t \<longleftrightarrow> db_inv M w \<and> dailies_typed M w \<and> actives_typed M w \<and>
     (\<forall>k d. daily_at M w k = Some d \<longrightarrow> record_ok cfg B d) \<and>
     (\<forall>u s. active_at M w u = Some s \<longrightarrow> t_start_time s \<le> t)"

text \<open>The invariant of a store in which the keys of one user's session and record changed.\<close>

lemma uptime_inv_step:
  assumes inv: "uptime_inv M cfg B w t" and "t \<le> now" and "db_inv M w'"
    and strs: "\<And>k. uptime_key k \<Longrightarrow> strs M w' k = (if k = UPTIME_ACTIVE u then map_option VUptime a
        else if k = key then map_option VDaily r else strs M w k)"
    and key: "is_daily_key key"
    and a: "\<And>s. a = Some s \<Longrightarrow> t_user_principal_id s = u \<and> t_start_time s \<le> now"
    and r: "\<And>d. r = Some d \<Longrightarrow> daily_key d = key \<and> record_ok cfg B d"
  shows "uptime_inv M cfg B w' now"
proof -
  have ne: "key \<noteq> UPTIME_ACTIVE v" for v using key by auto
  have d: "daily_at M w' = (daily_at M w)(key := r)"
    using strs key by (auto simp: daily_at_def fun_eq_iff uptime_key_def as_daily_iff split: if_splits)
  have ac: "active_at M w' = (active_at M w)(u := a)"
    using strs ne by (auto simp: active_at_def fun_eq_iff)
  have "dailies_typed M w'"
    unfolding dailies_typed_def
  proof (intro allI impI)
    fix k v assume k: "is_daily_key k" "strs M w' k = Some v"
    then have "k \<noteq> UPTIME_ACTIVE u" by auto
    then show "\<exists>d. v = VDaily d \<and> daily_key d = k"
      using k strs [of k] inv r by (auto simp: uptime_key_def uptime_inv_def dailies_typed_def split: if_splits)
  qed
  moreover have "actives_typed M w'"
    using strs inv a ne by (auto simp: actives_typed_def uptime_inv_def split: if_splits)
  ultimately show ?thesis
    using inv assms(2,3) a r unfolding uptime_inv_def d ac by (auto split: if_splits) (meson order_trans)
qed

lemma uptime_inv_same:
  assumes "uptime_inv M cfg B w t" and "t \<le> now" and "db_inv M w'"
    and "\<And>k. uptime_key k \<Longrightarrow> strs M w' k = strs M w k"
  shows "uptime_inv M cfg B w' now"
proof -
  have "active_at M w' = active_at M w" "daily_at M w' = daily_at M w"
    "actives_typed M w' = actives_typed M w" "dailies_typed M w' = dailies_typed M w"
    using assms(4) by (auto intro!: same_uptime)
  then show ?thesis using assms(1-3) unfolding uptime_inv_def by auto (meson order_trans)
qed

context rewarding
begin

lemma uptime_inv_connect:
  assumes "uptime_inv M cfg B w t" and "t \<le> now"
    and run: "initializeUptimeTracking M ses uid now rnd w = (r, w')"
  shows "uptime_inv M cfg B w' now"
proof -
  have db: "db_inv M w" using assms(1) by (simp add: uptime_inv_def)
  obtain w1 ss where "initializeUptimeTracking M ses uid now rnd w = (Inr (Success (newSessionId now rnd), ss), w1)"
    "db_inv M w1" "strs M w1 = (strs M w)(UPTIME_ACTIVE uid \<mapsto> VUptime (new_session (newSessionId now rnd) uid now))"
    using init_effect [OF db] by blast
  then show ?thesis
    using run by (intro uptime_inv_step [OF assms(1,2), where u = uid and key = "UPTIME_DAILY [] []" and
          a = "Some (new_session (newSessionId now rnd) uid now)" and r = "daily_at M w (UPTIME_DAILY [] [])"])
      (use assms(1) in \<open>auto simp: new_session_def uptime_inv_def daily_at_typed daily_at_key\<close>)
qed

lemma uptime_inv_activity:
  assumes "uptime_inv M cfg B w t" and "t \<le> now"
    and run: "updateClientActivity M ses uid speed ping now w = (r, w')"
  shows "uptime_inv M cfg B w' now"
proof -
  have db: "db_inv M w" "actives_typed M w" using assms(1) by (simp_all add: uptime_inv_def)
  obtain w1 ss where w1: "updateClientActivity M ses uid speed ping now w = (Inr (Success (), ss), w1)" "db_inv M w1"
    "strs M w1 = (case active_at M w uid of None \<Rightarrow> strs M w
      | Some s \<Rightarrow> (strs M w)(UPTIME_ACTIVE uid \<mapsto> VUptime (heartbeat now speed ping s)))"
    using activity_effect [OF db] by blast
  have strs: "strs M w1 = (strs M w)(UPTIME_ACTIVE uid :=
      map_option VUptime (map_option (heartbeat now speed ping) (active_at M w uid)))"
    using w1(3) active_strs [OF db(2), of uid] by (cases "active_at M w uid") (auto simp: fun_eq_iff)
  have s: "t_user_principal_id s = uid \<and> t_start_time s \<le> now" if "active_at M w uid = Some s" for s
    using assms(1,2) that active_user [OF db(2) that] by (force simp: uptime_inv_def)
  show ?thesis
    using run w1(1,2) s strs by (intro uptime_inv_step [OF assms(1,2), where u = uid and key = "UPTIME_DAILY [] []" and
          a = "map_option (heartbeat now speed ping) (active_at M w uid)" and r = "daily_at M w (UPTIME_DAILY [] [])"])
      (use assms(1) in \<open>auto simp: uptime_inv_def daily_at_typed daily_at_key\<close>)
qed

lemma uptime_inv_disconnect:
  assumes "uptime_inv M cfg B w t" and "t \<le> now" and hook: "referral_hook M send referral"
    and run: "finalizeUptimeSession M cfg referral ses uid reason now w = (r, w')"
  shows "uptime_inv M cfg B w' now"
proof -
  have inv: "db_inv M w" "dailies_typed M w" "actives_typed M w" using assms(1) by (simp_all add: uptime_inv_def)
  show ?thesis
  proof (cases "active_at M w uid")
    case None
    then have "w' = w" using finalize_none [OF inv(3) None] run by simp
    then show ?thesis using uptime_inv_same [OF assms(1,2) inv(1)] by simp
  next
    case (Some s)
    let ?f = "finalized now reason s"
    let ?key = "UPTIME_DAILY (iso_date now) uid"
    obtain w1 ss ses' where w1: "finalizeUptimeSession M cfg referral ses uid reason now w = (Inr (Success (Some ?f), ses'), w1)"
      "db_inv M w1" "\<forall>k. uptime_key k \<longrightarrow> strs M w1 k = ((strs M w)(UPTIME_ACTIVE uid := None,
         ?key \<mapsto> VDaily (case daily_at M w ?key of Some d \<Rightarrow> grown_daily cfg ?f ss now d
           | None \<Rightarrow> new_daily cfg (iso_date now) uid ?f now))) k"
      using finalize_effect [OF inv hook Some] by blast
    have dur: "0 \<le> t_duration_minutes ?f"
      using assms(1,2) Some by (fastforce simp: uptime_inv_def intro: minutes_nonneg order_trans)
    have "daily_key d = ?key" "record_ok cfg B d" if "daily_at M w ?key = Some d" for d
      using that assms(1) daily_at_key [OF inv(2) that] by (auto simp: uptime_inv_def)
    then have r: "daily_key d = ?key \<and> record_ok cfg B d"
      if "Some (case daily_at M w ?key of Some d \<Rightarrow> grown_daily cfg ?f ss now d
         | None \<Rightarrow> new_daily cfg (iso_date now) uid ?f now) = Some d" for d
      using that dur by (auto simp: record_ok_new record_ok_grown split: option.splits)
    have ne: "?key \<noteq> UPTIME_ACTIVE uid" by (simp add: key_simps)
    have "db_inv M w'" using run w1 by simp
    moreover have "strs M w' k = (if k = UPTIME_ACTIVE uid then map_option VUptime None
        else if k = ?key then map_option VDaily (Some (case daily_at M w ?key of Some d \<Rightarrow> grown_daily cfg ?f ss now d
           | None \<Rightarrow> new_daily cfg (iso_date now) uid ?f now)) else strs M w k)" if "uptime_key k" for k
      using run w1 ne that by auto
    ultimately show ?thesis
      by (rule uptime_inv_step [OF assms(1,2) _ _ _ _ r]) simp_all
  qed
qed

lemma uptime_inv_distribute:
  assumes "uptime_inv M cfg B w t" and "t \<le> now" and cfg: "config_ok cfg B"
    and run: "runRewardDistribution M cfg send now rnds w = (r, w')"
  shows "uptime_inv M cfg B w' now"
proof -
  have inv: "db_inv M w" "dailies_typed M w" using assms(1) by (simp_all add: uptime_inv_def)
  obtain paid where "distributed_world cfg paid w w'"
    using run_effect [OF inv, of cfg now rnds] run by auto
  then have d: "db_inv M w'" "dailies_typed M w'"
    "\<And>k. daily_at M w' k = map_option (\<lambda>d. if is_unprocessed d \<and> paid d then settle_record cfg d else d) (daily_at M w k)"
    "\<And>u. strs M w' (UPTIME_ACTIVE u) = strs M w (UPTIME_ACTIVE u)"
    by (simp_all add: distributed_world_def)
  have "active_at M w' = active_at M w" "actives_typed M w' = actives_typed M w"
    using d(4) by (simp_all add: active_at_def actives_typed_def fun_eq_iff)
  then show ?thesis
    using assms(1,2) d(1-3) record_ok_settled [OF cfg] by (fastforce simp: uptime_inv_def intro: order_trans)
qed

section \<open>Distributions of a ledger that decides by the request\<close>

lemma earned_in_none: "(\<And>d. d \<in> set ds \<Longrightarrow> \<not> p d) \<Longrightarrow> earned_in cfg p ds = 0"
  by (induction ds) auto

lemma run_decided:
  assumes "db_inv M w" and "dailies_typed M w" and "decides send ok"
  shows "\<exists>w'. runRewardDistribution M cfg send now rnd w = (Inr (Success (outcome_of cfg (\<lambda>d. ok (request_of cfg d))
        (due_records M w) (generateDistributionId now (rnd 0)) now)), w') \<and>
    distributed_world cfg (\<lambda>d. ok (request_of cfg d)) w w'"
proof -
  obtain paid w' where run: "runRewardDistribution M cfg send now rnd w = (Inr (Success (outcome_of cfg paid
        (due_records M w) (generateDistributionId now (rnd 0)) now)), w')" "distributed_world cfg paid w w'"
    and "\<forall>ok. decides send ok \<longrightarrow> (\<forall>d \<in> set (due_records M w). paid d = ok (request_of cfg d))"
    using run_effect [OF assms(1,2), of cfg now rnd] by (elim exE conjE)
  then have p: "paid d = ok (request_of cfg d)" if "d \<in> set (due_records M w)" for d using assms(3) that by blast
  have o: "outcome_of cfg paid (due_records M w) did now = outcome_of cfg (\<lambda>d. ok (request_of cfg d)) (due_records M w) did now" for did
    using p by (simp add: outcome_of_def tally_of_def cong: filter_cong earned_in_cong)
  have e: "earned_in cfg (\<lambda>d. paid d \<and> d_user_principal_id d = u) (due_records M w) =
      earned_in cfg (\<lambda>d. ok (request_of cfg d) \<and> d_user_principal_id d = u) (due_records M w)" for u
    by (rule earned_in_cong) (simp add: p)
  have d: "map_option (\<lambda>d. if is_unprocessed d \<and> paid d then settle_record cfg d else d) (daily_at M w k) =
      map_option (\<lambda>d. if is_unprocessed d \<and> ok (request_of cfg d) then settle_record cfg d else d) (daily_at M w k)" for k
    using p due_records_set [OF assms(2)] daily_at_key [OF assms(2), of k] by (cases "daily_at M w k") auto
  show ?thesis
    using run unfolding o distributed_world_def e d by blast
qed

text \<open>What is still due after a distribution is what the ledger refused, and is refused again.\<close>

lemma second_run:
  assumes "db_inv M w" and "dailies_typed M w" and "decides send ok"
    and "distributed_world cfg (\<lambda>d. ok (request_of cfg d)) w w'"
  shows "clients M (snd (runRewardDistribution M cfg send now2 rnd2 w')) = clients M w'"
proof -
  have w': "db_inv M w'" "dailies_typed M w'"
    "\<And>k. daily_at M w' k = map_option (\<lambda>d. if is_unprocessed d \<and> ok (request_of cfg d) then settle_record cfg d else d) (daily_at M w k)"
    using assms(4) by (simp_all add: distributed_world_def)
  have refused: "\<not> ok (request_of cfg d)" if "d \<in> set (due_records M w')" for d
  proof -
    have d: "daily_at M w' (daily_key d) = Some d" "is_unprocessed d"
      using that by (simp_all add: due_records_set [OF w'(2)])
    then obtain d0 where d0: "d = (if is_unprocessed d0 \<and> ok (request_of cfg d0) then settle_record cfg d0 else d0)"
      using w'(3) [of "daily_key d"] by auto
    show ?thesis
    proof (cases "is_unprocessed d0 \<and> ok (request_of cfg d0)")
      case True
      then have "d = settle_record cfg d0" using d0 by simp
      then show ?thesis using d(2) settle_record_simps(2) [of cfg d0] by metis
    qed (use d0 d(2) in auto)
  qed
  obtain w2 where "runRewardDistribution M cfg send now2 rnd2 w' = (Inr (Success (outcome_of cfg (\<lambda>d. ok (request_of cfg d))
        (due_records M w') (generateDistributionId now2 (rnd2 0)) now2)), w2)"
    "distributed_world cfg (\<lambda>d. ok (request_of cfg d)) w' w2"
    using run_decided [OF w'(1,2) assms(3)] by blast
  then show ?thesis
    using refused by (simp add: distributed_world_def earned_in_none option.map_id0 [unfolded id_def])
qed

lemma filter_paid: "length (filter (Not \<circ> paid) ds) = 0 \<longleftrightarrow> (\<forall>d \<in> set ds. paid d)"
  by (auto simp: filter_empty_conv)

lemma distribution_effect:
  assumes "db_inv M w" and "dailies_typed M w" and "decides send ok"
    and "runRewardDistribution M cfg send now rnd w = (r, w')"
  shows "let due = due_records M w; paid = (\<lambda>d. ok (request_of cfg d)) in
    (\<exists>st. r = Inr (Success st) \<and> ds_total_users st = int (length due) \<and>
       ds_total_rewards_distributed st = earned_in cfg paid due \<and>
       ds_status st = (if due = [] then DIST_SKIPPED else if \<forall>d \<in> set due. paid d then DIST_COMPLETED else DIST_FAILED)) \<and>
    (\<forall>k. daily_at M w' k = map_option (\<lambda>d. if is_unprocessed d \<and> paid d then settle_record cfg d else d) (daily_at M w k)) \<and>
    clients M w' = (\<lambda>u. map_option (raise_uptime (earned_in cfg (\<lambda>d. paid d \<and> d_user_principal_id d = u) due)) (clients M w u)) \<and>
    (\<forall>now2 rnd2. clients M (snd (runRewardDistribution M cfg send now2 rnd2 w')) = clients M w')"
proof -
  obtain w1 where run: "runRewardDistribution M cfg send now rnd w = (Inr (Success (outcome_of cfg (\<lambda>d. ok (request_of cfg d))
        (due_records M w) (generateDistributionId now (rnd 0)) now)), w1)"
    and "distributed_world cfg (\<lambda>d. ok (request_of cfg d)) w w1"
    using run_decided [OF assms(1-3)] by blast
  then have w': "distributed_world cfg (\<lambda>d. ok (request_of cfg d)) w w'" using assms(4) by simp
  have st: "ds_total_users (outcome_of cfg p ds did now) = int (length ds)"
    "ds_total_rewards_distributed (outcome_of cfg p ds did now) = earned_in cfg p ds"
    "ds_status (outcome_of cfg p ds did now) =
      (if ds = [] then DIST_SKIPPED else if \<forall>d \<in> set ds. p d then DIST_COMPLETED else DIST_FAILED)" for p ds did
    using filter_paid [of p ds]
    by (auto simp: outcome_of_def finished_status_def distribution_status_def tally_of_def no_tally_def filter_empty_conv)
  show ?thesis
    unfolding Let_def
  proof (intro conjI)
    show "\<exists>st. r = Inr (Success st) \<and> ds_total_users st = int (length (due_records M w)) \<and>
       ds_total_rewards_distributed st = earned_in cfg (\<lambda>d. ok (request_of cfg d)) (due_records M w) \<and>
       ds_status st = (if due_records M w = [] then DIST_SKIPPED
         else if \<forall>d \<in> set (due_records M w). ok (request_of cfg d) then DIST_COMPLETED else DIST_FAILED)"
      using run assms(4) by (simp add: st)
  qed (use w' second_run [OF assms(1-3) w'] in \<open>auto simp: distributed_world_def\<close>)
qed

section \<open>A session that ends and is paid for\<close>

lemma due_single:
  assumes "dailies_typed M w" and "\<And>d. daily_at M w (daily_key d) = Some d \<and> is_unprocessed d \<longleftrightarrow> d = d0"
  shows "due_records M w = [d0]"
proof -
  have "set (due_records M w) = {d0}" using due_records_set [OF assms(1)] assms(2) by auto
  moreover have "distinct (due_records M w)"
    using due_records_distinct [OF assms(1)] by (simp add: distinct_map)
  ultimately show ?thesis by (cases "due_records M w" rule: remdups_adj.cases) auto
qed

lemma shown_effect:
  assumes inv: "db_inv M w" "dailies_typed M w" "actives_typed M w" and cfg: "config_ok cfg B"
    and s: "active_at M w uid = Some s" and start: "t_start_time s < now" and live: "now - t_last_activity_time s < maxInactivityAge"
    and fresh: "daily_at M w (UPTIME_DAILY (iso_date now) uid) = None" "due_records M w = []"
    and accepts: "decides send (\<lambda>_. True)"
    and shown: "calculateActiveSessionRewards M cfg uid now w = (rs, w0)"
    and ended: "finalizeUptimeSession M cfg None ses uid reason now w = (rf, w1)"
    and paid: "runRewardDistribution M cfg send later rnd w1 = (rd, w2)"
  shows "\<exists>ar. rs = Inr (Success ar) \<and> ar_isOnline ar \<and>
    ar_totalReward ar = minutes_between (t_start_time s) now * uf_base_reward_rate cfg
      * (1 + getTierBonusRate cfg (determineTier cfg (t_avg_speed s) (t_avg_ping s))) \<and>
    clients M w2 = (clients M w)(uid := map_option (raise_uptime (ar_totalReward ar)) (clients M w uid))"
proof -
  define ar where "ar = active_rewards cfg s now"
  define f where "f = finalized now reason s"
  define key where "key = UPTIME_DAILY (iso_date now) uid"
  define d where "d = new_daily cfg (iso_date now) uid f now"
  have rs: "rs = Inr (Success ar)"
    using shown active_strs [OF inv(3), of uid] s
    by (simp add: calculateActiveSessionRewards_def act_simps getFileMetadata_def ar_def)
  obtain w1' ss ses' where "finalizeUptimeSession M cfg None ses uid reason now w = (Inr (Success (Some f), ses'), w1')"
    "db_inv M w1'" "\<forall>k. uptime_key k \<longrightarrow> strs M w1' k = ((strs M w)(UPTIME_ACTIVE uid := None, key \<mapsto> VDaily d)) k"
    "clients M w1' = clients M w"
    using finalize_effect [OF inv _ s, of None cfg ses reason now] fresh(1)
    by (auto simp: referral_hook_def f_def key_def d_def)
  then have w1: "db_inv M w1" "\<forall>k. uptime_key k \<longrightarrow> strs M w1 k = ((strs M w)(UPTIME_ACTIVE uid := None, key \<mapsto> VDaily d)) k"
    "clients M w1 = clients M w"
    using ended by auto
  have ne: "UPTIME_ACTIVE uid \<noteq> k" if "is_daily_key k" for k using that by auto
  have at: "daily_at M w1 = (daily_at M w)(key \<mapsto> d)"
    using w1(2) ne by (auto simp: daily_at_def uptime_key_def key_def fun_eq_iff)
  have dk: "daily_key d = key" by (simp add: d_def key_def)
  have typed: "dailies_typed M w1"
    using w1(2) inv(2) dk ne by (auto simp: dailies_typed_def uptime_key_def)
  have minutes: "unprocessed_minutes d = minutes_between (t_start_time s) now" "0 < minutes_between (t_start_time s) now"
    using start by (simp_all add: d_def new_daily_def f_def unprocessed_simp minutes_between_def)
  have un: "is_unprocessed d" using minutes by (simp add: is_unprocessed_def d_def new_daily_def)
  have due: "due_records M w1 = [d]"
  proof (rule due_single [OF typed])
    fix x
    have "\<not> (daily_at M w (daily_key x) = Some x \<and> is_unprocessed x)"
      using due_records_set [OF inv(2), of x] fresh(2) by simp
    then show "daily_at M w1 (daily_key x) = Some x \<and> is_unprocessed x \<longleftrightarrow> x = d"
      using at dk un by auto
  qed
  have user: "d_user_principal_id d = uid" by (simp add: d_def new_daily_def)
  have tier: "d_tier_level d = determineTier cfg (t_avg_speed s) (t_avg_ping s)"
    by (simp add: d_def new_daily_def f_def finalized_def)
  have amount: "due_amount cfg d = minutes_between (t_start_time s) now * uf_base_reward_rate cfg
      * (1 + getTierBonusRate cfg (determineTier cfg (t_avg_speed s) (t_avg_ping s)))"
    using due_amount_eq(1) [OF cfg, of d] minutes by (simp add: tier)
  have total: "ar_isOnline ar" "ar_totalReward ar = due_amount cfg d"
    using live by (simp_all add: ar_def active_rewards_def Let_def amount distrib_left)
  have "clients M w2 = (\<lambda>u. map_option (raise_uptime (earned_in cfg (\<lambda>x. True \<and> d_user_principal_id x = u) [d])) (clients M w1 u))"
    using distribution_effect [OF w1(1) typed accepts paid] by (simp add: Let_def due)
  then have "clients M w2 = (clients M w)(uid := map_option (raise_uptime (ar_totalReward ar)) (clients M w uid))"
    by (auto simp: user w1(3) total(2) fun_eq_iff)
  then show ?thesis using rs total amount by auto
qed

end

section \<open>The invariant of the reachable states\<close>

lemma rewarding_ledgerless:
  assumes "redis_up M"
  shows "rewarding M (sendRewardTransaction dummy_service no_ledger (\<lambda>_. []) 0)"
  by (intro rewarding.intro assms payout_send no_ledger_separate)

lemma uptime_inv_reachable:
  assumes "redis_up M" and "config_ok cfg B" and "uptime_reachable M cfg w t"
  shows "uptime_inv M cfg B w t"
  using assms(3)
proof induction
  case (fresh w t)
  then have no: "strs M w (UPTIME_ACTIVE u) = None" "is_daily_key k \<Longrightarrow> strs M w k = None" for u k
    by (auto simp: uptime_key_def)
  show ?case
    using fresh(1) by (auto simp: uptime_inv_def dailies_typed_def actives_typed_def daily_at_def active_at_def no split: if_splits)
next
  case (connect w t now ses uid rnd r w')
  show ?case by (rule rewarding.uptime_inv_connect [OF rewarding_ledgerless [OF assms(1)] connect.IH connect.hyps(2,3)])
next
  case (activity w t now ses uid speed ping r w')
  show ?case by (rule rewarding.uptime_inv_activity [OF rewarding_ledgerless [OF assms(1)] activity.IH activity.hyps(2,3)])
next
  case (disconnect w t now send referral ses uid reason r w')
  have "rewarding M send" using assms(1) disconnect.hyps(3) by (rule rewarding.intro)
  then show ?case by (rule rewarding.uptime_inv_disconnect [OF _ disconnect.IH disconnect.hyps(2,4,5)])
next
  case (distribute w t now send rnds r' w')
  have "rewarding M send" using assms(1) distribute.hyps(3) by (rule rewarding.intro)
  then show ?case by (rule rewarding.uptime_inv_distribute [OF _ distribute.IH distribute.hyps(2) assms(2) distribute.hyps(4)])
next
  case (elsewhere w t now w')
  show ?case by (rule uptime_inv_same [OF elsewhere.IH elsewhere.hyps(2,3,4)])
qed

end
