(* ===== verification/ScheduleFacts.thy ===== *)
theory ScheduleFacts
  imports UptimeFacts
begin

text \<open>
  The effect of the weekly referral distribution and of the monthly reset of
  the caps, and the schedules of the two services.
\<close>

section \<open>Keys with colons\<close>

lemma colon_split:
  assumes "a @ CHR '':'' # b = c @ CHR '':'' # d" and "CHR '':'' \<notin> set a" and "CHR '':'' \<notin> set c"
  shows "a = c \<and> b = d"
  using assms
proof (induction a arbitrary: c)
  case Nil
  then show ?case by (cases c) auto
next
  case (Cons x a)
  then show ?case by (cases c) auto
qed

lemma split_colon_ne [simp]: "split_colon s \<noteq> []"
  by (induction s) (auto split: list.split)

lemma split_colon_part: "CHR '':'' \<notin> set a \<Longrightarrow> split_colon (a @ CHR '':'' # s) = a # split_colon s"
  by (induction a) auto

lemma split_colon_last: "CHR '':'' \<notin> set a \<Longrightarrow> split_colon a = [a]"
  by (induction a) auto

text \<open>The month in the key of a cap record.\<close>

lemma month_of_cap_key:
  assumes "CHR '':'' \<notin> set u" and "CHR '':'' \<notin> set m"
  shows "month_of_key (MONTHLY_CAP u m) = Some m"
proof -
  have "MONTHLY_CAP u m = ''referral'' @ CHR '':'' # ''cap'' @ CHR '':'' # u @ CHR '':'' # m"
    by (simp add: key_simps)
  then have "split_colon (MONTHLY_CAP u m) = [''referral'', ''cap'', u, m]"
    using assms by (simp only: split_colon_part split_colon_last) (simp add: split_colon_part split_colon_last)
  then show ?thesis by (simp add: month_of_key_def)
qed

section \<open>The weekly distribution\<close>

text \<open>
  The records are stored under \<open>uptime:daily:{date}:{user}\<close>, the weekly
  distribution reads \<open>uptime:daily:{user}:{date}\<close>.
\<close>

lemma weekly_key_absent:
  assumes "dailies_typed M w" and "CHR '':'' \<notin> set u"
    and "\<And>k d. daily_at M w k = Some d \<Longrightarrow> CHR '':'' \<notin> set (d_date d) \<and> d_date d \<noteq> u"
  shows "strs M w (UPTIME_DAILY u day) = None"
proof (rule ccontr)
  assume "strs M w (UPTIME_DAILY u day) \<noteq> None"
  then obtain v where v: "strs M w (UPTIME_DAILY u day) = Some v" by blast
  then obtain d where d: "v = VDaily d" "daily_key d = UPTIME_DAILY u day"
    using assms(1) unfolding dailies_typed_def by (metis daily_key_simps(1))
  then have "daily_at M w (UPTIME_DAILY u day) = Some d" using v by (simp add: daily_at_iff)
  then have "CHR '':'' \<notin> set (d_date d)" "d_date d \<noteq> u" using assms(3) by blast+
  moreover have "d_date d @ CHR '':'' # d_user_principal_id d = u @ CHR '':'' # day"
    using d(2) by (simp add: daily_key_def key_simps)
  ultimately show False using colon_split assms(2) by blast
qed

context redis_up
begin

lemma weekly_data_empty:
  assumes "\<And>day. strs M w (UPTIME_DAILY u day) = None"
  shows "getWeeklyUptimeData M u now w = (Inr (Success (0, 0)), w)"
proof -
  have "foldA (\<lambda>(totalMinutes, earnedPoints) dateStr.
          bindA (GET M (UPTIME_DAILY u dateStr)) (\<lambda>recordData.
          bindA (parse_opt as_daily recordData) (\<lambda>record. returnA (case record of
              None \<Rightarrow> (totalMinutes, earnedPoints)
            | Some d \<Rightarrow> (totalMinutes + d_total_minutes d, earnedPoints + or_num (d_total_reward d) 0)))))
        acc ds w = (Inr acc, w)" for acc ds
    by (induction ds) (auto simp: act_simps parse_opt_def assms split: prod.split)
  then show ?thesis by (simp add: getWeeklyUptimeData_def act_simps)
qed

lemma weekly_effect:
  assumes typed: "dailies_typed M w" and req: "0 < required_minutes cfg"
    and users: "\<And>u. RELATIONSHIP u \<in> set (allkeys M w) \<Longrightarrow> CHR '':'' \<notin> set u \<and>
      (\<forall>k d. daily_at M w k = Some d \<longrightarrow> CHR '':'' \<notin> set (d_date d) \<and> d_date d \<noteq> u)"
  shows "processWeeklyUptimeRewards M cfg send now w =
    (Inr (distribution_result WEEKLY_UPTIME ''weekly_uptime_'' now), w)"
proof -
  let ?keys = "filter (prefix RELATIONSHIP_PREFIX) (allkeys M w)"
  have one: "weekly_reward M cfg send now result k w = (Inr result, w)" if "k \<in> set ?keys" for k result
  proof -
    have "prefix RELATIONSHIP_PREFIX k" using that by simp
    then obtain u where k: "k = RELATIONSHIP_PREFIX @ u" by (rule prefixE)
    then have "RELATIONSHIP u = k" by (simp add: key_simps)
    then have u: "CHR '':'' \<notin> set u" "\<And>k d. daily_at M w k = Some d \<Longrightarrow> CHR '':'' \<notin> set (d_date d) \<and> d_date d \<noteq> u"
      using users [of u] that by auto
    have "getWeeklyUptimeData M u now w = (Inr (Success (0, 0)), w)"
      by (rule weekly_data_empty) (rule weekly_key_absent [OF typed u])
    then show ?thesis using req by (simp add: weekly_reward_def k act_simps Let_def)
  qed
  have "foldA (weekly_reward M cfg send now) result ?keys w = (Inr result, w)" for result
  proof -
    have "foldl (\<lambda>s _. s) result ks = result" for ks :: "string list" by (induction ks) auto
    then show ?thesis
      using foldA_pure [of ?keys "weekly_reward M cfg send now" w "\<lambda>s _. s" result] one by simp
  qed
  then show ?thesis by (simp add: processWeeklyUptimeRewards_def act_simps Let_def)
qed

section \<open>The reset of the caps\<close>

lemma reset_fold:
  "foldA (reset_cap M now) result ks w =
     (Inr (result\<lparr>rd_processed_count := rd_processed_count result + int (length (filter (outdated now) ks))\<rparr>),
      fold (dele M) (filter (outdated now) ks) w)"
  by (induction ks arbitrary: result w) (auto simp: act_simps reset_cap_def)

lemma strs_fold_dele: "strs M (fold (dele M) ks w) k = (if k \<in> set ks then None else strs M w k)"
  by (induction ks arbitrary: w) (auto simp: strs_dele)

lemma reset_effect:
  "\<exists>r w'. resetMonthlyCaps M now w = (Inr r, w') \<and> rd_errors r = [] \<and>
     rd_processed_count r = int (length (filter (outdated now) (filter (prefix MONTHLY_CAP_PREFIX) (allkeys M w)))) \<and>
     (\<forall>k. strs M w' k = (if prefix MONTHLY_CAP_PREFIX k \<and> outdated now k then None else strs M w k))"
proof -
  let ?ks = "filter (outdated now) (filter (prefix MONTHLY_CAP_PREFIX) (allkeys M w))"
  have "k \<in> set (allkeys M w) \<or> strs M w k = None" for k by (auto simp: keys_set)
  then have "strs M (fold (dele M) ?ks w) k = (if prefix MONTHLY_CAP_PREFIX k \<and> outdated now k then None else strs M w k)" for k
    by (auto simp: strs_fold_dele)
  then show ?thesis
    by (simp add: resetMonthlyCaps_def act_simps Let_def reset_fold distribution_result_def)
qed

text \<open>In terms of the cap records: those of earlier months go, the others stay.\<close>

lemma reset_caps:
  assumes "resetMonthlyCaps M now w = (r, w')" and "CHR '':'' \<notin> set u" and "CHR '':'' \<notin> set m"
  shows "caps M w' u m = (if string_less m (month_of now) then None else caps M w u m)"
proof -
  have "prefix MONTHLY_CAP_PREFIX (MONTHLY_CAP u m)" by (simp add: key_simps)
  moreover have "outdated now (MONTHLY_CAP u m) = string_less m (month_of now)"
    using month_of_cap_key [OF assms(2,3)] by (simp add: outdated_def)
  ultimately show ?thesis using reset_effect [of now w] assms(1) by (auto simp: caps_def)
qed

lemma reset_elsewhere:
  assumes "resetMonthlyCaps M now w = (r, w')"
  shows "\<not> prefix MONTHLY_CAP_PREFIX k \<Longrightarrow> strs M w' k = strs M w k" "\<exists>a. r = Inr a \<and> rd_errors a = []"
  using reset_effect [of now w] assms by auto

end

section \<open>The schedules\<close>

text \<open>A service that runs has its jobs, one that does not has none; starting or stopping it twice is starting or stopping it once.\<close>

definition schedule_ok :: "ReferralConfig \<Rightarrow> ReferralDistributionService \<Rightarrow> bool" where
  "schedule_ok cfg s \<longleftrightarrow> (if rs_isRunning s
     then keys_of (rs_cronJobs s) = ''weekly_uptime'' #
       (if rt_distribution_cycle (rc_task_reward cfg) = DAILY then [''daily_task''] else []) @ [''monthly_cap_reset'']
     else rs_cronJobs s = [])"

lemma schedule_ok_start: "schedule_ok cfg s \<Longrightarrow> schedule_ok cfg (startReferral cfg s)"
  by (cases "rs_isRunning s") (simp_all add: schedule_ok_def startReferral_def keys_of_def Let_def)

lemma schedule_ok_stop: "schedule_ok cfg s \<Longrightarrow> schedule_ok cfg (stopReferral s)"
  by (simp add: schedule_ok_def stopReferral_def)

lemma schedule_idem:
  "startReferral cfg (startReferral cfg s) = startReferral cfg s" "stopReferral (stopReferral s) = stopReferral s"
  by (auto simp: startReferral_def stopReferral_def Let_def)

end
