(* ===== verification/ReferralProperties.thy ===== *)
theory ReferralProperties
  imports ReferralFacts DatabaseProperties
begin

text \<open>The properties of \<open>ReferralService\<close> and of the payouts it makes.\<close>

section \<open>A concrete store\<close>

text \<open>The store with one client, her referral code, and a user she has referred.\<close>

definition code_world :: mem where
  "code_world = put mem_redis (CODE_LOOKUP ''CODE0001'') (VStr ''u1'') demo_world"

definition demo_send :: "mem payer" where
  "demo_send = sendRewardTransaction dummy_service no_ledger (\<lambda>_. []) 0"

lemma demo_rewarding: "rewarding mem_redis demo_send"
  unfolding rewarding_def demo_send_def using mem_is_up minting.payout_axioms by blast

lemma code_inv: "db_inv mem_redis code_world"
  unfolding code_world_def using mem.db_inv_put_foreign demo_inv by simp

lemma code_maps [simp]:
  "clients mem_redis code_world = [''u1'' \<mapsto> demo_client]" "rels mem_redis code_world = Map.empty"
  "codes mem_redis code_world ''CODE0001'' = Some ''u1''" "caps mem_redis code_world = (\<lambda>_ _. None)"
proof -
  show "clients mem_redis code_world = [''u1'' \<mapsto> demo_client]"
    by (auto simp: code_world_def demo_world_def add_job_def clients_def fun_eq_iff)
  show "rels mem_redis code_world = Map.empty"
    by (simp add: code_world_def demo_world_def add_job_def rels_def key_simps fun_eq_iff)
  show "codes mem_redis code_world ''CODE0001'' = Some ''u1''"
    by (simp add: code_world_def codes_def)
  show "caps mem_redis code_world = (\<lambda>_ _. None)"
    by (simp add: code_world_def demo_world_def add_job_def caps_def key_simps fun_eq_iff)
qed

lemma code_typed: "referral_typed mem_redis code_world" "codes_typed mem_redis code_world"
  by (simp_all add: referral_typed_def codes_typed_def code_world_def demo_world_def add_job_def key_simps)

lemma code_caps: "caps_ok mem_redis code_world"
  by (simp add: caps_ok_def)

section \<open>Registration\<close>

text \<open>C13: registering with a referral code, on every branch. An unknown code, a code whose owner is gone
  and a second registration are refused and change nothing; otherwise the relationship is stored with the
  chain of referrers above the owner, at most as long as the configured depth, each referrer's tier index
  holds the new user, the owner's referral count goes up by one, and nobody else's record changes.\<close>

theorem register_exact:
  assumes "redis_up M" and "db_inv M w" and "referral_typed M w" and "codes_typed M w"
    and "registerWithReferralCode M cfg uid code now w = (r, w')"
  shows "case codes M w code of
      None \<Rightarrow> r = Inr (Failure InvalidInput ''Invalid referral code'') \<and> w' = w
    | Some owner \<Rightarrow>
        if clients M w owner = None
        then r = Inr (Failure InvalidInput ''Referrer account not found'') \<and> w' = w
        else if rels M w uid \<noteq> None
        then r = Inr (Failure AlreadyExists ''User already registered with a referral code'') \<and> w' = w
        else \<exists>rel. r = Inr (Success rel) \<and> db_inv M w' \<and> rels M w' = (rels M w)(uid \<mapsto> rel) \<and>
          r_referrer_chain rel = owner # referrers_above (nat (rc_max_tier_depth cfg - 1)) (rels M w) owner \<and>
          int (length (r_referrer_chain rel)) \<le> max 1 (rc_max_tier_depth cfg) \<and>
          (\<forall>i < length (r_referrer_chain rel). uid \<in> set (mems M w' (tier_index (i + 1) (r_referrer_chain rel ! i)))) \<and>
          clients M w' = (clients M w)(owner := map_option (\<lambda>c. c\<lparr>c_totalReferral := c_totalReferral c + 1\<rparr>)
            (clients M w owner))"
proof (cases "\<exists>owner. codes M w code = Some owner \<and> clients M w owner \<noteq> None \<and> rels M w uid = None")
  case True
  then obtain owner where o: "codes M w code = Some owner" "clients M w owner \<noteq> None" "rels M w uid = None" by blast
  obtain rel w1 where e: "registerWithReferralCode M cfg uid code now w = (Inr (Success rel), w1)"
    "db_inv M w1" "rels M w1 = (rels M w)(uid \<mapsto> rel)"
    "r_referrer_chain rel = owner # referrers_above (nat (rc_max_tier_depth cfg - 1)) (rels M w) owner"
    "int (length (r_referrer_chain rel)) \<le> max 1 (rc_max_tier_depth cfg)"
    "\<forall>i < length (r_referrer_chain rel). uid \<in> set (mems M w1 (tier_index (i + 1) (r_referrer_chain rel ! i)))"
    "clients M w1 = (clients M w)(owner := map_option (\<lambda>c. c\<lparr>c_totalReferral := c_totalReferral c + 1\<rparr>) (clients M w owner))"
    by (rule redis_up.register_success [OF assms(1) assms(4,2,3) o, of cfg now])
  have r: "r = Inr (Success rel)" "w' = w1" using e(1) assms(5) by simp_all
  show ?thesis
    by (simp only: o option.case if_False simp_thms, intro exI [of _ rel] conjI)
      (simp_all only: r e(2-4) e(7), use e(5,6) in \<open>simp_all only: e(4)\<close>)
next
  case False
  then show ?thesis
    using redis_up.register_eq [OF assms(1) assms(4,2,3), of cfg uid code now] assms(5) by (auto split: option.split)
qed

definition friend_world :: mem where
  "friend_world = snd (registerWithReferralCode mem_redis buildDefaultConfig ''u2'' ''CODE0001'' 5000 code_world)"

lemma friend_facts:
  obtains rel where "db_inv mem_redis friend_world" "referral_typed mem_redis friend_world"
    "rels mem_redis friend_world ''u2'' = Some rel" "r_referrer_chain rel = [''u1'']"
    "clients mem_redis friend_world ''u1'' = Some (demo_client\<lparr>c_totalReferral := c_totalReferral demo_client + 1\<rparr>)"
  by (rule mem.register_success [OF code_typed(2) code_inv code_typed(1) code_maps(3), of "''u2''" buildDefaultConfig 5000])
    (simp_all add: friend_world_def buildDefaultConfig_def numeral_eq_Suc)

theorem register_exact_witness:
  "\<exists>rel. rels mem_redis friend_world = [''u2'' \<mapsto> rel] \<and> r_referrer_chain rel = [''u1''] \<and>
     ''u2'' \<in> set (mems mem_redis friend_world (USER_L1_REFERRALS ''u1''))"
proof -
  obtain r where "registerWithReferralCode mem_redis buildDefaultConfig ''u2'' ''CODE0001'' 5000 code_world = (r, friend_world)"
    by (metis friend_world_def prod.collapse)
  from register_exact [OF mem_is_up code_inv code_typed this] show ?thesis
    by (auto simp: buildDefaultConfig_def tier_index_def numeral_eq_Suc)
qed

section \<open>Task rewards\<close>

lemma percentage_example: "percentage_of 10 5 = 1/2"
proof -
  have "\<lfloor>10001/2 :: rat\<rfloor> = 5000" by (rule floor_unique) simp_all
  then show ?thesis by (simp add: percentage_of_def round_dec_def js_round_def)
qed

text \<open>C14: completing a task pays every enabled tier's referrer exactly its percentage of the earned
  points, rounded to four decimals; a user who is the referrer at several tiers is paid for each,
  nobody else's balance changes, and the total that is reported is the sum of what was paid.\<close>

theorem task_reward_exact:
  assumes "rewarding M send" and "db_inv M w" and "referral_typed M w" and "rels M w referee = Some rel"
    and "calculateTaskReward M cfg send referee earned jobId now w = (r, w')"
  shows "\<exists>acc. r = Inr (Success acc) \<and> db_inv M w' \<and>
    tr_total_distributed acc = (\<Sum>tc\<leftarrow>filter (\<lambda>tc. referrer_at (r_referrer_chain rel) (tc_tier_level tc) \<noteq> None)
      (getEnabledTiers cfg TASK). percentage_of earned (tc_reward_percentage tc)) \<and>
    clients M w' = (\<lambda>u. map_option (raise (\<Sum>tc\<leftarrow>filter (\<lambda>tc. referrer_at (r_referrer_chain rel) (tc_tier_level tc) = Some u)
      (getEnabledTiers cfg TASK). percentage_of earned (tc_reward_percentage tc))) (clients M w u))"
proof -
  obtain acc w1 where e: "calculateTaskReward M cfg send referee earned jobId now w = (Inr (Success acc), w1)"
    "tr_total_distributed acc = paid_in_all (r_referrer_chain rel)
       (\<lambda>tc. percentage_of earned (tc_reward_percentage tc)) (getEnabledTiers cfg TASK)"
    "clients M w1 = (\<lambda>u. map_option (raise (paid_to (r_referrer_chain rel)
       (\<lambda>tc. percentage_of earned (tc_reward_percentage tc)) (getEnabledTiers cfg TASK) u)) (clients M w u))"
    "db_inv M w1"
    by (rule rewarding.calculateTaskReward_eq [OF assms(1-4), of cfg earned jobId now])
  have "r = Inr (Success acc)" "w' = w1" using e(1) assms(5) by simp_all
  then show ?thesis
    using e(2-) by (intro exI [of _ acc]) (simp only: paid_in_all_def paid_to_def simp_thms)
qed

theorem task_reward_exact_witness:
  "\<exists>w. map_option c_balance (clients mem_redis w ''u1'') = Some (1/2)"
proof -
  obtain rel where rel: "db_inv mem_redis friend_world" "referral_typed mem_redis friend_world"
    "rels mem_redis friend_world ''u2'' = Some rel" "r_referrer_chain rel = [''u1'']"
    "clients mem_redis friend_world ''u1'' = Some (demo_client\<lparr>c_totalReferral := c_totalReferral demo_client + 1\<rparr>)"
    by (rule friend_facts)
  obtain r w where "calculateTaskReward mem_redis buildDefaultConfig demo_send ''u2'' 10 ''job_1'' 6000 friend_world = (r, w)"
    by fastforce
  from task_reward_exact [OF demo_rewarding rel(1-3) this]
  have "map_option c_balance (clients mem_redis w ''u1'') = Some (percentage_of 10 5)"
    by (auto simp: rel(4,5) getEnabledTiers_def getRewardConfig_def buildDefaultConfig_def referrer_at_def truthy_def raise_def)
  then show ?thesis by (auto simp: percentage_example)
qed

text \<open>nothing stops a user from registering with her own code: she becomes her own referrer, and
  with the default configuration each of her tasks pays her five percent on top.\<close>

theorem self_referral:
  assumes "rewarding M send" and "db_inv M w" and "referral_typed M w" and "codes_typed M w"
    and "codes M w code = Some uid" and "clients M w uid = Some c" and "rels M w uid = None" and "uid \<noteq> []"
    and "registerWithReferralCode M buildDefaultConfig uid code now w = (r, w1)"
    and "calculateTaskReward M buildDefaultConfig send uid earned jobId later w1 = (r', w2)"
  shows "\<exists>c'. clients M w2 uid = Some c' \<and> c_balance c' = c_balance c + percentage_of earned 5"
proof -
  have up: "redis_up M" using assms(1) by (simp add: rewarding_def)
  have known: "clients M w uid \<noteq> None" using assms(6) by simp
  obtain rel where w1: "db_inv M w1" "referral_typed M w1" "rels M w1 uid = Some rel"
    and chain: "r_referrer_chain rel = [uid]"
    and cl: "clients M w1 uid = Some (c\<lparr>c_totalReferral := c_totalReferral c + 1\<rparr>)"
    by (rule redis_up.register_success [OF up assms(4,2,3,5) known assms(7), of buildDefaultConfig now])
      (use assms(6,7,9) in \<open>simp add: buildDefaultConfig_def numeral_eq_Suc\<close>)
  have "paid_to [uid] (\<lambda>tc. percentage_of earned (tc_reward_percentage tc)) (getEnabledTiers buildDefaultConfig TASK) uid =
      percentage_of earned 5"
    using assms(8) by (simp add: paid_to_def getEnabledTiers_def getRewardConfig_def buildDefaultConfig_def
      referrer_at_def truthy_def)
  then show ?thesis
    using assms(10) cl chain
    by (cases rule: rewarding.calculateTaskReward_eq [OF assms(1) w1, of buildDefaultConfig earned jobId later])
      (simp add: raise_def)
qed

theorem self_referral_witness:
  "\<exists>w. map_option c_balance (clients mem_redis w ''u1'') = Some (1/2)"
proof -
  obtain r w1 where 1: "registerWithReferralCode mem_redis buildDefaultConfig ''u1'' ''CODE0001'' 5000 code_world = (r, w1)"
    by fastforce
  obtain r' w2 where 2: "calculateTaskReward mem_redis buildDefaultConfig demo_send ''u1'' 10 ''job_1'' 6000 w1 = (r', w2)"
    by fastforce
  have "\<exists>c'. clients mem_redis w2 ''u1'' = Some c' \<and> c_balance c' = c_balance demo_client + percentage_of 10 5"
    by (rule self_referral [OF demo_rewarding code_inv code_typed _ _ _ _ 1 2]) simp_all
  then show ?thesis by (auto simp: percentage_example)
qed

section \<open>The monthly cap\<close>

text \<open>C15: within a month a referrer never gets more from the uptime of others than what is left of the
  cap (the configured amount, if there is no record of the month yet), however many rewards are
  distributed for whomever and at whatever tier; what she gets is exactly what the rewards add up to, and
  it is taken from the cap.\<close>

theorem monthly_cap_respected:
  assumes "rewarding M send" and "db_inv M w" and "referral_typed M w" and "caps_ok M w" and "0 \<le> default_cap cfg"
    and "\<forall>u \<in> set calls. 0 \<le> percentage_of (uc_earned u) (uc_percentage u) \<and> month_of (uc_now u) = m"
    and "calls \<noteq> []" and "uptime_run M cfg send referrer calls w = (r, w')"
  shows "\<exists>total. r = Inr total \<and> 0 \<le> total \<and> total \<le> cap_left M cfg w referrer m \<and>
    cap_left M cfg w' referrer m = cap_left M cfg w referrer m - total \<and>
    clients M w' = (clients M w)(referrer := map_option (raise_uptime total) (clients M w referrer))"
  using rewarding.uptime_run_effect [OF assms(1-6), of referrer 0] assms(7,8)
  unfolding uptime_run_def by auto

definition big_call :: UptimeCall where
  "big_call = \<lparr>uc_referee = ''u2'', uc_earned = 600000, uc_minutes = 6000, uc_tier = 1, uc_percentage = 2, uc_now = 0\<rparr>"

theorem monthly_cap_respected_witness:
  "\<exists>total. fst (uptime_run mem_redis buildDefaultConfig demo_send ''u1'' [big_call] code_world) = Inr total \<and> total \<le> 10000"
proof -
  obtain r w' where run: "uptime_run mem_redis buildDefaultConfig demo_send ''u1'' [big_call] code_world = (r, w')"
    by fastforce
  have cap: "default_cap buildDefaultConfig = 10000"
    by (simp add: default_cap_def getRewardConfig_def buildDefaultConfig_def or_num_opt_def or_num_def)
  have "0 \<le> percentage_of 600000 2"
    unfolding percentage_of_def by (rule round_dec_nonneg) simp_all
  then have "\<forall>u \<in> set [big_call]. 0 \<le> percentage_of (uc_earned u) (uc_percentage u) \<and> month_of (uc_now u) = month_of 0"
    by (simp add: big_call_def)
  from monthly_cap_respected [OF demo_rewarding code_inv code_typed(1) code_caps _ this _ run] cap
  show ?thesis by (auto simp: run cap_left_def)
qed

section \<open>The installation reward\<close>

text \<open>the installation reward is paid once. A check that reports completion credits at most the direct
  referrer, with 500 points and only if the reward was not claimed; every later check reports
  completion again and changes nothing.\<close>

theorem installation_paid_once:
  assumes "rewarding M send" and "db_inv M w" and "referral_typed M w"
    and "check24HourCompletion M cfg send uid now w = (Inr (Success res), w1)" and "h_completed res"
    and "check24HourCompletion M cfg' send uid later w1 = (r', w2)"
  shows "(clients M w1 = clients M w \<or>
      (\<exists>rel referrer. rels M w uid = Some rel \<and> \<not> r_installation_reward_claimed rel \<and>
        r_referrer_l1_principal_id rel = Some referrer \<and>
        clients M w1 = (clients M w)(referrer := map_option (raise 500) (clients M w referrer)))) \<and>
    w2 = w1 \<and> (\<exists>res'. r' = Inr (Success res') \<and> h_completed res')"
proof -
  have up: "redis_up M" using assms(1) by (simp add: rewarding_def)
  note again = redis_up.check24_done [OF up]
  obtain rel where rel: "rels M w uid = Some rel"
    using redis_up.check24_incomplete [OF up assms(3) db_inv_typed [OF assms(2)] _ _ assms(4)] assms(5)
    by (cases "rels M w uid") auto
  show ?thesis
  proof (cases "r_first_24h_status rel = H24_COMPLETED")
    case True
    then show ?thesis
      using again [OF assms(3) rel True] assms(4,6) by (auto simp: completion24h_def)
  next
    case False
    obtain c where c: "clients M w uid = Some c" "\<not> totalUptimeHours c < required_hours cfg"
      using redis_up.check24_incomplete [OF up assms(3) db_inv_typed [OF assms(2)] _ _ assms(4)] assms(5) rel False
      by (cases "clients M w uid") auto
    from rewarding.check24_completes [OF assms(1-3) rel False c, of now] assms(4)
    obtain rel' where typed: "referral_typed M w1" and w1: "rels M w1 = (rels M w)(uid \<mapsto> rel')" "r_first_24h_status rel' = H24_COMPLETED"
      and pay: "case r_referrer_l1_principal_id rel of
       Some referrer \<Rightarrow> if truthy referrer \<and> \<not> r_installation_reward_claimed rel
         then h_reward_distributed res \<and> clients M w1 = (clients M w)(referrer :=
                map_option (raise getInstallationRewardAmount) (clients M w referrer))
         else \<not> h_reward_distributed res \<and> clients M w1 = clients M w
     | None \<Rightarrow> \<not> h_reward_distributed res \<and> clients M w1 = clients M w" by auto
    have "rels M w1 uid = Some rel'" using w1(1) by simp
    from again [OF typed this w1(2), of cfg' send later] assms(6)
    have "w2 = w1 \<and> (\<exists>res'. r' = Inr (Success res') \<and> h_completed res')" by (auto simp: completion24h_def)
    moreover have "clients M w1 = clients M w \<or> (\<exists>referrer. \<not> r_installation_reward_claimed rel \<and>
        r_referrer_l1_principal_id rel = Some referrer \<and>
        clients M w1 = (clients M w)(referrer := map_option (raise 500) (clients M w referrer)))"
      using pay by (auto simp: getInstallationRewardAmount_def split: option.splits if_splits)
    ultimately show ?thesis using rel by blast
  qed
qed

text \<open>The referred user after a day of uptime.\<close>

definition self_world :: mem where
  "self_world = snd (registerWithReferralCode mem_redis buildDefaultConfig ''u1'' ''CODE0001'' 5000 code_world)"

definition day_world :: mem where
  "day_world = put_client mem_redis ''u1'' [TotalUptime 86400000] (demo_client\<lparr>c_totalReferral := 1\<rparr>) self_world"

lemma self_facts:
  obtains rel where "db_inv mem_redis self_world" "referral_typed mem_redis self_world"
    "rels mem_redis self_world = [''u1'' \<mapsto> rel]" "r_referrer_chain rel = [''u1'']"
    "clients mem_redis self_world ''u1'' = Some (demo_client\<lparr>c_totalReferral := 1\<rparr>)"
    "r_first_24h_status rel = H24_PENDING"
proof -
  have "c_totalReferral demo_client = 0" by (simp add: demo_client_def new_client_def)
  then show thesis
    using that mem.register_eq [OF code_typed(2) code_inv code_typed(1), of buildDefaultConfig "''u1''" "''CODE0001''" 5000]
    by (cases rule: mem.register_success [OF code_typed(2) code_inv code_typed(1) code_maps(3), of "''u1''" buildDefaultConfig 5000])
      (auto simp: self_world_def buildDefaultConfig_def numeral_eq_Suc Let_def new_relationship_def)
qed

theorem installation_paid_once_witness:
  "\<exists>res w. check24HourCompletion mem_redis buildDefaultConfig demo_send ''u1'' 90000000 day_world = (Inr (Success res), w) \<and>
     snd (check24HourCompletion mem_redis buildDefaultConfig demo_send ''u1'' 99000000 w) = w"
proof -
  obtain rel where self: "db_inv mem_redis self_world" "referral_typed mem_redis self_world"
    "rels mem_redis self_world = [''u1'' \<mapsto> rel]" "r_referrer_chain rel = [''u1'']"
    "clients mem_redis self_world ''u1'' = Some (demo_client\<lparr>c_totalReferral := 1\<rparr>)"
    "r_first_24h_status rel = H24_PENDING"
    by (rule self_facts)
  have inv: "db_inv mem_redis day_world"
    unfolding day_world_def by (rule mem.db_inv_put_client [OF self(1,5)]) (simp add: proper_client_update_def)
  have strs: "strs mem_redis day_world = (strs mem_redis self_world)
      (CLIENT ''u1'' \<mapsto> VClient (demo_client\<lparr>c_totalReferral := 1, c_totalUptime := 86400000\<rparr>))"
    unfolding day_world_def mem.strs_put_client by (simp add: spread_client_def)
  have typed: "referral_typed mem_redis day_world"
    using self(2) unfolding referral_typed_def strs by simp
  have rel: "rels mem_redis day_world ''u1'' = Some rel"
    using self(3) unfolding rels_def strs fun_eq_iff by simp
  have c: "clients mem_redis day_world ''u1'' = Some (demo_client\<lparr>c_totalReferral := 1, c_totalUptime := 86400000\<rparr>)"
    unfolding clients_def strs by simp
  obtain res w where 1: "check24HourCompletion mem_redis buildDefaultConfig demo_send ''u1'' 90000000 day_world = (Inr (Success res), w)"
    and 2: "h_completed res"
    using rewarding.check24_completes [OF demo_rewarding inv typed rel _ c, of buildDefaultConfig 90000000] self(6)
    by (auto simp: totalUptimeHours_def required_hours_def getRewardConfig_def buildDefaultConfig_def
      no_requirements_def or_num_opt_def or_num_def)
  obtain r' w2 where 3: "check24HourCompletion mem_redis buildDefaultConfig demo_send ''u1'' 99000000 w = (r', w2)"
    by fastforce
  from installation_paid_once [OF demo_rewarding inv typed 1 2 3] show ?thesis using 1 3 by auto
qed

end
