(* ===== verification/RewardProperties.thy ===== *)
theory RewardProperties
  imports ScheduleFacts ReferralProperties
begin

text \<open>The properties of the uptime tracker, the reward distribution and the referral distribution.\<close>

section \<open>A concrete store\<close>


definition demo_daily :: DailyUptimeRecord where
  "demo_daily = \<lparr>d_date = ''2024-01-01'', d_user_principal_id = ''u1'', d_total_minutes = 100,
     d_processed_minutes = 40, d_session_count = 2, d_avg_speed = 60, d_avg_ping = 20, d_tier_level = 1,
     d_base_reward = 20, d_bonus_reward = 4, d_total_reward = 24, d_last_updated = 0, d_is_processed = False\<rparr>"




lemma demo_strs: "map_of (mem_strs demo_world) = [CLIENT ''u1'' \<mapsto> VClient demo_client, JOB ''job_1'' \<mapsto> VJob demo_job]"
  by (auto simp: demo_world_def add_job_def fun_eq_iff key_simps)






section \<open>A distribution\<close>



section \<open>Every minute is paid for once\<close>





section \<open>What is shown is what is paid\<close>



section \<open>The weekly referral distribution\<close>

text \<open>the weekly distribution of referral rewards for uptime pays nobody, however long the users were
  connected. It looks for the records of a user under \<open>uptime:daily:{user}:{date}\<close>, but every record is
  stored under \<open>uptime:daily:{date}:{user}\<close>: it finds no minutes, reports no error and changes nothing
  (if no user is named like a date).\<close>

theorem weekly_pays_nobody:
  assumes "redis_up M" and "dailies_typed M w" and "0 < required_minutes cfg"
    and "\<And>u. RELATIONSHIP u \<in> set (allkeys M w) \<Longrightarrow> CHR '':'' \<notin> set u \<and>
      (\<forall>k d. daily_at M w k = Some d \<longrightarrow> CHR '':'' \<notin> set (d_date d) \<and> d_date d \<noteq> u)"
  shows "processWeeklyUptimeRewards M cfg send now w =
    (Inr \<lparr>rd_distribution_id = ''weekly_uptime_'' @ show_int now, rd_distribution_type = WEEKLY_UPTIME,
       rd_processed_count = 0, rd_total_rewards_distributed = 0, rd_errors = [], rd_timestamp = now\<rparr>, w)"
  using redis_up.weekly_effect [OF assms] by (simp add: distribution_result_def)

text \<open>A user with a referrer who was connected for the whole week, and referred by the client.\<close>

definition week_days :: "string list" where
  "week_days = [''2024-01-01'', ''2024-01-02'', ''2024-01-03'', ''2024-01-04'', ''2024-01-05'', ''2024-01-06'', ''2024-01-07'']"

definition full_day :: "string \<Rightarrow> DailyUptimeRecord" where
  "full_day day = demo_daily\<lparr>d_date := day, d_user_principal_id := ''u2'', d_total_minutes := 1440\<rparr>"

definition referred_world :: mem where
  "referred_world = put mem_redis (RELATIONSHIP ''u2'') (VRel (new_relationship ''u2'' [''u1''] ''CODE0001'' 0)) demo_world"

definition add_day :: "string \<Rightarrow> mem \<Rightarrow> mem" where
  "add_day day = put mem_redis (UPTIME_DAILY day ''u2'') (VDaily (full_day day))"

definition week_world :: mem where
  "week_world = fold add_day week_days referred_world"

lemma full_days_sets: "mem_sets (fold add_day ds w) = mem_sets w"
  by (induction ds arbitrary: w) (simp_all add: add_day_def)

lemma full_days_strs:
  "map_of (mem_strs (fold add_day ds w)) k = Some v \<Longrightarrow>
     map_of (mem_strs w) k = Some v \<or> (\<exists>day \<in> set ds. k = UPTIME_DAILY day ''u2'' \<and> v = VDaily (full_day day))"
proof (induction ds arbitrary: w)
  case (Cons day ds)
  then have "map_of (mem_strs (add_day day w)) k = Some v \<or>
      (\<exists>day \<in> set ds. k = UPTIME_DAILY day ''u2'' \<and> v = VDaily (full_day day))" by simp
  then show ?case by (auto simp: add_day_def split: if_splits)
qed simp

lemma week_world_strs:
  assumes "map_of (mem_strs week_world) k = Some v"
  shows "k = RELATIONSHIP ''u2'' \<or> k = CLIENT ''u1'' \<or> k = JOB ''job_1'' \<or>
    (\<exists>day \<in> set week_days. k = UPTIME_DAILY day ''u2'' \<and> v = VDaily (full_day day))"
proof -
  have "map_of (mem_strs referred_world) k = Some v \<or> (\<exists>day \<in> set week_days. k = UPTIME_DAILY day ''u2'' \<and> v = VDaily (full_day day))"
    using assms unfolding week_world_def by (rule full_days_strs)
  then show ?thesis by (auto simp: referred_world_def demo_strs split: if_splits)
qed

lemma week_daily: "daily_at mem_redis week_world k = Some d \<Longrightarrow> \<exists>day \<in> set week_days. k = UPTIME_DAILY day ''u2'' \<and> d = full_day day"
  by (auto simp: daily_at_iff dest!: week_world_strs)

lemma week_typed: "dailies_typed mem_redis week_world"
  by (auto simp: dailies_typed_def daily_key_def full_day_def dest!: week_world_strs)

lemma week_users: "RELATIONSHIP u \<in> set (allkeys mem_redis week_world) \<Longrightarrow> u = ''u2''"
proof -
  assume "RELATIONSHIP u \<in> set (allkeys mem_redis week_world)"
  moreover have "mem_get_set week_world (RELATIONSHIP u) = []"
    by (simp add: week_world_def full_days_sets mem_get_set_def referred_world_def demo_world_def add_job_def key_simps)
  ultimately obtain v where "map_of (mem_strs week_world) (RELATIONSHIP u) = Some v"
    using mem.keys_set [of week_world] by auto
  then show "u = ''u2''" using week_world_strs by (fastforce simp: key_simps)
qed

theorem weekly_pays_nobody_witness:
  "required_minutes buildDefaultConfig = 6000 \<and> (\<Sum>day\<leftarrow>week_days. d_total_minutes (full_day day)) = 10080 \<and>
   processWeeklyUptimeRewards mem_redis buildDefaultConfig demo_send 1704672000000 week_world =
    (Inr \<lparr>rd_distribution_id = ''weekly_uptime_'' @ show_int 1704672000000, rd_distribution_type = WEEKLY_UPTIME,
       rd_processed_count = 0, rd_total_rewards_distributed = 0, rd_errors = [], rd_timestamp = 1704672000000\<rparr>, week_world)"
proof -
  have req: "required_minutes buildDefaultConfig = 6000"
    by (simp add: required_minutes_def buildDefaultConfig_def no_requirements_def or_num_opt_def or_num_def)
  have dates: "CHR '':'' \<notin> set day \<and> day \<noteq> ''u2''" if "day \<in> set week_days" for day
    using that by (auto simp: week_days_def)
  have "CHR '':'' \<notin> set u \<and> (\<forall>k d. daily_at mem_redis week_world k = Some d \<longrightarrow> CHR '':'' \<notin> set (d_date d) \<and> d_date d \<noteq> u)"
    if "RELATIONSHIP u \<in> set (allkeys mem_redis week_world)" for u
    using week_users [OF that] dates by (auto simp: full_day_def dest!: week_daily)
  then have "processWeeklyUptimeRewards mem_redis buildDefaultConfig demo_send 1704672000000 week_world =
    (Inr \<lparr>rd_distribution_id = ''weekly_uptime_'' @ show_int 1704672000000, rd_distribution_type = WEEKLY_UPTIME,
       rd_processed_count = 0, rd_total_rewards_distributed = 0, rd_errors = [], rd_timestamp = 1704672000000\<rparr>, week_world)"
    using req by (intro weekly_pays_nobody [OF mem_is_up week_typed]) simp_all
  then show ?thesis using req by (simp add: week_days_def full_day_def)
qed

section \<open>The reset of the caps\<close>

text \<open>the monthly reset deletes exactly the cap records of earlier months: the cap of the current month,
  and of every later one, stays, a record of an earlier month is gone, every key that is not that of a
  cap stays as it is, and no error is reported.\<close>

theorem caps_reset_exact:
  assumes "redis_up M" and "resetMonthlyCaps M now w = (r, w')"
  shows "(\<exists>a. r = Inr a \<and> rd_errors a = []) \<and>
    (\<forall>u m. CHR '':'' \<notin> set u \<longrightarrow> CHR '':'' \<notin> set m \<longrightarrow>
       caps M w' u m = (if string_less m (month_of now) then None else caps M w u m)) \<and>
    (\<forall>k. \<not> prefix MONTHLY_CAP_PREFIX k \<longrightarrow> strs M w' k = strs M w k)"
  using redis_up.reset_caps [OF assms] redis_up.reset_elsewhere [OF assms] by blast

definition caps_world :: mem where
  "caps_world = put mem_redis (MONTHLY_CAP ''u1'' ''1969-12'') (VCap (first_cap buildDefaultConfig ''u1'' ''1969-12'' 5 1 0))
     (put mem_redis (MONTHLY_CAP ''u1'' ''1970-01'') (VCap (first_cap buildDefaultConfig ''u1'' ''1970-01'' 7 1 0)) mem0)"

theorem caps_reset_exact_witness:
  "caps mem_redis (snd (resetMonthlyCaps mem_redis 0 caps_world)) ''u1'' ''1969-12'' = None \<and>
   caps mem_redis (snd (resetMonthlyCaps mem_redis 0 caps_world)) ''u1'' ''1970-01'' \<noteq> None"
proof -
  obtain r w' where run: "resetMonthlyCaps mem_redis 0 caps_world = (r, w')" by fastforce
  have m: "month_of 0 = ''1970-01''" by (simp add: month_of_def iso_date_def) code_simp
  have "string_less ''1969-12'' ''1970-01''" "\<not> string_less ''1970-01'' ''1970-01''" by simp_all
  with caps_reset_exact [OF mem_is_up run] m
  have "caps mem_redis w' ''u1'' ''1969-12'' = None" "caps mem_redis w' ''u1'' ''1970-01'' = caps mem_redis caps_world ''u1'' ''1970-01''"
    by simp_all
  moreover have "caps mem_redis caps_world ''u1'' ''1970-01'' \<noteq> None"
    by (simp add: caps_def caps_world_def)
  ultimately show ?thesis by (simp add: run)
qed

end
