(* ===== verification/TimeoutMonitor.thy ===== *)
theory TimeoutMonitor
  imports ServiceReports
begin

text \<open>
  The class \<open>JobTimeoutMonitor\<close> (\<open>src/services/job_timeout_monitor.ts\<close>): the
  check that fails the jobs running for more than an hour and removes finished
  ones from their clients, and the timers that start it. The check returns the
  \<open>jobTimedOut\<close> events it emits, in order; the clock is read once.
\<close>

section \<open>One job\<close>

definition TIMEOUT_MINUTES :: int where
  "TIMEOUT_MINUTES = 60"

definition CHECK_INTERVAL_MS :: int where
  "CHECK_INTERVAL_MS = 120000"

record JobTimedOut =
  to_jobId :: string
  to_clientId :: string
  to_userPrincipalId :: string
  to_duration :: int

text \<open>What the loop over \<open>client.activeJobs\<close> does with a job: nothing, or one of its two lists.\<close>

datatype verdict = Keep | Cleanup | MarkAsFailed

definition job_verdict :: "int \<Rightarrow> JobStruct option \<Rightarrow> verdict" where
  "job_verdict now job = (case job of
       None \<Rightarrow> Cleanup
     | Some j \<Rightarrow>
         if j_state j = job_state COMPLETED \<or> j_state j = job_state FAILED then Cleanup
         else if j_state j = job_state PENDING then Keep
         else if j_state j \<noteq> job_state ONGOING then Cleanup
         else if TIMEOUT_MINUTES * 60 * 1000 < now - j_assignedAt j then MarkAsFailed
         else Keep)"

text \<open>The lists \<open>jobsToCleanup\<close> and \<open>jobsToMarkAsFailed\<close>.\<close>

definition check_job ::
  "'w redis \<Rightarrow> int \<Rightarrow> string list \<times> string list \<Rightarrow> string \<Rightarrow> ('w, string list \<times> string list) act" where
  "check_job M now acc jobId = catchA
     (bindA (getJobWithID M jobId) (\<lambda>jobResult. returnA
        (case job_verdict now (case jobResult of Success j \<Rightarrow> Some j | Failure _ _ \<Rightarrow> None) of
           Keep \<Rightarrow> acc
         | Cleanup \<Rightarrow> (fst acc @ [jobId], snd acc)
         | MarkAsFailed \<Rightarrow> (fst acc, snd acc @ [jobId]))))
     (\<lambda>_. returnA (fst acc @ [jobId], snd acc))"

definition timeout_message :: string where
  "timeout_message = ''Job timed out after '' @ show_int TIMEOUT_MINUTES @ '' minutes''"

definition fail_job ::
  "'w redis \<Rightarrow> int \<Rightarrow> ClientStruct \<Rightarrow> JobTimedOut list \<Rightarrow> string \<Rightarrow> ('w, JobTimedOut list) act" where
  "fail_job M now client events jobId = catchA
     (bindA (markJobAsFailed M jobId (c_client_id client) timeout_message now) (\<lambda>markFailedResult.
        case markFailedResult of
          Failure _ _ \<Rightarrow> returnA events
        | Success _ \<Rightarrow> bindA (getJobWithID M jobId) (\<lambda>jobDetailsResult.
            returnA (events @ [\<lparr>to_jobId = jobId, to_clientId = c_client_id client,
              to_userPrincipalId = c_user_principal_id client,
              to_duration = (case jobDetailsResult of Success j \<Rightarrow> now - j_assignedAt j | Failure _ _ \<Rightarrow> 0)\<rparr>]))))
     (\<lambda>_. returnA events)"

section \<open>The check\<close>

definition check_client ::
  "'w redis \<Rightarrow> int \<Rightarrow> JobTimedOut list \<Rightarrow> ClientStruct \<Rightarrow> ('w, JobTimedOut list) act" where
  "check_client M now events client =
     (if c_activeJobs client = [] then returnA events
      else bindA (foldA (check_job M now) ([], []) (c_activeJobs client)) (\<lambda>(jobsToCleanup, jobsToMarkAsFailed).
        thenA (if jobsToCleanup \<noteq> []
               then bindA (updateClient M (c_user_principal_id client)
                      [ActiveJobs (filter (\<lambda>jobId. jobId \<notin> set jobsToCleanup) (c_activeJobs client))]) (\<lambda>_. returnA ())
               else returnA ())
              (foldA (fail_job M now client) events jobsToMarkAsFailed)))"

text \<open>No step of the loop throws, so the outer \<open>catch\<close> is reached before any event.\<close>

definition checkForTimedOutJobs :: "'w redis \<Rightarrow> int \<Rightarrow> ('w, JobTimedOut list) act" where
  "checkForTimedOutJobs M now = catchA
     (bindA (getAllNodes M) (\<lambda>allClientsResult.
        case allClientsResult of
          Failure _ _ \<Rightarrow> returnA []
        | Success cs \<Rightarrow> foldA (check_client M now) [] cs))
     (\<lambda>_. returnA [])"

section \<open>The timers\<close>

text \<open>
  \<open>tm_initial\<close> counts the timeouts of initial checks that have not fired yet:
  \<open>stop\<close> clears the interval, not these.
\<close>

record JobTimeoutMonitor =
  tm_isRunning :: bool
  tm_interval :: "int option"
  tm_initial :: nat

definition startMonitor :: "JobTimeoutMonitor \<Rightarrow> JobTimeoutMonitor" where
  "startMonitor s = (if tm_isRunning s then s
     else \<lparr>tm_isRunning = True, tm_interval = Some CHECK_INTERVAL_MS, tm_initial = tm_initial s + 1\<rparr>)"

definition stopMonitor :: "JobTimeoutMonitor \<Rightarrow> JobTimeoutMonitor" where
  "stopMonitor s = s\<lparr>tm_interval := None, tm_isRunning := False\<rparr>"

definition initialCheckFires :: "JobTimeoutMonitor \<Rightarrow> JobTimeoutMonitor" where
  "initialCheckFires s = s\<lparr>tm_initial := tm_initial s - 1\<rparr>"

definition monitorStatus :: "JobTimeoutMonitor \<Rightarrow> bool \<times> int \<times> int" where
  "monitorStatus s = (tm_isRunning s, TIMEOUT_MINUTES, CHECK_INTERVAL_MS)"

end
