(* ===== verification/TimeoutProperties.thy ===== *)
theory TimeoutProperties
  imports TimeoutMonitor ServiceProperties
begin

text \<open>What a check of the timeout monitor does to the jobs and the clients.\<close>

section \<open>Views\<close>

definition timed_out :: "int \<Rightarrow> JobStruct \<Rightarrow> JobStruct" where
  "timed_out now j = j\<lparr>j_state := job_state FAILED, j_completeAt := now, j_reward := 0, j_error := Some timeout_message\<rparr>"



lemma timed_out_simps [simp]:
  "timed_out now (timed_out now j) = timed_out now j"
  "job_verdict now (Some (timed_out now j)) = Cleanup"
  by (simp_all add: timed_out_def job_verdict_def)

lemma verdict_None [simp]: "job_verdict now None = Cleanup"
  by (simp add: job_verdict_def)






section \<open>The check\<close>





end
