(* ===== verification/Utf8.thy ===== *)
theory Utf8
  imports Prelude
begin

text \<open>
  The UTF-8 decoder of \<open>Buffer.toString('utf8')\<close>: bytes that are not part of a
  well-formed sequence are replaced by U+FFFD, one for each maximal prefix of
  a sequence. As a text of the model is the list of its UTF-8 bytes, decoding
  is a function from bytes to bytes. The server sends the contents of files
  through it on the way to the storage canister and to the marketplace.
\<close>

definition replacement :: string where
  "replacement = map char_of [0xEF, 0xBF, 0xBD :: nat]"

text \<open>
  The sequence that is being read: its bytes so far, how many are missing, and
  the bounds of the next one.
\<close>

record pending_bytes =
  pb_seen :: string
  pb_missing :: nat
  pb_low :: nat
  pb_high :: nat

definition no_bytes :: pending_bytes where
  "no_bytes = \<lparr>pb_seen = [], pb_missing = 0, pb_low = 0x80, pb_high = 0xBF\<rparr>"

definition lead_byte :: "char \<Rightarrow> string \<times> pending_bytes" where
  "lead_byte c = (let b = (of_char c :: nat);
       start = (\<lambda>n lo hi. ([], \<lparr>pb_seen = [c], pb_missing = n, pb_low = lo, pb_high = hi\<rparr>))
     in if b < 0x80 then ([c], no_bytes)
        else if b < 0xC2 then (replacement, no_bytes)
        else if b < 0xE0 then start 1 0x80 0xBF
        else if b = 0xE0 then start 2 0xA0 0xBF
        else if b = 0xED then start 2 0x80 0x9F
        else if b < 0xF0 then start 2 0x80 0xBF
        else if b = 0xF0 then start 3 0x90 0xBF
        else if b < 0xF4 then start 3 0x80 0xBF
        else if b = 0xF4 then start 3 0x80 0x8F
        else (replacement, no_bytes))"

fun decode_from :: "pending_bytes \<Rightarrow> string \<Rightarrow> string" where
  "decode_from p [] = (if pb_missing p = 0 then [] else replacement)"
| "decode_from p (c # cs) =
     (if pb_missing p = 0 then (case lead_byte c of (out, q) \<Rightarrow> out @ decode_from q cs)
      else if pb_low p \<le> of_char c \<and> of_char c \<le> pb_high p then
        (if pb_missing p = 1 then pb_seen p @ [c] @ decode_from no_bytes cs
         else decode_from \<lparr>pb_seen = pb_seen p @ [c], pb_missing = pb_missing p - 1,
                           pb_low = 0x80, pb_high = 0xBF\<rparr> cs)
      else replacement @ (case lead_byte c of (out, q) \<Rightarrow> out @ decode_from q cs))"

definition utf8_text :: "string \<Rightarrow> string" where
  "utf8_text bytes = decode_from no_bytes bytes"

text \<open>Bytes that are a text: decoding leaves them alone.\<close>

definition is_text :: "string \<Rightarrow> bool" where
  "is_text bytes \<longleftrightarrow> utf8_text bytes = bytes"

declare decode_from.simps [simp del]

lemma no_bytes_simps [simp]: "pb_missing no_bytes = 0" "pb_seen no_bytes = []"
  by (simp_all add: no_bytes_def)

lemma decode_idle [simp]:
  "decode_from no_bytes [] = []"
  "decode_from no_bytes (c # cs) = (case lead_byte c of (out, q) \<Rightarrow> out @ decode_from q cs)"
  by (simp_all add: decode_from.simps)

lemma ascii_is_text:
  assumes "\<forall>c\<in>set s. of_char c < (128::nat)"
  shows "is_text s"
proof -
  have "decode_from no_bytes s = s"
    using assms by (induction s) (simp_all add: lead_byte_def)
  then show ?thesis by (simp add: is_text_def utf8_text_def)
qed

text \<open>The states the decoder reaches without output, and the bytes that lead there.\<close>

definition reading :: "pending_bytes \<Rightarrow> bool" where
  "reading p \<longleftrightarrow> (\<forall>ys. decode_from no_bytes (pb_seen p @ ys) = decode_from p ys)"

lemma reading_idle [simp]: "reading no_bytes"
  by (simp add: reading_def)

lemma reading_lead: "lead_byte c = (out, q) \<Longrightarrow> reading q"
  by (auto simp: lead_byte_def Let_def reading_def split: if_splits)

lemma reading_next:
  assumes "reading p" "pb_missing p \<noteq> 0" "pb_missing p \<noteq> 1"
    and "pb_low p \<le> of_char c" "of_char c \<le> pb_high p"
  shows "reading \<lparr>pb_seen = pb_seen p @ [c], pb_missing = pb_missing p - 1,
    pb_low = 0x80, pb_high = 0xBF\<rparr>"
proof -
  have "decode_from no_bytes (pb_seen p @ c # ys) = decode_from p (c # ys)" for ys
    using assms(1) by (simp add: reading_def)
  then show ?thesis using assms(2-5) by (simp add: reading_def decode_from.simps(2))
qed

lemma replacement_decodes [simp]: "decode_from no_bytes (replacement @ ys) = replacement @ decode_from no_bytes ys"
  by (simp add: replacement_def lead_byte_def decode_from.simps)

lemma lead_out_decodes:
  "lead_byte c = (out, q) \<Longrightarrow> decode_from no_bytes (out @ ys) = out @ decode_from no_bytes ys"
  by (auto simp: lead_byte_def Let_def split: if_splits)

lemma decode_decoded: "reading p \<Longrightarrow> decode_from no_bytes (decode_from p bs) = decode_from p bs"
proof (induction bs arbitrary: p)
  case Nil
  then show ?case
    using replacement_decodes [of "[]"] by (simp add: decode_from.simps)
next
  case (Cons c cs)
  obtain out q where lead: "lead_byte c = (out, q)" by fastforce
  have lead_part: "decode_from no_bytes (out @ decode_from q cs) = out @ decode_from q cs"
    using lead_out_decodes [OF lead] Cons.IH [OF reading_lead [OF lead]] by simp
  consider "pb_missing p = 0"
    | "pb_missing p \<noteq> 0" "\<not> (pb_low p \<le> of_char c \<and> of_char c \<le> pb_high p)"
    | "pb_missing p = 1" "pb_low p \<le> of_char c" "of_char c \<le> pb_high p"
    | "pb_missing p \<noteq> 0" "pb_missing p \<noteq> 1" "pb_low p \<le> of_char c" "of_char c \<le> pb_high p"
    by blast
  then show ?case
  proof cases
    case 1
    then show ?thesis using lead lead_part by (simp add: decode_from.simps)
  next
    case 2
    then show ?thesis using lead lead_part by (auto simp: decode_from.simps)
  next
    case 3
    have "decode_from no_bytes (pb_seen p @ c # decode_from no_bytes cs)
        = decode_from p (c # decode_from no_bytes cs)"
      using Cons.prems by (simp add: reading_def)
    then show ?thesis
      using 3 Cons.IH [OF reading_idle] by (simp add: decode_from.simps(2))
  next
    case 4
    then show ?thesis
      using Cons.IH [OF reading_next [OF Cons.prems 4]] by (simp add: decode_from.simps(2))
  qed
qed

lemma utf8_text_is_text [simp]: "is_text (utf8_text bytes)"
  unfolding is_text_def utf8_text_def by (rule decode_decoded) simp

end
