(* ===== verification/Disk.thy ===== *)
theory Disk
  imports Redis Utf8
begin

text \<open>
  The parts of Node's library that the file service stands on: \<open>path\<close> (the
  POSIX variant) and \<open>fs/promises\<close>. A buffer and a text are both lists of
  bytes; \<open>Buffer.from(s, 'utf8')\<close> is then the identity and
  \<open>toString('utf8')\<close> is \<open>utf8_text\<close>. The error of a system call is its code.
\<close>

section \<open>Splitting and joining text\<close>

fun split_on :: "char \<Rightarrow> string \<Rightarrow> string list" where
  "split_on c [] = [[]]"
| "split_on c (x # xs) = (if x = c then [] # split_on c xs
     else (case split_on c xs of [] \<Rightarrow> [[x]] | y # ys \<Rightarrow> (x # y) # ys))"

fun join_with :: "string \<Rightarrow> string list \<Rightarrow> string" where
  "join_with s [] = []"
| "join_with s [x] = x"
| "join_with s (x # y # ys) = x @ s @ join_with s (y # ys)"

lemma split_on_nonempty [simp]: "split_on c xs \<noteq> []"
  by (induction xs) (auto split: list.split)

lemma split_on_none [simp]: "c \<notin> set xs \<Longrightarrow> split_on c xs = [xs]"
  by (induction xs) auto

lemma split_on_append: "split_on c (xs @ c # ys) = split_on c xs @ split_on c ys"
  by (induction xs) (auto split: list.split)

lemma split_on_join:
  assumes "xs \<noteq> []" and "\<forall>x\<in>set xs. c \<notin> set x"
  shows "split_on c (join_with [c] xs) = xs"
  using assms by (induction xs rule: induct_list012) (auto simp: split_on_append)

lemma split_on_pieces: "x \<in> set (split_on c xs) \<Longrightarrow> c \<notin> set x"
  by (induction xs arbitrary: x) (auto split: if_splits list.splits)

lemma join_split_on: "join_with [c] (split_on c xs) = xs"
proof (induction xs)
  case (Cons x xs)
  then show ?case
    by (cases "split_on c xs"; cases "tl (split_on c xs)") (auto simp: neq_Nil_conv)
qed simp

lemma join_with_snoc: "xs \<noteq> [] \<Longrightarrow> join_with s (xs @ [x]) = join_with s xs @ s @ x"
  by (induction xs rule: induct_list012) auto

section \<open>Paths\<close>

definition slash :: char where "slash = CHR ''/''"

text \<open>\<open>normalizeString\<close>: empty and \<open>.\<close> segments go, \<open>..\<close> removes the segment before it.\<close>

fun resolve :: "bool \<Rightarrow> string list \<Rightarrow> string list \<Rightarrow> string list" where
  "resolve absolute st [] = rev st"
| "resolve absolute st (s # ss) =
     (if s = [] \<or> s = ''.'' then resolve absolute st ss
      else if s = ''..'' then
        (case st of
           [] \<Rightarrow> resolve absolute (if absolute then [] else [''..'']) ss
         | t # ts \<Rightarrow> if t = ''..'' then resolve absolute (''..'' # st) ss else resolve absolute ts ss)
      else resolve absolute (s # st) ss)"

definition path_normalize :: "string \<Rightarrow> string" where
  "path_normalize p = (if p = [] then ''.'' else
     (let absolute = (hd p = slash); trailing = (last p = slash);
          body = join_with [slash] (resolve absolute [] (split_on slash p))
      in if body = [] then (if absolute then [slash] else if trailing then ''./'' else ''.'')
         else (if absolute then [slash] else []) @ body @ (if trailing then [slash] else [])))"

definition path_join :: "string list \<Rightarrow> string" where
  "path_join ps = (let qs = filter (\<lambda>p. p \<noteq> []) ps in
     if qs = [] then ''.'' else path_normalize (join_with [slash] qs))"

text \<open>
  The last segment of a path and what is before it; a first character that is
  a slash belongs to the root.
\<close>

definition drop_slashes :: "string \<Rightarrow> string" where
  "drop_slashes p = rev (dropWhile (\<lambda>c. c = slash) (rev p))"

definition before_last :: "string \<Rightarrow> string" where
  "before_last p = (let q = dropWhile (\<lambda>c. c \<noteq> slash) (rev (drop_slashes p)) in rev (tl q))"

definition path_basename :: "string \<Rightarrow> string" where
  "path_basename p = rev (takeWhile (\<lambda>c. c \<noteq> slash) (rev (drop_slashes p)))"

definition has_dir :: "string \<Rightarrow> bool" where
  "has_dir p \<longleftrightarrow> slash \<in> set (drop_slashes (tl p))"

definition path_dirname :: "string \<Rightarrow> string" where
  "path_dirname p =
     (if \<not> has_dir p then (if p \<noteq> [] \<and> hd p = slash then [slash] else ''.'')
      else if before_last p = [slash] then [slash, slash] else before_last p)"

text \<open>\<open>path.parse(p).dir\<close>\<close>

definition parse_dir :: "string \<Rightarrow> string" where
  "parse_dir p =
     (if \<not> has_dir p then (if p \<noteq> [] \<and> hd p = slash then [slash] else [])
      else before_last p)"

text \<open>
  \<open>name\<close> and \<open>ext\<close> of a base name: cut at its last dot, unless that is the
  first character or the name is \<open>..\<close>.
\<close>

definition split_ext :: "string \<Rightarrow> string \<times> string" where
  "split_ext base =
     (let ext = takeWhile (\<lambda>c. c \<noteq> CHR ''.'') (rev base);
          rest = dropWhile (\<lambda>c. c \<noteq> CHR ''.'') (rev base)
      in if rest = [] \<or> tl rest = [] \<or> base = ''..'' then (base, [])
         else (rev (tl rest), CHR ''.'' # rev ext))"

definition parse_name :: "string \<Rightarrow> string" where
  "parse_name p = fst (split_ext (path_basename p))"

definition path_extname :: "string \<Rightarrow> string" where
  "path_extname p = snd (split_ext (path_basename p))"

definition to_lower :: "string \<Rightarrow> string" where
  "to_lower s = map (\<lambda>c. if 65 \<le> (of_char c :: nat) \<and> (of_char c :: nat) \<le> 90
     then char_of (of_char c + (32::nat)) else c) s"

text \<open>A name that stands for itself in a directory.\<close>

definition plain :: "string \<Rightarrow> bool" where
  "plain s \<longleftrightarrow> s \<noteq> [] \<and> slash \<notin> set s \<and> s \<noteq> ''.'' \<and> s \<noteq> ''..''"

lemma plain_simps [simp]:
  assumes "plain s"
  shows "s \<noteq> []" and "slash \<notin> set s" and "s \<noteq> ''.''" and "s \<noteq> ''..''" and "split_on slash s = [s]"
    and "last s \<noteq> slash"
  using assms last_in_set [of s] unfolding plain_def by (simp_all, metis)

text \<open>What \<open>resolve\<close> leaves on its stack, and that it leaves it alone a second time.\<close>

fun unwound :: "bool \<Rightarrow> string list \<Rightarrow> bool" where
  "unwound absolute [] = True"
| "unwound absolute (s # st) =
     (unwound absolute st \<and> (plain s \<or> s = ''..'' \<and> \<not> absolute \<and> (\<forall>t\<in>set st. t = ''..'')))"

lemma resolve_append: "resolve a st (xs @ ys) = resolve a (rev (resolve a st xs)) ys"
  by (induction a st xs rule: resolve.induct) (auto split: list.split)

lemma resolve_plain [simp]: "plain s \<Longrightarrow> resolve a st (s # ss) = resolve a (s # st) ss"
  unfolding plain_def by (elim conjE) (simp only: resolve.simps if_False simp_thms)

lemma plain_not [simp]: "\<not> plain []" "\<not> plain ''.''" "\<not> plain ''..''"
  by (simp_all add: plain_def)

lemma unwound_resolve:
  "unwound a st \<Longrightarrow> \<forall>s\<in>set ss. slash \<notin> set s \<Longrightarrow> unwound a (rev (resolve a st ss))"
proof (induction ss arbitrary: st)
  case (Cons s ss)
  then have rest: "\<forall>s\<in>set ss. slash \<notin> set s" by simp
  consider "s = [] \<or> s = ''.''" | "s = ''..''" | "plain s"
    using Cons.prems unfolding plain_def by auto
  then show ?case
  proof cases
    case 1
    then show ?thesis using Cons.IH [OF Cons.prems(1) rest] by auto
  next
    case 2
    have "unwound a (case st of [] \<Rightarrow> (if a then [] else [''..''])
        | t # ts \<Rightarrow> if t = ''..'' then ''..'' # st else ts)" (is "unwound a ?st")
      using Cons.prems(1) by (auto split: list.split)
    then have "unwound a (rev (resolve a ?st ss))" by (rule Cons.IH [OF _ rest])
    moreover have "resolve a st (s # ss) = resolve a ?st ss"
      using 2 by (auto split: list.split)
    ultimately show ?thesis by (simp only:)
  next
    case 3
    then show ?thesis using Cons.IH [OF _ rest, of "s # st"] Cons.prems(1) by simp
  qed
qed simp

lemma unwound_tail: "unwound a (xs @ st) \<Longrightarrow> unwound a st"
  by (induction xs) auto

lemma resolve_unwound: "unwound a (rev xs @ st) \<Longrightarrow> resolve a st xs = rev st @ xs"
proof (induction xs arbitrary: st)
  case (Cons x xs)
  have top: "unwound a (x # st)"
    using Cons.prems unwound_tail [of a "rev xs" "x # st"] by simp
  have "resolve a st (x # xs) = resolve a (x # st) xs"
  proof (cases "plain x")
    case False
    then show ?thesis using top by (cases st) simp_all
  qed simp
  also have "\<dots> = rev (x # st) @ xs"
    using Cons.prems by (intro Cons.IH) simp
  finally show ?case by simp
qed simp

text \<open>A directory a plain name can be appended to.\<close>

definition canonical :: "string \<Rightarrow> bool" where
  "canonical d \<longleftrightarrow> d \<noteq> [] \<and> last d \<noteq> slash \<and>
     (\<forall>n. plain n \<longrightarrow> path_join [d, n] = d @ [slash] @ n)"

lemma takeWhile_dropWhile_slash:
  "slash \<notin> set xs \<Longrightarrow> takeWhile (\<lambda>c. c \<noteq> slash) (xs @ slash # ys) = xs"
  "slash \<notin> set xs \<Longrightarrow> dropWhile (\<lambda>c. c \<noteq> slash) (xs @ slash # ys) = slash # ys"
  by (induction xs) auto

lemma path_dirname_snoc:
  assumes "d \<noteq> []" "last d \<noteq> slash" "n \<noteq> []" "slash \<notin> set n"
  shows "path_dirname (d @ [slash] @ n) = d" and "path_basename (d @ [slash] @ n) = n"
    and "parse_dir (d @ [slash] @ n) = d"
proof -
  have last_n: "drop_slashes (xs @ n) = xs @ n" for xs
    using assms(3,4) by (cases n rule: rev_cases) (auto simp: drop_slashes_def)
  have "has_dir (d @ [slash] @ n)"
    using assms(1) last_n [of "tl d @ [slash]"] by (simp add: has_dir_def)
  moreover have "dropWhile (\<lambda>c. c \<noteq> slash) (rev n @ slash # rev d) = slash # rev d"
    "takeWhile (\<lambda>c. c \<noteq> slash) (rev n @ slash # rev d) = rev n"
    using takeWhile_dropWhile_slash [of "rev n" "rev d"] assms(4) by simp_all
  then have "before_last (d @ [slash] @ n) = d" "path_basename (d @ [slash] @ n) = n"
    using last_n [of "d @ [slash]"] by (simp_all add: before_last_def path_basename_def)
  moreover have "d \<noteq> [slash]" using assms(2) by auto
  ultimately show "path_dirname (d @ [slash] @ n) = d" "path_basename (d @ [slash] @ n) = n"
    "parse_dir (d @ [slash] @ n) = d"
    by (simp_all add: path_dirname_def parse_dir_def)
qed

text \<open>The text of a path whose segments are resolved.\<close>

definition render :: "bool \<Rightarrow> string list \<Rightarrow> string" where
  "render absolute segs = (if absolute then [slash] else []) @ join_with [slash] segs"

lemma join_with_ends:
  "xs \<noteq> [] \<Longrightarrow> last xs \<noteq> [] \<Longrightarrow> join_with s xs \<noteq> [] \<and> last (join_with s xs) = last (last xs)"
  by (induction xs rule: induct_list012) (auto simp: neq_Nil_conv)

lemma hd_join_with: "hd xs \<noteq> [] \<Longrightarrow> xs \<noteq> [] \<Longrightarrow> join_with s xs \<noteq> [] \<and> hd (join_with s xs) = hd (hd xs)"
  by (induction xs rule: induct_list012) auto

lemma unwound_no_slash: "unwound a st \<Longrightarrow> s \<in> set st \<Longrightarrow> s \<noteq> [] \<and> slash \<notin> set s"
proof (induction st)
  case (Cons t st)
  moreover have "''..'' \<noteq> []" "slash \<notin> set ''..''" by (simp_all add: slash_def)
  ultimately show ?case by (metis plain_simps(1,2) set_ConsD unwound.simps(2))
qed simp

lemma path_normalize_render:
  assumes p: "p \<noteq> []" "last p \<noteq> slash" and body: "resolve (hd p = slash) [] (split_on slash p) = segs"
    and segs: "segs \<noteq> []"
  shows "path_normalize p = render (hd p = slash) segs" and "unwound (hd p = slash) (rev segs)"
proof -
  have unwound: "unwound (hd p = slash) (rev segs)"
    using unwound_resolve [of "hd p = slash" "[]" "split_on slash p"] body
    by (auto simp: split_on_pieces)
  then have "last segs \<noteq> []"
    using unwound_no_slash [OF unwound, of "last segs"] segs by auto
  then have "join_with [slash] segs \<noteq> []" using join_with_ends segs by blast
  then show "path_normalize p = render (hd p = slash) segs"
    using p body by (simp add: path_normalize_def render_def Let_def)
  show "unwound (hd p = slash) (rev segs)" by (rule unwound)
qed

lemma canonical_render:
  assumes segs: "unwound a (rev segs)" "segs \<noteq> []"
  shows "canonical (render a segs)"
proof -
  have pieces: "\<forall>s\<in>set segs. s \<noteq> [] \<and> slash \<notin> set s"
    using unwound_no_slash [OF segs(1)] by auto
  then have last: "last segs \<noteq> []" "slash \<notin> set (last segs)"
    using segs(2) by simp_all
  have hd: "hd segs \<noteq> []" "hd (hd segs) \<noteq> slash"
    using pieces segs(2) by (metis list.set_sel(1), metis hd_in_set)
  have split: "split_on slash (join_with [slash] segs) = segs"
    using segs(2) pieces by (intro split_on_join) auto
  have d: "render a segs \<noteq> []" "last (render a segs) \<noteq> slash"
    using join_with_ends [OF segs(2) last(1), of "[slash]"] last_in_set [OF last(1)] last(2)
    unfolding render_def by (simp, metis append_is_Nil_conv last_appendR)
  have root: "(hd (render a segs) = slash) = a"
    using hd_join_with [OF hd(1) segs(2), of "[slash]"] hd by (auto simp: render_def)
  have "path_join [render a segs, n] = render a segs @ [slash] @ n" if n: "plain n" for n
  proof -
    let ?p = "render a segs @ [slash] @ n"
    have "split_on slash ?p = (if a then [[]] else []) @ segs @ [n]"
      using split plain_simps(5) [OF n] by (simp add: render_def split_on_append)
    moreover have "unwound a (rev (segs @ [n]))" using segs n by simp
    ultimately have "resolve a [] (split_on slash ?p) = segs @ [n]"
      using resolve_unwound [of a "segs @ [n]" "[]"] by (cases a) simp_all
    moreover have p: "?p \<noteq> []" "last ?p \<noteq> slash" "(hd ?p = slash) = a"
      using d root n by simp_all
    ultimately have "path_normalize ?p = render a (segs @ [n])"
      using path_normalize_render(1) [of ?p "segs @ [n]"] by simp
    then show ?thesis
      using d(1) n segs(2) by (simp add: path_join_def render_def join_with_snoc)
  qed
  then show ?thesis using d by (simp add: canonical_def)
qed

lemma canonical_join:
  assumes "plain u" "plain j"
  shows "canonical (path_join [base, u, j])"
proof -
  let ?p = "(if base = [] then [] else base @ [slash]) @ u @ [slash] @ j"
  let ?a = "hd ?p = slash"
  let ?r = "resolve ?a [] (if base = [] then [] else split_on slash base)"
  have join: "path_join [base, u, j] = path_normalize ?p"
    using assms by (simp add: path_join_def)
  have "split_on slash ?p = (if base = [] then [] else split_on slash base) @ [u, j]"
    using assms by (simp add: split_on_append)
  then have res: "resolve ?a [] (split_on slash ?p) = ?r @ [u, j]"
    using assms by (simp only: resolve_append) simp
  have p: "?p \<noteq> []" "last ?p \<noteq> slash" using assms by simp_all
  have "?r @ [u, j] \<noteq> []" by simp
  note shape = path_normalize_render [OF p res this]
  show ?thesis
    unfolding join shape(1) by (rule canonical_render [OF shape(2)]) simp
qed

lemma canonicalD:
  assumes "canonical d" "plain n"
  shows "path_join [d, n] = d @ [slash] @ n" and "path_dirname (d @ [slash] @ n) = d"
    and "path_basename (d @ [slash] @ n) = n" and "parse_dir (d @ [slash] @ n) = d"
  using assms path_dirname_snoc [of d n] by (simp_all add: canonical_def)

section \<open>Files\<close>

text \<open>
  The files by path and the directories. A path is what \<open>path.join\<close> made of
  its parts, so two files with different paths are different files (the server
  makes no links).
\<close>

record fs =
  fs_files :: "(string, string) jsmap"
  fs_dirs :: "string list"

definition file_at :: "fs \<Rightarrow> string \<Rightarrow> string option" where
  "file_at s p = map_of (fs_files s) p"

definition dir_key :: "string \<Rightarrow> string" where
  "dir_key p = (if p \<noteq> [] \<and> drop_slashes p = [] then [slash] else drop_slashes p)"

text \<open>The working directory, the root and the directories above exist.\<close>

definition is_dir :: "fs \<Rightarrow> string \<Rightarrow> bool" where
  "is_dir s p \<longleftrightarrow> p \<noteq> [] \<and>
     (dir_key p \<in> set (fs_dirs s) \<or> set (split_on slash p) \<subseteq> {[], ''.'', ''..''})"

text \<open>\<open>fs.access(p)\<close>, \<open>fs.readFile(p)\<close>, \<open>fs.writeFile(p, data)\<close>, \<open>fs.unlink(p)\<close>\<close>

definition fs_access :: "string \<Rightarrow> fs \<Rightarrow> string + unit \<times> fs" where
  "fs_access p s = (if file_at s p \<noteq> None \<or> is_dir s p then Inr ((), s) else Inl ''ENOENT'')"

definition fs_read :: "string \<Rightarrow> fs \<Rightarrow> string + string \<times> fs" where
  "fs_read p s = (case file_at s p of
     Some data \<Rightarrow> Inr (data, s) | None \<Rightarrow> Inl (if is_dir s p then ''EISDIR'' else ''ENOENT''))"

definition fs_write :: "string \<Rightarrow> string \<Rightarrow> fs \<Rightarrow> string + unit \<times> fs" where
  "fs_write p data s =
     (if is_dir s p \<or> p \<noteq> [] \<and> last p = slash then Inl ''EISDIR''
      else if p = [] \<or> \<not> is_dir s (path_dirname p) then Inl ''ENOENT''
      else Inr ((), s\<lparr>fs_files := AList.update p data (fs_files s)\<rparr>))"

definition fs_unlink :: "string \<Rightarrow> fs \<Rightarrow> string + unit \<times> fs" where
  "fs_unlink p s = (if file_at s p = None then Inl (if is_dir s p then ''EPERM'' else ''ENOENT'')
     else Inr ((), s\<lparr>fs_files := AList.delete p (fs_files s)\<rparr>))"

text \<open>
  A write to an open file: it goes to the end of what was written to it
  before. A file that was unlinked meanwhile has no path any more.
\<close>

definition fs_append :: "string \<Rightarrow> string \<Rightarrow> fs \<Rightarrow> string + unit \<times> fs" where
  "fs_append p data s = (case file_at s p of
     None \<Rightarrow> Inr ((), s)
   | Some old \<Rightarrow> Inr ((), s\<lparr>fs_files := AList.update p (old @ data) (fs_files s)\<rparr>))"

text \<open>\<open>fs.mkdir(p, { recursive: true })\<close>\<close>

definition path_prefixes :: "string \<Rightarrow> string list" where
  "path_prefixes p = (let segs = split_on slash (dir_key p) in
     filter (\<lambda>q. q \<noteq> []) (map (\<lambda>n. join_with [slash] (take n segs)) [1..<length segs + 1]))"

definition fs_mkdir :: "string \<Rightarrow> fs \<Rightarrow> string + unit \<times> fs" where
  "fs_mkdir p s =
     (if p = [] then Inl ''ENOENT''
      else if \<exists>q\<in>set (path_prefixes p). file_at s q \<noteq> None then Inl ''ENOTDIR''
      else Inr ((), s\<lparr>fs_dirs := remdups (fs_dirs s @ path_prefixes p)\<rparr>))"

text \<open>The names in a directory: of the files and of the directories one step below it.\<close>

definition entry_at :: "fs \<Rightarrow> string \<Rightarrow> bool" where
  "entry_at s p \<longleftrightarrow> file_at s p \<noteq> None \<or> p \<in> set (fs_dirs s)"

definition names_in :: "fs \<Rightarrow> string \<Rightarrow> string list" where
  "names_in s p = remdups (filter (\<lambda>n. plain n \<and> entry_at s (path_join [p, n]))
     (map path_basename (map fst (fs_files s) @ fs_dirs s)))"

section \<open>The disk of a world\<close>

text \<open>
  The disk is one part of the world, beside Redis. The system may refuse any
  call, and it lists a directory in an order of its own.
\<close>

record 'w disk =
  d_try :: "'w \<Rightarrow> string option \<times> 'w"
  d_get :: "'w \<Rightarrow> fs"
  d_put :: "fs \<Rightarrow> 'w \<Rightarrow> 'w"
  d_order :: "'w \<Rightarrow> string \<Rightarrow> string list"

definition syscall :: "'w disk \<Rightarrow> (fs \<Rightarrow> string + 'a \<times> fs) \<Rightarrow> ('w, 'a) act" where
  "syscall D f = (\<lambda>w. case d_try D w of (e, w') \<Rightarrow>
     (case e of Some msg \<Rightarrow> (Inl msg, w')
      | None \<Rightarrow> (case f (d_get D w') of Inl msg \<Rightarrow> (Inl msg, w') | Inr (a, s) \<Rightarrow> (Inr a, d_put D s w'))))"

definition ACCESS :: "'w disk \<Rightarrow> string \<Rightarrow> ('w, unit) act" where
  "ACCESS D p = syscall D (fs_access p)"

definition READ_FILE :: "'w disk \<Rightarrow> string \<Rightarrow> ('w, string) act" where
  "READ_FILE D p = syscall D (fs_read p)"

definition WRITE_FILE :: "'w disk \<Rightarrow> string \<Rightarrow> string \<Rightarrow> ('w, unit) act" where
  "WRITE_FILE D p data = syscall D (fs_write p data)"

definition APPEND_FILE :: "'w disk \<Rightarrow> string \<Rightarrow> string \<Rightarrow> ('w, unit) act" where
  "APPEND_FILE D p data = syscall D (fs_append p data)"

definition UNLINK :: "'w disk \<Rightarrow> string \<Rightarrow> ('w, unit) act" where
  "UNLINK D p = syscall D (fs_unlink p)"

definition MKDIR :: "'w disk \<Rightarrow> string \<Rightarrow> ('w, unit) act" where
  "MKDIR D p = syscall D (fs_mkdir p)"

definition READDIR :: "'w disk \<Rightarrow> string \<Rightarrow> ('w, string list) act" where
  "READDIR D p = (\<lambda>w. case d_try D w of (e, w') \<Rightarrow>
     (case e of Some msg \<Rightarrow> (Inl msg, w')
      | None \<Rightarrow> if is_dir (d_get D w') p then (Inr (d_order D w' p), w')
                else (Inl (if file_at (d_get D w') p = None then ''ENOENT'' else ''ENOTDIR''), w')))"

text \<open>
  A disk that takes every call, beside a Redis server that does: neither
  touches the data of the other.
\<close>

locale storage = redis_up M for M :: "'w redis" +
  fixes D :: "'w disk"
  assumes disk_accepts: "d_try D w = (None, w)"
    and disk_get_put: "d_get D (d_put D s w) = s"
    and disk_put_put: "d_put D s (d_put D t w) = d_put D s w"
    and disk_put_get: "d_put D (d_get D w) w = w"
    and disk_order_set: "set (d_order D w p) = set (names_in (d_get D w) p)"
    and disk_order_distinct: "distinct (d_order D w p)"
    and strs_disk: "strs M (d_put D s w) = strs M w"
    and mems_disk: "mems M (d_put D s w) = mems M w"
    and disk_put_key: "d_get D (put M k v w) = d_get D w"
    and disk_dele: "d_get D (dele M k w) = d_get D w"
    and disk_addm: "d_get D (addm M k m w) = d_get D w"
    and disk_remm: "d_get D (remm M k m w) = d_get D w"
begin

lemmas disk_laws [simp] = disk_get_put disk_put_put disk_put_get strs_disk mems_disk disk_put_key
  disk_dele disk_addm disk_remm

lemma syscall_up: "syscall D f w = (case f (d_get D w) of
    Inl msg \<Rightarrow> (Inl msg, w) | Inr (a, s) \<Rightarrow> (Inr a, d_put D s w))"
  by (simp add: syscall_def disk_accepts)

lemma ACCESS_up: "ACCESS D p w =
    (if file_at (d_get D w) p \<noteq> None \<or> is_dir (d_get D w) p then (Inr (), w) else (Inl ''ENOENT'', w))"
  by (simp add: ACCESS_def syscall_up fs_access_def)

lemma READ_FILE_up: "file_at (d_get D w) p = Some data \<Longrightarrow> READ_FILE D p w = (Inr data, w)"
  by (simp add: READ_FILE_def syscall_up fs_read_def)

lemma UNLINK_up: "file_at (d_get D w) p = Some data \<Longrightarrow>
    UNLINK D p w = (Inr (), d_put D ((d_get D w)\<lparr>fs_files := AList.delete p (fs_files (d_get D w))\<rparr>) w)"
  by (simp add: UNLINK_def syscall_up fs_unlink_def)

lemma APPEND_FILE_up: "file_at (d_get D w) p = Some old \<Longrightarrow> APPEND_FILE D p data w =
    (Inr (), d_put D ((d_get D w)\<lparr>fs_files := AList.update p (old @ data) (fs_files (d_get D w))\<rparr>) w)"
  by (simp add: APPEND_FILE_def syscall_up fs_append_def)

lemma READDIR_up: "is_dir (d_get D w) p \<Longrightarrow> READDIR D p w = (Inr (d_order D w p), w)"
  by (simp add: READDIR_def disk_accepts)

end

text \<open>
  The same without the promise that a call succeeds: whatever the disk does,
  the data of the server stays.
\<close>

locale quiet_storage = redis_quiet M for M :: "'w redis" +
  fixes D :: "'w disk"
  assumes try_quiet: "d_try D w = (e, w') \<Longrightarrow> strs M w' = strs M w \<and> mems M w' = mems M w"
    and strs_quiet: "strs M (d_put D s w) = strs M w"
    and mems_quiet: "mems M (d_put D s w) = mems M w"
begin

lemma syscall_quiet: "strs M (snd (syscall D f w)) = strs M w" "mems M (snd (syscall D f w)) = mems M w"
  using try_quiet [of w] strs_quiet mems_quiet
  by (auto simp: syscall_def split: prod.splits option.splits sum.splits)

lemma READDIR_quiet: "strs M (snd (READDIR D p w)) = strs M w" "mems M (snd (READDIR D p w)) = mems M w"
  using try_quiet [of w] by (auto simp: READDIR_def split: prod.splits option.splits)

end

sublocale storage \<subseteq> quiet_storage
  by unfold_locales (simp_all add: disk_accepts)

section \<open>Disks in memory\<close>

text \<open>A server as a part of a larger world.\<close>

definition lift_redis :: "'w redis \<Rightarrow> ('w \<times> 'v) redis" where
  "lift_redis M = \<lparr>
     attempt = (\<lambda>w. case attempt M (fst w) of (e, m) \<Rightarrow> (e, (m, snd w))),
     strs = (\<lambda>w. strs M (fst w)),
     put = (\<lambda>k v w. (put M k v (fst w), snd w)),
     put_ex = (\<lambda>k v t w. (put_ex M k v t (fst w), snd w)),
     dele = (\<lambda>k w. (dele M k (fst w), snd w)),
     mems = (\<lambda>w. mems M (fst w)),
     addm = (\<lambda>k m w. (addm M k m (fst w), snd w)),
     remm = (\<lambda>k m w. (remm M k m (fst w), snd w)),
     allkeys = (\<lambda>w. allkeys M (fst w)),
     bump = (\<lambda>k w. (fst (bump M k (fst w)), (snd (bump M k (fst w)), snd w))),
     watch = (\<lambda>k w. (watch M k (fst w), snd w)),
     unwatch = (\<lambda>w. (unwatch M (fst w), snd w)),
     commit = (\<lambda>w. case commit M (fst w) of (b, m) \<Rightarrow> (b, (m, snd w)))\<rparr>"

context redis_server
begin

lemma lift_server: "redis_server (lift_redis M)"
  by (rule redis_server.intro)
    (auto simp: lift_redis_def strs_laws mems_laws mems_distinct keys_set keys_distinct
      split: prod.splits dest: committed)

end

context redis_quiet
begin

lemma lift_quiet: "redis_quiet (lift_redis M)"
  by (intro redis_quiet.intro redis_quiet_axioms.intro lift_server)
    (auto simp: lift_redis_def split: prod.splits dest: attempt_quiet commit_quiet)

end

context redis_up
begin

lemma lift_up: "redis_up (lift_redis M)"
  by (intro redis_up.intro redis_up_axioms.intro lift_server)
    (simp_all add: lift_redis_def accepted uncontended)

end

text \<open>The executable instance: the store in memory and a disk, side by side.\<close>

type_synonym box = "mem \<times> fs"

definition box_redis :: "box redis" where
  "box_redis = lift_redis mem_redis"

definition box_disk :: "('m \<times> fs) disk" where
  "box_disk = \<lparr>
     d_try = (\<lambda>w. (None, w)),
     d_get = snd,
     d_put = (\<lambda>s w. (fst w, s)),
     d_order = (\<lambda>w p. names_in (snd w) p)\<rparr>"

definition box0 :: box where
  "box0 = (mem0, \<lparr>fs_files = [], fs_dirs = []\<rparr>)"

interpretation box: storage box_redis box_disk
  unfolding box_redis_def
  by (intro storage.intro storage_axioms.intro mem.lift_up)
    (simp_all add: lift_redis_def box_disk_def names_in_def)

lemma box_is_storage: "storage box_redis box_disk"
  by (rule box.storage_axioms)

text \<open>A server with faults beside a disk with faults, each with its schedule.\<close>

type_synonym faulty_box = "faulty \<times> (bool list \<times> fs)"

definition faulty_disk :: "faulty_box disk" where
  "faulty_disk = \<lparr>
     d_try = (\<lambda>w. case w of (m, [], s) \<Rightarrow> (None, w)
        | (m, f # fs, s) \<Rightarrow> (if f then Some ''EIO'' else None, (m, fs, s))),
     d_get = (\<lambda>w. snd (snd w)),
     d_put = (\<lambda>s w. (fst w, fst (snd w), s)),
     d_order = (\<lambda>w p. names_in (snd (snd w)) p)\<rparr>"

interpretation faulty_box: quiet_storage "lift_redis faulty_redis" faulty_disk
  by (intro quiet_storage.intro quiet_storage_axioms.intro faulty.lift_quiet)
    (auto simp: lift_redis_def faulty_disk_def split: prod.splits list.splits)

lemma faulty_box_is_quiet: "quiet_storage (lift_redis faulty_redis) faulty_disk"
  by (rule faulty_box.quiet_storage_axioms)

end
