(* ===== verification/FileStore.thy ===== *)
theory FileStore
  imports Disk Accounts
begin

text \<open>
  \<open>src/utils/file_utils.ts\<close> and the part of \<open>src/services/file_service.ts\<close>
  that works on the local disk: metadata in Redis, contents in files, chunked
  uploads. The digest of \<open>crypto.createHash('sha256')\<close> is an argument.
\<close>

section \<open>Finding a file on disk\<close>

datatype FileResolutionResult = Resolved string FileMetadata | Unresolved string

definition content_type_of_extension :: "string \<Rightarrow> string \<Rightarrow> string" where
  "content_type_of_extension extension otherwise =
     (if extension = ''.html'' then ''text/html''
      else if extension = ''.json'' then ''application/json'' else otherwise)"

definition alternative :: "FileMetadata \<Rightarrow> string \<Rightarrow> string \<Rightarrow> int \<Rightarrow> FileMetadata" where
  "alternative meta actual found now = meta\<lparr>f_file_path := actual, f_name := found,
     f_content_type := content_type_of_extension (to_lower (path_extname found)) (f_content_type meta),
     f_updated_at := now\<rparr>"

definition find_alternative ::
  "'w redis \<Rightarrow> 'w disk \<Rightarrow> string \<Rightarrow> FileMetadata \<Rightarrow> string \<Rightarrow> int \<Rightarrow> ('w, FileResolutionResult) act" where
  "find_alternative M D expected meta fileId now =
     (let directory = parse_dir expected; nameWithoutExt = parse_name expected in
      bindA (READDIR D directory) (\<lambda>files.
        case filter (prefix nameWithoutExt) files of
          [] \<Rightarrow> returnA (Unresolved ''No matching files found in directory'')
        | found # _ \<Rightarrow>
            let actual = path_join [directory, found];
                updated = alternative meta actual found now
            in thenA (ACCESS D actual)
              (thenA (setFileMetadata M (FILE fileId) (VFile updated))
              (returnA (Resolved actual updated)))))"

definition resolveFilePathWithFallback ::
  "'w redis \<Rightarrow> 'w disk \<Rightarrow> string \<Rightarrow> FileMetadata \<Rightarrow> string \<Rightarrow> int \<Rightarrow> ('w, FileResolutionResult) act" where
  "resolveFilePathWithFallback M D expected meta fileId now = catchA
     (catchA (thenA (ACCESS D expected) (returnA (Resolved expected meta)))
       (\<lambda>_. catchA (find_alternative M D expected meta fileId now)
         (\<lambda>_. returnA (Unresolved ''Failed to read directory or find alternative files''))))
     (\<lambda>e. returnA (Unresolved (''File path resolution failed: '' @ e)))"

definition validateFilePath :: "'w disk \<Rightarrow> string \<Rightarrow> ('w, bool) act" where
  "validateFilePath D p = catchA (thenA (ACCESS D p) (returnA True)) (\<lambda>_. returnA False)"

definition getContentTypeFromExtension :: "string \<Rightarrow> string" where
  "getContentTypeFromExtension p = (let extension = to_lower (path_extname p) in
     if extension = ''.html'' \<or> extension = ''.htm'' then ''text/html''
     else if extension = ''.json'' then ''application/json''
     else if extension = ''.txt'' then ''text/plain''
     else if extension = ''.xml'' then ''application/xml''
     else if extension = ''.csv'' then ''text/csv''
     else ''application/octet-stream'')"

section \<open>Creating and reading files\<close>

record FileUploadRequest =
  fu_name :: string
  fu_content_type :: string
  fu_size :: int
  fu_user_principal_id :: string
  fu_job_id :: string

definition generateFileId :: "int \<Rightarrow> int \<Rightarrow> string" where
  "generateFileId timestamp random = ''file_'' @ show_int timestamp @ ''_'' @ show_int random"

definition new_metadata :: "FileUploadRequest \<Rightarrow> string \<Rightarrow> string \<Rightarrow> int \<Rightarrow> FileMetadata" where
  "new_metadata request fileId filePath now =
     \<lparr>f_id = fileId, f_name = fu_name request, f_content_type = fu_content_type request,
      f_size = fu_size request, f_created_at = now, f_updated_at = now,
      f_user_principal_id = fu_user_principal_id request, f_job_id = fu_job_id request,
      f_file_path = filePath, f_hash = None, f_storage_strategy = None, f_local_file_path = None,
      f_canister_file_key = None, f_sync_status = None\<rparr>"

definition createFile ::
  "'w redis \<Rightarrow> 'w disk \<Rightarrow> string \<Rightarrow> FileUploadRequest \<Rightarrow> int \<Rightarrow> int \<Rightarrow> ('w, FileMetadata EntityResult) act" where
  "createFile M D base request now rnd = catchA
     (let fileId = generateFileId now rnd;
          fileDir = path_join [base, fu_user_principal_id request, fu_job_id request];
          filePath = path_join [fileDir, fu_name request];
          fileMetadata = new_metadata request fileId filePath now
      in thenA (MKDIR D fileDir)
        (thenA (setFileMetadata M (FILE fileId) (VFile fileMetadata))
        (thenA (addFileToUserIndex M (FILES_BY_USER (fu_user_principal_id request)) fileId)
        (thenA (addFileToJobIndex M (FILES_BY_JOB (fu_job_id request)) fileId)
        (returnA (Success fileMetadata))))))
     (\<lambda>e. returnA (Failure DatabaseFault (''Failed to create file: '' @ e)))"

definition getFile :: "'w redis \<Rightarrow> string \<Rightarrow> ('w, FileMetadata EntityResult) act" where
  "getFile M fileId = catchA
     (bindA (getFileMetadata M (FILE fileId)) (\<lambda>data.
        case present data of
          None \<Rightarrow> returnA (Failure NotFound ''File not found'')
        | Some v \<Rightarrow> bindA (parse_as as_file v) (\<lambda>f. returnA (Success f))))
     (\<lambda>e. returnA (Failure DatabaseFault (''Failed to get file: '' @ e)))"

text \<open>The guard that most methods start with: the file exists and is the caller's.\<close>

definition with_own_file ::
  "'w redis \<Rightarrow> string \<Rightarrow> string \<Rightarrow> (FileMetadata \<Rightarrow> ('w, 'a EntityResult) act) \<Rightarrow> ('w, 'a EntityResult) act" where
  "with_own_file M fileId uid body = bindA (getFile M fileId) (\<lambda>fileResult.
     case fileResult of
       Failure k m \<Rightarrow> returnA (Failure k m)
     | Success file \<Rightarrow>
         if f_user_principal_id file \<noteq> uid
         then returnA (Failure InvalidInput ''Unauthorized access to file'')
         else body file)"

section \<open>Chunked uploads\<close>

record FileChunkRequest =
  fc_file_id :: string
  fc_chunk_index :: int
  fc_chunk_data :: string
  fc_user_principal_id :: string

definition chunk_prefix :: "string \<Rightarrow> string" where
  "chunk_prefix fileId = fileId @ ''_chunk_''"

definition uploadChunk ::
  "'w redis \<Rightarrow> 'w disk \<Rightarrow> FileChunkRequest \<Rightarrow> ('w, unit EntityResult) act" where
  "uploadChunk M D request = catchA
     (with_own_file M (fc_file_id request) (fc_user_principal_id request) (\<lambda>file.
        let chunkPath = path_join [path_dirname (f_file_path file),
                          chunk_prefix (f_id file) @ show_int (fc_chunk_index request)]
        in thenA (WRITE_FILE D chunkPath (fc_chunk_data request)) (returnA (Success ()))))
     (\<lambda>e. returnA (Failure DatabaseFault (''Failed to upload chunk: '' @ e)))"

text \<open>
  \<open>parseInt(name.split('_chunk_')[1])\<close>: the second piece of the name, and the
  integer it starts with, \<open>None\<close> for NaN.
\<close>

fun cut_at :: "string \<Rightarrow> string \<Rightarrow> string \<times> string option" where
  "cut_at sep s = (if prefix sep s then ([], Some (drop (length sep) s))
     else (case s of [] \<Rightarrow> ([], None) | c # cs \<Rightarrow> (case cut_at sep cs of (a, b) \<Rightarrow> (c # a, b))))"

declare cut_at.simps [simp del]

definition hex_digit :: "char \<Rightarrow> nat option" where
  "hex_digit c = (let n = (of_char c :: nat) in
     if 48 \<le> n \<and> n \<le> 57 then Some (n - 48)
     else if 97 \<le> n \<and> n \<le> 102 then Some (n - 87)
     else if 65 \<le> n \<and> n \<le> 70 then Some (n - 55) else None)"

definition parseInt :: "string \<Rightarrow> int option" where
  "parseInt s0 = (case split_sign (dropWhile js_space s0) of (sg, s) \<Rightarrow>
     if prefix ''0x'' s \<or> prefix ''0X'' s then
       (case takeWhile (\<lambda>c. hex_digit c \<noteq> None) (drop 2 s) of
          [] \<Rightarrow> None
        | ds \<Rightarrow> Some (sg * int (foldl (\<lambda>n c. 16 * n + the (hex_digit c)) 0 ds)))
     else (case takeWhile is_digit s of [] \<Rightarrow> None | ds \<Rightarrow> Some (sg * int (digits_value ds))))"

definition chunk_index :: "string \<Rightarrow> int option" where
  "chunk_index name = (case snd (cut_at ''_chunk_'' name) of
     None \<Rightarrow> None | Some rest \<Rightarrow> parseInt (fst (cut_at ''_chunk_'' rest)))"

text \<open>
  The sort by \<open>aIndex - bIndex\<close>. A difference that is NaN counts as 0; the
  order of a comparison that is then no order is up to the engine, here it is
  the one of an insertion sort.
\<close>

definition after_chunk :: "string \<Rightarrow> string \<Rightarrow> bool" where
  "after_chunk a b = (case (chunk_index a, chunk_index b) of
     (Some i, Some j) \<Rightarrow> j < i | _ \<Rightarrow> False)"

fun insert_chunk :: "string \<Rightarrow> string list \<Rightarrow> string list" where
  "insert_chunk x [] = [x]"
| "insert_chunk x (y # ys) = (if after_chunk x y then y # insert_chunk x ys else x # y # ys)"

definition sort_chunks :: "string list \<Rightarrow> string list" where
  "sort_chunks names = foldr insert_chunk names []"

definition move_chunk :: "'w disk \<Rightarrow> string \<Rightarrow> string \<Rightarrow> string \<Rightarrow> ('w, unit) act" where
  "move_chunk D fileDir filePath chunkName =
     (let chunkPath = path_join [fileDir, chunkName] in
      bindA (READ_FILE D chunkPath) (\<lambda>chunkData.
      thenA (APPEND_FILE D filePath chunkData) (UNLINK D chunkPath)))"

definition completeFileUpload ::
  "'w redis \<Rightarrow> 'w disk \<Rightarrow> (string \<Rightarrow> string) \<Rightarrow> string \<Rightarrow> string \<Rightarrow> int \<Rightarrow> ('w, unit EntityResult) act" where
  "completeFileUpload M D sha256 fileId uid now = catchA
     (with_own_file M fileId uid (\<lambda>file.
        let fileDir = path_dirname (f_file_path file) in
        bindA (READDIR D fileDir) (\<lambda>chunkFiles.
        let fileChunks = sort_chunks (filter (prefix (chunk_prefix (f_id file))) chunkFiles) in
        thenA (WRITE_FILE D (f_file_path file) [])
       (thenA (foldA (\<lambda>_. move_chunk D fileDir (f_file_path file)) () fileChunks)
       (bindA (READ_FILE D (f_file_path file)) (\<lambda>fileBuffer.
        thenA (setFileMetadata M (FILE fileId)
                 (VFile (file\<lparr>f_hash := Some (sha256 fileBuffer), f_updated_at := now\<rparr>)))
       (returnA (Success ()))))))))
     (\<lambda>e. returnA (Failure DatabaseFault (''Failed to complete file upload: '' @ e)))"

section \<open>Reading, listing, deleting\<close>

definition getFileContentLocalOnly ::
  "'w redis \<Rightarrow> 'w disk \<Rightarrow> string \<Rightarrow> string \<Rightarrow> int \<Rightarrow> ('w, string EntityResult) act" where
  "getFileContentLocalOnly M D fileId uid now = catchA
     (with_own_file M fileId uid (\<lambda>file.
        bindA (resolveFilePathWithFallback M D (f_file_path file) file fileId now) (\<lambda>resolutionResult.
        case resolutionResult of
          Unresolved msg \<Rightarrow> returnA (Failure NotFound (if msg = [] then ''File not found on disk'' else msg))
        | Resolved filePath _ \<Rightarrow> bindA (READ_FILE D filePath) (\<lambda>fileContent.
            returnA (Success fileContent)))))
     (\<lambda>e. returnA (Failure StorageError (''Failed to read file content from local storage: '' @ e)))"

definition file_or_null :: "'w redis \<Rightarrow> string \<Rightarrow> ('w, FileMetadata option) act" where
  "file_or_null M fileId = bindA (getFile M fileId) (\<lambda>result.
     returnA (case result of Success f \<Rightarrow> Some f | Failure _ _ \<Rightarrow> None))"

record FileListRequest =
  fl_user_principal_id :: string
  fl_job_id :: "string option"
  fl_start_id :: "string option"
  fl_limit :: "int option"

text \<open>\<open>fileIds.indexOf(request.start_id) + 1\<close>, or 0 where there is no start or no such id.\<close>

definition start_after :: "string option \<Rightarrow> string list \<Rightarrow> nat" where
  "start_after start fileIds = (case start of
     None \<Rightarrow> 0
   | Some s \<Rightarrow> if truthy s \<and> s \<in> set fileIds
       then length (takeWhile (\<lambda>i. i \<noteq> s) fileIds) + 1 else 0)"

definition listFiles :: "'w redis \<Rightarrow> FileListRequest \<Rightarrow> ('w, FileMetadata list EntityResult) act" where
  "listFiles M request = catchA
     (bindA (getFileIdsFromIndex M (case fl_job_id request of
          Some j \<Rightarrow> if truthy j then FILES_BY_JOB j else FILES_BY_USER (fl_user_principal_id request)
        | None \<Rightarrow> FILES_BY_USER (fl_user_principal_id request))) (\<lambda>fileIds.
      if fileIds = [] then returnA (Success []) else
      let startIndex = int (start_after (fl_start_id request) fileIds);
          endIndex = (case fl_limit request of
              Some n \<Rightarrow> if n \<noteq> 0 then startIndex + n else int (length fileIds)
            | None \<Rightarrow> int (length fileIds));
          paginatedIds = js_slice startIndex endIndex fileIds
      in bindA (mapA (file_or_null M) paginatedIds) (\<lambda>files. returnA (Success (somes files)))))
     (\<lambda>e. returnA (Failure DatabaseFault (''Failed to list files: '' @ e)))"

definition deleteFile ::
  "'w redis \<Rightarrow> 'w disk \<Rightarrow> string \<Rightarrow> string \<Rightarrow> ('w, unit EntityResult) act" where
  "deleteFile M D fileId uid = catchA
     (with_own_file M fileId uid (\<lambda>file.
        thenA (catchA (UNLINK D (f_file_path file)) (\<lambda>_. returnA ()))
       (thenA (deleteFileMetadata M (FILE fileId))
       (thenA (removeFileFromUserIndex M (FILES_BY_USER (f_user_principal_id file)) fileId)
       (thenA (removeFileFromJobIndex M (FILES_BY_JOB (f_job_id file)) fileId)
       (returnA (Success ())))))))
     (\<lambda>e. returnA (Failure DatabaseFault (''Failed to delete file: '' @ e)))"

definition writeFileData :: "'w disk \<Rightarrow> string \<Rightarrow> string \<Rightarrow> ('w, unit) act" where
  "writeFileData D filePath data = WRITE_FILE D filePath data"

definition getFilesByJobId :: "'w redis \<Rightarrow> string \<Rightarrow> ('w, FileMetadata list EntityResult) act" where
  "getFilesByJobId M jobId = catchA
     (bindA (getFileIdsFromIndex M (FILES_BY_JOB jobId)) (\<lambda>fileIds.
      if fileIds = [] then returnA (Success []) else
      bindA (mapA (file_or_null M) fileIds) (\<lambda>files. returnA (Success (somes files)))))
     (\<lambda>e. returnA (Failure DatabaseFault (''Failed to get files by job ID: '' @ e)))"

text \<open>The method is a stub that deletes nothing.\<close>

definition cleanupOldFiles :: "'w redis \<Rightarrow> int \<Rightarrow> ('w, int EntityResult) act" where
  "cleanupOldFiles M olderThanMs = returnA (Success 0)"

end
