(* ===== verification/DualStorage.thy ===== *)
theory DualStorage
  imports FileStore
begin

text \<open>
  \<open>config/can_storage_config.ts\<close>, \<open>services/can_file_service.ts\<close>,
  \<open>services/can_dual_storage_manager.ts\<close> and \<open>services/can_file_sync_service.ts\<close>:
  files kept on the local disk and in a storage canister. The canister is an
  argument, a record of the calls of \<open>canister/can_file_storage_interface.ts\<close>.
  The manager's own state, the retry queue and the asynchronous tasks it has
  started and not awaited, is a part of the world.
\<close>

section \<open>Configuration\<close>

datatype RetrievalStrategy =
    local_first | canister_first | local_only | canister_only | dual
  | fastest_available | preferred_with_fallback

datatype PreferredStorage = prefer_local | prefer_canister

record CanStorageConfig =
  sc_useDualStorage :: bool
  sc_canisterId :: string
  sc_syncRetryAttempts :: int
  sc_syncRetryInterval :: int
  sc_autoSync :: bool
  sc_syncOnAccess :: bool
  sc_defaultStrategy :: RetrievalStrategy
  sc_preferredStorage :: PreferredStorage
  sc_enableFallback :: bool
  sc_parallelRetrieval :: bool
  sc_timeoutMs :: int
  sc_retryAttempts :: int
  sc_smallFileThreshold :: int
  sc_largeFileThreshold :: int
  sc_criticalFileTypes :: "string list"
  sc_criticalFileExtensions :: "string list"

text \<open>The two environment variables are arguments.\<close>

definition DEFAULT_CAN_STORAGE_CONFIG :: "bool \<Rightarrow> string \<Rightarrow> CanStorageConfig" where
  "DEFAULT_CAN_STORAGE_CONFIG enabled canisterId =
     \<lparr>sc_useDualStorage = enabled, sc_canisterId = canisterId,
      sc_syncRetryAttempts = 3, sc_syncRetryInterval = 300000, sc_autoSync = True, sc_syncOnAccess = True,
      sc_defaultStrategy = dual, sc_preferredStorage = prefer_local, sc_enableFallback = True,
      sc_parallelRetrieval = True, sc_timeoutMs = 10000, sc_retryAttempts = 3,
      sc_smallFileThreshold = 1024, sc_largeFileThreshold = 10485760,
      sc_criticalFileTypes = [''application/json'', ''text/html''],
      sc_criticalFileExtensions = [''.json'', ''.html'', ''.xml'']\<rparr>"

record StrategyPreset =
  rp_defaultStrategy :: RetrievalStrategy
  rp_preferredStorage :: PreferredStorage
  rp_enableFallback :: bool
  rp_parallelRetrieval :: bool
  rp_timeoutMs :: int
  rp_retryAttempts :: int

definition RETRIEVAL_STRATEGIES :: "(string, StrategyPreset) jsmap" where
  "RETRIEVAL_STRATEGIES =
     [(''PERFORMANCE'', \<lparr>rp_defaultStrategy = fastest_available, rp_preferredStorage = prefer_local,
        rp_enableFallback = True, rp_parallelRetrieval = True, rp_timeoutMs = 5000, rp_retryAttempts = 2\<rparr>),
      (''RELIABILITY'', \<lparr>rp_defaultStrategy = preferred_with_fallback, rp_preferredStorage = prefer_canister,
        rp_enableFallback = True, rp_parallelRetrieval = False, rp_timeoutMs = 15000, rp_retryAttempts = 5\<rparr>),
      (''COST_OPTIMIZED'', \<lparr>rp_defaultStrategy = local_first, rp_preferredStorage = prefer_local,
        rp_enableFallback = True, rp_parallelRetrieval = False, rp_timeoutMs = 10000, rp_retryAttempts = 3\<rparr>),
      (''CANISTER_FIRST'', \<lparr>rp_defaultStrategy = canister_first, rp_preferredStorage = prefer_canister,
        rp_enableFallback = True, rp_parallelRetrieval = False, rp_timeoutMs = 12000, rp_retryAttempts = 3\<rparr>)]"

section \<open>The canister service\<close>

record CanFileMetadata =
  cm_name :: string
  cm_content_type :: string
  cm_size :: int
  cm_user_principal_id :: string
  cm_job_id :: string
  cm_created_at :: int
  cm_original_file_id :: string

text \<open>An optional result of Candid (\<open>IDL.Opt\<close>) is an array of at most one value.\<close>

record 'w canister =
  cn_store_file :: "string \<Rightarrow> string \<Rightarrow> CanFileMetadata \<Rightarrow> ('w, string \<times> bool) act"
  cn_get_file :: "string \<Rightarrow> ('w, string \<times> bool) act"
  cn_list_files_by_user :: "string \<Rightarrow> ('w, string list) act"
  cn_list_files_by_job :: "string \<Rightarrow> ('w, string list) act"
  cn_get_file_info :: "string \<Rightarrow> ('w, CanFileMetadata list) act"
  cn_get_storage_stats :: "('w, int \<times> int) act"
  cn_health_check :: "('w, string \<times> int) act"

definition can_metadata :: "FileMetadata \<Rightarrow> CanFileMetadata" where
  "can_metadata meta = \<lparr>cm_name = f_name meta, cm_content_type = f_content_type meta,
     cm_size = f_size meta, cm_user_principal_id = f_user_principal_id meta, cm_job_id = f_job_id meta,
     cm_created_at = f_created_at meta, cm_original_file_id = f_id meta\<rparr>"

definition canStoreFile ::
  "'w canister \<Rightarrow> string \<Rightarrow> FileMetadata \<Rightarrow> string option \<Rightarrow> ('w, string EntityResult) act" where
  "canStoreFile C content meta customKey = catchA
     (let fileKey = (case customKey of Some k \<Rightarrow> if truthy k then k else f_name meta | None \<Rightarrow> f_name meta) in
      bindA (cn_store_file C fileKey (utf8_text content) (can_metadata meta)) (\<lambda>(file_key, success).
        returnA (if success then Success file_key
                 else Failure CanisterError ''Failed to store file in canister'')))
     (\<lambda>e. returnA (Failure CanisterError (''Failed to store file: '' @ e)))"

definition canRetrieveFile :: "'w canister \<Rightarrow> string \<Rightarrow> ('w, string EntityResult) act" where
  "canRetrieveFile C fileKey = catchA
     (bindA (cn_get_file C fileKey) (\<lambda>(content, success).
        returnA (if success then Success content
                 else Failure NotFound ''File not found in canister'')))
     (\<lambda>e. returnA (Failure CanisterError (''Failed to retrieve file: '' @ e)))"

definition canListFilesByUser :: "'w canister \<Rightarrow> string \<Rightarrow> ('w, string list EntityResult) act" where
  "canListFilesByUser C uid = catchA
     (bindA (cn_list_files_by_user C uid) (\<lambda>result. returnA (Success result)))
     (\<lambda>e. returnA (Failure CanisterError (''Failed to list files by user: '' @ e)))"

definition canListFilesByJob :: "'w canister \<Rightarrow> string \<Rightarrow> ('w, string list EntityResult) act" where
  "canListFilesByJob C jobId = catchA
     (bindA (cn_list_files_by_job C jobId) (\<lambda>result. returnA (Success result)))
     (\<lambda>e. returnA (Failure CanisterError (''Failed to list files by job: '' @ e)))"

text \<open>
  \<open>getFileInfo\<close> reads the fields of the metadata off the array: an array is
  true whether it is empty or not, and has none of the fields.
\<close>

record CanFileInfo =
  ci_id :: "string option"
  ci_name :: "string option"
  ci_content_type :: "string option"
  ci_size :: "int option"
  ci_created_at :: "int option"
  ci_user_principal_id :: "string option"
  ci_job_id :: "string option"
  ci_file_path :: string
  ci_canister_file_key :: string
  ci_storage_strategy :: StorageStrategy

definition canGetFileInfo :: "'w canister \<Rightarrow> string \<Rightarrow> ('w, CanFileInfo EntityResult) act" where
  "canGetFileInfo C fileKey = catchA
     (bindA (cn_get_file_info C fileKey) (\<lambda>_. returnA (Success
        \<lparr>ci_id = None, ci_name = None, ci_content_type = None, ci_size = None, ci_created_at = None,
         ci_user_principal_id = None, ci_job_id = None, ci_file_path = ''canister:'' @ fileKey,
         ci_canister_file_key = fileKey, ci_storage_strategy = STORE_CANISTER\<rparr>)))
     (\<lambda>e. returnA (Failure CanisterError (''Failed to get file info: '' @ e)))"

definition canGetStorageStats :: "'w canister \<Rightarrow> ('w, (int \<times> int) EntityResult) act" where
  "canGetStorageStats C = catchA
     (bindA (cn_get_storage_stats C) (\<lambda>result. returnA (Success result)))
     (\<lambda>e. returnA (Failure CanisterError (''Failed to get storage stats: '' @ e)))"

definition canHealthCheck :: "'w canister \<Rightarrow> ('w, (string \<times> int) EntityResult) act" where
  "canHealthCheck C = catchA
     (bindA (cn_health_check C) (\<lambda>result. returnA (Success result)))
     (\<lambda>e. returnA (Failure CanisterError (''Health check failed: '' @ e)))"

section \<open>The manager and its tasks\<close>

record SyncOperation =
  so_fileId :: string
  so_content :: string
  so_retryCount :: int
  so_lastRetry :: int

text \<open>The methods the manager calls without \<open>await\<close>.\<close>

datatype background_task =
    StoreInCanister FileMetadata string
  | RestoreToLocal string string
  | SyncToCanister string string

record DualState =
  du_syncQueue :: "(string, SyncOperation) jsmap"
  du_started :: "background_task list"

record 'w dual =
  dm_config :: CanStorageConfig
  dm_canister :: "'w canister"
  dm_base :: string
  dm_get :: "'w \<Rightarrow> DualState"
  dm_put :: "DualState \<Rightarrow> 'w \<Rightarrow> 'w"

definition start_task :: "'w dual \<Rightarrow> background_task \<Rightarrow> ('w, unit) act" where
  "start_task S t = (\<lambda>w. (Inr (), dm_put S
     ((dm_get S w)\<lparr>du_started := du_started (dm_get S w) @ [t]\<rparr>) w))"

definition set_queue ::
  "'w dual \<Rightarrow> ((string, SyncOperation) jsmap \<Rightarrow> (string, SyncOperation) jsmap) \<Rightarrow> ('w, unit) act" where
  "set_queue S f = (\<lambda>w. (Inr (), dm_put S
     ((dm_get S w)\<lparr>du_syncQueue := f (du_syncQueue (dm_get S w))\<rparr>) w))"

definition addToRetryQueue :: "'w dual \<Rightarrow> string \<Rightarrow> string \<Rightarrow> int \<Rightarrow> ('w, unit) act" where
  "addToRetryQueue S fileId content now = set_queue S (map_set fileId
     \<lparr>so_fileId = fileId, so_content = content, so_retryCount = 0, so_lastRetry = now\<rparr>)"

definition updateFileMetadata :: "'w redis \<Rightarrow> FileMetadata \<Rightarrow> ('w, unit) act" where
  "updateFileMetadata M meta = setFileMetadata M (FILE (f_id meta)) (VFile meta)"

text \<open>Both updates read the record and write it back.\<close>

definition change_metadata ::
  "'w redis \<Rightarrow> string \<Rightarrow> (FileMetadata \<Rightarrow> FileMetadata) \<Rightarrow> ('w, unit) act" where
  "change_metadata M fileId f = bindA (getFileMetadata M (FILE fileId)) (\<lambda>metadata.
     case present metadata of
       None \<Rightarrow> returnA ()
     | Some v \<Rightarrow> bindA (parse_as as_file v) (\<lambda>fileData.
         setFileMetadata M (FILE fileId) (VFile (f fileData))))"

definition updateStorageStrategy ::
  "'w redis \<Rightarrow> string \<Rightarrow> StorageStrategy \<Rightarrow> int \<Rightarrow> ('w, unit) act" where
  "updateStorageStrategy M fileId strategy now = change_metadata M fileId
     (\<lambda>f. f\<lparr>f_storage_strategy := Some strategy, f_updated_at := now\<rparr>)"

definition updateSyncStatus :: "'w redis \<Rightarrow> string \<Rightarrow> SyncStatus \<Rightarrow> int \<Rightarrow> ('w, unit) act" where
  "updateSyncStatus M fileId status now = change_metadata M fileId
     (\<lambda>f. f\<lparr>f_sync_status := Some status, f_updated_at := now\<rparr>)"

definition storeInCanisterAsync ::
  "'w redis \<Rightarrow> 'w dual \<Rightarrow> FileMetadata \<Rightarrow> string \<Rightarrow> int \<Rightarrow> ('w, unit) act" where
  "storeInCanisterAsync M S meta content now = catchA
     (bindA (canStoreFile (dm_canister S) content meta (Some (f_name meta))) (\<lambda>canisterResult.
        case canisterResult of
          Success _ \<Rightarrow> updateSyncStatus M (f_id meta) SYNCED now
        | Failure _ _ \<Rightarrow> thenA (updateSyncStatus M (f_id meta) SYNC_FAILED now)
            (addToRetryQueue S (f_id meta) content now)))
     (\<lambda>_. updateSyncStatus M (f_id meta) SYNC_FAILED now)"

definition restoreToLocalAsync ::
  "'w redis \<Rightarrow> 'w disk \<Rightarrow> string \<Rightarrow> string \<Rightarrow> ('w, unit) act" where
  "restoreToLocalAsync M D fileId content = catchA
     (bindA (getFile M fileId) (\<lambda>metadataResult.
        case metadataResult of
          Failure _ _ \<Rightarrow> returnA ()
        | Success meta \<Rightarrow> writeFileData D (f_file_path meta) content))
     (\<lambda>_. returnA ())"

definition syncToCanisterAsync :: "'w redis \<Rightarrow> 'w dual \<Rightarrow> string \<Rightarrow> string \<Rightarrow> ('w, unit) act" where
  "syncToCanisterAsync M S fileId content = catchA
     (bindA (getFile M fileId) (\<lambda>metadataResult.
        case metadataResult of
          Failure _ _ \<Rightarrow> returnA ()
        | Success meta \<Rightarrow> bindA (canStoreFile (dm_canister S) content meta (Some (f_name meta)))
            (\<lambda>_. returnA ())))
     (\<lambda>_. returnA ())"

fun run_task :: "'w redis \<Rightarrow> 'w disk \<Rightarrow> 'w dual \<Rightarrow> int \<Rightarrow> background_task \<Rightarrow> ('w, unit) act" where
  "run_task M D S now (StoreInCanister meta content) = storeInCanisterAsync M S meta content now"
| "run_task M D S now (RestoreToLocal fileId content) = restoreToLocalAsync M D fileId content"
| "run_task M D S now (SyncToCanister fileId content) = syncToCanisterAsync M S fileId content"

section \<open>Storing\<close>

definition isCriticalFile :: "CanStorageConfig \<Rightarrow> FileUploadRequest \<Rightarrow> bool" where
  "isCriticalFile config request \<longleftrightarrow>
     fu_content_type request \<in> set (sc_criticalFileTypes config) \<or>
     (\<exists>ext\<in>set (sc_criticalFileExtensions config). suffix ext (fu_name request))"

definition determineStorageStrategy ::
  "CanStorageConfig \<Rightarrow> FileUploadRequest \<Rightarrow> string \<Rightarrow> StorageStrategy" where
  "determineStorageStrategy config request content =
     (let fileSize = int (length content) in
      if fileSize < sc_smallFileThreshold config then STORE_LOCAL
      else if isCriticalFile config request then STORE_DUAL
      else if sc_largeFileThreshold config < fileSize then STORE_CANISTER
      else STORE_DUAL)"

definition storeLocally ::
  "'w redis \<Rightarrow> 'w disk \<Rightarrow> 'w dual \<Rightarrow> FileUploadRequest \<Rightarrow> string \<Rightarrow> int \<Rightarrow> int \<Rightarrow>
   ('w, FileMetadata EntityResult) act" where
  "storeLocally M D S request content now rnd =
     bindA (createFile M D (dm_base S) request now rnd) (\<lambda>result.
     case result of
       Failure k m \<Rightarrow> returnA (Failure k m)
     | Success meta \<Rightarrow> thenA (writeFileData D (f_file_path meta) content) (returnA result))"

definition temp_metadata :: "FileUploadRequest \<Rightarrow> int \<Rightarrow> int \<Rightarrow> FileMetadata" where
  "temp_metadata request now rnd = (new_metadata request (generateFileId now rnd) [] now)
     \<lparr>f_storage_strategy := Some STORE_CANISTER, f_sync_status := Some SYNCED,
      f_canister_file_key := Some (fu_name request)\<rparr>"

definition storeInCanister ::
  "'w redis \<Rightarrow> 'w dual \<Rightarrow> FileUploadRequest \<Rightarrow> string \<Rightarrow> int \<Rightarrow> int \<Rightarrow>
   ('w, FileMetadata EntityResult) act" where
  "storeInCanister M S request content now rnd =
     (let tempMetadata = temp_metadata request now rnd in
      bindA (canStoreFile (dm_canister S) content tempMetadata (Some (fu_name request))) (\<lambda>canisterResult.
      case canisterResult of
        Failure k m \<Rightarrow> returnA (Failure k m)
      | Success _ \<Rightarrow> thenA (updateFileMetadata M tempMetadata) (returnA (Success tempMetadata))))"

text \<open>The two halves of \<open>storeDually\<close>, before and after the canister call is started.\<close>

definition dual_metadata :: "FileMetadata \<Rightarrow> FileMetadata" where
  "dual_metadata meta = meta\<lparr>f_storage_strategy := Some STORE_DUAL,
     f_local_file_path := Some (f_file_path meta), f_canister_file_key := Some (f_name meta),
     f_sync_status := Some SYNCING\<rparr>"

definition finish_dual ::
  "'w redis \<Rightarrow> FileMetadata \<Rightarrow> ('w, FileMetadata EntityResult) act" where
  "finish_dual M meta =
     thenA (updateFileMetadata M (dual_metadata meta)) (returnA (Success (dual_metadata meta)))"

definition storeDually ::
  "'w redis \<Rightarrow> 'w disk \<Rightarrow> 'w dual \<Rightarrow> FileUploadRequest \<Rightarrow> string \<Rightarrow> int \<Rightarrow> int \<Rightarrow>
   ('w, FileMetadata EntityResult) act" where
  "storeDually M D S request content now rnd =
     bindA (createFile M D (dm_base S) request now rnd) (\<lambda>localResult.
     case localResult of
       Failure k m \<Rightarrow> returnA (Failure k m)
     | Success meta \<Rightarrow> thenA (writeFileData D (f_file_path meta) content)
         (thenA (start_task S (StoreInCanister meta content)) (finish_dual M meta)))"

definition storeFile ::
  "'w redis \<Rightarrow> 'w disk \<Rightarrow> 'w dual \<Rightarrow> FileUploadRequest \<Rightarrow> string \<Rightarrow> int \<Rightarrow> int \<Rightarrow>
   ('w, FileMetadata EntityResult) act" where
  "storeFile M D S request content now rnd = catchA
     (let strategy = determineStorageStrategy (dm_config S) request content in
      bindA (case strategy of
          STORE_LOCAL \<Rightarrow> storeLocally M D S request content now rnd
        | STORE_CANISTER \<Rightarrow> storeInCanister M S request content now rnd
        | STORE_DUAL \<Rightarrow> storeDually M D S request content now rnd) (\<lambda>result.
      case result of
        Failure k m \<Rightarrow> returnA (Failure k m)
      | Success meta \<Rightarrow> thenA (updateStorageStrategy M (f_id meta) strategy now) (returnA result)))
     (\<lambda>e. returnA (Failure StorageError (''Failed to store file: '' @ e)))"

section \<open>Retrieving\<close>

definition retrieveFromCanister :: "'w redis \<Rightarrow> 'w dual \<Rightarrow> string \<Rightarrow> ('w, string EntityResult) act" where
  "retrieveFromCanister M S fileId = catchA
     (bindA (getFile M fileId) (\<lambda>metadataResult.
        case metadataResult of
          Failure _ _ \<Rightarrow> returnA (Failure NotFound ''File metadata not found'')
        | Success meta \<Rightarrow> canRetrieveFile (dm_canister S)
            (case f_canister_file_key meta of Some k \<Rightarrow> if truthy k then k else f_name meta
             | None \<Rightarrow> f_name meta)))
     (\<lambda>e. returnA (Failure CanisterError (''Canister retrieval failed: '' @ e)))"

definition retrieveLocalFirst ::
  "'w redis \<Rightarrow> 'w disk \<Rightarrow> 'w dual \<Rightarrow> string \<Rightarrow> string \<Rightarrow> int \<Rightarrow> ('w, string EntityResult) act" where
  "retrieveLocalFirst M D S fileId uid now = catchA
     (bindA (getFileContentLocalOnly M D fileId uid now) (\<lambda>localResult.
        case localResult of
          Success _ \<Rightarrow> returnA localResult
        | Failure _ _ \<Rightarrow> bindA (retrieveFromCanister M S fileId) (\<lambda>canisterResult.
            case canisterResult of
              Failure _ _ \<Rightarrow> returnA canisterResult
            | Success content \<Rightarrow> thenA
                (if sc_syncOnAccess (dm_config S) then start_task S (RestoreToLocal fileId content)
                 else returnA ()) (returnA canisterResult))))
     (\<lambda>e. returnA (Failure StorageError (''Retrieval failed: '' @ e)))"

definition retrieveCanisterFirst ::
  "'w redis \<Rightarrow> 'w disk \<Rightarrow> 'w dual \<Rightarrow> string \<Rightarrow> string \<Rightarrow> int \<Rightarrow> ('w, string EntityResult) act" where
  "retrieveCanisterFirst M D S fileId uid now = catchA
     (bindA (retrieveFromCanister M S fileId) (\<lambda>canisterResult.
        case canisterResult of
          Success content \<Rightarrow> thenA (start_task S (RestoreToLocal fileId content)) (returnA canisterResult)
        | Failure _ _ \<Rightarrow> bindA (getFileContentLocalOnly M D fileId uid now) (\<lambda>localResult.
            case localResult of
              Failure _ _ \<Rightarrow> returnA localResult
            | Success content \<Rightarrow> thenA
                (if sc_syncOnAccess (dm_config S) then start_task S (SyncToCanister fileId content)
                 else returnA ()) (returnA localResult))))
     (\<lambda>e. returnA (Failure StorageError (''Retrieval failed: '' @ e)))"

text \<open>\<open>Promise.allSettled\<close> of both; neither of the two methods throws.\<close>

definition retrieveFastestAvailable ::
  "'w redis \<Rightarrow> 'w disk \<Rightarrow> 'w dual \<Rightarrow> string \<Rightarrow> string \<Rightarrow> int \<Rightarrow> ('w, string EntityResult) act" where
  "retrieveFastestAvailable M D S fileId uid now = catchA
     (bindA (getFileContentLocalOnly M D fileId uid now) (\<lambda>localResult.
      bindA (retrieveFromCanister M S fileId) (\<lambda>canisterResult.
      case (localResult, canisterResult) of
        (Success _, _) \<Rightarrow> returnA localResult
      | (Failure _ _, Success content) \<Rightarrow>
          thenA (start_task S (RestoreToLocal fileId content)) (returnA canisterResult)
      | (Failure _ _, Failure _ _) \<Rightarrow> returnA (Failure StorageError ''Both storage locations failed''))))
     (\<lambda>e. returnA (Failure StorageError (''Retrieval failed: '' @ e)))"

definition retrievePreferredWithFallback ::
  "'w redis \<Rightarrow> 'w disk \<Rightarrow> 'w dual \<Rightarrow> string \<Rightarrow> string \<Rightarrow> int \<Rightarrow> ('w, string EntityResult) act" where
  "retrievePreferredWithFallback M D S fileId uid now =
     (if sc_preferredStorage (dm_config S) = prefer_local then retrieveLocalFirst M D S fileId uid now
      else retrieveCanisterFirst M D S fileId uid now)"

definition retrieveFile ::
  "'w redis \<Rightarrow> 'w disk \<Rightarrow> 'w dual \<Rightarrow> string \<Rightarrow> string \<Rightarrow> RetrievalStrategy option \<Rightarrow> int \<Rightarrow>
   ('w, string EntityResult) act" where
  "retrieveFile M D S fileId uid strategy now =
     (case (case strategy of Some s \<Rightarrow> s | None \<Rightarrow> sc_defaultStrategy (dm_config S)) of
        local_first \<Rightarrow> retrieveLocalFirst M D S fileId uid now
      | canister_first \<Rightarrow> retrieveCanisterFirst M D S fileId uid now
      | local_only \<Rightarrow> getFileContentLocalOnly M D fileId uid now
      | canister_only \<Rightarrow> retrieveFromCanister M S fileId
      | fastest_available \<Rightarrow> retrieveFastestAvailable M D S fileId uid now
      | preferred_with_fallback \<Rightarrow> retrievePreferredWithFallback M D S fileId uid now
      | dual \<Rightarrow> retrieveLocalFirst M D S fileId uid now)"

definition dualDeleteFile ::
  "'w redis \<Rightarrow> 'w disk \<Rightarrow> string \<Rightarrow> string \<Rightarrow> ('w, unit EntityResult) act" where
  "dualDeleteFile M D fileId uid = catchA
     (bindA (getFile M fileId) (\<lambda>metadataResult.
        case metadataResult of
          Failure _ _ \<Rightarrow> returnA (Failure NotFound ''File not found'')
        | Success meta \<Rightarrow>
            if f_storage_strategy meta = Some STORE_LOCAL \<or> f_storage_strategy meta = Some STORE_DUAL
            then bindA (deleteFile M D fileId uid) (\<lambda>localResult. returnA
                   (if succeeded localResult then Success ()
                    else Failure StorageError ''Failed to delete file from local storage''))
            else returnA (Failure StorageError ''Cannot delete canister-only files (deletion disabled)'')))
     (\<lambda>e. returnA (Failure StorageError (''Failed to delete file: '' @ e)))"

section \<open>Retries\<close>

definition count_retry :: "'w dual \<Rightarrow> string \<Rightarrow> int \<Rightarrow> ('w, unit) act" where
  "count_retry S fileId now = set_queue S (\<lambda>q. case map_get q fileId of
     None \<Rightarrow> q
   | Some op \<Rightarrow> map_set fileId (op\<lparr>so_retryCount := so_retryCount op + 1, so_lastRetry := now\<rparr>) q)"

definition retry_one ::
  "'w redis \<Rightarrow> 'w dual \<Rightarrow> int \<Rightarrow> string \<times> SyncOperation \<Rightarrow> ('w, unit) act" where
  "retry_one M S now e = (case e of (fileId, operation) \<Rightarrow>
     if so_retryCount operation < sc_syncRetryAttempts (dm_config S) then
       catchA (bindA (getFile M fileId) (\<lambda>metadataResult.
         case metadataResult of
           Failure _ _ \<Rightarrow> returnA ()
         | Success meta \<Rightarrow> bindA (canStoreFile (dm_canister S) (so_content operation) meta None) (\<lambda>canisterResult.
             case canisterResult of
               Success _ \<Rightarrow> thenA (set_queue S (map_delete fileId)) (updateSyncStatus M fileId SYNCED now)
             | Failure _ _ \<Rightarrow> count_retry S fileId now)))
         (\<lambda>_. count_retry S fileId now)
     else thenA (set_queue S (map_delete fileId))
            (updateSyncStatus M fileId SYNC_FAILED_PERMANENTLY now))"

definition processRetryQueue :: "'w redis \<Rightarrow> 'w dual \<Rightarrow> int \<Rightarrow> ('w, unit) act" where
  "processRetryQueue M S now = (\<lambda>w.
     foldA (\<lambda>_. retry_one M S now) () (du_syncQueue (dm_get S w)) w)"

record StorageStats =
  sg_local :: "int \<times> int \<times> int"
  sg_canister :: "int \<times> int \<times> int"
  sg_pending :: int
  sg_failed :: int
  sg_synced :: int

text \<open>The triples are \<open>totalFiles\<close>, \<open>totalSize\<close>, \<open>lastSync\<close>.\<close>

definition getStorageStats :: "'w dual \<Rightarrow> int \<Rightarrow> ('w, StorageStats EntityResult) act" where
  "getStorageStats S now = catchA
     (bindA (canGetStorageStats (dm_canister S)) (\<lambda>canisterStats. \<lambda>w. (Inr (Success
        \<lparr>sg_local = (0, 0, now),
         sg_canister = (case canisterStats of Success (n, bytes) \<Rightarrow> (n, bytes, now) | Failure _ _ \<Rightarrow> (0, 0, now)),
         sg_pending = int (length (du_syncQueue (dm_get S w))), sg_failed = 0, sg_synced = 0\<rparr>), w)))
     (\<lambda>e. returnA (Failure StorageError (''Failed to get storage stats: '' @ e)))"

section \<open>The sync service\<close>

text \<open>The live interval timers, and the handle of the one \<open>stop\<close> would clear.\<close>

record CanFileSyncService =
  sy_timers :: "nat list"
  sy_syncInterval :: "nat option"

definition startSyncService :: "CanStorageConfig \<Rightarrow> nat \<Rightarrow> CanFileSyncService \<Rightarrow> CanFileSyncService" where
  "startSyncService config newTimer s = (if \<not> sc_autoSync config then s
     else s\<lparr>sy_timers := sy_timers s @ [newTimer], sy_syncInterval := Some newTimer\<rparr>)"

definition stopSyncService :: "CanFileSyncService \<Rightarrow> CanFileSyncService" where
  "stopSyncService s = (case sy_syncInterval s of
     None \<Rightarrow> s
   | Some t \<Rightarrow> s\<lparr>sy_timers := removeAll t (sy_timers s), sy_syncInterval := None\<rparr>)"

definition syncIntervalFires :: "'w redis \<Rightarrow> 'w dual \<Rightarrow> int \<Rightarrow> ('w, unit) act" where
  "syncIntervalFires M S now = catchA (processRetryQueue M S now) (\<lambda>_. returnA ())"

definition syncFile :: "'w redis \<Rightarrow> 'w dual \<Rightarrow> int \<Rightarrow> ('w, string option) act" where
  "syncFile M S now = catchA
     (thenA (processRetryQueue M S now) (returnA None))
     (\<lambda>e. returnA (Some (''Sync failed: '' @ e)))"

definition getSyncStatus :: "CanStorageConfig \<Rightarrow> CanFileSyncService \<Rightarrow> bool \<times> int \<times> bool" where
  "getSyncStatus config s =
     (sy_syncInterval s \<noteq> None, sc_syncRetryInterval config, sc_autoSync config)"

end
