(* ===== verification/JsonText.thy ===== *)
theory JsonText
  imports Pricing Disk
begin

text \<open>
  \<open>JSON.stringify(value, null, 2)\<close>, which the file service and the marketplace
  write files and previews with, and the order of the members of an object.
\<close>

definition newline :: char where "newline = char_of (10 :: nat)"

definition hex_char :: "nat \<Rightarrow> char" where
  "hex_char n = char_of (if n < 10 then 48 + n else 87 + n)"

definition quote_char :: "char \<Rightarrow> string" where
  "quote_char c = (let n = (of_char c :: nat) in
     if c = CHR 0x22 then [CHR 0x5C, CHR 0x22]
     else if c = CHR 0x5C then [CHR 0x5C, CHR 0x5C]
     else if n = 8 then [CHR 0x5C, CHR ''b'']
     else if n = 9 then [CHR 0x5C, CHR ''t'']
     else if n = 10 then [CHR 0x5C, CHR ''n'']
     else if n = 12 then [CHR 0x5C, CHR ''f'']
     else if n = 13 then [CHR 0x5C, CHR ''r'']
     else if n < 32 then CHR 0x5C # ''u00'' @ [hex_char (n div 16), hex_char (n mod 16)]
     else [c])"

definition quote :: "string \<Rightarrow> string" where
  "quote s = [CHR 0x22] @ concat (map quote_char s) @ [CHR 0x22]"

definition spaces :: "nat \<Rightarrow> string" where
  "spaces n = replicate n (CHR '' '')"

text \<open>The lines of an array or an object between its brackets, at indentation \<open>n\<close>.\<close>

definition bracketed :: "string \<Rightarrow> string \<Rightarrow> nat \<Rightarrow> string list \<Rightarrow> string" where
  "bracketed opening closing n items = (if items = [] then opening @ closing
     else opening @ [newline] @ join_with ('','' @ [newline]) (map (\<lambda>i. spaces (n + 2) @ i) items)
          @ [newline] @ spaces n @ closing)"

fun stringify :: "(rat \<Rightarrow> string) \<Rightarrow> nat \<Rightarrow> json \<Rightarrow> string" where
  "stringify num n JNull = ''null''"
| "stringify num n (JBool b) = (if b then ''true'' else ''false'')"
| "stringify num n (JNum r) = show_num num r"
| "stringify num n (JStr s) = quote s"
| "stringify num n (JArr xs) = bracketed ''['' '']'' n (map (stringify num (n + 2)) xs)"
| "stringify num n (JObj kvs) =
     bracketed ''{'' ''}'' n (map (\<lambda>kv. quote (fst kv) @ '': '' @ stringify num (n + 2) (snd kv)) kvs)"

definition json_text :: "(rat \<Rightarrow> string) \<Rightarrow> json \<Rightarrow> string" where
  "json_text num v = stringify num 0 v"

text \<open>
  An object lists the keys that are array indices first, in ascending order,
  then the others in the order they were set.
\<close>

definition index_key :: "string \<Rightarrow> bool" where
  "index_key k \<longleftrightarrow> k \<noteq> [] \<and> list_all is_digit k \<and> (hd k = CHR ''0'' \<longrightarrow> k = ''0'')
     \<and> digits_value k < 4294967295"

definition object_order :: "(string \<times> json) list \<Rightarrow> (string \<times> json) list" where
  "object_order kvs = sort_asc (\<lambda>kv. digits_value (fst kv)) (filter (\<lambda>kv. index_key (fst kv)) kvs)
     @ filter (\<lambda>kv. \<not> index_key (fst kv)) kvs"

end
