(* ===== verification/FileService.thy ===== *)
theory FileService
  imports DualStorage JsonText
begin

text \<open>
  The rest of the class \<open>FileService\<close> (\<open>src/services/file_service.ts\<close>): the
  methods that use the dual storage when it is enabled and fall back to the
  local disk.
\<close>

record 'w FileService =
  fv_baseDataPath :: string
  fv_useDualStorage :: bool
  fv_dualStorageManager :: "'w dual option"

text \<open>
  The constructor, with the environment variables as arguments; \<open>connect\<close>
  builds the manager for a canister, \<open>None\<close> when that throws.
\<close>

definition newFileService ::
  "string option \<Rightarrow> string option \<Rightarrow> bool \<Rightarrow> string option \<Rightarrow> (string \<Rightarrow> string \<Rightarrow> 'w dual option) \<Rightarrow>
   'w FileService" where
  "newFileService baseDataPath data_path enabled canister_id connect =
     (let or_else = (\<lambda>x d. case x of Some s \<Rightarrow> if truthy s then s else d | None \<Rightarrow> d);
          base = or_else baseDataPath (or_else data_path ''./data/redis'');
          canisterId = or_else canister_id []
      in if \<not> enabled then \<lparr>fv_baseDataPath = base, fv_useDualStorage = False, fv_dualStorageManager = None\<rparr>
         else if canisterId = []
         then \<lparr>fv_baseDataPath = base, fv_useDualStorage = True, fv_dualStorageManager = None\<rparr>
         else (case connect canisterId base of
             None \<Rightarrow> \<lparr>fv_baseDataPath = base, fv_useDualStorage = False, fv_dualStorageManager = None\<rparr>
           | Some S \<Rightarrow> \<lparr>fv_baseDataPath = base, fv_useDualStorage = True, fv_dualStorageManager = Some S\<rparr>))"

text \<open>\<open>this.useDualStorage && this.dualStorageManager\<close>\<close>

definition dual_in_use :: "'w FileService \<Rightarrow> 'w dual option" where
  "dual_in_use V = (if fv_useDualStorage V then fv_dualStorageManager V else None)"

section \<open>Contents\<close>

definition getFileContent ::
  "'w redis \<Rightarrow> 'w disk \<Rightarrow> 'w FileService \<Rightarrow> string \<Rightarrow> string \<Rightarrow> int \<Rightarrow> ('w, string EntityResult) act" where
  "getFileContent M D V fileId uid now = catchA
     (case dual_in_use V of
        Some S \<Rightarrow> retrieveFile M D S fileId uid None now
      | None \<Rightarrow> getFileContentLocalOnly M D fileId uid now)
     (\<lambda>e. returnA (Failure DatabaseFault (''Failed to get file content: '' @ e)))"

definition stored_not_found :: "string \<Rightarrow> 'a EntityResult" where
  "stored_not_found fileId = Failure NotFound (''File with ID '' @ fileId @ '' not found'')"

definition getFileContentByStoredId ::
  "'w redis \<Rightarrow> 'w disk \<Rightarrow> 'w FileService \<Rightarrow> string \<Rightarrow> int \<Rightarrow> ('w, string EntityResult) act" where
  "getFileContentByStoredId M D V fileId now = catchA
     (bindA (getFile M fileId) (\<lambda>fileResult.
        case fileResult of
          Failure _ _ \<Rightarrow> returnA (stored_not_found fileId)
        | Success file \<Rightarrow>
            let uid = f_user_principal_id file;
                fallback = bindA (getFileContent M D V fileId uid now) (\<lambda>contentResult.
                  returnA (case contentResult of
                    Failure k m \<Rightarrow> Failure k m | Success content \<Rightarrow> Success (utf8_text content)))
            in (case dual_in_use V of
                  None \<Rightarrow> fallback
                | Some S \<Rightarrow> bindA (retrieveFile M D S fileId uid None now) (\<lambda>contentResult.
                    case contentResult of
                      Success content \<Rightarrow> returnA (Success (utf8_text content))
                    | Failure _ _ \<Rightarrow> fallback))))
     (\<lambda>e. returnA (Failure DatabaseFault (''Failed to get file content by file ID: '' @ e)))"

definition downloadFileByStoredId ::
  "'w redis \<Rightarrow> 'w disk \<Rightarrow> 'w FileService \<Rightarrow> string \<Rightarrow> int \<Rightarrow> ('w, (string \<times> FileMetadata) EntityResult) act" where
  "downloadFileByStoredId M D V fileId now = catchA
     (bindA (getFile M fileId) (\<lambda>fileResult.
        case fileResult of
          Failure _ _ \<Rightarrow> returnA (stored_not_found fileId)
        | Success file \<Rightarrow>
            let fallback = bindA (resolveFilePathWithFallback M D (f_file_path file) file fileId now)
                  (\<lambda>resolutionResult. returnA (case resolutionResult of
                     Unresolved msg \<Rightarrow> Failure NotFound
                       (if msg = [] then ''File not found on disk and no alternatives found'' else msg)
                   | Resolved filePath updated \<Rightarrow> Success (filePath, updated)))
            in (case dual_in_use V of
                  None \<Rightarrow> fallback
                | Some S \<Rightarrow> bindA (retrieveFile M D S fileId (f_user_principal_id file) None now)
                    (\<lambda>contentResult. case contentResult of
                      Success _ \<Rightarrow> returnA (Success (''canister:'' @
                        (case f_canister_file_key file of Some k \<Rightarrow> if truthy k then k else f_name file
                         | None \<Rightarrow> f_name file), file))
                    | Failure _ _ \<Rightarrow> fallback))))
     (\<lambda>e. returnA (Failure DatabaseFault (''Failed to download file by file ID: '' @ e)))"

section \<open>Job results\<close>

record JobResult =
  jr_jobId :: string
  jr_content :: "json option"
  jr_contentType :: "string option"
  jr_fileName :: "string option"
  jr_userPrincipalId :: "string option"

text \<open>Content type and extension by the type of the job.\<close>

definition job_format :: "JobStruct \<Rightarrow> string \<times> string" where
  "job_format job = (if j_jobType job = ''HTML'' then (''text/html'', ''html'')
     else (''application/json'', ''json''))"

definition some_text :: "string option \<Rightarrow> string \<Rightarrow> string" where
  "some_text x d = (case x of Some s \<Rightarrow> if truthy s then s else d | None \<Rightarrow> d)"

definition result_user :: "'w redis \<Rightarrow> JobResult \<Rightarrow> JobStruct EntityResult \<Rightarrow> ('w, string) act" where
  "result_user M jobResult jobData =
     (if some_text (jr_userPrincipalId jobResult) [] \<noteq> [] then returnA (the (jr_userPrincipalId jobResult))
      else (case jobData of
          Success job \<Rightarrow> returnA (some_text (Some (j_user_principal_id job)) ''unknown_user'')
        | Failure _ _ \<Rightarrow> bindA (getFileMetadata M (JOB (jr_jobId jobResult))) (\<lambda>jobMetadata.
            case present jobMetadata of
              None \<Rightarrow> returnA ''unknown_user''
            | Some v \<Rightarrow> bindA (parse_as as_job v) (\<lambda>job.
                returnA (some_text (Some (j_user_principal_id job)) ''unknown_user'')))))"

text \<open>
  A file stored by the service itself: its metadata, the contents, and the
  metadata again with the digest.
\<close>

definition store_with_hash ::
  "'w redis \<Rightarrow> 'w disk \<Rightarrow> (string \<Rightarrow> string) \<Rightarrow> string \<Rightarrow> FileUploadRequest \<Rightarrow> string \<Rightarrow> int \<Rightarrow> int \<Rightarrow>
   ('w, FileMetadata EntityResult) act" where
  "store_with_hash M D sha256 base request content now rnd =
     bindA (createFile M D base request now rnd) (\<lambda>fileResult.
     case fileResult of
       Failure k m \<Rightarrow> returnA (Failure k m)
     | Success file \<Rightarrow>
         let updatedMetadata = file\<lparr>f_hash := Some (sha256 content), f_updated_at := now\<rparr> in
         thenA (writeFileData D (f_file_path file) content)
        (thenA (setFileMetadata M (FILE (f_id file)) (VFile updatedMetadata))
        (returnA (Success updatedMetadata))))"

definition createFileFromJobResult ::
  "'w redis \<Rightarrow> 'w disk \<Rightarrow> 'w FileService \<Rightarrow> (string \<Rightarrow> string) \<Rightarrow> (rat \<Rightarrow> string) \<Rightarrow> JobResult \<Rightarrow>
   int \<Rightarrow> int \<Rightarrow> ('w, FileMetadata EntityResult) act" where
  "createFileFromJobResult M D V sha256 num jobResult now rnd = catchA
     (if jr_jobId jobResult = [] \<or> \<not> json_truthy (jr_content jobResult)
      then returnA (Failure InvalidInput ''Missing jobId or content in job result'')
      else bindA (getJob M (jr_jobId jobResult)) (\<lambda>jobData.
        let (finalContentType, fileExtension) = (case jobData of
              Success job \<Rightarrow> job_format job
            | Failure _ _ \<Rightarrow> (some_text (jr_contentType jobResult) ''application/json'', ''json''));
            contentBuffer = (case the (jr_content jobResult) of JStr s \<Rightarrow> s | v \<Rightarrow> json_text num v);
            finalFileName = some_text (jr_fileName jobResult)
              (''scrape_result_'' @ jr_jobId jobResult @ ''.'' @ fileExtension)
        in bindA (result_user M jobResult jobData) (\<lambda>uid.
           let request = \<lparr>fu_name = finalFileName, fu_content_type = finalContentType,
                 fu_size = int (length contentBuffer), fu_user_principal_id = uid,
                 fu_job_id = jr_jobId jobResult\<rparr>;
               fallback = store_with_hash M D sha256 (fv_baseDataPath V) request contentBuffer now rnd
           in (case dual_in_use V of
                 None \<Rightarrow> fallback
               | Some S \<Rightarrow> bindA (storeFile M D S request contentBuffer now rnd) (\<lambda>dualResult.
                   if succeeded dualResult then returnA dualResult else fallback)))))
     (\<lambda>e. returnA (Failure DatabaseFault (''Failed to create file from job result: '' @ e)))"

definition storeJobResultAndGetId ::
  "'w redis \<Rightarrow> 'w disk \<Rightarrow> 'w FileService \<Rightarrow> (string \<Rightarrow> string) \<Rightarrow> (rat \<Rightarrow> string) \<Rightarrow>
   string \<Rightarrow> json \<Rightarrow> string \<Rightarrow> int \<Rightarrow> int \<Rightarrow> ('w, int EntityResult) act" where
  "storeJobResultAndGetId M D V sha256 num jobId resultData uid now rnd = catchA
     (bindA (getJob M jobId) (\<lambda>jobData.
        let (contentType, fileExtension) = (case jobData of
              Success job \<Rightarrow> job_format job | Failure _ _ \<Rightarrow> (''application/json'', ''json''));
            fileName = ''job_'' @ jobId @ ''_result_'' @ show_int now @ ''.'' @ fileExtension;
            contentBuffer = (case resultData of
                JStr s \<Rightarrow> if contentType = ''text/html'' then s else json_text num resultData
              | _ \<Rightarrow> json_text num resultData);
            request = \<lparr>fu_name = fileName, fu_content_type = contentType,
              fu_size = int (length contentBuffer), fu_user_principal_id = uid, fu_job_id = jobId\<rparr>
        in bindA (store_with_hash M D sha256 (fv_baseDataPath V) request contentBuffer now rnd) (\<lambda>fileResult.
           returnA (case fileResult of
             Failure k m \<Rightarrow> Failure k m | Success file \<Rightarrow> Success (f_created_at file)))))
     (\<lambda>e. returnA (Failure DatabaseFault (''Failed to store job result: '' @ e)))"

end
