(* ===== verification/Vault.thy ===== *)
theory Vault
  imports FileService
begin

text \<open>
  The interface between the manager of \<open>DualStorage\<close> and what it stands on:
  the state of the manager and the canister are parts of the world beside the
  Redis server and the disk. \<open>dual_quiet\<close> only says that they do not touch the
  server's data, \<open>vault\<close> also what the canister keeps: it answers every call,
  and a file read is the content last stored under the key.
\<close>

section \<open>The laws\<close>

locale dual_quiet = quiet_storage M D for M :: "'w redis" and D :: "'w disk" +
  fixes S :: "'w dual"
  assumes store_quiet: "strs M (snd (cn_store_file (dm_canister S) k c meta w)) = strs M w"
    and get_quiet: "strs M (snd (cn_get_file (dm_canister S) k w)) = strs M w"
    and state_quiet: "strs M (dm_put S s w) = strs M w"
    and store_quiet_mems: "mems M (snd (cn_store_file (dm_canister S) k c meta w)) = mems M w"
    and get_quiet_mems: "mems M (snd (cn_get_file (dm_canister S) k w)) = mems M w"
    and state_quiet_mems: "mems M (dm_put S s w) = mems M w"

locale vault = storage M D for M :: "'w redis" and D :: "'w disk" +
  fixes S :: "'w dual" and held :: "'w \<Rightarrow> string \<Rightarrow> string option" and keep :: "string \<Rightarrow> string \<Rightarrow> 'w \<Rightarrow> 'w"
  assumes can_store: "cn_store_file (dm_canister S) k c meta w = (Inr (k, True), keep k c w)"
    and can_get: "cn_get_file (dm_canister S) k w =
      (Inr (case held w k of Some c \<Rightarrow> (c, True) | None \<Rightarrow> ([], False)), w)"
    and held_keep: "held (keep k c w) = (held w)(k \<mapsto> c)"
    and strs_keep: "strs M (keep k c w) = strs M w"
    and mems_keep: "mems M (keep k c w) = mems M w"
    and disk_keep: "d_get D (keep k c w) = d_get D w"
    and state_keep: "dm_get S (keep k c w) = dm_get S w"
    and state_put: "dm_get S (dm_put S s w) = s"
    and strs_state: "strs M (dm_put S s w) = strs M w"
    and mems_state: "mems M (dm_put S s w) = mems M w"
    and disk_state: "d_get D (dm_put S s w) = d_get D w"
    and held_state: "held (dm_put S s w) = held w"
    and held_put: "held (put M k v w) = held w"
    and held_dele: "held (dele M k w) = held w"
    and held_addm: "held (addm M k m w) = held w"
    and held_remm: "held (remm M k m w) = held w"
    and held_disk: "held (d_put D f w) = held w"
    and state_put_key: "dm_get S (put M k v w) = dm_get S w"
    and state_dele: "dm_get S (dele M k w) = dm_get S w"
    and state_addm: "dm_get S (addm M k m w) = dm_get S w"
    and state_remm: "dm_get S (remm M k m w) = dm_get S w"
    and state_disk: "dm_get S (d_put D f w) = dm_get S w"
begin

lemmas vault_laws [simp] = held_keep strs_keep mems_keep disk_keep state_keep state_put strs_state
  mems_state disk_state held_state held_put held_dele held_addm held_remm held_disk
  state_put_key state_dele state_addm state_remm state_disk

lemma canStoreFile_up:
  "canStoreFile (dm_canister S) content meta customKey w =
     (let k = (case customKey of Some k \<Rightarrow> if truthy k then k else f_name meta | None \<Rightarrow> f_name meta)
      in (Inr (Success k), keep k (utf8_text content) w))"
  by (simp add: canStoreFile_def act_simps can_store Let_def)

lemma canRetrieveFile_up:
  "canRetrieveFile (dm_canister S) k w = (Inr (case held w k of
      Some c \<Rightarrow> Success c | None \<Rightarrow> Failure NotFound ''File not found in canister''), w)"
  by (simp add: canRetrieveFile_def act_simps can_get split: option.split)

end

sublocale vault \<subseteq> dual_quiet
  by unfold_locales (simp_all add: can_store can_get)

section \<open>A canister in memory\<close>

definition lift_disk :: "'w disk \<Rightarrow> ('w \<times> 'v) disk" where
  "lift_disk D = \<lparr>
     d_try = (\<lambda>w. case d_try D (fst w) of (e, m) \<Rightarrow> (e, (m, snd w))),
     d_get = (\<lambda>w. d_get D (fst w)),
     d_put = (\<lambda>s w. (d_put D s (fst w), snd w)),
     d_order = (\<lambda>w p. d_order D (fst w) p)\<rparr>"

context storage
begin

lemma lift_storage: "storage (lift_redis M) (lift_disk D)"
  by (intro storage.intro storage_axioms.intro lift_up)
    (simp_all add: lift_redis_def lift_disk_def disk_accepts disk_order_set disk_order_distinct)

end

context quiet_storage
begin

lemma lift_quiet_storage: "quiet_storage (lift_redis M) (lift_disk D)"
  by (intro quiet_storage.intro quiet_storage_axioms.intro lift_quiet)
    (auto simp: lift_redis_def lift_disk_def strs_quiet mems_quiet split: prod.splits dest: try_quiet)

end

text \<open>The files of the canister and the state of the manager, beside a world.\<close>

type_synonym 'w vaulted = "'w \<times> ((string, string) jsmap \<times> DualState)"

definition memory_canister :: "'w vaulted canister" where
  "memory_canister = \<lparr>
     cn_store_file = (\<lambda>k c m w. (Inr (k, True), (fst w, map_set k c (fst (snd w)), snd (snd w)))),
     cn_get_file = (\<lambda>k w. (Inr (case map_get (fst (snd w)) k of Some c \<Rightarrow> (c, True) | None \<Rightarrow> ([], False)), w)),
     cn_list_files_by_user = (\<lambda>u. returnA []),
     cn_list_files_by_job = (\<lambda>j. returnA []),
     cn_get_file_info = (\<lambda>k. returnA []),
     cn_get_storage_stats = returnA (0, 0),
     cn_health_check = returnA (''ok'', 0)\<rparr>"

text \<open>A canister that is down: every call is rejected.\<close>

definition closed_canister :: "'w vaulted canister" where
  "closed_canister = \<lparr>
     cn_store_file = (\<lambda>k c m. throwA ''AgentError''),
     cn_get_file = (\<lambda>k. throwA ''AgentError''),
     cn_list_files_by_user = (\<lambda>u. throwA ''AgentError''),
     cn_list_files_by_job = (\<lambda>j. throwA ''AgentError''),
     cn_get_file_info = (\<lambda>k. throwA ''AgentError''),
     cn_get_storage_stats = throwA ''AgentError'',
     cn_health_check = throwA ''AgentError''\<rparr>"

definition vault_dual :: "'w vaulted canister \<Rightarrow> CanStorageConfig \<Rightarrow> string \<Rightarrow> 'w vaulted dual" where
  "vault_dual C config base = \<lparr>dm_config = config, dm_canister = C, dm_base = base,
     dm_get = (\<lambda>w. snd (snd w)), dm_put = (\<lambda>s w. (fst w, fst (snd w), s))\<rparr>"

definition vault_redis :: "box vaulted redis" where
  "vault_redis = lift_redis box_redis"

definition vault_disk :: "box vaulted disk" where
  "vault_disk = lift_disk box_disk"

definition vault_held :: "'w vaulted \<Rightarrow> string \<Rightarrow> string option" where
  "vault_held w = map_of (fst (snd w))"

definition vault_keep :: "string \<Rightarrow> string \<Rightarrow> 'w vaulted \<Rightarrow> 'w vaulted" where
  "vault_keep k c w = (fst w, map_set k c (fst (snd w)), snd (snd w))"

definition vault0 :: "box vaulted" where
  "vault0 = (box0, [], \<lparr>du_syncQueue = [], du_started = []\<rparr>)"

interpretation boxed: vault vault_redis vault_disk "vault_dual memory_canister config base" vault_held vault_keep
  for config base
  unfolding vault_redis_def vault_disk_def
  by (intro vault.intro vault_axioms.intro box.lift_storage)
    (simp_all add: vault_dual_def memory_canister_def vault_held_def vault_keep_def lift_redis_def
      lift_disk_def)

lemma vault_is_vault: "vault vault_redis vault_disk (vault_dual memory_canister config base) vault_held vault_keep"
  by (rule boxed.vault_axioms)

text \<open>Everything may fail: the server, the disk and the canister.\<close>

interpretation closed: dual_quiet "lift_redis (lift_redis faulty_redis)" "lift_disk faulty_disk"
    "vault_dual closed_canister config base"
  for config base
  by (intro dual_quiet.intro dual_quiet_axioms.intro faulty_box.lift_quiet_storage)
    (simp_all add: vault_dual_def closed_canister_def lift_redis_def act_simps)

lemma closed_is_quiet: "dual_quiet (lift_redis (lift_redis faulty_redis)) (lift_disk faulty_disk)
    (vault_dual closed_canister config base)"
  by (rule closed.dual_quiet_axioms)

end
