(* ===== verification/FileFacts.thy ===== *)
theory FileFacts
  imports FileService DatabaseFacts
begin

text \<open>
  What the file service leaves on the disk and in Redis: the names of chunks
  and their order, the effect of one call on the files, and the effect of a
  whole upload, under a store and a disk that take every call.
\<close>

section \<open>Numbers in names\<close>

lemma is_digit_char [simp]: "d < 10 \<Longrightarrow> is_digit (digit_char d)"
  by (simp add: is_digit_def digit_char_def)

lemma show_nat_digits: "list_all is_digit (show_nat n)" and show_nat_nonempty [simp]: "show_nat n \<noteq> []"
proof (induction n rule: show_nat.induct)
  case (1 n)
  {
    case 1
    then show ?case by (subst show_nat.simps) (simp add: "1.IH")
  next
    case 2
    then show ?case by (subst show_nat.simps) simp
  }
qed

lemma digits_value_snoc: "digits_value (s @ [c]) = 10 * digits_value s + (of_char c - 48)"
  by (simp add: digits_value_def)

lemma digits_value_show: "digits_value (show_nat n) = n"
proof (induction n rule: show_nat.induct)
  case (1 n)
  show ?case
  proof (cases "n < 10")
    case True
    then show ?thesis by (subst show_nat.simps) (simp add: digits_value_def digit_char_def)
  next
    case False
    then show ?thesis using "1.IH"
      by (subst show_nat.simps) (simp add: digits_value_snoc digit_char_def)
  qed
qed

lemma takeWhile_digits: "list_all is_digit s \<Longrightarrow> takeWhile is_digit s = s"
  by (induction s) auto

text \<open>\<open>parseInt\<close> reads back what a template literal wrote.\<close>

lemma digit_facts:
  assumes "is_digit c"
  shows "\<not> js_space c" "c \<noteq> CHR ''-''" "c \<noteq> CHR ''+''" "c \<noteq> CHR ''x''" "c \<noteq> CHR ''X''" "c \<noteq> CHR ''c''" "c \<noteq> slash"
    "c \<noteq> CHR ''.''"
  using assms by (auto simp: is_digit_def js_space_def slash_def)

lemma not_digits [simp]: "\<not> is_digit (CHR ''x'')" "\<not> is_digit (CHR ''X'')" "\<not> is_digit (CHR ''c'')"
  "\<not> is_digit slash" "\<not> is_digit (CHR ''.'')" "slash \<noteq> CHR ''-''"
  by (simp_all add: is_digit_def slash_def)

lemma parseInt_digits:
  assumes "list_all is_digit s" "s \<noteq> []"
  shows "\<not> prefix ''0x'' s" "\<not> prefix ''0X'' s" "dropWhile js_space s = s" "split_sign s = (1, s)"
proof -
  obtain c cs where s: "s = c # cs" using assms(2) by (cases s) auto
  then have "is_digit c" "list_all is_digit cs" using assms(1) by simp_all
  then show "\<not> prefix ''0x'' s" "\<not> prefix ''0X'' s" "dropWhile js_space s = s" "split_sign s = (1, s)"
    using s digit_facts by (auto simp: Cons_prefix_Cons split: list.splits elim!: prefixE)
qed

lemma parseInt_text:
  assumes "list_all is_digit s" "s \<noteq> []"
  shows "parseInt s = Some (int (digits_value s))"
    and "parseInt (CHR ''-'' # s) = Some (- int (digits_value s))"
proof -
  note parse = parseInt_digits [OF assms] takeWhile_digits [OF assms(1)]
  have some: "(case s of [] \<Rightarrow> None | c # cs \<Rightarrow> Some (k * int (digits_value (c # cs)))) = Some (k * int (digits_value s))" for k
    using assms(2) by (cases s) simp_all
  have "\<not> js_space (CHR ''-'')" by (simp add: js_space_def)
  then show "parseInt s = Some (int (digits_value s))" "parseInt (CHR ''-'' # s) = Some (- int (digits_value s))"
    using some [of 1] some [of "-1"] by (simp_all only: parseInt_def parse split_sign.simps dropWhile.simps
      if_True if_False simp_thms prod.case) simp_all
qed

lemma parseInt_show: "parseInt (show_int i) = Some i"
  using parseInt_text [OF show_nat_digits show_nat_nonempty] digits_value_show
  by (simp add: show_int_def)

lemma show_int_chars: "c \<in> set (show_int i) \<Longrightarrow> is_digit c \<or> c = CHR ''-''"
  using show_nat_digits [of "nat i"] show_nat_digits [of "nat (- i)"]
  by (auto simp: show_int_def list_all_iff split: if_splits)

lemma show_int_free [simp]: "CHR ''c'' \<notin> set (show_int i)" "slash \<notin> set (show_int i)"
  by (auto dest: show_int_chars)

lemma show_int_inject [simp]: "show_int i = show_int j \<longleftrightarrow> i = j"
  using parseInt_show by (metis option.inject)

section \<open>The names of chunks\<close>

definition chunk_sep :: string where "chunk_sep = ''_chunk_''"

lemma cut_at_step: "\<not> prefix sep (c # s) \<Longrightarrow>
    cut_at sep (c # s) = (case cut_at sep s of (a, b) \<Rightarrow> (c # a, b))"
  by (subst cut_at.simps) simp

lemma cut_at_here: "cut_at sep (sep @ s) = ([], Some s)"
  by (subst cut_at.simps) simp

lemma cut_at_chunk:
  "CHR ''c'' \<notin> set a \<Longrightarrow> cut_at chunk_sep (a @ chunk_sep @ b) = (a, Some b)"
proof (induction a)
  case Nil
  then show ?case by (simp add: cut_at_here)
next
  case (Cons x a)
  have "\<not> prefix chunk_sep (x # a @ chunk_sep @ b)"
  proof
    assume "prefix chunk_sep (x # a @ chunk_sep @ b)"
    then have "prefix ''c'' (a @ chunk_sep @ b)"
      by (simp add: chunk_sep_def Cons_prefix_Cons del: append_Cons)
        (auto simp: Cons_prefix_Cons split: list.splits elim!: prefixE)
    then show False using Cons.prems
      by (cases a) (auto simp: chunk_sep_def Cons_prefix_Cons)
  qed
  then show ?case using Cons by (simp add: cut_at_step)
qed

lemma cut_at_none: "CHR ''c'' \<notin> set a \<Longrightarrow> cut_at chunk_sep a = (a, None)"
proof (induction a)
  case Nil
  then show ?case by (subst cut_at.simps) (simp add: chunk_sep_def)
next
  case (Cons x a)
  have "\<not> prefix chunk_sep (x # a)"
  proof
    assume "prefix chunk_sep (x # a)"
    then have "set chunk_sep \<subseteq> set (x # a)" by (rule set_mono_prefix)
    then show False using Cons.prems by (auto simp: chunk_sep_def)
  qed
  then show ?case using Cons by (simp add: cut_at_step)
qed

definition chunk_name :: "string \<Rightarrow> int \<Rightarrow> string" where
  "chunk_name fileId i = chunk_prefix fileId @ show_int i"

lemma chunk_index_name: "CHR ''c'' \<notin> set fid \<Longrightarrow> chunk_index (chunk_name fid i) = Some i"
  using cut_at_chunk [of fid "show_int i"] cut_at_none [of "show_int i"]
  by (simp add: chunk_index_def chunk_name_def chunk_prefix_def parseInt_show flip: chunk_sep_def)

lemma chunk_name_inject [simp]: "chunk_name f i = chunk_name f j \<longleftrightarrow> i = j"
  by (simp add: chunk_name_def)

lemma file_id_free [simp]: "CHR ''c'' \<notin> set (generateFileId now rnd)" "slash \<notin> set (generateFileId now rnd)"
  by (auto simp: generateFileId_def slash_def [symmetric]) (simp_all add: slash_def)

lemma insert_chunk_sorted:
  assumes "CHR ''c'' \<notin> set f"
  shows "insert_chunk (chunk_name f i) (map (chunk_name f) js) = map (chunk_name f) (insort i js)"
proof (induction js)
  case (Cons j js)
  then show ?case
    using chunk_index_name [OF assms] by (auto simp: after_chunk_def)
qed simp

lemma sort_chunks_names:
  assumes "CHR ''c'' \<notin> set f"
  shows "sort_chunks (map (chunk_name f) is) = map (chunk_name f) (sort is)"
  unfolding sort_chunks_def
  by (induction "is") (simp_all add: insert_chunk_sorted [OF assms])

section \<open>Files on the disk\<close>

abbreviation put_file :: "string \<Rightarrow> string \<Rightarrow> fs \<Rightarrow> fs" where
  "put_file p data s \<equiv> s\<lparr>fs_files := AList.update p data (fs_files s)\<rparr>"

abbreviation remove_file :: "string \<Rightarrow> fs \<Rightarrow> fs" where
  "remove_file p s \<equiv> s\<lparr>fs_files := AList.delete p (fs_files s)\<rparr>"

lemma file_at_changes [simp]:
  "file_at (s\<lparr>fs_files := files\<rparr>) q = map_of files q"
  "file_at (s\<lparr>fs_dirs := ds\<rparr>) q = file_at s q"
  "map_of (fs_files s) q = file_at s q"
  by (simp_all add: file_at_def)

lemma is_dir_files [simp]: "is_dir (fs_files_update f s) p = is_dir s p"
  by (simp add: is_dir_def)

lemma slash_simps [simp]: "slash \<noteq> CHR ''.''" "CHR ''.'' \<noteq> slash"
  by (simp_all add: slash_def)

lemma dir_key_id: "p \<noteq> [] \<Longrightarrow> last p \<noteq> slash \<Longrightarrow> dir_key p = p"
  by (cases p rule: rev_cases) (auto simp: dir_key_def drop_slashes_def)

lemma canonical_ends: "canonical d \<Longrightarrow> d \<noteq> [] \<and> last d \<noteq> slash"
  by (simp add: canonical_def)

text \<open>The path of a plain name in a canonical directory.\<close>

definition inside :: "string \<Rightarrow> string \<Rightarrow> string" where
  "inside d n = d @ [slash] @ n"

lemma inside_inject [simp]: "inside d n = inside d n' \<longleftrightarrow> n = n'"
  by (simp add: inside_def)

lemma inside_facts:
  assumes "canonical d" "plain n"
  shows "path_join [d, n] = inside d n" and "path_dirname (inside d n) = d"
    and "path_basename (inside d n) = n" and "parse_dir (inside d n) = d"
    and "dir_key (inside d n) = inside d n" and "inside d n \<noteq> []" and "last (inside d n) \<noteq> slash"
proof -
  show ends: "inside d n \<noteq> []" "last (inside d n) \<noteq> slash"
    using assms(2) by (simp_all add: inside_def)
  show "dir_key (inside d n) = inside d n" by (rule dir_key_id [OF ends])
qed (use canonicalD [OF assms] in \<open>simp_all add: inside_def\<close>)

lemma is_dir_canonical: "canonical d \<Longrightarrow> d \<in> set (fs_dirs s) \<Longrightarrow> is_dir s d"
  using canonical_ends dir_key_id by (simp add: is_dir_def)

lemma not_dir_inside:
  assumes "canonical d" "plain n" "inside d n \<notin> set (fs_dirs s)"
  shows "\<not> is_dir s (inside d n)"
proof -
  have "split_on slash (inside d n) = split_on slash d @ [n]"
    using assms(2) by (simp add: inside_def split_on_append)
  then show ?thesis
    using assms inside_facts(5) [OF assms(1,2)] by (auto simp: is_dir_def)
qed

lemma names_in_inside:
  assumes "canonical d"
  shows "n \<in> set (names_in s d) \<longleftrightarrow> plain n \<and> entry_at s (inside d n)"
proof (cases "plain n")
  case True
  have "n \<in> path_basename ` (fst ` set (fs_files s) \<union> set (fs_dirs s))" if "entry_at s (inside d n)"
  proof -
    have "inside d n \<in> fst ` set (fs_files s) \<union> set (fs_dirs s)"
      using that by (auto simp: entry_at_def file_at_def map_of_eq_None_iff simp del: file_at_changes)
    then show ?thesis using inside_facts(3) [OF assms True] by force
  qed
  then show ?thesis using True inside_facts(1) [OF assms True] by (auto simp: names_in_def)
qed (simp add: names_in_def)

text \<open>A directory that \<open>mkdir\<close> made.\<close>

lemma take_all_prefix: "canonical d \<Longrightarrow> d \<in> set (path_prefixes d)"
proof -
  assume d: "canonical d"
  let ?segs = "split_on slash d"
  have "length ?segs \<in> set [1..<length ?segs + 1]" by (cases ?segs) auto
  moreover have "d = join_with [slash] (take (length ?segs) ?segs)" by (simp add: join_split_on)
  ultimately have "d \<in> (\<lambda>n. join_with [slash] (take n ?segs)) ` set [1..<length ?segs + 1]"
    by (rule rev_image_eqI)
  then show ?thesis
    using canonical_ends [OF d] dir_key_id [of d] unfolding path_prefixes_def Let_def by (simp del: upt_Suc)
qed

section \<open>The service's calls\<close>

text \<open>The metadata of a file.\<close>

definition file_named :: "'w redis \<Rightarrow> 'w \<Rightarrow> string \<Rightarrow> FileMetadata option" where
  "file_named M w i = (case strs M w (FILE i) of Some v \<Rightarrow> as_file v | None \<Rightarrow> None)"

lemma file_named_Some: "strs M w (FILE i) = Some (VFile f) \<Longrightarrow> file_named M w i = Some f"
  by (simp add: file_named_def)

lemma created_file:
  "createFile M D base request now rnd w = (Inr (Success meta), w') \<Longrightarrow>
    meta = new_metadata request (generateFileId now rnd) (path_join
      [path_join [base, fu_user_principal_id request, fu_job_id request], fu_name request]) now"
  by (auto simp: createFile_def act_simps Let_def split: prod.splits sum.splits)

lemma as_file_Some [simp]: "as_file v = Some f \<longleftrightarrow> v = VFile f"
  by (cases v) auto

context redis_up
begin

lemma getFile_up:
  "getFile M i w = (case file_named M w i of
      Some f \<Rightarrow> (Inr (Success f), w)
    | None \<Rightarrow> (Inr (if present (strs M w (FILE i)) = None then Failure NotFound ''File not found''
        else Failure DatabaseFault (''Failed to get file: '' @ parse_error)), w))"
  by (cases "strs M w (FILE i)" rule: present.cases)
    (auto simp: getFile_def getFileMetadata_def act_simps file_named_def split: option.split)

lemma with_own_file_up:
  "file_named M w i = Some f \<Longrightarrow> f_user_principal_id f = u \<Longrightarrow> with_own_file M i u body w = body f w"
  by (simp add: with_own_file_def act_simps getFile_up)

lemma with_own_file_refuses:
  "file_named M w i = Some f \<Longrightarrow> f_user_principal_id f \<noteq> u \<Longrightarrow>
     with_own_file M i u body w = (Inr (Failure InvalidInput ''Unauthorized access to file''), w)"
  by (simp add: with_own_file_def act_simps getFile_up)

end

context storage
begin

lemma WRITE_FILE_inside:
  assumes "canonical d" "plain n" "d \<in> set (fs_dirs (d_get D w))" "inside d n \<notin> set (fs_dirs (d_get D w))"
  shows "WRITE_FILE D (inside d n) data w = (Inr (), d_put D (put_file (inside d n) data (d_get D w)) w)"
  using not_dir_inside [OF assms(1,2,4)] inside_facts [OF assms(1,2)] is_dir_canonical [OF assms(1,3)]
  by (simp add: WRITE_FILE_def syscall_up fs_write_def)

lemma createFile_up:
  fixes request :: FileUploadRequest and now rnd :: int and base :: string
  defines "i \<equiv> generateFileId now rnd"
    and "d \<equiv> path_join [base, fu_user_principal_id request, fu_job_id request]"
  defines "meta \<equiv> new_metadata request i (path_join [d, fu_name request]) now"
  assumes "d \<noteq> []" "\<forall>q\<in>set (path_prefixes d). file_at (d_get D w) q = None"
  shows "createFile M D base request now rnd w = (Inr (Success meta),
    addm M (FILES_BY_JOB (fu_job_id request)) i (addm M (FILES_BY_USER (fu_user_principal_id request)) i
      (put M (FILE i) (VFile meta) (d_put D
        ((d_get D w)\<lparr>fs_dirs := remdups (fs_dirs (d_get D w) @ path_prefixes d)\<rparr>) w))))"
  using assms(4,5) unfolding i_def meta_def d_def
  by (simp add: createFile_def act_simps Let_def MKDIR_def syscall_up fs_mkdir_def setFileMetadata_def
    addFileToUserIndex_def addFileToJobIndex_def)

lemma uploadChunk_up:
  assumes "file_named M w i = Some f" "f_id f = i" "f_user_principal_id f = u" "f_file_path f = inside d n"
    and "canonical d" "plain n" "d \<in> set (fs_dirs (d_get D w))" "plain (chunk_name i k)"
    and "inside d (chunk_name i k) \<notin> set (fs_dirs (d_get D w))"
  shows "uploadChunk M D \<lparr>fc_file_id = i, fc_chunk_index = k, fc_chunk_data = data,
      fc_user_principal_id = u\<rparr> w
    = (Inr (Success ()), d_put D (put_file (inside d (chunk_name i k)) data (d_get D w)) w)"
  using assms inside_facts [OF assms(5,6)] inside_facts(1) [OF assms(5,8)]
    WRITE_FILE_inside [OF assms(5,8,7,9)]
  by (simp add: uploadChunk_def act_simps with_own_file_up Let_def flip: chunk_name_def)

lemma getFileContentLocalOnly_up:
  assumes "file_named M w i = Some f" "f_user_principal_id f = u"
    and "file_at (d_get D w) (f_file_path f) = Some data"
  shows "getFileContentLocalOnly M D i u now w = (Inr (Success data), w)"
  using assms by (simp add: getFileContentLocalOnly_def act_simps with_own_file_up
    resolveFilePathWithFallback_def ACCESS_up READ_FILE_up)

lemma move_chunk_up:
  assumes "path_join [d, n] = p" "p \<noteq> fp" "file_at (d_get D w) p = Some data"
    and "file_at (d_get D w) fp = Some old"
  shows "move_chunk D d fp n w =
    (Inr (), d_put D (remove_file p (put_file fp (old @ data) (d_get D w))) w)"
  using assms by (simp add: move_chunk_def act_simps READ_FILE_up APPEND_FILE_up UNLINK_up)

text \<open>Moving distinct chunks one after the other appends their contents in that order.\<close>

lemma move_chunks_up:
  assumes "\<forall>n\<in>set ns. path_join [d, n] = inside d n \<and> inside d n \<noteq> fp \<and>
      file_at (d_get D w) (inside d n) = Some (c n)"
    and "distinct ns" "file_at (d_get D w) fp = Some old"
  shows "\<exists>s. foldA (\<lambda>_. move_chunk D d fp) () ns w = (Inr (), d_put D s w)
    \<and> fs_dirs s = fs_dirs (d_get D w) \<and> file_at s fp = Some (old @ concat (map c ns))
    \<and> (\<forall>q. q \<noteq> fp \<longrightarrow> file_at s q = (if q \<in> inside d ` set ns then None else file_at (d_get D w) q))"
  using assms
proof (induction ns arbitrary: w old)
  case Nil
  then show ?case by (intro exI [of _ "d_get D w"]) (simp add: act_simps)
next
  case (Cons n ns)
  let ?s = "remove_file (inside d n) (put_file fp (old @ c n) (d_get D w))"
  let ?w = "d_put D ?s w"
  have step: "move_chunk D d fp n w = (Inr (), ?w)"
    using Cons.prems by (intro move_chunk_up) auto
  have "\<forall>m\<in>set ns. path_join [d, m] = inside d m \<and> inside d m \<noteq> fp \<and>
      file_at (d_get D ?w) (inside d m) = Some (c m)"
    using Cons.prems by auto
  moreover have "distinct ns" "file_at (d_get D ?w) fp = Some (old @ c n)"
    using Cons.prems by auto
  ultimately obtain s where run: "foldA (\<lambda>_. move_chunk D d fp) () ns ?w = (Inr (), d_put D s ?w)"
    and s: "fs_dirs s = fs_dirs (d_get D ?w)" "file_at s fp = Some ((old @ c n) @ concat (map c ns))"
      "\<forall>q. q \<noteq> fp \<longrightarrow> file_at s q = (if q \<in> inside d ` set ns then None else file_at (d_get D ?w) q)"
    using Cons.IH by blast
  show ?case
    by (rule exI [of _ s]) (use step run s Cons.prems in \<open>auto simp: act_simps\<close>)
qed

end

section \<open>A whole upload\<close>

text \<open>The chunks of an upload in the order they arrive; a chunk may be sent again.\<close>

definition send_chunks ::
  "'w redis \<Rightarrow> 'w disk \<Rightarrow> string \<Rightarrow> string \<Rightarrow> (int \<times> string) list \<Rightarrow> ('w, unit) act" where
  "send_chunks M D i u chunks = foldA (\<lambda>_ chunk. bindA
     (uploadChunk M D \<lparr>fc_file_id = i, fc_chunk_index = fst chunk, fc_chunk_data = snd chunk,
        fc_user_principal_id = u\<rparr>) (\<lambda>_. returnA ())) () chunks"

definition uploaded_content :: "(int \<times> string) list \<Rightarrow> string" where
  "uploaded_content chunks =
     concat (map (\<lambda>k. the (map_of (rev chunks) k)) (sorted_list_of_set (fst ` set chunks)))"

text \<open>Nothing on the disk is in the way of the upload of the file.\<close>

definition upload_ready :: "fs \<Rightarrow> string \<Rightarrow> string \<Rightarrow> string \<Rightarrow> bool" where
  "upload_ready s d i n \<longleftrightarrow> (\<forall>q\<in>set (path_prefixes d). file_at s q = None) \<and>
     inside d n \<notin> set (fs_dirs s) \<and> \<not> prefix (chunk_prefix i) n \<and>
     (\<forall>m. prefix (chunk_prefix i) m \<longrightarrow> \<not> entry_at s (inside d m))"

lemma plain_chunk_name [simp]:
  assumes "slash \<notin> set i"
  shows "plain (chunk_name i k)"
proof -
  have "slash \<notin> set chunk_sep" by (simp add: chunk_sep_def slash_def)
  then have "slash \<notin> set (chunk_name i k)"
    using assms unfolding chunk_name_def chunk_prefix_def chunk_sep_def [symmetric] by simp
  moreover have "2 < length (chunk_name i k)" by (simp add: chunk_name_def chunk_prefix_def)
  ultimately show ?thesis unfolding plain_def by auto
qed

lemma chunk_name_prefix [simp]: "prefix (chunk_prefix i) (chunk_name i k)"
  by (simp add: chunk_name_def)

lemma path_prefix_length: "q \<in> set (path_prefixes d) \<Longrightarrow> d \<noteq> [] \<Longrightarrow> last d \<noteq> slash \<Longrightarrow> length q \<le> length d"
proof -
  have take_le: "length (join_with [c] (take m xs)) \<le> length (join_with [c] xs)" for m c and xs :: "string list"
  proof (induction xs arbitrary: m rule: induct_list012)
    case (3 x y zs)
    show ?case
    proof (cases m)
      case (Suc k)
      then show ?thesis using "3.IH"(2) [of k] by (cases k) simp_all
    qed simp
  qed (auto simp: take_Cons')
  assume "q \<in> set (path_prefixes d)" "d \<noteq> []" "last d \<noteq> slash"
  then show ?thesis
    using take_le [of slash _ "split_on slash d"]
    by (auto simp: path_prefixes_def Let_def dir_key_id join_split_on simp del: upt_Suc)
qed

lemma inside_no_prefix: "canonical d \<Longrightarrow> inside d n \<notin> set (path_prefixes d)"
  using path_prefix_length [of "inside d n" d] canonical_ends [of d] by (auto simp: inside_def)

context storage
begin

lemma send_chunks_up:
  assumes "file_named M w i = Some f" "f_id f = i" "f_user_principal_id f = u" "f_file_path f = inside d n"
    and "canonical d" "plain n" "d \<in> set (fs_dirs (d_get D w))" "slash \<notin> set i"
    and "\<forall>k. inside d (chunk_name i k) \<notin> set (fs_dirs (d_get D w))"
  shows "\<exists>s. send_chunks M D i u chunks w = (Inr (), d_put D s w) \<and> fs_dirs s = fs_dirs (d_get D w)
    \<and> (\<forall>k\<in>fst ` set chunks. file_at s (inside d (chunk_name i k)) = map_of (rev chunks) k)
    \<and> (\<forall>q. q \<notin> (\<lambda>k. inside d (chunk_name i k)) ` fst ` set chunks \<longrightarrow> file_at s q = file_at (d_get D w) q)"
proof (induction chunks rule: rev_induct)
  case Nil
  then show ?case by (intro exI [of _ "d_get D w"]) (simp add: send_chunks_def act_simps)
next
  case (snoc c chunks)
  obtain k data where c: "c = (k, data)" by (cases c)
  from snoc.IH obtain s where run: "send_chunks M D i u chunks w = (Inr (), d_put D s w)"
    and dirs: "fs_dirs s = fs_dirs (d_get D w)"
    and at: "\<forall>k\<in>fst ` set chunks. file_at s (inside d (chunk_name i k)) = map_of (rev chunks) k"
    and other: "\<forall>q. q \<notin> (\<lambda>k. inside d (chunk_name i k)) ` fst ` set chunks \<longrightarrow> file_at s q = file_at (d_get D w) q"
    by blast
  let ?s = "put_file (inside d (chunk_name i k)) data s"
  have named: "file_named M (d_put D s w) i = Some f"
    using assms(1) by (simp add: file_named_def)
  have "uploadChunk M D \<lparr>fc_file_id = i, fc_chunk_index = k, fc_chunk_data = data,
      fc_user_principal_id = u\<rparr> (d_put D s w) = (Inr (Success ()), d_put D ?s w)"
    using uploadChunk_up [OF named assms(2,3,4,5,6), of k data] assms(7,8,9) dirs by simp
  then have "send_chunks M D i u (chunks @ [c]) w = (Inr (), d_put D ?s w)"
    using run by (simp add: send_chunks_def foldA_append act_simps c)
  moreover have "file_at ?s (inside d (chunk_name i k')) = map_of (rev (chunks @ [c])) k'"
    if "k' \<in> fst ` set (chunks @ [c])" for k'
    using that at by (auto simp: c)
  moreover have "file_at ?s q = file_at (d_get D w) q"
    if "q \<notin> (\<lambda>k. inside d (chunk_name i k)) ` fst ` set (chunks @ [c])" for q
    using that other by (auto simp: c)
  ultimately show ?case using dirs by (intro exI [of _ ?s]) simp
qed

text \<open>The names the completion finds, in the order it takes them.\<close>

lemma chunk_files:
  assumes "canonical d" "slash \<notin> set i" "CHR ''c'' \<notin> set i" "finite K"
    and "\<forall>m. prefix (chunk_prefix i) m \<longrightarrow> (entry_at (d_get D w) (inside d m) \<longleftrightarrow> m \<in> chunk_name i ` K)"
  shows "sort_chunks (filter (prefix (chunk_prefix i)) (d_order D w d))
    = map (chunk_name i) (sorted_list_of_set K)"
proof -
  let ?xs = "filter (prefix (chunk_prefix i)) (d_order D w d)"
  have "set ?xs = chunk_name i ` K"
    using assms(2,5) by (auto simp: disk_order_set names_in_inside [OF assms(1)])
  moreover define ks where "ks = map (the_inv (chunk_name i)) ?xs"
  have inj: "inj (chunk_name i)" by (rule injI) simp
  ultimately have xs: "?xs = map (chunk_name i) ks"
    unfolding ks_def by (auto simp: map_idI f_the_inv_into_f [OF inj] intro!: map_idI [symmetric])
  moreover have "distinct ?xs" using disk_order_distinct by simp
  ultimately have "distinct ks" by (simp add: distinct_map)
  moreover have "set ks = K"
    using \<open>set ?xs = chunk_name i ` K\<close> xs inj_image_eq_iff [OF inj] by (metis set_map)
  ultimately have "sort ks = sorted_list_of_set K"
    by (metis sorted_list_of_set.idem_if_sorted_distinct sorted_sort distinct_sort set_sort)
  then show ?thesis using xs sort_chunks_names [OF assms(3)] by simp
qed

lemma createFile_named:
  assumes "plain (fu_user_principal_id request)" "plain (fu_job_id request)" "plain (fu_name request)"
    and "upload_ready (d_get D w) (path_join [base, fu_user_principal_id request, fu_job_id request]) i n"
  shows "\<exists>meta w'. createFile M D base request now rnd w = (Inr (Success meta), w')
    \<and> file_named M w' (f_id meta) = Some meta"
proof -
  have "canonical (path_join [base, fu_user_principal_id request, fu_job_id request])"
    by (rule canonical_join [OF assms(1,2)])
  then show ?thesis
    using assms(4) createFile_up [of base request w now rnd]
    by (auto simp: upload_ready_def canonical_ends file_named_def new_metadata_def strs_laws)
qed

text \<open>Completing an upload whose chunks are on the disk.\<close>

lemma completeFileUpload_up:
  fixes i :: string and ks :: "int list"
  defines "ns \<equiv> map (chunk_name i) ks"
  assumes named: "file_named M w i = Some f" "f_id f = i" "f_user_principal_id f = u" "f_file_path f = inside d n"
    and d: "canonical d" "plain n" "d \<in> set (fs_dirs (d_get D w))" "inside d n \<notin> set (fs_dirs (d_get D w))"
    and n: "\<not> prefix (chunk_prefix i) n" and i: "slash \<notin> set i"
    and chunks: "sort_chunks (filter (prefix (chunk_prefix i)) (d_order D w d)) = ns"
    and ks: "distinct ks" "\<forall>k\<in>set ks. file_at (d_get D w) (inside d (chunk_name i k)) = Some (c k)"
  shows "\<exists>s. completeFileUpload M D sha256 i u now w = (Inr (Success ()),
      put M (FILE i) (VFile (f\<lparr>f_hash := Some (sha256 (concat (map c ks))), f_updated_at := now\<rparr>)) (d_put D s w))
    \<and> fs_dirs s = fs_dirs (d_get D w) \<and> file_at s (inside d n) = Some (concat (map c ks))
    \<and> (\<forall>q. q \<noteq> inside d n \<longrightarrow> file_at s q = (if q \<in> inside d ` set ns then None else file_at (d_get D w) q))"
proof -
  let ?w = "d_put D (put_file (inside d n) [] (d_get D w)) w"
  have other: "chunk_name i k \<noteq> n" for k using n by auto
  have f1: "\<forall>m\<in>set ns. path_join [d, m] = inside d m \<and> inside d m \<noteq> inside d n \<and>
      file_at (d_get D ?w) (inside d m) = Some (the (file_at (d_get D w) (inside d m)))"
    using ks(2) inside_facts(1) [OF d(1) plain_chunk_name [OF i]] other by (auto simp: ns_def)
  have f2: "distinct ns" using ks(1) by (simp add: ns_def distinct_map inj_on_def)
  have f3: "file_at (d_get D ?w) (inside d n) = Some []" by simp
  obtain s where run: "foldA (\<lambda>_. move_chunk D d (inside d n)) () ns ?w = (Inr (), d_put D s ?w)"
    and s: "fs_dirs s = fs_dirs (d_get D ?w)"
      "file_at s (inside d n) = Some ([] @ concat (map (\<lambda>m. the (file_at (d_get D w) (inside d m))) ns))"
      "\<forall>q. q \<noteq> inside d n \<longrightarrow> file_at s q = (if q \<in> inside d ` set ns then None else file_at (d_get D ?w) q)"
    using move_chunks_up [OF f1 f2 f3] by (elim exE conjE)
  have content: "map (\<lambda>m. the (file_at (d_get D w) (inside d m))) ns = map c ks"
    using ks(2) by (auto simp: ns_def)
  have "completeFileUpload M D sha256 i u now w = (Inr (Success ()),
      put M (FILE i) (VFile (f\<lparr>f_hash := Some (sha256 (concat (map c ks))), f_updated_at := now\<rparr>)) (d_put D s w))"
  proof -
    have final: "file_at (d_get D (d_put D s w)) (inside d n) = Some (concat (map c ks))"
      using s(2) content by simp
    have steps: "READDIR D d w = (Inr (d_order D w d), w)" "WRITE_FILE D (inside d n) [] w = (Inr (), ?w)"
      "READ_FILE D (inside d n) (d_put D s w) = (Inr (concat (map c ks)), d_put D s w)"
      by (rule READDIR_up [OF is_dir_canonical [OF d(1,3)]], rule WRITE_FILE_inside [OF d],
        rule READ_FILE_up [OF final])
    have SET: "SET M k v w' = (Inr (), put M k v w')" for k v w' by simp
    show ?thesis
      unfolding completeFileUpload_def setFileMetadata_def with_own_file_up [OF named(1,3)] named(2,4)
        inside_facts(2) [OF d(1,2)] Let_def act_simps steps chunks run SET
      by (simp only: with_own_file_up [OF named(1,3)] named(2,4) inside_facts(2) [OF d(1,2)] Let_def
        act_simps steps chunks run SET prod.case sum.case disk_put_put)
  qed
  then show ?thesis
    using s content by (intro exI [of _ s]) auto
qed

lemma upload_up:
  fixes request :: FileUploadRequest and base :: string and now rnd :: int and chunks :: "(int \<times> string) list"
  defines "u \<equiv> fu_user_principal_id request" and "j \<equiv> fu_job_id request"
    and "i \<equiv> generateFileId now rnd"
  defines "d \<equiv> path_join [base, u, j]"
  defines "content \<equiv> uploaded_content chunks"
  assumes plain: "plain u" "plain j" "plain (fu_name request)"
    and ready: "upload_ready (d_get D w) d i (fu_name request)"
  shows "\<exists>meta w1 w2 w3 f. createFile M D base request now rnd w = (Inr (Success meta), w1)
    \<and> send_chunks M D i u chunks w1 = (Inr (), w2)
    \<and> completeFileUpload M D sha256 i u later w2 = (Inr (Success ()), w3)
    \<and> getFileContentLocalOnly M D i u later w3 = (Inr (Success content), w3)
    \<and> file_named M w3 i = Some f \<and> f_hash f = Some (sha256 content) \<and> f_file_path f = inside d (fu_name request)
    \<and> i \<in> set (mems M w3 (FILES_BY_USER u)) \<and> i \<in> set (mems M w3 (FILES_BY_JOB j))
    \<and> (\<forall>q. q \<noteq> inside d (fu_name request) \<longrightarrow> file_at (d_get D w3) q = file_at (d_get D w) q)"
proof -
  have d: "canonical d" unfolding d_def by (rule canonical_join [OF plain(1,2)])
  note ready' = ready [unfolded upload_ready_def]
  let ?n = "fu_name request" and ?K = "fst ` set chunks"
  define meta where "meta = new_metadata request i (inside d ?n) now"
  define s1 where "s1 = (d_get D w)\<lparr>fs_dirs := remdups (fs_dirs (d_get D w) @ path_prefixes d)\<rparr>"
  define w1 where "w1 = addm M (FILES_BY_JOB j) i (addm M (FILES_BY_USER u) i
      (put M (FILE i) (VFile meta) (d_put D s1 w)))"
  have create: "createFile M D base request now rnd w = (Inr (Success meta), w1)"
    using createFile_up [of base request w now rnd] canonical_ends [OF d] ready'
      inside_facts(1) [OF d plain(3)]
    unfolding w1_def s1_def meta_def d_def u_def j_def i_def by simp
  have w1: "file_named M w1 i = Some meta" "d_get D w1 = s1"
    by (simp_all add: w1_def file_named_def strs_laws)
  have meta: "f_id meta = i" "f_user_principal_id meta = u" "f_file_path meta = inside d ?n"
    by (simp_all add: meta_def new_metadata_def u_def)
  have i: "slash \<notin> set i" "CHR ''c'' \<notin> set i" by (simp_all add: i_def)
  have s1: "d \<in> set (fs_dirs s1)" "inside d ?n \<notin> set (fs_dirs s1)"
    "\<forall>k. inside d (chunk_name i k) \<notin> set (fs_dirs s1)" "file_at s1 q = file_at (d_get D w) q" for q
    using ready' take_all_prefix [OF d] inside_no_prefix [OF d] by (auto simp: s1_def entry_at_def)
  obtain s2 where send: "send_chunks M D i u chunks w1 = (Inr (), d_put D s2 w1)"
    and s2: "fs_dirs s2 = fs_dirs s1"
      "\<forall>k\<in>?K. file_at s2 (inside d (chunk_name i k)) = map_of (rev chunks) k"
      "\<forall>q. q \<notin> (\<lambda>k. inside d (chunk_name i k)) ` ?K \<longrightarrow> file_at s2 q = file_at s1 q"
    using send_chunks_up [OF w1(1) meta d plain(3), of chunks] s1 i w1(2) by auto
  let ?w2 = "d_put D s2 w1" and ?ks = "sorted_list_of_set ?K"
  have known: "\<forall>k\<in>?K. map_of (rev chunks) k \<noteq> None"
    by (auto simp: map_of_eq_None_iff)
  have "entry_at (d_get D ?w2) (inside d m) \<longleftrightarrow> m \<in> chunk_name i ` ?K" if "prefix (chunk_prefix i) m" for m
  proof (cases "m \<in> chunk_name i ` ?K")
    case True
    then obtain k where k: "k \<in> ?K" "m = chunk_name i k" by blast
    then have "file_at s2 (inside d m) \<noteq> None" using bspec [OF s2(2) k(1)] bspec [OF known k(1)] by simp
    then show ?thesis using True by (simp add: entry_at_def)
  next
    case False
    then have "inside d m \<notin> (\<lambda>k. inside d (chunk_name i k)) ` ?K" by (simp add: image_iff)
    then have "file_at s2 (inside d m) = file_at (d_get D w) (inside d m)"
      using s2(3) s1(4) by simp
    moreover have "inside d m \<in> set (fs_dirs s2) \<longleftrightarrow> inside d m \<in> set (fs_dirs (d_get D w))"
      using s2(1) inside_no_prefix [OF d] by (simp add: s1_def)
    ultimately have "entry_at s2 (inside d m) = entry_at (d_get D w) (inside d m)"
      by (simp only: entry_at_def)
    also have "\<dots> = False" using ready' that by simp
    finally show ?thesis using False by simp
  qed
  then have files: "sort_chunks (filter (prefix (chunk_prefix i)) (d_order D ?w2 d)) = map (chunk_name i) ?ks"
    using chunk_files [OF d i, of ?K ?w2] by simp
  have named2: "file_named M ?w2 i = Some meta" using w1(1) by (simp add: file_named_def)
  obtain s3 where complete: "completeFileUpload M D sha256 i u later ?w2 = (Inr (Success ()),
      put M (FILE i) (VFile (meta\<lparr>f_hash := Some (sha256 content), f_updated_at := later\<rparr>)) (d_put D s3 ?w2))"
    and s3: "file_at s3 (inside d ?n) = Some content"
      "\<forall>q. q \<noteq> inside d ?n \<longrightarrow> file_at s3 q = (if q \<in> inside d ` set (map (chunk_name i) ?ks) then None
         else file_at (d_get D ?w2) q)"
    using completeFileUpload_up [OF named2 meta d plain(3) _ _ _ i(1) files,
        of "\<lambda>k. the (map_of (rev chunks) k)" sha256 later]
      s1(1,2) s2(1,2) ready' known unfolding content_def uploaded_content_def by auto
  define f where "f = meta\<lparr>f_hash := Some (sha256 content), f_updated_at := later\<rparr>"
  define w3 where "w3 = put M (FILE i) (VFile f) (d_put D s3 ?w2)"
  have named3: "file_named M w3 i = Some f" by (simp add: w3_def file_named_def strs_laws)
  have read: "getFileContentLocalOnly M D i u later w3 = (Inr (Success content), w3)"
    by (rule getFileContentLocalOnly_up [OF named3]) (use meta s3(1) in \<open>simp_all add: f_def w3_def\<close>)
  have user: "i \<in> set (mems M w3 (FILES_BY_USER u))"
    by (simp add: w3_def w1_def mems_laws addm_iff put_member key_simps)
  have job: "i \<in> set (mems M w3 (FILES_BY_JOB j))"
    by (simp add: w3_def w1_def mems_laws addm_iff put_member key_simps)
  have rest: "file_at (d_get D w3) q = file_at (d_get D w) q" if "q \<noteq> inside d ?n" for q
  proof (cases "q \<in> (\<lambda>k. inside d (chunk_name i k)) ` ?K")
    case True
    then obtain k where k: "k \<in> ?K" "q = inside d (chunk_name i k)" by blast
    then have "q \<in> inside d ` set (map (chunk_name i) ?ks)" by simp
    then have "file_at s3 q = None" using s3(2) that by simp
    moreover have "file_at (d_get D w) q = None"
      using ready' k(2) chunk_name_prefix [of i k] unfolding entry_at_def by blast
    ultimately show ?thesis by (simp add: w3_def)
  next
    case False
    then have "q \<notin> inside d ` set (map (chunk_name i) ?ks)" by (auto simp: image_image)
    then have "file_at s3 q = file_at s2 q" using s3(2) that by simp
    then show ?thesis using s2(3) s1(4) False by (simp add: w3_def)
  qed
  have "f_hash f = Some (sha256 content)" "f_file_path f = inside d ?n"
    using meta(3) by (simp_all add: f_def)
  moreover have "completeFileUpload M D sha256 i u later ?w2 = (Inr (Success ()), w3)"
    using complete unfolding w3_def f_def .
  ultimately show ?thesis
    using create send named3 read user job rest by blast
qed

end

end
