(* ===== verification/FileTyping.thy ===== *)
theory FileTyping
  imports Vault FileFacts
begin

text \<open>
  The type of the stored file records: every key under \<open>file:\<close> holds the
  metadata of the file it names. Every method of the file service keeps it,
  also when commands of the server, calls of the disk or the canister fail in
  the middle.
\<close>

definition files_typed :: "'w redis \<Rightarrow> 'w \<Rightarrow> bool" where
  "files_typed M w \<longleftrightarrow> (\<forall>i v. strs M w (FILE i) = Some v \<longrightarrow> (\<exists>f. v = VFile f \<and> f_id f = i))"

lemma files_typed_same: "strs M w' = strs M w \<Longrightarrow> files_typed M w' \<longleftrightarrow> files_typed M w"
  by (simp add: files_typed_def)

lemma FILE_inject [simp]: "FILE i = FILE j \<longleftrightarrow> i = j"
  by (simp add: FILE_def)

context redis_quiet
begin

lemma quiet_command:
  assumes "\<And>w. files_typed M w \<Longrightarrow> files_typed M (snd (f w))"
  shows "preserves (files_typed M) (command M f)"
  unfolding preserves_def
proof (intro allI impI)
  fix w assume w: "files_typed M w"
  obtain e w' where att: "attempt M w = (e, w')" by fastforce
  then have "files_typed M w'" using w attempt_quiet files_typed_same by metis
  then show "files_typed M (snd (command M f w))"
    using att assms [of w'] by (cases e) (auto simp: command_def split: prod.splits)
qed

lemma typed_commands [keeps_rules]:
  "preserves (files_typed M) (GET M k)" "preserves (files_typed M) (SMEMBERS M k)"
  "preserves (files_typed M) (SADD M k m)" "preserves (files_typed M) (SREM M k m)"
  "preserves (files_typed M) (DEL M k)"
  unfolding GET_def SMEMBERS_def SADD_def SREM_def DEL_def
  by (rule quiet_command; simp add: files_typed_def strs_laws)+

lemma typed_SET [keeps_rules]:
  "f_id f = i \<Longrightarrow> preserves (files_typed M) (SET M (FILE i) (VFile f))"
  unfolding SET_def by (rule quiet_command) (simp add: files_typed_def strs_laws)

text \<open>Reading a record of a typed store gives one with the identifier asked for.\<close>

lemma GET_typed_bind:
  assumes "\<And>f. f_id f = i \<Longrightarrow> preserves (files_typed M) (g (Some (VFile f)))"
    and "preserves (files_typed M) (g None)"
  shows "preserves (files_typed M) (bindA (GET M (FILE i)) g)"
  unfolding preserves_def
proof (intro allI impI)
  fix w assume w: "files_typed M w"
  obtain e w' where att: "attempt M w = (e, w')" by fastforce
  then have w': "files_typed M w'" using w attempt_quiet files_typed_same by metis
  show "files_typed M (snd (bindA (GET M (FILE i)) g w))"
  proof (cases e)
    case None
    have run: "bindA (GET M (FILE i)) g w = g (strs M w' (FILE i)) w'"
      using att None by (simp add: bindA_def GET_def command_def)
    show ?thesis
    proof (cases "strs M w' (FILE i)")
      case None
      then show ?thesis using run preservesD [OF assms(2) w'] by simp
    next
      case (Some v)
      then obtain f where "v = VFile f" "f_id f = i" using w' unfolding files_typed_def by blast
      then show ?thesis using run Some preservesD [OF assms(1) w'] by simp
    qed
  next
    case (Some msg)
    then show ?thesis using att w' by (simp add: bindA_def GET_def command_def)
  qed
qed

lemma getFile_typed_bind:
  assumes "\<And>f. f_id f = i \<Longrightarrow> preserves (files_typed M) (g (Success f))"
    and "\<And>k m. preserves (files_typed M) (g (Failure k m))"
  shows "preserves (files_typed M) (bindA (getFile M i) g)"
  unfolding preserves_def
proof (intro allI impI)
  fix w assume w: "files_typed M w"
  let ?body = "bindA (GET M (FILE i)) (\<lambda>data. case present data of
      None \<Rightarrow> returnA (Failure NotFound ''File not found'')
    | Some v \<Rightarrow> bindA (parse_as as_file v) (\<lambda>f. returnA (Success f)))"
  have get: "getFile M i = catchA ?body
      (\<lambda>e. returnA (Failure DatabaseFault (''Failed to get file: '' @ e)))"
    by (simp add: getFile_def getFileMetadata_def)
  obtain e w' where att: "attempt M w = (e, w')" by fastforce
  then have w': "files_typed M w'" using w attempt_quiet files_typed_same by metis
  consider (failed) msg where "e = Some msg" | (missing) "e = None" "strs M w' (FILE i) = None"
    | (found) f where "e = None" "strs M w' (FILE i) = Some (VFile f)" "f_id f = i"
    using w' unfolding files_typed_def by (cases e; cases "strs M w' (FILE i)") auto
  then show "files_typed M (snd (bindA (getFile M i) g w))"
  proof cases
    case failed
    then have "getFile M i w = (Inr (Failure DatabaseFault (''Failed to get file: '' @ msg)), w')"
      using att by (simp add: get act_simps GET_def command_def)
    then show ?thesis using preservesD [OF assms(2) w'] by (simp add: bindA_def)
  next
    case missing
    then have "getFile M i w = (Inr (Failure NotFound ''File not found''), w')"
      using att by (simp add: get act_simps GET_def command_def)
    then show ?thesis using preservesD [OF assms(2) w'] by (simp add: bindA_def)
  next
    case found
    then have "getFile M i w = (Inr (Success f), w')"
      using att by (simp add: get act_simps GET_def command_def)
    then show ?thesis using preservesD [OF assms(1) w'] found by (simp add: bindA_def)
  qed
qed

lemma typed_own_file [keeps_rules]:
  assumes "\<And>f. f_id f = i \<Longrightarrow> preserves (files_typed M) (body f)"
  shows "preserves (files_typed M) (with_own_file M i u body)"
  unfolding with_own_file_def by (rule getFile_typed_bind) (auto intro!: keeps_rules assms)

lemma typed_parse [keeps_rules]: "preserves (files_typed M) (parse_as p v)"
  by (rule parse_as_preserves)

lemma typed_getFile [keeps_rules]: "preserves (files_typed M) (getFile M i)"
  unfolding getFile_def getFileMetadata_def by (intro keeps_rules)

lemma typed_reads [keeps_rules]:
  "preserves (files_typed M) (getFileIdsFromIndex M k)" "preserves (files_typed M) (file_or_null M i)"
  "preserves (files_typed M) (listFiles M request)" "preserves (files_typed M) (getFilesByJobId M j)"
  "preserves (files_typed M) (getJob M j)" "preserves (files_typed M) (getFileMetadata M k)"
  unfolding getFileIdsFromIndex_def file_or_null_def listFiles_def getFilesByJobId_def getJob_def
    getFileMetadata_def Let_def
  by (intro keeps_rules)+

lemma typed_indexes [keeps_rules]:
  "preserves (files_typed M) (addFileToUserIndex M k i)" "preserves (files_typed M) (addFileToJobIndex M k i)"
  "preserves (files_typed M) (removeFileFromUserIndex M k i)"
  "preserves (files_typed M) (removeFileFromJobIndex M k i)" "preserves (files_typed M) (deleteFileMetadata M k)"
  unfolding addFileToUserIndex_def addFileToJobIndex_def removeFileFromUserIndex_def
    removeFileFromJobIndex_def deleteFileMetadata_def
  by (intro keeps_rules)+

lemma typed_setFile [keeps_rules]:
  "f_id f = i \<Longrightarrow> preserves (files_typed M) (setFileMetadata M (FILE i) (VFile f))"
  unfolding setFileMetadata_def by (rule typed_SET)

lemma typed_change [keeps_rules]:
  assumes "\<And>f. f_id (g f) = f_id f"
  shows "preserves (files_typed M) (change_metadata M i g)"
  unfolding change_metadata_def getFileMetadata_def
proof (rule GET_typed_bind)
  fix f :: FileMetadata assume "f_id f = i"
  then have "preserves (files_typed M) (setFileMetadata M (FILE i) (VFile (g f)))"
    by (intro keeps_rules) (simp add: assms)
  then show "preserves (files_typed M) (case present (Some (VFile f)) of None \<Rightarrow> returnA ()
      | Some v \<Rightarrow> bindA (parse_as as_file v) (\<lambda>fileData. setFileMetadata M (FILE i) (VFile (g fileData))))"
    by (simp add: preserves_def act_simps)
qed (simp add: preserves_return)

lemma typed_updates [keeps_rules]:
  "preserves (files_typed M) (updateStorageStrategy M i strategy now)"
  "preserves (files_typed M) (updateSyncStatus M i status now)"
  "preserves (files_typed M) (updateFileMetadata M f)"
  unfolding updateStorageStrategy_def updateSyncStatus_def updateFileMetadata_def
  by (intro keeps_rules; simp)+

end

lemma preserves_resolution [keeps_rules]:
  "(\<And>p f. r = Resolved p f \<Longrightarrow> preserves P (g p f)) \<Longrightarrow> (\<And>msg. r = Unresolved msg \<Longrightarrow> preserves P (h msg)) \<Longrightarrow>
     preserves P (case r of Resolved p f \<Rightarrow> g p f | Unresolved msg \<Rightarrow> h msg)"
  by (cases r) simp_all

context quiet_storage
begin

lemma typed_disk [keeps_rules]:
  "preserves (files_typed M) (ACCESS D p)" "preserves (files_typed M) (READ_FILE D p)"
  "preserves (files_typed M) (WRITE_FILE D p data)" "preserves (files_typed M) (APPEND_FILE D p data)"
  "preserves (files_typed M) (UNLINK D p)" "preserves (files_typed M) (MKDIR D p)"
  "preserves (files_typed M) (READDIR D p)" "preserves (files_typed M) (writeFileData D p data)"
  unfolding preserves_def ACCESS_def READ_FILE_def WRITE_FILE_def APPEND_FILE_def UNLINK_def MKDIR_def
    writeFileData_def
  using files_typed_same [OF syscall_quiet(1)] files_typed_same [OF READDIR_quiet(1)] by blast+

lemma typed_resolve [keeps_rules]:
  assumes "f_id f = i"
  shows "preserves (files_typed M) (resolveFilePathWithFallback M D p f i now)"
  unfolding resolveFilePathWithFallback_def find_alternative_def Let_def
  by (intro keeps_rules) (simp add: alternative_def assms)

lemma typed_create [keeps_rules]: "preserves (files_typed M) (createFile M D base request now rnd)"
  unfolding createFile_def Let_def by (intro keeps_rules) (simp add: new_metadata_def)

lemma typed_local [keeps_rules]:
  "preserves (files_typed M) (uploadChunk M D chunk)"
  "preserves (files_typed M) (completeFileUpload M D sha256 i u now)"
  "preserves (files_typed M) (getFileContentLocalOnly M D i u now)"
  "preserves (files_typed M) (deleteFile M D i u)"
  unfolding uploadChunk_def completeFileUpload_def getFileContentLocalOnly_def deleteFile_def move_chunk_def Let_def
  by (intro keeps_rules; simp)+

lemma typed_store_with_hash [keeps_rules]:
  "preserves (files_typed M) (store_with_hash M D sha256 base request content now rnd)"
  unfolding store_with_hash_def Let_def by (intro keeps_rules) simp

end

context dual_quiet
begin

lemma typed_canister [keeps_rules]:
  "preserves (files_typed M) (cn_store_file (dm_canister S) k c meta)"
  "preserves (files_typed M) (cn_get_file (dm_canister S) k)"
  unfolding preserves_def using files_typed_same [OF store_quiet] files_typed_same [OF get_quiet] by blast+

lemma typed_state [keeps_rules]:
  "preserves (files_typed M) (start_task S t)" "preserves (files_typed M) (set_queue S f)"
  unfolding preserves_def start_task_def set_queue_def using files_typed_same [OF state_quiet] by simp_all

lemma typed_canister_calls [keeps_rules]:
  "preserves (files_typed M) (canStoreFile (dm_canister S) content meta key)"
  "preserves (files_typed M) (canRetrieveFile (dm_canister S) k)"
  unfolding canStoreFile_def canRetrieveFile_def Let_def by (intro keeps_rules)+

lemma typed_tasks [keeps_rules]:
  "preserves (files_typed M) (storeInCanisterAsync M S meta content now)"
  "preserves (files_typed M) (restoreToLocalAsync M D i content)"
  "preserves (files_typed M) (syncToCanisterAsync M S i content)"
  "preserves (files_typed M) (addToRetryQueue S i content now)"
  "preserves (files_typed M) (count_retry S i now)"
  unfolding storeInCanisterAsync_def restoreToLocalAsync_def syncToCanisterAsync_def addToRetryQueue_def
    count_retry_def
  by (intro keeps_rules)+

lemma typed_run_task [keeps_rules]: "preserves (files_typed M) (run_task M D S now t)"
  by (cases t) (simp_all add: typed_tasks)

lemma typed_storing [keeps_rules]:
  "preserves (files_typed M) (storeFile M D S request content now rnd)"
  unfolding storeFile_def storeLocally_def storeInCanister_def storeDually_def finish_dual_def Let_def
  by (cases "determineStorageStrategy (dm_config S) request content") (simp_all only: option.case StorageStrategy.case, (intro keeps_rules)+)

lemma typed_retrieving [keeps_rules]:
  "preserves (files_typed M) (retrieveFromCanister M S i)"
  "preserves (files_typed M) (retrieveLocalFirst M D S i u now)"
  "preserves (files_typed M) (retrieveCanisterFirst M D S i u now)"
proof -
  show canister [keeps_rules]: "preserves (files_typed M) (retrieveFromCanister M S i)"
    unfolding retrieveFromCanister_def by (intro keeps_rules)
  show "preserves (files_typed M) (retrieveLocalFirst M D S i u now)"
    "preserves (files_typed M) (retrieveCanisterFirst M D S i u now)"
    unfolding retrieveLocalFirst_def retrieveCanisterFirst_def by (intro keeps_rules)+
qed

lemma typed_retrieveFile [keeps_rules]: "preserves (files_typed M) (retrieveFile M D S i u strategy now)"
proof -
  have "preserves (files_typed M) (retrieveFastestAvailable M D S i u now)"
    unfolding retrieveFastestAvailable_def by (intro keeps_rules)
  then show ?thesis
    unfolding retrieveFile_def retrievePreferredWithFallback_def
    by (auto split: RetrievalStrategy.split intro!: keeps_rules)
qed

lemma typed_dualDelete [keeps_rules]: "preserves (files_typed M) (dualDeleteFile M D i u)"
  unfolding dualDeleteFile_def by (intro keeps_rules)

lemma typed_retry [keeps_rules]: "preserves (files_typed M) (processRetryQueue M S now)"
proof -
  have "preserves (files_typed M) (foldA (\<lambda>_. retry_one M S now) () q)" for q
    unfolding retry_one_def by (intro keeps_rules)
  then show ?thesis by (simp add: processRetryQueue_def preserves_def)
qed

lemma typed_service [keeps_rules]:
  assumes "dual_in_use V = None \<or> dual_in_use V = Some S"
  shows "preserves (files_typed M) (getFileContent M D V i u now)"
    and "preserves (files_typed M) (getFileContentByStoredId M D V i now)"
    and "preserves (files_typed M) (downloadFileByStoredId M D V i now)"
    and "preserves (files_typed M) (createFileFromJobResult M D V sha256 num result now rnd)"
    and "preserves (files_typed M) (storeJobResultAndGetId M D V sha256 num j v u now rnd)"
proof -
  show content [keeps_rules]: "preserves (files_typed M) (getFileContent M D V i u now)" for i u
    using assms unfolding getFileContent_def by (elim disjE) (simp_all only: option.case StorageStrategy.case, (intro keeps_rules)+)
  show "preserves (files_typed M) (getFileContentByStoredId M D V i now)"
    using assms unfolding getFileContentByStoredId_def Let_def
    by (elim disjE) (simp_all only: option.case StorageStrategy.case, (intro keeps_rules)+)
  show "preserves (files_typed M) (downloadFileByStoredId M D V i now)"
    using assms unfolding downloadFileByStoredId_def Let_def
    by (elim disjE) (auto intro!: keeps_rules getFile_typed_bind)
  have user [keeps_rules]: "preserves (files_typed M) (result_user M result jobData)" for jobData
    unfolding result_user_def by (intro keeps_rules)
  show "preserves (files_typed M) (createFileFromJobResult M D V sha256 num result now rnd)"
    using assms unfolding createFileFromJobResult_def Let_def
    by (elim disjE) (simp_all only: option.case StorageStrategy.case, (intro keeps_rules)+)
  show "preserves (files_typed M) (storeJobResultAndGetId M D V sha256 num j v u now rnd)"
    unfolding storeJobResultAndGetId_def Let_def by (intro keeps_rules)
qed

end

end
