(* ===== verification/DualFacts.thy ===== *)
theory DualFacts
  imports Vault FileTyping
begin

text \<open>
  The dual storage on a server, a disk and a canister that answer: what a
  store leaves where, what a read finds, and the passes over the retry queue.
\<close>

section \<open>Storing\<close>

text \<open>The tasks that were started run after the request that started them.\<close>

definition run_started :: "'w redis \<Rightarrow> 'w disk \<Rightarrow> 'w dual \<Rightarrow> int \<Rightarrow> ('w, unit) act" where
  "run_started M D S now = (\<lambda>w. foldA (\<lambda>_. run_task M D S now) () (du_started (dm_get S w))
     (dm_put S ((dm_get S w)\<lparr>du_started := []\<rparr>) w))"

context redis_up
begin

lemma change_metadata_up:
  "file_named M w i = Some f \<Longrightarrow> change_metadata M i g w = (Inr (), put M (FILE i) (VFile (g f)) w)"
  by (cases "strs M w (FILE i)")
    (auto simp: change_metadata_def getFileMetadata_def setFileMetadata_def act_simps file_named_def)

lemma file_named_put [simp]:
  "file_named M (put M (FILE i) (VFile f) w) j = (if j = i then Some f else file_named M w j)"
  by (simp add: file_named_def strs_laws FILE_def)

lemma file_named_addm [simp]: "file_named M (addm M k m w) j = file_named M w j"
  by (simp add: file_named_def strs_laws)

end

context vault
begin

lemma file_named_rest [simp]:
  "file_named M (keep k c w) j = file_named M w j" "file_named M (d_put D s w) j = file_named M w j"
  "file_named M (dm_put S t w) j = file_named M w j"
  by (simp_all add: file_named_def)

lemma read_key:
  "canRetrieveFile (dm_canister S) (case f_canister_file_key f of Some k \<Rightarrow> if truthy k then k else f_name f
      | None \<Rightarrow> f_name f) w = (Inr (case held w (some_text (f_canister_file_key f) (f_name f)) of
      Some c \<Rightarrow> Success c | None \<Rightarrow> Failure NotFound ''File not found in canister''), w)"
  by (simp add: canRetrieveFile_up some_text_def split: option.split)

lemma retrieveFromCanister_up:
  assumes "file_named M w i = Some f" "held w (some_text (f_canister_file_key f) (f_name f)) = Some c"
  shows "retrieveFromCanister M S i w = (Inr (Success c), w)"
  using assms by (simp add: retrieveFromCanister_def act_simps getFile_up read_key)

text \<open>A read that the local disk does not answer.\<close>

lemma retrieveLocalFirst_canister:
  assumes "getFileContentLocalOnly M D i u now w = (Inr (Failure k m), w)"
    and "file_named M w i = Some f" "held w (some_text (f_canister_file_key f) (f_name f)) = Some c"
  shows "retrieveLocalFirst M D S i u now w = (Inr (Success c),
    if sc_syncOnAccess (dm_config S) then snd (start_task S (RestoreToLocal i c) w) else w)"
  using assms(1) retrieveFromCanister_up [OF assms(2,3)]
  by (simp add: retrieveLocalFirst_def act_simps start_task_def)

lemma default_is_local_first:
  "sc_defaultStrategy (dm_config S) \<in> {dual, local_first} \<Longrightarrow>
     retrieveFile M D S i u None now = retrieveLocalFirst M D S i u now"
  by (auto simp: retrieveFile_def)

text \<open>A file that is only in the canister has no path.\<close>

lemma no_path_fails:
  assumes "file_named M w i = Some f" "f_file_path f = []" "f_user_principal_id f = u"
    and "file_at (d_get D w) [] = None"
  shows "getFileContentLocalOnly M D i u now w
    = (Inr (Failure NotFound ''Failed to read directory or find alternative files''), w)"
proof -
  have "\<not> is_dir (d_get D w) []" by (simp add: is_dir_def)
  moreover have "parse_dir [] = []" by (simp add: parse_dir_def has_dir_def drop_slashes_def)
  ultimately show ?thesis
    using assms by (simp add: getFileContentLocalOnly_def act_simps with_own_file_up
      resolveFilePathWithFallback_def find_alternative_def ACCESS_up READDIR_def disk_accepts Let_def)
qed

lemma by_stored_id:
  assumes "dual_in_use V = Some S" "file_named M w i = Some f"
    and "retrieveFile M D S i (f_user_principal_id f) None now w = (Inr (Success c), w')"
  shows "getFileContentByStoredId M D V i now w = (Inr (Success (utf8_text c)), w')"
  using assms by (simp add: getFileContentByStoredId_def act_simps getFile_up Let_def)

lemma read_local:
  assumes V: "dual_in_use V = Some S" "sc_defaultStrategy (dm_config S) \<in> {dual, local_first}"
    and "file_named M w i = Some f" "file_at (d_get D w) (f_file_path f) = Some content"
  shows "getFileContentByStoredId M D V i now w = (Inr (Success (utf8_text content)), w)"
proof (rule by_stored_id [OF V(1) assms(3)])
  show "retrieveFile M D S i (f_user_principal_id f) None now w = (Inr (Success content), w)"
    using getFileContentLocalOnly_up [OF assms(3) refl assms(4)]
    by (simp add: default_is_local_first [OF V(2)] retrieveLocalFirst_def act_simps)
qed

lemma read_canister:
  assumes V: "dual_in_use V = Some S" "sc_defaultStrategy (dm_config S) \<in> {dual, local_first}"
    and f: "file_named M w i = Some f" "f_file_path f = []" "file_at (d_get D w) [] = None"
    and c: "held w (some_text (f_canister_file_key f) (f_name f)) = Some c"
  shows "\<exists>w'. getFileContentByStoredId M D V i now w = (Inr (Success (utf8_text c)), w')"
proof -
  note run = retrieveLocalFirst_canister [OF no_path_fails [OF f(1,2) refl f(3)] f(1) c, of now]
  show ?thesis
    by (intro exI, rule by_stored_id [OF V(1) f(1)]) (simp only: default_is_local_first [OF V(2)] run)
qed

text \<open>The three ways to store.\<close>

lemma store_canister:
  fixes now rnd :: int and request :: FileUploadRequest
  defines "meta \<equiv> temp_metadata request now rnd"
  assumes "determineStorageStrategy (dm_config S) request content = STORE_CANISTER" "truthy (fu_name request)"
  shows "storeFile M D S request content now rnd w = (Inr (Success meta),
    put M (FILE (f_id meta)) (VFile (meta\<lparr>f_storage_strategy := Some STORE_CANISTER, f_updated_at := now\<rparr>))
      (put M (FILE (f_id meta)) (VFile meta) (keep (fu_name request) (utf8_text content) w)))"
  using assms(2,3) unfolding meta_def
  by (simp add: storeFile_def act_simps storeInCanister_def Let_def canStoreFile_up updateFileMetadata_def
    setFileMetadata_def updateStorageStrategy_def change_metadata_up)

end

text \<open>Nothing on the disk is in the way of a file.\<close>

definition room_for :: "fs \<Rightarrow> string \<Rightarrow> FileUploadRequest \<Rightarrow> bool" where
  "room_for s base request \<longleftrightarrow>
     plain (fu_user_principal_id request) \<and> plain (fu_job_id request) \<and> plain (fu_name request) \<and>
     (let d = path_join [base, fu_user_principal_id request, fu_job_id request] in
      (\<forall>q\<in>set (path_prefixes d). file_at s q = None) \<and> inside d (fu_name request) \<notin> set (fs_dirs s))"

context storage
begin

lemma create_and_write:
  assumes "room_for (d_get D w) base request"
  shows "\<exists>meta w1 s. createFile M D base request now rnd w = (Inr (Success meta), w1)
    \<and> file_named M w1 (f_id meta) = Some meta \<and> f_user_principal_id meta = fu_user_principal_id request
    \<and> f_name meta = fu_name request
    \<and> writeFileData D (f_file_path meta) content w1 = (Inr (), d_put D s w1)
    \<and> file_at s (f_file_path meta) = Some content
    \<and> (\<exists>a b t. w1 = addm M a (f_id meta) (addm M b (f_id meta) (put M (FILE (f_id meta)) (VFile meta) (d_put D t w))))"
proof -
  let ?d = "path_join [base, fu_user_principal_id request, fu_job_id request]"
  have plain: "plain (fu_user_principal_id request)" "plain (fu_job_id request)" "plain (fu_name request)"
    and room: "\<forall>q\<in>set (path_prefixes ?d). file_at (d_get D w) q = None"
      "inside ?d (fu_name request) \<notin> set (fs_dirs (d_get D w))"
    using assms by (auto simp: room_for_def Let_def)
  have d: "canonical ?d" by (rule canonical_join [OF plain(1,2)])
  obtain meta w1 where run: "createFile M D base request now rnd w = (Inr (Success meta), w1)"
    and named: "file_named M w1 (f_id meta) = Some meta"
    and w1: "w1 = addm M (FILES_BY_JOB (fu_job_id request)) (f_id meta)
      (addm M (FILES_BY_USER (fu_user_principal_id request)) (f_id meta) (put M (FILE (f_id meta)) (VFile meta)
        (d_put D ((d_get D w)\<lparr>fs_dirs := remdups (fs_dirs (d_get D w) @ path_prefixes ?d)\<rparr>) w)))"
    using createFile_up [of base request w now rnd] canonical_ends [OF d] room(1)
    by (auto simp: file_named_def new_metadata_def strs_laws)
  have fs: "d_get D w1 = (d_get D w)\<lparr>fs_dirs := remdups (fs_dirs (d_get D w) @ path_prefixes ?d)\<rparr>"
    by (simp add: w1)
  have meta: "f_file_path meta = inside ?d (fu_name request)"
      "f_user_principal_id meta = fu_user_principal_id request" "f_name meta = fu_name request"
    using created_file [OF run] inside_facts(1) [OF d plain(3)] by (simp_all add: new_metadata_def)
  have "writeFileData D (f_file_path meta) content w1
      = (Inr (), d_put D (put_file (f_file_path meta) content (d_get D w1)) w1)"
    unfolding writeFileData_def meta(1)
    by (rule WRITE_FILE_inside [OF d plain(3)])
      (use fs room(2) take_all_prefix [OF d] inside_no_prefix [OF d] in simp_all)
  note stored = this
  show ?thesis
    by (rule exI [of _ meta], rule exI [of _ w1],
        rule exI [of _ "put_file (f_file_path meta) content (d_get D w1)"])
      (use run named meta(2,3) stored in \<open>auto simp: w1 file_at_changes\<close>)
qed

end

context vault
begin

lemma store_local:
  assumes "determineStorageStrategy (dm_config S) request content = STORE_LOCAL"
    and "room_for (d_get D w) (dm_base S) request"
  shows "\<exists>meta w1 f. storeFile M D S request content now rnd w = (Inr (Success meta), w1)
    \<and> file_named M w1 (f_id meta) = Some f
    \<and> file_at (d_get D w1) (f_file_path f) = Some content
    \<and> du_started (dm_get S w1) = du_started (dm_get S w)"
proof -
  obtain meta w1 s where "createFile M D (dm_base S) request now rnd w = (Inr (Success meta), w1)"
    and named: "file_named M w1 (f_id meta) = Some meta"
    and "writeFileData D (f_file_path meta) content w1 = (Inr (), d_put D s w1)"
    and at: "file_at s (f_file_path meta) = Some content"
    and "\<exists>a b t. w1 = addm M a (f_id meta) (addm M b (f_id meta) (put M (FILE (f_id meta)) (VFile meta) (d_put D t w)))"
    using create_and_write [OF assms(2)] by blast
  moreover have "file_named M (d_put D s w1) (f_id meta) = Some meta" using named by simp
  moreover define f where "f = meta\<lparr>f_storage_strategy := Some STORE_LOCAL, f_updated_at := now\<rparr>"
  ultimately have "storeFile M D S request content now rnd w = (Inr (Success meta),
      put M (FILE (f_id meta)) (VFile f) (d_put D s w1))"
    using assms(1) by (simp add: storeFile_def act_simps storeLocally_def updateStorageStrategy_def change_metadata_up)
  then show ?thesis
    using at \<open>\<exists>a b t. _\<close> by (intro exI [of _ meta] exI [of _ f] exI conjI) (assumption, auto simp: f_def)
qed

lemma store_dual:
  assumes "determineStorageStrategy (dm_config S) request content = STORE_DUAL"
    and "room_for (d_get D w) (dm_base S) request" "truthy (fu_name request)"
    and "du_started (dm_get S w) = []"
  shows "\<exists>meta w1 w2 f. storeFile M D S request content now rnd w = (Inr (Success meta), w1)
    \<and> run_started M D S later w1 = (Inr (), w2)
    \<and> file_named M w2 (f_id meta) = Some f \<and> f_sync_status f = Some SYNCED
    \<and> held w2 (fu_name request) = Some (utf8_text content)
    \<and> file_at (d_get D w2) (f_file_path f) = Some content"
proof -
  obtain meta w1 s where create: "createFile M D (dm_base S) request now rnd w = (Inr (Success meta), w1)"
    and meta: "f_name meta = fu_name request"
    and "writeFileData D (f_file_path meta) content w1 = (Inr (), d_put D s w1)"
    and at: "file_at s (f_file_path meta) = Some content"
    and w1: "\<exists>a b t. w1 = addm M a (f_id meta) (addm M b (f_id meta) (put M (FILE (f_id meta)) (VFile meta) (d_put D t w)))"
    using create_and_write [OF assms(2), of now rnd content] by blast
  define w2 where "w2 = dm_put S ((dm_get S w)\<lparr>du_started := [StoreInCanister meta content]\<rparr>) (d_put D s w1)"
  define f1 where "f1 = (dual_metadata meta)\<lparr>f_storage_strategy := Some STORE_DUAL, f_updated_at := now\<rparr>"
  define w3 where "w3 = put M (FILE (f_id meta)) (VFile f1) (put M (FILE (f_id meta)) (VFile (dual_metadata meta)) w2)"
  have st: "dm_get S w1 = dm_get S w" using w1 by auto
  have store: "storeFile M D S request content now rnd w = (Inr (Success (dual_metadata meta)), w3)"
    using assms(1,4) create \<open>writeFileData _ _ _ _ = _\<close> st unfolding w3_def f1_def w2_def
    by (simp add: storeFile_def act_simps storeDually_def start_task_def finish_dual_def updateFileMetadata_def
      setFileMetadata_def updateStorageStrategy_def change_metadata_up dual_metadata_def)
  let ?w = "keep (fu_name request) (utf8_text content) (dm_put S ((dm_get S w3)\<lparr>du_started := []\<rparr>) w3)"
  have started: "du_started (dm_get S w3) = [StoreInCanister meta content]"
    by (simp add: w3_def w2_def)
  have named: "file_named M ?w (f_id meta) = Some f1" by (simp add: w3_def)
  have run: "run_started M D S later w3
      = (Inr (), put M (FILE (f_id meta)) (VFile (f1\<lparr>f_sync_status := Some SYNCED, f_updated_at := later\<rparr>)) ?w)"
    using assms(3) meta started
    by (simp add: run_started_def act_simps storeInCanisterAsync_def canStoreFile_up updateSyncStatus_def
      Let_def change_metadata_up [OF named])
  show ?thesis
    by (rule exI [of _ "dual_metadata meta"], rule exI [of _ w3], rule exI,
      rule exI [of _ "f1\<lparr>f_sync_status := Some SYNCED, f_updated_at := later\<rparr>"], intro conjI,
      rule store, rule run) (use at in \<open>simp_all add: dual_metadata_def f1_def w3_def w2_def\<close>)
qed

text \<open>Whatever the strategy, a file stored and read back is its text.\<close>

lemma store_then_read_up:
  assumes V: "dual_in_use V = Some S" "sc_defaultStrategy (dm_config S) \<in> {dual, local_first}"
    and room: "room_for (d_get D w) (dm_base S) request"
    and "du_started (dm_get S w) = []" "file_at (d_get D w) [] = None"
  shows "\<exists>meta w1 w2 w3. storeFile M D S request content now rnd w = (Inr (Success meta), w1)
    \<and> run_started M D S later w1 = (Inr (), w2)
    \<and> getFileContentByStoredId M D V (f_id meta) later w2 = (Inr (Success (utf8_text content)), w3)"
proof -
  have name: "truthy (fu_name request)" using room by (simp add: room_for_def truthy_def)
  show ?thesis
  proof (cases "determineStorageStrategy (dm_config S) request content")
    case STORE_LOCAL
    obtain meta w1 f where store: "storeFile M D S request content now rnd w = (Inr (Success meta), w1)"
      and f: "file_named M w1 (f_id meta) = Some f" "file_at (d_get D w1) (f_file_path f) = Some content"
      and st: "du_started (dm_get S w1) = []"
      using store_local [OF STORE_LOCAL room, of now rnd] unfolding assms(4) by blast
    let ?w2 = "dm_put S ((dm_get S w1)\<lparr>du_started := []\<rparr>) w1"
    have "run_started M D S later w1 = (Inr (), ?w2)" using st by (simp add: run_started_def act_simps)
    moreover have "getFileContentByStoredId M D V (f_id meta) later ?w2 = (Inr (Success (utf8_text content)), ?w2)"
      by (rule read_local [OF V]) (use f in simp_all)
    ultimately show ?thesis using store by blast
  next
    case STORE_CANISTER
    define meta where "meta = temp_metadata request now rnd"
    define f where "f = meta\<lparr>f_storage_strategy := Some STORE_CANISTER, f_updated_at := now\<rparr>"
    define w1 where "w1 = put M (FILE (f_id meta)) (VFile f)
      (put M (FILE (f_id meta)) (VFile meta) (keep (fu_name request) (utf8_text content) w))"
    have store: "storeFile M D S request content now rnd w = (Inr (Success meta), w1)"
      unfolding w1_def f_def meta_def by (rule store_canister [OF STORE_CANISTER name])
    let ?w2 = "dm_put S ((dm_get S w1)\<lparr>du_started := []\<rparr>) w1"
    have run: "run_started M D S later w1 = (Inr (), ?w2)"
      using assms(4) by (simp add: run_started_def act_simps w1_def)
    have "\<exists>w3. getFileContentByStoredId M D V (f_id meta) later ?w2 = (Inr (Success (utf8_text (utf8_text content))), w3)"
      by (rule read_canister [OF V, of _ _ f])
        (use assms(5) name in \<open>simp_all add: w1_def f_def meta_def temp_metadata_def new_metadata_def some_text_def\<close>)
    then show ?thesis using store run utf8_text_is_text [of content] by (auto simp: is_text_def)
  next
    case STORE_DUAL
    obtain meta w1 w2 f where store: "storeFile M D S request content now rnd w = (Inr (Success meta), w1)"
      "run_started M D S later w1 = (Inr (), w2)"
      and f: "file_named M w2 (f_id meta) = Some f" "file_at (d_get D w2) (f_file_path f) = Some content"
      using store_dual [OF STORE_DUAL room name assms(4)] by blast
    then show ?thesis using read_local [OF V f] by blast
  qed
qed

text \<open>The canister keeps one content under a name.\<close>

lemma same_name_up:
  assumes V: "dual_in_use V = Some S" "sc_defaultStrategy (dm_config S) \<in> {dual, local_first}"
    and s: "determineStorageStrategy (dm_config S) request content = STORE_CANISTER"
    and s': "determineStorageStrategy (dm_config S) request' content' = STORE_CANISTER"
    and name: "fu_name request' = fu_name request" "truthy (fu_name request)"
    and ids: "generateFileId now' rnd' \<noteq> generateFileId now rnd" and empty: "file_at (d_get D w) [] = None"
  shows "\<exists>meta w1 meta' w2 w3. storeFile M D S request content now rnd w = (Inr (Success meta), w1)
    \<and> storeFile M D S request' content' now' rnd' w1 = (Inr (Success meta'), w2)
    \<and> f_user_principal_id meta = fu_user_principal_id request
    \<and> getFileContentByStoredId M D V (f_id meta) later w2 = (Inr (Success (utf8_text content')), w3)"
proof -
  define meta where "meta = temp_metadata request now rnd"
  define f where "f = meta\<lparr>f_storage_strategy := Some STORE_CANISTER, f_updated_at := now\<rparr>"
  define meta' where "meta' = temp_metadata request' now' rnd'"
  define f' where "f' = meta'\<lparr>f_storage_strategy := Some STORE_CANISTER, f_updated_at := now'\<rparr>"
  define w1 where "w1 = put M (FILE (f_id meta)) (VFile f)
    (put M (FILE (f_id meta)) (VFile meta) (keep (fu_name request) (utf8_text content) w))"
  define w2 where "w2 = put M (FILE (f_id meta')) (VFile f')
    (put M (FILE (f_id meta')) (VFile meta') (keep (fu_name request) (utf8_text content') w1))"
  have first: "storeFile M D S request content now rnd w = (Inr (Success meta), w1)"
    unfolding w1_def f_def meta_def by (rule store_canister [OF s name(2)])
  have name': "truthy (fu_name request')" using name by simp
  have second: "storeFile M D S request' content' now' rnd' w1 = (Inr (Success meta'), w2)"
    unfolding w2_def f'_def meta'_def name(1) [symmetric] by (rule store_canister [OF s' name'])
  have "\<exists>w3. getFileContentByStoredId M D V (f_id meta) later w2
      = (Inr (Success (utf8_text (utf8_text content'))), w3)"
    by (rule read_canister [OF V, of _ _ f])
      (use ids name(2) empty in \<open>simp_all add: w2_def w1_def f_def meta_def meta'_def temp_metadata_def
        new_metadata_def some_text_def\<close>)
  moreover have "f_user_principal_id meta = fu_user_principal_id request"
    by (simp add: meta_def temp_metadata_def new_metadata_def)
  ultimately show ?thesis using first second utf8_text_is_text [of content'] by (auto simp: is_text_def)
qed

text \<open>The canister is asked when the disk refuses.\<close>

lemma canister_answers_anyone:
  assumes "dual_in_use V = Some S" "sc_defaultStrategy (dm_config S) \<in> {dual, local_first}"
    and f: "file_named M w i = Some f" and u: "f_user_principal_id f \<noteq> u"
    and c: "held w (some_text (f_canister_file_key f) (f_name f)) = Some c"
  shows "\<exists>w'. getFileContent M D V i u now w = (Inr (Success c), w')"
proof -
  have "getFileContentLocalOnly M D i u now w = (Inr (Failure InvalidInput ''Unauthorized access to file''), w)"
    by (simp add: getFileContentLocalOnly_def act_simps with_own_file_refuses [OF f u])
  note run = retrieveLocalFirst_canister [OF this f c]
  show ?thesis
    by (intro exI) (simp only: getFileContent_def act_simps assms(1) option.case
      default_is_local_first [OF assms(2)] run sum.case prod.case)
qed

end

end
