(* ===== verification/RetryQueue.thy ===== *)
theory RetryQueue
  imports DualFacts
begin

text \<open>
  The passes over the retry queue of the dual storage. \<open>passed\<close> is what one pass
  may do to the queue, whatever the canister answers; \<open>processRetryQueue\<close>
  implements it, and a few more passes than the attempts allowed leave only the
  entries of files that have no record.
\<close>

section \<open>A pass, abstractly\<close>

text \<open>
  \<open>n\<close> is the limit of attempts, \<open>known\<close> the identifiers of the files that have
  a record.
\<close>

inductive passed ::
  "int \<Rightarrow> (string \<Rightarrow> bool) \<Rightarrow> (string, SyncOperation) jsmap \<Rightarrow> (string, SyncOperation) jsmap \<Rightarrow> bool"
  for n :: int and known :: "string \<Rightarrow> bool" where
  passed_empty: "passed n known [] []"
| passed_unknown: "passed n known q q' \<Longrightarrow> so_retryCount op < n \<Longrightarrow> \<not> known i \<Longrightarrow>
    passed n known ((i, op) # q) ((i, op) # q')"
| passed_removed: "passed n known q q' \<Longrightarrow> known i \<or> n \<le> so_retryCount op \<Longrightarrow>
    passed n known ((i, op) # q) q'"
| passed_counted: "passed n known q q' \<Longrightarrow> so_retryCount op < n \<Longrightarrow> known i \<Longrightarrow>
    so_retryCount op' = so_retryCount op + 1 \<Longrightarrow> passed n known ((i, op) # q) ((i, op') # q')"

text \<open>The entries that no pass removes or counts.\<close>

definition stuck :: "int \<Rightarrow> (string \<Rightarrow> bool) \<Rightarrow> string \<times> SyncOperation \<Rightarrow> bool" where
  "stuck n known e \<longleftrightarrow> \<not> known (fst e) \<and> so_retryCount (snd e) < n"

lemma passed_keeps_stuck: "passed n known q q' \<Longrightarrow> filter (stuck n known) q' = filter (stuck n known) q"
  by (induction rule: passed.induct) (auto simp: stuck_def)

text \<open>Every other entry that is left has been counted once more.\<close>

lemma passed_counts:
  "passed n known q q' \<Longrightarrow> \<forall>e\<in>set q. stuck n known e \<or> k \<le> so_retryCount (snd e) \<Longrightarrow>
     \<forall>e\<in>set q'. stuck n known e \<or> k + 1 \<le> so_retryCount (snd e) \<and> so_retryCount (snd e) \<le> n"
  by (induction rule: passed.induct) (auto simp: stuck_def)

lemma passed_keys: "passed n known q q' \<Longrightarrow> fst ` set q' \<subseteq> fst ` set q"
  by (induction rule: passed.induct) auto

lemma passed_jsmap: "passed n known q q' \<Longrightarrow> is_jsmap q \<Longrightarrow> is_jsmap q'"
  by (induction rule: passed.induct) (auto simp: is_jsmap_def dest: passed_keys)

fun passes :: "nat \<Rightarrow> int \<Rightarrow> (string \<Rightarrow> bool) \<Rightarrow> (string, SyncOperation) jsmap \<Rightarrow> (string, SyncOperation) jsmap \<Rightarrow> bool" where
  "passes 0 n known q q' \<longleftrightarrow> q' = q"
| "passes (Suc k) n known q q' \<longleftrightarrow> (\<exists>r. passed n known q r \<and> passes k n known r q')"

lemma passes_count:
  "passes k n known q q' \<Longrightarrow> \<forall>e\<in>set q. stuck n known e \<or> c \<le> so_retryCount (snd e) \<and> so_retryCount (snd e) \<le> n \<Longrightarrow>
     filter (stuck n known) q' = filter (stuck n known) q \<and>
     (\<forall>e\<in>set q'. stuck n known e \<or> c + int k \<le> so_retryCount (snd e) \<and> so_retryCount (snd e) \<le> n)"
proof (induction k arbitrary: q c)
  case (Suc k)
  then obtain r where r: "passed n known q r" "passes k n known r q'" by auto
  have "\<forall>e\<in>set r. stuck n known e \<or> c + 1 \<le> so_retryCount (snd e) \<and> so_retryCount (snd e) \<le> n"
    by (rule passed_counts [OF r(1)]) (use Suc.prems(2) in blast)
  from Suc.IH [OF r(2) this] show ?case using passed_keeps_stuck [OF r(1)] by auto
qed simp

text \<open>The remaining attempts bound the number of passes an entry can survive.\<close>

lemma passes_drain:
  assumes "passes k n known q q'" "n < int k" "0 \<le> n" and "\<forall>e\<in>set q. 0 \<le> so_retryCount (snd e)"
  shows "q' = filter (stuck n known) q"
proof -
  obtain j where k: "k = Suc j" using assms(2,3) by (cases k) auto
  obtain r where r: "passed n known q r" "passes j n known r q'" using assms(1) k by auto
  have "\<forall>e\<in>set r. stuck n known e \<or> 0 + 1 \<le> so_retryCount (snd e) \<and> so_retryCount (snd e) \<le> n"
    by (rule passed_counts [OF r(1)]) (use assms(4) in blast)
  from passes_count [OF r(2) this]
  have "filter (stuck n known) q' = filter (stuck n known) q" "\<forall>e\<in>set q'. stuck n known e"
    using passed_keeps_stuck [OF r(1)] k assms(2) by fastforce+
  then show ?thesis by (metis filter_True)
qed

section \<open>The code's pass\<close>

text \<open>
  What the passes stand on: a server that answers, and a canister whose calls,
  answered or rejected, leave the server and the manager alone.
\<close>

locale retrying = redis_up M for M :: "'w redis" +
  fixes S :: "'w dual"
  assumes store_strs: "strs M (snd (cn_store_file (dm_canister S) k c meta w)) = strs M w"
    and store_state: "dm_get S (snd (cn_store_file (dm_canister S) k c meta w)) = dm_get S w"
    and put_state: "dm_get S (dm_put S s w) = s"
    and put_strs: "strs M (dm_put S s w) = strs M w"
    and key_state: "dm_get S (put M k v w) = dm_get S w"
begin

lemma canStoreFile_quiet:
  obtains r w' where "canStoreFile (dm_canister S) content meta key w = (Inr r, w')"
    and "strs M w' = strs M w" and "dm_get S w' = dm_get S w"
proof -
  define k where "k = (case key of Some k \<Rightarrow> if truthy k then k else f_name meta | None \<Rightarrow> f_name meta)"
  obtain r w' where call: "cn_store_file (dm_canister S) k (utf8_text content) (can_metadata meta) w = (r, w')"
    by fastforce
  then have "strs M w' = strs M w" "dm_get S w' = dm_get S w"
    using store_strs [of k "utf8_text content" "can_metadata meta" w]
      store_state [of k "utf8_text content" "can_metadata meta" w] by simp_all
  then show ?thesis
    using that call by (cases r) (auto simp: canStoreFile_def act_simps Let_def k_def split: prod.splits)
qed

lemma file_named_same: "strs M w' = strs M w \<Longrightarrow> file_named M w' = file_named M w"
  by (rule ext) (simp add: file_named_def)

lemma typed_named:
  "files_typed M w \<Longrightarrow> strs M w (FILE i) = map_option VFile (file_named M w i)"
  "files_typed M w \<Longrightarrow> file_named M w i = Some f \<Longrightarrow> f_id f = i"
  by (cases "strs M w (FILE i)", force simp: files_typed_def file_named_def, force simp: files_typed_def file_named_def)
    (cases "strs M w (FILE i)", force simp: files_typed_def file_named_def, force simp: files_typed_def file_named_def)

text \<open>What an entry of the queue does to the queue, and that no file record appears or goes.\<close>

definition known_in :: "'w \<Rightarrow> string \<Rightarrow> bool" where
  "known_in w i \<longleftrightarrow> file_named M w i \<noteq> None"

lemma updateSyncStatus_up:
  assumes "files_typed M w"
  shows "\<exists>w'. updateSyncStatus M i status now w = (Inr (), w') \<and> files_typed M w' \<and> known_in w' = known_in w
    \<and> dm_get S w' = dm_get S w"
proof (cases "file_named M w i")
  case None
  then show ?thesis
    using assms typed_named(1) [OF assms]
    by (simp add: updateSyncStatus_def change_metadata_def getFileMetadata_def act_simps)
next
  case (Some f)
  then have "f_id f = i" by (rule typed_named(2) [OF assms])
  then show ?thesis
    using assms Some unfolding updateSyncStatus_def
    by (simp add: change_metadata_up key_state files_typed_def strs_laws known_in_def fun_eq_iff)
qed

text \<open>One entry, in the middle of the queue.\<close>

lemma retry_one_up:
  assumes "files_typed M w" and q: "du_syncQueue (dm_get S w) = pre @ (i, op) # post"
    and keys: "is_jsmap (pre @ (i, op) # post)"
  shows "\<exists>w' r. retry_one M S now (i, op) w = (Inr (), w') \<and> files_typed M w' \<and> known_in w' = known_in w
    \<and> du_syncQueue (dm_get S w') = pre @ r @ post
    \<and> (\<forall>q q'. passed n (known_in w) q q' \<longrightarrow> n = sc_syncRetryAttempts (dm_config S) \<longrightarrow>
         passed n (known_in w) ((i, op) # q) (r @ q'))"
proof -
  let ?n = "sc_syncRetryAttempts (dm_config S)"
  have pre: "i \<notin> fst ` set pre" "i \<notin> fst ` set post" using keys by (auto simp: is_jsmap_def)
  have delete: "map_delete i (pre @ (i, op) # post) = pre @ post"
    using pre by (induction pre) (auto simp: AList.delete_id)
  have set_it: "map_set i op' (pre @ (i, op) # post) = pre @ (i, op') # post" for op'
    using pre by (induction pre) auto
  have found: "map_of (pre @ (i, op) # post) i = Some op"
    using pre by (auto simp: map_add_Some_iff map_of_eq_None_iff)
  show ?thesis
  proof (cases "so_retryCount op < ?n")
    case False
    define w1 where "w1 = dm_put S ((dm_get S w)\<lparr>du_syncQueue := pre @ post\<rparr>) w"
    have w1: "files_typed M w1" "known_in w1 = known_in w" "dm_get S w1 = (dm_get S w)\<lparr>du_syncQueue := pre @ post\<rparr>"
      using assms(1) by (simp_all add: w1_def files_typed_def known_in_def file_named_def put_strs put_state fun_eq_iff)
    obtain w2 where "updateSyncStatus M i SYNC_FAILED_PERMANENTLY now w1 = (Inr (), w2)" "files_typed M w2"
      "known_in w2 = known_in w1" "dm_get S w2 = dm_get S w1"
      using updateSyncStatus_up [OF w1(1), of i SYNC_FAILED_PERMANENTLY now] by blast
    then show ?thesis
      using False w1 q delete
      by (intro exI [of _ w2] exI [of _ "[]"]) (auto simp: retry_one_def act_simps set_queue_def w1_def
        intro: passed_removed)
  next
    case True
    show ?thesis
    proof (cases "file_named M w i")
      case None
      then show ?thesis
        using True assms(1) q
        by (intro exI [of _ w] exI [of _ "[(i, op)]"]) (auto simp: retry_one_def act_simps getFile_up known_in_def
          intro: passed_unknown)
    next
      case (Some f)
      obtain r w1 where store: "canStoreFile (dm_canister S) (so_content op) f None w = (Inr r, w1)"
        and w1: "strs M w1 = strs M w" "dm_get S w1 = dm_get S w"
        by (rule canStoreFile_quiet)
      show ?thesis
      proof (cases r)
        case (Success k)
        define w2 where "w2 = dm_put S ((dm_get S w)\<lparr>du_syncQueue := pre @ post\<rparr>) w1"
        have w2: "files_typed M w2" "known_in w2 = known_in w" "dm_get S w2 = (dm_get S w)\<lparr>du_syncQueue := pre @ post\<rparr>"
          using assms(1) w1
          by (simp_all add: w2_def files_typed_def known_in_def file_named_def put_strs put_state fun_eq_iff)
        obtain w3 where "updateSyncStatus M i SYNCED now w2 = (Inr (), w3)" "files_typed M w3"
          "known_in w3 = known_in w2" "dm_get S w3 = dm_get S w2"
          using updateSyncStatus_up [OF w2(1), of i SYNCED now] by blast
        then show ?thesis
          using True Some store Success w1 w2 q delete
          by (intro exI [of _ w3] exI [of _ "[]"]) (auto simp: retry_one_def act_simps getFile_up set_queue_def
            w2_def known_in_def intro: passed_removed)
      next
        case (Failure k m)
        define op' where "op' = op\<lparr>so_retryCount := so_retryCount op + 1, so_lastRetry := now\<rparr>"
        define w2 where "w2 = dm_put S ((dm_get S w)\<lparr>du_syncQueue := pre @ (i, op') # post\<rparr>) w1"
        have w2: "files_typed M w2" "known_in w2 = known_in w" "du_syncQueue (dm_get S w2) = pre @ [(i, op')] @ post"
          using assms(1) w1
          by (simp_all add: w2_def files_typed_def known_in_def file_named_def put_strs put_state fun_eq_iff)
        have "retry_one M S now (i, op) w = (Inr (), w2)"
          using True Some store Failure w1 q set_it found
          by (simp add: retry_one_def act_simps getFile_up count_retry_def set_queue_def w2_def op'_def del: map_of_append)
        moreover have "passed n (known_in w) ((i, op) # q) ([(i, op')] @ q')"
          if "passed n (known_in w) q q'" "n = ?n" for q q'
          using that True Some by (auto simp: op'_def known_in_def intro!: passed_counted)
        ultimately show ?thesis using w2 by blast
      qed
    qed
  qed
qed

text \<open>The pass works on the entries as they are when it starts.\<close>

lemma retry_fold:
  assumes "files_typed M w" "du_syncQueue (dm_get S w) = pre @ q" "is_jsmap (pre @ q)"
  shows "\<exists>w' q'. foldA (\<lambda>_. retry_one M S now) () q w = (Inr (), w') \<and> files_typed M w' \<and> known_in w' = known_in w
    \<and> du_syncQueue (dm_get S w') = pre @ q' \<and> passed (sc_syncRetryAttempts (dm_config S)) (known_in w) q q'"
  using assms
proof (induction q arbitrary: pre w)
  case Nil
  then show ?case by (auto simp: act_simps intro: passed_empty)
next
  case (Cons e q)
  obtain i op where e: "e = (i, op)" by fastforce
  obtain w1 r where one: "retry_one M S now (i, op) w = (Inr (), w1)" "files_typed M w1" "known_in w1 = known_in w"
    "du_syncQueue (dm_get S w1) = (pre @ r) @ q"
    and r: "\<And>q q'. passed (sc_syncRetryAttempts (dm_config S)) (known_in w) q q' \<Longrightarrow>
      passed (sc_syncRetryAttempts (dm_config S)) (known_in w) ((i, op) # q) (r @ q')"
    using retry_one_up [OF Cons.prems(1), of pre i op q now "sc_syncRetryAttempts (dm_config S)"] Cons.prems(2,3) e
    by auto
  have "fst ` set r \<subseteq> {i}" using passed_keys [OF r [OF passed_empty]] by simp
  moreover have "is_jsmap r" using passed_jsmap [OF r [OF passed_empty]] by (simp add: is_jsmap_def)
  ultimately have "is_jsmap ((pre @ r) @ q)" using Cons.prems(3) e by (auto simp: is_jsmap_def)
  from Cons.IH [OF one(2,4) this] obtain w2 q' where
    "foldA (\<lambda>_. retry_one M S now) () q w1 = (Inr (), w2)" "files_typed M w2" "known_in w2 = known_in w1"
    "du_syncQueue (dm_get S w2) = (pre @ r) @ q'"
    "passed (sc_syncRetryAttempts (dm_config S)) (known_in w1) q q'" by blast
  then show ?case
    using one r by (intro exI [of _ w2] exI [of _ "r @ q'"]) (simp add: e act_simps)
qed

lemma processRetryQueue_passes:
  assumes "files_typed M w" "is_jsmap (du_syncQueue (dm_get S w))"
  shows "\<exists>w'. processRetryQueue M S now w = (Inr (), w') \<and> files_typed M w' \<and> known_in w' = known_in w
    \<and> is_jsmap (du_syncQueue (dm_get S w'))
    \<and> passed (sc_syncRetryAttempts (dm_config S)) (known_in w) (du_syncQueue (dm_get S w)) (du_syncQueue (dm_get S w'))"
  using retry_fold [OF assms(1), of "[]" "du_syncQueue (dm_get S w)" now] assms(2)
  by (auto simp: processRetryQueue_def intro: passed_jsmap)

lemma all_passes:
  assumes "files_typed M w" "is_jsmap (du_syncQueue (dm_get S w))"
  shows "\<exists>w'. foldA (\<lambda>_. processRetryQueue M S) () nows w = (Inr (), w') \<and> files_typed M w'
    \<and> known_in w' = known_in w
    \<and> passes (length nows) (sc_syncRetryAttempts (dm_config S)) (known_in w)
        (du_syncQueue (dm_get S w)) (du_syncQueue (dm_get S w'))"
  using assms
proof (induction nows arbitrary: w)
  case (Cons now nows)
  obtain w1 where one: "processRetryQueue M S now w = (Inr (), w1)" "files_typed M w1" "known_in w1 = known_in w"
    "is_jsmap (du_syncQueue (dm_get S w1))"
    "passed (sc_syncRetryAttempts (dm_config S)) (known_in w) (du_syncQueue (dm_get S w)) (du_syncQueue (dm_get S w1))"
    using processRetryQueue_passes [OF Cons.prems, of now] by blast
  from Cons.IH [OF one(2,4)] obtain w2 where
    "foldA (\<lambda>_. processRetryQueue M S) () nows w1 = (Inr (), w2)" "files_typed M w2" "known_in w2 = known_in w1"
    "passes (length nows) (sc_syncRetryAttempts (dm_config S)) (known_in w1)
      (du_syncQueue (dm_get S w1)) (du_syncQueue (dm_get S w2))" by blast
  then show ?case using one by (intro exI [of _ w2]) (auto simp: act_simps)
qed (simp add: act_simps)

lemma retries_drain:
  assumes "files_typed M w" "is_jsmap (du_syncQueue (dm_get S w))"
    and "\<forall>e\<in>set (du_syncQueue (dm_get S w)). 0 \<le> so_retryCount (snd e)"
    and "0 \<le> sc_syncRetryAttempts (dm_config S)" "sc_syncRetryAttempts (dm_config S) < int (length nows)"
  shows "\<exists>w'. foldA (\<lambda>_. processRetryQueue M S) () nows w = (Inr (), w')
    \<and> du_syncQueue (dm_get S w') = filter (\<lambda>(i, op). file_named M w i = None
        \<and> so_retryCount op < sc_syncRetryAttempts (dm_config S)) (du_syncQueue (dm_get S w))"
proof -
  obtain w' where run: "foldA (\<lambda>_. processRetryQueue M S) () nows w = (Inr (), w')"
    "passes (length nows) (sc_syncRetryAttempts (dm_config S)) (known_in w)
        (du_syncQueue (dm_get S w)) (du_syncQueue (dm_get S w'))"
    using all_passes [OF assms(1,2)] by blast
  have "stuck (sc_syncRetryAttempts (dm_config S)) (known_in w) = (\<lambda>(i, op). file_named M w i = None
      \<and> so_retryCount op < sc_syncRetryAttempts (dm_config S))"
    by (rule ext) (auto simp: stuck_def known_in_def)
  then show ?thesis using run passes_drain [OF run(2) assms(5,4,3)] by (intro exI [of _ w']) simp
qed

end

section \<open>The canisters\<close>

sublocale vault \<subseteq> retrying
  by unfold_locales (simp_all add: can_store)

text \<open>Both the canister in memory and the one that rejects every call.\<close>

interpretation kept: retrying vault_redis "vault_dual memory_canister config base" for config base
  by (rule boxed.retrying_axioms)

interpretation rejected: retrying vault_redis "vault_dual closed_canister config base" for config base
  unfolding vault_redis_def
  by (intro retrying.intro retrying_axioms.intro box.lift_up)
    (simp_all add: vault_dual_def closed_canister_def lift_redis_def act_simps)

lemma rejected_is_retrying: "retrying vault_redis (vault_dual closed_canister config base)"
  by (rule rejected.retrying_axioms)

end
