(* ===== verification/FileProperties.thy ===== *)
theory FileProperties
  imports FileTyping
begin

text \<open>The properties of the file service on one disk.\<close>

text \<open>C20: An upload in chunks is a round trip. A file is created, its chunks arrive in any
  order, some of them more than once, and the upload is completed: the content read back is the
  concatenation of the latest data of every chunk in the order of the chunk numbers, the stored
  digest is that of the content, the file is in both indexes, and no other file of the disk is
  different from before, so no chunk is left.\<close>

theorem upload_roundtrip:
  fixes request :: FileUploadRequest and base :: string and now rnd :: int
    and chunks :: "(int \<times> string) list"
  assumes "storage M D"
    and "plain (fu_user_principal_id request)" "plain (fu_job_id request)" "plain (fu_name request)"
    and "upload_ready (d_get D w) (path_join [base, fu_user_principal_id request, fu_job_id request])
      (generateFileId now rnd) (fu_name request)"
  shows "\<exists>meta w1 w2 w3 f. createFile M D base request now rnd w = (Inr (Success meta), w1)
    \<and> send_chunks M D (f_id meta) (fu_user_principal_id request) chunks w1 = (Inr (), w2)
    \<and> completeFileUpload M D sha256 (f_id meta) (fu_user_principal_id request) later w2 = (Inr (Success ()), w3)
    \<and> getFileContentLocalOnly M D (f_id meta) (fu_user_principal_id request) later w3
        = (Inr (Success (uploaded_content chunks)), w3)
    \<and> file_named M w3 (f_id meta) = Some f \<and> f_hash f = Some (sha256 (uploaded_content chunks))
    \<and> f_id meta \<in> set (mems M w3 (FILES_BY_USER (fu_user_principal_id request)))
    \<and> f_id meta \<in> set (mems M w3 (FILES_BY_JOB (fu_job_id request)))
    \<and> (\<forall>q. q \<noteq> f_file_path f \<longrightarrow> file_at (d_get D w3) q = file_at (d_get D w) q)"
proof -
  obtain meta w1 w2 w3 f where run: "createFile M D base request now rnd w = (Inr (Success meta), w1)"
    and rest: "send_chunks M D (generateFileId now rnd) (fu_user_principal_id request) chunks w1 = (Inr (), w2)"
      "completeFileUpload M D sha256 (generateFileId now rnd) (fu_user_principal_id request) later w2
        = (Inr (Success ()), w3)"
      "getFileContentLocalOnly M D (generateFileId now rnd) (fu_user_principal_id request) later w3
        = (Inr (Success (uploaded_content chunks)), w3)"
      "file_named M w3 (generateFileId now rnd) = Some f" "f_hash f = Some (sha256 (uploaded_content chunks))"
      "f_file_path f = inside (path_join [base, fu_user_principal_id request, fu_job_id request]) (fu_name request)"
      "generateFileId now rnd \<in> set (mems M w3 (FILES_BY_USER (fu_user_principal_id request)))"
      "generateFileId now rnd \<in> set (mems M w3 (FILES_BY_JOB (fu_job_id request)))"
      "\<forall>q. q \<noteq> inside (path_join [base, fu_user_principal_id request, fu_job_id request]) (fu_name request)
        \<longrightarrow> file_at (d_get D w3) q = file_at (d_get D w) q"
    using storage.upload_up [OF assms(1-4) assms(5)] by blast
  have "f_id meta = generateFileId now rnd"
    using created_file [OF run] by (simp add: new_metadata_def)
  then show ?thesis using run rest by auto
qed

definition demo_request :: FileUploadRequest where
  "demo_request = \<lparr>fu_name = ''a.txt'', fu_content_type = ''text/plain'', fu_size = 2,
     fu_user_principal_id = ''u'', fu_job_id = ''j''\<rparr>"

lemma demo_ready: "plain (fu_user_principal_id demo_request)" "plain (fu_job_id demo_request)"
    "plain (fu_name demo_request)"
    "upload_ready (d_get box_disk box0) (path_join [''data'', fu_user_principal_id demo_request,
      fu_job_id demo_request]) (generateFileId 7 1) (fu_name demo_request)"
proof -
  show "plain (fu_user_principal_id demo_request)" "plain (fu_job_id demo_request)"
    "plain (fu_name demo_request)"
    by (simp_all add: plain_def demo_request_def slash_def)
  have "\<not> prefix (chunk_prefix (generateFileId 7 1)) (fu_name demo_request)" by code_simp
  then show "upload_ready (d_get box_disk box0) (path_join [''data'', fu_user_principal_id demo_request,
      fu_job_id demo_request]) (generateFileId 7 1) (fu_name demo_request)"
    by (simp add: upload_ready_def box_disk_def box0_def entry_at_def file_at_def del: file_at_changes)
qed

theorem upload_roundtrip_witness:
  "\<exists>meta w1 w2 w3. createFile box_redis box_disk ''data'' demo_request 7 1 box0 = (Inr (Success meta), w1)
    \<and> send_chunks box_redis box_disk (f_id meta) ''u'' [(1, ''b''), (0, ''a''), (1, ''c'')] w1 = (Inr (), w2)
    \<and> completeFileUpload box_redis box_disk rev (f_id meta) ''u'' 9 w2 = (Inr (Success ()), w3)
    \<and> getFileContentLocalOnly box_redis box_disk (f_id meta) ''u'' 9 w3 = (Inr (Success ''ac''), w3)"
proof -
  have "uploaded_content [(1, ''b''), (0, ''a''), (1, ''c'')] = ''ac''" by code_simp
  moreover have "fu_user_principal_id demo_request = ''u''" by (simp add: demo_request_def)
  ultimately show ?thesis
    using upload_roundtrip [OF box_is_storage demo_ready, of "[(1, ''b''), (0, ''a''), (1, ''c'')]" rev 9]
    by auto
qed






end
