(* ===== verification/DualProperties.thy ===== *)
theory DualProperties
  imports RetryQueue FileProperties
begin

text \<open>
  The properties of the file service with the dual storage in use: what is
  stored can be read back, what the canister does with names and owners, and
  the end of the retries.
\<close>

section \<open>The round trip\<close>

text \<open>C23: With the dual storage in use and a canister that answers, a file stored and read back by its
  identifier is its content as UTF-8 text, whatever strategy its size and type give it, local,
  canister or both, and whatever is read after the tasks the request started have run.\<close>

theorem store_then_read:
  assumes "vault M D S held keep"
    and "dual_in_use V = Some S" "sc_defaultStrategy (dm_config S) \<in> {dual, local_first}"
    and "room_for (d_get D w) (dm_base S) request"
    and "du_started (dm_get S w) = []" "file_at (d_get D w) [] = None"
  shows "\<exists>meta w1 w2 w3. storeFile M D S request content now rnd w = (Inr (Success meta), w1)
    \<and> run_started M D S later w1 = (Inr (), w2)
    \<and> getFileContentByStoredId M D V (f_id meta) later w2 = (Inr (Success (utf8_text content)), w3)"
  by (rule vault.store_then_read_up [OF assms])

definition demo_service :: "CanStorageConfig \<Rightarrow> box vaulted FileService" where
  "demo_service config = \<lparr>fv_baseDataPath = ''data'', fv_useDualStorage = True,
     fv_dualStorageManager = Some (vault_dual memory_canister config ''data'')\<rparr>"

abbreviation demo_dual :: "CanStorageConfig \<Rightarrow> box vaulted dual" where
  "demo_dual config \<equiv> vault_dual memory_canister config ''data''"

lemma demo_service_dual: "dual_in_use (demo_service config) = Some (demo_dual config)"
  by (simp add: dual_in_use_def demo_service_def)

lemma demo_config: "dm_config (demo_dual config) = config" "dm_base (demo_dual config) = ''data''"
  by (simp_all add: vault_dual_def)

lemma vault0_facts: "d_get vault_disk vault0 = \<lparr>fs_files = [], fs_dirs = []\<rparr>"
    "du_started (dm_get (demo_dual config) vault0) = []" "file_at (d_get vault_disk vault0) p = None"
  by (simp_all add: vault_disk_def vault0_def vault_dual_def lift_disk_def box_disk_def box0_def file_at_def
    del: file_at_changes)

lemma demo_room: "room_for (d_get vault_disk vault0) (dm_base (demo_dual config)) demo_request"
  using demo_ready(1-3) by (simp add: room_for_def vault0_facts(1) Let_def file_at_def del: file_at_changes)

theorem store_then_read_witness:
  "\<exists>meta w1 w2 w3. storeFile vault_redis vault_disk (demo_dual (DEFAULT_CAN_STORAGE_CONFIG True ''c'')) demo_request
        ''hi'' 7 1 vault0 = (Inr (Success meta), w1)
    \<and> run_started vault_redis vault_disk (demo_dual (DEFAULT_CAN_STORAGE_CONFIG True ''c'')) 8 w1 = (Inr (), w2)
    \<and> getFileContentByStoredId vault_redis vault_disk (demo_service (DEFAULT_CAN_STORAGE_CONFIG True ''c''))
        (f_id meta) 8 w2 = (Inr (Success (utf8_text ''hi'')), w3)"
  by (rule store_then_read [OF vault_is_vault demo_service_dual _ demo_room vault0_facts(2,3)])
    (simp add: demo_config DEFAULT_CAN_STORAGE_CONFIG_def)

section \<open>Names and owners\<close>

text \<open>The canister keeps files under their names alone. When two requests with one name, of
  whatever users and jobs, go to the canister, both succeed, and the first file now reads as the
  content of the second.\<close>

theorem same_name_overwrites:
  assumes "vault M D S held keep"
    and "dual_in_use V = Some S" "sc_defaultStrategy (dm_config S) \<in> {dual, local_first}"
    and "determineStorageStrategy (dm_config S) request content = STORE_CANISTER"
    and "determineStorageStrategy (dm_config S) request' content' = STORE_CANISTER"
    and "fu_name request' = fu_name request" "truthy (fu_name request)"
    and "generateFileId now' rnd' \<noteq> generateFileId now rnd" "file_at (d_get D w) [] = None"
  shows "\<exists>meta w1 meta' w2 w3. storeFile M D S request content now rnd w = (Inr (Success meta), w1)
    \<and> storeFile M D S request' content' now' rnd' w1 = (Inr (Success meta'), w2)
    \<and> f_user_principal_id meta = fu_user_principal_id request
    \<and> getFileContentByStoredId M D V (f_id meta) later w2 = (Inr (Success (utf8_text content')), w3)"
  by (rule vault.same_name_up [OF assms])

definition canister_config :: CanStorageConfig where
  "canister_config = (DEFAULT_CAN_STORAGE_CONFIG True ''c'')\<lparr>sc_smallFileThreshold := 0, sc_largeFileThreshold := 1\<rparr>"

lemma canister_config_facts: "sc_defaultStrategy (dm_config (demo_dual canister_config)) \<in> {dual, local_first}"
    "fu_name r = ''a.txt'' \<Longrightarrow> fu_content_type r = ''text/plain'' \<Longrightarrow> 1 < length content \<Longrightarrow>
      determineStorageStrategy (dm_config (demo_dual canister_config)) r content = STORE_CANISTER"
  by (simp_all add: demo_config canister_config_def DEFAULT_CAN_STORAGE_CONFIG_def determineStorageStrategy_def
    isCriticalFile_def suffix_def Let_def)

theorem same_name_overwrites_witness:
  "\<exists>meta w1 meta' w2 w3.
      storeFile vault_redis vault_disk (demo_dual canister_config) demo_request ''one'' 7 1 vault0
        = (Inr (Success meta), w1)
    \<and> storeFile vault_redis vault_disk (demo_dual canister_config) (demo_request\<lparr>fu_user_principal_id := ''v''\<rparr>)
        ''two'' 8 1 w1 = (Inr (Success meta'), w2)
    \<and> f_user_principal_id meta = fu_user_principal_id demo_request
    \<and> getFileContentByStoredId vault_redis vault_disk (demo_service canister_config) (f_id meta) 9 w2
        = (Inr (Success (utf8_text ''two'')), w3)"
proof (rule same_name_overwrites [OF vault_is_vault demo_service_dual canister_config_facts(1)])
  show "generateFileId 8 1 \<noteq> generateFileId 7 1" by code_simp
qed (simp_all add: canister_config_facts(2) demo_request_def truthy_def vault0_facts(3))

text \<open>The check of the owner does not protect a file the canister holds. Without the dual
  storage a user who does not own a file is refused its content; with it the same call answers
  the canister's content to any user.\<close>

theorem canister_ignores_owner:
  assumes "vault M D S held keep"
    and "dual_in_use V = Some S" "sc_defaultStrategy (dm_config S) \<in> {dual, local_first}"
    and "dual_in_use V' = None"
    and "file_named M w i = Some f" and "f_user_principal_id f \<noteq> u"
    and "held w (some_text (f_canister_file_key f) (f_name f)) = Some c"
  shows "getFileContent M D V' i u now w = (Inr (Failure InvalidInput ''Unauthorized access to file''), w)
    \<and> (\<exists>w'. getFileContent M D V i u now w = (Inr (Success c), w'))"
proof -
  have "redis_up M" using assms(1) by (simp add: vault_def storage_def)
  note refused = redis_up.with_own_file_refuses [OF this assms(5,6)]
  have "getFileContent M D V' i u now w = (Inr (Failure InvalidInput ''Unauthorized access to file''), w)"
    by (simp add: getFileContent_def getFileContentLocalOnly_def act_simps assms(4) refused)
  then show ?thesis using vault.canister_answers_anyone [OF assms(1-3,5-7)] by blast
qed

definition demo_file :: FileMetadata where
  "demo_file = new_metadata demo_request ''f'' ''data/u/j/a.txt'' 7"

definition demo_world :: "box vaulted" where
  "demo_world = vault_keep ''a.txt'' ''secret'' (put vault_redis (FILE ''f'') (VFile demo_file) vault0)"

theorem canister_ignores_owner_witness:
  "getFileContent vault_redis vault_disk
      \<lparr>fv_baseDataPath = ''data'', fv_useDualStorage = False, fv_dualStorageManager = None\<rparr> ''f'' ''v'' 9 demo_world
      = (Inr (Failure InvalidInput ''Unauthorized access to file''), demo_world)
    \<and> (\<exists>w'. getFileContent vault_redis vault_disk (demo_service canister_config) ''f'' ''v'' 9 demo_world
      = (Inr (Success ''secret''), w'))"
proof (rule canister_ignores_owner [OF vault_is_vault demo_service_dual canister_config_facts(1)])
  show "file_named vault_redis demo_world ''f'' = Some demo_file"
    unfolding demo_world_def by simp
  show "f_user_principal_id demo_file \<noteq> ''v''"
    by (simp add: demo_file_def new_metadata_def demo_request_def)
  show "vault_held demo_world (some_text (f_canister_file_key demo_file) (f_name demo_file)) = Some ''secret''"
    unfolding demo_world_def
    by (simp add: some_text_def demo_file_def new_metadata_def demo_request_def)
qed (simp add: dual_in_use_def)

section \<open>The end of the retries\<close>

text \<open>C24: The retries end. Whatever the canister answers, after more passes than the attempts
  allowed the retry queue holds only the entries of files without a record, which no pass counts
  or removes; every pass comes to its end.\<close>

theorem retry_queue_drains:
  assumes "retrying M S" and "files_typed M w" "is_jsmap (du_syncQueue (dm_get S w))"
    and "\<forall>e\<in>set (du_syncQueue (dm_get S w)). 0 \<le> so_retryCount (snd e)"
    and "0 \<le> sc_syncRetryAttempts (dm_config S)" "sc_syncRetryAttempts (dm_config S) < int (length nows)"
  shows "\<exists>w'. foldA (\<lambda>_. processRetryQueue M S) () nows w = (Inr (), w')
    \<and> du_syncQueue (dm_get S w') = filter (\<lambda>(i, op). file_named M w i = None
        \<and> so_retryCount op < sc_syncRetryAttempts (dm_config S)) (du_syncQueue (dm_get S w))"
  by (rule retrying.retries_drain [OF assms])

definition waiting_op :: "string \<Rightarrow> SyncOperation" where
  "waiting_op i = \<lparr>so_fileId = i, so_content = ''x'', so_retryCount = 0, so_lastRetry = 1\<rparr>"

definition retry_world :: "box vaulted" where
  "retry_world = dm_put (demo_dual canister_config)
     \<lparr>du_syncQueue = [(''f'', waiting_op ''f''), (''gone'', waiting_op ''gone'')], du_started = []\<rparr>
     (put vault_redis (FILE ''f'') (VFile (demo_file\<lparr>f_id := ''f''\<rparr>)) vault0)"

theorem retry_queue_drains_witness:
  "\<exists>w'. foldA (\<lambda>_. processRetryQueue vault_redis (vault_dual closed_canister canister_config ''data'')) ()
      [1, 2, 3, 4] retry_world = (Inr (), w')
    \<and> du_syncQueue (dm_get (vault_dual closed_canister canister_config ''data'') w') = [(''gone'', waiting_op ''gone'')]"
proof -
  let ?S = "vault_dual closed_canister canister_config ''data'' :: box vaulted dual"
  have q: "du_syncQueue (dm_get ?S retry_world) = [(''f'', waiting_op ''f''), (''gone'', waiting_op ''gone'')]"
    by (simp add: vault_dual_def retry_world_def)
  have n: "sc_syncRetryAttempts (dm_config ?S) = 3"
    by (simp add: vault_dual_def canister_config_def DEFAULT_CAN_STORAGE_CONFIG_def)
  have strs: "strs vault_redis retry_world k
      = (if k = FILE ''f'' then Some (VFile (demo_file\<lparr>f_id := ''f''\<rparr>)) else None)" for k
    by (simp add: retry_world_def vault0_def box0_def vault_dual_def vault_redis_def lift_redis_def box_redis_def
      mem_redis_def mem0_def)
  have named: "file_named vault_redis retry_world i = (if i = ''f'' then Some (demo_file\<lparr>f_id := ''f''\<rparr>) else None)"
    for i by (simp add: file_named_def strs)
  have "files_typed vault_redis retry_world" by (simp add: files_typed_def strs)
  from retry_queue_drains [OF rejected_is_retrying this, of canister_config "''data''" "[1, 2, 3, 4]"]
  show ?thesis by (simp add: q n named is_jsmap_def waiting_op_def)
qed

end
