(* ===== verification/Marketplace.thy ===== *)
theory Marketplace
  imports FileService Database
begin

text \<open>
  The class \<open>MarketplaceService\<close> (\<open>src/services/marketplace_service.ts\<close>): the
  listing of completed jobs, the details and previews of their files, with a
  cache, downloads, statistics and purchases. \<open>JSON.parse\<close> and the text of a
  number that is not an integer are arguments, as in the services it uses.
\<close>

section \<open>Text\<close>

text \<open>
  \<open>s.length\<close> and \<open>s.substring(0, n)\<close> count UTF-16 units; a text of the model is
  its UTF-8 bytes. Half of a surrogate pair leaves the server as U+FFFD.
\<close>

definition units :: "char \<Rightarrow> nat" where
  "units c = (let b = (of_char c :: nat) in
     if 0x80 \<le> b \<and> b < 0xC0 then 0 else if 0xF0 \<le> b then 2 else 1)"

definition js_length :: "string \<Rightarrow> nat" where
  "js_length s = sum_list (map units s)"

fun js_take :: "nat \<Rightarrow> string \<Rightarrow> string" where
  "js_take n [] = []"
| "js_take n (c # cs) = (if units c \<le> n then c # js_take (n - units c) cs
     else if n = 1 then replacement else [])"

fun has_text :: "string \<Rightarrow> string \<Rightarrow> bool" where
  "has_text sub [] = (sub = [])"
| "has_text sub (c # cs) = (prefix sub (c # cs) \<or> has_text sub cs)"

definition ellipsis :: string where "ellipsis = ''...''"

text \<open>\<open>content.length > n ? content.substring(0, n) + tail : content\<close>\<close>

definition shorten :: "nat \<Rightarrow> string \<Rightarrow> string \<Rightarrow> string" where
  "shorten n tail s = (if n < js_length s then js_take n s @ tail else s)"

definition first_lines :: "nat \<Rightarrow> string \<Rightarrow> string list" where
  "first_lines n s = take n (split_on newline s)"

definition lines_text :: "string list \<Rightarrow> string" where
  "lines_text ls = join_with [newline] ls"

section \<open>The listing\<close>

record MarketplaceJob =
  mj_job_id :: string
  mj_job_type :: string
  mj_target :: string
  mj_job_views :: int
  mj_job_downloads :: int
  mj_completeAt :: int

definition marketplace_job :: "JobStruct \<Rightarrow> MarketplaceJob" where
  "marketplace_job job = \<lparr>mj_job_id = j_jobID job, mj_job_type = j_jobType job, mj_target = j_target job,
     mj_job_views = or_num (j_job_views job) 0, mj_job_downloads = or_num (j_job_downloads job) 0,
     mj_completeAt = j_completeAt job\<rparr>"

definition matchesSearch :: "string \<Rightarrow> MarketplaceJob \<Rightarrow> bool" where
  "matchesSearch search j = (\<not> truthy search \<or> (let searchLower = to_lower search in
     has_text searchLower (to_lower (mj_job_id j)) \<or> has_text searchLower (to_lower (mj_job_type j))
     \<or> has_text searchLower (to_lower (mj_target j))))"

datatype SortDirection = asc | desc

definition sort_jobs :: "SortDirection \<Rightarrow> MarketplaceJob list \<Rightarrow> MarketplaceJob list" where
  "sort_jobs d js = (case d of asc \<Rightarrow> sort_asc mj_completeAt js | desc \<Rightarrow> sort_desc mj_completeAt js)"

definition list_job ::
  "'w redis \<Rightarrow> string \<Rightarrow> MarketplaceJob list \<Rightarrow> string \<Rightarrow> ('w, MarketplaceJob list) act" where
  "list_job M search acc jobId = bindA (getJob M jobId) (\<lambda>jobResult. returnA
     (case jobResult of
        Failure _ _ \<Rightarrow> acc
      | Success job \<Rightarrow> if matchesSearch search (marketplace_job job)
          then acc @ [marketplace_job job] else acc))"

definition getCompletedJobs ::
  "'w redis \<Rightarrow> int \<Rightarrow> int \<Rightarrow> string \<Rightarrow> SortDirection \<Rightarrow>
   ('w, (MarketplaceJob list \<times> int) EntityResult) act" where
  "getCompletedJobs M limit offset search sortDirection = catchA
     (bindA (SMEMBERS M (JOBS_BY_STATE (job_state COMPLETED))) (\<lambda>completedJobIds.
      if completedJobIds = [] then returnA (Success ([], 0)) else
      bindA (foldA (list_job M search) [] completedJobIds) (\<lambda>marketplaceJobs.
        let sorted_jobs = sort_jobs sortDirection marketplaceJobs
        in returnA (Success (js_slice offset (offset + limit) sorted_jobs, int (length marketplaceJobs))))))
     (\<lambda>e. returnA (Failure DatabaseFault (''Failed to get completed jobs: '' @ e)))"

section \<open>Previews\<close>

definition generateFilePreview ::
  "(string \<Rightarrow> json option) \<Rightarrow> (rat \<Rightarrow> string) \<Rightarrow> string \<Rightarrow> string \<Rightarrow> string" where
  "generateFilePreview parse num content contentType =
     (case (if has_text ''json'' contentType then parse content else None) of
        Some parsed \<Rightarrow> (let ls = first_lines 5 (json_text num parsed) in
          lines_text ls @ (if 5 \<le> length ls then newline # ellipsis else []))
      | None \<Rightarrow>
          if has_text ''text'' contentType \<or> has_text ''html'' contentType \<or> has_text ''xml'' contentType
          then shorten 500 ellipsis (lines_text (first_lines 5 content))
          else shorten 500 ellipsis content)"

text \<open>The array members of an object that are not empty, and the first largest of them.\<close>

definition arrayProperties :: "(string \<times> json) list \<Rightarrow> json list list" where
  "arrayProperties kvs = somes (map (\<lambda>kv. case snd kv of
     JArr (x # xs) \<Rightarrow> Some (x # xs) | _ \<Rightarrow> None) kvs)"

definition largestArray :: "json list list \<Rightarrow> json list" where
  "largestArray xss = foldl (\<lambda>prev current. if length prev < length current then current else prev)
     (hd xss) (tl xss)"

definition analyzeJsonData :: "(string \<Rightarrow> json option) \<Rightarrow> string \<Rightarrow> (int \<times> string list) option" where
  "analyzeJsonData parse content = (case parse content of
       Some (JArr items) \<Rightarrow> Some (int (length items), item_keys items)
     | Some (JObj kvs) \<Rightarrow> (case arrayProperties kvs of
           [] \<Rightarrow> None
         | xs # xss \<Rightarrow> (let items = largestArray (xs # xss) in
             Some (int (length items), item_keys items)))
     | _ \<Rightarrow> None)"

definition first_file :: "'w redis \<Rightarrow> string \<Rightarrow> ('w, string option) act" where
  "first_file M jobId = bindA (getFileIdsFromIndex M (FILES_BY_JOB jobId)) (\<lambda>fileIds.
     returnA (case fileIds of [] \<Rightarrow> None | i # _ \<Rightarrow> Some i))"

record JobFilePreview =
  fp_data :: FileMetadata
  fp_preview :: string
  fp_content :: "string option"

text \<open>\<open>None\<close> is a result whose \<open>success\<close> is false.\<close>

definition getJobFilePreview ::
  "'w redis \<Rightarrow> 'w disk \<Rightarrow> 'w FileService \<Rightarrow> (string \<Rightarrow> json option) \<Rightarrow> (rat \<Rightarrow> string) \<Rightarrow> string \<Rightarrow> int \<Rightarrow>
   ('w, JobFilePreview option) act" where
  "getJobFilePreview M D V parse num jobId now = catchA
     (bindA (first_file M jobId) (\<lambda>fileId.
        case fileId of
          None \<Rightarrow> returnA None
        | Some i \<Rightarrow> bindA (getFile M i) (\<lambda>fileResult.
            case fileResult of
              Failure _ _ \<Rightarrow> returnA None
            | Success file \<Rightarrow> bindA (getFileContentByStoredId M D V i now) (\<lambda>contentResult. returnA
                (case contentResult of
                   Failure _ _ \<Rightarrow> Some \<lparr>fp_data = file, fp_preview = ''File content not available'',
                     fp_content = None\<rparr>
                 | Success content \<Rightarrow> Some \<lparr>fp_data = file,
                     fp_preview = generateFilePreview parse num content (f_content_type file),
                     fp_content = Some content\<rparr>)))))
     (\<lambda>_. returnA None)"

definition getJobFileMetadataOnly :: "'w redis \<Rightarrow> string \<Rightarrow> ('w, FileMetadata option) act" where
  "getJobFileMetadataOnly M jobId = catchA
     (bindA (first_file M jobId) (\<lambda>fileId.
        case fileId of None \<Rightarrow> returnA None | Some i \<Rightarrow> file_or_null M i))
     (\<lambda>_. returnA None)"

text \<open>
  \<open>previewObj\<close>: the first five members, arrays cut after two items. \<open>n\<close> is the
  number of items in a text.
\<close>

definition more_items :: "nat \<Rightarrow> string" where
  "more_items n = ''... '' @ show_nat n @ '' more items''"

definition preview_member :: "(string \<times> json) list \<Rightarrow> string \<times> json \<Rightarrow> (string \<times> json) list" where
  "preview_member acc kv = (case kv of
       (k, JArr items) \<Rightarrow> (let acc' = map_set k (JArr (take 2 items)) acc in
          if 2 < length items then map_set (k @ ''_more'') (JStr (more_items (length items - 2))) acc' else acc')
     | (k, v) \<Rightarrow> map_set k v acc)"

definition preview_object :: "(string \<times> json) list \<Rightarrow> json" where
  "preview_object kvs = JObj (object_order (foldl preview_member [] (take 5 kvs)))"

definition more_line :: "nat \<Rightarrow> nat \<Rightarrow> string \<Rightarrow> string" where
  "more_line shown n what = (if shown < n
     then newline # ''... ('' @ show_nat (n - shown) @ '' more '' @ what @ '')'' else [])"

definition preview_json ::
  "(string \<Rightarrow> json option) \<Rightarrow> (rat \<Rightarrow> string) \<Rightarrow> string \<Rightarrow> string" where
  "preview_json parse num content = (case parse content of
       None \<Rightarrow> shorten 500 ellipsis content
     | Some (JArr items) \<Rightarrow> json_text num (JArr (take 3 items)) @ more_line 3 (length items) ''items''
     | Some (JObj kvs) \<Rightarrow> json_text num (preview_object kvs) @ more_line 5 (length kvs) ''fields''
     | Some v \<Rightarrow> shorten 500 (newline # ellipsis) (json_text num v))"

definition preview_content ::
  "(string \<Rightarrow> json option) \<Rightarrow> (rat \<Rightarrow> string) \<Rightarrow> FileMetadata \<Rightarrow> string \<Rightarrow> string" where
  "preview_content parse num file content =
     (if has_text ''json'' (f_content_type file) then preview_json parse num content
      else if has_text ''html'' (f_content_type file) then
        (let ls = first_lines 10 content in
         lines_text ls @ (if 10 \<le> length ls then newline # ellipsis else []))
      else shorten 500 ellipsis content)"

definition preview_placeholder :: "FileMetadata \<Rightarrow> string" where
  "preview_placeholder file =
     (let dq = (\<lambda>s. [CHR 0x22] @ s @ [CHR 0x22]); n = show_int (f_size file) in
      if has_text ''json'' (f_content_type file) then
        ''{'' @ dq ''preview'' @ '': '' @ dq (''JSON file with '' @ n @ '' bytes'') @ '', '' @ dq ''type'' @
        '': '' @ dq (f_content_type file) @ ''}''
      else if has_text ''html'' (f_content_type file) then ''<!-- HTML file preview - '' @ n @ '' bytes -->''
      else ''File preview - '' @ n @ '' bytes ('' @ f_content_type file @ '')'')"

definition getJobFilePreviewOptimized ::
  "'w redis \<Rightarrow> 'w disk \<Rightarrow> 'w FileService \<Rightarrow> (string \<Rightarrow> json option) \<Rightarrow> (rat \<Rightarrow> string) \<Rightarrow> string \<Rightarrow> int \<Rightarrow>
   ('w, string option) act" where
  "getJobFilePreviewOptimized M D V parse num jobId now = catchA
     (bindA (first_file M jobId) (\<lambda>fileId.
        case fileId of
          None \<Rightarrow> returnA None
        | Some i \<Rightarrow> bindA (getFile M i) (\<lambda>fileResult.
            case fileResult of
              Failure _ _ \<Rightarrow> returnA None
            | Success file \<Rightarrow> catchA
                (bindA (getFileContentByStoredId M D V i now) (\<lambda>contentResult. returnA (Some
                  (case contentResult of
                     Success content \<Rightarrow> if truthy content then preview_content parse num file content
                       else preview_placeholder file
                   | Failure _ _ \<Rightarrow> preview_placeholder file))))
                (\<lambda>_. returnA (Some (preview_placeholder file))))))
     (\<lambda>_. returnA None)"

section \<open>Details\<close>

record JobDetails =
  jd_job :: JobStruct
  jd_fileMetadata :: "FileMetadata option"
  jd_filePreview :: "string option"
  jd_fileContent :: "string option"
  jd_dataCount :: "int option"
  jd_included :: "string list option"

record StoredPricing =
  sp_price :: rat
  sp_objectsCount :: int
  sp_fileSizeKB :: int
  sp_currency :: string

record OptimizedDetails = JobDetails +
  jd_pricing :: "StoredPricing option"
  jd_hasContent :: bool

definition not_found :: "string \<Rightarrow> 'a EntityResult" where
  "not_found jobId = Failure NotFound (''Job '' @ jobId @ '' not found'')"

definition not_completed :: "string \<Rightarrow> 'a EntityResult" where
  "not_completed jobId = Failure InvalidInput (''Job '' @ jobId @ '' is not completed'')"

text \<open>The guard of the methods on one job.\<close>

definition with_completed_job ::
  "'w redis \<Rightarrow> string \<Rightarrow> (JobStruct \<Rightarrow> ('w, 'a EntityResult) act) \<Rightarrow> ('w, 'a EntityResult) act" where
  "with_completed_job M jobId body = bindA (getJob M jobId) (\<lambda>jobResult.
     case jobResult of
       Failure _ _ \<Rightarrow> returnA (not_found jobId)
     | Success job \<Rightarrow> if j_state job \<noteq> job_state COMPLETED then returnA (not_completed jobId)
         else body job)"

definition job_details ::
  "(string \<Rightarrow> json option) \<Rightarrow> JobStruct \<Rightarrow> JobFilePreview option \<Rightarrow> JobDetails" where
  "job_details parse job fileResult =
     (let content = (case fileResult of None \<Rightarrow> None | Some p \<Rightarrow> fp_content p);
          analysis = (case (fileResult, content) of
            (Some p, Some c) \<Rightarrow> if truthy c \<and> has_text ''json'' (f_content_type (fp_data p))
              then analyzeJsonData parse c else None
          | _ \<Rightarrow> None)
      in \<lparr>jd_job = job, jd_fileMetadata = map_option fp_data fileResult,
          jd_filePreview = map_option fp_preview fileResult, jd_fileContent = content,
          jd_dataCount = map_option fst analysis, jd_included = map_option snd analysis\<rparr>)"

definition getJobDetails ::
  "'w redis \<Rightarrow> 'w disk \<Rightarrow> 'w FileService \<Rightarrow> (string \<Rightarrow> json option) \<Rightarrow> (rat \<Rightarrow> string) \<Rightarrow> string \<Rightarrow> int \<Rightarrow>
   ('w, JobDetails EntityResult) act" where
  "getJobDetails M D V parse num jobId now = catchA
     (with_completed_job M jobId (\<lambda>job.
        thenA (incrementJobViews M jobId)
       (bindA (getJobFilePreview M D V parse num jobId now) (\<lambda>fileResult.
        returnA (Success (job_details parse job fileResult))))))
     (\<lambda>e. returnA (Failure DatabaseFault (''Failed to get job details: '' @ e)))"

section \<open>Cached details\<close>

text \<open>The cache of the service, \<open>jobDetailsCache\<close>, is a part of the world.\<close>

record CachedDetails =
  cd_data :: OptimizedDetails
  cd_timestamp :: int

record 'w details_cache =
  dc_get :: "'w \<Rightarrow> (string, CachedDetails) jsmap"
  dc_put :: "(string, CachedDetails) jsmap \<Rightarrow> 'w \<Rightarrow> 'w"

definition CACHE_TTL :: int where
  "CACHE_TTL = 5 * 60 * 1000"

definition getCachedJobDetails ::
  "'w details_cache \<Rightarrow> string \<Rightarrow> int \<Rightarrow> ('w, OptimizedDetails option) act" where
  "getCachedJobDetails K jobId now = (\<lambda>w. (Inr (case map_get (dc_get K w) jobId of
     None \<Rightarrow> None
   | Some cached \<Rightarrow> if now - cd_timestamp cached < CACHE_TTL then Some (cd_data cached) else None), w))"

definition setCachedJobDetails ::
  "'w details_cache \<Rightarrow> string \<Rightarrow> OptimizedDetails \<Rightarrow> int \<Rightarrow> ('w, unit) act" where
  "setCachedJobDetails K jobId data now = (\<lambda>w. (Inr (), dc_put K
     (map_set jobId \<lparr>cd_data = data, cd_timestamp = now\<rparr> (dc_get K w)) w))"

definition cleanExpiredCache :: "'w details_cache \<Rightarrow> int \<Rightarrow> ('w, unit) act" where
  "cleanExpiredCache K now = (\<lambda>w. (Inr (), dc_put K
     (filter (\<lambda>(k, v). \<not> CACHE_TTL < now - cd_timestamp v) (dc_get K w)) w))"

definition stored_pricing :: "JobStruct \<Rightarrow> StoredPricing option" where
  "stored_pricing job = (case j_price job of
     None \<Rightarrow> None
   | Some price \<Rightarrow> Some \<lparr>sp_price = price, sp_objectsCount = or_num_opt (j_objectsCount job) 0,
       sp_fileSizeKB = or_num_opt (j_fileSizeKB job) 0, sp_currency = ''USDT''\<rparr>)"

definition optimized_details ::
  "JobStruct \<Rightarrow> FileMetadata option \<Rightarrow> string option \<Rightarrow> OptimizedDetails" where
  "optimized_details job fileMetadata filePreview =
     (let pricing = stored_pricing job in
      \<lparr>jd_job = job, jd_fileMetadata = fileMetadata, jd_filePreview = filePreview,
       jd_fileContent = None,
       jd_dataCount = (case j_dataAnalysis job of
           Some (n, _) \<Rightarrow> Some n | None \<Rightarrow> map_option sp_objectsCount pricing),
       jd_included = map_option snd (j_dataAnalysis job),
       jd_pricing = pricing, jd_hasContent = (pricing \<noteq> None)\<rparr>)"

text \<open>\<open>clean\<close> is \<open>Math.random() < 0.1\<close>.\<close>

definition getJobDetailsOptimized ::
  "'w redis \<Rightarrow> 'w disk \<Rightarrow> 'w FileService \<Rightarrow> 'w details_cache \<Rightarrow> (string \<Rightarrow> json option) \<Rightarrow>
   (rat \<Rightarrow> string) \<Rightarrow> string \<Rightarrow> bool \<Rightarrow> int \<Rightarrow> ('w, OptimizedDetails EntityResult) act" where
  "getJobDetailsOptimized M D V K parse num jobId clean now = catchA
     (bindA (getCachedJobDetails K jobId now) (\<lambda>cachedData.
        case cachedData of
          Some d \<Rightarrow> returnA (Success d)
        | None \<Rightarrow>
            thenA (if clean then cleanExpiredCache K now else returnA ())
           (bindA (getJob M jobId) (\<lambda>jobResult.
            thenA (incrementJobViews M jobId)
            (case jobResult of
               Failure _ _ \<Rightarrow> returnA (not_found jobId)
             | Success job \<Rightarrow> if j_state job \<noteq> job_state COMPLETED then returnA (not_completed jobId)
                 else bindA (getJobFileMetadataOnly M jobId) (\<lambda>fileMetadata.
                      bindA (getJobFilePreviewOptimized M D V parse num jobId now) (\<lambda>filePreview.
                      let jobDetails = optimized_details job fileMetadata filePreview in
                      thenA (setCachedJobDetails K jobId jobDetails now)
                      (returnA (Success jobDetails)))))))))
     (\<lambda>e. returnA (Failure DatabaseFault (''Failed to get job details: '' @ e)))"

section \<open>Downloads and statistics\<close>

definition getJobDownload ::
  "'w redis \<Rightarrow> 'w disk \<Rightarrow> 'w FileService \<Rightarrow> (string \<Rightarrow> json option) \<Rightarrow> (rat \<Rightarrow> string) \<Rightarrow> string \<Rightarrow> int \<Rightarrow>
   ('w, (JobStruct \<times> string \<times> FileMetadata) EntityResult) act" where
  "getJobDownload M D V parse num jobId now = catchA
     (with_completed_job M jobId (\<lambda>job.
        thenA (incrementJobDownloads M jobId)
       (bindA (getJobFilePreview M D V parse num jobId now) (\<lambda>fileResult.
        returnA (case fileResult of
            None \<Rightarrow> Failure NotFound (''File not found for job '' @ jobId)
          | Some p \<Rightarrow> Success (job, f_file_path (fp_data p), fp_data p))))))
     (\<lambda>e. returnA (Failure DatabaseFault (''Failed to get job download: '' @ e)))"

record MarketplaceStats =
  ms_totalCompletedJobs :: int
  ms_totalJobsByType :: "(string, int) jsmap"
  ms_recentJobsCount :: int

definition count_job ::
  "'w redis \<Rightarrow> int \<Rightarrow> MarketplaceStats \<Rightarrow> string \<Rightarrow> ('w, MarketplaceStats) act" where
  "count_job M oneWeekAgo stats jobId = bindA (getJob M jobId) (\<lambda>jobResult. returnA
     (case jobResult of
        Failure _ _ \<Rightarrow> stats
      | Success job \<Rightarrow> stats\<lparr>
          ms_totalJobsByType := map_set (j_jobType job)
            (or_num_opt (map_get (ms_totalJobsByType stats) (j_jobType job)) 0 + 1) (ms_totalJobsByType stats),
          ms_recentJobsCount := ms_recentJobsCount stats + (if oneWeekAgo < j_completeAt job then 1 else 0)\<rparr>))"

definition getMarketplaceStats :: "'w redis \<Rightarrow> int \<Rightarrow> ('w, MarketplaceStats EntityResult) act" where
  "getMarketplaceStats M now = catchA
     (bindA (SMEMBERS M (JOBS_BY_STATE (job_state COMPLETED))) (\<lambda>completedJobIds.
      bindA (foldA (count_job M (now - 7 * 24 * 60 * 60 * 1000))
          \<lparr>ms_totalCompletedJobs = int (length completedJobIds), ms_totalJobsByType = [],
           ms_recentJobsCount = 0\<rparr> completedJobIds) (\<lambda>stats. returnA (Success stats))))
     (\<lambda>e. returnA (Failure DatabaseFault (''Failed to get marketplace stats: '' @ e)))"

section \<open>Purchases\<close>

definition marketStorePurchase ::
  "'w redis \<Rightarrow> string \<Rightarrow> string \<Rightarrow> int \<Rightarrow> ('w, unit EntityResult) act" where
  "marketStorePurchase M uid jobId now = catchA
     (with_completed_job M jobId (\<lambda>_.
        bindA (hasPurchaseAccess M uid jobId) (\<lambda>accessResult.
        case accessResult of
          Failure k m \<Rightarrow> returnA (Failure k m)
        | Success True \<Rightarrow> returnA (Success ())
        | Success False \<Rightarrow> bindA (storePurchase M uid jobId now) (\<lambda>storeResult.
            returnA (case storeResult of Failure k m \<Rightarrow> Failure k m | Success _ \<Rightarrow> Success ())))))
     (\<lambda>e. returnA (Failure DatabaseFault (''Failed to store purchase: '' @ e)))"

definition marketHasPurchaseAccess ::
  "'w redis \<Rightarrow> string \<Rightarrow> string \<Rightarrow> ('w, bool EntityResult) act" where
  "marketHasPurchaseAccess M uid jobId = catchA (hasPurchaseAccess M uid jobId)
     (\<lambda>e. returnA (Failure DatabaseFault (''Failed to check purchase access: '' @ e)))"

definition marketUserPurchases :: "'w redis \<Rightarrow> string \<Rightarrow> ('w, string list EntityResult) act" where
  "marketUserPurchases M uid = catchA (getUserPurchases M uid)
     (\<lambda>e. returnA (Failure DatabaseFault (''Failed to get user purchases: '' @ e)))"

end
