(* ===== verification/MarketProperties.thy ===== *)
theory MarketProperties
  imports Marketplace DatabaseProperties Vault
begin

text \<open>
  The properties of the marketplace: what the listing shows, page by page, and
  what the cache of the details answers.
\<close>

section \<open>The listing\<close>

lemma sorted_sort_jobs:
  "sorted_wrt (\<lambda>a b. if d = asc then mj_completeAt a \<le> mj_completeAt b else mj_completeAt b \<le> mj_completeAt a)
     (sort_jobs d js)"
  using sorted_sort_desc [of mj_completeAt js] sorted_sort_key [of mj_completeAt js]
  by (cases d) (simp_all add: sort_jobs_def sort_asc_def sorted_map)

lemma set_sort_jobs [simp]: "set (sort_jobs d js) = set js" "length (sort_jobs d js) = length js"
  by (cases d; simp add: sort_jobs_def sort_asc_def)+

lemma distinct_sort_jobs: "distinct (map f (sort_jobs d js)) = distinct (map f js)"
  unfolding distinct_map sort_jobs_def sort_asc_def sort_desc_def by (cases d) auto

context redis_up
begin

lemma list_jobs_eq:
  assumes "db_typed M w"
  shows "foldA (list_job M search) acc is w
    = (Inr (acc @ filter (matchesSearch search) (map marketplace_job (somes (map (jobs M w) is)))), w)"
proof (induction "is" arbitrary: acc)
  case (Cons i "is")
  have "list_job M search acc i w
      = (Inr (case jobs M w i of None \<Rightarrow> acc | Some j \<Rightarrow> if matchesSearch search (marketplace_job j)
          then acc @ [marketplace_job j] else acc), w)"
    by (simp add: list_job_def act_simps getJob_eq [OF assms] split: option.split)
  then show ?case by (simp add: act_simps Cons.IH split: option.split)
qed (simp add: act_simps)

lemma listing_spec:
  assumes inv: "db_inv M w"
  shows "\<exists>js. distinct (map mj_job_id js) \<and>
    set js = {m. \<exists>i j. jobs M w i = Some j \<and> j_state j = job_state COMPLETED \<and> m = marketplace_job j
      \<and> matchesSearch search m} \<and>
    sorted_wrt (\<lambda>a b. if d = asc then mj_completeAt a \<le> mj_completeAt b else mj_completeAt b \<le> mj_completeAt a) js \<and>
    (\<forall>limit offset. 0 \<le> limit \<longrightarrow> 0 \<le> offset \<longrightarrow> getCompletedJobs M limit offset search d w
      = (Inr (Success (take (nat limit) (drop (nat offset) js), int (length js))), w))"
proof -
  have typed: "db_typed M w" using inv by (rule db_inv_typed)
  let ?ids = "mems M w (JOBS_BY_STATE (job_state COMPLETED))"
  define found where "found = filter (matchesSearch search) (map marketplace_job (somes (map (jobs M w) ?ids)))"
  have "distinct (map j_jobID (somes (map (jobs M w) ?ids)))"
    by (rule distinct_map_somes [OF mems_distinct]) (auto dest: db_typed_job [OF typed])
  then have "distinct (map mj_job_id (map marketplace_job (somes (map (jobs M w) ?ids))))"
    by (simp add: marketplace_job_def comp_def)
  then have "distinct (map mj_job_id found)" unfolding found_def by (rule distinct_map_filter)
  moreover have "set (somes (map (jobs M w) ?ids))
      = {j. \<exists>i. jobs M w i = Some j \<and> j_state j = job_state COMPLETED}"
    using listed_by_state [OF inv, of _ "job_state COMPLETED"] by (auto simp del: set_somes set_map)
  then have "set found = {m. \<exists>i j. jobs M w i = Some j \<and> j_state j = job_state COMPLETED
      \<and> m = marketplace_job j \<and> matchesSearch search m}"
    unfolding found_def set_filter set_map by auto
  moreover have "getCompletedJobs M limit offset search d w
      = (Inr (Success (take (nat limit) (drop (nat offset) (sort_jobs d found)), int (length (sort_jobs d found)))), w)"
    if "0 \<le> limit" "0 \<le> offset" for limit offset
    using that
    by (simp add: getCompletedJobs_def act_simps list_jobs_eq [OF typed] found_def [symmetric] js_slice_nonneg
      nat_add_distrib Let_def) (auto simp: found_def sort_jobs_def sort_asc_def sort_desc_def split: SortDirection.split)
  ultimately show ?thesis
    using sorted_sort_jobs [of d found] by (intro exI [of _ "sort_jobs d found"]) (simp add: distinct_sort_jobs)
qed

end

text \<open>C29: The listing. There is one list of the completed jobs that match the search, each once, in
  the order of completion asked for, such that every page is the part of the list at its offset
  and every page shows the length of the whole list.\<close>

theorem marketplace_listing:
  assumes "redis_up M" and "db_inv M w"
  shows "\<exists>js. distinct (map mj_job_id js) \<and>
    set js = {m. \<exists>i j. jobs M w i = Some j \<and> j_state j = job_state COMPLETED \<and> m = marketplace_job j
      \<and> matchesSearch search m} \<and>
    sorted_wrt (\<lambda>a b. if d = asc then mj_completeAt a \<le> mj_completeAt b else mj_completeAt b \<le> mj_completeAt a) js \<and>
    (\<forall>limit offset. 0 \<le> limit \<longrightarrow> 0 \<le> offset \<longrightarrow> getCompletedJobs M limit offset search d w
      = (Inr (Success (take (nat limit) (drop (nat offset) js), int (length js))), w))"
  by (rule redis_up.listing_spec [OF assms])

definition market_world :: mem where
  "market_world = snd (updateJob mem_redis ''job_1'' [State (job_state COMPLETED), CompleteAt 5000] demo_world)"

lemma market_world_facts:
  "db_inv mem_redis market_world"
  "jobs mem_redis market_world = [''job_1'' \<mapsto> demo_job\<lparr>j_state := job_state COMPLETED, j_completeAt := 5000\<rparr>]"
proof -
  have "proper_job_update [State (job_state COMPLETED), CompleteAt 5000]"
    by (simp add: proper_job_update_def)
  then show "db_inv mem_redis market_world"
    unfolding market_world_def by (rule redis_up.writes_keep_inv(4) [OF mem_is_up demo_inv])
  show "jobs mem_redis market_world = [''job_1'' \<mapsto> demo_job\<lparr>j_state := job_state COMPLETED, j_completeAt := 5000\<rparr>]"
    using redis_up.updateJob_spec [OF mem_is_up db_inv_typed [OF demo_inv] prod.collapse [symmetric],
        of "''job_1''" "[State (job_state COMPLETED), CompleteAt 5000]"]
    by (simp add: market_world_def demo_maps)
qed

theorem marketplace_listing_witness:
  "getCompletedJobs mem_redis 10 0 ''TWIT'' desc market_world = (Inr (Success ([\<lparr>mj_job_id = ''job_1'',
     mj_job_type = ''TWITTER_POST'', mj_target = ''t'', mj_job_views = 0, mj_job_downloads = 0,
     mj_completeAt = 5000\<rparr>], 1)), market_world)"
proof -
  define m where "m = marketplace_job (demo_job\<lparr>j_state := job_state COMPLETED, j_completeAt := 5000\<rparr>)"
  obtain js where js: "distinct (map mj_job_id js)"
      "set js = {m. \<exists>i j. jobs mem_redis market_world i = Some j \<and> j_state j = job_state COMPLETED
        \<and> m = marketplace_job j \<and> matchesSearch ''TWIT'' m}"
    and run: "\<forall>limit offset. 0 \<le> limit \<longrightarrow> 0 \<le> offset \<longrightarrow>
      getCompletedJobs mem_redis limit offset ''TWIT'' desc market_world
        = (Inr (Success (take (nat limit) (drop (nat offset) js), int (length js))), market_world)"
    using marketplace_listing [OF mem_is_up market_world_facts(1), of "''TWIT''" desc] by blast
  have "matchesSearch ''TWIT'' m" unfolding m_def by code_simp
  then have "set js = {m}" using js(2) unfolding m_def by (auto simp: market_world_facts(2))
  moreover have "distinct js" using js(1) by (simp add: distinct_map)
  ultimately have "js = [m]" by (cases js; cases "tl js") auto
  then show ?thesis
    using run by (simp add: m_def marketplace_job_def demo_job_def or_num_def)
qed

section \<open>The cache of the details\<close>

text \<open>The details of a job are served from the cache for five minutes. After an answer that
  was not in the cache, every request within that time gets the same answer and changes nothing,
  whatever has become of the job, the file and the server meanwhile: nothing is checked and no
  view is counted.\<close>

theorem details_cached:
  assumes "\<And>s w. dc_get K (dc_put K s w) = s"
    and "getJobDetailsOptimized M D V K parse num i clean now w = (Inr (Success d), w1)"
    and "map_get (dc_get K w) i = None"
    and "dc_get K w2 = dc_get K w1" and "later < now + CACHE_TTL"
  shows "getJobDetailsOptimized M' D' V' K parse num i clean' later w2 = (Inr (Success d), w2)"
proof -
  have "map_get (dc_get K w1) i = Some \<lparr>cd_data = d, cd_timestamp = now\<rparr>"
    using assms(2,3)
    by (auto simp: getJobDetailsOptimized_def getCachedJobDetails_def setCachedJobDetails_def act_simps Let_def
        not_found_def not_completed_def assms(1) split: sum.splits EntityResult.splits if_splits prod.splits)
  then show ?thesis
    using assms(4,5) by (simp add: getJobDetailsOptimized_def getCachedJobDetails_def act_simps)
qed

context redis_up
begin

lemma no_file:
  assumes "mems M w (FILES_BY_JOB i) = []"
  shows "getJobFileMetadataOnly M i w = (Inr None, w)"
    and "getJobFilePreviewOptimized M D V parse num i now w = (Inr None, w)"
  using assms
  by (simp_all add: getJobFileMetadataOnly_def getJobFilePreviewOptimized_def first_file_def
    getFileIdsFromIndex_def act_simps)

lemma details_answered:
  assumes "db_typed M w" "jobs M w i = Some j" "j_state j = job_state COMPLETED"
    and "map_get (dc_get K w) i = None" "mems M w (FILES_BY_JOB i) = []"
  shows "\<exists>w'. getJobDetailsOptimized M D V K parse num i False now w
    = (Inr (Success (optimized_details j None None)), w')"
proof -
  define w1 where "w1 = put M (JOB i) (VJob (j\<lparr>j_job_views := j_job_views j + 1\<rparr>)) w"
  have views: "incrementJobViews M i w = (Inr (Success ()), w1)"
    using assms(2) by (simp add: incrementJobViews_eq [OF assms(1)] w1_def)
  have "mems M w1 (FILES_BY_JOB i) = []" using assms(5) by (simp add: w1_def mems_put FILES_BY_JOB_def JOB_def)
  note files = no_file [OF this]
  show ?thesis
    using assms(2-4)
    by (simp add: getJobDetailsOptimized_def getCachedJobDetails_def setCachedJobDetails_def act_simps Let_def
      getJob_eq [OF assms(1)] views files)
qed

end

text \<open>A server and a cache in memory.\<close>

definition memory_cache :: "('w \<times> (string, CachedDetails) jsmap) details_cache" where
  "memory_cache = \<lparr>dc_get = snd, dc_put = (\<lambda>s w. (fst w, s))\<rparr>"

definition cache_world :: "box \<times> (string, CachedDetails) jsmap" where
  "cache_world = (put box_redis (JOB ''job_1'')
     (VJob (demo_job\<lparr>j_state := job_state COMPLETED, j_completeAt := 5000\<rparr>)) box0, [])"

definition local_files :: "'w FileService" where
  "local_files = \<lparr>fv_baseDataPath = ''data'', fv_useDualStorage = False, fv_dualStorageManager = None\<rparr>"

theorem details_cached_witness:
  "\<exists>d w1. getJobDetailsOptimized (lift_redis box_redis) (lift_disk box_disk) local_files memory_cache (\<lambda>_. None)
        (\<lambda>_. []) ''job_1'' False 7 cache_world = (Inr (Success d), w1)
    \<and> getJobDetailsOptimized (lift_redis box_redis) (lift_disk box_disk) local_files memory_cache (\<lambda>_. None)
        (\<lambda>_. []) ''job_1'' False 200000 (box0, snd w1) = (Inr (Success d), (box0, snd w1))"
proof -
  let ?run = "getJobDetailsOptimized (lift_redis box_redis) (lift_disk box_disk) local_files memory_cache (\<lambda>_. None)
        (\<lambda>_. []) ''job_1'' False 7 cache_world"
  have up: "redis_up (lift_redis box_redis :: (box \<times> (string, CachedDetails) jsmap) redis)" by (rule box.lift_up)
  have strs: "strs (lift_redis box_redis) cache_world k = (if k = JOB ''job_1'' then Some (VJob
      (demo_job\<lparr>j_state := job_state COMPLETED, j_completeAt := 5000\<rparr>)) else None)" for k
    by (simp add: cache_world_def lift_redis_def box_redis_def mem_redis_def mem0_def box0_def)
  have "db_typed (lift_redis box_redis) cache_world"
    by (simp add: db_typed_def strs key_simps)
  moreover have "jobs (lift_redis box_redis) cache_world ''job_1''
      = Some (demo_job\<lparr>j_state := job_state COMPLETED, j_completeAt := 5000\<rparr>)"
    by (simp add: jobs_def strs)
  moreover have "mems (lift_redis box_redis) cache_world (FILES_BY_JOB ''job_1'') = []"
    by (simp add: cache_world_def lift_redis_def box_redis_def mem_redis_def mem0_def box0_def mem_get_set_def)
  ultimately obtain d w1 where run: "?run = (Inr (Success d), w1)"
    using redis_up.details_answered [OF up, of cache_world "''job_1''"
      "demo_job\<lparr>j_state := job_state COMPLETED, j_completeAt := 5000\<rparr>" memory_cache "lift_disk box_disk" local_files]
    by (fastforce simp: memory_cache_def cache_world_def)
  have "getJobDetailsOptimized (lift_redis box_redis) (lift_disk box_disk) local_files memory_cache (\<lambda>_. None)
        (\<lambda>_. []) ''job_1'' False 200000 (box0, snd w1) = (Inr (Success d), (box0, snd w1))"
    by (rule details_cached [OF _ run]) (simp_all add: memory_cache_def cache_world_def CACHE_TTL_def)
  then show ?thesis using run by blast
qed

section \<open>Views\<close>

context redis_up
begin

lemma views_counted:
  assumes "db_typed M w" "jobs M w i = Some j" "j_state j \<noteq> job_state COMPLETED" "map_get (dc_get K w) i = None"
  shows "getJobDetails M D V parse num i now w = (Inr (not_completed i), w) \<and>
    getJobDetailsOptimized M D V K parse num i False now w
      = (Inr (not_completed i), put M (JOB i) (VJob (j\<lparr>j_job_views := j_job_views j + 1\<rparr>)) w)"
  using assms
  by (simp add: getJobDetails_def with_completed_job_def getJobDetailsOptimized_def getCachedJobDetails_def
    act_simps getJob_eq [OF assms(1)] incrementJobViews_eq [OF assms(1)])

end

text \<open>Both forms of the details refuse a job that is not completed. The plain form leaves it as
  it is; the optimised form has counted a view before it looks at the state.\<close>

theorem refused_details_counted:
  assumes "redis_up M" and "db_typed M w" and "jobs M w i = Some j" and "j_state j \<noteq> job_state COMPLETED"
    and "map_get (dc_get K w) i = None"
  shows "getJobDetails M D V parse num i now w = (Inr (not_completed i), w) \<and>
    getJobDetailsOptimized M D V K parse num i False now w
      = (Inr (not_completed i), put M (JOB i) (VJob (j\<lparr>j_job_views := j_job_views j + 1\<rparr>)) w)"
  by (rule redis_up.views_counted [OF assms])

theorem refused_details_counted_witness:
  "snd (getJobDetailsOptimized mem_redis D V \<lparr>dc_get = (\<lambda>_. []), dc_put = (\<lambda>_ w. w)\<rparr> (\<lambda>_. None) (\<lambda>_. [])
      ''job_1'' False 7 demo_world) = put mem_redis (JOB ''job_1'') (VJob (demo_job\<lparr>j_job_views := 1\<rparr>)) demo_world"
  using refused_details_counted [OF mem_is_up db_inv_typed [OF demo_inv], of "''job_1''" demo_job
      "\<lparr>dc_get = (\<lambda>_. []), dc_put = (\<lambda>_ w. w)\<rparr>" D V "\<lambda>_. None" "\<lambda>_. []" 7]
  by (simp add: demo_maps) (simp add: demo_job_def)

end
