(* ===== verification/NodeService.thy ===== *)
theory NodeService
  imports ServiceReports
begin

text \<open>
  \<open>services/node_service.ts\<close>, \<open>services/auth_service.ts\<close> and
  \<open>services/client_capacity_service.ts\<close>: what the sockets and the routes call,
  over the methods of \<open>DatabaseService\<close>.
\<close>

section \<open>Nodes\<close>

text \<open>\<open>bytes\<close> is the hexadecimal text of the eight random bytes.\<close>

definition getNodeServiceID :: "string \<Rightarrow> string" where
  "getNodeServiceID bytes = ''node-service-'' @ bytes"

definition connectClient ::
  "'w redis \<Rightarrow> int \<Rightarrow> string \<Rightarrow> string \<Rightarrow> int \<Rightarrow> int \<Rightarrow> ('w, string EntityResult) act" where
  "connectClient M ttl uid cid now rnd = clientConnect M ttl uid cid now rnd"

definition createWebSocketSession ::
  "'w redis \<Rightarrow> int \<Rightarrow> string \<Rightarrow> string \<Rightarrow> int \<Rightarrow> int \<Rightarrow> ('w, string EntityResult) act" where
  "createWebSocketSession M ttl uid cid now rnd = catchA
     (bindA (wsCreateSession M ttl uid cid now rnd) (\<lambda>sessionId. returnA (Success sessionId)))
     (\<lambda>e. returnA (Failure DatabaseFault (''Failed to create WebSocket session: '' @ e)))"

text \<open>The argument is handed on as the identifier of a session.\<close>

definition endWebSocketSession :: "'w redis \<Rightarrow> string \<Rightarrow> int \<Rightarrow> ('w, unit EntityResult) act" where
  "endWebSocketSession M uid now = wsEndSession M uid now"

definition updateHeartbeat :: "'w redis \<Rightarrow> string \<Rightarrow> int \<Rightarrow> ('w, unit EntityResult) act" where
  "updateHeartbeat M uid now = wsUpdateHeartbeat M uid now"

definition node_updateInternetSpeed ::
  "'w redis \<Rightarrow> (string \<Rightarrow> json option) \<Rightarrow> string \<Rightarrow> string \<Rightarrow> int \<Rightarrow> ('w, string EntityResult) act" where
  "node_updateInternetSpeed M parse uid speedData now = updateClientInternetSpeed M parse uid speedData now"

text \<open>\<open>isActive\<close> is the truth of the field; \<open>DatabaseService.updateClient\<close> hands on to the database.\<close>

definition node_updateClientStatus ::
  "'w redis \<Rightarrow> string \<Rightarrow> bool \<Rightarrow> int \<Rightarrow> ('w, unit EntityResult) act" where
  "node_updateClientStatus M uid isActive timestamp = updateClient M uid
     [Client_status (if isActive then ''Active'' else ''Inactive''), PingTimestamp timestamp]"

definition node_updateJobCompleted ::
  "'w redis \<Rightarrow> (string \<Rightarrow> json option) \<Rightarrow> 'w content_source \<Rightarrow> 'w task_referral \<Rightarrow>
   string \<Rightarrow> string \<Rightarrow> string option \<Rightarrow> int \<Rightarrow> ('w, rat EntityResult) act" where
  "node_updateJobCompleted M parse fetch referral jobId cid storedFileId now =
     updateJobCompleted M parse fetch referral jobId cid storedFileId now"

definition node_markJobAsFailed ::
  "'w redis \<Rightarrow> string \<Rightarrow> string \<Rightarrow> string \<Rightarrow> int \<Rightarrow> ('w, string EntityResult) act" where
  "node_markJobAsFailed M jobId cid errorMessage now = markJobAsFailed M jobId cid errorMessage now"

record NodeAssignment = Assignment +
  an_currentLoad :: int
  an_maxCapacity :: int

definition with_load :: "Assignment \<Rightarrow> CapacityInfo \<Rightarrow> NodeAssignment" where
  "with_load a info = \<lparr>an_user_principal_id = an_user_principal_id a, an_client_id = an_client_id a,
     an_downloadSpeed = an_downloadSpeed a, an_target = an_target a, an_jobType = an_jobType a,
     an_currentLoad = ci_activeJobs info, an_maxCapacity = ci_maxConcurrentJobs info\<rparr>"

definition assigned_with_load ::
  "'w redis \<Rightarrow> ('w, Assignment option EntityResult) act \<Rightarrow> ('w, NodeAssignment option EntityResult) act" where
  "assigned_with_load M search = bindA search (\<lambda>result.
     case result of
       Failure k m \<Rightarrow> returnA (Failure k m)
     | Success None \<Rightarrow> returnA (Success None)
     | Success (Some a) \<Rightarrow> bindA (getClientCapacityInfo M (an_user_principal_id a)) (\<lambda>capacityInfo.
         returnA (Success (Some (with_load a capacityInfo)))))"

definition node_findAndAssignJob ::
  "'w redis \<Rightarrow> string \<Rightarrow> int \<Rightarrow> ('w, NodeAssignment option EntityResult) act" where
  "node_findAndAssignJob M jobId now = assigned_with_load M (findOptimalNode M jobId now)"

definition node_findAndAssignJobToClient ::
  "'w redis \<Rightarrow> string \<Rightarrow> string \<Rightarrow> int \<Rightarrow> ('w, NodeAssignment option EntityResult) act" where
  "node_findAndAssignJobToClient M jobId principalId now =
     assigned_with_load M (findOptimalNodeWithId M jobId principalId now)"

definition node_resendJob :: "'w redis \<Rightarrow> string \<Rightarrow> ('w, Assignment option EntityResult) act" where
  "node_resendJob M jobId = resendJob M jobId"

definition createNewJob ::
  "'w redis \<Rightarrow> string \<Rightarrow> string \<Rightarrow> string \<Rightarrow> int \<Rightarrow> int \<Rightarrow> ('w, string EntityResult) act" where
  "createNewJob M clientUUID jobType url now rnd = addJobToDB M clientUUID jobType url now rnd"

text \<open>The first argument is handed on as the identifier of a job, and \<open>fileId\<close> in \<open>updateJobComplete\<close>.\<close>

definition node_assignJobToClient ::
  "'w redis \<Rightarrow> string \<Rightarrow> string \<Rightarrow> int \<Rightarrow> ('w, string EntityResult) act" where
  "node_assignJobToClient M uid cid now = assignJobToClient M uid cid now"

definition updateJobComplete ::
  "'w redis \<Rightarrow> (string \<Rightarrow> json option) \<Rightarrow> 'w content_source \<Rightarrow> 'w task_referral \<Rightarrow>
   string \<Rightarrow> string \<Rightarrow> int \<Rightarrow> int \<Rightarrow> ('w, rat EntityResult) act" where
  "updateJobComplete M parse fetch referral uid cid fileId now =
     updateJobCompleted M parse fetch referral (show_int fileId) cid None now"

definition node_storedIdFromJobId :: "'w redis \<Rightarrow> string \<Rightarrow> ('w, string EntityResult) act" where
  "node_storedIdFromJobId M jobId = getStoredIdFromJobId M jobId"

definition handleRequestAuth :: "'w redis \<Rightarrow> string \<Rightarrow> ('w, string EntityResult) act" where
  "handleRequestAuth M uid = clientAuthorization M uid"

definition node_login :: "'w redis \<Rightarrow> string \<Rightarrow> nat list \<Rightarrow> int \<Rightarrow> ('w, ClientStruct EntityResult) act" where
  "node_login M uid rnds now = login M uid rnds now"

definition node_jobWithId :: "'w redis \<Rightarrow> string \<Rightarrow> ('w, JobStruct EntityResult) act" where
  "node_jobWithId M jobId = getJobWithID M jobId"

definition node_pendingJobs :: "'w redis \<Rightarrow> string option \<Rightarrow> ('w, JobStruct list EntityResult) act" where
  "node_pendingJobs M uid = getAllPendingJobs M uid"

definition node_allNodes :: "'w redis \<Rightarrow> ('w, ClientStruct list EntityResult) act" where
  "node_allNodes M = getAllNodes M"

definition node_allRunningNodes :: "'w redis \<Rightarrow> ('w, ClientStruct list EntityResult) act" where
  "node_allRunningNodes M = getAllRunningNodes M"

definition node_addRewards :: "'w redis \<Rightarrow> string \<Rightarrow> rat \<Rightarrow> ('w, rat EntityResult) act" where
  "node_addRewards M principalId rewards = addRewardsToDB M principalId rewards"

definition checkAuth :: "'w redis \<Rightarrow> string \<Rightarrow> ('w, string EntityResult) act" where
  "checkAuth M uid = clientAuthorization M uid"

definition node_rewardHistory ::
  "'w redis \<Rightarrow> string \<Rightarrow> int \<Rightarrow> int \<Rightarrow> ('w, RewardHistory EntityResult) act" where
  "node_rewardHistory M uid page limit = getUserRewardHistory M uid page limit"

definition node_rewardHistoryByDate ::
  "'w redis \<Rightarrow> string \<Rightarrow> string option \<Rightarrow> string option \<Rightarrow>
   ('w, (DailyReward list \<times> DailySummary) EntityResult) act" where
  "node_rewardHistoryByDate M uid startDate endDate = getUserRewardHistoryByDate M uid startDate endDate"

definition node_allJobs :: "'w redis \<Rightarrow> string option \<Rightarrow> ('w, JobStruct list EntityResult) act" where
  "node_allJobs M clientUUID = listJobs M clientUUID"

definition node_pricingInfo ::
  "'w redis \<Rightarrow> string \<Rightarrow> JobPricing \<Rightarrow> (int \<times> string list) option \<Rightarrow> ('w, unit EntityResult) act" where
  "node_pricingInfo M jobId p analysis = updateJobPricingInfo M jobId p analysis"

definition node_uptimeStats :: "'w redis \<Rightarrow> string \<Rightarrow> int \<Rightarrow> string \<Rightarrow> ('w, UptimeStats EntityResult) act" where
  "node_uptimeStats M uid now today = wsGetUptimeStats M uid now today"

definition backendHealthCheck :: "('w, string) act" where
  "backendHealthCheck = returnA ''OK''"

section \<open>Authorization\<close>

definition requestAuth :: "'w redis \<Rightarrow> string \<Rightarrow> ('w, bool) act" where
  "requestAuth M uid = catchA
     (bindA (clientAuthorization M uid) (\<lambda>clientResult. returnA (succeeded clientResult)))
     (\<lambda>_. returnA False)"

definition validateApiKey :: "'w redis \<Rightarrow> string \<Rightarrow> ('w, string EntityResult) act" where
  "validateApiKey M apiKey = catchA
     (bindA (service_getUUIDFromAPIKey M apiKey) (\<lambda>uuidResult.
        case uuidResult of
          Failure _ _ \<Rightarrow> returnA (Failure InvalidInput ''Invalid API key'')
        | Success uid \<Rightarrow> bindA (requestAuth M uid) (\<lambda>authResult. returnA
            (if authResult then Success uid else Failure InvalidInput ''User not authorized''))))
     (\<lambda>e. returnA (Failure DatabaseFault (''API key validation failed: '' @ e)))"

definition checkRateLimit :: "'w redis \<Rightarrow> string \<Rightarrow> ('w, bool) act" where
  "checkRateLimit M uid = catchA
     (bindA (getAPIKeyData M uid) (\<lambda>apiKeyResult. returnA (case apiKeyResult of
        Failure _ _ \<Rightarrow> False
      | Success (_, usageCount, usageLimit) \<Rightarrow> \<not> usageLimit \<le> usageCount)))
     (\<lambda>_. returnA False)"

definition recordApiUsage :: "'w redis \<Rightarrow> string \<Rightarrow> int \<Rightarrow> ('w, bool) act" where
  "recordApiUsage M uid now = catchA (recordAPIUsage M uid now) (\<lambda>_. returnA False)"

section \<open>Capacity\<close>

record RecommendedCapacity =
  rc_current :: int
  rc_recommended :: int
  rc_downloadSpeed :: rat
  rc_ping :: rat
  rc_current_load :: "rat option"

definition getRecommendedCapacity :: "'w redis \<Rightarrow> string \<Rightarrow> ('w, RecommendedCapacity) act" where
  "getRecommendedCapacity M uid = catchA
     (bindA (getClientCapacityInfo M uid) (\<lambda>capacityInfo.
      bindA (getAllNodes M) (\<lambda>clientResult.
        case clientResult of
          Failure _ _ \<Rightarrow> throwA ''Failed to get client information''
        | Success cs \<Rightarrow> (case List.find (\<lambda>c. c_user_principal_id c = uid) cs of
            None \<Rightarrow> throwA ''Client not found''
          | Some client \<Rightarrow> returnA \<lparr>rc_current = ci_maxConcurrentJobs capacityInfo,
              rc_recommended = ci_maxConcurrentJobs capacityInfo,
              rc_downloadSpeed = c_downloadSpeed client, rc_ping = or_num (c_ping client) 100,
              rc_current_load = Some (ci_utilizationRate capacityInfo)\<rparr>))))
     (\<lambda>_. returnA \<lparr>rc_current = 3, rc_recommended = 3, rc_downloadSpeed = 0, rc_ping = 100,
        rc_current_load = None\<rparr>)"

end
