(* ===== verification/SessionStore.thy ===== *)
theory SessionStore
  imports FileStore
begin

text \<open>
  The class \<open>RedisSessionStore\<close> (\<open>src/redis_session_store.ts\<close>): the record of a
  socket session and the last session identifier, in the Redis server. The
  connection is taken to be there; a failed command throws as in the other
  components.
\<close>

text \<open>\<open>SessionData\<close> of \<open>src/types/index.ts\<close>\<close>

record GatewaySession =
  gs_client_id :: string
  gs_canister_id :: string
  gs_timestamp :: int

definition GATEWAY_SESSION :: "int \<Rightarrow> string" where
  "GATEWAY_SESSION sessionId = ''session:'' @ show_int sessionId"

definition LAST_SESSION_ID :: string where
  "LAST_SESSION_ID = ''server:last_session_id''"

text \<open>\<open>DEL\<close> with its reply, the number of keys removed.\<close>

definition DEL_COUNT :: "'w redis \<Rightarrow> string \<Rightarrow> ('w, int) act" where
  "DEL_COUNT M k = command M (\<lambda>w. (if strs M w k \<noteq> None \<or> mems M w k \<noteq> [] then 1 else 0, dele M k w))"

text \<open>Both rethrow what they catch.\<close>

definition saveSession :: "'w redis \<Rightarrow> int \<Rightarrow> GatewaySession \<Rightarrow> int \<Rightarrow> ('w, bool) act" where
  "saveSession M sessionId sessionData now =
     thenA (SETEX M (GATEWAY_SESSION sessionId) (VGateway (gs_client_id sessionData) (gs_canister_id sessionData)
       (if gs_timestamp sessionData = 0 then now div 1000 else gs_timestamp sessionData)) 86400)
     (returnA True)"

definition removeSession :: "'w redis \<Rightarrow> int \<Rightarrow> ('w, bool) act" where
  "removeSession M sessionId =
     bindA (DEL_COUNT M (GATEWAY_SESSION sessionId)) (\<lambda>result. returnA (0 < result))"

text \<open>Nothing but \<open>setLastSessionId\<close> writes the key, so a text that is no number, NaN, is left out.\<close>

definition getLastSessionId :: "'w redis \<Rightarrow> ('w, int) act" where
  "getLastSessionId M = catchA
     (bindA (GET M LAST_SESSION_ID) (\<lambda>lastSessionId. returnA
        (case present lastSessionId of
           None \<Rightarrow> 0
         | Some v \<Rightarrow> (case as_str v of None \<Rightarrow> 0
             | Some s \<Rightarrow> (case parseInt s of Some n \<Rightarrow> n | None \<Rightarrow> 0)))))
     (\<lambda>_. returnA 0)"

definition setLastSessionId :: "'w redis \<Rightarrow> int \<Rightarrow> ('w, unit) act" where
  "setLastSessionId M sessionId = catchA
     (SET M LAST_SESSION_ID (VStr (show_int sessionId))) (\<lambda>_. returnA ())"

end
