(* ===== verification/Sockets.thy ===== *)
theory Sockets
  imports NodeService SessionStore FileService UptimeTracker
begin

text \<open>
  What the socket server and its handlers keep in memory and share: the
  sessions (\<open>ClientSession\<close> of \<open>src/types/index.ts\<close>), the sockets, the events.
  A socket is named by the identifier of its session, which the server writes
  on it. The state of the server is beside the world of the server's Redis,
  disk and canister: \<open>call\<close> runs a method of a service on that world.
\<close>

section \<open>The state of the server\<close>

record ClientSession =
  cs_id :: int
  cs_isRegistered :: bool
  cs_clientId :: "string option"
  cs_connectedAt :: int
  cs_lastHeartbeat :: int
  cs_messagesSent :: int
  cs_messagesReceived :: int
  cs_userPrincipalId :: "string option"
  cs_wsSessionId :: "string option"
  cs_isNodeClient :: bool

record ServerStats =
  ss_totalConnections :: int
  ss_activeConnections :: int
  ss_messagesReceived :: int
  ss_messagesSent :: int
  ss_startTime :: int

text \<open>\<open>jobCompleted\<close> with a result or an error, and the other events that are emitted.\<close>

record JobOutcome =
  jo_jobId :: string
  jo_clientId :: string
  jo_content :: json
  jo_storedFileId :: "string option"
  jo_timestamp :: int

datatype server_event =
    JobSucceeded string JobOutcome
  | JobErred string string
  | SpeedTestReceived "string option" json
  | ClientRegistered int string string
  | ClientDisconnected int int string

text \<open>
  \<open>sv_open\<close> are the sockets whose \<open>readyState\<close> is \<open>OPEN\<close>; \<open>sv_closed\<close> the calls of \<open>ws.close\<close>;
  \<open>sv_sent\<close> what was sent on which socket, the value whose JSON or CBOR text is sent. The
  server and its two handlers have an \<open>UptimeTracker\<close> each, with a map of sessions each.
\<close>

record ServerState =
  sv_clients :: "(int, ClientSession) jsmap"
  sv_nextSessionId :: int
  sv_stats :: ServerStats
  sv_open :: "int list"
  sv_closed :: "(int \<times> int) list"
  sv_sent :: "(int \<times> json) list"
  sv_events :: "server_event list"
  sv_uptime :: sessions
  sv_node_uptime :: sessions
  sv_rpc_uptime :: sessions

type_synonym ('w, 'a) serve = "('w \<times> ServerState, 'a) act"

text \<open>
  What the server is built with: its services, and the parts that are arguments
  of the services. \<open>en_decode\<close> is \<open>cbor.decode\<close> on the \<open>val\<close> of a message, a tagged value being an
  object with the members \<open>tag\<close> and \<open>value\<close>.
\<close>

record 'w env =
  en_redis :: "'w redis"
  en_disk :: "'w disk"
  en_sessionTimeout :: int
  en_parse :: "string \<Rightarrow> json option"
  en_num :: "rat \<Rightarrow> string"
  en_decode :: "json \<Rightarrow> json option"
  en_sha256 :: "string \<Rightarrow> string"
  en_referral :: "'w task_referral"
  en_check24 :: "(string \<Rightarrow> ('w, Completion24h EntityResult) act) option"
  en_uptime :: UptimeConfig
  en_node_files :: "'w FileService"
  en_rpc_files :: "'w FileService"
  en_socket_files :: "'w FileService"
  en_content_files :: "'w FileService"

definition call :: "('w, 'a) act \<Rightarrow> ('w, 'a) serve" where
  "call m = (\<lambda>(w, s). case m w of (r, w') \<Rightarrow> (r, (w', s)))"

definition look :: "(ServerState \<Rightarrow> 'a) \<Rightarrow> ('w, 'a) serve" where
  "look f = (\<lambda>(w, s). (Inr (f s), (w, s)))"

definition change :: "(ServerState \<Rightarrow> ServerState) \<Rightarrow> ('w, unit) serve" where
  "change f = (\<lambda>(w, s). (Inr (), (w, f s)))"

definition emit :: "server_event \<Rightarrow> ('w, unit) serve" where
  "emit e = change (\<lambda>s. s\<lparr>sv_events := sv_events s @ [e]\<rparr>)"

lemma call_apply [act_simps]: "call m (w, s) = (case m w of (r, w') \<Rightarrow> (r, (w', s)))"
  by (simp add: call_def)

lemma look_apply [act_simps]: "look f (w, s) = (Inr (f s), (w, s))"
  by (simp add: look_def)

lemma change_apply [act_simps]: "change f (w, s) = (Inr (), (w, f s))"
  by (simp add: change_def)

lemma emit_apply [act_simps]: "emit e (w, s) = (Inr (), (w, s\<lparr>sv_events := sv_events s @ [e]\<rparr>))"
  by (simp add: emit_def change_apply)

text \<open>An assignment to a field of the session, which the map of the server shares.\<close>

definition modify_session :: "int \<Rightarrow> (ClientSession \<Rightarrow> ClientSession) \<Rightarrow> ServerState \<Rightarrow> ServerState" where
  "modify_session sid f s = (case map_get (sv_clients s) sid of
     None \<Rightarrow> s
   | Some cs \<Rightarrow> s\<lparr>sv_clients := map_set sid (f cs) (sv_clients s)\<rparr>)"

text \<open>\<open>if (ws.readyState === WebSocket.OPEN) ws.send(data)\<close>; a send on an open socket does not throw.\<close>

definition send :: "int \<Rightarrow> json \<Rightarrow> ServerState \<Rightarrow> ServerState" where
  "send sid data s = (if sid \<in> set (sv_open s) then s\<lparr>sv_sent := sv_sent s @ [(sid, data)]\<rparr> else s)"

text \<open>The handlers also count what they send.\<close>

definition send_counted :: "int \<Rightarrow> json \<Rightarrow> ServerState \<Rightarrow> ServerState" where
  "send_counted sid data s = (if sid \<in> set (sv_open s)
     then modify_session sid (\<lambda>cs. cs\<lparr>cs_messagesSent := cs_messagesSent cs + 1\<rparr>) (send sid data s) else s)"

definition close_socket :: "int \<Rightarrow> int \<Rightarrow> ServerState \<Rightarrow> ServerState" where
  "close_socket sid code s = s\<lparr>sv_open := removeAll sid (sv_open s), sv_closed := sv_closed s @ [(sid, code)]\<rparr>"

section \<open>Values of messages\<close>

text \<open>
  A destructured field of a message whose declared type is \<open>string\<close>; \<open>undefined\<close> and values of
  other types are \<open>None\<close>. Reading a field of \<open>null\<close> throws.
\<close>

definition text_field :: "json \<Rightarrow> string \<Rightarrow> string option" where
  "text_field v k = (case json_member v k of Some (JStr t) \<Rightarrow> Some t | _ \<Rightarrow> None)"

definition not_null :: "json \<Rightarrow> ('w, unit) act" where
  "not_null v = (if v = JNull then throwA ''TypeError'' else returnA ())"

text \<open>\<open>a || b\<close> on optional values\<close>

definition or_else :: "json option \<Rightarrow> json option \<Rightarrow> json option" where
  "or_else a b = (if json_truthy a then a else b)"

text \<open>\<open>String(v)\<close>, which \<open>JSON.parse\<close> applies to what it is given.\<close>

fun js_string :: "(rat \<Rightarrow> string) \<Rightarrow> json \<Rightarrow> string" where
  "js_string num JNull = ''null''"
| "js_string num (JBool b) = (if b then ''true'' else ''false'')"
| "js_string num (JNum r) = show_num num r"
| "js_string num (JStr s) = s"
| "js_string num (JArr xs) = join_with '','' (map (\<lambda>v. if v = JNull then [] else js_string num v) xs)"
| "js_string num (JObj _) = ''[object Object]''"

text \<open>\<open>JSON.stringify(v)\<close>\<close>

fun compact :: "(rat \<Rightarrow> string) \<Rightarrow> json \<Rightarrow> string" where
  "compact num JNull = ''null''"
| "compact num (JBool b) = (if b then ''true'' else ''false'')"
| "compact num (JNum r) = show_num num r"
| "compact num (JStr s) = quote s"
| "compact num (JArr xs) = ''['' @ join_with '','' (map (compact num) xs) @ '']''"
| "compact num (JObj kvs) =
     ''{'' @ join_with '','' (map (\<lambda>kv. quote (fst kv) @ '':'' @ compact num (snd kv)) kvs) @ ''}''"

abbreviation jint :: "int \<Rightarrow> json" where
  "jint n \<equiv> JNum (of_int n)"

definition opt_text :: "string option \<Rightarrow> json" where
  "opt_text x = (case x of None \<Rightarrow> JNull | Some t \<Rightarrow> JStr t)"

definition ok_reply :: "string \<Rightarrow> string \<Rightarrow> (string \<times> json) list \<Rightarrow> json" where
  "ok_reply f msg rest = JObj ([(''function'', JStr f), (''message'', JStr msg)] @ rest)"

definition error_reply :: "string \<Rightarrow> json" where
  "error_reply msg = ok_reply ''Error'' msg [(''status'', JStr ''ERROR'')]"

definition typed_error :: "string \<Rightarrow> string \<Rightarrow> json" where
  "typed_error msg t = ok_reply ''Error'' msg [(''status'', JStr ''ERROR''), (''errorType'', JStr t)]"

text \<open>\<open>sendError\<close> of the three classes\<close>

definition failure_reply :: "string \<Rightarrow> int \<Rightarrow> json" where
  "failure_reply msg now = JObj [(''success'', JBool False), (''error'', JStr msg), (''timestamp'', jint now)]"

end
