(* ===== verification/NodeHandler.thy ===== *)
theory NodeHandler
  imports Sockets
begin

text \<open>
  The class \<open>NodeWebSocketHandler\<close> (\<open>src/handlers/node_websocket_handler.ts\<close>): the
  messages of the nodes, the jobs sent to them and the results they return.
\<close>

text \<open>\<open>ApplicationMessage\<close>\<close>

record ApplicationMessage =
  am_text :: string
  am_data :: json
  am_user_principal_id :: string
  am_node_client_id :: string
  am_job_id :: "string option"
  am_post_count :: "int option"
  am_replies_count :: "int option"
  am_scrollPauseTime :: "int option"

definition node_activity ::
  "'w env \<Rightarrow> string \<Rightarrow> rat option \<Rightarrow> rat option \<Rightarrow> int \<Rightarrow> ('w, unit) serve" where
  "node_activity E uid speed ping now =
     bindA (look sv_node_uptime) (\<lambda>ss.
     bindA (call (updateClientActivity (en_redis E) ss uid speed ping now)) (\<lambda>(_, ss').
       change (\<lambda>s. s\<lparr>sv_node_uptime := ss'\<rparr>)))"

section \<open>The messages\<close>

definition handlePingMessage ::
  "'w env \<Rightarrow> string \<Rightarrow> string \<Rightarrow> int \<Rightarrow> int \<Rightarrow> ('w, json) serve" where
  "handlePingMessage E cid uid now rnd =
     bindA (call (connectClient (en_redis E) (en_sessionTimeout E) uid cid now rnd)) (\<lambda>connectResult.
     case connectResult of
       Failure _ m \<Rightarrow> throwA (''Failed to connect client: '' @ m)
     | Success _ \<Rightarrow> returnA (ok_reply ''Notification'' ''Client connect open''
         [(''user_principal_id'', JStr uid), (''state'', JStr ''Connected''), (''status'', JStr ''OK'')]))"

text \<open>
  A speed or a ping in a report: \<open>undefined\<close>, NaN or a number, the declared type; a member of
  another type counts as \<open>undefined\<close>. The tracker's averages are numbers, so a NaN is not
  among the samples of the model.
\<close>

datatype measured = Missing | NotANumber | Measured rat

definition measured_of :: "json option \<Rightarrow> measured" where
  "measured_of v = (case v of Some (JNum r) \<Rightarrow> Measured r | _ \<Rightarrow> Missing)"

definition measured_text :: "string \<Rightarrow> measured" where
  "measured_text t = (case parseFloat t of Some r \<Rightarrow> Measured r | None \<Rightarrow> NotANumber)"

fun sample :: "measured \<Rightarrow> rat option" where
  "sample (Measured r) = Some r"
| "sample _ = None"

definition report_members :: "json \<Rightarrow> measured \<times> measured" where
  "report_members v = (measured_of (or_else (json_member v ''downloadSpeed'') (json_member v ''speed'')),
     measured_of (json_member v ''ping''))"

definition speed_report :: "(string \<Rightarrow> json option) \<Rightarrow> (rat \<Rightarrow> string) \<Rightarrow> json \<Rightarrow> measured \<times> measured" where
  "speed_report parse num data = (case data of
       JStr t \<Rightarrow> (case parse t of
           None \<Rightarrow> (measured_text t, Missing)
         | Some v \<Rightarrow> if v = JNull then (measured_text t, Missing) else report_members v)
     | v \<Rightarrow> if json_is_object v then report_members v else (measured_text (js_string num v), Missing))"

definition handleSpeedTestMessage ::
  "'w env \<Rightarrow> string \<Rightarrow> json \<Rightarrow> int \<Rightarrow> ('w, json) serve" where
  "handleSpeedTestMessage E uid data now = catchA
     (case speed_report (en_parse E) (en_num E) data of (speed, ping) \<Rightarrow>
        thenA (if speed \<noteq> Missing \<or> ping \<noteq> Missing
               then node_activity E uid (sample speed) (sample ping) now else returnA ())
       (bindA (call (node_updateInternetSpeed (en_redis E) (en_parse E) uid (compact (en_num E) data) now))
        (\<lambda>speedResult. case speedResult of
           Failure _ m \<Rightarrow> throwA (''Failed to update speed: '' @ m)
         | Success _ \<Rightarrow> returnA (ok_reply ''SpeedTestComplete'' ''Speed test data updated''
             [(''status'', JStr ''OK'')]))))
     (\<lambda>e. throwA (''Failed to process speed test data: '' @ e))"

definition handleHaloMessage :: "string \<Rightarrow> ('w, json) serve" where
  "handleHaloMessage uid = returnA (ok_reply ''Notification'' ''HALO received''
     [(''user_principal_id'', JStr uid), (''status'', JStr ''OK''),
      (''data'', JStr ''Sending message to client - HALO HALO'')])"

definition or_zero :: "int option \<Rightarrow> int" where
  "or_zero x = (case x of None \<Rightarrow> 0 | Some n \<Rightarrow> n)"

definition handleJobMessage ::
  "string \<Rightarrow> string \<Rightarrow> json \<Rightarrow> string option \<Rightarrow> int option \<Rightarrow> int option \<Rightarrow> int option \<Rightarrow> ('w, json) serve" where
  "handleJobMessage cid messageType url jobId post_count replies_count scrollPauseTime = returnA (JObj
     [(''function'', JStr ''TWITTER_SCRAPE''), (''type'', JStr messageType), (''url'', url),
      (''job_id'', JStr (some_text jobId [])), (''message'', JStr ''Sending job to client''),
      (''client_id'', JStr cid), (''post_count'', jint (or_zero post_count)),
      (''replies_count'', jint (or_zero replies_count)),
      (''scrollPauseTime'', jint (or_zero scrollPauseTime)), (''status'', JStr ''OK'')])"

section \<open>Results\<close>

text \<open>
  What of a result is stored: the array itself, or the member \<open>content\<close> or \<open>result\<close>;
  \<open>None\<close> when it is empty.
\<close>

definition result_content :: "json \<Rightarrow> json option" where
  "result_content v = (case v of
       JArr [] \<Rightarrow> None
     | JArr (x # xs) \<Rightarrow> Some (JArr (x # xs))
     | _ \<Rightarrow> (let content = or_else (json_member v ''content'') (json_member v ''result'') in
         if \<not> json_truthy content then None
         else if content = Some (JArr []) then None else content))"

definition empty_results :: string where
  "empty_results = ''Scraping returned empty results - no data found''"

definition job_failed_reply :: "string \<Rightarrow> int \<Rightarrow> json" where
  "job_failed_reply jobId now = ok_reply ''JobFailed'' empty_results
     [(''status'', JStr ''ERROR''), (''errorType'', JStr ''NO_DATA_FOUND''),
      (''timestamp'', jint now), (''jobId'', JStr jobId)]"

definition job_complete_reply :: "string \<Rightarrow> rat \<Rightarrow> int \<Rightarrow> json" where
  "job_complete_reply jobId reward now = ok_reply ''JobComplete'' ''Job completed and result stored successfully''
     [(''status'', JStr ''OK''), (''timestamp'', jint now), (''reward'', JNum reward), (''jobId'', JStr jobId)]"

definition store_result ::
  "'w env \<Rightarrow> 'w FileService \<Rightarrow> string \<Rightarrow> json \<Rightarrow> string option \<Rightarrow> int \<Rightarrow> int \<Rightarrow> ('w, string option) serve" where
  "store_result E V jobId content uid now rnd = catchA
     (bindA (call (createFileFromJobResult (en_redis E) (en_disk E) V (en_sha256 E) (en_num E)
        \<lparr>jr_jobId = jobId, jr_content = Some content, jr_contentType = None, jr_fileName = None,
         jr_userPrincipalId = uid\<rparr> now rnd)) (\<lambda>fileResult. returnA (case fileResult of
           Success file \<Rightarrow> Some (f_id file) | Failure _ _ \<Rightarrow> None)))
     (\<lambda>_. returnA None)"

text \<open>\<open>updateJobCompleted\<close> of the server's \<open>DatabaseService\<close>, which reads the file back.\<close>

definition complete_job ::
  "'w env \<Rightarrow> 'w task_referral \<Rightarrow> string \<Rightarrow> string \<Rightarrow> string option \<Rightarrow> int \<Rightarrow> ('w, rat EntityResult) serve" where
  "complete_job E referral jobId cid storedFileId now = call (node_updateJobCompleted (en_redis E) (en_parse E)
     (\<lambda>i. getFileContentByStoredId (en_redis E) (en_disk E) (en_content_files E) i now)
     referral jobId cid storedFileId now)"

definition handleScrapeResultMessage ::
  "'w env \<Rightarrow> json \<Rightarrow> string \<Rightarrow> string \<Rightarrow> string \<Rightarrow> int \<Rightarrow> int \<Rightarrow> ('w, json) serve" where
  "handleScrapeResultMessage E data job_Id cid uid now rnd = catchA
     (let jobResultData = (case en_parse E (js_string (en_num E) data) of
            Some v \<Rightarrow> v
          | None \<Rightarrow> JObj [(''result'', data), (''timestamp'', jint now)]);
          jobId = (if truthy job_Id then job_Id else ''job_'' @ show_int now)
      in thenA (not_null jobResultData)
        (case result_content jobResultData of
           None \<Rightarrow>
             thenA (call (node_markJobAsFailed (en_redis E) jobId cid empty_results now))
            (thenA (emit (JobErred jobId empty_results))
            (returnA (job_failed_reply jobId now)))
         | Some content \<Rightarrow>
             bindA (store_result E (en_node_files E) jobId content (Some uid) now rnd) (\<lambda>storedFileId.
             bindA (complete_job E (en_referral E) jobId cid storedFileId now) (\<lambda>updateResult.
             case updateResult of
               Failure _ m \<Rightarrow> thenA (emit (JobErred jobId (''Failed to update job: '' @ m)))
                 (throwA (''Failed to update job: '' @ m))
             | Success reward \<Rightarrow>
                 thenA (emit (JobSucceeded jobId \<lparr>jo_jobId = jobId, jo_clientId = cid, jo_content = content,
                   jo_storedFileId = storedFileId, jo_timestamp = now\<rparr>))
                 (returnA (job_complete_reply jobId reward now))))))
     (\<lambda>e. thenA (emit (JobErred job_Id e))
            (returnA (typed_error (''Error processing scrape result: '' @ e) ''INTERNAL_SERVER_ERROR'')))"

definition heartbeat_reply :: "int \<Rightarrow> json" where
  "heartbeat_reply now = ok_reply ''HeartbeatAck'' ''Heartbeat acknowledged''
     [(''timestamp'', jint now), (''status'', JStr ''OK'')]"

definition handleHeartbeatMessage :: "'w env \<Rightarrow> string \<Rightarrow> int \<Rightarrow> ('w, json) serve" where
  "handleHeartbeatMessage E uid now =
     bindA (call (updateHeartbeat (en_redis E) uid now)) (\<lambda>heartbeatResult.
     case heartbeatResult of
       Failure _ m \<Rightarrow> throwA (''Failed to update heartbeat: '' @ m)
     | Success _ \<Rightarrow> returnA (heartbeat_reply now))"

definition status_reply :: json where
  "status_reply = ok_reply ''ClientStatusUpdate'' ''Client status updated successfully'' [(''status'', JStr ''OK'')]"

definition handleClientStatusMessage :: "'w env \<Rightarrow> string \<Rightarrow> json \<Rightarrow> int \<Rightarrow> ('w, json) serve" where
  "handleClientStatusMessage E uid data now = catchA
     (case en_parse E (js_string (en_num E) data) of
        None \<Rightarrow> throwA ''SyntaxError''
      | Some statusData \<Rightarrow> thenA (not_null statusData)
          (bindA (call (node_updateClientStatus (en_redis E) uid
             (json_truthy (json_member statusData ''isActive'')) now)) (\<lambda>updateResult.
           case updateResult of
             Failure _ m \<Rightarrow> throwA (''Failed to update status: '' @ m)
           | Success _ \<Rightarrow> returnA status_reply)))
     (\<lambda>_. returnA (error_reply ''Invalid status data format''))"

definition assignment_json :: "NodeAssignment \<Rightarrow> json" where
  "assignment_json a = JObj [(''user_principal_id'', JStr (an_user_principal_id a)),
     (''client_id'', JStr (an_client_id a)), (''downloadSpeed'', JNum (an_downloadSpeed a)),
     (''target'', JStr (an_target a)), (''jobType'', JStr (an_jobType a)),
     (''currentLoad'', jint (an_currentLoad a)), (''maxCapacity'', jint (an_maxCapacity a))]"

definition no_jobs_reply :: "int \<Rightarrow> json" where
  "no_jobs_reply now = ok_reply ''NoJobsAvailable'' ''No jobs available at the moment''
     [(''status'', JStr ''OK''), (''timestamp'', jint now)]"

text \<open>The user is handed to \<open>findAndAssignJob\<close>, whose argument is a job.\<close>

definition handleJobRequestMessage :: "'w env \<Rightarrow> string \<Rightarrow> int \<Rightarrow> ('w, json) serve" where
  "handleJobRequestMessage E uid now = catchA
     (bindA (call (node_findAndAssignJob (en_redis E) uid now)) (\<lambda>jobResult. returnA
        (case jobResult of
           Success (Some a) \<Rightarrow> ok_reply ''JobAssigned'' ''Job assigned successfully''
             [(''jobData'', assignment_json a), (''status'', JStr ''OK''), (''timestamp'', jint now)]
         | _ \<Rightarrow> no_jobs_reply now)))
     (\<lambda>e. returnA (typed_error (''Error processing job request: '' @ e) ''INTERNAL_SERVER_ERROR''))"

section \<open>Dispatch\<close>

definition job_types :: "string list" where
  "job_types = [''TWITTER_POST'', ''TWITTER_PROFILE'', ''TWITTER_FOLLOW_LIST'', ''HTML'']"

definition node_response ::
  "'w env \<Rightarrow> ApplicationMessage \<Rightarrow> int \<Rightarrow> int \<Rightarrow> ('w, json) serve" where
  "node_response E m now rnd =
     (let text = am_text m; uid = am_user_principal_id m; cid = am_node_client_id m in
      if text = ''PING'' then handlePingMessage E cid uid now rnd
      else if text = ''INTERNET_SPEED_TEST'' \<or> text = ''SPEED_TEST''
      then handleSpeedTestMessage E uid (am_data m) now
      else if text = ''HALO'' then handleHaloMessage uid
      else if text \<in> set job_types
      then handleJobMessage cid text (am_data m) (am_job_id m) (am_post_count m) (am_replies_count m)
             (am_scrollPauseTime m)
      else if text = ''TWITTER_SCRAPE_RESULT''
      then handleScrapeResultMessage E (am_data m) (some_text (am_job_id m) []) cid uid now rnd
      else if text = ''HEARTBEAT'' then handleHeartbeatMessage E uid now
      else if text = ''CLIENT_STATUS'' then handleClientStatusMessage E uid (am_data m) now
      else if text = ''JOB_REQUEST'' then handleJobRequestMessage E uid now
      else throwA (''Unsupported node message type: '' @ text))"

definition sendWebSocketResponse :: "ClientSession \<Rightarrow> json \<Rightarrow> ('w, unit) serve" where
  "sendWebSocketResponse cs response = change (send_counted (cs_id cs) response)"

definition handleNodeMessage ::
  "'w env \<Rightarrow> ClientSession \<Rightarrow> ApplicationMessage \<Rightarrow> int \<Rightarrow> int \<Rightarrow> ('w, unit) serve" where
  "handleNodeMessage E cs m now rnd = catchA
     (bindA (call (requestAuth (en_redis E) (am_user_principal_id m))) (\<lambda>authResult.
        if \<not> authResult then throwA (''Authentication failed for user: '' @ am_user_principal_id m)
        else bindA (node_response E m now rnd) (sendWebSocketResponse cs)))
     (\<lambda>e. sendWebSocketResponse cs (error_reply (''Node message handling failed: '' @ e)))"

definition node_message :: "json \<Rightarrow> string \<Rightarrow> ApplicationMessage option" where
  "node_message v cid = (case (text_field v ''text'', text_field v ''user_principal_id'') of
     (Some text, Some uid) \<Rightarrow> if text = [] \<or> uid = [] then None else Some
       \<lparr>am_text = text, am_data = the (or_else (json_member v ''data'') (Some (JStr []))),
        am_user_principal_id = uid, am_node_client_id = cid,
        am_job_id = Some (some_text (text_field v ''job_id'') []),
        am_post_count = None, am_replies_count = None, am_scrollPauseTime = None\<rparr>
   | _ \<Rightarrow> None)"

definition processWebSocketMessage ::
  "'w env \<Rightarrow> ClientSession \<Rightarrow> json \<Rightarrow> int \<Rightarrow> int \<Rightarrow> ('w, unit) serve" where
  "processWebSocketMessage E cs messageData now rnd = catchA
     (if some_text (cs_clientId cs) [] = [] then throwA ''Client ID not found in session''
      else (case node_message messageData (the (cs_clientId cs)) of
          None \<Rightarrow> throwA ''Missing required fields in application message''
        | Some m \<Rightarrow>
            thenA (if some_text (cs_userPrincipalId cs) [] = [] then returnA ()
                   else node_activity E (the (cs_userPrincipalId cs)) None None now)
            (handleNodeMessage E cs m now rnd)))
     (\<lambda>e. change (send (cs_id cs) (failure_reply (''Node message processing failed: '' @ e) now)))"

section \<open>Sending\<close>

datatype send_result = Sent | NotSent string

definition node_sendJobToClient ::
  "'w env \<Rightarrow> ClientSession \<Rightarrow> string \<Rightarrow> string \<Rightarrow> string \<Rightarrow> string option \<Rightarrow> int \<Rightarrow> int \<Rightarrow> int \<Rightarrow>
   int \<Rightarrow> int \<Rightarrow> ('w, send_result) serve" where
  "node_sendJobToClient E cs uid url scrapeType jobId post_count replies_count scrollPauseTime now rnd = catchA
     (if some_text (cs_clientId cs) [] = [] then returnA (NotSent ''Client session has no client ID'')
      else thenA (handleNodeMessage E cs
             \<lparr>am_text = scrapeType, am_data = JStr url, am_user_principal_id = uid,
              am_node_client_id = the (cs_clientId cs), am_job_id = Some (some_text jobId []),
              am_post_count = Some post_count, am_replies_count = Some replies_count,
              am_scrollPauseTime = Some scrollPauseTime\<rparr> now rnd)
           (returnA Sent))
     (\<lambda>e. returnA (NotSent (''Failed to send job to client: '' @ e)))"

definition broadcast_one ::
  "'w env \<Rightarrow> ApplicationMessage \<Rightarrow> int \<Rightarrow> int \<Rightarrow> int \<Rightarrow> int \<times> ClientSession \<Rightarrow> ('w, int) serve" where
  "broadcast_one E m now rnd successCount e = bindA (look sv_open) (\<lambda>open_ids.
     if fst e \<in> set open_ids \<and> cs_isRegistered (snd e) \<and> cs_clientId (snd e) \<noteq> None
     then catchA (thenA (handleNodeMessage E (snd e) m now rnd) (returnA (successCount + 1)))
            (\<lambda>_. returnA successCount)
     else returnA successCount)"

definition node_broadcastToClients ::
  "'w env \<Rightarrow> (int, ClientSession) jsmap \<Rightarrow> ApplicationMessage \<Rightarrow> int \<Rightarrow> int \<Rightarrow> ('w, int) serve" where
  "node_broadcastToClients E clientSessions m now rnd = foldA (broadcast_one E m now rnd) 0 clientSessions"

definition node_message_types :: "string list" where
  "node_message_types = [''PING'', ''INTERNET_SPEED_TEST'', ''SPEED_TEST'', ''HALO'', ''TWITTER_POST'',
     ''TWITTER_PROFILE'', ''TWITTER_FOLLOW_LIST'', ''HTML'', ''TWITTER_SCRAPE_RESULT'', ''HEARTBEAT'',
     ''CLIENT_STATUS'', ''JOB_REQUEST'']"

definition isNodeMessage :: "string \<Rightarrow> bool" where
  "isNodeMessage messageType \<longleftrightarrow> messageType \<in> set node_message_types"

section \<open>Sessions\<close>

text \<open>\<open>None\<close> is success.\<close>

definition initializeNodeSession ::
  "'w env \<Rightarrow> ClientSession \<Rightarrow> string \<Rightarrow> int \<Rightarrow> int \<Rightarrow> ('w, string option) serve" where
  "initializeNodeSession E cs uid now rnd = catchA
     (if some_text (cs_clientId cs) [] = [] then returnA (Some ''Client session has no client ID'')
      else thenA (call (createWebSocketSession (en_redis E) (en_sessionTimeout E) uid (the (cs_clientId cs)) now rnd))
          (thenA (change (modify_session (cs_id cs) (\<lambda>c. c\<lparr>cs_isNodeClient := True\<rparr>))) (returnA None)))
     (\<lambda>e. returnA (Some (''Node session initialization failed: '' @ e)))"

definition cleanupNodeSession :: "'w env \<Rightarrow> string \<Rightarrow> int \<Rightarrow> ('w, unit) serve" where
  "cleanupNodeSession E uid now = catchA
     (thenA (call (endWebSocketSession (en_redis E) uid now)) (returnA ())) (\<lambda>_. returnA ())"

end
