(* ===== verification/RpcHandler.thy ===== *)
theory RpcHandler
  imports NodeHandler
begin

text \<open>
  The class \<open>RpcWebSocketHandler\<close> (\<open>src/handlers/rpc_websocket_handler.ts\<close>) and the
  class \<open>WebSocketFileHandler\<close> (\<open>src/handlers/websocket_file_handler.ts\<close>). The handler
  makes a \<open>DatabaseService\<close> of its own, on which no referral service is set.
\<close>

section \<open>Messages\<close>

definition rpc_activity ::
  "'w env \<Rightarrow> string \<Rightarrow> rat option \<Rightarrow> rat option \<Rightarrow> int \<Rightarrow> ('w, unit) serve" where
  "rpc_activity E uid speed ping now =
     bindA (look sv_rpc_uptime) (\<lambda>ss.
     bindA (call (updateClientActivity (en_redis E) ss uid speed ping now)) (\<lambda>(_, ss').
       change (\<lambda>s. s\<lparr>sv_rpc_uptime := ss'\<rparr>)))"

definition rpc_ping :: "'w env \<Rightarrow> string \<Rightarrow> int \<Rightarrow> ('w, json) serve" where
  "rpc_ping E uid now = thenA (call (wsUpdateHeartbeat (en_redis E) uid now))
     (returnA (ok_reply ''Notification'' ''Client connect open''
        [(''user_principal_id'', JStr uid), (''state'', JStr ''Connected''), (''status'', JStr ''OK'')]))"

definition rpc_job_message :: "ClientSession \<Rightarrow> string \<Rightarrow> json \<Rightarrow> ('w, json) serve" where
  "rpc_job_message cs messageType url = returnA (JObj
     [(''function'', JStr ''TWITTER_SCRAPE''), (''type'', JStr messageType), (''url'', url),
      (''message'', JStr ''Sending job to client''), (''client_id'', opt_text (cs_clientId cs)),
      (''status'', JStr ''OK'')])"

text \<open>The result of a job names the job itself; its content is stored without a user and never empty-checked.\<close>

definition rpc_scrape_result :: "'w env \<Rightarrow> json \<Rightarrow> string \<Rightarrow> int \<Rightarrow> int \<Rightarrow> ('w, json) serve" where
  "rpc_scrape_result E data cid now rnd = catchA
     (let jobResultData = (case en_parse E (js_string (en_num E) data) of
            Some v \<Rightarrow> v
          | None \<Rightarrow> JObj [(''result'', data), (''timestamp'', jint now)]);
          jobId = js_string (en_num E) (the (or_else (json_member jobResultData ''jobId'') (Some data)));
          content = or_else (json_member jobResultData ''content'') (json_member jobResultData ''result'')
      in thenA (not_null jobResultData)
        (thenA (if json_truthy content
                then thenA (call (createFileFromJobResult (en_redis E) (en_disk E) (en_rpc_files E)
                       (en_sha256 E) (en_num E) \<lparr>jr_jobId = jobId, jr_content = content, jr_contentType = None,
                        jr_fileName = None, jr_userPrincipalId = None\<rparr> now rnd)) (returnA ())
                else returnA ())
        (bindA (complete_job E None jobId cid None now) (\<lambda>updateResult. returnA (case updateResult of
            Success reward \<Rightarrow> job_complete_reply jobId reward now
          | Failure _ m \<Rightarrow> typed_error (''Error updating job: '' @ m) ''JOB_NOT_FOUND'')))))
     (\<lambda>e. returnA (typed_error (''Error processing scrape result: '' @ e) ''INTERNAL_SERVER_ERROR''))"

text \<open>What is handed to the service as text, and what the event carries.\<close>

definition speed_text :: "(rat \<Rightarrow> string) \<Rightarrow> json \<Rightarrow> string" where
  "speed_text num data = (case data of
       JStr t \<Rightarrow> t | v \<Rightarrow> if json_is_object v then compact num v else js_string num v)"

definition speed_value :: "(string \<Rightarrow> json option) \<Rightarrow> json \<Rightarrow> json" where
  "speed_value parse data = (case data of
       JStr t \<Rightarrow> (case parse t of Some v \<Rightarrow> v | None \<Rightarrow> JObj [(''downloadSpeed'', data)])
     | v \<Rightarrow> if json_is_object v then v else JObj [(''downloadSpeed'', v)])"

definition rpc_speed_test :: "'w env \<Rightarrow> ClientSession \<Rightarrow> string \<Rightarrow> json \<Rightarrow> int \<Rightarrow> ('w, json) serve" where
  "rpc_speed_test E cs uid data now = catchA
     (case speed_report (en_parse E) (en_num E) data of (speed, ping) \<Rightarrow>
        thenA (if speed \<noteq> Missing \<or> ping \<noteq> Missing
               then rpc_activity E uid (sample speed) (sample ping) now else returnA ())
       (bindA (call (updateClientInternetSpeed (en_redis E) (en_parse E) uid (speed_text (en_num E) data) now))
        (\<lambda>speedResult. case speedResult of
           Success _ \<Rightarrow> thenA (emit (SpeedTestReceived (cs_clientId cs) (speed_value (en_parse E) data)))
             (returnA (ok_reply ''SpeedTestComplete'' ''Speed test data updated'' [(''status'', JStr ''OK'')]))
         | Failure _ m \<Rightarrow> returnA (error_reply (''Error: '' @ m)))))
     (\<lambda>e. returnA (error_reply (''Failed to process speed test data: '' @ e)))"

definition rpc_client_status :: "'w env \<Rightarrow> string \<Rightarrow> json \<Rightarrow> int \<Rightarrow> ('w, json) serve" where
  "rpc_client_status E uid data now = catchA
     (case en_parse E (js_string (en_num E) data) of
        None \<Rightarrow> throwA ''SyntaxError''
      | Some statusData \<Rightarrow> thenA (not_null statusData)
          (bindA (call (updateClient (en_redis E) uid
             [Client_status (if json_truthy (json_member statusData ''isActive'') then ''Active'' else ''Inactive''),
              PingTimestamp now])) (\<lambda>updateResult. returnA
             (case updateResult of Success _ \<Rightarrow> status_reply | Failure _ m \<Rightarrow> error_reply (''Error: '' @ m)))))
     (\<lambda>_. returnA (error_reply ''Invalid status data format''))"

definition rpc_heartbeat :: "'w env \<Rightarrow> string \<Rightarrow> int \<Rightarrow> ('w, json) serve" where
  "rpc_heartbeat E uid now = bindA (call (wsUpdateHeartbeat (en_redis E) uid now)) (\<lambda>r. returnA
     (case r of Success _ \<Rightarrow> heartbeat_reply now | Failure _ _ \<Rightarrow> error_reply ''Failed to update heartbeat''))"

definition rpc_response ::
  "'w env \<Rightarrow> ClientSession \<Rightarrow> ApplicationMessage \<Rightarrow> int \<Rightarrow> int \<Rightarrow> ('w, json) serve" where
  "rpc_response E cs m now rnd =
     (let text = am_text m; uid = am_user_principal_id m in
      if text = ''PING'' then rpc_ping E uid now
      else if text \<in> set job_types then rpc_job_message cs text (am_data m)
      else if text = ''TWITTER_SCRAPE_RESULT'' then rpc_scrape_result E (am_data m) (am_node_client_id m) now rnd
      else if text = ''SPEED_TEST'' then rpc_speed_test E cs uid (am_data m) now
      else if text = ''CLIENT_STATUS'' then rpc_client_status E uid (am_data m) now
      else if text = ''JOB_REQUEST'' then handleJobRequestMessage E uid now
      else if text = ''HEARTBEAT'' then rpc_heartbeat E uid now
      else throwA (''Unsupported message type: '' @ text))"

text \<open>The response is sent as the member \<open>data\<close> of a CBOR map.\<close>

definition sendApplicationResponse :: "'w env \<Rightarrow> ClientSession \<Rightarrow> json \<Rightarrow> ('w, unit) serve" where
  "sendApplicationResponse E cs response =
     change (send_counted (cs_id cs) (JObj [(''data'', JStr (compact (en_num E) response))]))"

definition handleApplicationMessage ::
  "'w env \<Rightarrow> ClientSession \<Rightarrow> ApplicationMessage \<Rightarrow> int \<Rightarrow> int \<Rightarrow> ('w, unit) serve" where
  "handleApplicationMessage E cs m now rnd = catchA
     (bindA (call (requestAuth (en_redis E) (am_user_principal_id m))) (\<lambda>authResult.
        if \<not> authResult then throwA (''Authentication failed for user: '' @ am_user_principal_id m)
        else bindA (rpc_response E cs m now rnd) (sendApplicationResponse E cs)))
     (\<lambda>e. sendApplicationResponse E cs (error_reply (''Message handling failed: '' @ e)))"

text \<open>The decoded \<open>val\<close>, without the tag of self-described CBOR.\<close>

definition untagged :: "json \<Rightarrow> json" where
  "untagged v = (if json_member v ''tag'' = Some (JNum 55799) \<and> json_truthy (json_member v ''value'')
     then the (json_member v ''value'') else v)"

definition rpc_message :: "json \<Rightarrow> ApplicationMessage option" where
  "rpc_message v = (case (text_field v ''text'', text_field v ''user_principal_id'') of
     (Some text, Some uid) \<Rightarrow> if text = [] \<or> uid = [] then None else Some
       \<lparr>am_text = text, am_data = the (or_else (json_member v ''data'') (Some (JStr []))),
        am_user_principal_id = uid, am_node_client_id = some_text (text_field v ''node_client_id'') ''0'',
        am_job_id = None, am_post_count = None, am_replies_count = None, am_scrollPauseTime = None\<rparr>
   | _ \<Rightarrow> None)"

definition rpc_error :: "string \<Rightarrow> int \<Rightarrow> json" where
  "rpc_error msg now = JObj [(''error'', JStr msg), (''timestamp'', jint now)]"

definition processApplicationMessage ::
  "'w env \<Rightarrow> ClientSession \<Rightarrow> json \<Rightarrow> int \<Rightarrow> int \<Rightarrow> ('w, unit) serve" where
  "processApplicationMessage E cs messageData now rnd = catchA
     (case (case json_member messageData ''val'' of None \<Rightarrow> None | Some v \<Rightarrow> en_decode E v) of
        None \<Rightarrow> throwA ''Invalid application message format''
      | Some decoded \<Rightarrow> thenA (not_null decoded)
          (thenA (not_null (untagged decoded))
          (case rpc_message (untagged decoded) of
             None \<Rightarrow> throwA ''Missing required fields in application message''
           | Some m \<Rightarrow> handleApplicationMessage E cs m now rnd)))
     (\<lambda>e. change (send (cs_id cs) (rpc_error (''Application message processing failed: '' @ e) now)))"

section \<open>Sending\<close>

definition rpc_sendJobToClient ::
  "'w env \<Rightarrow> ClientSession \<Rightarrow> string \<Rightarrow> string \<Rightarrow> string \<Rightarrow> int \<Rightarrow> int \<Rightarrow> ('w, send_result) serve" where
  "rpc_sendJobToClient E cs uid url scrapeType now rnd = catchA
     (thenA (handleApplicationMessage E cs
        \<lparr>am_text = scrapeType, am_data = JStr url, am_user_principal_id = uid,
         am_node_client_id = some_text (cs_clientId cs) ''0'', am_job_id = None, am_post_count = None,
         am_replies_count = None, am_scrollPauseTime = None\<rparr> now rnd)
      (returnA Sent))
     (\<lambda>e. returnA (NotSent (''Failed to send job to client: '' @ e)))"

definition rpc_broadcast_one ::
  "'w env \<Rightarrow> ApplicationMessage \<Rightarrow> int \<Rightarrow> int \<Rightarrow> int \<Rightarrow> int \<times> ClientSession \<Rightarrow> ('w, int) serve" where
  "rpc_broadcast_one E m now rnd successCount e = bindA (look sv_open) (\<lambda>open_ids.
     if fst e \<in> set open_ids \<and> cs_isRegistered (snd e)
     then catchA (thenA (handleApplicationMessage E (snd e) m now rnd) (returnA (successCount + 1)))
            (\<lambda>_. returnA successCount)
     else returnA successCount)"

definition rpc_broadcastToClients ::
  "'w env \<Rightarrow> (int, ClientSession) jsmap \<Rightarrow> ApplicationMessage \<Rightarrow> int \<Rightarrow> int \<Rightarrow> ('w, int) serve" where
  "rpc_broadcastToClients E clientSessions m now rnd = foldA (rpc_broadcast_one E m now rnd) 0 clientSessions"

section \<open>Uploads\<close>

text \<open>
  \<open>Buffer.from(content, 'base64')\<close>: the characters of the alphabet (either form)
  before the padding, four to three bytes; others are skipped.
\<close>

definition sextet :: "char \<Rightarrow> nat option" where
  "sextet c = (let n = (of_char c :: nat) in
     if 65 \<le> n \<and> n \<le> 90 then Some (n - 65)
     else if 97 \<le> n \<and> n \<le> 122 then Some (n - 71)
     else if 48 \<le> n \<and> n \<le> 57 then Some (n + 4)
     else if c = CHR ''+'' \<or> c = CHR ''-'' then Some 62
     else if c = CHR 0x2F \<or> c = CHR ''_'' then Some 63 else None)"

fun octets :: "nat list \<Rightarrow> string" where
  "octets (a # b # c # d # xs) =
     [char_of (4 * a + b div 16), char_of (16 * (b mod 16) + c div 4), char_of (64 * (c mod 4) + d)] @ octets xs"
| "octets [a, b, c] = [char_of (4 * a + b div 16), char_of (16 * (b mod 16) + c div 4)]"
| "octets [a, b] = [char_of (4 * a + b div 16)]"
| "octets _ = []"

definition base64_bytes :: "string \<Rightarrow> string" where
  "base64_bytes s = octets (somes (map sextet (takeWhile (\<lambda>c. c \<noteq> CHR ''='') s)))"

definition upload_response :: "bool \<Rightarrow> string \<Rightarrow> string option \<Rightarrow> string option \<Rightarrow> int \<Rightarrow> json" where
  "upload_response success msg error fileId now = JObj
     ([(''type'', JStr ''file_upload_response''), (''success'', JBool success), (''message'', JStr msg)]
      @ (case error of None \<Rightarrow> [] | Some e \<Rightarrow> [(''error'', JStr e)])
      @ (case fileId of None \<Rightarrow> [] | Some i \<Rightarrow> [(''file_id'', JStr i)]) @ [(''timestamp'', jint now)])"

definition upload_reply ::
  "ClientSession \<Rightarrow> bool \<Rightarrow> string \<Rightarrow> string option \<Rightarrow> string option \<Rightarrow> int \<Rightarrow> ('w, unit) serve" where
  "upload_reply cs success msg error fileId now =
     change (send (cs_id cs) (upload_response success msg error fileId now))"

definition handleFileUpload ::
  "'w env \<Rightarrow> ClientSession \<Rightarrow> json \<Rightarrow> int \<Rightarrow> int \<Rightarrow> ('w, unit) serve" where
  "handleFileUpload E cs v now rnd = catchA
     (let field = (\<lambda>k. some_text (text_field v k) []);
          fileData = base64_bytes (field ''content'')
      in if some_text (cs_userPrincipalId cs) [] = []
         then upload_reply cs False ''User not authenticated'' (Some ''Authentication required'') None now
         else if field ''name'' = [] \<or> field ''content_type'' = [] \<or> field ''job_id'' = [] \<or> field ''content'' = []
         then upload_reply cs False ''Missing required fields: name, content_type, job_id, content''
                (Some ''Validation failed'') None now
         else if fileData = []
         then upload_reply cs False ''Invalid file content'' (Some ''Content conversion failed'') None now
         else bindA (call (createFile (en_redis E) (en_disk E) (fv_baseDataPath (en_socket_files E))
                \<lparr>fu_name = field ''name'', fu_content_type = field ''content_type'',
                 fu_size = int (length fileData), fu_user_principal_id = the (cs_userPrincipalId cs),
                 fu_job_id = field ''job_id''\<rparr> now rnd)) (\<lambda>createFileResult.
              case createFileResult of
                Failure _ m \<Rightarrow> upload_reply cs False ''Failed to create file''
                  (Some (if m = [] then ''Unknown error'' else m)) None now
              | Success file \<Rightarrow> catchA
                  (thenA (call (writeFileData (en_disk E) (f_file_path file) fileData))
                   (upload_reply cs True ''File uploaded successfully'' None (Some (f_id file)) now))
                  (\<lambda>_. upload_reply cs False ''Failed to write file data'' (Some ''File write error'') None now)))
     (\<lambda>_. upload_reply cs False ''Internal server error'' (Some ''Server error'') None now)"

end
