(* ===== verification/Server.thy ===== *)
theory Server
  imports RpcHandler Utf8
begin

text \<open>
  The class \<open>SelaWebSocketServer\<close> (\<open>src/server.ts\<close>): connections, registration, the
  dispatch of messages, the choice of the socket a job is sent on, and what is
  done when a socket closes. Opening the listening socket and the logs are left
  out.
\<close>

section \<open>Starting\<close>

definition new_stats :: "int \<Rightarrow> ServerStats" where
  "new_stats now = \<lparr>ss_totalConnections = 0, ss_activeConnections = 0, ss_messagesReceived = 0,
     ss_messagesSent = 0, ss_startTime = now\<rparr>"

definition newServer :: "int \<Rightarrow> ServerState" where
  "newServer now = \<lparr>sv_clients = [], sv_nextSessionId = 1, sv_stats = new_stats now, sv_open = [],
     sv_closed = [], sv_sent = [], sv_events = [], sv_uptime = [], sv_node_uptime = [], sv_rpc_uptime = []\<rparr>"

definition initializeSessionId :: "'w env \<Rightarrow> ('w, unit) serve" where
  "initializeSessionId E = catchA
     (bindA (call (getLastSessionId (en_redis E))) (\<lambda>lastSessionId.
        change (\<lambda>s. s\<lparr>sv_nextSessionId := lastSessionId + 1\<rparr>)))
     (\<lambda>_. change (\<lambda>s. s\<lparr>sv_nextSessionId := 1\<rparr>))"

definition getNextSessionId :: "'w env \<Rightarrow> ('w, int) serve" where
  "getNextSessionId E =
     bindA (look sv_nextSessionId) (\<lambda>sessionId.
     thenA (change (\<lambda>s. s\<lparr>sv_nextSessionId := sessionId + 1\<rparr>))
    (thenA (catchA (call (setLastSessionId (en_redis E) sessionId)) (\<lambda>_. returnA ()))
    (returnA sessionId)))"

section \<open>Connections\<close>

text \<open>
  \<open>decodeURIComponent\<close>: the bytes of the escapes must be UTF-8; \<open>None\<close> is the
  \<open>URIError\<close> it throws.
\<close>

fun unescape :: "string \<Rightarrow> string option" where
  "unescape [] = Some []"
| "unescape (c # cs) = (if c = CHR ''%'' then
     (case cs of a # b # rest \<Rightarrow> (case (hex_digit a, hex_digit b) of
          (Some x, Some y) \<Rightarrow> map_option ((#) (char_of (16 * x + y))) (unescape rest)
        | _ \<Rightarrow> None)
      | _ \<Rightarrow> None)
     else map_option ((#) c) (unescape cs))"

definition decodeURIComponent :: "string \<Rightarrow> string option" where
  "decodeURIComponent s = (case unescape s of
     None \<Rightarrow> None | Some t \<Rightarrow> if is_text t then Some t else None)"

text \<open>The header and the query parameters of the request, the latter decoded once.\<close>

record ConnectionRequest =
  cq_authorization :: "string option"
  cq_query_authorization :: "string option"
  cq_query_principal_id :: "string option"

definition bearer :: "string \<Rightarrow> string" where
  "bearer s = (case split_on (CHR '' '') s of
     [kind, token] \<Rightarrow> if kind = ''Bearer'' then token else s | _ \<Rightarrow> s)"

definition without_bearer :: "string \<Rightarrow> string" where
  "without_bearer s = (if prefix ''Bearer '' s then drop 7 s else s)"

definition principal_of :: "ConnectionRequest \<Rightarrow> ('w, string option) act" where
  "principal_of r = bindA
     (if some_text (cq_authorization r) [] \<noteq> [] then returnA (Some (bearer (the (cq_authorization r))))
      else if some_text (cq_query_authorization r) [] \<noteq> [] then
        (case decodeURIComponent (the (cq_query_authorization r)) of
           None \<Rightarrow> throwA ''URIError'' | Some t \<Rightarrow> returnA (Some (bearer t)))
      else if some_text (cq_query_principal_id r) [] \<noteq> [] then returnA (cq_query_principal_id r)
      else returnA None) (\<lambda>principalId. returnA (map_option without_bearer principalId))"

definition new_client_session :: "int \<Rightarrow> string option \<Rightarrow> int \<Rightarrow> ClientSession" where
  "new_client_session sessionId principalId now = \<lparr>cs_id = sessionId, cs_isRegistered = False,
     cs_clientId = None, cs_connectedAt = now, cs_lastHeartbeat = now, cs_messagesSent = 0,
     cs_messagesReceived = 0, cs_userPrincipalId = principalId, cs_wsSessionId = None,
     cs_isNodeClient = False\<rparr>"

text \<open>The socket is open when the server is told of it.\<close>

definition handleNewConnection :: "'w env \<Rightarrow> ConnectionRequest \<Rightarrow> int \<Rightarrow> ('w, int) serve" where
  "handleNewConnection E request now =
     bindA (getNextSessionId E) (\<lambda>sessionId.
     thenA (change (\<lambda>s. s\<lparr>sv_open := sv_open s @ [sessionId]\<rparr>))
    (bindA (principal_of request) (\<lambda>principalId.
     thenA (change (\<lambda>s. s\<lparr>
         sv_stats := (sv_stats s)\<lparr>ss_totalConnections := ss_totalConnections (sv_stats s) + 1,
           ss_activeConnections := ss_activeConnections (sv_stats s) + 1\<rparr>,
         sv_clients := map_set sessionId (new_client_session sessionId principalId now) (sv_clients s)\<rparr>))
     (returnA sessionId))))"

text \<open>The timer of 300 seconds, which the first message clears.\<close>

definition registrationTimeout :: "int \<Rightarrow> ServerState \<Rightarrow> ServerState" where
  "registrationTimeout sid s = (case map_get (sv_clients s) sid of
     Some cs \<Rightarrow> if cs_isRegistered cs then s else close_socket sid 1008 s | None \<Rightarrow> s)"

section \<open>Registration\<close>

text \<open>The random numbers of a registration: of the referral code and of three sessions.\<close>

record Draws =
  dr_code :: "nat list"
  dr_connect :: int
  dr_node :: int
  dr_ws :: int
  dr_hex :: string

definition registering_user :: "'w env \<Rightarrow> ClientSession \<Rightarrow> string \<Rightarrow> ('w, string) serve" where
  "registering_user E cs text = (if some_text (cs_userPrincipalId cs) [] \<noteq> []
     then returnA (the (cs_userPrincipalId cs))
     else (case en_parse E text of
         None \<Rightarrow> throwA ''Invalid JSON message format''
       | Some v \<Rightarrow> if some_text (text_field v ''principal_id'') [] = []
           then throwA ''Invalid JSON message format'' else returnA (the (text_field v ''principal_id''))))"

definition registered_session :: "string \<Rightarrow> string \<Rightarrow> ClientSession \<Rightarrow> ClientSession" where
  "registered_session uid cid cs = cs\<lparr>cs_isRegistered := True, cs_clientId := Some cid, cs_userPrincipalId := Some uid\<rparr>"

text \<open>\<open>sendJsonResponse\<close> and \<open>sendError\<close>\<close>

definition sendJsonResponse :: "int \<Rightarrow> json \<Rightarrow> ('w, unit) serve" where
  "sendJsonResponse sid data = change (send sid data)"

definition server_sendError :: "int \<Rightarrow> string \<Rightarrow> int \<Rightarrow> ('w, unit) serve" where
  "server_sendError sid msg now = sendJsonResponse sid (failure_reply msg now)"

definition failed_response :: "string \<Rightarrow> json" where
  "failed_response msg = JObj [(''success'', JBool False), (''error'', JStr msg)]"

definition registration_response :: "string \<Rightarrow> int \<Rightarrow> json" where
  "registration_response cid sid = JObj [(''success'', JBool True), (''message'', JStr ''Registration successful''),
     (''clientId'', JStr cid), (''sessionId'', jint sid)]"

definition start_uptime :: "'w env \<Rightarrow> string \<Rightarrow> int \<Rightarrow> string \<Rightarrow> ('w, unit) serve" where
  "start_uptime E uid now hex = bindA (look sv_uptime) (\<lambda>ss.
     bindA (call (initializeUptimeTracking (en_redis E) ss uid now hex)) (\<lambda>(_, ss').
       change (\<lambda>s. s\<lparr>sv_uptime := ss'\<rparr>)))"

text \<open>What follows once the session is marked as registered.\<close>

definition finish_registration ::
  "'w env \<Rightarrow> ClientSession \<Rightarrow> string \<Rightarrow> string \<Rightarrow> int \<Rightarrow> Draws \<Rightarrow> ('w, unit) serve" where
  "finish_registration E cs uid cid now d =
     bindA (initializeNodeSession E (registered_session uid cid cs) uid now (dr_node d)) (\<lambda>nodeInitResult.
     case nodeInitResult of
       Some error \<Rightarrow> server_sendError (cs_id cs) error now
     | None \<Rightarrow>
         thenA (start_uptime E uid now (dr_hex d))
        (thenA (call (saveSession (en_redis E) (cs_id cs)
            \<lparr>gs_client_id = cid, gs_canister_id = uid, gs_timestamp = now div 1000\<rparr> now))
        (bindA (call (wsCreateSession (en_redis E) (en_sessionTimeout E) uid cid now (dr_ws d))) (\<lambda>wsSessionId.
         thenA (change (modify_session (cs_id cs) (\<lambda>c. c\<lparr>cs_wsSessionId := Some wsSessionId\<rparr>)))
        (thenA (sendJsonResponse (cs_id cs) (registration_response cid (cs_id cs)))
         (emit (ClientRegistered (cs_id cs) cid uid)))))))"

definition handleRegistrationMessage ::
  "'w env \<Rightarrow> ClientSession \<Rightarrow> string \<Rightarrow> int \<Rightarrow> Draws \<Rightarrow> ('w, unit) serve" where
  "handleRegistrationMessage E cs text now d = catchA
     (bindA (registering_user E cs text) (\<lambda>uid.
      let cid = show_int now in
      bindA (call (login (en_redis E) uid (dr_code d) now)) (\<lambda>loginResult.
      case loginResult of
        Failure _ m \<Rightarrow> server_sendError (cs_id cs) (''Login failed: '' @ m) now
      | Success _ \<Rightarrow>
          bindA (call (clientConnect (en_redis E) (en_sessionTimeout E) uid cid now (dr_connect d)))
          (\<lambda>connectResult. case connectResult of
             Failure _ m \<Rightarrow> server_sendError (cs_id cs) (''Connection failed: '' @ m) now
           | Success _ \<Rightarrow>
               thenA (change (modify_session (cs_id cs) (registered_session uid cid)))
               (finish_registration E cs uid cid now d)))))
     (\<lambda>e. sendJsonResponse (cs_id cs) (failed_response (''Registration failed: '' @ e)))"

section \<open>Messages\<close>

definition handleClientMessage ::
  "'w env \<Rightarrow> ClientSession \<Rightarrow> string \<Rightarrow> int \<Rightarrow> int \<Rightarrow> ('w, unit) serve" where
  "handleClientMessage E cs text now rnd = catchA
     (case en_parse E text of
        None \<Rightarrow> throwA ''SyntaxError''
      | Some v \<Rightarrow> thenA (not_null v)
          (if text_field v ''type'' = Some ''file_upload'' then handleFileUpload E cs v now rnd
           else let messageType = some_text (text_field v ''text'') (some_text (text_field v ''type'') []) in
             if messageType \<in> set node_message_types then processWebSocketMessage E cs v now rnd
             else processApplicationMessage E cs v now rnd))
     (\<lambda>e. sendJsonResponse (cs_id cs) (failed_response (''Message processing failed: '' @ e)))"

definition server_activity :: "'w env \<Rightarrow> string \<Rightarrow> int \<Rightarrow> ('w, unit) serve" where
  "server_activity E uid now = bindA (look sv_uptime) (\<lambda>ss.
     bindA (call (updateClientActivity (en_redis E) ss uid None None now)) (\<lambda>(_, ss').
       change (\<lambda>s. s\<lparr>sv_uptime := ss'\<rparr>)))"

definition receive ::
  "'w env \<Rightarrow> ClientSession \<Rightarrow> string \<Rightarrow> int \<Rightarrow> Draws \<Rightarrow> int \<Rightarrow> ('w, unit) serve" where
  "receive E cs text now d rnd =
     (if \<not> cs_isRegistered cs then handleRegistrationMessage E cs text now d
      else thenA (if some_text (cs_userPrincipalId cs) [] = [] then returnA ()
                  else catchA (server_activity E (the (cs_userPrincipalId cs)) now) (\<lambda>_. returnA ()))
           (handleClientMessage E cs text now rnd))"

definition handleMessage ::
  "'w env \<Rightarrow> int \<Rightarrow> string \<Rightarrow> int \<Rightarrow> Draws \<Rightarrow> int \<Rightarrow> ('w, unit) serve" where
  "handleMessage E sid data now d rnd = catchA
     (thenA (change (\<lambda>s. s\<lparr>sv_stats := (sv_stats s)\<lparr>ss_messagesReceived := ss_messagesReceived (sv_stats s) + 1\<rparr>\<rparr>))
     (bindA (look (\<lambda>s. map_get (sv_clients s) sid)) (\<lambda>clientSession.
      case clientSession of
        None \<Rightarrow> change (close_socket sid 1008)
      | Some cs \<Rightarrow>
          thenA (change (modify_session sid (\<lambda>c. c\<lparr>cs_lastHeartbeat := now\<rparr>)))
         (thenA (receive E (cs\<lparr>cs_lastHeartbeat := now\<rparr>) (utf8_text data) now d rnd)
          (change (modify_session sid (\<lambda>c. c\<lparr>cs_messagesReceived := cs_messagesReceived c + 1\<rparr>)))))))
     (\<lambda>e. server_sendError sid (''Message processing failed: '' @ e) now)"

section \<open>Jobs\<close>

definition findClientSessionByClientId :: "string \<Rightarrow> ServerState \<Rightarrow> ClientSession option" where
  "findClientSessionByClientId cid s = List.find (\<lambda>c. cs_clientId c = Some cid) (map snd (sv_clients s))"

definition findClientSessionByPrincipalId :: "string \<Rightarrow> ServerState \<Rightarrow> ClientSession option" where
  "findClientSessionByPrincipalId uid s =
     List.find (\<lambda>c. cs_userPrincipalId c = Some uid \<and> cs_isRegistered c) (map snd (sv_clients s))"

definition any_registered :: "ServerState \<Rightarrow> ClientSession option" where
  "any_registered s = List.find (\<lambda>c. cs_isRegistered c \<and> cs_clientId c \<noteq> None) (map snd (sv_clients s))"

definition chosen_session :: "string \<Rightarrow> string \<Rightarrow> ServerState \<Rightarrow> ClientSession option" where
  "chosen_session cid uid s = (case findClientSessionByClientId cid s of
     Some c \<Rightarrow> Some c
   | None \<Rightarrow> (case findClientSessionByPrincipalId uid s of Some c \<Rightarrow> Some c | None \<Rightarrow> any_registered s))"

definition server_sendJobToClient ::
  "'w env \<Rightarrow> string \<Rightarrow> string \<Rightarrow> string \<Rightarrow> string \<Rightarrow> string option \<Rightarrow> int \<Rightarrow> int \<Rightarrow> int \<Rightarrow>
   int \<Rightarrow> int \<Rightarrow> ('w, send_result) serve" where
  "server_sendJobToClient E cid uid url scrapeType jobId post_count replies_count scrollPauseTime now rnd = catchA
     (bindA (look (chosen_session cid uid)) (\<lambda>clientSession.
        case clientSession of
          None \<Rightarrow> returnA (NotSent ''No registered clients available for job assignment'')
        | Some cs \<Rightarrow> if \<not> cs_isRegistered cs \<or> some_text (cs_clientId cs) [] = []
            then returnA (NotSent ''Client is not fully registered'')
            else node_sendJobToClient E cs uid url scrapeType jobId post_count replies_count scrollPauseTime now rnd))
     (\<lambda>e. returnA (NotSent (''Failed to send job to client: '' @ e)))"

definition server_broadcastToClients ::
  "'w env \<Rightarrow> ApplicationMessage \<Rightarrow> int \<Rightarrow> int \<Rightarrow> ('w, int) serve" where
  "server_broadcastToClients E m now rnd =
     bindA (look sv_clients) (\<lambda>clients. node_broadcastToClients E clients m now rnd)"

section \<open>Disconnection\<close>

definition end_uptime :: "'w env \<Rightarrow> string \<Rightarrow> int \<Rightarrow> ('w, unit) serve" where
  "end_uptime E uid now = bindA (look sv_uptime) (\<lambda>ss.
     bindA (call (finalizeUptimeSession (en_redis E) (en_uptime E) (en_check24 E) ss uid
       ''CLIENT_DISCONNECT'' now)) (\<lambda>(_, ss'). change (\<lambda>s. s\<lparr>sv_uptime := ss'\<rparr>)))"

definition drop_session :: "'w env \<Rightarrow> ClientSession \<Rightarrow> int \<Rightarrow> ('w, unit) serve" where
  "drop_session E cs now =
     thenA (if some_text (cs_clientId cs) [] = [] then returnA ()
            else catchA (thenA (call (removeSession (en_redis E) (cs_id cs)))
                   (if some_text (cs_wsSessionId cs) [] = [] then returnA ()
                    else thenA (call (wsEndSession (en_redis E) (the (cs_wsSessionId cs)) now)) (returnA ())))
                 (\<lambda>_. returnA ()))
    (thenA (if some_text (cs_clientId cs) [] = [] \<or> some_text (cs_userPrincipalId cs) [] = [] then returnA ()
            else cleanupNodeSession E (the (cs_userPrincipalId cs)) now)
           (if some_text (cs_userPrincipalId cs) [] = [] then returnA ()
            else catchA (end_uptime E (the (cs_userPrincipalId cs)) now) (\<lambda>_. returnA ())))"

definition handleClientDisconnect ::
  "'w env \<Rightarrow> int \<Rightarrow> int \<Rightarrow> string \<Rightarrow> int \<Rightarrow> ('w, unit) serve" where
  "handleClientDisconnect E sid code reason now =
     bindA (look (\<lambda>s. map_get (sv_clients s) sid)) (\<lambda>clientSession.
     thenA (case clientSession of
         None \<Rightarrow> returnA ()
       | Some cs \<Rightarrow> if sid = 0 then returnA () else
           thenA (drop_session E cs now)
          (thenA (change (\<lambda>s. s\<lparr>sv_clients := map_delete sid (sv_clients s)\<rparr>))
           (emit (ClientDisconnected sid code reason))))
       (change (\<lambda>s. s\<lparr>sv_stats := (sv_stats s)\<lparr>ss_activeConnections := ss_activeConnections (sv_stats s) - 1\<rparr>\<rparr>)))"

section \<open>Health and statistics\<close>

definition heartbeat_timeout :: int where
  "heartbeat_timeout = 120000"

definition performHealthCheck :: "int \<Rightarrow> ServerState \<Rightarrow> ServerState" where
  "performHealthCheck now s = foldl (\<lambda>s' e.
     if heartbeat_timeout < now - cs_lastHeartbeat (snd e) then close_socket (fst e) 1001 s' else s') s (sv_clients s)"

record ServerReport =
  sr_uptime :: int
  sr_totalConnections :: int
  sr_activeConnections :: int
  sr_messagesReceived :: int
  sr_messagesSent :: int
  sr_clients :: "ClientSession list"

definition getServerStats :: "int \<Rightarrow> ServerState \<Rightarrow> ServerReport" where
  "getServerStats now s =
     (let connected = filter (\<lambda>c. cs_id c \<in> set (sv_open s)) (map snd (sv_clients s)) in
      \<lparr>sr_uptime = now - ss_startTime (sv_stats s), sr_totalConnections = ss_totalConnections (sv_stats s),
       sr_activeConnections = int (length connected), sr_messagesReceived = ss_messagesReceived (sv_stats s),
       sr_messagesSent = ss_messagesSent (sv_stats s), sr_clients = connected\<rparr>)"

definition stopServer :: "ServerState \<Rightarrow> ServerState" where
  "stopServer s = foldl (\<lambda>s' e. close_socket (fst e) 1001 s') s (sv_clients s)"

end
