(* ===== verification/ServerFacts.thy ===== *)
theory ServerFacts
  imports Server
begin

text \<open>
  What a handler sends: \<open>silent\<close> steps send nothing, \<open>replies\<close> steps send one
  message on the socket of the session or throw before they send, \<open>answers\<close>
  steps always send it. Nothing is assumed of the services: whatever the server's
  Redis, disk and canister do, they do not touch the sockets.
\<close>

named_theorems reply_rules \<open>what a handler sends\<close>

definition same_sockets :: "ServerState \<Rightarrow> ServerState \<Rightarrow> bool" where
  "same_sockets s s' \<longleftrightarrow> sv_sent s' = sv_sent s \<and> sv_open s' = sv_open s"

definition one_reply :: "int \<Rightarrow> ServerState \<Rightarrow> ServerState \<Rightarrow> bool" where
  "one_reply sid s s' \<longleftrightarrow> (\<exists>r. sv_sent s' = sv_sent s @ [(sid, r)]) \<and> sv_open s' = sv_open s"

definition silent :: "('w, 'a) serve \<Rightarrow> bool" where
  "silent m \<longleftrightarrow> (\<forall>w s. same_sockets s (snd (snd (m (w, s)))))"

definition replies :: "int \<Rightarrow> ('w, 'a) serve \<Rightarrow> bool" where
  "replies sid m \<longleftrightarrow> (\<forall>w s r w' s'. sid \<in> set (sv_open s) \<longrightarrow> m (w, s) = (r, (w', s')) \<longrightarrow>
     (case r of Inl e \<Rightarrow> same_sockets s s' | Inr a \<Rightarrow> one_reply sid s s'))"

definition answers :: "int \<Rightarrow> ('w, 'a) serve \<Rightarrow> bool" where
  "answers sid m \<longleftrightarrow> (\<forall>w s. sid \<in> set (sv_open s) \<longrightarrow>
     (\<exists>a w' s'. m (w, s) = (Inr a, (w', s')) \<and> one_reply sid s s'))"

lemma same_sockets_refl [simp]: "same_sockets s s"
  by (simp add: same_sockets_def)

lemma same_sockets_trans: "same_sockets s t \<Longrightarrow> same_sockets t u \<Longrightarrow> same_sockets s u"
  by (simp add: same_sockets_def)

lemma same_then_one: "same_sockets s t \<Longrightarrow> one_reply sid t u \<Longrightarrow> one_reply sid s u"
  by (auto simp: same_sockets_def one_reply_def)

lemma one_then_same: "one_reply sid s t \<Longrightarrow> same_sockets t u \<Longrightarrow> one_reply sid s u"
  by (auto simp: same_sockets_def one_reply_def)

text \<open>Silent steps.\<close>

lemma silent_call [reply_rules]: "silent (call m)"
  by (auto simp: silent_def call_def split: prod.split)

lemma silent_look [reply_rules]: "silent (look f)"
  by (simp add: silent_def look_def)

lemma silent_change [reply_rules]: "(\<And>s. same_sockets s (f s)) \<Longrightarrow> silent (change f)"
  by (simp add: silent_def change_def)

lemma silent_emit [reply_rules]: "silent (emit e)"
  unfolding emit_def by (rule silent_change) (simp add: same_sockets_def)

lemma silent_return [reply_rules]: "silent (returnA a)"
  by (simp add: silent_def returnA_def)

lemma silent_throw [reply_rules]: "silent (throwA e)"
  by (simp add: silent_def throwA_def)

lemma silent_bind [reply_rules]:
  assumes "silent m" and "\<And>a. silent (f a)"
  shows "silent (bindA m f)"
  unfolding silent_def
proof (intro allI)
  fix w s
  obtain r w' s' where run: "m (w, s) = (r, (w', s'))" by (metis prod.collapse)
  then have "same_sockets s s'" using assms(1) by (metis silent_def snd_conv)
  then show "same_sockets s (snd (snd (bindA m f (w, s))))"
    using run assms(2) same_sockets_trans by (cases r) (auto simp: bindA_def silent_def)
qed

lemma silent_then [reply_rules]: "silent m \<Longrightarrow> silent n \<Longrightarrow> silent (thenA m n)"
  unfolding thenA_def by (rule silent_bind)

lemma silent_catch [reply_rules]:
  assumes "silent m" and "\<And>e. silent (h e)"
  shows "silent (catchA m h)"
  unfolding silent_def
proof (intro allI)
  fix w s
  obtain r w' s' where run: "m (w, s) = (r, (w', s'))" by (metis prod.collapse)
  then have "same_sockets s s'" using assms(1) by (metis silent_def snd_conv)
  then show "same_sockets s (snd (snd (catchA m h (w, s))))"
    using run assms(2) same_sockets_trans by (cases r) (auto simp: catchA_def silent_def)
qed

text \<open>One message, or none before an error.\<close>

lemma replies_throw [reply_rules]: "replies sid (throwA e)"
  by (simp add: replies_def throwA_def)

lemma replies_send [reply_rules]: "answers sid (change (send sid r))"
  by (auto simp: answers_def change_def send_def one_reply_def)

lemma modify_session_sockets [simp]: "sv_sent (modify_session i f s) = sv_sent s" "sv_open (modify_session i f s) = sv_open s"
  by (simp_all add: modify_session_def split: option.split)

lemma replies_send_counted [reply_rules]: "answers sid (change (send_counted sid r))"
  by (auto simp: answers_def change_def send_counted_def send_def one_reply_def)

lemma repliesD:
  "replies sid m \<Longrightarrow> sid \<in> set (sv_open s) \<Longrightarrow> m (w, s) = (r, (w', s')) \<Longrightarrow>
     (case r of Inl e \<Rightarrow> same_sockets s s' | Inr a \<Rightarrow> one_reply sid s s')"
  unfolding replies_def by blast

lemma repliesI:
  "(\<And>w s r w' s'. sid \<in> set (sv_open s) \<Longrightarrow> m (w, s) = (r, (w', s')) \<Longrightarrow>
     (case r of Inl e \<Rightarrow> same_sockets s s' | Inr a \<Rightarrow> one_reply sid s s')) \<Longrightarrow> replies sid m"
  unfolding replies_def by blast

lemma answersD:
  "answers sid m \<Longrightarrow> sid \<in> set (sv_open s) \<Longrightarrow> \<exists>a w' s'. m (w, s) = (Inr a, (w', s')) \<and> one_reply sid s s'"
  unfolding answers_def by blast

lemma silentD: "silent m \<Longrightarrow> m (w, s) = (r, (w', s')) \<Longrightarrow> same_sockets s s'"
  unfolding silent_def by (metis snd_conv)

lemma answers_replies:
  assumes "answers sid m" shows "replies sid m"
proof (rule repliesI)
  fix w s r w' s'
  assume "sid \<in> set (sv_open s)" and run: "m (w, s) = (r, (w', s'))"
  from answersD [OF assms this(1), of w] obtain a w1 s1
    where "m (w, s) = (Inr a, (w1, s1))" "one_reply sid s s1" by blast
  then show "case r of Inl e \<Rightarrow> same_sockets s s' | Inr a \<Rightarrow> one_reply sid s s'"
    using run by auto
qed

lemma replies_bind [reply_rules]:
  assumes "silent m" and "\<And>a. replies sid (f a)"
  shows "replies sid (bindA m f)"
proof (rule repliesI)
  fix w s r w' s'
  assume s: "sid \<in> set (sv_open s)" and run: "bindA m f (w, s) = (r, (w', s'))"
  obtain q w1 s1 where m: "m (w, s) = (q, (w1, s1))" by (metis prod.collapse)
  have same: "same_sockets s s1" by (rule silentD [OF assms(1) m])
  show "case r of Inl e \<Rightarrow> same_sockets s s' | Inr a \<Rightarrow> one_reply sid s s'"
  proof (cases q)
    case (Inl e)
    then show ?thesis using run m same by (auto simp: bindA_def)
  next
    case (Inr a)
    then have f: "f a (w1, s1) = (r, (w', s'))" using run m by (simp add: bindA_def)
    have "sid \<in> set (sv_open s1)" using s same by (simp add: same_sockets_def)
    from repliesD [OF assms(2) this f] show ?thesis
      using same by (cases r) (auto intro: same_sockets_trans same_then_one)
  qed
qed

lemma replies_then [reply_rules]: "silent m \<Longrightarrow> replies sid n \<Longrightarrow> replies sid (thenA m n)"
  unfolding thenA_def by (rule replies_bind)

text \<open>Steps after the message that neither send nor throw.\<close>

definition harmless :: "('w, 'a) serve \<Rightarrow> bool" where
  "harmless m \<longleftrightarrow> silent m \<and> total m"

lemma harmless_return [reply_rules]: "harmless (returnA a)"
  by (auto simp: harmless_def intro: silent_return)

lemma harmless_emit [reply_rules]: "harmless (emit e)"
  by (simp add: harmless_def silent_emit) (simp add: total_def emit_def change_def)

lemma harmless_change [reply_rules]: "(\<And>s. same_sockets s (f s)) \<Longrightarrow> harmless (change f)"
  by (simp add: harmless_def silent_change) (simp add: total_def change_def)

lemma harmless_then [reply_rules]: "harmless m \<Longrightarrow> harmless n \<Longrightarrow> harmless (thenA m n)"
  by (auto simp: harmless_def intro: silent_then)

lemma harmlessD: "harmless m \<Longrightarrow> \<exists>a w' s'. m (w, s) = (Inr a, (w', s')) \<and> same_sockets s s'"
  unfolding harmless_def total_def by (metis prod.collapse silentD)

lemma replies_after:
  assumes "replies sid m" and "harmless n"
  shows "replies sid (thenA m n)"
proof (rule repliesI)
  fix w s r w' s'
  assume s: "sid \<in> set (sv_open s)" and run: "thenA m n (w, s) = (r, (w', s'))"
  obtain q w1 s1 where m: "m (w, s) = (q, (w1, s1))" by (metis prod.collapse)
  obtain b w2 s2 where n: "n (w1, s1) = (Inr b, (w2, s2))" "same_sockets s1 s2"
    using harmlessD [OF assms(2)] by blast
  show "case r of Inl e \<Rightarrow> same_sockets s s' | Inr a \<Rightarrow> one_reply sid s s'"
    using repliesD [OF assms(1) s m] run m n
    by (cases q) (auto simp: thenA_def bindA_def intro: one_then_same)
qed

lemma answers_after:
  assumes "answers sid m" and "harmless n"
  shows "answers sid (thenA m n)"
  unfolding answers_def
proof (intro allI impI)
  fix w and s :: ServerState assume s: "sid \<in> set (sv_open s)"
  obtain a w1 s1 where m: "m (w, s) = (Inr a, (w1, s1))" and one: "one_reply sid s s1"
    using answersD [OF assms(1) s] by blast
  obtain b w2 s2 where "n (w1, s1) = (Inr b, (w2, s2))" "same_sockets s1 s2"
    using harmlessD [OF assms(2)] by blast
  then show "\<exists>a w' s'. thenA m n (w, s) = (Inr a, (w', s')) \<and> one_reply sid s s'"
    using m one_then_same [OF one] by (auto simp: thenA_def bindA_def)
qed

lemma answers_before:
  assumes "harmless m" and "answers sid n"
  shows "answers sid (thenA m n)"
  unfolding answers_def
proof (intro allI impI)
  fix w and s :: ServerState assume s: "sid \<in> set (sv_open s)"
  obtain b w1 s1 where m: "m (w, s) = (Inr b, (w1, s1))" and same: "same_sockets s s1"
    using harmlessD [OF assms(1)] by blast
  have "sid \<in> set (sv_open s1)" using s same by (simp add: same_sockets_def)
  then obtain a w2 s2 where "n (w1, s1) = (Inr a, (w2, s2))" "one_reply sid s1 s2"
    using answersD [OF assms(2)] by blast
  then show "\<exists>a w' s'. thenA m n (w, s) = (Inr a, (w', s')) \<and> one_reply sid s s'"
    using m same_then_one [OF same] by (auto simp: thenA_def bindA_def)
qed

text \<open>An error that is caught and answered.\<close>

lemma answers_catch:
  assumes "replies sid m" and "\<And>e. answers sid (h e)"
  shows "answers sid (catchA m h)"
  unfolding answers_def
proof (intro allI impI)
  fix w and s :: ServerState assume s: "sid \<in> set (sv_open s)"
  obtain r w1 s1 where m: "m (w, s) = (r, (w1, s1))" by (metis prod.collapse)
  note first = repliesD [OF assms(1) s m]
  show "\<exists>a w' s'. catchA m h (w, s) = (Inr a, (w', s')) \<and> one_reply sid s s'"
  proof (cases r)
    case (Inl e)
    then have same: "same_sockets s s1" using first by simp
    then have "sid \<in> set (sv_open s1)" using s by (simp add: same_sockets_def)
    then obtain a w2 s2 where "h e (w1, s1) = (Inr a, (w2, s2))" "one_reply sid s1 s2"
      using answersD [OF assms(2)] by blast
    then show ?thesis using m Inl same_then_one [OF same] by (simp add: catchA_def)
  next
    case (Inr a)
    then show ?thesis using first m by (simp add: catchA_def)
  qed
qed

lemma reply_cases [reply_rules]:
  "(b \<Longrightarrow> replies sid m) \<Longrightarrow> (\<not> b \<Longrightarrow> replies sid n) \<Longrightarrow> replies sid (if b then m else n)"
  "(b \<Longrightarrow> silent m1) \<Longrightarrow> (\<not> b \<Longrightarrow> silent n1) \<Longrightarrow> silent (if b then m1 else n1)"
  "(b \<Longrightarrow> answers sid m) \<Longrightarrow> (\<not> b \<Longrightarrow> answers sid n) \<Longrightarrow> answers sid (if b then m else n)"
  by simp_all

lemma silent_cases [reply_rules]:
  "silent n \<Longrightarrow> (\<And>a. silent (f a)) \<Longrightarrow> silent (case x of None \<Rightarrow> n | Some a \<Rightarrow> f a)"
  "(\<And>a. silent (g a)) \<Longrightarrow> (\<And>k m. silent (h k m)) \<Longrightarrow> silent (case r of Success a \<Rightarrow> g a | Failure k m \<Rightarrow> h k m)"
  "(\<And>a b. silent (p a b)) \<Longrightarrow> silent (case q of (a, b) \<Rightarrow> p a b)"
  by (cases x; cases r; cases q; simp)+

lemma replies_cases [reply_rules]:
  "replies sid n \<Longrightarrow> (\<And>a. replies sid (f a)) \<Longrightarrow> replies sid (case x of None \<Rightarrow> n | Some a \<Rightarrow> f a)"
  "(\<And>a. replies sid (g a)) \<Longrightarrow> (\<And>k m. replies sid (h k m)) \<Longrightarrow>
     replies sid (case r of Success a \<Rightarrow> g a | Failure k m \<Rightarrow> h k m)"
  by (cases x; cases r; simp)+

end
