(* ===== verification/ServerReplies.thy ===== *)
theory ServerReplies
  imports ServerFacts
begin

text \<open>
  One message per message: every handler of the server, of the nodes and of the
  applications sends exactly one message on the socket it serves, by the calculus
  of \<open>ServerFacts\<close>.
\<close>

lemma silent_not_null [reply_rules]: "silent (not_null v)"
  by (simp add: not_null_def silent_throw silent_return)

lemma silent_measured [reply_rules]: "silent m \<Longrightarrow> silent n \<Longrightarrow> silent (if b then m else n)"
  by simp

section \<open>The responses are built without sending\<close>

lemma silent_activity [reply_rules]:
  "silent (node_activity E uid speed ping now)" "silent (rpc_activity E uid speed ping now)"
  "silent (server_activity E uid now)" "silent (start_uptime E uid now hex)"
  unfolding node_activity_def rpc_activity_def server_activity_def start_uptime_def
  by (intro reply_rules; simp add: same_sockets_def)+

lemma silent_results [reply_rules]:
  "silent (store_result E V jobId content uid now rnd)" "silent (complete_job E referral jobId cid stored now)"
  unfolding store_result_def complete_job_def by (intro reply_rules)+

lemma silent_speed [reply_rules]: "silent (handleSpeedTestMessage E uid data now)"
  unfolding handleSpeedTestMessage_def by (intro reply_rules)

lemma silent_scrape [reply_rules]: "silent (handleScrapeResultMessage E data jobId cid uid now rnd)"
  unfolding handleScrapeResultMessage_def Let_def by (intro reply_rules)

lemma silent_messages [reply_rules]:
  "silent (handlePingMessage E cid uid now rnd)" "silent (handleHaloMessage uid)"
  "silent (handleJobMessage cid t url jobId posts reps pause)" "silent (handleHeartbeatMessage E uid now)"
  "silent (handleClientStatusMessage E uid data now)" "silent (handleJobRequestMessage E uid now)"
  unfolding handlePingMessage_def handleHaloMessage_def handleJobMessage_def handleHeartbeatMessage_def
    handleClientStatusMessage_def handleJobRequestMessage_def by (intro reply_rules)+

lemma silent_node_response [reply_rules]: "silent (node_response E m now rnd)"
  unfolding node_response_def Let_def by (intro reply_rules)

lemma silent_rpc_messages [reply_rules]:
  "silent (rpc_ping E uid now)" "silent (rpc_job_message cs t url)" "silent (rpc_heartbeat E uid now)"
  "silent (rpc_client_status E uid data now)" "silent (rpc_speed_test E cs uid data now)"
  unfolding rpc_ping_def rpc_job_message_def rpc_heartbeat_def rpc_client_status_def rpc_speed_test_def
  by (intro reply_rules)+

lemma silent_rpc_scrape [reply_rules]: "silent (rpc_scrape_result E data cid now rnd)"
  unfolding rpc_scrape_result_def Let_def by (intro reply_rules)

lemma silent_rpc_response [reply_rules]: "silent (rpc_response E cs m now rnd)"
  unfolding rpc_response_def Let_def by (intro reply_rules)

section \<open>The handlers answer\<close>

lemmas reply_sends = replies_send replies_send_counted

lemma answers_handleNodeMessage: "answers (cs_id cs) (handleNodeMessage E cs m now rnd)"
  unfolding handleNodeMessage_def sendWebSocketResponse_def
  by (intro answers_catch reply_sends reply_rules answers_replies)

lemma answers_processWebSocketMessage: "answers (cs_id cs) (processWebSocketMessage E cs v now rnd)"
  unfolding processWebSocketMessage_def
  by (intro answers_catch reply_sends reply_rules answers_replies [OF answers_handleNodeMessage])

lemma answers_handleApplicationMessage: "answers (cs_id cs) (handleApplicationMessage E cs m now rnd)"
  unfolding handleApplicationMessage_def sendApplicationResponse_def
  by (intro answers_catch reply_sends reply_rules answers_replies)

lemma answers_processApplicationMessage: "answers (cs_id cs) (processApplicationMessage E cs v now rnd)"
  unfolding processApplicationMessage_def
  by (intro answers_catch reply_sends reply_rules answers_replies [OF answers_handleApplicationMessage])

lemma answers_upload_reply: "answers (cs_id cs) (upload_reply cs ok msg e i now)"
  unfolding upload_reply_def by (rule replies_send)

lemma answers_handleFileUpload: "answers (cs_id cs) (handleFileUpload E cs v now rnd)"
  unfolding handleFileUpload_def Let_def
  by (intro answers_catch answers_upload_reply reply_rules answers_replies)

lemma answers_handleClientMessage: "answers (cs_id cs) (handleClientMessage E cs text now rnd)"
  unfolding handleClientMessage_def sendJsonResponse_def Let_def
  by (intro answers_catch reply_sends reply_rules answers_replies [OF answers_handleFileUpload]
      answers_replies [OF answers_processWebSocketMessage] answers_replies [OF answers_processApplicationMessage])

lemma silent_registering_user [reply_rules]: "silent (registering_user E cs text)"
  unfolding registering_user_def by (intro reply_rules)

lemma silent_session_change [reply_rules]: "silent (change (modify_session sid f))"
  by (intro reply_rules) (simp add: same_sockets_def)

lemma silent_initializeNodeSession [reply_rules]: "silent (initializeNodeSession E cs uid now rnd)"
  unfolding initializeNodeSession_def by (intro reply_rules) (simp add: same_sockets_def)

lemma replies_reply: "replies sid (sendJsonResponse sid r)" "replies sid (server_sendError sid msg now)"
  unfolding server_sendError_def sendJsonResponse_def by (rule answers_replies, rule replies_send)+

lemma replies_finish_registration [reply_rules]: "replies (cs_id cs) (finish_registration E cs uid cid now d)"
  unfolding finish_registration_def
  by (intro replies_bind replies_then replies_cases replies_after [OF replies_reply(1) harmless_emit] replies_reply(2)
      silent_initializeNodeSession silent_activity silent_call silent_session_change)

lemma answers_handleRegistrationMessage:
  "answers (cs_id cs) (handleRegistrationMessage E cs text now d)"
  unfolding handleRegistrationMessage_def Let_def
  by (rule answers_catch)
    (intro replies_bind replies_then replies_cases replies_reply(2) replies_finish_registration
      silent_registering_user silent_call silent_session_change,
     simp add: sendJsonResponse_def replies_send)

lemma harmless_activity: "harmless (catchA (server_activity E uid now) (\<lambda>_. returnA ()))"
  by (auto simp: harmless_def intro!: reply_rules)

lemma answers_receive: "answers (cs_id cs) (receive E cs text now d rnd)"
proof (cases "cs_isRegistered cs")
  case False
  then show ?thesis by (simp add: receive_def answers_handleRegistrationMessage)
next
  case True
  have "harmless (if some_text (cs_userPrincipalId cs) [] = [] then returnA ()
      else catchA (server_activity E (the (cs_userPrincipalId cs)) now) (\<lambda>_. returnA ()))"
    by (simp add: harmless_return harmless_activity)
  from answers_before [OF this answers_handleClientMessage] show ?thesis
    using True by (simp add: receive_def)
qed

lemma harmless_session_change: "harmless (change (modify_session sid f))"
  by (rule harmless_change) (simp add: same_sockets_def)

lemma answers_handleMessage:
  assumes "sid \<in> set (sv_open s)" "map_get (sv_clients s) sid = Some cs" "cs_id cs = sid"
  shows "\<exists>a w' s'. handleMessage E sid data now d rnd (w, s) = (Inr a, (w', s')) \<and> one_reply sid s s'"
proof -
  define counted where "counted = s\<lparr>sv_stats := (sv_stats s)\<lparr>ss_messagesReceived := ss_messagesReceived (sv_stats s) + 1\<rparr>\<rparr>"
  define body :: "('a, unit) serve" where "body =
    thenA (change (modify_session sid (\<lambda>c. c\<lparr>cs_lastHeartbeat := now\<rparr>)))
      (thenA (receive E (cs\<lparr>cs_lastHeartbeat := now\<rparr>) (utf8_text data) now d rnd)
        (change (modify_session sid (\<lambda>c. c\<lparr>cs_messagesReceived := cs_messagesReceived c + 1\<rparr>))))"
  have "answers sid body" unfolding body_def
    using answers_receive [of "cs\<lparr>cs_lastHeartbeat := now\<rparr>"] assms(3)
    by (intro answers_before answers_after harmless_session_change) simp
  then obtain a w' s' where run: "body (w, counted) = (Inr a, (w', s'))" and one: "one_reply sid counted s'"
    using answersD [of sid body counted w] assms(1) by (auto simp: counted_def)
  have "handleMessage E sid data now d rnd (w, s) = (Inr a, (w', s'))"
    using run assms(2) unfolding handleMessage_def counted_def body_def by (simp add: act_simps)
  moreover have "one_reply sid s s'" using one by (simp add: one_reply_def counted_def)
  ultimately show ?thesis by blast
qed

end
