(* ===== verification/ServerInvariant.thy ===== *)
theory ServerInvariant
  imports ServerReplies FileFacts
begin

text \<open>
  The sessions of the server as a transition system: connections, messages, the
  registration timer, health checks, jobs and broadcasts, closing sockets. One
  handler runs at a time. The invariant \<open>sessions_ok\<close> holds in every state
  the server reaches, whatever its services do.
\<close>

section \<open>The invariant\<close>

definition session_ok :: "int \<Rightarrow> int \<Rightarrow> ClientSession \<Rightarrow> bool" where
  "session_ok bound sid c \<longleftrightarrow> cs_id c = sid \<and> sid < bound \<and>
     (cs_isRegistered c \<longrightarrow> some_text (cs_clientId c) [] \<noteq> [] \<and> some_text (cs_userPrincipalId c) [] \<noteq> [])"

definition sessions_ok :: "ServerState \<Rightarrow> bool" where
  "sessions_ok s \<longleftrightarrow> is_jsmap (sv_clients s) \<and> distinct (sv_open s)
     \<and> (\<forall>i \<in> set (sv_open s). i < sv_nextSessionId s)
     \<and> (\<forall>e \<in> set (sv_clients s). session_ok (sv_nextSessionId s) (fst e) (snd e))
     \<and> (\<forall>m \<in> set (sv_sent s). fst m < sv_nextSessionId s)"

definition on_server :: "(ServerState \<Rightarrow> bool) \<Rightarrow> 'w \<times> ServerState \<Rightarrow> bool" where
  "on_server P ws \<longleftrightarrow> P (snd ws)"

lemma set_update_cases: "e \<in> set (AList.update k v m) \<Longrightarrow> e = (k, v) \<or> e \<in> set m"
  by (induction m) (auto split: if_splits)

lemma set_delete_subset: "e \<in> set (AList.delete k m) \<Longrightarrow> e \<in> set m"
  by (simp add: AList.delete_eq)

lemma on_server_pair [simp]: "on_server P (w, s) \<longleftrightarrow> P s"
  by (simp add: on_server_def)

lemma keeps_call [keeps_rules]: "preserves (on_server P) (call m)"
  by (simp add: preserves_def on_server_def call_def split: prod.split)

lemma keeps_look [keeps_rules]: "preserves (on_server P) (look f)"
  by (simp add: preserves_def on_server_def look_def split: prod.split)

lemma keeps_change: "(\<And>s. P s \<Longrightarrow> P (f s)) \<Longrightarrow> preserves (on_server P) (change f)"
  by (simp add: preserves_def on_server_def change_def split: prod.split)

text \<open>The fields the invariant is about.\<close>

lemma sessions_ok_same:
  "sessions_ok s \<Longrightarrow> sv_clients t = sv_clients s \<Longrightarrow> sv_open t = sv_open s \<Longrightarrow>
     sv_nextSessionId t = sv_nextSessionId s \<Longrightarrow> sv_sent t = sv_sent s \<Longrightarrow> sessions_ok t"
  by (simp add: sessions_ok_def)

lemma modify_session_ok:
  assumes "sessions_ok s" and "\<And>c. session_ok (sv_nextSessionId s) sid c \<Longrightarrow> session_ok (sv_nextSessionId s) sid (f c)"
  shows "sessions_ok (modify_session sid f s)"
proof (cases "map_of (sv_clients s) sid")
  case None
  then show ?thesis using assms(1) by (simp add: modify_session_def)
next
  case (Some c)
  have old: "session_ok (sv_nextSessionId s) (fst e) (snd e)" if "e \<in> set (sv_clients s)" for e
    using assms(1) that by (simp add: sessions_ok_def)
  have "session_ok (sv_nextSessionId s) sid (f c)"
    using assms(2) old [OF map_of_SomeD [OF Some]] by simp
  then have "session_ok (sv_nextSessionId s) (fst e) (snd e)"
    if "e \<in> set (AList.update sid (f c) (sv_clients s))" for e
    using set_update_cases [OF that] old by auto
  then show ?thesis using assms(1) Some by (simp add: modify_session_def sessions_ok_def)
qed

lemma send_ok: "sessions_ok s \<Longrightarrow> sessions_ok (send sid r s)"
  by (auto simp: send_def sessions_ok_def)


lemma session_counter_ok [simp]:
  "session_ok n i (c\<lparr>cs_messagesSent := a\<rparr>) \<longleftrightarrow> session_ok n i c"
  "session_ok n i (c\<lparr>cs_messagesReceived := a\<rparr>) \<longleftrightarrow> session_ok n i c"
  "session_ok n i (c\<lparr>cs_lastHeartbeat := a\<rparr>) \<longleftrightarrow> session_ok n i c"
  "session_ok n i (c\<lparr>cs_isNodeClient := b\<rparr>) \<longleftrightarrow> session_ok n i c"
  "session_ok n i (c\<lparr>cs_wsSessionId := x\<rparr>) \<longleftrightarrow> session_ok n i c"
  by (simp_all add: session_ok_def)

lemma registered_session_ok:
  "session_ok n i c \<Longrightarrow> uid \<noteq> [] \<Longrightarrow> cid \<noteq> [] \<Longrightarrow> session_ok n i (registered_session uid cid c)"
  by (simp add: session_ok_def registered_session_def some_text_def truthy_def)

lemma send_counted_ok: "sessions_ok s \<Longrightarrow> sessions_ok (send_counted sid r s)"
  unfolding send_counted_def by (auto intro!: modify_session_ok send_ok)

lemma close_socket_ok: "sessions_ok s \<Longrightarrow> sessions_ok (close_socket sid code s)"
  by (auto simp: close_socket_def sessions_ok_def distinct_removeAll)

section \<open>Every handler keeps it\<close>

abbreviation ok_act :: "('w, 'a) serve \<Rightarrow> bool" where
  "ok_act m \<equiv> preserves (on_server sessions_ok) m"

lemma ok_sends [keeps_rules]:
  "ok_act (change (send sid r))" "ok_act (change (send_counted sid r))" "ok_act (change (close_socket sid code))"
  by (rule keeps_change, erule send_ok send_counted_ok close_socket_ok)+

lemma ok_emit [keeps_rules]: "ok_act (emit e)"
  unfolding emit_def by (rule keeps_change, erule sessions_ok_same) simp_all

lemma ok_uptime [keeps_rules]:
  "ok_act (change (\<lambda>s. s\<lparr>sv_uptime := u\<rparr>))" "ok_act (change (\<lambda>s. s\<lparr>sv_node_uptime := u\<rparr>))"
  "ok_act (change (\<lambda>s. s\<lparr>sv_rpc_uptime := u\<rparr>))" "ok_act (change (\<lambda>s. s\<lparr>sv_stats := g (sv_stats s)\<rparr>))"
  by (rule keeps_change, erule sessions_ok_same; simp)+

lemma ok_sessions [keeps_rules]:
  "ok_act (change (modify_session sid (\<lambda>c. c\<lparr>cs_messagesReceived := cs_messagesReceived c + 1\<rparr>)))"
  "ok_act (change (modify_session sid (\<lambda>c. c\<lparr>cs_lastHeartbeat := now\<rparr>)))"
  "ok_act (change (modify_session sid (\<lambda>c. c\<lparr>cs_isNodeClient := b\<rparr>)))"
  "ok_act (change (modify_session sid (\<lambda>c. c\<lparr>cs_wsSessionId := x\<rparr>)))"
  by (rule keeps_change, erule modify_session_ok, simp)+

lemma ok_not_null [keeps_rules]: "ok_act (not_null v)"
  unfolding not_null_def by (intro keeps_rules)

lemma ok_activity [keeps_rules]:
  "ok_act (node_activity E uid speed ping now)" "ok_act (rpc_activity E uid speed ping now)"
  "ok_act (server_activity E uid now)" "ok_act (start_uptime E uid now hex)" "ok_act (end_uptime E uid now)"
  unfolding node_activity_def rpc_activity_def server_activity_def start_uptime_def end_uptime_def
  by (intro keeps_rules)+

lemma ok_results [keeps_rules]:
  "ok_act (store_result E V jobId content uid now rnd)" "ok_act (complete_job E referral jobId cid stored now)"
  unfolding store_result_def complete_job_def by (intro keeps_rules)+

lemma ok_node_messages [keeps_rules]:
  "ok_act (handlePingMessage E cid uid now rnd)" "ok_act (handleHaloMessage uid)"
  "ok_act (handleJobMessage cid t url jobId posts reps pause)" "ok_act (handleHeartbeatMessage E uid now)"
  "ok_act (handleClientStatusMessage E uid data now)" "ok_act (handleJobRequestMessage E uid now)"
  "ok_act (handleSpeedTestMessage E uid data now)"
  unfolding handlePingMessage_def handleHaloMessage_def handleJobMessage_def handleHeartbeatMessage_def
    handleClientStatusMessage_def handleJobRequestMessage_def handleSpeedTestMessage_def by (intro keeps_rules)+

lemma ok_scrape [keeps_rules]: "ok_act (handleScrapeResultMessage E data jobId cid uid now rnd)"
  unfolding handleScrapeResultMessage_def Let_def by (intro keeps_rules)

lemma ok_handleNodeMessage [keeps_rules]: "ok_act (handleNodeMessage E cs m now rnd)"
  unfolding handleNodeMessage_def node_response_def sendWebSocketResponse_def Let_def by (intro keeps_rules)

lemma ok_processWebSocketMessage [keeps_rules]: "ok_act (processWebSocketMessage E cs v now rnd)"
  unfolding processWebSocketMessage_def by (intro keeps_rules)

lemma ok_rpc_messages [keeps_rules]:
  "ok_act (rpc_ping E uid now)" "ok_act (rpc_job_message cs t url)" "ok_act (rpc_heartbeat E uid now)"
  "ok_act (rpc_client_status E uid data now)" "ok_act (rpc_speed_test E cs uid data now)"
  unfolding rpc_ping_def rpc_job_message_def rpc_heartbeat_def rpc_client_status_def rpc_speed_test_def
  by (intro keeps_rules)+

lemma ok_rpc_scrape [keeps_rules]: "ok_act (rpc_scrape_result E data cid now rnd)"
  unfolding rpc_scrape_result_def Let_def by (intro keeps_rules)

lemma ok_handleApplicationMessage [keeps_rules]: "ok_act (handleApplicationMessage E cs m now rnd)"
  unfolding handleApplicationMessage_def rpc_response_def sendApplicationResponse_def Let_def by (intro keeps_rules)

lemma ok_processApplicationMessage [keeps_rules]: "ok_act (processApplicationMessage E cs v now rnd)"
  unfolding processApplicationMessage_def by (intro keeps_rules)

lemma ok_handleFileUpload [keeps_rules]: "ok_act (handleFileUpload E cs v now rnd)"
  unfolding handleFileUpload_def upload_reply_def Let_def by (intro keeps_rules)

lemma ok_handleClientMessage [keeps_rules]: "ok_act (handleClientMessage E cs text now rnd)"
  unfolding handleClientMessage_def sendJsonResponse_def Let_def by (intro keeps_rules)

lemma ok_replies [keeps_rules]: "ok_act (sendJsonResponse sid r)" "ok_act (server_sendError sid msg now)"
  unfolding server_sendError_def sendJsonResponse_def by (intro keeps_rules)+

section \<open>Registration and connections\<close>

lemma registering_user_text: "registering_user E cs text ws = (Inr uid, ws') \<Longrightarrow> uid \<noteq> []"
  by (auto simp: registering_user_def some_text_def truthy_def act_simps split: if_splits option.splits)

lemma show_int_text: "show_int n \<noteq> []"
  by (simp add: show_int_def)

lemma ok_registering_user: "ok_act (registering_user E cs text)"
  unfolding registering_user_def by (intro keeps_rules)

text \<open>A step whose result has a property that the next ones use.\<close>

lemma preserves_bind_result:
  assumes "preserves P m" and "\<And>w a w'. m w = (Inr a, w') \<Longrightarrow> Q a" and "\<And>a. Q a \<Longrightarrow> preserves P (f a)"
  shows "preserves P (bindA m f)"
  unfolding preserves_def
proof (intro allI impI)
  fix w assume w: "P w"
  obtain r w' where run: "m w = (r, w')" by fastforce
  then have "P w'" using preservesD [OF assms(1) w] by simp
  then show "P (snd (bindA m f w))"
    using run assms(2) [of w _ w'] preservesD [OF assms(3)] by (cases r) (auto simp: bindA_def)
qed

lemma ok_initializeNodeSession [keeps_rules]: "ok_act (initializeNodeSession E cs uid now rnd)"
  unfolding initializeNodeSession_def by (intro keeps_rules)

lemma ok_finish_registration [keeps_rules]: "ok_act (finish_registration E cs uid cid now d)"
  unfolding finish_registration_def by (intro keeps_rules)

lemma ok_registered:
  assumes "uid \<noteq> []" "cid \<noteq> []"
  shows "ok_act (change (modify_session sid (registered_session uid cid)))"
  by (rule keeps_change, erule modify_session_ok) (rule registered_session_ok [OF _ assms])

lemma ok_handleRegistrationMessage [keeps_rules]: "ok_act (handleRegistrationMessage E cs text now d)"
  unfolding handleRegistrationMessage_def Let_def
  by (rule preserves_catch, rule preserves_bind_result [where Q = "\<lambda>uid. uid \<noteq> []"],
      rule ok_registering_user, erule registering_user_text)
    (intro keeps_rules ok_registered show_int_text; assumption?)+

lemma ok_receive [keeps_rules]: "ok_act (receive E cs text now d rnd)"
  unfolding receive_def by (intro keeps_rules)

lemma ok_handleMessage: "ok_act (handleMessage E sid data now d rnd)"
  unfolding handleMessage_def by (intro keeps_rules)

text \<open>A new identifier is greater than all that were given.\<close>

lemma session_ok_mono: "session_ok n i c \<Longrightarrow> n \<le> m \<Longrightarrow> session_ok m i c"
  by (simp add: session_ok_def)

lemma getNextSessionId_fresh:
  "\<exists>w'. getNextSessionId E (w, s) = (Inr (sv_nextSessionId s), (w', s\<lparr>sv_nextSessionId := sv_nextSessionId s + 1\<rparr>))"
proof -
  obtain r w' where "setLastSessionId (en_redis E) (sv_nextSessionId s) w = (r, w')" by fastforce
  then show ?thesis by (cases r) (simp_all add: getNextSessionId_def act_simps)
qed

lemma opened_ok:
  assumes "sessions_ok s" "sid = sv_nextSessionId s"
  shows "sessions_ok (s\<lparr>sv_nextSessionId := sid + 1, sv_open := sv_open s @ [sid]\<rparr>)"
  using assms by (force simp: sessions_ok_def intro: session_ok_mono)

lemma new_session_ok: "sid < n \<Longrightarrow> session_ok n sid (new_client_session sid p now)"
  by (simp add: session_ok_def new_client_session_def)

lemma ok_added:
  assumes "sessions_ok s" "sid < sv_nextSessionId s"
  shows "sessions_ok (s\<lparr>sv_stats := t, sv_clients := AList.update sid (new_client_session sid p now) (sv_clients s)\<rparr>)"
  using assms new_session_ok [OF assms(2)] set_update_cases by (fastforce simp: sessions_ok_def)

lemma principal_of_keeps: "snd (principal_of q ws) = ws"
  by (simp add: principal_of_def act_simps split: option.split)

lemma handleNewConnection_ok: "ok_act (handleNewConnection E q now)"
  unfolding preserves_def
proof (intro allI impI)
  fix ws :: "'a \<times> ServerState" assume "on_server sessions_ok ws"
  obtain w s where ws: "ws = (w, s)" by fastforce
  then have ok: "sessions_ok s" using \<open>on_server sessions_ok ws\<close> by simp
  define sid where "sid = sv_nextSessionId s"
  define s2 where "s2 = s\<lparr>sv_nextSessionId := sid + 1, sv_open := sv_open s @ [sid]\<rparr>"
  obtain w1 where next_id: "getNextSessionId E (w, s) = (Inr sid, (w1, s\<lparr>sv_nextSessionId := sid + 1\<rparr>))"
    using getNextSessionId_fresh [of E w s] by (auto simp: sid_def)
  have ok2: "sessions_ok s2" "sid < sv_nextSessionId s2"
    using opened_ok [OF ok sid_def] by (simp_all add: s2_def)
  obtain r where "principal_of q (w1, s2) = (r, (w1, s2))" by (metis principal_of_keeps prod.collapse)
  then show "on_server sessions_ok (snd (handleNewConnection E q now ws))"
    using next_id ok2 ok_added [OF ok2] unfolding ws handleNewConnection_def
    by (cases r) (simp_all add: act_simps s2_def [symmetric])
qed

section \<open>Disconnection\<close>

lemma ok_cleanupNodeSession [keeps_rules]: "ok_act (cleanupNodeSession E uid now)"
  unfolding cleanupNodeSession_def by (intro keeps_rules)

lemma ok_drop_session [keeps_rules]: "ok_act (drop_session E cs now)"
  unfolding drop_session_def by (intro keeps_rules)

lemma deleted_ok: "sessions_ok s \<Longrightarrow> sessions_ok (s\<lparr>sv_clients := AList.delete sid (sv_clients s)\<rparr>)"
  using set_delete_subset by (fastforce simp: sessions_ok_def)

lemma ok_deleted [keeps_rules]: "ok_act (change (\<lambda>s. s\<lparr>sv_clients := AList.delete sid (sv_clients s)\<rparr>))"
  by (rule keeps_change) (rule deleted_ok)

lemma ok_handleClientDisconnect: "ok_act (handleClientDisconnect E sid code reason now)"
  unfolding handleClientDisconnect_def by (intro keeps_rules)

lemma closed_ok: "sessions_ok s \<Longrightarrow> sessions_ok (s\<lparr>sv_open := removeAll sid (sv_open s)\<rparr>)"
  by (auto simp: sessions_ok_def distinct_removeAll)

section \<open>Timers, jobs and broadcasts\<close>

lemma registrationTimeout_ok: "sessions_ok s \<Longrightarrow> sessions_ok (registrationTimeout sid s)"
  by (auto simp: registrationTimeout_def intro: close_socket_ok split: option.split)

lemma closing_ok: "sessions_ok s \<Longrightarrow> sessions_ok (foldl (\<lambda>s' e. if q e then close_socket (fst e) c s' else s') s xs)"
  by (induction xs arbitrary: s) (auto intro: close_socket_ok)

lemma performHealthCheck_ok: "sessions_ok s \<Longrightarrow> sessions_ok (performHealthCheck now s)"
  unfolding performHealthCheck_def by (rule closing_ok)

lemma stopServer_ok: "sessions_ok s \<Longrightarrow> sessions_ok (stopServer s)"
  using closing_ok [where q = "\<lambda>_. True"] by (simp add: stopServer_def)

lemma ok_node_sendJobToClient [keeps_rules]:
  "ok_act (node_sendJobToClient E cs uid url t jobId posts reps pause now rnd)"
  unfolding node_sendJobToClient_def by (intro keeps_rules)

lemma ok_server_sendJobToClient:
  "ok_act (server_sendJobToClient E cid uid url t jobId posts reps pause now rnd)"
  unfolding server_sendJobToClient_def by (intro keeps_rules)

lemma ok_broadcast: "ok_act (server_broadcastToClients E m now rnd)"
  unfolding server_broadcastToClients_def node_broadcastToClients_def broadcast_one_def by (intro keeps_rules)

section \<open>The transitions\<close>

text \<open>
  The event \<open>close\<close> comes when the socket is no longer open; after an \<open>error\<close> the server
  handles the disconnection a first time already.
\<close>

inductive serves :: "'w env \<Rightarrow> 'w \<times> ServerState \<Rightarrow> 'w \<times> ServerState \<Rightarrow> bool" for E where
  Connected: "serves E ws (snd (handleNewConnection E request now ws))"
| Received: "serves E ws (snd (handleMessage E sid data now d rnd ws))"
| Expired: "serves E (w, s) (w, registrationTimeout sid s)"
| Checked: "serves E (w, s) (w, performHealthCheck now s)"
| JobSent: "serves E ws (snd (server_sendJobToClient E cid uid url t jobId posts reps pause now rnd ws))"
| Broadcast: "serves E ws (snd (server_broadcastToClients E m now rnd ws))"
| Failed: "serves E ws (snd (handleClientDisconnect E sid 1006 ''Error occurred'' now ws))"
| Closed: "serves E (w, s) (snd (handleClientDisconnect E sid code reason now
    (w, s\<lparr>sv_open := removeAll sid (sv_open s)\<rparr>)))"
| Stopped: "serves E (w, s) (w, stopServer s)"
| Elsewhere: "serves E (w, s) (w', s)"

lemma snd_ok: "sessions_ok (snd ws) \<Longrightarrow> ok_act m \<Longrightarrow> sessions_ok (snd (snd (m ws)))"
  using preservesD [of "on_server sessions_ok" m ws] by (simp add: on_server_def)

lemma serves_ok: "serves E ws ws' \<Longrightarrow> sessions_ok (snd ws) \<Longrightarrow> sessions_ok (snd ws')"
proof (induction rule: serves.induct)
  case (Closed w s sid code reason now)
  then show ?case by (intro snd_ok ok_handleClientDisconnect) (simp add: closed_ok)
qed (auto intro!: snd_ok handleNewConnection_ok ok_handleMessage ok_server_sendJobToClient ok_broadcast
    ok_handleClientDisconnect registrationTimeout_ok performHealthCheck_ok stopServer_ok)

text \<open>The states a server started at some time reaches.\<close>

inductive reached :: "'w env \<Rightarrow> 'w \<times> ServerState \<Rightarrow> bool" for E where
  Started: "reached E (snd (initializeSessionId E (w, newServer now)))"
| Gateway: "reached E (w, newServer now)"
| Step: "reached E ws \<Longrightarrow> serves E ws ws' \<Longrightarrow> reached E ws'"

lemma newServer_ok: "sessions_ok (newServer now)" "sessions_ok ((newServer now)\<lparr>sv_nextSessionId := n\<rparr>)"
  by (simp_all add: newServer_def sessions_ok_def)

lemma initializeSessionId_ok: "sessions_ok (snd (snd (initializeSessionId E (w, newServer now))))"
  by (auto simp: initializeSessionId_def act_simps newServer_ok split: prod.split sum.split)

lemma reached_ok: "reached E ws \<Longrightarrow> sessions_ok (snd ws)"
proof (induction rule: reached.induct)
  case (Started w now)
  then show ?case by (rule initializeSessionId_ok)
next
  case (Gateway w now)
  then show ?case by (simp add: newServer_ok)
next
  case (Step ws ws')
  then show ?case using serves_ok by blast
qed

end
