(* ===== verification/FileQuiet.thy ===== *)
theory FileQuiet
  imports FileTyping ServiceFacts
begin

text \<open>
  The file service leaves the clients, the jobs and their indexes alone: its
  records have keys of their own, and the disk and the canister are elsewhere.
\<close>

lemma foreign_files [simp, keeps_rules]:
  "foreign (FILE i)" "foreign (FILES_BY_USER u)" "foreign (FILES_BY_JOB j)"
  by (simp_all add: foreign_def key_simps)

lemma keeps_db_resolution [keeps_rules]:
  "(\<And>p f. r = Resolved p f \<Longrightarrow> keeps_db M (g p f)) \<Longrightarrow> (\<And>msg. r = Unresolved msg \<Longrightarrow> keeps_db M (h msg)) \<Longrightarrow>
     keeps_db M (case r of Resolved p f \<Rightarrow> g p f | Unresolved msg \<Rightarrow> h msg)"
  by (cases r) simp_all

context redis_quiet
begin

lemma keeps_db_file_keys [keeps_rules]:
  "keeps_db M (getFileIdsFromIndex M k)" "keeps_db M (getFileMetadata M k)" "keeps_db M (file_or_null M i)"
  "keeps_db M (getFile M i)"
  unfolding getFileIdsFromIndex_def getFileMetadata_def file_or_null_def getFile_def by (intro keeps_rules)+

lemma keeps_db_file_writes [keeps_rules]:
  assumes "foreign k"
  shows "keeps_db M (addFileToUserIndex M k i)" "keeps_db M (addFileToJobIndex M k i)"
    "keeps_db M (removeFileFromUserIndex M k i)" "keeps_db M (removeFileFromJobIndex M k i)"
    "keeps_db M (deleteFileMetadata M k)" "keeps_db M (setFileMetadata M k v)"
  unfolding addFileToUserIndex_def addFileToJobIndex_def removeFileFromUserIndex_def
    removeFileFromJobIndex_def deleteFileMetadata_def setFileMetadata_def
  by (intro keeps_rules assms)+

lemma keeps_db_own_file [keeps_rules]:
  "(\<And>f. keeps_db M (body f)) \<Longrightarrow> keeps_db M (with_own_file M i u body)"
  unfolding with_own_file_def by (intro keeps_rules)

lemma keeps_db_updates [keeps_rules]:
  "keeps_db M (change_metadata M i g)"
  "keeps_db M (updateStorageStrategy M i strategy now)" "keeps_db M (updateSyncStatus M i status now)"
  "keeps_db M (updateFileMetadata M f)"
  unfolding updateStorageStrategy_def updateSyncStatus_def updateFileMetadata_def change_metadata_def
  by (intro keeps_rules)+

end

context quiet_storage
begin

lemma keeps_db_disk [keeps_rules]:
  "keeps_db M (ACCESS D p)" "keeps_db M (READ_FILE D p)" "keeps_db M (WRITE_FILE D p data)"
  "keeps_db M (APPEND_FILE D p data)" "keeps_db M (UNLINK D p)" "keeps_db M (MKDIR D p)"
  "keeps_db M (READDIR D p)" "keeps_db M (writeFileData D p data)"
  unfolding keeps_db_def ACCESS_def READ_FILE_def WRITE_FILE_def APPEND_FILE_def UNLINK_def MKDIR_def
    writeFileData_def
  using same_dbI [OF syscall_quiet] same_dbI [OF READDIR_quiet] by blast+

lemma keeps_db_local [keeps_rules]:
  "keeps_db M (resolveFilePathWithFallback M D p f i now)"
  "keeps_db M (createFile M D base request now rnd)"
  "keeps_db M (getFileContentLocalOnly M D i u now)"
  "keeps_db M (store_with_hash M D sha256 base request content now rnd)"
proof -
  show resolve [keeps_rules]: "keeps_db M (resolveFilePathWithFallback M D p f i now)" for p f i now
    unfolding resolveFilePathWithFallback_def find_alternative_def Let_def by (intro keeps_rules)
  show create [keeps_rules]: "keeps_db M (createFile M D base request now rnd)"
    unfolding createFile_def Let_def by (intro keeps_rules)
  show "keeps_db M (getFileContentLocalOnly M D i u now)"
    unfolding getFileContentLocalOnly_def Let_def by (intro keeps_rules)
  show "keeps_db M (store_with_hash M D sha256 base request content now rnd)"
    unfolding store_with_hash_def Let_def by (intro keeps_rules)
qed

end

context dual_quiet
begin

lemma keeps_db_canister [keeps_rules]:
  "keeps_db M (cn_store_file (dm_canister S) k c meta)" "keeps_db M (cn_get_file (dm_canister S) k)"
  unfolding keeps_db_def using same_dbI [OF store_quiet store_quiet_mems] same_dbI [OF get_quiet get_quiet_mems] by blast+

lemma keeps_db_state [keeps_rules]: "keeps_db M (start_task S t)" "keeps_db M (set_queue S f)"
  unfolding keeps_db_def start_task_def set_queue_def using same_dbI [OF state_quiet state_quiet_mems] by simp_all

lemma keeps_db_canister_calls [keeps_rules]:
  "keeps_db M (canStoreFile (dm_canister S) content meta key)" "keeps_db M (canRetrieveFile (dm_canister S) k)"
  unfolding canStoreFile_def canRetrieveFile_def Let_def by (intro keeps_rules)+

lemma keeps_db_storing [keeps_rules]: "keeps_db M (storeFile M D S request content now rnd)"
proof -
  have [keeps_rules]: "keeps_db M (addToRetryQueue S i content now)" for i content
    unfolding addToRetryQueue_def by (intro keeps_rules)
  have [keeps_rules]: "keeps_db M (storeInCanisterAsync M S meta content now)" for meta content
    unfolding storeInCanisterAsync_def by (intro keeps_rules)
  show ?thesis
    unfolding storeFile_def storeLocally_def storeInCanister_def storeDually_def finish_dual_def Let_def
    by (cases "determineStorageStrategy (dm_config S) request content")
      (simp_all only: option.case StorageStrategy.case, (intro keeps_rules)+)
qed

lemma keeps_db_retrieving [keeps_rules]:
  "keeps_db M (retrieveLocalFirst M D S i u now)" "keeps_db M (retrieveCanisterFirst M D S i u now)"
  "keeps_db M (retrieveFromCanister M S i)"
proof -
  show canister [keeps_rules]: "keeps_db M (retrieveFromCanister M S i)"
    unfolding retrieveFromCanister_def by (intro keeps_rules)
  show "keeps_db M (retrieveLocalFirst M D S i u now)" "keeps_db M (retrieveCanisterFirst M D S i u now)"
    unfolding retrieveLocalFirst_def retrieveCanisterFirst_def by (intro keeps_rules)+
qed

lemma keeps_db_retrieveFile [keeps_rules]: "keeps_db M (retrieveFile M D S i u strategy now)"
proof -
  have "keeps_db M (retrieveFastestAvailable M D S i u now)"
    unfolding retrieveFastestAvailable_def by (intro keeps_rules)
  then show ?thesis
    unfolding retrieveFile_def retrievePreferredWithFallback_def
    by (auto split: RetrievalStrategy.split intro!: keeps_rules)
qed

lemma keeps_db_contents:
  assumes "dual_in_use V = None \<or> dual_in_use V = Some S"
  shows "keeps_db M (getFileContentByStoredId M D V i now)"
    and "keeps_db M (createFileFromJobResult M D V sha256 num result now rnd)"
proof -
  show "keeps_db M (getFileContentByStoredId M D V i now)"
    using assms unfolding getFileContentByStoredId_def getFileContent_def Let_def
    by (elim disjE) (simp_all only: option.case StorageStrategy.case, (intro keeps_rules)+)
  have user [keeps_rules]: "keeps_db M (result_user M result jobData)" for jobData
    unfolding result_user_def by (intro keeps_rules)
  show "keeps_db M (createFileFromJobResult M D V sha256 num result now rnd)"
    using assms unfolding createFileFromJobResult_def Let_def
    by (elim disjE) (simp_all only: option.case StorageStrategy.case, (intro keeps_rules)+)
qed

end

end
