(* ===== verification/ServerEffects.thy ===== *)
theory ServerEffects
  imports ServerInvariant FileQuiet ServiceProperties
begin

text \<open>
  What the handlers of the server do to the clients and the jobs: most only
  read them or write keys of other families (\<open>unmoved\<close>), and a message that
  is authorised has the effect of the service it calls.
\<close>

section \<open>Handlers that leave clients and jobs alone\<close>

definition unmoved :: "'w redis \<Rightarrow> 'w \<Rightarrow> 'w \<times> ServerState \<Rightarrow> bool" where
  "unmoved M w ws \<longleftrightarrow> same_db M w (fst ws)"

lemma unmoved_call [keeps_rules]: "keeps_db M m \<Longrightarrow> preserves (unmoved M w0) (call m)"
  by (auto simp: preserves_def unmoved_def call_def keeps_db_def split: prod.split intro: same_db_trans)
    (metis same_db_trans snd_conv)

lemma unmoved_look [keeps_rules]: "preserves (unmoved M w0) (look f)"
  by (simp add: preserves_def unmoved_def look_def split: prod.split)

lemma unmoved_change [keeps_rules]: "preserves (unmoved M w0) (change f)" "preserves (unmoved M w0) (emit e)"
  by (simp_all add: preserves_def unmoved_def change_def emit_def split: prod.split)

lemma unmovedD: "preserves (unmoved M w) m \<Longrightarrow> same_db M w (fst (snd (m (w, s))))"
  using preservesD [of "unmoved M w" m "(w, s)"] by (simp add: unmoved_def)

lemma foreign_gateway [simp, keeps_rules]: "foreign (GATEWAY_SESSION i)" "foreign LAST_SESSION_ID"
  by (simp_all add: foreign_def key_simps GATEWAY_SESSION_def LAST_SESSION_ID_def)

context redis_quiet
begin

lemma keeps_db_session_store [keeps_rules]:
  "keeps_db M (saveSession M i d now)" "keeps_db M (removeSession M i)"
  "keeps_db M (setLastSessionId M i)" "keeps_db M (getLastSessionId M)"
proof -
  have [keeps_rules]: "keeps_db M (DEL_COUNT M (GATEWAY_SESSION i))"
    unfolding DEL_COUNT_def using foreignD [OF foreign_gateway(1)]
    by (intro keeps_db_command) (auto simp: same_db_def strs_laws mems_laws)
  show "keeps_db M (saveSession M i d now)" "keeps_db M (removeSession M i)"
    "keeps_db M (setLastSessionId M i)" "keeps_db M (getLastSessionId M)"
    unfolding saveSession_def removeSession_def setLastSessionId_def getLastSessionId_def by (intro keeps_rules)+
qed

lemma keeps_db_tracker [keeps_rules]:
  "keeps_db M (updateClientActivity M ss uid speed ping now)"
  "keeps_db M (initializeUptimeTracking M ss uid now hex)"
  "keeps_db M (finalizeUptimeSession M cfg None ss uid reason now)"
proof -
  have [keeps_rules]: "foreign (SESSION_KEY a b)" "foreign (USER_SESSIONS a)" "foreign (USER_DAILY a)" for a b
    by (simp_all add: SESSION_KEY_def USER_SESSIONS_def USER_DAILY_def)
  have [keeps_rules]: "keeps_db M (getUserSessionsForDate M uid d)" for d
    unfolding getUserSessionsForDate_def by (intro keeps_rules)
  have [keeps_rules]: "keeps_db M (updateDailyUptimeRecord M cfg None uid session now)" for session
    unfolding updateDailyUptimeRecord_def completion_check_def Let_def option.case by (intro keeps_rules)
  show "keeps_db M (updateClientActivity M ss uid speed ping now)"
    "keeps_db M (initializeUptimeTracking M ss uid now hex)"
    "keeps_db M (finalizeUptimeSession M cfg None ss uid reason now)"
    unfolding updateClientActivity_def initializeUptimeTracking_def finalizeUptimeSession_def Let_def
    by (intro keeps_rules)+
qed

lemma keeps_db_sessions [keeps_rules]:
  "keeps_db M (wsEndSession M i now)" "keeps_db M (endWebSocketSession M u now)"
  "keeps_db M (wsCreateSession M ttl u c now rnd)" "keeps_db M (createWebSocketSession M ttl u c now rnd)"
  "keeps_db M (requestAuth M u)"
  unfolding wsEndSession_def endWebSocketSession_def wsCreateSession_def createWebSocketSession_def
    requestAuth_def clientAuthorization_def
  by (intro keeps_rules)+

lemma disconnect_unmoved:
  assumes "en_redis E = M" "en_check24 E = None"
  shows "preserves (unmoved M w0) (handleClientDisconnect E sid code reason now)"
  unfolding handleClientDisconnect_def drop_session_def cleanupNodeSession_def end_uptime_def assms
  by (intro keeps_rules)

lemma activity_unmoved:
  assumes "en_redis E = M"
  shows "preserves (unmoved M w0) (node_activity E uid speed ping now)"
    "preserves (unmoved M w0) (server_activity E uid now)"
  unfolding node_activity_def server_activity_def assms by (intro keeps_rules)+

end

section \<open>The steps before a handler\<close>

text \<open>A tracker's step returns, and changes the tracker's map only.\<close>

context redis_quiet
begin

lemma activity_runs:
  assumes "en_redis E = M"
  shows "\<exists>w' u. node_activity E uid speed ping now (w, s) = (Inr (), (w', s\<lparr>sv_node_uptime := u\<rparr>)) \<and> same_db M w w'"
    and "\<exists>w' u. server_activity E uid now (w, s) = (Inr (), (w', s\<lparr>sv_uptime := u\<rparr>)) \<and> same_db M w w'"
proof -
  have total: "total (updateClientActivity M ss uid speed ping now)" for ss speed ping
    by (auto simp: updateClientActivity_def)
  have run: "\<exists>r u w'. updateClientActivity M ss uid speed ping now w = (Inr (r, u), w') \<and> same_db M w w'" for ss speed ping
    using total keeps_dbD [OF keeps_db_tracker(1)] unfolding total_def by (metis prod.collapse snd_conv)
  show "\<exists>w' u. node_activity E uid speed ping now (w, s) = (Inr (), (w', s\<lparr>sv_node_uptime := u\<rparr>)) \<and> same_db M w w'"
    using run [of "sv_node_uptime s" speed ping] by (auto simp: node_activity_def act_simps assms)
  show "\<exists>w' u. server_activity E uid now (w, s) = (Inr (), (w', s\<lparr>sv_uptime := u\<rparr>)) \<and> same_db M w w'"
    using run [of "sv_uptime s" None None] by (auto simp: server_activity_def act_simps assms)
qed

end

context redis_up
begin

lemma is_quiet: "redis_quiet M"
  by (rule redis_quiet_axioms)

lemma requestAuth_eq:
  assumes "db_inv M w"
  shows "requestAuth M uid w = (Inr (case clients M w uid of None \<Rightarrow> False
    | Some c \<Rightarrow> c_clientStatus c = client_status ACTIVE), w)"
  by (simp add: requestAuth_def clientAuthorization_def act_simps getClient_eq [OF db_inv_typed [OF assms]]
    split: option.split)

text \<open>An authorised message is handled, and the response is sent.\<close>

lemma node_handled:
  assumes "db_inv M w" "en_redis E = M"
    and "clients M w (am_user_principal_id m) = Some c" "c_clientStatus c = client_status ACTIVE"
    and "node_response E m now rnd (w, s) = (Inr r, (w', s'))"
  shows "handleNodeMessage E cs m now rnd (w, s) = (Inr (), (w', send_counted (cs_id cs) r s'))"
  using assms by (simp add: handleNodeMessage_def act_simps requestAuth_eq sendWebSocketResponse_def)

lemma isClientAvailable_eq:
  assumes "db_inv M w"
  shows "isClientAvailable M uid w = (Inr (case clients M w uid of None \<Rightarrow> False
    | Some c \<Rightarrow> c_clientStatus c = client_status ACTIVE \<and> c_wsDisconnect c = 0 \<and> active_count c < max_capacity c), w)"
  by (simp add: isClientAvailable_def act_simps getClient_eq [OF db_inv_typed [OF assms]] split: option.split)

lemma clientConnect_effect:
  assumes "db_inv M w" "clients M w uid = Some c"
  shows "\<exists>w'. clientConnect M ttl uid cid now rnd w = (Inr (Success ''Client connected successfully''), w')
    \<and> clients M w' = (clients M w)(uid \<mapsto> spread_client [Client_id cid, WsConnect now, WsDisconnect 0,
               Client_status (client_status ACTIVE), PingTimestamp now] c)"
proof -
  let ?us = "[Client_id cid, WsConnect now, WsDisconnect 0, Client_status (client_status ACTIVE), PingTimestamp now]"
  let ?w = "put_client M uid ?us c (watch M (CLIENT uid) w)"
  have total: "total (createSession M ttl uid cid now rnd)" by simp
  obtain r w' where session: "createSession M ttl uid cid now rnd ?w = (Inr r, w')"
    by (metis total [unfolded total_def])
  have "same_db M ?w w'" using keeps_dbD [OF keeps_db_accounts(1), of ?w ttl uid cid now rnd] session by simp
  then have "clients M w' = clients M ?w" by (rule same_db_maps)
  moreover have "clients M ?w = (clients M w)(uid \<mapsto> spread_client ?us c)" by simp
  ultimately show ?thesis
    using session by (simp add: clientConnect_def act_simps updateClient_eq [OF db_inv_typed [OF assms(1)]] assms(2))
qed

end

section \<open>The result of a job\<close>

text \<open>
  What the message of a result does: the client of the sender is paid for the
  job that the message names.
\<close>

lemma scrape_result_pays:
  fixes now :: int
  assumes up: "redis_up M" and quiet: "dual_quiet M D S" and E: "en_redis E = M" "en_disk E = D" "en_referral E = None"
    and V: "dual_in_use (en_node_files E) = None \<or> dual_in_use (en_node_files E) = Some S"
      "dual_in_use (en_content_files E) = None \<or> dual_in_use (en_content_files E) = Some S"
    and inv: "service_inv M w" "unique_connections M w"
    and c: "clients M w u = Some c" and j: "jobs M w i = Some j" and i: "i \<noteq> []"
    and v: "en_parse E (js_string (en_num E) data) = Some v" "v \<noteq> JNull" "result_content v = Some content"
  defines "x \<equiv> job_reward (j_assignedAt j) now"
  shows "\<exists>w' s' stored. handleScrapeResultMessage E data i (c_client_id c) uid now rnd (w, s)
      = (Inr (job_complete_reply i x now), (w', s'))
    \<and> clients M w' = (clients M w)(u \<mapsto> c\<lparr>c_activeJobs := filter (\<lambda>k. k \<noteq> i) (c_activeJobs c),
        c_todaysEarnings := c_todaysEarnings c + x, c_balance := c_balance c + x\<rparr>)
    \<and> s' = s\<lparr>sv_events := sv_events s @ [JobSucceeded i \<lparr>jo_jobId = i, jo_clientId = c_client_id c,
        jo_content = content, jo_storedFileId = stored, jo_timestamp = now\<rparr>]\<rparr>"
proof -
  let ?create = "createFileFromJobResult M D (en_node_files E) (en_sha256 E) (en_num E)
    \<lparr>jr_jobId = i, jr_content = Some content, jr_contentType = None, jr_fileName = None,
     jr_userPrincipalId = Some uid\<rparr> now rnd"
  have stored: "\<exists>x w1. store_result E (en_node_files E) i content (Some uid) now rnd (w, s) = (Inr x, (w1, s)) \<and> same_db M w w1"
  proof -
    obtain r w1 where run: "?create w = (r, w1)" by fastforce
    then have "same_db M w w1"
      using keeps_dbD [OF dual_quiet.keeps_db_contents(2) [OF quiet V(1)]] by (metis snd_conv)
    then show ?thesis using run by (cases r) (simp_all add: store_result_def act_simps E)
  qed
  then obtain sid w1 where st: "store_result E (en_node_files E) i content (Some uid) now rnd (w, s) = (Inr sid, (w1, s))"
    and same: "same_db M w w1" by blast
  note maps = same_db_maps [OF same]
  have inv1: "service_inv M w1" using inv same_db_service_inv [OF same] by simp
  have "unique_connections M w1" using inv(2) maps by (simp add: unique_connections_def)
  then have named: "client_named M w1 (c_client_id c) = Some c"
    using redis_up.client_named_unique [OF up db_inv_typed [OF service_inv_db [OF inv1]], of u c] c maps by simp
  have u: "c_user_principal_id c = u"
    using db_typed_client [OF db_inv_typed [OF service_inv_db [OF inv(1)]] c] by simp
  have j1: "jobs M w1 i = Some j" using j maps by simp
  obtain r w' where run: "updateJobCompleted M (en_parse E) (\<lambda>k. getFileContentByStoredId M D (en_content_files E) k now)
      None i (c_client_id c) sid now w1 = (r, w')" by fastforce
  note spec = redis_up.complete_spec [OF up inv1 _ named j1 run, OF dual_quiet.keeps_db_contents(1) [OF quiet V(2)]]
  have "handleScrapeResultMessage E data i (c_client_id c) uid now rnd (w, s)
      = (Inr (job_complete_reply i x now), (w', s\<lparr>sv_events := sv_events s @ [JobSucceeded i \<lparr>jo_jobId = i,
        jo_clientId = c_client_id c, jo_content = content, jo_storedFileId = sid, jo_timestamp = now\<rparr>]\<rparr>))"
    using v st run spec i
    by (simp add: handleScrapeResultMessage_def act_simps not_null_def truthy_def complete_job_def
      node_updateJobCompleted_def E x_def)
  then show ?thesis using spec maps u unfolding x_def [symmetric]
    by (intro exI [of _ w'] exI [of _ sid] exI conjI) simp_all
qed

section \<open>A job is sent\<close>

definition job_json :: "string \<Rightarrow> string \<Rightarrow> string \<Rightarrow> string option \<Rightarrow> int \<Rightarrow> int \<Rightarrow> int \<Rightarrow> json" where
  "job_json cid t url jobId posts reps pause = JObj
     [(''function'', JStr ''TWITTER_SCRAPE''), (''type'', JStr t), (''url'', JStr url),
      (''job_id'', JStr (some_text jobId [])), (''message'', JStr ''Sending job to client''),
      (''client_id'', JStr cid), (''post_count'', jint posts), (''replies_count'', jint reps),
      (''scrollPauseTime'', jint pause), (''status'', JStr ''OK'')]"

definition refused_json :: "string \<Rightarrow> json" where
  "refused_json uid = error_reply (''Node message handling failed: Authentication failed for user: '' @ uid)"

lemma job_types_only:
  assumes "t \<in> set job_types"
  shows "t \<noteq> ''PING''" "t \<noteq> ''INTERNET_SPEED_TEST''" "t \<noteq> ''SPEED_TEST''" "t \<noteq> ''HALO''"
  using assms by (auto simp: job_types_def)

lemma job_response:
  assumes "t \<in> set job_types"
  shows "node_response E \<lparr>am_text = t, am_data = JStr url, am_user_principal_id = uid, am_node_client_id = cid,
      am_job_id = Some (some_text jobId []), am_post_count = Some posts, am_replies_count = Some reps,
      am_scrollPauseTime = Some pause\<rparr> now rnd ws = (Inr (job_json cid t url jobId posts reps pause), ws)"
proof -
  have "some_text (Some (some_text jobId [])) [] = some_text jobId []"
    by (simp add: some_text_def truthy_def split: option.split)
  then show ?thesis
    using assms job_types_only [OF assms]
    by (simp add: node_response_def handleJobMessage_def act_simps job_json_def or_zero_def)
qed

lemma total_requestAuth: "total (requestAuth M uid)"
  by (auto simp: requestAuth_def)

text \<open>Whether the user is authorised decides what is sent, and nothing decides the result.\<close>

lemma job_sent:
  assumes t: "t \<in> set job_types" and cid: "some_text (cs_clientId cs) [] \<noteq> []"
    and auth: "requestAuth (en_redis E) uid w = (Inr b, w')"
  shows "node_sendJobToClient E cs uid url t jobId posts reps pause now rnd (w, s) =
    (Inr Sent, (w', send_counted (cs_id cs)
       (if b then job_json (the (cs_clientId cs)) t url jobId posts reps pause else refused_json uid) s))"
  using assms by (simp add: node_sendJobToClient_def handleNodeMessage_def act_simps job_response
    sendWebSocketResponse_def refused_json_def)

lemma job_sent_by_server:
  assumes "chosen_session cid uid s = Some c" "cs_isRegistered c" "some_text (cs_clientId c) [] \<noteq> []"
    and "node_sendJobToClient E c uid url t jobId posts reps pause now rnd (w, s) = (Inr x, ws')"
  shows "server_sendJobToClient E cid uid url t jobId posts reps pause now rnd (w, s) = (Inr x, ws')"
  using assms by (simp add: server_sendJobToClient_def catchA_apply bindA_apply look_apply)

section \<open>A message that speaks for a user\<close>

definition reconnected :: "string \<Rightarrow> int \<Rightarrow> ClientStruct \<Rightarrow> ClientStruct" where
  "reconnected cid now c = spread_client [Client_id cid, WsConnect now, WsDisconnect 0,
     Client_status (client_status ACTIVE), PingTimestamp now] c"

lemma reconnected_id: "c_client_id (reconnected cid now c) = cid"
  by (simp add: reconnected_def)

context redis_up
begin

lemma ping_handled:
  assumes "db_inv M w" "en_redis E = M" "clients M w v = Some d" "c_clientStatus d = client_status ACTIVE"
    and "am_text m = ''PING''" "am_user_principal_id m = v" "am_node_client_id m = cid"
  shows "\<exists>r w'. handleNodeMessage E cs m now rnd (w, s) = (Inr (), (w', send_counted (cs_id cs) r s))
    \<and> clients M w' = (clients M w)(v \<mapsto> reconnected cid now d)"
proof -
  obtain w' where run: "clientConnect M (en_sessionTimeout E) v cid now rnd w = (Inr (Success ''Client connected successfully''), w')"
    and cl: "clients M w' = (clients M w)(v \<mapsto> reconnected cid now d)"
    using clientConnect_effect [OF assms(1,3)] unfolding reconnected_def by blast
  have "node_response E m now rnd (w, s) = (Inr (ok_reply ''Notification'' ''Client connect open''
         [(''user_principal_id'', JStr v), (''state'', JStr ''Connected''), (''status'', JStr ''OK'')]), (w', s))"
    using assms(2,5-7) run by (simp add: node_response_def handlePingMessage_def connectClient_def act_simps)
  from node_handled [OF assms(1,2) _ assms(4) this] assms(3,6) cl show ?thesis by blast
qed

lemma ping_processed:
  assumes "db_inv M w" "en_redis E = M" "clients M w v = Some d" "c_clientStatus d = client_status ACTIVE" "v \<noteq> []"
    and "text_field m ''text'' = Some ''PING''" "text_field m ''user_principal_id'' = Some v"
    and "cs_clientId cs = Some cid" "cid \<noteq> []" "some_text (cs_userPrincipalId cs) [] \<noteq> []"
  shows "\<exists>r w' u. processWebSocketMessage E cs m now rnd (w, s) = (Inr (), (w', send_counted (cs_id cs) r (s\<lparr>sv_node_uptime := u\<rparr>)))
    \<and> clients M w' = (clients M w)(v \<mapsto> reconnected cid now d)"
proof -
  obtain w1 u where act: "node_activity E (the (cs_userPrincipalId cs)) None None now (w, s) = (Inr (), (w1, s\<lparr>sv_node_uptime := u\<rparr>))"
    and same: "same_db M w w1"
    using activity_runs(1) [OF assms(2)] by blast
  note maps = same_db_maps [OF same]
  obtain x where msg: "node_message m cid = Some x" "am_text x = ''PING''" "am_user_principal_id x = v" "am_node_client_id x = cid"
    using assms(5-7) by (simp add: node_message_def)
  obtain r w' where run: "handleNodeMessage E cs x now rnd (w1, s\<lparr>sv_node_uptime := u\<rparr>)
      = (Inr (), (w', send_counted (cs_id cs) r (s\<lparr>sv_node_uptime := u\<rparr>)))"
    and cl: "clients M w' = (clients M w1)(v \<mapsto> reconnected cid now d)"
    using ping_handled [of w1 E v d x cid cs now rnd "s\<lparr>sv_node_uptime := u\<rparr>", OF _ assms(2)] assms(1,3,4) maps msg
    by fastforce
  have "some_text (cs_clientId cs) [] \<noteq> []" "the (cs_clientId cs) = cid"
    using assms(8,9) by (simp_all add: some_text_def truthy_def)
  then have "processWebSocketMessage E cs m now rnd (w, s) = (Inr (), (w', send_counted (cs_id cs) r (s\<lparr>sv_node_uptime := u\<rparr>)))"
    using act run msg(1) assms(10) by (simp add: processWebSocketMessage_def catchA_apply thenA_apply)
  then show ?thesis using cl maps by auto
qed

text \<open>The dispatch of a message of the nodes on a registered session.\<close>

lemma node_dispatched:
  assumes "en_redis E = M" and "map_of (sv_clients s) sid = Some c" "cs_isRegistered c"
    "some_text (cs_userPrincipalId c) [] \<noteq> []"
    and m: "en_parse E (utf8_text data) = Some m" "m \<noteq> JNull" "text_field m ''type'' \<noteq> Some ''file_upload''"
      "text_field m ''text'' = Some t" "t \<noteq> []" "t \<in> set node_message_types"
    and run: "\<And>w1 s1. same_db M w w1 \<Longrightarrow> \<exists>w' s'. processWebSocketMessage E (c\<lparr>cs_lastHeartbeat := now\<rparr>) m now rnd (w1, s1)
      = (Inr (), (w', s')) \<and> P w'"
  shows "\<exists>w' s'. handleMessage E sid data now d rnd (w, s) = (Inr (), (w', s')) \<and> P w'"
proof -
  let ?c = "c\<lparr>cs_lastHeartbeat := now\<rparr>"
  let ?s = "modify_session sid (\<lambda>c. c\<lparr>cs_lastHeartbeat := now\<rparr>) (s\<lparr>sv_stats := (sv_stats s)
    \<lparr>ss_messagesReceived := ss_messagesReceived (sv_stats s) + 1\<rparr>\<rparr>)"
  obtain w1 u where act: "server_activity E (the (cs_userPrincipalId c)) now (w, ?s) = (Inr (), (w1, ?s\<lparr>sv_uptime := u\<rparr>))"
    and same: "same_db M w w1"
    using activity_runs(2) [OF assms(1)] by blast
  obtain w' s' where proc: "processWebSocketMessage E ?c m now rnd (w1, ?s\<lparr>sv_uptime := u\<rparr>) = (Inr (), (w', s'))" and "P w'"
    using run [OF same] by blast
  have "some_text (text_field m ''text'') (some_text (text_field m ''type'') []) = t"
    using m(4,5) by (simp add: some_text_def truthy_def)
  then have client: "handleClientMessage E ?c (utf8_text data) now rnd (w1, ?s\<lparr>sv_uptime := u\<rparr>) = (Inr (), (w', s'))"
    using m proc by (simp add: handleClientMessage_def Let_def not_null_def catchA_apply thenA_apply returnA_apply)
  then have "receive E ?c (utf8_text data) now d rnd (w, ?s) = (Inr (), (w', s'))"
    using assms(3,4) act by (simp add: receive_def catchA_apply thenA_apply)
  then have "handleMessage E sid data now d rnd (w, s) = (Inr (), (w', modify_session sid
      (\<lambda>c. c\<lparr>cs_messagesReceived := cs_messagesReceived c + 1\<rparr>) s'))"
    using assms(2) by (simp add: handleMessage_def catchA_apply thenA_apply bindA_apply change_apply look_apply)
  then show ?thesis using \<open>P w'\<close> by blast
qed

end

end
