(* ===== verification/ServerProperties.thy ===== *)
theory ServerProperties
  imports ServerEffects
begin

text \<open>
  The properties of the socket server: the invariant of the sessions, an answer
  to every message, what a closing socket leaves behind, whom a job is sent to,
  and whom a message speaks for.
\<close>

section \<open>A server to run\<close>

definition plain_files :: "'w FileService" where
  "plain_files = \<lparr>fv_baseDataPath = ''data'', fv_useDualStorage = False, fv_dualStorageManager = None\<rparr>"

definition demo_parse :: "string \<Rightarrow> json option" where
  "demo_parse t = (if t = ''p'' then Some (JObj [(''text'', JStr ''PING''), (''user_principal_id'', JStr ''u1'')])
     else if t = ''r'' then Some (JArr [JNum 1]) else None)"

definition demo_env :: "box vaulted env" where
  "demo_env = \<lparr>en_redis = vault_redis, en_disk = vault_disk, en_sessionTimeout = 86400, en_parse = demo_parse,
     en_num = (\<lambda>_. ''0.5''), en_decode = Some, en_sha256 = (\<lambda>s. s), en_referral = None, en_check24 = None,
     en_uptime = getDefaultConfig True ''daily'' ''logs'' 10 10,
     en_node_files = plain_files, en_rpc_files = plain_files, en_socket_files = plain_files,
     en_content_files = plain_files\<rparr>"

definition demo_connection :: ConnectionRequest where
  "demo_connection = \<lparr>cq_authorization = None, cq_query_authorization = None, cq_query_principal_id = Some ''u''\<rparr>"

definition connected :: "box vaulted \<Rightarrow> box vaulted \<times> ServerState" where
  "connected w = snd (handleNewConnection demo_env demo_connection 5 (w, newServer 3))"

lemma connected_reached: "reached demo_env (connected w)"
  unfolding connected_def by (rule Step [OF Gateway Connected])

lemma connected_session:
  "map_of (sv_clients (snd (connected w))) 1 = Some (new_client_session 1 (Some ''u'') 5)"
  "sv_open (snd (connected w)) = [1]"
proof -
  obtain w' where "getNextSessionId demo_env (w, newServer 3)
      = (Inr 1, (w', (newServer 3)\<lparr>sv_nextSessionId := 2\<rparr>))"
    using getNextSessionId_fresh [of demo_env w "newServer 3"] by (auto simp: newServer_def)
  then show "map_of (sv_clients (snd (connected w))) 1 = Some (new_client_session 1 (Some ''u'') 5)"
    "sv_open (snd (connected w)) = [1]"
    by (simp_all add: connected_def handleNewConnection_def act_simps principal_of_def demo_connection_def
      some_text_def truthy_def without_bearer_def newServer_def)
qed

text \<open>The store of \<open>demo_world\<close> with a server on which one other user is registered.\<close>

definition demo_box :: "box vaulted" where
  "demo_box = ((demo_world, snd box0), snd vault0)"

definition demo_session :: ClientSession where
  "demo_session = registered_session ''u2'' ''c2'' (new_client_session 4 None 5)"

definition demo_server :: ServerState where
  "demo_server = (newServer 3)\<lparr>sv_clients := [(4, demo_session)], sv_open := [4], sv_nextSessionId := 5\<rparr>"

lemma lifted_maps:
  "clients (lift_redis M) w = clients M (fst w)" "jobs (lift_redis M) w = jobs M (fst w)"
  "db_inv (lift_redis M) w = db_inv M (fst w)"
proof -
  show cj: "clients (lift_redis M) w = clients M (fst w)" "jobs (lift_redis M) w = jobs M (fst w)"
    by (simp_all add: clients_def jobs_def lift_redis_def fun_eq_iff)
  show "db_inv (lift_redis M) w = db_inv M (fst w)"
    unfolding db_inv_def db_typed_def status_index_def state_index_def user_index_def cj
    by (simp add: lift_redis_def)
qed

lemma demo_box_maps:
  "clients vault_redis demo_box = [''u1'' \<mapsto> demo_client]" "jobs vault_redis demo_box = [''job_1'' \<mapsto> demo_job]"
  "db_inv vault_redis demo_box" "service_inv vault_redis demo_box" "unique_connections vault_redis demo_box"
proof -
  show maps: "clients vault_redis demo_box = [''u1'' \<mapsto> demo_client]"
    "jobs vault_redis demo_box = [''job_1'' \<mapsto> demo_job]"
    by (simp_all add: vault_redis_def box_redis_def lifted_maps demo_box_def demo_maps)
  show inv: "db_inv vault_redis demo_box"
    by (simp add: vault_redis_def box_redis_def lifted_maps demo_box_def demo_inv)
  show "service_inv vault_redis demo_box"
    using inv maps by (simp add: service_inv_def capacity_ok_def active_count_def max_capacity_def or_num_def)
  show "unique_connections vault_redis demo_box"
    by (auto simp: unique_connections_def maps split: if_splits)
qed

lemma vault_up: "redis_up vault_redis" "dual_quiet vault_redis vault_disk (vault_dual memory_canister config base)"
  by (rule boxed.redis_up_axioms) (rule boxed.dual_quiet_axioms)

lemma demo_env_simps [simp]:
  "en_redis demo_env = vault_redis" "en_disk demo_env = vault_disk" "en_check24 demo_env = None"
  "en_referral demo_env = None" "en_parse demo_env = demo_parse" "dual_in_use (en_node_files demo_env) = None"
  "dual_in_use (en_content_files demo_env) = None"
  by (simp_all add: demo_env_def plain_files_def dual_in_use_def)

lemma demo_session_simps [simp]:
  "cs_isRegistered demo_session" "cs_clientId demo_session = Some ''c2''" "cs_id demo_session = 4"
  "cs_userPrincipalId demo_session = Some ''u2''" "map_of (sv_clients demo_server) 4 = Some demo_session"
  "sv_clients demo_server = [(4, demo_session)]" "sv_open demo_server = [4]" "sv_sent demo_server = []"
  "any_registered demo_server = Some demo_session"
  by (simp_all add: demo_session_def registered_session_def new_client_session_def demo_server_def newServer_def
    any_registered_def)

section \<open>The sessions\<close>

text \<open>C25: In every state the server reaches, a session is kept under its own identifier and a registered one
  has a client and a user; and the identifier of the next connection is one that no session, no socket and no
  message that was sent has: identifiers are not given twice while the server runs.\<close>

theorem sessions_reachable:
  assumes "reached E (w, s)" and "map_get (sv_clients s) sid = Some c"
    and "handleNewConnection E request now (w, s) = (Inr new, ws')"
  shows "cs_id c = sid
    \<and> (cs_isRegistered c \<longrightarrow> some_text (cs_clientId c) [] \<noteq> [] \<and> some_text (cs_userPrincipalId c) [] \<noteq> [])
    \<and> sid < new \<and> new \<notin> set (sv_open s) \<and> new \<notin> fst ` set (sv_sent s)
    \<and> (\<exists>c'. map_get (sv_clients (snd ws')) new = Some c' \<and> \<not> cs_isRegistered c')"
proof -
  have ok: "sessions_ok s" using reached_ok [OF assms(1)] by simp
  then have c: "session_ok (sv_nextSessionId s) sid c"
    using map_of_SomeD [OF assms(2)] by (fastforce simp: sessions_ok_def)
  obtain w' where "getNextSessionId E (w, s) = (Inr (sv_nextSessionId s), (w', s\<lparr>sv_nextSessionId := sv_nextSessionId s + 1\<rparr>))"
    using getNextSessionId_fresh [of E w s] by blast
  then have "new = sv_nextSessionId s"
    "\<exists>c'. map_get (sv_clients (snd ws')) new = Some c' \<and> \<not> cs_isRegistered c'"
    using assms(3) by (auto simp: handleNewConnection_def act_simps principal_of_keeps new_client_session_def
      split: prod.splits sum.splits)
  moreover have "sv_nextSessionId s \<notin> set (sv_open s)" "sv_nextSessionId s \<notin> fst ` set (sv_sent s)"
    using ok by (auto simp: sessions_ok_def)
  ultimately show ?thesis using c by (simp add: session_ok_def)
qed

text \<open>C26: Every message on the socket of a session is answered: whatever its bytes, the session, the server's
  data and the failures of its services are, the handler returns and has sent exactly one message, on that
  socket.\<close>

theorem every_message_answered:
  assumes "reached E (w, s)" and "map_get (sv_clients s) sid = Some c" and "sid \<in> set (sv_open s)"
  shows "\<exists>r w' s'. handleMessage E sid data now d rnd (w, s) = (Inr (), (w', s'))
    \<and> sv_sent s' = sv_sent s @ [(sid, r)] \<and> sv_open s' = sv_open s"
proof -
  have "sessions_ok s" using reached_ok [OF assms(1)] by simp
  then have "cs_id c = sid"
    using map_of_SomeD [OF assms(2)] by (fastforce simp: sessions_ok_def session_ok_def)
  from answers_handleMessage [OF assms(3,2) this, of E data now d rnd w] show ?thesis
    by (fastforce simp: one_reply_def)
qed

theorem every_message_answered_witness:
  "\<exists>r w' s'. handleMessage demo_env 1 ''x'' 6 \<lparr>dr_code = [], dr_connect = 1, dr_node = 2, dr_ws = 3, dr_hex = ''a''\<rparr> 4
      (connected vault0) = (Inr (), (w', s')) \<and> sv_sent s' = sv_sent (snd (connected vault0)) @ [(1, r)]
      \<and> sv_open s' = sv_open (snd (connected vault0))"
  using every_message_answered [of demo_env "fst (connected vault0)" "snd (connected vault0)" 1] connected_reached [of vault0]
    connected_session [of vault0]
  by simp

theorem sessions_reachable_witness:
  "cs_id (new_client_session 1 (Some ''u'') 5) = 1 \<and>
    (\<exists>new ws'. handleNewConnection demo_env demo_connection 9 (connected vault0) = (Inr new, ws') \<and> 1 < new)"
proof -
  obtain new ws' where run: "handleNewConnection demo_env demo_connection 9 (connected vault0) = (Inr new, ws')"
    using getNextSessionId_fresh [of demo_env "fst (connected vault0)" "snd (connected vault0)"]
    by (fastforce simp: handleNewConnection_def act_simps principal_of_def demo_connection_def some_text_def truthy_def
      without_bearer_def)
  show ?thesis
    using sessions_reachable [of demo_env "fst (connected vault0)" "snd (connected vault0)" 1, OF _ connected_session(1),
        of demo_connection 9 new ws'] connected_reached [of vault0] run
    by auto
qed

section \<open>Closed sockets\<close>

lemma total_drop_session: "total (drop_session E cs now)"
  unfolding drop_session_def cleanupNodeSession_def by (auto intro!: total_then)

text \<open>A closing socket ends its session and nothing else: the record of the client, its status and the time of
  its disconnection in it, is as before, so that the search for a free client still counts the user as
  available.\<close>

theorem disconnect_leaves_available:
  assumes "redis_up M" and "db_inv M w" and "en_redis E = M" "en_check24 E = None"
    and "map_get (sv_clients s) sid = Some c" "sid \<noteq> 0"
    and "handleClientDisconnect E sid code reason now (w, s) = (r, (w', s'))"
  shows "map_get (sv_clients s') sid = None \<and> clients M w' = clients M w \<and> jobs M w' = jobs M w
    \<and> fst (isClientAvailable M uid w') = fst (isClientAvailable M uid w)"
proof -
  have same: "same_db M w w'"
    using unmovedD [OF redis_quiet.disconnect_unmoved [OF redis_up.is_quiet [OF assms(1)] assms(3,4)], of w sid code reason now s] assms(7) by simp
  note maps = same_db_maps [OF same]
  obtain w1 s1 where "drop_session E c now (w, s) = (Inr (), (w1, s1))"
    using total_drop_session [of E c now] unfolding total_def by (metis (full_types) old.unit.exhaust prod.collapse)
  then have "map_get (sv_clients s') sid = None"
    using assms(5-7) by (auto simp: handleClientDisconnect_def act_simps)
  then show ?thesis
    using maps assms(2) by (simp add: redis_up.isClientAvailable_eq [OF assms(1)])
qed

theorem disconnect_leaves_available_witness:
  "clients vault_redis (fst (snd (handleClientDisconnect demo_env 4 1001 ''x'' 9 (demo_box, demo_server))))
    = [''u1'' \<mapsto> demo_client]"
proof -
  obtain r w' s' where run: "handleClientDisconnect demo_env 4 1001 ''x'' 9 (demo_box, demo_server) = (r, (w', s'))"
    by (metis prod.collapse)
  show ?thesis
    using disconnect_leaves_available [OF vault_up(1) demo_box_maps(3) demo_env_simps(1,3) demo_session_simps(5) _ run]
    by (simp add: run demo_box_maps)
qed

section \<open>Jobs\<close>

text \<open>A job for a user without a connection is sent to whoever is registered first: when no session has the
  user's client identifier or principal, the first registered session gets the job, and the caller is told
  that the job was sent.\<close>

theorem offline_job_goes_elsewhere:
  assumes "redis_up M" and "db_inv M w" and "en_redis E = M"
    and "clients M w uid = Some u" "c_clientStatus u = client_status ACTIVE"
    and "t \<in> set job_types"
    and "\<forall>e \<in> set (sv_clients s). cs_userPrincipalId (snd e) \<noteq> Some uid \<and> cs_clientId (snd e) \<noteq> Some cid"
    and "any_registered s = Some c" "some_text (cs_clientId c) [] \<noteq> []" "cs_id c \<in> set (sv_open s)"
  shows "\<exists>s'. server_sendJobToClient E cid uid url t jobId posts reps pause now rnd (w, s) = (Inr Sent, (w, s'))
    \<and> cs_userPrincipalId c \<noteq> Some uid
    \<and> sv_sent s' = sv_sent s @ [(cs_id c, job_json (the (cs_clientId c)) t url jobId posts reps pause)]"
proof -
  have c: "cs_isRegistered c" "c \<in> snd ` set (sv_clients s)"
    using assms(8) by (auto simp: any_registered_def dest: find_Some_set)
  have "findClientSessionByClientId cid s = None" "findClientSessionByPrincipalId uid s = None"
    using assms(7) by (auto simp: findClientSessionByClientId_def findClientSessionByPrincipalId_def find_None_set)
  then have "chosen_session cid uid s = Some c" using assms(8) by (simp add: chosen_session_def)
  moreover have "requestAuth (en_redis E) uid w = (Inr True, w)"
    using redis_up.requestAuth_eq [OF assms(1,2)] assms(3-5) by simp
  ultimately have "server_sendJobToClient E cid uid url t jobId posts reps pause now rnd (w, s) = (Inr Sent,
      (w, send_counted (cs_id c) (job_json (the (cs_clientId c)) t url jobId posts reps pause) s))"
    using job_sent_by_server [OF _ c(1) assms(9) job_sent [OF assms(6,9), of E uid w True w]] by simp
  then show ?thesis using assms(7,10) c(2) by (auto simp: send_counted_def send_def)
qed

theorem offline_job_goes_elsewhere_witness:
  "\<exists>s'. server_sendJobToClient demo_env [] ''u1'' ''t'' ''HTML'' (Some ''job_1'') 1 2 3 9 0 (demo_box, demo_server)
      = (Inr Sent, (demo_box, s'))
    \<and> sv_sent s' = [(4, job_json ''c2'' ''HTML'' ''t'' (Some ''job_1'') 1 2 3)]"
  using offline_job_goes_elsewhere [OF vault_up(1) demo_box_maps(3), of demo_env "''u1''" demo_client "''HTML''"
      demo_server "[]" demo_session "''t''" "Some ''job_1''" 1 2 3 9 0]
  by (simp add: demo_box_maps job_types_def some_text_def truthy_def)

text \<open>The result of sending a job says nothing about the job: with any registered session chosen, whatever the
  state of its socket and whether the user is authorised or not, the caller is told that the job was sent; on a
  closed socket nothing is sent, and an unauthorised user makes it an error message to the client.\<close>

theorem job_always_sent:
  assumes "sessions_ok s" and "chosen_session cid uid s = Some c" "cs_isRegistered c" and "t \<in> set job_types"
  shows "\<exists>w' s'. server_sendJobToClient E cid uid url t jobId posts reps pause now rnd (w, s) = (Inr Sent, (w', s'))
    \<and> sv_sent s' = sv_sent s @ (if cs_id c \<notin> set (sv_open s) then []
        else if fst (requestAuth (en_redis E) uid w) = Inr True
        then [(cs_id c, job_json (the (cs_clientId c)) t url jobId posts reps pause)]
        else [(cs_id c, refused_json uid)])"
proof -
  obtain i where "(i, c) \<in> set (sv_clients s)"
    using assms(2) by (auto simp: chosen_session_def findClientSessionByClientId_def findClientSessionByPrincipalId_def
      any_registered_def dest!: find_Some_set split: option.splits)
  then have cid: "some_text (cs_clientId c) [] \<noteq> []" using assms(1,3) by (fastforce simp: sessions_ok_def session_ok_def)
  obtain b w' where auth: "requestAuth (en_redis E) uid w = (Inr b, w')"
    using total_requestAuth unfolding total_def by metis
  show ?thesis
    using job_sent_by_server [OF assms(2,3) cid job_sent [OF assms(4) cid auth]] auth
    by (intro exI [of _ w'] exI conjI) (assumption | simp add: send_counted_def send_def)+
qed

lemma demo_sessions_ok: "sessions_ok demo_server"
  by (simp add: sessions_ok_def session_ok_def is_jsmap_def some_text_def truthy_def)
    (simp add: demo_server_def newServer_def)

theorem job_always_sent_witness:
  "\<exists>w' s'. server_sendJobToClient demo_env ''c2'' ''nobody'' ''t'' ''HTML'' None 1 2 3 9 0 (demo_box, demo_server)
      = (Inr Sent, (w', s')) \<and> sv_sent s' = [(4, refused_json ''nobody'')]"
proof -
  have "fst (requestAuth vault_redis ''nobody'' demo_box) = Inr False"
    by (simp add: redis_up.requestAuth_eq [OF vault_up(1) demo_box_maps(3)] demo_box_maps)
  moreover have "chosen_session ''c2'' ''nobody'' demo_server = Some demo_session"
    by (simp add: chosen_session_def findClientSessionByClientId_def)
  ultimately show ?thesis
    using job_always_sent [OF demo_sessions_ok, of "''c2''" "''nobody''" demo_session "''HTML''" demo_env "''t''" None 1 2 3 9 0 demo_box]
    by (simp add: job_types_def)
qed

section \<open>Whom a message speaks for\<close>

text \<open>C28: A session may speak for any user: the user of a message is compared with nothing, so that a PING that names
  another active user gives that user's record the client identifier of the sender's session.\<close>

theorem ping_takes_over:
  assumes "redis_up M" and "db_inv M w" and "en_redis E = M"
    and "map_get (sv_clients s) sid = Some c" "cs_isRegistered c"
    and "cs_clientId c = Some cid" "cid \<noteq> []" "cs_userPrincipalId c = Some u" "u \<noteq> []"
    and "en_parse E (utf8_text data) = Some m" "m \<noteq> JNull" "text_field m ''type'' \<noteq> Some ''file_upload''"
    and "text_field m ''text'' = Some ''PING''" "text_field m ''user_principal_id'' = Some v" "v \<noteq> []"
    and "clients M w v = Some d" "c_clientStatus d = client_status ACTIVE"
  shows "\<exists>w' s' d'. handleMessage E sid data now dr rnd (w, s) = (Inr (), (w', s'))
    \<and> clients M w' = (clients M w)(v \<mapsto> d') \<and> c_client_id d' = cid"
proof -
  let ?c = "c\<lparr>cs_lastHeartbeat := now\<rparr>"
  have u: "some_text (cs_userPrincipalId c) [] \<noteq> []" using assms(8,9) by (simp add: some_text_def truthy_def)
  have "\<exists>w' s'. processWebSocketMessage E ?c m now rnd (w1, s1) = (Inr (), (w', s'))
      \<and> clients M w' = (clients M w)(v \<mapsto> reconnected cid now d)" if "same_db M w w1" for w1 s1
    using redis_up.ping_processed [OF assms(1) _ assms(3) _ assms(17,15,13,14), of w1 ?c cid now rnd s1]
      same_db_maps [OF that] assms(2,6,7,16) u by auto
  from redis_up.node_dispatched [where d = dr, OF assms(1,3-5) u assms(10-13) _ _ this]
  show ?thesis using reconnected_id by (force simp: node_message_types_def)
qed

theorem ping_takes_over_witness:
  "\<exists>w' s' d'. handleMessage demo_env 4 ''p'' 9 \<lparr>dr_code = [], dr_connect = 1, dr_node = 2, dr_ws = 3, dr_hex = ''a''\<rparr> 0
      (demo_box, demo_server) = (Inr (), (w', s'))
    \<and> clients vault_redis w' = [''u1'' \<mapsto> d'] \<and> c_client_id d' = ''c2''"
proof -
  have bytes: "utf8_text ''p'' = ''p''" by code_simp
  show ?thesis
    using ping_takes_over [OF vault_up(1) demo_box_maps(3), of demo_env demo_server 4 demo_session "''c2''" "''u2''" "''p''"
        "JObj [(''text'', JStr ''PING''), (''user_principal_id'', JStr ''u1'')]" "''u1''" demo_client]
    by (simp add: demo_box_maps bytes demo_parse_def text_field_def)
qed



end
