(* ===== verification/HttpResponse.thy ===== *)
theory HttpResponse
  imports Sockets
begin

text \<open>
  What every HTTP route is made with: the answers of \<open>api/utils/response.ts\<close>, the
  two middlewares of \<open>api/middleware/auth.ts\<close>, and \<open>apiKeyMiddleware\<close> of
  \<open>api/routes/rpc_routes.ts\<close>. A request is given by the parts a route reads: the
  \<open>Authorization\<close> header, the query and the body as JSON values, the parameters
  of the path as texts.
\<close>

section \<open>Answers\<close>

text \<open>
  An answer keeps what is sent: \<open>rp_data\<close> is \<open>None\<close> for \<open>data: null\<close>. A time stamp that is
  sent as ISO text is kept as the number the text is made from.
\<close>

record 'a response =
  rp_status :: int
  rp_success :: bool
  rp_message :: string
  rp_data :: "'a option"

definition api_success :: "'a \<Rightarrow> string \<Rightarrow> 'a response" where
  "api_success data msg = \<lparr>rp_status = 200, rp_success = True, rp_message = msg, rp_data = Some data\<rparr>"

definition api_nothing :: "string \<Rightarrow> 'a response" where
  "api_nothing msg = \<lparr>rp_status = 200, rp_success = True, rp_message = msg, rp_data = None\<rparr>"

definition api_created :: "'a \<Rightarrow> string \<Rightarrow> 'a response" where
  "api_created data msg = (api_success data msg)\<lparr>rp_status := 201\<rparr>"

definition api_error :: "string \<Rightarrow> int \<Rightarrow> 'a response" where
  "api_error msg code = \<lparr>rp_status = code, rp_success = False, rp_message = msg, rp_data = None\<rparr>"

definition api_error_with :: "string \<Rightarrow> int \<Rightarrow> 'a \<Rightarrow> 'a response" where
  "api_error_with msg code data = (api_error msg code)\<lparr>rp_data := Some data\<rparr>"

definition notFound :: "string \<Rightarrow> 'a response" where
  "notFound msg = api_error msg 404"

definition unauthorized :: "string \<Rightarrow> 'a response" where
  "unauthorized msg = api_error msg 401"

definition forbidden :: "string \<Rightarrow> 'a response" where
  "forbidden msg = api_error msg 403"

definition validationError :: "string \<Rightarrow> 'a response" where
  "validationError msg = api_error msg 400"

definition internalError :: "string \<Rightarrow> 'a response" where
  "internalError msg = api_error msg 500"

definition conflict :: "string \<Rightarrow> 'a response" where
  "conflict msg = api_error msg 409"

lemmas answer_defs = api_success_def api_nothing_def api_created_def api_error_def api_error_with_def
  notFound_def unauthorized_def forbidden_def validationError_def internalError_def conflict_def

text \<open>
  The frame of a route: \<open>try { body } catch (error) { return ApiResponse.internalError(res, msg) }\<close>.
\<close>

definition answering :: "string \<Rightarrow> ('w, 'a response) act \<Rightarrow> ('w, 'a response) act" where
  "answering msg body = catchA body (\<lambda>_. returnA (internalError msg))"

lemma answering_total [simp, intro]: "total (answering msg body)"
  unfolding answering_def by (rule total_catch_return)

lemma preserves_answering [keeps_rules]: "preserves P body \<Longrightarrow> preserves P (answering msg body)"
  unfolding answering_def by (intro preserves_catch preserves_return)

text \<open>A value, or the answer with the message of a failed result behind a text, or by itself.\<close>

definition on_success ::
  "string \<Rightarrow> 'b EntityResult \<Rightarrow> ('b \<Rightarrow> ('w, 'a response) act) \<Rightarrow> ('w, 'a response) act" where
  "on_success msg r next_step = (case r of
     Failure _ m \<Rightarrow> returnA (api_error (msg @ m) 400) | Success x \<Rightarrow> next_step x)"

lemma preserves_on_success [keeps_rules]:
  "(\<And>x. r = Success x \<Longrightarrow> preserves P (f x)) \<Longrightarrow> preserves P (on_success msg r f)"
  unfolding on_success_def by (cases r) (auto intro: preserves_return)

section \<open>Reading a request\<close>

definition js_trim :: "string \<Rightarrow> string" where
  "js_trim s = rev (dropWhile js_space (rev (dropWhile js_space s)))"

text \<open>A text where the code only asks that the value is truthy and then uses it as one.\<close>

definition given_text :: "(rat \<Rightarrow> string) \<Rightarrow> json \<Rightarrow> string \<Rightarrow> string" where
  "given_text num v k = (case json_member v k of
     Some x \<Rightarrow> if json_truthy (Some x) then js_string num x else [] | None \<Rightarrow> [])"

text \<open>\<open>parseInt(query.k as string)\<close>, of the default when the parameter is not there.\<close>

definition query_int :: "(rat \<Rightarrow> string) \<Rightarrow> json \<Rightarrow> string \<Rightarrow> string \<Rightarrow> int option" where
  "query_int num q k d = parseInt (case json_member q k of Some x \<Rightarrow> js_string num x | None \<Rightarrow> d)"

text \<open>\<open>parseInt(query.k as string) || d\<close>\<close>

definition query_int_or :: "(rat \<Rightarrow> string) \<Rightarrow> json \<Rightarrow> string \<Rightarrow> int \<Rightarrow> int" where
  "query_int_or num q k d = or_num_opt (query_int num q k ''undefined'') d"

lemma js_trim_blank: "js_trim s = [] \<longleftrightarrow> list_all js_space s"
proof -
  have "js_trim s = [] \<longleftrightarrow> list_all js_space (dropWhile js_space s)"
    by (simp add: js_trim_def list_all_iff)
  also have "\<dots> \<longleftrightarrow> dropWhile js_space s = []"
    by (metis hd_dropWhile list.pred_inject(1) list.set_sel(1) list_all_iff)
  finally show ?thesis by (simp only: dropWhile_eq_Nil_conv list_all_iff)
qed

section \<open>The middlewares\<close>

text \<open>\<open>Inl\<close> is the answer of a request that is turned away, \<open>Inr\<close> the user it goes on as.\<close>

definition js_or :: "json option \<Rightarrow> json option \<Rightarrow> json option" where
  "js_or a b = (if json_truthy a then a else b)"

definition principal_required :: "'a response" where
  "principal_required = unauthorized (''User principal ID is required. Provide it via header '' @
     quote ''x-user-principal-id'' @ '', query parameter '' @ quote ''user_principal_id'' @
     '', or request body '' @ quote ''user_principal_id'')"

text \<open>Reading a member of an absent or null body throws.\<close>

definition authMiddleware :: "string option \<Rightarrow> json \<Rightarrow> json option \<Rightarrow> 'a response + string" where
  "authMiddleware header query body =
     (let first = js_or (map_option JStr header) (json_member query ''user_principal_id'') in
      if \<not> json_truthy first \<and> (body = None \<or> body = Some JNull) then Inl (internalError ''Authentication failed'')
      else let userPrincipalId = js_or first (json_member (the body) ''user_principal_id'') in
        if \<not> json_truthy userPrincipalId then Inl principal_required
        else (case userPrincipalId of
            Some (JStr uid) \<Rightarrow> if js_trim uid = []
              then Inl (validationError ''Invalid user principal ID format'') else Inr (js_trim uid)
          | _ \<Rightarrow> Inl (validationError ''Invalid user principal ID format'')))"

text \<open>The token is written in the source. The answers here name a kind of error.\<close>

record rejection =
  rj_status :: int
  rj_type :: string
  rj_message :: string

definition reward_token :: string where
  "reward_token = ''9e3d2c44-1a4a-4b52-9dcb-1d15cb4fdf0b''"

definition not_authorized :: "string \<Rightarrow> rejection" where
  "not_authorized msg = \<lparr>rj_status = 401, rj_type = ''Unauthorized'', rj_message = msg\<rparr>"

definition rewardAuthMiddleware :: "string option \<Rightarrow> rejection option" where
  "rewardAuthMiddleware header =
     (let authHeader = some_text header [] in
      if authHeader = [] then Some (not_authorized ''Authorization header is required'')
      else if \<not> prefix ''Bearer '' authHeader
        then Some (not_authorized (''Authorization header must start with '' @ quote ''Bearer ''))
      else if drop 7 authHeader \<noteq> reward_token then Some (not_authorized ''Invalid authorization token'')
      else None)"

text \<open>The key that is read out of the header.\<close>

definition presented_key :: "string \<Rightarrow> string" where
  "presented_key authHeader = (if prefix ''Bearer '' authHeader then drop 7 authHeader
     else if prefix ''ApiKey '' authHeader then drop 8 authHeader
     else authHeader)"

definition apiKeyMiddleware :: "'w redis \<Rightarrow> string option \<Rightarrow> ('w, 'a response + string) act" where
  "apiKeyMiddleware M header =
     (let authHeader = some_text header []; apiKey = presented_key authHeader in
      if authHeader = [] then returnA (Inl (unauthorized ''Missing Authorization header''))
      else if js_trim apiKey = [] then returnA (Inl (unauthorized
        (''Invalid Authorization header format. Expected: '' @ quote ''Bearer <api_key>'' @ '' or '' @
         quote ''ApiKey <api_key>'' @ '' or just the API key'')))
      else catchA (bindA (validateApiKey M apiKey) (\<lambda>validationResult. returnA (case validationResult of
               Failure _ _ \<Rightarrow> Inl (unauthorized ''Invalid API key'')
             | Success uid \<Rightarrow> Inr uid)))
           (\<lambda>_. returnA (Inl (internalError ''Authentication failed''))))"

text \<open>A route behind a middleware.\<close>

definition admitted :: "'a response + string \<Rightarrow> (string \<Rightarrow> ('w, 'a response) act) \<Rightarrow> ('w, 'a response) act" where
  "admitted r next_step = (case r of Inl rejected \<Rightarrow> returnA rejected | Inr uid \<Rightarrow> next_step uid)"

definition with_api_key ::
  "'w redis \<Rightarrow> string option \<Rightarrow> (string \<Rightarrow> ('w, 'a response) act) \<Rightarrow> ('w, 'a response) act" where
  "with_api_key M header next_step = bindA (apiKeyMiddleware M header) (\<lambda>r. admitted r next_step)"

end
