(* ===== verification/RpcRoutes.thy ===== *)
theory RpcRoutes
  imports HttpResponse Marketplace JobQueue TimeoutMonitor
begin

text \<open>
  \<open>createRpcRoutes\<close> of \<open>api/routes/rpc_routes.ts\<close>, all routes but \<open>POST /scrapeUrl\<close>: one
  definition per route, named after its method and path. A route behind
  \<open>apiKeyMiddleware\<close> takes the \<open>Authorization\<close> header. The queue manager and the
  timeout monitor are read as values.
\<close>

record 'w api =
  ap_redis :: "'w redis"
  ap_disk :: "'w disk"
  ap_files :: "'w FileService"
  ap_cache :: "'w details_cache"
  ap_parse :: "string \<Rightarrow> json option"
  ap_num :: "rat \<Rightarrow> string"
  ap_usageLimit :: int

section \<open>Server and accounts\<close>

definition get_ping :: "string response" where
  "get_ping = api_success ''OK'' ''Server is healthy''"

record ServerStatus =
  st_timestamp :: int
  st_jobQueue :: SystemQueueStatus
  st_jobTimeoutMonitor :: "(bool \<times> int \<times> int) option"

definition get_status :: "'r JobQueueManager \<Rightarrow> JobTimeoutMonitor option \<Rightarrow> int \<Rightarrow> ServerStatus response" where
  "get_status m monitor now = api_success
     \<lparr>st_timestamp = now, st_jobQueue = getSystemQueueStatus m,
      st_jobTimeoutMonitor = map_option monitorStatus monitor\<rparr> ''Server status retrieved successfully''"

record ClientUsage =
  us_client :: string
  us_totalUsage :: int
  us_usageLimit :: int

text \<open>The answer has the API key itself as \<open>clientAPI-Key\<close>.\<close>

definition get_clientStatus :: "'w api \<Rightarrow> json \<Rightarrow> ('w, ClientUsage response) act" where
  "get_clientStatus A query = answering ''Failed to get client status''
     (let uuid = some_text (text_field query ''uuid'') [] in
      if uuid = [] then returnA (validationError ''Missing Client UUID'')
      else bindA (getAPIKeyData (ap_redis A) uuid) (\<lambda>apiKeyResult. returnA (case apiKeyResult of
          Failure _ _ \<Rightarrow> notFound ''API key for Client UUID not found''
        | Success (apiKey, usageCount, usageLimit) \<Rightarrow> api_success
            \<lparr>us_client = apiKey, us_totalUsage = usageCount, us_usageLimit = usageLimit\<rparr>
            ''Client status retrieved successfully'')))"

definition get_totalUsage :: "'w api \<Rightarrow> string option \<Rightarrow> ('w, ClientUsage response) act" where
  "get_totalUsage A header = with_api_key (ap_redis A) header (\<lambda>uid. answering ''Failed to get total usage''
     (bindA (getAPIKeyData (ap_redis A) uid) (\<lambda>apiKeyResult. returnA (case apiKeyResult of
          Failure _ _ \<Rightarrow> notFound ''Client UUID not found''
        | Success (_, usageCount, usageLimit) \<Rightarrow> api_success
            \<lparr>us_client = uid, us_totalUsage = usageCount, us_usageLimit = usageLimit\<rparr>
            ''Total usage retrieved successfully''))))"

definition get_usageInDateRange :: "'w api \<Rightarrow> string option \<Rightarrow> json \<Rightarrow> ('w, UsageReport response) act" where
  "get_usageInDateRange A header query = with_api_key (ap_redis A) header (\<lambda>uid. answering ''Failed to get usage data''
     (if \<not> json_truthy (json_member query ''fromDate'') \<or> \<not> json_truthy (json_member query ''toDate'')
      then returnA (validationError ''Missing required parameters: fromDate and toDate'')
      else (case (query_int (ap_num A) query ''fromDate'' [], query_int (ap_num A) query ''toDate'' []) of
          (Some fromDateMicros, Some toDateMicros) \<Rightarrow>
            bindA (getUsageInDateRange (ap_redis A) uid (fromDateMicros div 1000000) (toDateMicros div 1000000))
              (\<lambda>report. returnA (api_success report ''Usage data retrieved successfully''))
        | _ \<Rightarrow> returnA (validationError ''Invalid date format. Expected microsecond timestamps''))))"

definition post_registerClient ::
  "'w api \<Rightarrow> json \<Rightarrow> nat list \<Rightarrow> nat list \<Rightarrow> int \<Rightarrow> ('w, string response) act" where
  "post_registerClient A body code key now = answering ''Failed to register client''
     (thenA (not_null body)
      (let uuid = given_text (ap_num A) body ''uuid'' in
       if uuid = [] then returnA (validationError ''Missing or invalid client_id in request body'')
       else bindA (login (ap_redis A) uuid code now) (\<lambda>clientResult.
            on_success ''Failed to create client: '' clientResult (\<lambda>_.
            bindA (service_createAPIKey (ap_redis A) (ap_usageLimit A) uuid key now) (\<lambda>apiKeyResult.
            on_success ''Failed to create API key '' apiKeyResult (\<lambda>apiKey.
            returnA (api_success apiKey ''Client registered successfully'')))))))"

section \<open>Jobs\<close>

definition get_jobs :: "'w api \<Rightarrow> string option \<Rightarrow> ('w, JobStruct list response) act" where
  "get_jobs A header = with_api_key (ap_redis A) header (\<lambda>uid. answering ''Failed to get jobs''
     (bindA (node_allJobs (ap_redis A) (Some uid)) (\<lambda>jobsResult.
      on_success ''Failed to fetch jobs: '' jobsResult (\<lambda>jobs.
      returnA (api_success jobs ''Jobs retrieved successfully'')))))"

definition get_pendingJobs :: "'w api \<Rightarrow> string option \<Rightarrow> ('w, JobStruct list response) act" where
  "get_pendingJobs A header = with_api_key (ap_redis A) header (\<lambda>uid. answering ''Failed to get pending jobs''
     (bindA (node_pendingJobs (ap_redis A) (Some uid)) (\<lambda>jobsResult.
      on_success ''Failed to fetch jobs: '' jobsResult (\<lambda>jobs.
      returnA (api_success jobs ''Pending jobs retrieved successfully'')))))"

text \<open>The guard of the routes on one job: it exists, and it is of the user who asks.\<close>

definition job_denied :: "'a response" where
  "job_denied = forbidden ''Access denied: Job does not belong to authenticated user''"

definition with_own_job ::
  "'w redis \<Rightarrow> string \<Rightarrow> string \<Rightarrow> (JobStruct \<Rightarrow> ('w, 'a response) act) \<Rightarrow> ('w, 'a response) act" where
  "with_own_job M uid jobId next_step = bindA (node_jobWithId M jobId) (\<lambda>jobResult.
     case jobResult of
       Failure _ _ \<Rightarrow> returnA (notFound ''Job not found'')
     | Success job \<Rightarrow> if j_clientUUID job \<noteq> uid then returnA job_denied else next_step job)"

definition with_own_stored ::
  "'w redis \<Rightarrow> string \<Rightarrow> string \<Rightarrow> (string \<Rightarrow> ('w, 'a response) act) \<Rightarrow> ('w, 'a response) act" where
  "with_own_stored M uid jobId next_step = bindA (node_storedIdFromJobId M jobId) (\<lambda>storedIdResult.
     case storedIdResult of
       Failure _ _ \<Rightarrow> returnA (notFound ''Job not found'')
     | Success storedId \<Rightarrow> with_own_job M uid jobId (\<lambda>_. next_step storedId))"

definition get_job :: "'w api \<Rightarrow> string option \<Rightarrow> json \<Rightarrow> ('w, JobStruct response) act" where
  "get_job A header query = with_api_key (ap_redis A) header (\<lambda>uid. answering ''Failed to get job''
     (let jobId = some_text (text_field query ''id'') [] in
      if jobId = [] then returnA (validationError ''Missing id parameter'')
      else with_own_job (ap_redis A) uid jobId (\<lambda>job.
        returnA (api_success job ''Job retrieved successfully''))))"

definition get_fileContent :: "'w api \<Rightarrow> string option \<Rightarrow> json \<Rightarrow> int \<Rightarrow> ('w, string response) act" where
  "get_fileContent A header query now = with_api_key (ap_redis A) header (\<lambda>uid. answering ''Failed to get file content''
     (let jobId = some_text (text_field query ''jobID'') [] in
      if jobId = [] then returnA (validationError ''Missing required parameter: jobID'')
      else with_own_stored (ap_redis A) uid jobId (\<lambda>storedId.
        bindA (getFileContentByStoredId (ap_redis A) (ap_disk A) (ap_files A) storedId now) (\<lambda>fileContentResult.
        returnA (case fileContentResult of
            Failure _ _ \<Rightarrow> notFound ''File content not found''
          | Success content \<Rightarrow> api_success content ''File content retrieved successfully'')))))"

text \<open>
  What a download sends: the headers \<open>Content-Type\<close> and the name of the attachment, and
  the bytes. A stream that fails before it has sent anything is answered by an error.
\<close>

record attachment =
  at_content_type :: string
  at_name :: string
  at_bytes :: string

definition attach :: "FileMetadata \<Rightarrow> string \<Rightarrow> attachment response" where
  "attach metadata bytes = api_success
     \<lparr>at_content_type = some_text (Some (f_content_type metadata)) ''application/octet-stream'',
      at_name = f_name metadata, at_bytes = bytes\<rparr> []"

definition existsSync :: "'w disk \<Rightarrow> string \<Rightarrow> ('w, bool) act" where
  "existsSync D p = catchA (thenA (ACCESS D p) (returnA True)) (\<lambda>_. returnA False)"

definition send_file :: "'w api \<Rightarrow> string \<Rightarrow> FileMetadata \<Rightarrow> int \<Rightarrow> ('w, attachment response) act" where
  "send_file A filePath metadata now =
     bindA (if prefix ''canister:'' filePath then returnA False else existsSync (ap_disk A) filePath) (\<lambda>local.
     if local then catchA (bindA (READ_FILE (ap_disk A) filePath) (\<lambda>bytes. returnA (attach metadata bytes)))
         (\<lambda>_. returnA (internalError ''Failed to stream file''))
     else bindA (getFileContentByStoredId (ap_redis A) (ap_disk A) (ap_files A) (f_id metadata) now)
       (\<lambda>contentResult. returnA (case contentResult of
           Failure _ _ \<Rightarrow> notFound ''File content not available''
         | Success content \<Rightarrow> attach metadata content)))"

definition get_jobDownload :: "'w api \<Rightarrow> string option \<Rightarrow> string \<Rightarrow> int \<Rightarrow> ('w, attachment response) act" where
  "get_jobDownload A header jobId now = with_api_key (ap_redis A) header (\<lambda>uid. answering ''Failed to download job content''
     (if jobId = [] then returnA (validationError ''Missing required parameter: id'')
      else with_own_stored (ap_redis A) uid jobId (\<lambda>storedId.
        bindA (downloadFileByStoredId (ap_redis A) (ap_disk A) (ap_files A) storedId now) (\<lambda>downloadResult.
        case downloadResult of
          Failure _ _ \<Rightarrow> returnA (notFound ''File not found'')
        | Success (filePath, metadata) \<Rightarrow> send_file A filePath metadata now))))"

definition post_addJob :: "'w api \<Rightarrow> string option \<Rightarrow> json \<Rightarrow> int \<Rightarrow> int \<Rightarrow> ('w, string response) act" where
  "post_addJob A header body now rnd = with_api_key (ap_redis A) header (\<lambda>uid. answering ''Failed to add job''
     (thenA (not_null body)
      (let url = given_text (ap_num A) body ''url''; scrapeType = given_text (ap_num A) body ''scrapeType'' in
       if url = [] \<or> scrapeType = []
       then returnA (validationError ''Missing or invalid url or scrapeType in request body'')
       else bindA (checkRateLimit (ap_redis A) uid) (\<lambda>rateLimitCheck.
         if \<not> rateLimitCheck then returnA (api_error ''Rate limit exceeded'' 429)
         else bindA (createNewJob (ap_redis A) uid scrapeType url now rnd) (\<lambda>addJobResult.
           case addJobResult of
             Failure _ _ \<Rightarrow> returnA (api_error ''Failed to add job to DB'' 400)
           | Success jobId \<Rightarrow> thenA (recordApiUsage (ap_redis A) uid now)
               (returnA (api_success jobId ''Job added successfully'')))))))"

end
