(* ===== verification/ScrapeResult.thy ===== *)
theory ScrapeResult
  imports HttpResponse
begin

text \<open>
  \<open>checkIfResultIsEmpty\<close>, \<open>isHtmlContent\<close> and \<open>isHtmlEmpty\<close> of \<open>api/routes/rpc_routes.ts\<close>. The
  regular expressions of the code each have one way to match at a place, as \<open>[^>]*\<close>
  runs to the first \<open>>\<close> and white space to the first other character: a matcher is a
  function from a text to what follows the match. The texts are bytes, so of white space
  there are the ASCII characters.
\<close>

section \<open>Matchers\<close>

definition lt :: char where "lt = CHR ''<''"
definition gt :: char where "gt = CHR ''>''"

text \<open>A literal under the flag \<open>i\<close>, \<open>t\<close> being in lower case.\<close>

definition starts_with :: "string \<Rightarrow> string \<Rightarrow> bool" where
  "starts_with t s \<longleftrightarrow> prefix t (to_lower s)"

text \<open>\<open><name[^>]*>\<close>\<close>

definition open_tag :: "string \<Rightarrow> string \<Rightarrow> string option" where
  "open_tag name s = (if starts_with (lt # name) s
     then (case dropWhile (\<lambda>c. c \<noteq> gt) (drop (length name + 1) s) of [] \<Rightarrow> None | _ # rest \<Rightarrow> Some rest)
     else None)"

text \<open>\<open></name>\<close>\<close>

definition closing :: "string \<Rightarrow> string" where
  "closing name = lt # CHR 0x2F # name @ [gt]"

definition close_tag :: "string \<Rightarrow> string \<Rightarrow> string option" where
  "close_tag name s = (if starts_with (closing name) s then Some (drop (length name + 3) s) else None)"

text \<open>\<open><name\s*\/?>\<close>\<close>

definition void_tag :: "string \<Rightarrow> string \<Rightarrow> bool" where
  "void_tag name s \<longleftrightarrow> starts_with (lt # name) s \<and>
     (let rest = dropWhile js_space (drop (length name + 1) s)
      in prefix [gt] rest \<or> prefix [CHR 0x2F, gt] rest)"

fun anywhere :: "(string \<Rightarrow> bool) \<Rightarrow> string \<Rightarrow> bool" where
  "anywhere p [] = p []"
| "anywhere p (c # s) = (p (c # s) \<or> anywhere p s)"

section \<open>Texts of pages\<close>

definition html_names :: "string list" where
  "html_names = [''html'', ''head'', ''body'', ''div'', ''p'', ''span'', ''h1'', ''h2'', ''h3'', ''h4'',
     ''h5'', ''h6'', ''a'', ''img'', ''script'', ''style'', ''meta'', ''title'', ''link'', ''input'',
     ''button'', ''form'', ''table'', ''ul'', ''ol'', ''li'']"

definition isHtmlContent :: "string \<Rightarrow> bool" where
  "isHtmlContent content = anywhere (\<lambda>s. list_ex (\<lambda>name. open_tag name s \<noteq> None) html_names
     \<or> void_tag ''br'' s \<or> void_tag ''hr'' s) content"

text \<open>\<open>[\s\S]*?<\/name>\<close>: to the first closing tag.\<close>

fun after_close :: "string \<Rightarrow> string \<Rightarrow> string option" where
  "after_close name [] = None"
| "after_close name (c # s) = (case close_tag name (c # s) of
     Some rest \<Rightarrow> Some rest | None \<Rightarrow> after_close name s)"

definition element :: "string \<Rightarrow> string \<Rightarrow> string option" where
  "element name s = Option.bind (open_tag name s) (after_close name)"

lemma length_open_tag: "open_tag name s = Some rest \<Longrightarrow> length rest < length s"
proof -
  assume *: "open_tag name s = Some rest"
  then obtain c where c: "dropWhile (\<lambda>c. c \<noteq> gt) (drop (length name + 1) s) = c # rest"
    by (auto simp: open_tag_def split: if_splits list.splits)
  have "length (c # rest) \<le> length (drop (length name + 1) s)"
    unfolding c [symmetric] by (rule length_dropWhile_le)
  then show ?thesis by simp
qed

lemma length_close_tag: "close_tag name s = Some rest \<Longrightarrow> length rest \<le> length s"
  by (auto simp: close_tag_def split: if_splits)

lemma length_after_close: "after_close name s = Some rest \<Longrightarrow> length rest \<le> length s"
  by (induction s) (auto split: option.splits dest: length_close_tag)

lemma length_element: "element name s = Some rest \<Longrightarrow> length rest < length s"
  by (auto simp: element_def bind_eq_Some_conv dest!: length_open_tag length_after_close)

text \<open>\<open>.replace(/<name[^>]*>[\s\S]*?<\/name>/gi, '')\<close>\<close>

function strip_element :: "string \<Rightarrow> string \<Rightarrow> string" where
  "strip_element name [] = []"
| "strip_element name (c # s) = (case element name (c # s) of
     Some rest \<Rightarrow> strip_element name rest | None \<Rightarrow> c # strip_element name s)"
  by pat_completeness auto
termination
  by (relation "measure (\<lambda>(name, s). length s)") (auto dest: length_element)

text \<open>\<open>.replace(/<[^>]+>/g, '')\<close>\<close>

definition any_tag :: "string \<Rightarrow> string option" where
  "any_tag s = (case s of
       c # d # r \<Rightarrow> if c = lt \<and> d \<noteq> gt
         then (case dropWhile (\<lambda>x. x \<noteq> gt) r of [] \<Rightarrow> None | _ # rest \<Rightarrow> Some rest) else None
     | _ \<Rightarrow> None)"

lemma length_any_tag: "any_tag s = Some rest \<Longrightarrow> length rest < length s"
proof -
  assume *: "any_tag s = Some rest"
  then obtain c d r x where s: "s = c # d # r" and r: "dropWhile (\<lambda>x. x \<noteq> gt) r = x # rest"
    by (auto simp: any_tag_def split: list.splits if_splits)
  have "length (x # rest) \<le> length r" unfolding r [symmetric] by (rule length_dropWhile_le)
  with s show ?thesis by simp
qed

function strip_tags :: "string \<Rightarrow> string" where
  "strip_tags [] = []"
| "strip_tags (c # s) = (case any_tag (c # s) of
     Some rest \<Rightarrow> strip_tags rest | None \<Rightarrow> c # strip_tags s)"
  by pat_completeness auto
termination
  by (relation "measure length") (auto dest: length_any_tag)

text \<open>\<open>.replace(/&[a-zA-Z0-9#]+;/g, ' ')\<close>\<close>

definition entity_char :: "char \<Rightarrow> bool" where
  "entity_char c \<longleftrightarrow> (let n = (of_char c :: nat) in
     (97 \<le> n \<and> n \<le> 122) \<or> (65 \<le> n \<and> n \<le> 90) \<or> is_digit c \<or> c = CHR ''#'')"

definition entity :: "string \<Rightarrow> string option" where
  "entity s = (case s of
       c # r \<Rightarrow> if c = CHR 0x26 \<and> takeWhile entity_char r \<noteq> [] then
           (case dropWhile entity_char r of
              d # rest \<Rightarrow> if d = CHR 0x3B then Some rest else None | [] \<Rightarrow> None)
         else None
     | [] \<Rightarrow> None)"

lemma length_entity: "entity s = Some rest \<Longrightarrow> length rest < length s"
proof -
  assume *: "entity s = Some rest"
  then obtain c r d where s: "s = c # r" and r: "dropWhile entity_char r = d # rest"
    by (auto simp: entity_def split: list.splits if_splits)
  have "length (d # rest) \<le> length r" unfolding r [symmetric] by (rule length_dropWhile_le)
  with s show ?thesis by simp
qed

function replace_entities :: "string \<Rightarrow> string" where
  "replace_entities [] = []"
| "replace_entities (c # s) = (case entity (c # s) of
     Some rest \<Rightarrow> CHR '' '' # replace_entities rest | None \<Rightarrow> c # replace_entities s)"
  by pat_completeness auto
termination
  by (relation "measure length") (auto dest: length_entity)

text \<open>\<open>.replace(/\s+/g, ' ')\<close>\<close>

function squeeze :: "string \<Rightarrow> string" where
  "squeeze [] = []"
| "squeeze (c # s) = (if js_space c then CHR '' '' # squeeze (dropWhile js_space s) else c # squeeze s)"
  by pat_completeness auto
termination
  by (relation "measure length") (auto simp: less_Suc_eq_le length_dropWhile_le)

definition textContent :: "string \<Rightarrow> string" where
  "textContent htmlContent = js_trim (squeeze (replace_entities (strip_tags
     (strip_element ''style'' (strip_element ''script'' htmlContent)))))"

text \<open>\<open>/^<name[^>]*>\s*<\/name>$/i\<close>, and the pattern of a whole page.\<close>

definition spaced :: "string \<Rightarrow> string option" where
  "spaced s = Some (dropWhile js_space s)"

definition match_all :: "(string \<Rightarrow> string option) list \<Rightarrow> string \<Rightarrow> bool" where
  "match_all ms s \<longleftrightarrow> foldl Option.bind (Some s) ms = Some []"

definition empty_pair :: "string \<Rightarrow> string \<Rightarrow> bool" where
  "empty_pair name s = match_all [open_tag name, spaced, close_tag name] s"

definition empty_page :: "string \<Rightarrow> bool" where
  "empty_page s = match_all [open_tag ''html'', spaced, open_tag ''head'', spaced, close_tag ''head'', spaced,
     open_tag ''body'', spaced, close_tag ''body'', spaced, close_tag ''html''] s"

definition isHtmlEmpty :: "string \<Rightarrow> bool" where
  "isHtmlEmpty htmlContent = (textContent htmlContent = [] \<or> (let s = js_trim htmlContent in
     empty_pair ''html'' s \<or> empty_page s \<or> empty_pair ''div'' s \<or> empty_pair ''p'' s \<or>
     empty_pair ''span'' s \<or> empty_pair ''body'' s \<or> empty_pair ''head'' s))"

section \<open>Results\<close>

text \<open>\<open>None\<close> is \<open>undefined\<close>.\<close>

definition checkIfResultIsEmpty :: "(string \<Rightarrow> json option) \<Rightarrow> json option \<Rightarrow> bool" where
  "checkIfResultIsEmpty parse result = (case result of
       None \<Rightarrow> True
     | Some JNull \<Rightarrow> True
     | Some (JArr xs) \<Rightarrow> xs = []
     | Some (JObj kvs) \<Rightarrow> kvs = []
     | Some (JStr s) \<Rightarrow> (let trimmed = js_trim s in
         trimmed = [] \<or> parse trimmed = Some (JArr []) \<or> parse trimmed = Some (JObj []) \<or>
         (isHtmlContent trimmed \<and> isHtmlEmpty trimmed))
     | Some _ \<Rightarrow> False)"

end
