(* ===== verification/ScrapeRoute.thy ===== *)
theory ScrapeRoute
  imports RpcRoutes ScrapeResult Server
begin

text \<open>
  \<open>POST /scrapeUrl\<close> of \<open>api/routes/rpc_routes.ts\<close> and the two listeners that tie the
  queue manager to the socket server. The route is cut at its \<open>await\<close> of
  \<open>waitForJobCompletion\<close>: \<open>startScrape\<close> runs up to the promise, \<open>finishScrape\<close> goes on
  with what the promise ends in. What happens in between is what the server and
  the manager do.
\<close>

section \<open>State\<close>

text \<open>The world of the services, beside the queue manager of the process.\<close>

type_synonym ('w, 'a) web = "('w \<times> JobOutcome JobQueueManager, 'a) act"

definition stored :: "('w, 'a) act \<Rightarrow> ('w, 'a) web" where
  "stored m = (\<lambda>(w, q). case m w of (r, w') \<Rightarrow> (r, (w', q)))"

definition managed :: "(JobOutcome JobQueueManager \<Rightarrow> 'a \<times> JobOutcome JobQueueManager) \<Rightarrow> ('w, 'a) web" where
  "managed f = (\<lambda>(w, q). case f q of (a, q') \<Rightarrow> (Inr a, (w, q')))"

lemma stored_apply [act_simps]: "stored m (w, q) = (case m w of (r, w') \<Rightarrow> (r, (w', q)))"
  by (simp add: stored_def)

lemma managed_apply [act_simps]: "managed f (w, q) = (case f q of (a, q') \<Rightarrow> (Inr a, (w, q')))"
  by (simp add: managed_def)

section \<open>The listeners\<close>

text \<open>\<open>jobCompleted\<close>, emitted by the handler of node messages.\<close>

definition on_jobCompleted :: "server_event \<Rightarrow> JobOutcome JobQueueManager \<Rightarrow> JobOutcome JobQueueManager" where
  "on_jobCompleted e m = (case e of
       JobSucceeded jobId result \<Rightarrow> m\<lparr>jm_waits := resolveJobCompletion None jobId result (jm_waits m)\<rparr>
     | JobErred jobId error \<Rightarrow> m\<lparr>jm_waits := rejectJobCompletion jobId error (jm_waits m)\<rparr>
     | _ \<Rightarrow> m)"

text \<open>\<open>deliverJob\<close>, emitted by the queue manager: the job is sent with an empty client identifier.\<close>

definition on_deliverJob :: "'w env \<Rightarrow> PendingJob \<Rightarrow> int \<Rightarrow> int \<Rightarrow> ('w, delivery) serve" where
  "on_deliverJob E job now rnd = catchA
     (bindA (server_sendJobToClient E [] (pj_userPrincipalId job) (pj_url job) (pj_scrapeType job)
        (Some (pj_jobId job)) (pj_post_count job) (pj_replies_count job) (pj_scrollPauseTime job) now rnd)
        (\<lambda>wsResult. returnA (case wsResult of Sent \<Rightarrow> Delivered | NotSent e \<Rightarrow> Refused e)))
     (\<lambda>e. returnA (Refused (''WebSocket delivery failed: '' @ e)))"

section \<open>The request\<close>

record ScrapeRequest =
  sq_url :: string
  sq_scrapeType :: string
  sq_timeoutMs :: int
  sq_principalId :: string
  sq_postCount :: int
  sq_replyCount :: int
  sq_scrollPauseTime :: int

text \<open>
  An optional number of the body is absent or a number that is not less than a bound.
  The model reads counts and times as integers.
\<close>

definition bad_number :: "json option \<Rightarrow> rat \<Rightarrow> bool" where
  "bad_number v least = (case v of None \<Rightarrow> False | Some (JNum r) \<Rightarrow> r < least | Some _ \<Rightarrow> True)"

definition number_of :: "json option \<Rightarrow> int \<Rightarrow> int" where
  "number_of v d = (case v of Some (JNum r) \<Rightarrow> \<lfloor>r\<rfloor> | _ \<Rightarrow> d)"

definition not_text :: "json option \<Rightarrow> bool" where
  "not_text v = (case v of Some (JStr _) \<Rightarrow> False | _ \<Rightarrow> True)"

definition scrape_error :: "json \<Rightarrow> string option" where
  "scrape_error body = (let field = json_member body in
     if \<not> json_truthy (field ''url'') then Some ''Missing required field: url''
     else if \<not> json_truthy (field ''scrapeType'') then Some ''Missing required field: scrapeType''
     else if not_text (field ''url'') then Some ''url must be a string''
     else if not_text (field ''scrapeType'') then Some ''scrapeType must be a string''
     else if bad_number (field ''timeoutMs'') 1000 then Some ''timeoutMs must be a number >= 1000 (1 second)''
     else if bad_number (field ''postCount'') 0 then Some ''postCount must be a non-negative number''
     else if bad_number (field ''replyCount'') 0 then Some ''replyCount must be a non-negative number''
     else if bad_number (field ''scrollPauseTime'') 0 then Some ''scrollPauseTime must be a non-negative number''
     else None)"

definition scrape_request :: "(rat \<Rightarrow> string) \<Rightarrow> json \<Rightarrow> ScrapeRequest" where
  "scrape_request num body = (let field = json_member body in
     \<lparr>sq_url = some_text (text_field body ''url'') [], sq_scrapeType = some_text (text_field body ''scrapeType'') [],
      sq_timeoutMs = number_of (field ''timeoutMs'') 60000, sq_principalId = given_text num body ''principalId'',
      sq_postCount = number_of (field ''postCount'') 0, sq_replyCount = number_of (field ''replyCount'') 0,
      sq_scrollPauseTime = number_of (field ''scrollPauseTime'') 0\<rparr>)"

text \<open>The answer of the socket's timeout, when nothing has been sent by then.\<close>

definition httpTimeoutMs :: "ScrapeRequest \<Rightarrow> int" where
  "httpTimeoutMs sq = sq_timeoutMs sq + 60000"

definition connection_timed_out :: "ScrapeRequest \<Rightarrow> 'a response" where
  "connection_timed_out sq = api_error (''HTTP connection timed out after '' @
     show_int (js_round (of_int (httpTimeoutMs sq) / 60000)) @ '' minutes'') 408"

section \<open>Answers\<close>

datatype result_source = job_result | stored_file | stored_file_raw

record ScrapeTicket =
  tk_uid :: string
  tk_jobId :: string
  tk_request :: ScrapeRequest
  tk_assignment :: NodeAssignment
  tk_requestStartTime :: int

record ScrapeComplete =
  sd_message :: string
  sd_jobId :: string
  sd_url :: string
  sd_scrapeType :: string
  sd_result :: json
  sd_user_principal_id :: string
  sd_client_id :: string
  sd_completedAt :: int
  sd_resultSource :: result_source
  sd_pricing :: "JobPricing option"
  sd_contentAnalysis :: "(ContentValidation \<times> int \<times> int) option"

text \<open>\<open>elapsed\<close> is sent when the promise was rejected.\<close>

record ScrapeEmpty =
  se_jobId :: string
  se_url :: string
  se_scrapeType :: string
  se_user_principal_id :: string
  se_client_id :: string
  se_timestamp :: int
  se_elapsedTimeMs :: "int option"

record ScrapeFailed =
  sf_jobId :: string
  sf_url :: string
  sf_scrapeType :: string
  sf_timeoutMs :: int
  sf_elapsedTimeMs :: int
  sf_elapsedMinutes :: int

datatype scrape_reply = Complete ScrapeComplete | Empty ScrapeEmpty | Failed ScrapeFailed

section \<open>Up to the promise\<close>

datatype scrape_start = Answered "scrape_reply response" | Waiting nat ScrapeTicket

definition pending_of :: "NodeAssignment \<Rightarrow> string \<Rightarrow> ScrapeRequest \<Rightarrow> int \<Rightarrow> PendingJob" where
  "pending_of a jobId sq now = \<lparr>pj_jobId = jobId, pj_userPrincipalId = an_user_principal_id a,
     pj_url = an_target a, pj_scrapeType = an_jobType a, pj_timestamp = now, pj_priority = 0,
     pj_post_count = sq_postCount sq, pj_replies_count = sq_replyCount sq,
     pj_scrollPauseTime = sq_scrollPauseTime sq\<rparr>"

definition queue_job :: "string \<Rightarrow> PendingJob \<Rightarrow> JobOutcome JobQueueManager \<Rightarrow>
    (string + nat) \<times> JobOutcome JobQueueManager" where
  "queue_job cid job m = (case queueJobForClient cid job (jm_queues m) of (r, s) \<Rightarrow> (r, m\<lparr>jm_queues := s\<rparr>))"

definition wait_for :: "string \<Rightarrow> string \<Rightarrow> string \<Rightarrow> int \<Rightarrow> int \<Rightarrow> JobOutcome JobQueueManager \<Rightarrow>
    nat \<times> JobOutcome JobQueueManager" where
  "wait_for jobId cid uid ms now m =
     (case waitForJobCompletion jobId cid uid ms now (jm_waits m) of (p, s) \<Rightarrow> (p, m\<lparr>jm_waits := s\<rparr>))"

definition assign_scrape ::
  "'w api \<Rightarrow> ScrapeRequest \<Rightarrow> string \<Rightarrow> int \<Rightarrow> ('w, NodeAssignment option EntityResult) act" where
  "assign_scrape A sq jobId now = (if sq_principalId sq \<noteq> []
     then node_findAndAssignJobToClient (ap_redis A) jobId (sq_principalId sq) now
     else node_findAndAssignJob (ap_redis A) jobId now)"

definition queue_scrape ::
  "string \<Rightarrow> string \<Rightarrow> ScrapeRequest \<Rightarrow> NodeAssignment \<Rightarrow> int \<Rightarrow> ('w, scrape_start) web" where
  "queue_scrape uid jobId sq a now =
     bindA (managed (queue_job (an_client_id a) (pending_of a jobId sq now))) (\<lambda>queueResult.
     case queueResult of
       Inl _ \<Rightarrow> returnA (Answered (api_error ''Failed to queue job for delivery'' 400))
     | Inr _ \<Rightarrow> bindA (managed (wait_for jobId (an_client_id a) uid (sq_timeoutMs sq) now)) (\<lambda>p.
         returnA (Waiting p \<lparr>tk_uid = uid, tk_jobId = jobId, tk_request = sq, tk_assignment = a,
           tk_requestStartTime = now\<rparr>)))"

definition run_scrape :: "'w api \<Rightarrow> string \<Rightarrow> ScrapeRequest \<Rightarrow> int \<Rightarrow> int \<Rightarrow> ('w, scrape_start) web" where
  "run_scrape A uid sq now rnd =
     bindA (stored (checkRateLimit (ap_redis A) uid)) (\<lambda>rateLimitCheck.
     if \<not> rateLimitCheck then returnA (Answered (api_error ''Rate limit exceeded'' 429))
     else bindA (stored (createNewJob (ap_redis A) uid (sq_scrapeType sq) (sq_url sq) now rnd)) (\<lambda>addJobResult.
     case addJobResult of
       Failure _ _ \<Rightarrow> returnA (Answered (api_error ''Failed to add job to DB'' 400))
     | Success jobId \<Rightarrow> bindA (stored (assign_scrape A sq jobId now)) (\<lambda>assignResult.
         case assignResult of
           Success (Some a) \<Rightarrow> queue_scrape uid jobId sq a now
         | _ \<Rightarrow> returnA (Answered (api_error ''Failed to find optimal node for assignment'' 400)))))"

definition startScrape ::
  "'w api \<Rightarrow> string option \<Rightarrow> json \<Rightarrow> int \<Rightarrow> int \<Rightarrow> ('w, scrape_start) web" where
  "startScrape A header body now rnd =
     bindA (stored (apiKeyMiddleware (ap_redis A) header)) (\<lambda>r. case r of
       Inl rejected \<Rightarrow> returnA (Answered rejected)
     | Inr uid \<Rightarrow> catchA
         (thenA (not_null body)
           (case scrape_error body of
              Some msg \<Rightarrow> returnA (Answered (validationError msg))
            | None \<Rightarrow> run_scrape A uid (scrape_request (ap_num A) body) now rnd))
         (\<lambda>_. returnA (Answered (internalError ''Failed to scrape URL''))))"

section \<open>From the result on\<close>

definition outcome_json :: "JobOutcome \<Rightarrow> json" where
  "outcome_json o1 = JObj [(''jobId'', JStr (jo_jobId o1)), (''clientId'', JStr (jo_clientId o1)),
     (''content'', jo_content o1), (''storedFileId'', opt_text (jo_storedFileId o1)),
     (''timestamp'', jint (jo_timestamp o1))]"

record Found =
  fd_finalResult :: json
  fd_resultSource :: result_source
  fd_contentForAnalysis :: "string option"

text \<open>
  The content is looked for in the result, then in the stored file. When there is
  neither, the object of the result is the result.
\<close>

definition find_content :: "'w api \<Rightarrow> string \<Rightarrow> JobOutcome \<Rightarrow> int \<Rightarrow> ('w, Found) act" where
  "find_content A jobId jobResult now =
     (if json_truthy (Some (jo_content jobResult)) then returnA
        \<lparr>fd_finalResult = jo_content jobResult, fd_resultSource = job_result,
         fd_contentForAnalysis = Some (case jo_content jobResult of JStr s \<Rightarrow> s | v \<Rightarrow> compact (ap_num A) v)\<rparr>
      else let unfound = \<lparr>fd_finalResult = outcome_json jobResult, fd_resultSource = job_result,
                 fd_contentForAnalysis = None\<rparr> in
        bindA (node_storedIdFromJobId (ap_redis A) jobId) (\<lambda>storedIdResult.
        if some_text (data_or_null storedIdResult) [] = [] then returnA unfound
        else bindA (getFileContentByStoredId (ap_redis A) (ap_disk A) (ap_files A) (the (data_or_null storedIdResult)) now)
          (\<lambda>fileContentResult. returnA (case fileContentResult of
              Failure _ _ \<Rightarrow> unfound
            | Success content \<Rightarrow> (case ap_parse A content of
                Some v \<Rightarrow> \<lparr>fd_finalResult = v, fd_resultSource = stored_file, fd_contentForAnalysis = Some content\<rparr>
              | None \<Rightarrow> \<lparr>fd_finalResult = JStr content, fd_resultSource = stored_file_raw,
                  fd_contentForAnalysis = Some content\<rparr>)))))"

text \<open>The price of a content, and the analysis it rests on.\<close>

definition price_content ::
  "(string \<Rightarrow> json option) \<Rightarrow> string \<Rightarrow> string \<Rightarrow> JobPricing \<times> (int \<times> string list) option" where
  "price_content parse content scrapeType =
     (let fileSizeKB = getContentSizeKB content;
          dataAnalysis = analyzeScrapedDataByType parse content scrapeType;
          objectsCount = (case dataAnalysis of None \<Rightarrow> 0 | Some (n, _) \<Rightarrow> n)
      in (\<lparr>jp_price = pr_totalPrice (calculateJobPrice fileSizeKB objectsCount DEFAULT_PRICING),
           jp_objectsCount = objectsCount, jp_fileSizeKB = fileSizeKB\<rparr>, dataAnalysis))"

definition price_job ::
  "'w api \<Rightarrow> string \<Rightarrow> string \<Rightarrow> string option \<Rightarrow> ('w, JobPricing option) act" where
  "price_job A jobId scrapeType content = (if some_text content [] = [] then returnA None
     else case price_content (ap_parse A) (the content) scrapeType of (pricing, analysis) \<Rightarrow>
       thenA (catchA (thenA (node_pricingInfo (ap_redis A) jobId pricing analysis) (returnA ())) (\<lambda>_. returnA ()))
             (returnA (Some pricing)))"

definition content_analysis :: "(string \<Rightarrow> json option) \<Rightarrow> string \<Rightarrow> ContentValidation \<times> int \<times> int" where
  "content_analysis parse content =
     (validateContentStructure parse content, int (length content), getContentSizeKB content)"

definition complete_message :: "result_source \<Rightarrow> string" where
  "complete_message src = (case src of
       job_result \<Rightarrow> ''URL scraped successfully''
     | stored_file \<Rightarrow> ''URL scraped successfully (from stored file)''
     | stored_file_raw \<Rightarrow> ''URL scraped but result content not available'')"

definition scrape_complete ::
  "'w api \<Rightarrow> ScrapeTicket \<Rightarrow> Found \<Rightarrow> JobPricing option \<Rightarrow> int \<Rightarrow> scrape_reply response" where
  "scrape_complete A tk found pricing now = api_success (Complete
     \<lparr>sd_message = complete_message (fd_resultSource found), sd_jobId = tk_jobId tk,
      sd_url = sq_url (tk_request tk), sd_scrapeType = sq_scrapeType (tk_request tk),
      sd_result = fd_finalResult found,
      sd_user_principal_id = an_user_principal_id (tk_assignment tk),
      sd_client_id = an_client_id (tk_assignment tk), sd_completedAt = now,
      sd_resultSource = fd_resultSource found, sd_pricing = pricing,
      sd_contentAnalysis = (if some_text (fd_contentForAnalysis found) [] = [] then None
        else Some (content_analysis (ap_parse A) (the (fd_contentForAnalysis found))))\<rparr>)
     ''URL scraping completed successfully''"

definition scrape_empty :: "ScrapeTicket \<Rightarrow> int \<Rightarrow> int option \<Rightarrow> scrape_reply response" where
  "scrape_empty tk now elapsed = api_error_with ''Scraping returned empty results'' 422 (Empty
     \<lparr>se_jobId = tk_jobId tk, se_url = sq_url (tk_request tk), se_scrapeType = sq_scrapeType (tk_request tk),
      se_user_principal_id = an_user_principal_id (tk_assignment tk),
      se_client_id = an_client_id (tk_assignment tk), se_timestamp = now, se_elapsedTimeMs = elapsed\<rparr>)"

definition fail_scrape :: "'w api \<Rightarrow> ScrapeTicket \<Rightarrow> string \<Rightarrow> int \<Rightarrow> ('w, unit) act" where
  "fail_scrape A tk msg now = catchA
     (thenA (node_markJobAsFailed (ap_redis A) (tk_jobId tk) (an_client_id (tk_assignment tk)) msg now) (returnA ()))
     (\<lambda>_. returnA ())"

definition complete_scrape ::
  "'w api \<Rightarrow> ScrapeTicket \<Rightarrow> JobOutcome \<Rightarrow> int \<Rightarrow> ('w, scrape_reply response) act" where
  "complete_scrape A tk jobResult now =
     bindA (find_content A (tk_jobId tk) jobResult now) (\<lambda>found.
     if checkIfResultIsEmpty (ap_parse A) (Some (fd_finalResult found)) then
       thenA (fail_scrape A tk ''Empty results returned'' now) (returnA (scrape_empty tk now None))
     else
       bindA (price_job A (tk_jobId tk) (sq_scrapeType (tk_request tk)) (fd_contentForAnalysis found)) (\<lambda>pricing.
       thenA (recordApiUsage (ap_redis A) (tk_uid tk) now)
      (thenA (catchA (thenA (marketStorePurchase (ap_redis A) (tk_uid tk) (tk_jobId tk) now) (returnA ()))
                (\<lambda>_. returnA ()))
      (returnA (scrape_complete A tk found pricing now)))))"

text \<open>The promise was rejected, or a step above threw.\<close>

definition fail_wait :: "'w api \<Rightarrow> ScrapeTicket \<Rightarrow> string \<Rightarrow> int \<Rightarrow> ('w, scrape_reply response) act" where
  "fail_wait A tk errorMessage now =
     (let elapsedTime = now - tk_requestStartTime tk in
      thenA (fail_scrape A tk errorMessage now)
      (returnA (if has_text ''empty results'' errorMessage \<or> has_text ''no data found'' errorMessage
         then scrape_empty tk now (Some elapsedTime)
         else api_error_with (''Scraping failed: '' @ errorMessage) 408 (Failed
           \<lparr>sf_jobId = tk_jobId tk, sf_url = sq_url (tk_request tk),
            sf_scrapeType = sq_scrapeType (tk_request tk), sf_timeoutMs = sq_timeoutMs (tk_request tk),
            sf_elapsedTimeMs = elapsedTime, sf_elapsedMinutes = js_round (of_int elapsedTime / 60000)\<rparr>))))"

definition finishScrape ::
  "'w api \<Rightarrow> ScrapeTicket \<Rightarrow> JobOutcome outcome \<Rightarrow> int \<Rightarrow> ('w, scrape_reply response) act" where
  "finishScrape A tk waited now = answering ''Failed to scrape URL''
     (case waited of
        outcome.Resolved jobResult \<Rightarrow> catchA (complete_scrape A tk jobResult now) (\<lambda>e. fail_wait A tk e now)
      | outcome.Rejected e \<Rightarrow> fail_wait A tk e now)"

end
