(* ===== verification/MarketRoutes.thy ===== *)
theory MarketRoutes
  imports ScrapeRoute
begin

text \<open>
  The marketplace routes of \<open>api/routes/rpc_routes.ts\<close>, over the methods of
  \<open>MarketplaceService\<close>.
\<close>

section \<open>Listing and details\<close>

definition get_marketJobs :: "'w api \<Rightarrow> json \<Rightarrow> ('w, (MarketplaceJob list \<times> int) response) act" where
  "get_marketJobs A query = answering ''Failed to get marketplace jobs''
     (case (query_int (ap_num A) query ''limit'' ''50'', query_int (ap_num A) query ''offset'' ''0'') of
        (Some limitNum, Some offsetNum) \<Rightarrow>
          if limitNum < 1 \<or> offsetNum < 0 then returnA (validationError ''Invalid limit or offset parameters'')
          else if limitNum > 100 then returnA (validationError ''Limit cannot exceed 100'')
          else bindA (getCompletedJobs (ap_redis A) limitNum offsetNum (given_text (ap_num A) query ''search'')
              (if text_field query ''sort'' = Some ''asc'' then asc else desc)) (\<lambda>jobsResult.
            on_success ''Failed to fetch marketplace jobs: '' jobsResult (\<lambda>jobs.
            returnA (api_success jobs ''Marketplace jobs retrieved successfully'')))
      | _ \<Rightarrow> returnA (validationError ''Invalid limit or offset parameters''))"

text \<open>The answer to a failed result of the marketplace.\<close>

definition market_failure :: "string \<Rightarrow> string \<Rightarrow> DatabaseError \<Rightarrow> string \<Rightarrow> 'a response" where
  "market_failure missing msg k m = (if k = NotFound then notFound missing
     else if k = InvalidInput then api_error m 400 else api_error (msg @ m) 400)"

record FileSummary =
  fs_id :: string
  fs_name :: string
  fs_content_type :: string
  fs_size :: int
  fs_created_at :: int

record MarketDetails =
  md_jobID :: string
  md_jobType :: string
  md_target :: string
  md_job_views :: int
  md_job_downloads :: int
  md_createdAt :: int
  md_pricing :: "StoredPricing option"
  md_file :: "FileSummary option"
  md_preview :: "string option"
  md_hasContent :: bool
  md_dataCount :: "int option"
  md_included :: "string list option"

definition file_summary :: "FileMetadata \<Rightarrow> FileSummary" where
  "file_summary f = \<lparr>fs_id = f_id f, fs_name = f_name f, fs_content_type = f_content_type f,
     fs_size = f_size f, fs_created_at = f_created_at f\<rparr>"

definition market_details :: "OptimizedDetails \<Rightarrow> MarketDetails" where
  "market_details d = (let job = jd_job d in
     \<lparr>md_jobID = j_jobID job, md_jobType = j_jobType job, md_target = j_target job,
      md_job_views = j_job_views job, md_job_downloads = j_job_downloads job,
      md_createdAt = j_assignedAt job, md_pricing = jd_pricing d,
      md_file = map_option file_summary (jd_fileMetadata d),
      md_preview = (if some_text (jd_filePreview d) [] = [] then None else jd_filePreview d),
      md_hasContent = jd_hasContent d,
      md_dataCount = (if jd_dataCount d = Some 0 then None else jd_dataCount d),
      md_included = jd_included d\<rparr>)"

text \<open>
  \<open>in_time\<close>: the service answered before the nine seconds of the race; the call goes on
  when it did not. \<open>clean\<close> is the draw of the service.
\<close>

definition get_marketJobDetails ::
  "'w api \<Rightarrow> string \<Rightarrow> bool \<Rightarrow> bool \<Rightarrow> int \<Rightarrow> ('w, MarketDetails response) act" where
  "get_marketJobDetails A jobId clean in_time now = answering ''Failed to get job details''
     (if jobId = [] then returnA (validationError ''Missing job_id parameter'')
      else bindA (getJobDetailsOptimized (ap_redis A) (ap_disk A) (ap_files A) (ap_cache A) (ap_parse A)
          (ap_num A) jobId clean now) (\<lambda>jobDetailsResult.
        if \<not> in_time then throwA ''Service timeout''
        else returnA (case jobDetailsResult of
            Failure k m \<Rightarrow> market_failure ''Job not found'' ''Failed to get job details: '' k m
          | Success d \<Rightarrow> api_success (market_details d) ''Job details retrieved successfully'')))"

definition get_marketJobDownload ::
  "'w api \<Rightarrow> string option \<Rightarrow> string \<Rightarrow> int \<Rightarrow> ('w, attachment response) act" where
  "get_marketJobDownload A header jobId now = with_api_key (ap_redis A) header (\<lambda>uid.
     answering ''Failed to download job file''
     (if jobId = [] then returnA (validationError ''Missing job_id parameter'')
      else bindA (marketHasPurchaseAccess (ap_redis A) uid jobId) (\<lambda>accessResult.
        on_success ''Failed to verify purchase access: '' accessResult (\<lambda>access.
        if \<not> access then returnA (forbidden ''Access denied: User has not purchased this job'')
        else bindA (getJobDownload (ap_redis A) (ap_disk A) (ap_files A) (ap_parse A) (ap_num A) jobId now)
          (\<lambda>downloadResult. case downloadResult of
             Failure k m \<Rightarrow> returnA (market_failure ''Job or file not found'' ''Failed to get job download: '' k m)
           | Success (_, filePath, metadata) \<Rightarrow> send_file A filePath metadata now)))))"

definition get_marketStats :: "'w api \<Rightarrow> int \<Rightarrow> ('w, MarketplaceStats response) act" where
  "get_marketStats A now = answering ''Failed to get marketplace stats''
     (bindA (getMarketplaceStats (ap_redis A) now) (\<lambda>statsResult.
      on_success ''Failed to get marketplace stats: '' statsResult (\<lambda>stats.
      returnA (api_success stats ''Marketplace statistics retrieved successfully''))))"

section \<open>Retroactive prices\<close>

datatype priced =
    Skipped string
  | Unpriced string string
  | Calculated string PricingResult int int
  | Updated string PricingResult int int

definition priced_job :: "bool \<Rightarrow> string \<Rightarrow> JobPricing \<Rightarrow> priced" where
  "priced_job dryRun jobId p =
     (let pricing = calculateJobPrice (jp_fileSizeKB p) (jp_objectsCount p) DEFAULT_PRICING in
      (if dryRun then Calculated else Updated) jobId pricing (jp_objectsCount p) (jp_fileSizeKB p))"

definition retro_price :: "'w api \<Rightarrow> bool \<Rightarrow> int \<Rightarrow> JobStruct \<Rightarrow> ('w, priced) act" where
  "retro_price A dryRun now job = catchA
     (bindA (node_storedIdFromJobId (ap_redis A) (j_jobID job)) (\<lambda>storedIdResult.
      if some_text (data_or_null storedIdResult) [] = [] then returnA (Skipped (j_jobID job))
      else bindA (getFileContentByStoredId (ap_redis A) (ap_disk A) (ap_files A)
          (the (data_or_null storedIdResult)) now) (\<lambda>fileContentResult.
        case fileContentResult of
          Failure _ _ \<Rightarrow> returnA (Unpriced (j_jobID job) ''Failed to get file content'')
        | Success content \<Rightarrow> (case price_content (ap_parse A) content (j_jobType job) of (p, analysis) \<Rightarrow>
            thenA (if dryRun then returnA ()
                   else thenA (node_pricingInfo (ap_redis A) (j_jobID job) p analysis) (returnA ()))
                  (returnA (priced_job dryRun (j_jobID job) p))))))
     (\<lambda>e. returnA (Unpriced (j_jobID job) e))"

definition was_priced :: "priced \<Rightarrow> bool" where
  "was_priced p = (case p of Calculated _ _ _ _ \<Rightarrow> True | Updated _ _ _ _ \<Rightarrow> True | _ \<Rightarrow> False)"

definition was_skipped :: "priced \<Rightarrow> bool" where
  "was_skipped p = (case p of Skipped _ \<Rightarrow> True | _ \<Rightarrow> False)"

record RetroReport =
  rr_totalProcessed :: int
  rr_successful :: int
  rr_errors :: int
  rr_skipped :: int
  rr_dryRun :: bool
  rr_results :: "priced list"

definition retro_report :: "bool \<Rightarrow> priced list \<Rightarrow> RetroReport" where
  "retro_report dryRun results =
     (let successCount = int (length (filter was_priced results));
          errorCount = int (length (filter (\<lambda>p. \<not> was_priced p \<and> \<not> was_skipped p) results))
      in \<lparr>rr_totalProcessed = int (length results), rr_successful = successCount, rr_errors = errorCount,
          rr_skipped = int (length results) - successCount - errorCount, rr_dryRun = dryRun,
          rr_results = results\<rparr>)"

text \<open>A limit that is given is a number. Any user with a key may run it.\<close>

definition post_retroactivePricing ::
  "'w api \<Rightarrow> string option \<Rightarrow> json \<Rightarrow> int \<Rightarrow> ('w, RetroReport response) act" where
  "post_retroactivePricing A header body now = with_api_key (ap_redis A) header (\<lambda>_.
     answering ''Failed to calculate retroactive pricing''
     (thenA (not_null body)
      (let limit = number_of (json_member body ''limit'') 10;
           dryRun = (case json_member body ''dryRun'' of None \<Rightarrow> True | Some v \<Rightarrow> json_truthy (Some v)) in
       bindA (listJobs (ap_redis A) None) (\<lambda>allJobsResult. case allJobsResult of
         Failure _ _ \<Rightarrow> returnA (api_error ''Failed to fetch jobs for pricing calculation'' 400)
       | Success allJobs \<Rightarrow>
           bindA (mapA (retro_price A dryRun now) (js_slice 0 limit
             (filter (\<lambda>job. j_state job = job_state COMPLETED \<and> j_price job = None) allJobs))) (\<lambda>results.
           returnA (api_success (retro_report dryRun results)
             (''Retroactive pricing calculation '' @ (if dryRun then ''simulated'' else ''completed''))))))))"

section \<open>Purchases\<close>

record PurchaseReply =
  pu_userPrincipalId :: string
  pu_jobId :: string
  pu_purchased_at :: int
  pu_isNewPurchase :: bool

definition post_storePurchase ::
  "'w api \<Rightarrow> string option \<Rightarrow> json \<Rightarrow> int \<Rightarrow> ('w, PurchaseReply response) act" where
  "post_storePurchase A header body now = with_api_key (ap_redis A) header (\<lambda>uid.
     answering ''Failed to store purchase''
     (thenA (not_null body)
      (if \<not> json_truthy (json_member body ''jobId'')
       then returnA (validationError ''Missing required parameter: jobId'')
       else if not_text (json_member body ''jobId'') then returnA (validationError ''jobId must be a string'')
       else let jobId = some_text (text_field body ''jobId'') [] in
         bindA (marketStorePurchase (ap_redis A) uid jobId now) (\<lambda>storeResult. case storeResult of
           Failure k m \<Rightarrow> returnA (market_failure m ''Failed to store purchase: '' k m)
         | Success _ \<Rightarrow> bindA (marketHasPurchaseAccess (ap_redis A) uid jobId) (\<lambda>accessResult.
             let isNewPurchase = (accessResult = Success True) in
             returnA (api_success \<lparr>pu_userPrincipalId = uid, pu_jobId = jobId, pu_purchased_at = now,
                 pu_isNewPurchase = isNewPurchase\<rparr>
               (if isNewPurchase then ''Purchase stored successfully'' else ''Purchase already exists'')))))))"

end
