(* ===== verification/SystemRoutes.thy ===== *)
theory SystemRoutes
  imports MarketRoutes
begin

text \<open>
  The system and administration routes of \<open>api/routes/rpc_routes.ts\<close>. None of them but
  \<open>/admin/jobs-stats\<close> is behind a middleware.
\<close>

section \<open>The timeout monitor\<close>

definition monitor_unavailable :: "'a response" where
  "monitor_unavailable = api_error ''Job timeout monitor not available'' 503"

definition get_timeoutMonitor :: "JobTimeoutMonitor option \<Rightarrow> (bool \<times> int \<times> int) response" where
  "get_timeoutMonitor monitor = (case monitor of
       None \<Rightarrow> monitor_unavailable
     | Some t \<Rightarrow> api_success (monitorStatus t) ''Job timeout monitor status retrieved successfully'')"

text \<open>The jobs that the check timed out are the events of the monitor; the answer has only the time.\<close>

definition post_triggerCheck ::
  "'w api \<Rightarrow> JobTimeoutMonitor option \<Rightarrow> int \<Rightarrow> ('w, int response) act" where
  "post_triggerCheck A monitor now = answering ''Failed to trigger timeout check''
     (case monitor of
        None \<Rightarrow> returnA monitor_unavailable
      | Some _ \<Rightarrow> thenA (checkForTimedOutJobs (ap_redis A) now)
          (returnA (api_success now ''Manual timeout check completed'')))"

section \<open>Capacity and clients\<close>

definition get_capacity ::
  "'w api \<Rightarrow> 'r JobQueueManager \<Rightarrow> int \<Rightarrow> ('w, (SystemCapacity \<times> SystemQueueStatus \<times> int) response) act" where
  "get_capacity A m now = answering ''Failed to get system capacity''
     (bindA (getSystemCapacityStats (ap_redis A)) (\<lambda>capacityStats.
      on_success ''Failed to get capacity stats: '' capacityStats (\<lambda>capacity.
      returnA (api_success (capacity, getSystemQueueStatus m, now) ''System capacity retrieved successfully''))))"

record ClientsReport =
  cr_clients :: "(ClientCapacity \<times> QueueStatus) list"
  cr_total :: int
  cr_online :: int
  cr_active :: int
  cr_atCapacity :: int

definition clients_report :: "'r JobQueueManager \<Rightarrow> ClientCapacity list \<Rightarrow> ClientsReport" where
  "clients_report m cs = (let count = (\<lambda>p. int (length (filter p cs))) in
     \<lparr>cr_clients = map (\<lambda>c. (c, getClientQueueStatus (cc_client_id c) m)) cs, cr_total = int (length cs),
      cr_online = count cc_isOnline, cr_active = count (\<lambda>c. cc_clientStatus c = client_status ACTIVE),
      cr_atCapacity = count (\<lambda>c. cc_availableCapacity c = 0)\<rparr>)"

definition get_clients :: "'w api \<Rightarrow> 'r JobQueueManager \<Rightarrow> ('w, ClientsReport response) act" where
  "get_clients A m = answering ''Failed to get clients information''
     (bindA (getAllClientsWithCapacity (ap_redis A)) (\<lambda>clientsResult.
      on_success ''Failed to get clients: '' clientsResult (\<lambda>cs.
      returnA (api_success (clients_report m cs) ''Clients information retrieved successfully''))))"

text \<open>The client with a connection, the guard of the two routes on one client.\<close>

definition with_connection ::
  "'w api \<Rightarrow> string \<Rightarrow> (ClientStruct \<Rightarrow> ('w, 'a response) act) \<Rightarrow> ('w, 'a response) act" where
  "with_connection A cid next_step = bindA (getAllNodes (ap_redis A)) (\<lambda>allClientsResult.
     case allClientsResult of
       Failure _ _ \<Rightarrow> returnA (api_error ''Failed to get clients'' 400)
     | Success cs \<Rightarrow> (case List.find (\<lambda>c. c_client_id c = cid) cs of
         None \<Rightarrow> returnA (notFound ''Client not found'') | Some client \<Rightarrow> next_step client))"

record ClientStatusReport =
  sr_client_id :: string
  sr_user_principal_id :: string
  sr_capacity :: CapacityInfo
  sr_queue :: QueueStatus
  sr_downloadSpeed :: rat
  sr_ping :: rat
  sr_lastSeen :: int
  sr_timestamp :: int

definition get_systemClient ::
  "'w api \<Rightarrow> 'r JobQueueManager \<Rightarrow> string \<Rightarrow> int \<Rightarrow> ('w, ClientStatusReport response) act" where
  "get_systemClient A m cid now = answering ''Failed to get client status''
     (if cid = [] then returnA (validationError ''Missing clientId parameter'')
      else with_connection A cid (\<lambda>client.
        bindA (getClientCapacityInfo (ap_redis A) (c_user_principal_id client)) (\<lambda>capacityInfo.
        returnA (api_success \<lparr>sr_client_id = cid, sr_user_principal_id = c_user_principal_id client,
            sr_capacity = capacityInfo, sr_queue = getClientQueueStatus cid m,
            sr_downloadSpeed = c_downloadSpeed client, sr_ping = c_ping client,
            sr_lastSeen = c_pingTimestamp client, sr_timestamp = now\<rparr> ''Client status retrieved successfully''))))"

record CapacityChange =
  cx_client_id :: string
  cx_user_principal_id :: string
  cx_oldCapacity :: int
  cx_newCapacity :: int
  cx_currentStatus :: CapacityInfo

definition not_number :: "json option \<Rightarrow> bool" where
  "not_number v = (case v of Some (JNum _) \<Rightarrow> False | _ \<Rightarrow> True)"

definition post_clientCapacity :: "'w api \<Rightarrow> string \<Rightarrow> json \<Rightarrow> ('w, CapacityChange response) act" where
  "post_clientCapacity A cid body = answering ''Failed to update client capacity''
     (thenA (not_null body)
      (if cid = [] then returnA (validationError ''Missing clientId parameter'')
       else if \<not> json_truthy (json_member body ''maxConcurrentJobs'') \<or> not_number (json_member body ''maxConcurrentJobs'')
       then returnA (validationError ''Missing or invalid maxConcurrentJobs'')
       else with_connection A cid (\<lambda>client.
         let uid = c_user_principal_id client; n = number_of (json_member body ''maxConcurrentJobs'') 0 in
         bindA (updateClientCapacity (ap_redis A) uid n) (\<lambda>updateResult.
         on_success ''Failed to update capacity: '' updateResult (\<lambda>_.
         bindA (getClientCapacityInfo (ap_redis A) uid) (\<lambda>newCapacityInfo.
         returnA (api_success \<lparr>cx_client_id = cid, cx_user_principal_id = uid,
             cx_oldCapacity = c_maxConcurrentJobs client, cx_newCapacity = n, cx_currentStatus = newCapacityInfo\<rparr>
           ''Client capacity updated successfully'')))))))"

section \<open>Queues\<close>

definition get_queue :: "'r JobQueueManager \<Rightarrow> int \<Rightarrow> (SystemQueueStatus \<times> int) response" where
  "get_queue m now = api_success (getSystemQueueStatus m, now) ''Job queue status retrieved successfully''"

definition delete_clientQueue ::
  "string \<Rightarrow> 'r JobQueueManager \<Rightarrow> (nat \<times> int) response \<times> 'r JobQueueManager" where
  "delete_clientQueue cid m =
     (if cid = [] then (validationError ''Missing clientId parameter'', m)
      else case clearClientQueue cid m of (cleared, m') \<Rightarrow>
        (api_success cleared ''Client queue cleared successfully'', m'))"

section \<open>Administration\<close>

text \<open>\<open>acc[job.state] = (acc[job.state] || 0) + 1\<close>\<close>

definition count_states :: "JobStruct list \<Rightarrow> (string, int) jsmap" where
  "count_states js = foldl (\<lambda>acc job. map_set (j_state job)
     (or_num_opt (map_get acc (j_state job)) 0 + 1) acc) [] js"

datatype cleanup_reply =
    DryRun int int "(string, int) jsmap"
  | Cleaned int CleanupResult

text \<open>
  A job before the cutoff \<open>now - daysAgo * 86400000\<close>, which need not be an integer, is one before
  the integer above it.
\<close>

definition cutoffTimestamp :: "int \<Rightarrow> rat \<Rightarrow> int" where
  "cutoffTimestamp now daysAgo = \<lceil>of_int now - daysAgo * 86400000\<rceil>"

definition bool_field :: "json \<Rightarrow> string \<Rightarrow> json" where
  "bool_field body k = (case json_member body k of None \<Rightarrow> JBool False | Some v \<Rightarrow> v)"

definition post_cleanupOldJobs :: "'w api \<Rightarrow> json \<Rightarrow> int \<Rightarrow> ('w, cleanup_reply response) act" where
  "post_cleanupOldJobs A body now = answering ''Failed to cleanup old jobs''
     (thenA (not_null body)
      (let daysAgo = (case json_member body ''daysAgo'' of None \<Rightarrow> JNum 1 | Some v \<Rightarrow> v);
           dryRun = bool_field body ''dryRun''; confirm = bool_field body ''confirm'' in
       if bad_number (Some daysAgo) 0 then returnA (validationError ''daysAgo must be a non-negative number'')
       else if (case dryRun of JBool _ \<Rightarrow> False | _ \<Rightarrow> True) then returnA (validationError ''dryRun must be a boolean'')
       else if dryRun = JBool False \<and> \<not> json_truthy (Some confirm)
         then returnA (validationError ''Set confirm=true to perform actual deletion (dryRun=false)'')
       else let cutoff = cutoffTimestamp now (case daysAgo of JNum r \<Rightarrow> r | _ \<Rightarrow> 0) in
         if dryRun = JBool True then
           bindA (getJobsCreatedBefore (ap_redis A) cutoff) (\<lambda>jobsResult.
           on_success ''Failed to get jobs for cleanup: '' jobsResult (\<lambda>jobsToDelete.
           returnA (api_success (DryRun cutoff (int (length jobsToDelete)) (count_states jobsToDelete))
             ''Dry run completed - no jobs were actually deleted'')))
         else
           bindA (service_cleanupOldJobs (ap_redis A) cutoff) (\<lambda>cleanupResult.
           on_success ''Failed to cleanup old jobs: '' cleanupResult (\<lambda>res.
           returnA (api_success (Cleaned cutoff res)
             (''Cleanup completed: '' @ show_int (cl_deletedCount res) @ '' jobs deleted, '' @
              show_nat (length (cl_failedDeletions res)) @ '' failed''))))))"

text \<open>
  Reading a date is the engine's: \<open>day_start\<close> takes the text of a date to the midnight, in the
  server's time zone, of the day it is in, and a text that is no date to \<open>None\<close>.
\<close>

record KeyCreated =
  kc_userPrincipalId :: string
  kc_apiKey :: string
  kc_createdAtTimestamp :: int
  kc_usageCount :: int
  kc_usageLimit :: int
  kc_totalUsageLogs :: int

record KeysReport =
  kr_startTime :: int
  kr_endTime :: int
  kr_apiKeys :: "KeyCreated list"

definition key_created :: "string \<Rightarrow> APIKeyData \<Rightarrow> KeyCreated" where
  "key_created key d = \<lparr>kc_userPrincipalId = drop (length (API_KEY [])) key, kc_apiKey = k_apiKey d,
     kc_createdAtTimestamp = hd (k_usageLog d), kc_usageCount = k_usageCount d,
     kc_usageLimit = k_usageLimit d, kc_totalUsageLogs = int (length (k_usageLog d))\<rparr>"

definition gather_key ::
  "'w redis \<Rightarrow> int \<Rightarrow> int \<Rightarrow> KeyCreated list \<Rightarrow> string \<Rightarrow> ('w, KeyCreated list) act" where
  "gather_key M startOfDay now acc key = catchA
     (bindA (getFileMetadata M key) (\<lambda>data. case present data of
          None \<Rightarrow> returnA acc
        | Some v \<Rightarrow> bindA (parse_as as_apikey v) (\<lambda>d. returnA
            (if k_usageLog d \<noteq> [] \<and> startOfDay \<le> hd (k_usageLog d) \<and> hd (k_usageLog d) \<le> now
             then acc @ [key_created key d] else acc))))
     (\<lambda>_. returnA acc)"

definition get_apiKeysCreated ::
  "'w api \<Rightarrow> (string \<Rightarrow> int option) \<Rightarrow> json \<Rightarrow> int \<Rightarrow> ('w, KeysReport response) act" where
  "get_apiKeysCreated A day_start query now = answering ''Failed to get API keys created from date''
     (let date = some_text (text_field query ''date'') [] in
      if date = [] then returnA (validationError ''Missing or invalid date parameter. Expected format: YYYY-MM-DD'')
      else (case day_start date of
          None \<Rightarrow> returnA (validationError ''Invalid date format. Expected: YYYY-MM-DD'')
        | Some startOfDay \<Rightarrow> bindA (KEYS (ap_redis A) (API_KEY [])) (\<lambda>keys.
            if keys = [] then returnA (api_success \<lparr>kr_startTime = startOfDay, kr_endTime = now, kr_apiKeys = []\<rparr>
              ''No API keys found from the specified date until today'')
            else bindA (foldA (gather_key (ap_redis A) startOfDay now) [] keys) (\<lambda>found.
              returnA (api_success \<lparr>kr_startTime = startOfDay, kr_endTime = now,
                  kr_apiKeys = sort_desc kc_createdAtTimestamp found\<rparr>
                (''API keys created from '' @ date @ '' until today retrieved successfully''))))))"

record JobStats =
  js_totalJobs :: int
  js_recentJobs :: int
  js_oldJobs :: int
  js_jobsByState :: "(string, int) jsmap"
  js_recentJobsByState :: "(string, int) jsmap"
  js_oldJobsByState :: "(string, int) jsmap"
  js_completedJobs :: int
  js_totalRewards :: rat
  js_avgReward :: rat
  js_cutoffDate :: int
  js_daysAnalyzed :: int

definition job_stats :: "JobStruct list \<Rightarrow> int \<Rightarrow> int \<Rightarrow> JobStats" where
  "job_stats allJobs days cutoff =
     (let recent = filter (\<lambda>j. cutoff \<le> j_assignedAt j) allJobs;
          old = filter (\<lambda>j. j_assignedAt j < cutoff) allJobs;
          completed = completed_jobs allJobs;
          totalRewards = sum_list (map j_reward completed);
          avgReward = (if completed \<noteq> [] then totalRewards / of_nat (length completed) else 0)
      in \<lparr>js_totalJobs = int (length allJobs), js_recentJobs = int (length recent), js_oldJobs = int (length old),
          js_jobsByState = count_states allJobs, js_recentJobsByState = count_states recent,
          js_oldJobsByState = count_states old, js_completedJobs = int (length completed),
          js_totalRewards = totalRewards, js_avgReward = round_dec 10000 avgReward,
          js_cutoffDate = cutoff, js_daysAnalyzed = days\<rparr>)"

definition get_jobStats :: "'w api \<Rightarrow> string option \<Rightarrow> json \<Rightarrow> int \<Rightarrow> ('w, JobStats response) act" where
  "get_jobStats A header query now = with_api_key (ap_redis A) header (\<lambda>_. answering ''Failed to get job statistics''
     (let days = query_int_or (ap_num A) query ''daysAgo'' 7 in
      if days < 0 \<or> days > 365 then returnA (validationError ''daysAgo must be between 0 and 365'')
      else bindA (listJobs (ap_redis A) None) (\<lambda>allJobsResult.
        on_success ''Failed to get jobs: '' allJobsResult (\<lambda>allJobs.
        returnA (api_success (job_stats allJobs days (now - days * 24 * 60 * 60 * 1000))
          ''Job statistics retrieved successfully'')))))"

end
