(* ===== verification/NodeRoutes.thy ===== *)
theory NodeRoutes
  imports ScrapeRoute
begin

text \<open>
  \<open>createNodeRoutes\<close> of \<open>api/routes/node_routes.ts\<close>. The routes behind \<open>authMiddleware\<close> take
  the three places of a principal; the middleware believes what it is told. The clock of
  the server is in UTC.
\<close>

record Caller =
  cl_header :: "string option"
  cl_query :: json
  cl_body :: "json option"

definition with_principal ::
  "Caller \<Rightarrow> (string \<Rightarrow> ('w, 'a response) act) \<Rightarrow> ('w, 'a response) act" where
  "with_principal c next_step = admitted (authMiddleware (cl_header c) (cl_query c) (cl_body c)) next_step"

section \<open>The service\<close>

definition get_health :: "('w, string response) act" where
  "get_health = answering ''Node service health check failed''
     (bindA backendHealthCheck (\<lambda>health. returnA (api_success health ''Node service is healthy'')))"

definition node_getStats :: "string \<times> string list" where
  "node_getStats = (''Node Service'', [''Job assignment and processing'', ''File storage and retrieval'',
     ''Authentication and authorization'', ''Client management'', ''Database operations'',
     ''Business logic coordination''])"

definition get_stats :: "(string \<times> string list) response" where
  "get_stats = api_success node_getStats ''Node service statistics retrieved''"

definition get_nodes :: "'w api \<Rightarrow> Caller \<Rightarrow> ('w, ClientStruct list response) act" where
  "get_nodes A c = with_principal c (\<lambda>_. answering ''Failed to get all nodes''
     (bindA (node_allNodes (ap_redis A)) (\<lambda>nodesResult.
      on_success ''Failed to fetch nodes: '' nodesResult (\<lambda>ns.
      returnA (api_success ns ''All nodes retrieved successfully'')))))"

definition get_runningNodes :: "'w api \<Rightarrow> Caller \<Rightarrow> ('w, ClientStruct list response) act" where
  "get_runningNodes A c = with_principal c (\<lambda>_. answering ''Failed to get running nodes''
     (bindA (node_allRunningNodes (ap_redis A)) (\<lambda>nodesResult.
      on_success ''Failed to fetch running nodes: '' nodesResult (\<lambda>ns.
      returnA (api_success ns ''Running nodes retrieved successfully'')))))"

section \<open>Earnings\<close>

text \<open>The numbers are sent as texts.\<close>

record UserData =
  ud_user_principal_id :: string
  ud_balance :: rat
  ud_todaysEarnings :: rat
  ud_totalAccumulativePoints :: rat
  ud_totalEarnFromLastJob :: rat
  ud_referralCode :: string
  ud_totalReferral :: int
  ud_state :: string
  ud_activeJobsCount :: int
  ud_maxConcurrentJobs :: int
  ud_activeSessionRewards :: rat
  ud_activeSessionMinutes :: rat
  ud_isCurrentlyOnline :: bool

definition startOfDay :: "int \<Rightarrow> int" where
  "startOfDay now = now - now mod ms_per_day"

definition within_day :: "int \<Rightarrow> int \<Rightarrow> bool" where
  "within_day now t \<longleftrightarrow> startOfDay now \<le> t \<and> t < startOfDay now + 24 * 60 * 60 * 1000"

definition is_job_reward :: "UserReward \<Rightarrow> bool" where
  "is_job_reward r \<longleftrightarrow> ur_type r = RT_job"

definition todaysJobEarnings :: "UserReward list \<Rightarrow> int \<Rightarrow> rat" where
  "todaysJobEarnings rewards now = sum_list (map ur_amount (filter
     (\<lambda>r. is_job_reward r \<and> ur_state r = ''completed'' \<and> ur_completeAt r \<noteq> 0 \<and> within_day now (ur_completeAt r))
     rewards))"

text \<open>\<open>jobRewards[jobRewards.length - 1]\<close> of the page that was read.\<close>

definition lastJob :: "UserReward list \<Rightarrow> UserReward option" where
  "lastJob rewards = (case filter is_job_reward rewards of [] \<Rightarrow> None | r # rs \<Rightarrow> Some (last (r # rs)))"

definition earnFromLastJob :: "UserReward list \<Rightarrow> rat" where
  "earnFromLastJob rewards = (case lastJob rewards of
     None \<Rightarrow> 0 | Some job \<Rightarrow> if ur_state job = ''completed'' then ur_amount job else 0)"

definition todaysUptimeEarnings :: "'w redis \<Rightarrow> string \<Rightarrow> int \<Rightarrow> ('w, rat) act" where
  "todaysUptimeEarnings M uid now = bindA (KEYS M UPTIME_TRANSACTION_PREFIX) (\<lambda>transactionKeys.
     foldA (\<lambda>total txKey. bindA (read_as M as_tx txKey) (\<lambda>rec. returnA (case rec of
        None \<Rightarrow> total
      | Some tx \<Rightarrow> if tx_user_principal_id tx = uid \<and> tx_status tx = TX_CONFIRMED \<and> within_day now (tx_timestamp tx)
          then total + tx_amount tx else total))) 0 transactionKeys)"

text \<open>
  The total and the earnings of the day and of the last job, from the first page of the
  history, or from the client's record when there is none.
\<close>

definition earnings ::
  "'w redis \<Rightarrow> ClientStruct \<Rightarrow> string \<Rightarrow> RewardHistory EntityResult \<Rightarrow> int \<Rightarrow> ('w, rat \<times> rat \<times> rat) act" where
  "earnings M userData uid history now = (case history of
       Failure _ _ \<Rightarrow> returnA (c_balance userData, c_todaysEarnings userData, 0)
     | Success h \<Rightarrow> bindA (todaysUptimeEarnings M uid now) (\<lambda>uptimeEarnings. returnA
         (sum_list (map ur_amount (rh_rewards h)), todaysJobEarnings (rh_rewards h) now + uptimeEarnings,
          earnFromLastJob (rh_rewards h))))"

definition online_rewards :: "ActiveRewards EntityResult \<Rightarrow> ActiveRewards option" where
  "online_rewards r = (case r of Success a \<Rightarrow> if ar_isOnline a then Some a else None | Failure _ _ \<Rightarrow> None)"

definition user_data :: "ClientStruct \<Rightarrow> rat \<times> rat \<times> rat \<Rightarrow> ActiveRewards option \<Rightarrow> UserData" where
  "user_data u e active = (case e of (accumulative, todays, last_job) \<Rightarrow>
     (let reward = (case active of None \<Rightarrow> 0 | Some a \<Rightarrow> ar_totalReward a);
          minutes = (case active of None \<Rightarrow> 0 | Some a \<Rightarrow> ar_activeSessionMinutes a)
      in \<lparr>ud_user_principal_id = c_user_principal_id u, ud_balance = c_balance u + reward,
          ud_todaysEarnings = todays + reward, ud_totalAccumulativePoints = accumulative + reward,
          ud_totalEarnFromLastJob = last_job, ud_referralCode = c_referralCode u,
          ud_totalReferral = c_totalReferral u,
          ud_state = (if c_activeJobs u \<noteq> [] then ''working'' else ''waiting''),
          ud_activeJobsCount = active_count u, ud_maxConcurrentJobs = or_num (c_maxConcurrentJobs u) 10,
          ud_activeSessionRewards = reward, ud_activeSessionMinutes = minutes,
          ud_isCurrentlyOnline = (active \<noteq> None)\<rparr>))"

definition get_userData ::
  "'w api \<Rightarrow> UptimeConfig \<Rightarrow> Caller \<Rightarrow> nat list \<Rightarrow> int \<Rightarrow> ('w, UserData response) act" where
  "get_userData A cfg c code now = with_principal c (\<lambda>uid. answering ''Failed to get user data''
     (bindA (node_login (ap_redis A) uid code now) (\<lambda>loginResult.
      on_success ''Failed to fetch user data: '' loginResult (\<lambda>userData.
      bindA (node_rewardHistory (ap_redis A) uid 1 20) (\<lambda>history.
      bindA (earnings (ap_redis A) userData uid history now) (\<lambda>e.
      bindA (calculateActiveSessionRewards (ap_redis A) cfg uid now) (\<lambda>active.
      returnA (api_success (user_data userData e (online_rewards active)) ''User data retrieved successfully''))))))))"

section \<open>Uptime\<close>

definition two_digits :: "int \<Rightarrow> string" where
  "two_digits n = pad 2 (show_int n)"

definition formatUptime :: "rat \<Rightarrow> string" where
  "formatUptime minutes = (if minutes \<le> 0 then ''00:00:00'' else
     (let totalSeconds = \<lfloor>minutes * 60\<rfloor> in
      two_digits (totalSeconds div 3600) @ '':'' @ two_digits ((totalSeconds mod 3600) div 60) @ '':'' @
      two_digits (totalSeconds mod 60)))"

record UptimeReply =
  up_totalUptime :: string
  up_todayUptime :: string
  up_isCurrentlyOnline :: bool
  up_currentSessionDuration :: string
  up_activeSessionRewards :: rat
  up_activeSessionMinutes :: rat

definition uptime_reply :: "TodayUptime \<Rightarrow> LifetimeUptime \<Rightarrow> ActiveRewards option \<Rightarrow> UptimeReply" where
  "uptime_reply today lifetime active =
     (let minutes = (case active of None \<Rightarrow> 0 | Some a \<Rightarrow> ar_activeSessionMinutes a) in
      \<lparr>up_totalUptime = formatUptime (lu_total_minutes lifetime + minutes),
       up_todayUptime = formatUptime (ty_total_minutes today), up_isCurrentlyOnline = (active \<noteq> None),
       up_currentSessionDuration = (if active = None then ''00:00:00'' else formatUptime minutes),
       up_activeSessionRewards = (case active of None \<Rightarrow> 0 | Some a \<Rightarrow> ar_totalReward a),
       up_activeSessionMinutes = minutes\<rparr>)"

text \<open>The two reads that both uptime routes start with.\<close>

definition with_uptime ::
  "'w redis \<Rightarrow> string \<Rightarrow> int \<Rightarrow> (TodayUptime \<Rightarrow> LifetimeUptime \<Rightarrow> ('w, 'a response) act) \<Rightarrow> ('w, 'a response) act" where
  "with_uptime M uid now next_step =
     bindA (getUserTodayUptime M uid now) (\<lambda>todayUptimeResult.
     bindA (getUserTotalUptime M uid) (\<lambda>totalUptimeResult.
     case (todayUptimeResult, totalUptimeResult) of
       (Success today, Success lifetime) \<Rightarrow> next_step today lifetime
     | _ \<Rightarrow> returnA (internalError ''Failed to retrieve uptime data'')))"

definition get_userUptime :: "'w api \<Rightarrow> UptimeConfig \<Rightarrow> Caller \<Rightarrow> int \<Rightarrow> ('w, UptimeReply response) act" where
  "get_userUptime A cfg c now = with_principal c (\<lambda>uid. answering ''Failed to get uptime stats''
     (with_uptime (ap_redis A) uid now (\<lambda>today lifetime.
        bindA (calculateActiveSessionRewards (ap_redis A) cfg uid now) (\<lambda>active.
        returnA (api_success (uptime_reply today lifetime (online_rewards active))
          ''Uptime stats retrieved successfully'')))))"

record UptimeDetails =
  ut_start_date :: string
  ut_end_date :: string
  ut_days :: int
  ut_total_minutes :: rat
  ut_total_rewards :: rat
  ut_avg_daily_minutes :: rat
  ut_avg_speed :: rat
  ut_avg_ping :: rat
  ut_daily_records :: "(string \<times> DailyUptimeRecord) list"
  ut_weekly_records :: "WeeklyUptimeRecord list"
  ut_active_session :: "UptimeSession option"
  ut_performance_tiers :: "PerformanceTier list"

text \<open>The days from the first to the last, each as \<open>toISOString().split('T')[0]\<close>.\<close>

definition day_range :: "int \<Rightarrow> int \<Rightarrow> string list" where
  "day_range now days = map (\<lambda>i. iso_date (now - i * ms_per_day)) (rev [0..days])"

definition read_days :: "'w redis \<Rightarrow> string \<Rightarrow> string list \<Rightarrow> ('w, (string \<times> DailyUptimeRecord) list) act" where
  "read_days M uid dates = bindA (mapA (\<lambda>d. bindA (GET M (UPTIME_DAILY d uid)) (\<lambda>data.
     bindA (parse_opt as_daily data) (\<lambda>rec. returnA (map_option (Pair d) rec)))) dates) (\<lambda>rs. returnA (somes rs))"

definition read_weeks :: "'w redis \<Rightarrow> string \<Rightarrow> ('w, WeeklyUptimeRecord list) act" where
  "read_weeks M uid = bindA (SMEMBERS M (UPTIME_USER_INDEX uid)) (\<lambda>recordIds.
     bindA (mapA (\<lambda>i. bindA (GET M (UPTIME_WEEKLY i)) (parse_opt as_weekly)) recordIds) (\<lambda>rs. returnA (somes rs)))"

definition mean :: "rat list \<Rightarrow> rat" where
  "mean xs = (if xs = [] then 0 else sum_list xs / of_nat (length xs))"

definition uptime_details ::
  "UptimeConfig \<Rightarrow> int \<Rightarrow> int \<Rightarrow> (string \<times> DailyUptimeRecord) list \<Rightarrow> WeeklyUptimeRecord list \<Rightarrow>
   UptimeSession option \<Rightarrow> UptimeDetails" where
  "uptime_details cfg now days daily weekly active =
     (let rs = map snd daily in
      \<lparr>ut_start_date = iso_date (now - days * ms_per_day), ut_end_date = iso_date now, ut_days = days,
       ut_total_minutes = sum_list (map d_total_minutes rs), ut_total_rewards = sum_list (map d_total_reward rs),
       ut_avg_daily_minutes = mean (map d_total_minutes rs), ut_avg_speed = mean (map d_avg_speed rs),
       ut_avg_ping = mean (map d_avg_ping rs), ut_daily_records = daily, ut_weekly_records = weekly,
       ut_active_session = active, ut_performance_tiers = uf_performance_tiers cfg\<rparr>)"

definition get_uptimeDetails ::
  "'w api \<Rightarrow> UptimeConfig \<Rightarrow> Caller \<Rightarrow> int \<Rightarrow> ('w, UptimeDetails response) act" where
  "get_uptimeDetails A cfg c now = with_principal c (\<lambda>uid. answering ''Failed to get detailed uptime information''
     (with_uptime (ap_redis A) uid now (\<lambda>_ _.
        case query_int (ap_num A) (cl_query c) ''days'' ''7'' of
          None \<Rightarrow> throwA ''RangeError: Invalid time value''
        | Some days \<Rightarrow>
            bindA (read_days (ap_redis A) uid (day_range now days)) (\<lambda>daily.
            bindA (read_weeks (ap_redis A) uid) (\<lambda>weekly.
            bindA (GET (ap_redis A) (UPTIME_ACTIVE uid)) (\<lambda>data.
            bindA (parse_opt as_uptime data) (\<lambda>active.
            returnA (api_success (uptime_details cfg now days daily weekly active)
              ''Detailed uptime information retrieved successfully''))))))))"

section \<open>History\<close>

definition get_rewardHistory :: "'w api \<Rightarrow> Caller \<Rightarrow> ('w, (string \<times> RewardHistory) response) act" where
  "get_rewardHistory A c = with_principal c (\<lambda>uid. answering ''Failed to get reward history''
     (let page = query_int_or (ap_num A) (cl_query c) ''page'' 1;
          limit = min (query_int_or (ap_num A) (cl_query c) ''limit'' 20) 100 in
      bindA (node_rewardHistory (ap_redis A) uid page limit) (\<lambda>rewardHistoryResult.
      on_success ''Failed to fetch reward history: '' rewardHistoryResult (\<lambda>h.
      returnA (api_success (uid, h) ''Paginated reward history retrieved successfully'')))))"

text \<open>The chart's entries are those of the history without their \<open>jobCount\<close>.\<close>

record ChartData =
  ch_userPrincipalId :: string
  ch_startDate :: "string option"
  ch_endDate :: "string option"
  ch_summary :: DailySummary
  ch_chartData :: "(string \<times> rat \<times> rat \<times> rat \<times> rat) list"

definition chart_entry :: "DailyReward \<Rightarrow> string \<times> rat \<times> rat \<times> rat \<times> rat" where
  "chart_entry d = (dr_date d, dr_jobRewards d, dr_uptimeRewards d, dr_totalRewards d, dr_uptimeMinutes d)"

definition chart_data :: "string \<Rightarrow> string option \<Rightarrow> string option \<Rightarrow> DailyReward list \<times> DailySummary \<Rightarrow> ChartData" where
  "chart_data uid startDate endDate r = (case r of (daily, summary) \<Rightarrow>
     (let bound = (\<lambda>d pick. if some_text d [] \<noteq> [] then d else if daily = [] then None else Some (dr_date (pick daily))) in
      \<lparr>ch_userPrincipalId = uid, ch_startDate = bound startDate hd, ch_endDate = bound endDate last,
       ch_summary = summary, ch_chartData = map chart_entry daily\<rparr>))"

definition get_rewardChart :: "'w api \<Rightarrow> Caller \<Rightarrow> ('w, ChartData response) act" where
  "get_rewardChart A c = with_principal c (\<lambda>uid. answering ''Failed to get reward history chart data''
     (let startDate = text_field (cl_query c) ''startDate''; endDate = text_field (cl_query c) ''endDate'' in
      bindA (node_rewardHistoryByDate (ap_redis A) uid startDate endDate) (\<lambda>rewardHistoryResult.
      on_success ''Failed to fetch reward history chart data: '' rewardHistoryResult (\<lambda>r.
      returnA (api_success (chart_data uid startDate endDate r)
        ''Reward history chart data retrieved successfully'')))))"

section \<open>Authorization and rewards\<close>

definition get_authCheck :: "'w api \<Rightarrow> Caller \<Rightarrow> ('w, string response) act" where
  "get_authCheck A c = with_principal c (\<lambda>uid. answering ''Failed to check authentication''
     (bindA (handleRequestAuth (ap_redis A) uid) (\<lambda>authResult. returnA (case authResult of
        Failure _ m \<Rightarrow> unauthorized (''Authentication failed: '' @ m)
      | Success _ \<Rightarrow> api_success ''RequestAuth OK'' ''Authentication successful''))))"

text \<open>No middleware and no check: the caller names the account and the amount.\<close>

definition post_addRewards :: "'w api \<Rightarrow> json \<Rightarrow> ('w, rat response) act" where
  "post_addRewards A body = answering ''Failed to add rewards''
     (thenA (not_null body)
      (let principalId = given_text (ap_num A) body ''principalId'' in
       if principalId = [] then returnA (validationError ''Missing or invalid principalId or rewards'')
       else (case json_member body ''rewards'' of
           Some (JNum rewards) \<Rightarrow> bindA (node_addRewards (ap_redis A) principalId rewards) (\<lambda>addRewardsResult.
             on_success ''Failed to add rewards: '' addRewardsResult (\<lambda>balance.
             returnA (api_success balance ''Rewards added successfully'')))
         | _ \<Rightarrow> returnA (validationError ''Missing or invalid principalId or rewards''))))"

section \<open>Messages\<close>

text \<open>These two go through the socket server, whose handler runs what it is asked to send.\<close>

definition given_or :: "(rat \<Rightarrow> string) \<Rightarrow> json \<Rightarrow> string \<Rightarrow> string \<Rightarrow> string" where
  "given_or num v k d = (if given_text num v k = [] then d else given_text num v k)"

definition post_clientMessage ::
  "'w env \<Rightarrow> string \<Rightarrow> json \<Rightarrow> int \<Rightarrow> int \<Rightarrow> ('w, unit response) serve" where
  "post_clientMessage E cid body now rnd = answering ''Failed to send message to client''
     (thenA (not_null body)
      (let uid = given_text (en_num E) body ''userPrincipalId'' in
       if cid = [] \<or> uid = [] then returnA (validationError ''Missing clientId or userPrincipalId'')
       else bindA (server_sendJobToClient E cid uid (given_or (en_num E) body ''data'' ''Admin message'')
           (given_or (en_num E) body ''text'' ''NOTIFICATION'') None 0 0 0 now rnd) (\<lambda>messageResult.
         returnA (case messageResult of
           NotSent e \<Rightarrow> api_error (''Failed to send message: '' @ (if e = [] then ''Unknown error'' else e)) 400
         | Sent \<Rightarrow> api_success () ''Message sent successfully''))))"

definition post_broadcast :: "'w env \<Rightarrow> json \<Rightarrow> int \<Rightarrow> int \<Rightarrow> ('w, int response) serve" where
  "post_broadcast E body now rnd = answering ''Failed to broadcast message''
     (thenA (not_null body)
      (let text = given_text (en_num E) body ''text''; uid = given_text (en_num E) body ''user_principal_id'' in
       if text = [] \<or> uid = [] then returnA (validationError ''Missing required fields: text, user_principal_id'')
       else bindA (server_broadcastToClients E
           \<lparr>am_text = text, am_data = the (or_else (json_member body ''data'') (Some (JStr []))),
            am_user_principal_id = uid, am_node_client_id = ''0'', am_job_id = None, am_post_count = None,
            am_replies_count = None, am_scrollPauseTime = None\<rparr> now rnd) (\<lambda>broadcastCount.
         returnA (api_success broadcastCount ''Broadcast completed''))))"

end
