(* ===== verification/FileRoutes.thy ===== *)
theory FileRoutes
  imports NodeRoutes RpcHandler
begin

text \<open>
  \<open>createFileRoutes\<close> of \<open>api/routes/file_routes.ts\<close>, every route behind \<open>authMiddleware\<close>. The
  error of a failed result is sent as data: it is \<open>Inl\<close> of its kind. \<open>parseInt\<close> of a text
  that is no number gives NaN, which JSON stores as \<open>null\<close>; it is 0 here.
\<close>

definition failed_with :: "'b EntityResult \<Rightarrow> (DatabaseError + 'a) response" where
  "failed_with r = (case r of Failure k m \<Rightarrow> api_error_with m 400 (Inl k) | Success _ \<Rightarrow> api_error [] 400)"

definition with_body :: "Caller \<Rightarrow> (json \<Rightarrow> ('w, 'a response) act) \<Rightarrow> ('w, 'a response) act" where
  "with_body c next_step = (case cl_body c of
     None \<Rightarrow> throwA ''TypeError'' | Some b \<Rightarrow> thenA (not_null b) (next_step b))"

definition int_text :: "string \<Rightarrow> int" where
  "int_text s = (case parseInt s of Some n \<Rightarrow> n | None \<Rightarrow> 0)"

section \<open>Uploads\<close>

definition post_file ::
  "'w api \<Rightarrow> Caller \<Rightarrow> int \<Rightarrow> int \<Rightarrow> ('w, (DatabaseError + string) response) act" where
  "post_file A c now rnd = with_principal c (\<lambda>uid. answering ''Failed to create file'' (with_body c (\<lambda>body.
     let field = given_text (ap_num A) body in
     if field ''name'' = [] \<or> field ''content_type'' = [] \<or> field ''size'' = [] \<or> field ''job_id'' = []
     then returnA (validationError ''Missing required fields: name, content_type, size, job_id'')
     else bindA (createFile (ap_redis A) (ap_disk A) (fv_baseDataPath (ap_files A))
         \<lparr>fu_name = field ''name'', fu_content_type = field ''content_type'', fu_size = int_text (field ''size''),
          fu_user_principal_id = uid, fu_job_id = field ''job_id''\<rparr> now rnd) (\<lambda>result.
       returnA (case result of
         Failure k m \<Rightarrow> failed_with result
       | Success f \<Rightarrow> api_created (Inr (f_id f)) ''File created successfully. Upload chunks to complete.'')))))"

text \<open>\<open>if (!chunk_index)\<close> asks the index for truth.\<close>

definition post_chunk :: "'w api \<Rightarrow> Caller \<Rightarrow> string \<Rightarrow> ('w, (DatabaseError + unit) response) act" where
  "post_chunk A c fileId = with_principal c (\<lambda>uid. answering ''Failed to upload chunk'' (with_body c (\<lambda>body.
     let index = given_text (ap_num A) body ''chunk_index''; data = base64_bytes (given_text (ap_num A) body ''chunk_data'') in
     if index = [] then returnA (validationError ''chunk_index is required'')
     else if data = [] then returnA (validationError ''chunk_data is required'')
     else bindA (uploadChunk (ap_redis A) (ap_disk A) \<lparr>fc_file_id = fileId, fc_chunk_index = int_text index,
         fc_chunk_data = data, fc_user_principal_id = uid\<rparr>) (\<lambda>result.
       returnA (if succeeded result then api_success (Inr ()) ''Chunk uploaded successfully''
         else failed_with result)))))"

definition post_complete ::
  "'w api \<Rightarrow> (string \<Rightarrow> string) \<Rightarrow> Caller \<Rightarrow> string \<Rightarrow> int \<Rightarrow> ('w, (DatabaseError + unit) response) act" where
  "post_complete A sha256 c fileId now = with_principal c (\<lambda>uid. answering ''Failed to complete file upload''
     (bindA (completeFileUpload (ap_redis A) (ap_disk A) sha256 fileId uid now) (\<lambda>result.
      returnA (if succeeded result then api_success (Inr ()) ''File upload completed successfully''
        else failed_with result))))"

section \<open>Reading\<close>

definition get_files :: "'w api \<Rightarrow> Caller \<Rightarrow> ('w, (DatabaseError + FileMetadata list) response) act" where
  "get_files A c = with_principal c (\<lambda>uid. answering ''Failed to list files''
     (let query = cl_query c in
      bindA (listFiles (ap_redis A) \<lparr>fl_user_principal_id = uid, fl_job_id = text_field query ''job_id'',
          fl_start_id = text_field query ''start_id'',
          fl_limit = (if json_truthy (json_member query ''limit'') then query_int (ap_num A) query ''limit'' [] else None)\<rparr>)
        (\<lambda>result. returnA (case result of
           Failure k m \<Rightarrow> failed_with result
         | Success fs \<Rightarrow> api_success (Inr fs) ''Files retrieved successfully''))))"

definition get_file :: "'w api \<Rightarrow> Caller \<Rightarrow> string \<Rightarrow> ('w, FileMetadata response) act" where
  "get_file A c fileId = with_principal c (\<lambda>uid. answering ''Failed to get file''
     (bindA (getFile (ap_redis A) fileId) (\<lambda>result. returnA (case result of
        Failure _ _ \<Rightarrow> notFound ''File not found''
      | Success f \<Rightarrow> if f_user_principal_id f \<noteq> uid then forbidden ''Unauthorized access to file''
          else api_success f ''File metadata retrieved successfully''))))"

text \<open>The bytes, and the metadata that the headers are made of, when it can still be read.\<close>

definition get_download :: "'w api \<Rightarrow> Caller \<Rightarrow> string \<Rightarrow> int \<Rightarrow> ('w, (FileMetadata option \<times> string) response) act" where
  "get_download A c fileId now = with_principal c (\<lambda>uid. answering ''Failed to download file''
     (bindA (getFileContent (ap_redis A) (ap_disk A) (ap_files A) fileId uid now) (\<lambda>result. case result of
        Failure _ _ \<Rightarrow> returnA (notFound ''File not found or access denied'')
      | Success content \<Rightarrow> bindA (getFile (ap_redis A) fileId) (\<lambda>fileResult.
          returnA (api_success (data_or_null fileResult, content) [])))))"

definition delete_file :: "'w api \<Rightarrow> Caller \<Rightarrow> string \<Rightarrow> ('w, (DatabaseError + unit) response) act" where
  "delete_file A c fileId = with_principal c (\<lambda>uid. answering ''Failed to delete file''
     (bindA (deleteFile (ap_redis A) (ap_disk A) fileId uid) (\<lambda>result.
      returnA (if succeeded result then api_success (Inr ()) ''File deleted successfully''
        else failed_with result))))"

end
