(* ===== verification/ReferralRoutes.thy ===== *)
theory ReferralRoutes
  imports NodeRoutes
begin

text \<open>
  \<open>createReferralRouter\<close> of \<open>api/routes/referral_routes.ts\<close>. \<open>Inl\<close> is the data of an error
  about a field.
\<close>

datatype field_detail = Detail string string | NotValid string

abbreviation (input) field_error :: "string \<Rightarrow> string \<Rightarrow> string \<Rightarrow> (field_detail + 'a) response" where
  "field_error msg field detail \<equiv> api_error_with msg 400 (Inl (Detail field detail))"

section \<open>Codes and registration\<close>

definition post_validateCode :: "'w api \<Rightarrow> json \<Rightarrow> ('w, (field_detail + string) response) act" where
  "post_validateCode A body = answering ''Failed to validate referral code''
     (thenA (not_null body)
      (if \<not> json_truthy (json_member body ''referral_code'')
       then returnA (field_error ''Referral code is required'' ''referral_code'' ''This field is required'')
       else (let code = js_trim (some_text (text_field body ''referral_code'') []) in
         if code = [] then returnA (field_error ''Invalid referral code format'' ''referral_code'' ''Must be a non-empty string'')
         else bindA (validateReferralCode (ap_redis A) (to_upper code)) (\<lambda>result.
           on_success [] result (\<lambda>v. returnA
             (if \<not> cv_valid v then api_error_with (cv_message v) 400 (Inl (NotValid ''referral_code''))
              else api_success (Inr (some_text (cv_referrer_principal_id v) [])) ''Referral code is valid''))))))"

text \<open>\<open>trim\<close> of a code that is not a text throws.\<close>

definition post_register ::
  "'w api \<Rightarrow> ReferralConfig \<Rightarrow> Caller \<Rightarrow> int \<Rightarrow> ('w, (field_detail + ReferralRelationship) response) act" where
  "post_register A cfg c now = with_principal c (\<lambda>uid. answering ''Failed to register with referral code''
     (case cl_body c of
        None \<Rightarrow> throwA ''TypeError''
      | Some body \<Rightarrow>
          if \<not> json_truthy (json_member body ''referral_code'')
          then returnA (field_error ''Referral code is required'' ''referral_code'' ''This field is required'')
          else if \<not> rc_enabled cfg then returnA (api_error ''Referral system is currently disabled'' 503)
          else (case text_field body ''referral_code'' of
              None \<Rightarrow> throwA ''TypeError''
            | Some code \<Rightarrow> bindA (registerWithReferralCode (ap_redis A) cfg uid (to_upper (js_trim code)) now)
                (\<lambda>result. returnA (case result of
                   Failure k m \<Rightarrow> if k = InvalidInput then validationError m
                     else if k = AlreadyExists then conflict m else api_error m 400
                 | Success r \<Rightarrow> api_created (Inr r) ''Successfully registered with referral code'')))))"

section \<open>Reports\<close>

definition get_dashboard ::
  "'w api \<Rightarrow> ReferralConfig \<Rightarrow> Caller \<Rightarrow> int \<Rightarrow> int \<Rightarrow> ('w, Dashboard response) act" where
  "get_dashboard A cfg c startOfWeek now = with_principal c (\<lambda>uid. answering ''Failed to get referral dashboard''
     (bindA (getReferralDashboard (ap_redis A) cfg uid startOfWeek now) (\<lambda>result. returnA (case result of
        Failure k m \<Rightarrow> if k = NotFound then notFound m else api_error m 400
      | Success d \<Rightarrow> api_success d ''Referral dashboard retrieved successfully''))))"

record SimplifiedStats =
  si_total_referral_rewards :: rat
  si_this_week_referral_rewards :: rat
  si_total_referrals :: int
  si_pending_referrals :: int
  si_qualified_referrals :: int
  si_l1_referral_rewards :: rat

definition simplified_stats :: "ReferralStats \<Rightarrow> SimplifiedStats" where
  "simplified_stats s = \<lparr>si_total_referral_rewards = st_total_referral_rewards s,
     si_this_week_referral_rewards = st_this_week_referral_rewards s,
     si_total_referrals = st_l1_total_referrals s + st_l2_total_referrals s,
     si_pending_referrals = st_pending_referrals s, si_qualified_referrals = st_qualified_referrals s,
     si_l1_referral_rewards = st_l1_total_earned s\<rparr>"

definition get_referralStats ::
  "'w api \<Rightarrow> ReferralConfig \<Rightarrow> Caller \<Rightarrow> int \<Rightarrow> int \<Rightarrow> ('w, SimplifiedStats response) act" where
  "get_referralStats A cfg c startOfWeek now = with_principal c (\<lambda>uid. answering ''Failed to get referral stats''
     (bindA (getReferralStats (ap_redis A) cfg uid startOfWeek now) (\<lambda>result.
      on_success [] result (\<lambda>s. returnA (api_success (simplified_stats s) ''Referral stats retrieved successfully'')))))"

text \<open>
  One referee of the tree, for the client and the relationship that were read; the second
  level has the user between, the first the uptime and the balance.
\<close>

datatype tree_entry =
    Level1 string int Installation24hStatus bool string int rat
  | Level2 string int "string option" Installation24hStatus bool string

definition level1 :: "string \<Rightarrow> ClientStruct \<Rightarrow> ReferralRelationship \<Rightarrow> tree_entry" where
  "level1 uid c r = Level1 uid (r_signup_timestamp r) (r_first_24h_status r) (c_wsDisconnect c = 0)
     (c_clientStatus c) (c_totalUptime c) (c_balance c)"

definition level2 :: "string \<Rightarrow> ClientStruct \<Rightarrow> ReferralRelationship \<Rightarrow> tree_entry" where
  "level2 uid c r = Level2 uid (r_signup_timestamp r) (r_referrer_l1_principal_id r) (r_first_24h_status r)
     (c_wsDisconnect c = 0) (c_clientStatus c)"

definition tree_details ::
  "'w redis \<Rightarrow> (string \<Rightarrow> ClientStruct \<Rightarrow> ReferralRelationship \<Rightarrow> tree_entry) \<Rightarrow> string list \<Rightarrow>
   ('w, tree_entry list) act" where
  "tree_details M entry referees = foldA (\<lambda>details referee.
     bindA (getClient M referee) (\<lambda>clientResult.
     bindA (getReferralRelationship M referee) (\<lambda>relationshipResult. returnA
       (case (clientResult, relationshipResult) of
          (Success c, Success (Some r)) \<Rightarrow> details @ [entry referee c r] | _ \<Rightarrow> details)))) [] referees"

record ReferralTree =
  tr_l1_count :: int
  tr_l1_referrals :: "tree_entry list"
  tr_l2_count :: int
  tr_l2_referrals :: "tree_entry list"

definition get_tree :: "'w api \<Rightarrow> Caller \<Rightarrow> ('w, ReferralTree response) act" where
  "get_tree A c = with_principal c (\<lambda>uid. answering ''Failed to get referral tree''
     (bindA (getL1Referrals (ap_redis A) uid) (\<lambda>l1Result. case l1Result of
        Failure _ _ \<Rightarrow> returnA (api_error ''Failed to get L1 referrals'' 400)
      | Success l1 \<Rightarrow> bindA (getL2Referrals (ap_redis A) uid) (\<lambda>l2Result. case l2Result of
          Failure _ _ \<Rightarrow> returnA (api_error ''Failed to get L2 referrals'' 400)
        | Success l2 \<Rightarrow> bindA (tree_details (ap_redis A) level1 l1) (\<lambda>l1Details.
            bindA (tree_details (ap_redis A) level2 l2) (\<lambda>l2Details.
            returnA (api_success \<lparr>tr_l1_count = int (length l1), tr_l1_referrals = l1Details,
              tr_l2_count = int (length l2), tr_l2_referrals = l2Details\<rparr> ''Referral tree retrieved successfully'')))))))"

section \<open>Rewards\<close>

definition type_name :: "ReferralRewardType \<Rightarrow> string" where
  "type_name t = (case t of INSTALLATION \<Rightarrow> ''INSTALLATION'' | UPTIME \<Rightarrow> ''UPTIME'' | TASK \<Rightarrow> ''TASK'')"

record RewardTotals =
  ro_total_rewards :: int
  ro_total_amount :: rat
  ro_installation :: rat
  ro_uptime :: rat
  ro_task :: rat
  ro_l1 :: rat
  ro_l2 :: rat

definition distributed :: "(ReferralReward \<Rightarrow> bool) \<Rightarrow> ReferralReward list \<Rightarrow> rat" where
  "distributed p rewards = earned_by (\<lambda>r. p r \<and> rw_status r = RW_DISTRIBUTED) rewards"

definition reward_totals :: "ReferralReward list \<Rightarrow> RewardTotals" where
  "reward_totals rs = \<lparr>ro_total_rewards = int (length rs), ro_total_amount = distributed (\<lambda>_. True) rs,
     ro_installation = distributed (\<lambda>r. rw_reward_type r = INSTALLATION) rs,
     ro_uptime = distributed (\<lambda>r. rw_reward_type r = UPTIME) rs,
     ro_task = distributed (\<lambda>r. rw_reward_type r = TASK) rs,
     ro_l1 = distributed (\<lambda>r. rw_tier r = 1) rs, ro_l2 = distributed (\<lambda>r. rw_tier r = 2) rs\<rparr>"

record RewardPage =
  rg_rewards :: "ReferralReward list"
  rg_pagination :: Pagination
  rg_summary :: RewardTotals

definition reward_page :: "int \<Rightarrow> int \<Rightarrow> ReferralReward list \<Rightarrow> RewardPage" where
  "reward_page pageNum limitNum rewards =
     (let totalItems = int (length rewards); totalPages = total_pages totalItems limitNum in
      \<lparr>rg_rewards = page_of pageNum limitNum rewards,
       rg_pagination = \<lparr>pg_currentPage = pageNum, pg_totalPages = totalPages, pg_totalItems = totalItems,
         pg_itemsPerPage = limitNum, pg_hasNextPage = (pageNum < totalPages), pg_hasPrevPage = (pageNum > 1)\<rparr>,
       rg_summary = reward_totals rewards\<rparr>)"

text \<open>The filters: a type that is given, and a tier that is given, of which none is the one that is no number.\<close>

definition selected :: "(rat \<Rightarrow> string) \<Rightarrow> json \<Rightarrow> ReferralReward list \<Rightarrow> ReferralReward list" where
  "selected num query rewards =
     (let of_type = (if \<not> json_truthy (json_member query ''type'') then rewards
            else filter (\<lambda>r. text_field query ''type'' = Some (type_name (rw_reward_type r))) rewards)
      in if \<not> json_truthy (json_member query ''tier'') then of_type
         else filter (\<lambda>r. query_int num query ''tier'' [] = Some (rw_tier r)) of_type)"

definition get_referralRewards :: "'w api \<Rightarrow> Caller \<Rightarrow> ('w, (field_detail + RewardPage) response) act" where
  "get_referralRewards A c = with_principal c (\<lambda>uid. answering ''Failed to get reward history''
     (case query_int (ap_num A) (cl_query c) ''page'' ''1'' of
        None \<Rightarrow> returnA (field_error ''Invalid page number'' ''page'' ''Must be a positive integer'')
      | Some pageNum \<Rightarrow>
          if pageNum < 1 then returnA (field_error ''Invalid page number'' ''page'' ''Must be a positive integer'')
          else (case query_int (ap_num A) (cl_query c) ''limit'' ''20'' of
              None \<Rightarrow> returnA (field_error ''Invalid limit'' ''limit'' ''Must be between 1 and 100'')
            | Some limitNum \<Rightarrow>
                if limitNum < 1 \<or> limitNum > 100
                then returnA (field_error ''Invalid limit'' ''limit'' ''Must be between 1 and 100'')
                else bindA (getReferralRewards (ap_redis A) uid) (\<lambda>result.
                  on_success [] result (\<lambda>rewards. returnA (api_success
                    (Inr (reward_page pageNum limitNum (selected (ap_num A) (cl_query c) rewards)))
                    ''Reward history retrieved successfully''))))))"

section \<open>Relationship and configuration\<close>

definition get_relationship :: "'w api \<Rightarrow> Caller \<Rightarrow> ('w, ReferralRelationship response) act" where
  "get_relationship A c = with_principal c (\<lambda>uid. answering ''Failed to get referral relationship''
     (bindA (getReferralRelationship (ap_redis A) uid) (\<lambda>result.
      on_success [] result (\<lambda>r. returnA (case r of
         None \<Rightarrow> api_nothing ''User was not referred by anyone''
       | Some rel \<Rightarrow> api_success rel ''Referral relationship retrieved successfully'')))))"

text \<open>\<open>registered\<close> is whether there is a relationship.\<close>

definition get_referralStatus :: "'w api \<Rightarrow> Caller \<Rightarrow> ('w, ReferralRelationship option response) act" where
  "get_referralStatus A c = with_principal c (\<lambda>uid. answering ''Failed to get referral status''
     (bindA (getReferralRelationship (ap_redis A) uid) (\<lambda>result.
      on_success [] result (\<lambda>r. returnA (api_success r ''User registration status retrieved successfully'')))))"

text \<open>The other fields that the route reads are optional in the type and set nowhere.\<close>

definition get_config :: "ReferralConfig \<Rightarrow> (bool \<times> int) response" where
  "get_config cfg = api_success (rc_enabled cfg, rc_max_tier_depth cfg) ''Referral configuration retrieved successfully''"

end
