(* ===== verification/RewardRoutes.thy ===== *)
theory RewardRoutes
  imports NodeRoutes RewardDistribution
begin

text \<open>
  \<open>createRewardRoutes\<close> of \<open>api/routes/reward_routes.ts\<close>, every route behind
  \<open>rewardAuthMiddleware\<close>, and \<open>createReferralDistributionRouter\<close> of
  \<open>api/routes/referral_distribution_routes.ts\<close>, none behind a middleware. The answers of the
  first are a \<open>data\<close> or an \<open>error\<close> with its type.
\<close>

section \<open>Answers\<close>

type_synonym 'a reward_reply = "rejection + 'a"

definition server_error :: "string \<Rightarrow> rejection" where
  "server_error msg = \<lparr>rj_status = 500, rj_type = ''ServerError'', rj_message = msg\<rparr>"

definition missing :: "string \<Rightarrow> rejection" where
  "missing msg = \<lparr>rj_status = 404, rj_type = ''NotFound'', rj_message = msg\<rparr>"

definition error_type :: "DatabaseError \<Rightarrow> string" where
  "error_type k = (case k of NotFound \<Rightarrow> ''NotFound'' | AlreadyExists \<Rightarrow> ''AlreadyExists''
     | UpdateFailed \<Rightarrow> ''UpdateFailed'' | InvalidInput \<Rightarrow> ''InvalidInput'' | DatabaseFault \<Rightarrow> ''DatabaseError''
     | StorageError \<Rightarrow> ''StorageError'' | CanisterError \<Rightarrow> ''CanisterError'' | Unknown \<Rightarrow> ''Unknown'')"

text \<open>The middleware and the \<open>try\<close> of a route.\<close>

definition with_token ::
  "string option \<Rightarrow> string \<Rightarrow> ('w, 'a reward_reply) act \<Rightarrow> ('w, 'a reward_reply) act" where
  "with_token header msg body = (case rewardAuthMiddleware header of
       Some rejected \<Rightarrow> returnA (Inl rejected)
     | None \<Rightarrow> catchA body (\<lambda>e. returnA (Inl (server_error (msg @ e)))))"

section \<open>The distribution\<close>

record RewardStatusReport =
  rp_isRunning :: bool
  rp_config :: UptimeConfig
  rp_currentLogFile :: string

definition get_rewardStatus ::
  "string option \<Rightarrow> RewardDistributionService \<Rightarrow> UptimeConfig \<Rightarrow> string \<Rightarrow> ('w, RewardStatusReport reward_reply) act" where
  "get_rewardStatus header s cfg logFile = with_token header ''Failed to get status: ''
     (returnA (Inr \<lparr>rp_isRunning = ps_isRunning s, rp_config = cfg, rp_currentLogFile = logFile\<rparr>))"

definition triggerManualDistribution ::
  "'w redis \<Rightarrow> UptimeConfig \<Rightarrow> 'w payer \<Rightarrow> int \<Rightarrow> (nat \<Rightarrow> int) \<Rightarrow> ('w, RewardDistributionStatus EntityResult) act" where
  "triggerManualDistribution M cfg pay now rnd = runRewardDistribution M cfg pay now rnd"

definition post_trigger ::
  "'w redis \<Rightarrow> UptimeConfig \<Rightarrow> 'w payer \<Rightarrow> string option \<Rightarrow> int \<Rightarrow> (nat \<Rightarrow> int) \<Rightarrow>
   ('w, RewardDistributionStatus reward_reply) act" where
  "post_trigger M cfg pay header now rnd = with_token header ''Failed to trigger distribution: ''
     (bindA (triggerManualDistribution M cfg pay now rnd) (\<lambda>result. returnA (case result of
        Success status \<Rightarrow> Inr status
      | Failure k m \<Rightarrow> Inl \<lparr>rj_status = 500, rj_type = error_type k, rj_message = m\<rparr>)))"

text \<open>
  The keys in descending \<open>localeCompare\<close> order of what follows their last colon; \<open>le\<close> is
  the order of the server's locale.
\<close>

definition after_colon :: "string \<Rightarrow> string" where
  "after_colon key = last (split_colon key)"

fun insert_newest :: "(string \<Rightarrow> string \<Rightarrow> bool) \<Rightarrow> string \<Rightarrow> string list \<Rightarrow> string list" where
  "insert_newest le k [] = [k]"
| "insert_newest le k (x # xs) = (if le (after_colon x) (after_colon k) then k # x # xs else x # insert_newest le k xs)"

definition newest_first :: "(string \<Rightarrow> string \<Rightarrow> bool) \<Rightarrow> string list \<Rightarrow> string list" where
  "newest_first le keys = foldr (insert_newest le) keys []"

record 'a Listing =
  li_entries :: "'a list"
  li_total :: int
  li_limit :: int
  li_offset :: int
  li_hasMore :: bool

definition listing :: "'a list \<Rightarrow> int \<Rightarrow> int \<Rightarrow> int \<Rightarrow> 'a Listing" where
  "listing entries n limit offset = \<lparr>li_entries = entries, li_total = n, li_limit = limit,
     li_offset = offset, li_hasMore = (min (offset + limit) n < n)\<rparr>"

fun as_dist :: "rvalue \<Rightarrow> RewardDistributionStatus option" where
  "as_dist (VDist d) = Some d" | "as_dist _ = None"

text \<open>The loop from \<open>offset\<close> reads an undefined key when it is negative.\<close>

definition get_history ::
  "'w api \<Rightarrow> (string \<Rightarrow> string \<Rightarrow> bool) \<Rightarrow> string option \<Rightarrow> json \<Rightarrow>
   ('w, RewardDistributionStatus Listing reward_reply) act" where
  "get_history A le header query = with_token header ''Failed to get distribution history: ''
     (let limit = query_int_or (ap_num A) query ''limit'' 10; offset = query_int_or (ap_num A) query ''offset'' 0 in
      bindA (KEYS (ap_redis A) (UPTIME_DISTRIBUTION [])) (\<lambda>keys.
        let sortedKeys = newest_first le keys; n = int (length keys); endIndex = min (offset + limit) n in
        if offset < 0 \<and> offset < endIndex then throwA ''TypeError''
        else bindA (mapA (read_as (ap_redis A) as_dist) (take (nat (endIndex - offset)) (drop (nat offset) sortedKeys)))
          (\<lambda>ds. returnA (Inr (listing (somes ds) n limit offset)))))"

definition matching_transactions ::
  "'w redis \<Rightarrow> (RewardTransaction \<Rightarrow> bool) \<Rightarrow> ('w, RewardTransaction list) act" where
  "matching_transactions M p = bindA (KEYS M UPTIME_TRANSACTION_PREFIX) (\<lambda>keys.
     bindA (mapA (read_as M as_tx) keys) (\<lambda>txs. returnA (filter p (somes txs))))"

definition get_distribution ::
  "'w api \<Rightarrow> string option \<Rightarrow> string \<Rightarrow> ('w, (RewardDistributionStatus \<times> RewardTransaction list) reward_reply) act" where
  "get_distribution A header distributionId = with_token header ''Failed to get distribution details: ''
     (bindA (read_as (ap_redis A) as_dist (UPTIME_DISTRIBUTION distributionId)) (\<lambda>data. case data of
        None \<Rightarrow> returnA (Inl (missing ''Distribution not found''))
      | Some d \<Rightarrow> bindA (matching_transactions (ap_redis A) (\<lambda>tx. tx_distribution_id tx = distributionId)) (\<lambda>txs.
          returnA (Inr (d, txs)))))"

definition get_userHistory ::
  "'w api \<Rightarrow> string option \<Rightarrow> string \<Rightarrow> json \<Rightarrow> ('w, RewardTransaction Listing reward_reply) act" where
  "get_userHistory A header uid query = with_token header ''Failed to get user reward history: ''
     (let limit = query_int_or (ap_num A) query ''limit'' 20; offset = query_int_or (ap_num A) query ''offset'' 0 in
      bindA (matching_transactions (ap_redis A) (\<lambda>tx. tx_user_principal_id tx = uid)) (\<lambda>txs.
        let userTransactions = sort_desc tx_timestamp txs; n = int (length txs) in
        returnA (Inr (listing (js_slice offset (min (offset + limit) n) userTransactions) n limit offset))))"

record Counts =
  co_unprocessedCount :: int
  co_totalRecords :: int
  co_processedCount :: int

definition count_daily :: "DailyUptimeRecord list \<Rightarrow> Counts" where
  "count_daily rs = (let unprocessed = int (length (filter (\<lambda>r. \<not> d_is_processed r \<and> d_total_minutes r > 0) rs)) in
     \<lparr>co_unprocessedCount = unprocessed, co_totalRecords = int (length rs),
      co_processedCount = int (length rs) - unprocessed\<rparr>)"

definition get_unprocessedCount :: "'w api \<Rightarrow> string option \<Rightarrow> ('w, Counts reward_reply) act" where
  "get_unprocessedCount A header = with_token header ''Failed to get unprocessed count: ''
     (bindA (KEYS (ap_redis A) UPTIME_DAILY_PREFIX) (\<lambda>keys.
      bindA (mapA (read_as (ap_redis A) as_daily) keys) (\<lambda>rs. returnA (Inr (count_daily (somes rs))))))"

section \<open>Logs\<close>

record LogTail =
  lg_file :: string
  lg_lines :: "string list"
  lg_totalLines :: int

text \<open>\<open>logLines.slice(-lines)\<close> of the lines that are not blank.\<close>

definition log_tail :: "string \<Rightarrow> int \<Rightarrow> string \<Rightarrow> LogTail" where
  "log_tail file n content =
     (let logLines = filter (\<lambda>l. js_trim l \<noteq> []) (split_on newline content) in
      \<lparr>lg_file = file, lg_lines = js_slice (- n) (int (length logLines)) logLines,
       lg_totalLines = int (length logLines)\<rparr>)"

definition get_rewardLogs ::
  "'w api \<Rightarrow> string option \<Rightarrow> string \<Rightarrow> json \<Rightarrow> ('w, LogTail reward_reply) act" where
  "get_rewardLogs A header currentLogFile query = with_token header ''Failed to read logs: ''
     (if currentLogFile = [] then returnA (Inl (missing ''No log file available''))
      else bindA (READ_FILE (ap_disk A) currentLogFile) (\<lambda>content.
        returnA (Inr (log_tail currentLogFile (query_int_or (ap_num A) query ''lines'' 100) content))))"

section \<open>The referral distribution\<close>

definition get_distributionStatus :: "ReferralDistributionService \<Rightarrow> (bool \<times> string list) response" where
  "get_distributionStatus s = api_success (referralStatus s) ''Referral distribution service status retrieved''"

definition post_weeklyUptime ::
  "'w redis \<Rightarrow> ReferralConfig \<Rightarrow> 'w payer \<Rightarrow> int \<Rightarrow> ('w, ReferralDistributionResult response) act" where
  "post_weeklyUptime M cfg pay now = answering ''Failed to trigger weekly uptime distribution''
     (bindA (processWeeklyUptimeRewards M cfg pay now) (\<lambda>result.
      returnA (api_success result ''Weekly uptime distribution completed'')))"

definition post_dailyTask :: "int \<Rightarrow> ReferralDistributionResult response" where
  "post_dailyTask now = api_success (processDailyTaskRewards now) ''Daily task distribution completed''"

definition post_monthlyReset :: "'w redis \<Rightarrow> int \<Rightarrow> ('w, ReferralDistributionResult response) act" where
  "post_monthlyReset M now = answering ''Failed to trigger monthly cap reset''
     (bindA (resetMonthlyCaps M now) (\<lambda>result. returnA (api_success result ''Monthly cap reset completed'')))"

text \<open>The date of the query goes into the path of the file as it is.\<close>

definition get_referralLogs :: "'w api \<Rightarrow> json \<Rightarrow> int \<Rightarrow> ('w, LogTail response) act" where
  "get_referralLogs A query now = answering ''Failed to get logs''
     (let date = (if given_text (ap_num A) query ''date'' = [] then iso_date now else given_text (ap_num A) query ''date'');
          logFile = ''./logs/referral-distribution/referral-distribution-'' @ date @ ''.log'' in
      bindA (existsSync (ap_disk A) logFile) (\<lambda>found.
        if \<not> found then returnA (api_success \<lparr>lg_file = logFile, lg_lines = [], lg_totalLines = 0\<rparr>
          ''No logs found for the specified date'')
        else bindA (READ_FILE (ap_disk A) logFile) (\<lambda>content. returnA
          (api_success (log_tail logFile (query_int_or (ap_num A) query ''lines'' 100) content)
            ''Logs retrieved successfully''))))"

end
