(* ===== verification/RouteFacts.thy ===== *)
theory RouteFacts
  imports SystemRoutes FileRoutes ReferralRoutes RewardRoutes ServerProperties JobQueueProperties
begin

text \<open>
  What the routes do on a store that answers: the guards and middlewares, the
  registration that hands out a key, and the two halves of a scrape.
\<close>

section \<open>Keys\<close>

lemma key_text: "set (generateAPIKey rnds) \<subseteq> set api_key_chars"
proof -
  have "0 < length api_key_chars" by (simp add: api_key_chars_def)
  then show ?thesis by (auto simp: generateAPIKey_def)
qed

lemma key_not_blank:
  assumes "rnds \<noteq> []"
  shows "generateAPIKey rnds \<noteq> []" "js_trim (generateAPIKey rnds) \<noteq> []"
proof -
  show ne: "generateAPIKey rnds \<noteq> []" using assms by (simp add: generateAPIKey_def)
  have "\<forall>c \<in> set api_key_chars. \<not> js_space c" by (simp add: api_key_chars_def js_space_def)
  then have "\<forall>c \<in> set (generateAPIKey rnds). \<not> js_space c" using key_text by blast
  with ne show "js_trim (generateAPIKey rnds) \<noteq> []"
    by (auto simp: js_trim_blank list_all_iff neq_Nil_conv)
qed

text \<open>The header that carries a key, and what is left of the two schemes.\<close>

definition bearer_header :: "string \<Rightarrow> string" where
  "bearer_header k = ''Bearer '' @ k"

lemma presented_bearer [simp]: "presented_key (bearer_header k) = k"
  by (simp add: presented_key_def bearer_header_def)

lemma bearer_text [simp]: "some_text (Some (bearer_header k)) d = bearer_header k" "bearer_header k \<noteq> []"
  by (simp_all add: bearer_header_def some_text_def truthy_def)

lemma apiKeyMiddleware_bearer:
  assumes "js_trim k \<noteq> []"
  shows "apiKeyMiddleware M (Some (bearer_header k)) = catchA
     (bindA (validateApiKey M k) (\<lambda>validationResult. returnA (case validationResult of
        Failure _ _ \<Rightarrow> Inl (unauthorized ''Invalid API key'') | Success uid \<Rightarrow> Inr uid)))
     (\<lambda>_. returnA (Inl (internalError ''Authentication failed'')))"
  using assms by (simp add: apiKeyMiddleware_def Let_def)

lemma present_text: "u \<noteq> [] \<Longrightarrow> present (Some (VStr u)) = Some (VStr u)"
  by (cases u) simp_all

text \<open>A key that is looked up to an active user.\<close>

definition holds_key :: "'w redis \<Rightarrow> 'w \<Rightarrow> string \<Rightarrow> string \<Rightarrow> bool" where
  "holds_key M w k u \<longleftrightarrow> strs M w (API_LOOKUP k) = Some (VStr u) \<and> u \<noteq> [] \<and> js_trim k \<noteq> []
     \<and> (\<exists>c. clients M w u = Some c \<and> c_clientStatus c = client_status ACTIVE)"

context redis_up
begin

text \<open>A key that is looked up to an active user lets in as that user.\<close>

lemma key_admits:
  assumes "db_inv M w" "strs M w (API_LOOKUP k) = Some (VStr u)" "u \<noteq> []" "js_trim k \<noteq> []"
    and "clients M w u = Some c" "c_clientStatus c = client_status ACTIVE"
  shows "apiKeyMiddleware M (Some (bearer_header k)) w = (Inr (Inr u), w)"
proof -
  have "service_getUUIDFromAPIKey M k w = (Inr (Success u), w)"
    using assms(2,3)
    by (simp add: service_getUUIDFromAPIKey_def getUUIDFromAPIKey_def present_text act_simps)
  then have "validateApiKey M k w = (Inr (Success u), w)"
    using assms by (simp add: validateApiKey_def act_simps requestAuth_eq)
  with assms(4) show ?thesis by (simp add: apiKeyMiddleware_bearer act_simps)
qed

lemma login_effect:
  assumes inv: "service_inv M w" and u: "u \<noteq> []"
  shows "\<exists>x w' c. login M u code now w = (Inr (Success x), w') \<and> service_inv M w'
    \<and> clients M w' u = Some c \<and> c_clientStatus c = client_status ACTIVE \<and> c_wsDisconnect c = 0"
proof (cases "clients M w u")
  case (Some d)
  note t = db_inv_typed [OF service_inv_db [OF inv]]
  have run: "login M u code now w = (Inr (Success d), put_client M u
      [WsConnect now, WsDisconnect 0, Client_status (client_status ACTIVE)] d (watch M (CLIENT u) w))"
    using Some by (simp add: login_def act_simps getClient_eq [OF t] updateClient_eq [OF t])
  with login_keeps [OF inv u, of code now] show ?thesis by simp
next
  case None
  note t = db_inv_typed [OF service_inv_db [OF inv]]
  obtain c w1 where cr: "createClient M u (generateReferralCode code) now w = (Inr (Success c), w1)"
    by (simp add: createClient_eq Let_def)
  have fresh: "strs M w (CLIENT u) = None" using None db_typed_client_None [OF t] by blast
  note e = createClient_effect [OF service_inv_db [OF inv] fresh u cr]
  have "c_wsDisconnect c = 0" using cr by (auto simp: createClient_eq Let_def new_client_def)
  moreover have "login M u code now w = (Inr (Success c),
      put_client M u [Client_status (client_status ACTIVE)] c (watch M (CLIENT u) w1))"
    using None cr e by (simp add: login_def act_simps getClient_eq [OF t] updateClient_eq db_inv_typed)
  ultimately show ?thesis using login_keeps [OF inv u, of code now] by simp
qed

lemma createAPIKey_effect:
  "\<exists>w'. service_createAPIKey M maximum u rnds now w = (Inr (Success (generateAPIKey rnds)), w') \<and> same_db M w w'
     \<and> strs M w' (API_LOOKUP (generateAPIKey rnds)) = Some (VStr u)"
proof -
  obtain w' where run: "service_createAPIKey M maximum u rnds now w = (Inr (Success (generateAPIKey rnds)), w')"
    and key: "strs M w' (API_LOOKUP (generateAPIKey rnds)) = Some (VStr u)"
    by (simp add: service_createAPIKey_def createAPIKey_def Let_def act_simps strs_laws)
  have "keeps_db M (service_createAPIKey M maximum u rnds now)"
    unfolding service_createAPIKey_def by (intro keeps_rules)
  from keeps_dbD [OF this, of w] run have "same_db M w w'" by simp
  with run key show ?thesis by blast
qed

text \<open>Whoever names an account gets a key of it, and the account is active again.\<close>

lemma registration_hands_key:
  assumes A: "ap_redis A = M" and inv: "service_inv M w"
    and u: "given_text (ap_num A) body ''uuid'' = u" "u \<noteq> []" and k: "key \<noteq> []"
  shows "\<exists>w' c. post_registerClient A body code key now w
      = (Inr (api_success (generateAPIKey key) ''Client registered successfully''), w')
    \<and> clients M w' u = Some c \<and> c_clientStatus c = client_status ACTIVE \<and> c_wsDisconnect c = 0
    \<and> apiKeyMiddleware M (Some (bearer_header (generateAPIKey key))) w' = (Inr (Inr u), w')"
proof -
  have body: "body \<noteq> JNull" using u by (auto simp: given_text_def)
  obtain x w1 c where login: "login M u code now w = (Inr (Success x), w1)" "service_inv M w1"
    "clients M w1 u = Some c" "c_clientStatus c = client_status ACTIVE" "c_wsDisconnect c = 0"
    using login_effect [OF inv u(2)] by blast
  obtain w' where made: "service_createAPIKey M (ap_usageLimit A) u key now w1 = (Inr (Success (generateAPIKey key)), w')"
    and same: "same_db M w1 w'" and key: "strs M w' (API_LOOKUP (generateAPIKey key)) = Some (VStr u)"
    using createAPIKey_effect by blast
  note maps = same_db_maps [OF same]
  have run: "post_registerClient A body code key now w
      = (Inr (api_success (generateAPIKey key) ''Client registered successfully''), w')"
    using login(1) made u body
    by (simp add: post_registerClient_def answering_def act_simps not_null_def on_success_def A)
  have inv': "db_inv M w'" using service_inv_db [OF login(2)] maps by simp
  have "clients M w' u = Some c" using login(3) maps by simp
  with run login key_admits [OF inv' key u(2) key_not_blank(2) [OF k]] show ?thesis by blast
qed

section \<open>One's own jobs\<close>

lemma own_job:
  assumes "db_inv M w"
  shows "with_own_job M uid i next_step w = (case jobs M w i of
      None \<Rightarrow> (Inr (notFound ''Job not found''), w)
    | Some j \<Rightarrow> if j_clientUUID j \<noteq> uid then (Inr job_denied, w) else next_step j w)"
  by (simp add: with_own_job_def node_jobWithId_def getJobWithID_def act_simps getJob_eq [OF db_inv_typed [OF assms]]
    split: option.split)

lemma own_stored:
  assumes "db_inv M w"
  shows "with_own_stored M uid i next_step w = (case jobs M w i of
      None \<Rightarrow> (Inr (notFound ''Job not found''), w)
    | Some j \<Rightarrow> if j_clientUUID j \<noteq> uid then (Inr job_denied, w) else next_step (j_storedID j) w)"
  by (simp add: with_own_stored_def node_storedIdFromJobId_def getStoredIdFromJobId_def act_simps own_job [OF assms]
    getJob_eq [OF db_inv_typed [OF assms]] split: option.split)

lemma same_db_put: "foreign k \<Longrightarrow> same_db M w (put M k v w)"
  using keeps_dbD [OF keeps_db_writes(1)] by fastforce

text \<open>A key of an active user, and what it does with the routes on one job.\<close>

lemma keyed_route:
  assumes "db_inv M w" "holds_key M w k u"
  shows "with_api_key M (Some (bearer_header k)) next_step w = next_step u w"
proof -
  obtain c where "strs M w (API_LOOKUP k) = Some (VStr u)" "u \<noteq> []" "js_trim k \<noteq> []"
    "clients M w u = Some c" "c_clientStatus c = client_status ACTIVE"
    using assms(2) unfolding holds_key_def by blast
  then show ?thesis by (simp add: with_api_key_def admitted_def act_simps key_admits [OF assms(1)])
qed

lemma own_job_routes:
  assumes inv: "db_inv M w" and A: "ap_redis A = M" and k: "holds_key M w k u"
    and j: "jobs M w i = Some j" "i \<noteq> []"
  shows "text_field query ''id'' = Some i \<Longrightarrow> get_job A (Some (bearer_header k)) query w
      = (Inr (if j_clientUUID j = u then api_success j ''Job retrieved successfully'' else job_denied), w)"
    "text_field query ''jobID'' = Some i \<Longrightarrow> j_clientUUID j \<noteq> u \<Longrightarrow>
      get_fileContent A (Some (bearer_header k)) query now w = (Inr job_denied, w)"
    "j_clientUUID j \<noteq> u \<Longrightarrow> get_jobDownload A (Some (bearer_header k)) i now w = (Inr job_denied, w)"
  using j by (simp_all add: get_job_def get_fileContent_def get_jobDownload_def A keyed_route [OF inv k]
    own_job [OF inv] own_stored [OF inv] answering_def act_simps some_text_def truthy_def)

end

section \<open>A scrape, up to the promise\<close>

text \<open>A request that waits was queued for the client the job was given to, and a promise was made for it.\<close>

lemma waiting_start:
  assumes "startScrape A header body now rnd (w, q) = (Inr (Waiting p tk), (w', q'))"
  shows "\<exists>sq q1 n. queue_job (an_client_id (tk_assignment tk))
        (pending_of (tk_assignment tk) (tk_jobId tk) sq now) q = (Inr n, q1)
    \<and> wait_for (tk_jobId tk) (an_client_id (tk_assignment tk)) (tk_uid tk) (sq_timeoutMs sq) now q1 = (p, q')
    \<and> tk_request tk = sq"
  using assms
  by (auto simp: startScrape_def run_scrape_def queue_scrape_def act_simps thenA_def not_null_def
    split: prod.splits sum.splits if_splits option.splits EntityResult.splits)

text \<open>What is queued is delivered at once or stays in the queue.\<close>

lemma insert_by_priority_mem: "set (insert_by_priority job js) = insert job (set js)"
  unfolding insert_by_priority_def using set_append takeWhile_dropWhile_id [of _ js] by (metis Un_insert_right list.simps(15) set_append)

lemma modify_queue_events [simp]: "events (modify_queue a f s) = events s"
  by (simp add: modify_queue_def)

lemma processed_job:
  assumes "job \<in> set (pending s a)"
  shows "DeliverJob job \<in> set (events (processClientQueue cid s)) \<or> job \<in> set (pending (processClientQueue cid s) a)"
  using assms by (auto simp: processClientQueue_def loop_head_def pending_def modify_queue_def split: option.split list.split)

lemma processed_queues: "clientQueues (processClientQueue cid s) = clientQueues s"
  by (simp add: processClientQueue_def loop_head_def modify_queue_def split: option.split list.split)

lemma queued_job:
  assumes "queueJobForClient cid job s0 = (Inr n, s)"
  shows "DeliverJob job \<in> set (events s) \<or> (\<exists>a. map_get (clientQueues s) cid = Some a \<and> job \<in> set (pending s a))"
proof -
  let ?s = "ensure_queue cid s0"
  have "job \<in> set (pending (modify_queue (queue_at ?s cid) (cq_pendingJobs_update (insert_by_priority job)) ?s) (queue_at ?s cid))"
    by (simp add: insert_by_priority_mem)
  note this = processed_job [OF this, of cid]
  moreover have "map_get (clientQueues ?s) cid = Some (queue_at ?s cid)"
    by (auto simp: ensure_queue_def queue_at_def split: option.split)
  ultimately show ?thesis
    using assms by (auto simp: queueJobForClient_def Let_def processed_queues modify_queue_def split: if_splits)
qed

text \<open>A promise ends as the first event that names its job says.\<close>

lemma promise_resolved:
  assumes "waits_ok s" "waitForJobCompletion i cid u ms now s = (p, s')" "\<not> map_has (waitingJobs s) i"
  shows "(p, outcome.Resolved r) \<in> set (WaitState.settled (resolveJobCompletion None i r s'))"
    "(p, Rejected e) \<in> set (WaitState.settled (rejectJobCompletion i e s'))"
proof -
  have "p \<notin> fst ` set (WaitState.settled s)"
    using assms(1,2) by (auto simp: waits_ok_def promises_ok_def waitForJobCompletion_def Let_def)
  then show "(p, outcome.Resolved r) \<in> set (WaitState.settled (resolveJobCompletion None i r s'))"
    "(p, Rejected e) \<in> set (WaitState.settled (rejectJobCompletion i e s'))"
    using assms(2,3) by (auto simp: waitForJobCompletion_def Let_def resolveJobCompletion_def rejectJobCompletion_def
      settle_def clear_timeout_def decrement_count_def)
qed

section \<open>From the promise on\<close>

text \<open>Every outcome ends in an answer: a failure of a step is one of the promise.\<close>

lemma answer_status [simp]:
  "rp_status (api_error m n) = n" "rp_success (api_error m n) = False"
  "rp_status (api_error_with m n d) = n" "rp_success (api_error_with m n d) = False"
  "rp_data (api_error_with m n d) = Some d"
  "rp_status (api_success x m) = 200" "rp_success (api_success x m) = True" "rp_data (api_success x m) = Some x"
  by (simp_all add: answer_defs)

lemma total_fail_scrape: "total (fail_scrape A tk msg now)"
  unfolding fail_scrape_def by (rule total_catch_return)

text \<open>What is sent: the content with 200, or what went wrong with 422 or 408.\<close>

definition proper_reply :: "ScrapeTicket \<Rightarrow> scrape_reply response \<Rightarrow> bool" where
  "proper_reply tk r = (case rp_data r of
     Some (Complete d) \<Rightarrow> rp_status r = 200 \<and> rp_success r \<and> sd_jobId d = tk_jobId tk
   | Some (Empty d) \<Rightarrow> rp_status r = 422 \<and> \<not> rp_success r \<and> se_jobId d = tk_jobId tk
   | Some (Failed d) \<Rightarrow> rp_status r = 408 \<and> \<not> rp_success r \<and> sf_jobId d = tk_jobId tk
   | None \<Rightarrow> False)"

lemma proper_replies:
  "proper_reply tk (scrape_empty tk now e)" "proper_reply tk (scrape_complete A tk found pricing now)"
  "sf_jobId d = tk_jobId tk \<Longrightarrow> proper_reply tk (api_error_with m 408 (Failed d))"
  by (simp_all add: proper_reply_def scrape_empty_def scrape_complete_def)

lemma fail_wait_runs: "\<exists>r w'. fail_wait A tk e now w = (Inr r, w') \<and> proper_reply tk r \<and> \<not> rp_success r"
proof -
  obtain w' where "fail_scrape A tk e now w = (Inr (), w')"
    using total_fail_scrape unfolding total_def by (metis (full_types) old.unit.exhaust)
  then show ?thesis
    by (simp add: fail_wait_def Let_def thenA_apply returnA_apply proper_replies)
       (simp add: scrape_empty_def)
qed

lemma complete_scrape_reply: "complete_scrape A tk r now w = (Inr x, w') \<Longrightarrow> proper_reply tk x"
  by (auto simp: complete_scrape_def bindA_apply thenA_apply returnA_apply proper_replies
    split: prod.splits sum.splits if_splits)

end
