(* ===== verification/RouteProperties.thy ===== *)
theory RouteProperties
  imports RouteFacts
begin

text \<open>
  The properties of the HTTP routes: who gets a key, whose jobs a key opens, what a
  scrape waits for and is answered with, and what its delivery may do.
\<close>

section \<open>A server to ask\<close>

definition no_cache :: "'w details_cache" where
  "no_cache = \<lparr>dc_get = (\<lambda>_. []), dc_put = (\<lambda>_ w. w)\<rparr>"

definition demo_api :: "box vaulted api" where
  "demo_api = \<lparr>ap_redis = vault_redis, ap_disk = vault_disk, ap_files = plain_files, ap_cache = no_cache,
     ap_parse = demo_parse, ap_num = (\<lambda>_. ''0.5''), ap_usageLimit = 100\<rparr>"

lemma demo_api_simps [simp]:
  "ap_redis demo_api = vault_redis" "ap_num demo_api r = ''0.5''" "ap_parse demo_api = demo_parse"
  by (simp_all add: demo_api_def)

lemma demo_api_up: "redis_up (ap_redis demo_api)" "service_inv (ap_redis demo_api) demo_box"
  using vault_up(1) demo_box_maps(4) by simp_all

text \<open>The store of \<open>demo_box\<close> with a key of its client.\<close>

definition keyed_box :: "APIKeyData \<Rightarrow> box vaulted" where
  "keyed_box d = put vault_redis (API_KEY ''u1'') (VAPIKey d) (put vault_redis (API_LOOKUP ''K'') (VStr ''u1'') demo_box)"

lemma keyed_box_facts:
  "db_inv vault_redis (keyed_box d)" "jobs vault_redis (keyed_box d) = [''job_1'' \<mapsto> demo_job]"
  "holds_key vault_redis (keyed_box d) ''K'' ''u1''"
  "strs vault_redis (keyed_box d) (API_KEY ''u1'') = Some (VAPIKey d)"
proof -
  have same: "same_db vault_redis demo_box (keyed_box d)"
    unfolding keyed_box_def
    by (rule same_db_trans [OF redis_up.same_db_put [OF vault_up(1)] redis_up.same_db_put [OF vault_up(1)]]) simp_all
  note maps = same_db_maps [OF same]
  show "db_inv vault_redis (keyed_box d)" "jobs vault_redis (keyed_box d) = [''job_1'' \<mapsto> demo_job]"
    using maps demo_box_maps by simp_all
  have strs: "strs vault_redis (put vault_redis k v w) = (strs vault_redis w)(k \<mapsto> v)" for k v w
    by (rule redis_server.strs_put [OF redis_up.axioms(1) [OF vault_up(1)]])
  show "strs vault_redis (keyed_box d) (API_KEY ''u1'') = Some (VAPIKey d)"
    unfolding keyed_box_def strs by simp
  have "API_LOOKUP ''K'' \<noteq> API_KEY ''u1''" by (simp add: key_simps)
  then have "strs vault_redis (keyed_box d) (API_LOOKUP ''K'') = Some (VStr ''u1'')"
    unfolding keyed_box_def strs by simp
  moreover have "clients vault_redis (keyed_box d) ''u1'' = Some demo_client"
    using maps(1) demo_box_maps(1) by simp
  moreover have "js_trim ''K'' \<noteq> []" by (simp add: js_trim_def js_space_def)
  ultimately show "holds_key vault_redis (keyed_box d) ''K'' ''u1''" by (simp add: holds_key_def)
qed

definition demo_usage :: APIKeyData where
  "demo_usage = \<lparr>k_apiKey = ''K'', k_usageCount = 1, k_usageLimit = 100, k_usageLog = [5]\<rparr>"

section \<open>Keys\<close>

text \<open>C30: Registering hands an account to whoever names it. The request carries no proof of who sends it: for any user,
  with a record or without, with a status of any kind, the answer is a key, the account is active and counts as
  connected again, and the key opens every route behind a key as that user.\<close>

theorem registration_takes_account:
  assumes "redis_up (ap_redis A)" and "service_inv (ap_redis A) w"
    and "given_text (ap_num A) body ''uuid'' = u" and "u \<noteq> []" and "key \<noteq> []"
  shows "\<exists>w' c. post_registerClient A body code key now w
      = (Inr (api_success (generateAPIKey key) ''Client registered successfully''), w')
    \<and> clients (ap_redis A) w' u = Some c \<and> c_clientStatus c = client_status ACTIVE \<and> c_wsDisconnect c = 0
    \<and> apiKeyMiddleware (ap_redis A) (Some (''Bearer '' @ generateAPIKey key)) w' = (Inr (Inr u), w')"
  using redis_up.registration_hands_key [OF assms(1) refl assms(2-5)] unfolding bearer_header_def by blast

theorem registration_takes_account_witness:
  "\<exists>w' c. post_registerClient demo_api (JObj [(''uuid'', JStr ''u1'')]) [] [1] 5 demo_box
      = (Inr (api_success (generateAPIKey [1]) ''Client registered successfully''), w')
    \<and> clients vault_redis w' ''u1'' = Some c \<and> c_clientStatus c = client_status ACTIVE \<and> c_wsDisconnect c = 0
    \<and> apiKeyMiddleware vault_redis (Some (''Bearer '' @ generateAPIKey [1])) w' = (Inr (Inr ''u1''), w')"
proof -
  have "given_text (ap_num demo_api) (JObj [(''uuid'', JStr ''u1'')]) ''uuid'' = ''u1''"
    by (simp add: given_text_def json_truthy_def)
  from registration_takes_account [OF demo_api_up this list.distinct(2) list.distinct(2)]
  show ?thesis unfolding demo_api_simps .
qed



section \<open>Usage\<close>

text \<open>The report of a key's usage in a range of dates is empty, whatever was used. The route turns the microseconds of
  the range into seconds, and the log of a key is kept in milliseconds: every use of our time lies after any range that
  ends before the year 33658.\<close>

theorem usage_never_reported:
  assumes "redis_up (ap_redis A)" and "db_inv (ap_redis A) w" and "holds_key (ap_redis A) w k u"
    and "strs (ap_redis A) w (API_KEY u) = Some (VAPIKey d)" and "\<forall>t \<in> set (k_usageLog d). 10 ^ 12 \<le> t"
    and "json_truthy (json_member query ''fromDate'')" and "json_truthy (json_member query ''toDate'')"
    and "query_int (ap_num A) query ''fromDate'' [] = Some f" and "query_int (ap_num A) query ''toDate'' [] = Some t"
    and "t < 10 ^ 18"
  shows "get_usageInDateRange A (Some (bearer_header k)) query w
    = (Inr (api_success (Usage u (f div 1000000) (t div 1000000) []) ''Usage data retrieved successfully''), w)"
proof -
  have "t div 1000000 < 10 ^ 12" using assms(10) by simp
  then have none: "filter (\<lambda>x. f div 1000000 \<le> x \<and> x \<le> t div 1000000) (k_usageLog d) = []"
    using assms(5) by (auto simp: filter_empty_conv)
  have "getAPIKey (ap_redis A) u w = (Inr (Success d), w)"
    using assms(4) by (simp add: getAPIKey_def act_simps redis_up.GET_up [OF assms(1)])
  then have "getUsageInDateRange (ap_redis A) u (f div 1000000) (t div 1000000) w
      = (Inr (Usage u (f div 1000000) (t div 1000000) []), w)"
    by (simp add: getUsageInDateRange_def act_simps none)
  with assms(6-9) show ?thesis
    unfolding get_usageInDateRange_def redis_up.keyed_route [OF assms(1-3)] answering_def catchA_apply
    by (simp only: simp_thms if_False option.case prod.case bindA_apply returnA_apply sum.case)
qed

theorem usage_never_reported_witness:
  "get_usageInDateRange demo_api (Some (bearer_header ''K''))
      (JObj [(''fromDate'', JStr (show_int 0)), (''toDate'', JStr (show_int 1800000000000000))])
      (keyed_box \<lparr>k_apiKey = ''K'', k_usageCount = 1, k_usageLimit = 100, k_usageLog = [1700000000000]\<rparr>)
    = (Inr (api_success (Usage ''u1'' 0 1800000000 []) ''Usage data retrieved successfully''),
       keyed_box \<lparr>k_apiKey = ''K'', k_usageCount = 1, k_usageLimit = 100, k_usageLog = [1700000000000]\<rparr>)"
proof -
  let ?d = "\<lparr>k_apiKey = ''K'', k_usageCount = 1, k_usageLimit = 100, k_usageLog = [1700000000000]\<rparr>"
  let ?q = "JObj [(''fromDate'', JStr (show_int 0)), (''toDate'', JStr (show_int 1800000000000000))]"
  have query: "query_int num ?q ''fromDate'' [] = Some 0" "query_int num ?q ''toDate'' [] = Some 1800000000000000"
    for num by (simp_all add: query_int_def parseInt_show)
  show ?thesis
    using usage_never_reported [of demo_api "keyed_box ?d" "''K''" "''u1''" ?d ?q 0 1800000000000000]
      keyed_box_facts [of ?d] vault_up(1) query
    by (simp add: json_truthy_def show_int_text)
qed

section \<open>Scrapes\<close>

text \<open>C32: A scrape that waits will be answered. The job was handed to the listener of deliveries or stands in the queue of
  the client it was given to, a timeout of the requested length is armed for the promise of the request, and the first
  event about the job settles this promise: with the result that arrived, or with the error.\<close>

theorem scrape_waits:
  assumes "waits_ok (jm_waits q)" and "startScrape A header body now rnd (w, q) = (Inr (Waiting p tk), (w', q'))"
    and "\<not> map_has (waitingJobs (jm_waits q)) (tk_jobId tk)"
  shows "(\<exists>job. pj_jobId job = tk_jobId tk \<and> (DeliverJob job \<in> set (events (jm_queues q'))
      \<or> (\<exists>a. map_get (clientQueues (jm_queues q')) (an_client_id (tk_assignment tk)) = Some a
           \<and> job \<in> set (pending (jm_queues q') a))))
    \<and> (\<exists>t \<in> set (timeouts (jm_waits q')). to_promise t = p \<and> to_ms t = sq_timeoutMs (tk_request tk))
    \<and> (p, outcome.Resolved r) \<in> set (WaitState.settled (jm_waits (on_jobCompleted (JobSucceeded (tk_jobId tk) r) q')))
    \<and> (p, Rejected e) \<in> set (WaitState.settled (jm_waits (on_jobCompleted (JobErred (tk_jobId tk) e) q')))"
proof -
  obtain sq q1 n where queued: "queue_job (an_client_id (tk_assignment tk))
        (pending_of (tk_assignment tk) (tk_jobId tk) sq now) q = (Inr n, q1)"
    and waited: "wait_for (tk_jobId tk) (an_client_id (tk_assignment tk)) (tk_uid tk) (sq_timeoutMs sq) now q1 = (p, q')"
    and sq: "tk_request tk = sq"
    using waiting_start [OF assms(2)] by blast
  obtain s where s: "queueJobForClient (an_client_id (tk_assignment tk))
      (pending_of (tk_assignment tk) (tk_jobId tk) sq now) (jm_queues q) = (Inr n, s)" "q1 = q\<lparr>jm_queues := s\<rparr>"
    using queued by (auto simp: queue_job_def split: prod.splits)
  obtain ws where ws: "waitForJobCompletion (tk_jobId tk) (an_client_id (tk_assignment tk)) (tk_uid tk) (sq_timeoutMs sq)
      now (jm_waits q) = (p, ws)" "q' = q1\<lparr>jm_waits := ws\<rparr>"
    using waited s(2) by (auto simp: wait_for_def split: prod.splits)
  have "\<exists>t \<in> set (timeouts ws). to_promise t = p \<and> to_ms t = sq_timeoutMs sq"
    using ws(1) assms(3) by (auto simp: waitForJobCompletion_def Let_def)
  moreover note queued_job [OF s(1)] promise_resolved [OF assms(1) ws(1) assms(3)]
  moreover have "pj_jobId (pending_of (tk_assignment tk) (tk_jobId tk) sq now) = tk_jobId tk" by (simp add: pending_of_def)
  ultimately show ?thesis using s(2) ws(2) sq by (auto simp: on_jobCompleted_def)
qed

definition demo_manager :: "JobOutcome JobQueueManager" where
  "demo_manager = \<lparr>jm_queues = no_queues, jm_waits = no_waits\<rparr>"

definition demo_scrape :: json where
  "demo_scrape = JObj [(''url'', JStr ''t''), (''scrapeType'', JStr ''HTML''), (''principalId'', JStr ''u1'')]"

lemma demo_scrape_waits:
  "case startScrape demo_api (Some (bearer_header ''K'')) demo_scrape 5 7 (keyed_box demo_usage, demo_manager) of
     (Inr (Waiting p tk), _) \<Rightarrow> p = 0 \<and> an_client_id (tk_assignment tk) = ''c1'' | _ \<Rightarrow> False"
  by code_simp

theorem scrape_waits_witness:
  "\<exists>p tk w' q'. startScrape demo_api (Some (bearer_header ''K'')) demo_scrape 5 7 (keyed_box demo_usage, demo_manager)
      = (Inr (Waiting p tk), (w', q'))
    \<and> (p, Rejected ''gone'') \<in> set (WaitState.settled (jm_waits (on_jobCompleted (JobErred (tk_jobId tk) ''gone'') q')))"
proof -
  obtain p tk w' q' where run: "startScrape demo_api (Some (bearer_header ''K'')) demo_scrape 5 7
      (keyed_box demo_usage, demo_manager) = (Inr (Waiting p tk), (w', q'))"
    using demo_scrape_waits by (auto split: prod.splits sum.splits scrape_start.splits)
  have start: "waits_ok (jm_waits demo_manager)" "\<not> map_has (waitingJobs (jm_waits demo_manager)) (tk_jobId tk)"
    using waits_ok_init by (simp_all add: demo_manager_def) (simp add: no_waits_def)
  from scrape_waits [OF start(1) run start(2), of undefined "''gone''"] run show ?thesis by blast
qed

text \<open>C33: Whatever the wait ends in, and whichever of the steps after it fail, the scrape is answered, and about its own
  job: with the content and 200, with 422 for an empty result, or with 408; a rejected promise is never answered with
  success.\<close>

theorem scrape_answered:
  "\<exists>r w'. finishScrape A tk waited now w = (Inr r, w')
    \<and> (case rp_data r of
         Some (Complete d) \<Rightarrow> rp_status r = 200 \<and> rp_success r \<and> sd_jobId d = tk_jobId tk
       | Some (Empty d) \<Rightarrow> rp_status r = 422 \<and> \<not> rp_success r \<and> se_jobId d = tk_jobId tk
       | Some (Failed d) \<Rightarrow> rp_status r = 408 \<and> \<not> rp_success r \<and> sf_jobId d = tk_jobId tk
       | None \<Rightarrow> False)
    \<and> (case waited of outcome.Resolved _ \<Rightarrow> True | Rejected _ \<Rightarrow> \<not> rp_success r)"
  unfolding proper_reply_def [symmetric]
proof (cases waited)
  case (Resolved d)
  obtain x w1 where run: "complete_scrape A tk d now w = (x, w1)" by fastforce
  show "\<exists>r w'. finishScrape A tk waited now w = (Inr r, w') \<and> proper_reply tk r
      \<and> (case waited of outcome.Resolved _ \<Rightarrow> True | Rejected _ \<Rightarrow> \<not> rp_success r)"
  proof (cases x)
    case (Inl e)
    then show ?thesis using Resolved run fail_wait_runs [of A tk e now w1]
      by (auto simp: finishScrape_def answering_def catchA_apply)
  next
    case (Inr r)
    then show ?thesis using Resolved run complete_scrape_reply [of A tk d now w r w1]
      by (simp add: finishScrape_def answering_def catchA_apply)
  qed
next
  case (Rejected e)
  then show "\<exists>r w'. finishScrape A tk waited now w = (Inr r, w') \<and> proper_reply tk r
      \<and> (case waited of outcome.Resolved _ \<Rightarrow> True | Rejected _ \<Rightarrow> \<not> rp_success r)"
    using fail_wait_runs [of A tk e now w] by (auto simp: finishScrape_def answering_def catchA_apply)
qed






section \<open>Every route\<close>










end
