(* ===== verification/BalanceFix.thy ===== *)
theory BalanceFix
  imports Accounts ServiceReports Blockchain DatabaseProperties
begin

text \<open>
  \<open>RaceConditionFixScript\<close> of \<open>scripts/fix_race_condition_victims.ts\<close>: every client's
  balance is compared with what the ledger or the history of rewards says, and with
  \<open>--apply\<close> the client gets what is missing. What is printed is left out, and of the
  report that is written the times. The second half shows what a run does to the balances,
  for a server that answers and with the ledger out of use.
\<close>

section \<open>What a user should have\<close>

record BalanceCalculation =
  bc_total_balance :: rat
  bc_job_rewards :: rat
  bc_uptime_rewards :: rat
  bc_referral_rewards :: rat

definition add_transaction :: "'w redis \<Rightarrow> string \<Rightarrow> rat \<Rightarrow> string \<Rightarrow> ('w, rat) act" where
  "add_transaction M uid acc txKey = bindA (read_as M as_tx txKey) (\<lambda>txData. returnA (case txData of
     None \<Rightarrow> acc
   | Some transaction \<Rightarrow>
       if tx_user_principal_id transaction = uid \<and> tx_status transaction = TX_CONFIRMED
       then acc + tx_amount transaction else acc))"

definition add_referral :: "'w redis \<Rightarrow> rat \<Rightarrow> string \<Rightarrow> ('w, rat) act" where
  "add_referral M acc rewardId = bindA (read_as M as_reward (REFERRAL_REWARD rewardId)) (\<lambda>rewardData.
     returnA (case rewardData of
       None \<Rightarrow> acc
     | Some reward \<Rightarrow> if rw_status reward = RW_DISTRIBUTED then acc + rw_reward_amount reward else acc))"

definition calculateExpectedBalance :: "'w redis \<Rightarrow> string \<Rightarrow> ('w, BalanceCalculation) act" where
  "calculateExpectedBalance M uid =
     bindA (getJobsByUser M uid) (\<lambda>jobsResult.
       let jobRewards = (case jobsResult of
           Failure _ _ \<Rightarrow> 0 | Success js \<Rightarrow> sum_list (map j_reward (completed_jobs js))) in
     bindA (KEYS M UPTIME_TRANSACTION_PREFIX) (\<lambda>transactionKeys.
     bindA (foldA (add_transaction M uid) 0 transactionKeys) (\<lambda>uptimeRewards.
     bindA (SMEMBERS M (REWARDS_BY_USER uid)) (\<lambda>referralRewardKeys.
     bindA (foldA (add_referral M) 0 referralRewardKeys) (\<lambda>referralRewards.
     returnA \<lparr>bc_total_balance = jobRewards + uptimeRewards + referralRewards, bc_job_rewards = jobRewards,
       bc_uptime_rewards = uptimeRewards, bc_referral_rewards = referralRewards\<rparr>)))))"

section \<open>The check of a user\<close>

datatype TruthSource = by_blockchain | by_calculation

record UserDiscrepancy =
  di_user_principal_id :: string
  di_stored_balance :: rat
  di_stored_todaysEarnings :: rat
  di_blockchain_balance :: rat
  di_calculated_balance :: rat
  di_calculated_todaysEarnings :: rat
  di_missing_balance :: rat
  di_missing_todaysEarnings :: rat
  di_job_rewards :: rat
  di_uptime_rewards :: rat
  di_referral_rewards :: rat
  di_source_of_truth :: TruthSource

text \<open>\<open>icrc1_decimals\<close> is a call of the ledger; a failed one is answered with 8.\<close>

definition getSelaPointsDecimals :: "('w, nat) act \<Rightarrow> ('w, nat) act" where
  "getSelaPointsDecimals icrc1_decimals = catchA icrc1_decimals (\<lambda>_. returnA 8)"

text \<open>The balance on the ledger in points, when the ledger is in use.\<close>

definition ledger_points :: "('w ledger \<times> nat) option \<Rightarrow> string \<Rightarrow> ('w, rat option) act" where
  "ledger_points chain uid = (case chain of
     None \<Rightarrow> returnA None
   | Some (L, tokenDecimals) \<Rightarrow> catchA
       (bindA (getSelaPointsBalance L uid) (\<lambda>balance. returnA (Some (of_nat balance / 10 ^ tokenDecimals))))
       (\<lambda>_. returnA None))"

definition discrepancy ::
  "ClientStruct \<Rightarrow> string \<Rightarrow> BalanceCalculation \<Rightarrow> rat option \<Rightarrow> UserDiscrepancy option" where
  "discrepancy client uid calc onchain =
     (let expectedBalance = (case onchain of Some b \<Rightarrow> b | None \<Rightarrow> bc_total_balance calc);
          missingBalance = expectedBalance - c_balance client
      in if \<bar>missingBalance\<bar> < 1 / 100 then None
         else Some \<lparr>di_user_principal_id = uid, di_stored_balance = c_balance client,
           di_stored_todaysEarnings = c_todaysEarnings client,
           di_blockchain_balance = (case onchain of Some b \<Rightarrow> b | None \<Rightarrow> 0),
           di_calculated_balance = bc_total_balance calc, di_calculated_todaysEarnings = 0,
           di_missing_balance = missingBalance, di_missing_todaysEarnings = 0,
           di_job_rewards = bc_job_rewards calc, di_uptime_rewards = bc_uptime_rewards calc,
           di_referral_rewards = bc_referral_rewards calc,
           di_source_of_truth = (if onchain = None then by_calculation else by_blockchain)\<rparr>)"

definition checkUserDiscrepancy ::
  "'w redis \<Rightarrow> ('w ledger \<times> nat) option \<Rightarrow> string \<Rightarrow> ('w, UserDiscrepancy option) act" where
  "checkUserDiscrepancy M chain uid = catchA
     (bindA (getClient M uid) (\<lambda>clientResult. case clientResult of
        Failure _ _ \<Rightarrow> returnA None
      | Success client \<Rightarrow>
          bindA (calculateExpectedBalance M uid) (\<lambda>rewardCalculation.
          bindA (ledger_points chain uid) (\<lambda>onchain.
          returnA (discrepancy client uid rewardCalculation onchain)))))
     (\<lambda>_. returnA None)"

definition compensateUser :: "'w redis \<Rightarrow> UserDiscrepancy \<Rightarrow> ('w, unit) act" where
  "compensateUser M d = catchA
     (bindA (getClient M (di_user_principal_id d)) (\<lambda>clientResult. case clientResult of
        Failure _ _ \<Rightarrow> returnA ()
      | Success client \<Rightarrow>
          bindA (updateClient M (di_user_principal_id d) [Balance (c_balance client + di_missing_balance d)])
            (\<lambda>_. returnA ())))
     (\<lambda>_. returnA ())"

section \<open>The run\<close>

record FixReport =
  fx_dryRun :: bool
  fx_total_clients_checked :: int
  fx_affected_users :: int
  fx_total_missing_points :: rat
  fx_total_compensated :: rat
  fx_discrepancies :: "UserDiscrepancy list"

definition check_one ::
  "'w redis \<Rightarrow> ('w ledger \<times> nat) option \<Rightarrow> bool \<Rightarrow> UserDiscrepancy list \<Rightarrow> ClientStruct \<Rightarrow>
   ('w, UserDiscrepancy list) act" where
  "check_one M chain dryRun discrepancies client =
     bindA (checkUserDiscrepancy M chain (c_user_principal_id client)) (\<lambda>found. case found of
       None \<Rightarrow> returnA discrepancies
     | Some d \<Rightarrow> if di_missing_balance d > 1 / 100
         then thenA (if dryRun then returnA () else compensateUser M d) (returnA (discrepancies @ [d]))
         else returnA discrepancies)"

definition fix_report :: "bool \<Rightarrow> ClientStruct list \<Rightarrow> UserDiscrepancy list \<Rightarrow> FixReport" where
  "fix_report dryRun cs ds = (let missing_points = sum_list (map di_missing_balance ds) in
     \<lparr>fx_dryRun = dryRun, fx_total_clients_checked = int (length cs), fx_affected_users = int (length ds),
      fx_total_missing_points = missing_points, fx_total_compensated = (if dryRun then 0 else missing_points),
      fx_discrepancies = sort_desc di_missing_balance ds\<rparr>)"

definition balance_fix ::
  "'w redis \<Rightarrow> ('w ledger \<times> nat) option \<Rightarrow> bool \<Rightarrow> ('w, FixReport) act" where
  "balance_fix M chain dryRun = bindA (getAllClients M) (\<lambda>clientsResult. case clientsResult of
     Failure _ m \<Rightarrow> throwA (''Failed to get clients: '' @ m)
   | Success cs \<Rightarrow> bindA (foldA (check_one M chain dryRun) [] cs) (\<lambda>ds. returnA (fix_report dryRun cs ds)))"

text \<open>\<open>run\<close>: the ledger is in use when the service is enabled and has a controller.\<close>

definition run_balance_fix ::
  "'w redis \<Rightarrow> BlockchainService \<Rightarrow> 'w ledger \<Rightarrow> ('w, nat) act \<Rightarrow> bool \<Rightarrow> ('w, FixReport) act" where
  "run_balance_fix M svc L icrc1_decimals dryRun =
     (if bs_isEnabled svc \<and> bs_controller svc \<noteq> None
      then bindA (getSelaPointsDecimals icrc1_decimals) (\<lambda>tokenDecimals. balance_fix M (Some (L, tokenDecimals)) dryRun)
      else balance_fix M None dryRun)"

section \<open>The balance a user should have\<close>

definition job_part :: "JobStruct option \<Rightarrow> rat" where
  "job_part j = (case j of Some x \<Rightarrow> if j_state x = job_state COMPLETED then j_reward x else 0 | None \<Rightarrow> 0)"

definition tx_part :: "string \<Rightarrow> rvalue option \<Rightarrow> rat" where
  "tx_part u v = (case v of
       Some (VTx t) \<Rightarrow> if tx_user_principal_id t = u \<and> tx_status t = TX_CONFIRMED then tx_amount t else 0
     | _ \<Rightarrow> 0)"

definition referral_part :: "rvalue option \<Rightarrow> rat" where
  "referral_part v = (case v of
       Some (VReward x) \<Rightarrow> if rw_status x = RW_DISTRIBUTED then rw_reward_amount x else 0
     | _ \<Rightarrow> 0)"

text \<open>The completed jobs in the user's index, the confirmed transactions and the referral rewards.\<close>

definition earned :: "'w redis \<Rightarrow> 'w \<Rightarrow> string \<Rightarrow> rat" where
  "earned M w u =
     (\<Sum>i\<in>set (mems M w (JOBS_BY_USER u)). job_part (jobs M w i))
     + (\<Sum>k\<in>{k \<in> set (allkeys M w). prefix UPTIME_TRANSACTION_PREFIX k}. tx_part u (strs M w k))
     + (\<Sum>r\<in>set (mems M w (REWARDS_BY_USER u)). referral_part (strs M w (REFERRAL_REWARD r)))"

definition topped_up :: "rat \<Rightarrow> ClientStruct \<Rightarrow> ClientStruct" where
  "topped_up e c = (if 1 / 100 < e - c_balance c then c\<lparr>c_balance := e\<rparr> else c)"





lemma topped_up_id [simp]: "c_user_principal_id (topped_up e c) = c_user_principal_id c"
  by (simp add: topped_up_def)

lemma topped_up_twice [simp]: "topped_up e (topped_up e c) = topped_up e c"
  by (simp add: topped_up_def)



section \<open>One client\<close>

text \<open>Worlds that differ in clients only.\<close>

definition same_earnings :: "'w redis \<Rightarrow> 'w \<Rightarrow> 'w \<Rightarrow> bool" where
  "same_earnings M w w' \<longleftrightarrow>
     (\<forall>k. (\<forall>u. k \<noteq> CLIENT u) \<longrightarrow> strs M w' k = strs M w k) \<and>
     (\<forall>k. (\<forall>u. k \<noteq> CLIENT u) \<longrightarrow> (\<forall>s. k \<noteq> CLIENTS_BY_STATUS s) \<longrightarrow> mems M w' k = mems M w k)"

lemma same_earnings_refl [simp]: "same_earnings M w w"
  by (simp add: same_earnings_def)






text \<open>A client whose balance falls short, and the world after she got what is missing.\<close>

definition found :: "'w redis \<Rightarrow> 'w \<Rightarrow> ClientStruct \<Rightarrow> UserDiscrepancy \<Rightarrow> bool" where
  "found M w c d \<longleftrightarrow> di_user_principal_id d = c_user_principal_id c \<and> di_stored_balance d = c_balance c
     \<and> di_missing_balance d = earned M w (c_user_principal_id c) - c_balance c"






section \<open>A run\<close>










end
