(* ===== verification/ReferralMigration.thy ===== *)
theory ReferralMigration
  imports RpcRoutes
begin

text \<open>
  \<open>ReferralCodeMigration\<close> of \<open>scripts/migrate_referral_codes.ts\<close>: the audit of the
  lookup keys of referral codes, the indexing of the codes that have none, new codes for
  clients that share one, the backup, and the run that puts them together. What is
  printed is left out; random numbers are an argument, eight for a code.
\<close>

section \<open>Audit\<close>

text \<open>The user behind a code; an empty text counts as no entry.\<close>

definition code_entry :: "'w redis \<Rightarrow> string \<Rightarrow> ('w, string option) act" where
  "code_entry M code = read_as M as_str (CODE_LOOKUP code)"

record MissingEntry =
  me_user_principal_id :: string
  me_referral_code :: string

record AuditState =
  as_indexedCodes :: int
  as_missingEntries :: "MissingEntry list"
  as_codeUsage :: "(string, string list) jsmap"

record CodeAudit =
  au_totalClients :: int
  au_indexedCodes :: int
  au_missingCodes :: int
  au_duplicateCodes :: "string list"
  au_missingEntries :: "MissingEntry list"

definition blank :: "string \<Rightarrow> bool" where
  "blank s \<longleftrightarrow> js_trim s = []"

definition use_code :: "string \<Rightarrow> string list \<Rightarrow> (string, string list) jsmap \<Rightarrow> (string, string list) jsmap" where
  "use_code code users m = map_set code ((case map_get m code of None \<Rightarrow> [] | Some us \<Rightarrow> us) @ users) m"

definition audit_client :: "'w redis \<Rightarrow> AuditState \<Rightarrow> ClientStruct \<Rightarrow> ('w, AuditState) act" where
  "audit_client M s client = (let code = c_referralCode client; uid = c_user_principal_id client in
     if code = [] \<or> blank code then returnA s
     else bindA (code_entry M code) (\<lambda>existingEntry. returnA (case existingEntry of
         None \<Rightarrow> s\<lparr>as_missingEntries := as_missingEntries s @
           [\<lparr>me_user_principal_id = uid, me_referral_code = code\<rparr>]\<rparr>
       | Some user \<Rightarrow> s\<lparr>as_indexedCodes := as_indexedCodes s + 1,
           as_codeUsage := (if user \<noteq> uid then use_code code [user, uid] (as_codeUsage s) else as_codeUsage s)\<rparr>)))"

text \<open>An object lists the keys that are array indices first.\<close>

definition duplicate_codes :: "(string, string list) jsmap \<Rightarrow> string list" where
  "duplicate_codes m = (let codes = map fst (filter (\<lambda>(code, users). 1 < length users) m) in
     sort_asc digits_value (filter index_key codes) @ filter (\<lambda>c. \<not> index_key c) codes)"

definition auditReferralCodeIndex :: "'w redis \<Rightarrow> ('w, CodeAudit) act" where
  "auditReferralCodeIndex M = bindA (getAllClients M) (\<lambda>allClients. case allClients of
     Failure _ _ \<Rightarrow> throwA ''Failed to get all clients for audit''
   | Success cs \<Rightarrow>
       bindA (foldA (audit_client M) \<lparr>as_indexedCodes = 0, as_missingEntries = [], as_codeUsage = []\<rparr> cs) (\<lambda>s.
       returnA \<lparr>au_totalClients = int (length cs), au_indexedCodes = as_indexedCodes s,
         au_missingCodes = int (length (as_missingEntries s)),
         au_duplicateCodes = duplicate_codes (as_codeUsage s), au_missingEntries = as_missingEntries s\<rparr>))"

section \<open>Indexing\<close>

record IndexResult =
  ix_indexed :: int
  ix_skipped :: int
  ix_errors :: "string list"
  ix_duplicates :: "string list"

definition index_entry :: "'w redis \<Rightarrow> IndexResult \<Rightarrow> MissingEntry \<Rightarrow> ('w, IndexResult) act" where
  "index_entry M r entry = (let code = me_referral_code entry; uid = me_user_principal_id entry;
       skip = r\<lparr>ix_skipped := ix_skipped r + 1\<rparr> in catchA
     (if code \<in> set (ix_duplicates r) then returnA skip
      else bindA (code_entry M code) (\<lambda>existing.
        if existing \<noteq> None then returnA skip
        else thenA (SET M (CODE_LOOKUP code) (VStr uid)) (returnA (r\<lparr>ix_indexed := ix_indexed r + 1\<rparr>))))
     (\<lambda>e. returnA (r\<lparr>ix_errors := ix_errors r @
        [''Failed to index '' @ code @ '' for user '' @ uid @ '': Error: '' @ e]\<rparr>)))"

definition indexMissingReferralCodes :: "'w redis \<Rightarrow> ('w, IndexResult) act" where
  "indexMissingReferralCodes M = bindA (auditReferralCodeIndex M) (\<lambda>audit.
     foldA (index_entry M) \<lparr>ix_indexed = 0, ix_skipped = 0, ix_errors = [], ix_duplicates = au_duplicateCodes audit\<rparr>
       (au_missingEntries audit))"

record MigrationCheck =
  mc_totalClients :: int
  mc_indexedCodes :: int
  mc_missingCodes :: int
  mc_issues :: "string list"

definition verifyMigration :: "'w redis \<Rightarrow> ('w, MigrationCheck) act" where
  "verifyMigration M = bindA (auditReferralCodeIndex M) (\<lambda>audit. returnA
     \<lparr>mc_totalClients = au_totalClients audit, mc_indexedCodes = au_indexedCodes audit,
      mc_missingCodes = au_missingCodes audit,
      mc_issues = (if 0 < au_missingCodes audit
          then [show_int (au_missingCodes audit) @ '' referral codes are still not indexed''] else [])
        @ (if au_duplicateCodes audit \<noteq> []
          then [show_int (int (length (au_duplicateCodes audit))) @ '' duplicate referral codes found: ''
                @ join_with '', '' (au_duplicateCodes audit)] else [])\<rparr>)"

section \<open>Codes that several clients share\<close>

text \<open>At most as many attempts as there are draws; the code makes 100.\<close>

fun unique_code :: "'w redis \<Rightarrow> nat list list \<Rightarrow> ('w, string) act" where
  "unique_code M [] = throwA ''Failed to generate unique referral code after 100 attempts''"
| "unique_code M (draw # draws) = (let code = generateReferralCode draw in
     bindA (code_entry M code) (\<lambda>taken.
     if taken = None then returnA code else unique_code M draws))"

definition generateUniqueReferralCode :: "'w redis \<Rightarrow> (nat \<Rightarrow> nat list) \<Rightarrow> ('w, string) act" where
  "generateUniqueReferralCode M draw = unique_code M (map draw [0..<100])"

definition give_new_code :: "'w redis \<Rightarrow> (nat \<Rightarrow> nat list) \<Rightarrow> string \<Rightarrow> ClientStruct \<Rightarrow> ('w, unit) act" where
  "give_new_code M draw duplicateCode client = (let uid = c_user_principal_id client in
     bindA (generateUniqueReferralCode M draw) (\<lambda>newCode.
     thenA (updateClient M uid [ReferralCode newCode])
    (thenA (SET M (CODE_LOOKUP newCode) (VStr uid))
    (bindA (GET M (CODE_LOOKUP duplicateCode)) (\<lambda>oldEntry.
     if oldEntry = Some (VStr uid) then DEL M (CODE_LOOKUP duplicateCode) else returnA ())))))"

text \<open>
  The clients after the first, until one of them fails: how many were given a code,
  and the error that ends the loop.
\<close>

definition fix_client ::
  "'w redis \<Rightarrow> (nat \<Rightarrow> nat \<Rightarrow> nat list) \<Rightarrow> string \<Rightarrow> int \<times> string option \<Rightarrow> nat \<times> ClientStruct \<Rightarrow>
   ('w, int \<times> string option) act" where
  "fix_client M draw duplicateCode s ic = (case s of
     (fixed, Some e) \<Rightarrow> returnA (fixed, Some e)
   | (fixed, None) \<Rightarrow> catchA
       (thenA (give_new_code M (draw (fst ic)) duplicateCode (snd ic)) (returnA (fixed + 1, None)))
       (\<lambda>e. returnA (fixed, Some e)))"

definition fix_code ::
  "'w redis \<Rightarrow> (string \<Rightarrow> nat \<Rightarrow> nat \<Rightarrow> nat list) \<Rightarrow> int \<times> string list \<Rightarrow> string \<Rightarrow> ('w, int \<times> string list) act" where
  "fix_code M draw s duplicateCode = (case s of (fixed, errors) \<Rightarrow>
     bindA (catchA
       (bindA (getAllClients M) (\<lambda>allClients. case allClients of
          Failure _ _ \<Rightarrow> returnA (fixed, None)
        | Success cs \<Rightarrow> foldA (fix_client M (draw duplicateCode) duplicateCode) (fixed, None)
            (drop 1 (enumerate 0 (filter (\<lambda>c. c_referralCode c = duplicateCode) cs)))))
       (\<lambda>e. returnA (fixed, Some e))) (\<lambda>(fixed', failed).
     returnA (fixed', errors @ (case failed of None \<Rightarrow> []
       | Some e \<Rightarrow> [''Failed to fix duplicate code '' @ duplicateCode @ '': Error: '' @ e]))))"

definition fixDuplicateReferralCodes ::
  "'w redis \<Rightarrow> (string \<Rightarrow> nat \<Rightarrow> nat \<Rightarrow> nat list) \<Rightarrow> ('w, int \<times> string list) act" where
  "fixDuplicateReferralCodes M draw = bindA (auditReferralCodeIndex M) (\<lambda>audit.
     foldA (fix_code M draw) (0, []) (au_duplicateCodes audit))"

section \<open>The run\<close>

record CodeBackup =
  bk_backupCount :: int
  bk_backupFile :: string
  bk_errors :: "string list"

definition backup_key ::
  "'w redis \<Rightarrow> (string, string) jsmap \<times> string list \<Rightarrow> string \<Rightarrow> ('w, (string, string) jsmap \<times> string list) act" where
  "backup_key M s k = (case s of (backupData, errors) \<Rightarrow> catchA
     (bindA (read_as M as_str k) (\<lambda>v. returnA (case v of
        Some value \<Rightarrow> (map_set k value backupData, errors) | None \<Rightarrow> (backupData, errors))))
     (\<lambda>e. returnA (backupData, errors @ [''Failed to backup key '' @ k @ '': Error: '' @ e])))"

text \<open>\<open>stamp\<close> is the time in the name of the file. No lookup key is an array index.\<close>

definition backupReferralCodeLookups ::
  "'w redis \<Rightarrow> 'w disk \<Rightarrow> (rat \<Rightarrow> string) \<Rightarrow> string \<Rightarrow> ('w, CodeBackup) act" where
  "backupReferralCodeLookups M D num stamp =
     (let backupFile = ''./data/backup-referral-codes-'' @ stamp @ ''.json''; backupDir = path_dirname backupFile in
      bindA (existsSync D backupDir) (\<lambda>found.
      thenA (if found then returnA () else MKDIR D backupDir)
     (bindA (KEYS M (CODE_LOOKUP [])) (\<lambda>lookupKeys.
      bindA (foldA (backup_key M) ([], []) lookupKeys) (\<lambda>(backupData, errors).
      thenA (WRITE_FILE D backupFile (json_text num (JObj (map (\<lambda>(k, v). (k, JStr v)) backupData))))
     (returnA \<lparr>bk_backupCount = int (length backupData), bk_backupFile = backupFile, bk_errors = errors\<rparr>))))))"

datatype migration_end = AllIndexed | Migrated "(int \<times> string list) option" IndexResult MigrationCheck

definition runReferralCodeMigration ::
  "'w redis \<Rightarrow> 'w disk \<Rightarrow> (rat \<Rightarrow> string) \<Rightarrow> string \<Rightarrow> (string \<Rightarrow> nat \<Rightarrow> nat \<Rightarrow> nat list) \<Rightarrow> ('w, migration_end) act" where
  "runReferralCodeMigration M D num stamp draw =
     thenA (backupReferralCodeLookups M D num stamp)
    (bindA (auditReferralCodeIndex M) (\<lambda>initialAudit.
     if au_missingCodes initialAudit = 0 then returnA AllIndexed
     else bindA (if au_duplicateCodes initialAudit = [] then returnA None
                 else bindA (fixDuplicateReferralCodes M draw) (\<lambda>r. returnA (Some r))) (\<lambda>duplicateFix.
          bindA (indexMissingReferralCodes M) (\<lambda>results.
          bindA (verifyMigration M) (\<lambda>verification. returnA (Migrated duplicateFix results verification))))))"

end
