(* ===== verification/MigrationProperties.thy ===== *)
theory MigrationProperties
  imports ReferralMigration RewardFacts ReferralProperties
begin

text \<open>
  What the migration of \<open>scripts/migrate_referral_codes.ts\<close> does to the index of
  referral codes (\<open>codes\<close>) and to the clients.
\<close>

section \<open>The audit\<close>

definition listed :: "'w redis \<Rightarrow> 'w \<Rightarrow> ClientStruct list" where
  "listed M w = somes (map (clients M w) (client_ids M w))"

definition entry_of :: "ClientStruct \<Rightarrow> MissingEntry" where
  "entry_of c = \<lparr>me_user_principal_id = c_user_principal_id c, me_referral_code = c_referralCode c\<rparr>"

definition unindexed :: "'w redis \<Rightarrow> 'w \<Rightarrow> ClientStruct \<Rightarrow> bool" where
  "unindexed M w c \<longleftrightarrow> \<not> blank (c_referralCode c) \<and> codes M w (c_referralCode c) = None"

lemma blank_Nil [simp]: "blank []"
  by (simp add: blank_def js_trim_def)

lemma codes_strs: "strs M w' = strs M w \<Longrightarrow> codes M w' = codes M w \<and> codes_typed M w' = codes_typed M w"
  by (simp add: codes_def codes_typed_def fun_eq_iff)

definition audit_step :: "'w redis \<Rightarrow> 'w \<Rightarrow> AuditState \<Rightarrow> ClientStruct \<Rightarrow> AuditState" where
  "audit_step M w s c = (if blank (c_referralCode c) then s else
     (case codes M w (c_referralCode c) of
        None \<Rightarrow> s\<lparr>as_missingEntries := as_missingEntries s @ [entry_of c]\<rparr>
      | Some user \<Rightarrow> s\<lparr>as_indexedCodes := as_indexedCodes s + 1,
          as_codeUsage := (if user \<noteq> c_user_principal_id c
            then use_code (c_referralCode c) [user, c_user_principal_id c] (as_codeUsage s) else as_codeUsage s)\<rparr>))"

lemma missing_fold:
  "as_missingEntries (foldl (audit_step M w) s cs) = as_missingEntries s @ map entry_of (filter (unindexed M w) cs)"
  by (induction cs arbitrary: s) (auto simp: audit_step_def unindexed_def split: option.split)

lemma usage_fold:
  "\<forall>code. map_of (as_codeUsage s) code \<noteq> None \<longrightarrow> codes M w code \<noteq> None \<Longrightarrow>
   map_of (as_codeUsage (foldl (audit_step M w) s cs)) code \<noteq> None \<Longrightarrow> codes M w code \<noteq> None"
proof (induction cs arbitrary: s)
  case (Cons c cs)
  have "\<forall>code. map_of (as_codeUsage (audit_step M w s c)) code \<noteq> None \<longrightarrow> codes M w code \<noteq> None"
    using Cons.prems(1) by (auto simp: audit_step_def use_code_def split: option.split)
  then show ?case using Cons.IH [of "audit_step M w s c"] Cons.prems(2) by simp
qed simp

lemma duplicate_codes_used: "code \<in> set (duplicate_codes m) \<Longrightarrow> map_of m code \<noteq> None"
  by (auto simp: duplicate_codes_def Let_def sort_asc_def weak_map_of_SomeI)

context redis_up
begin

lemma code_entry_eq:
  assumes "codes_typed M w"
  shows "code_entry M code w = (Inr (codes M w code), w)"
proof (cases "present (strs M w (CODE_LOOKUP code))")
  case None
  then show ?thesis by (simp add: code_entry_def read_as_def codes_def act_simps del: present_None)
next
  case (Some v)
  then have "strs M w (CODE_LOOKUP code) = Some v" by (cases "strs M w (CODE_LOOKUP code)" rule: present.cases) auto
  then obtain u where "v = VStr u" using assms unfolding codes_typed_def by blast
  with Some show ?thesis by (simp add: code_entry_def read_as_def codes_def act_simps)
qed

lemma audit_eq:
  assumes inv: "db_inv M w" and ct: "codes_typed M w"
  shows "\<exists>n dups. auditReferralCodeIndex M w = (Inr \<lparr>au_totalClients = int (length (listed M w)), au_indexedCodes = n,
      au_missingCodes = int (length (filter (unindexed M w) (listed M w))), au_duplicateCodes = dups,
      au_missingEntries = map entry_of (filter (unindexed M w) (listed M w))\<rparr>, w) \<and>
    (\<forall>code \<in> set dups. codes M w code \<noteq> None)"
proof -
  let ?s = "\<lparr>as_indexedCodes = 0, as_missingEntries = [], as_codeUsage = []\<rparr>"
  let ?ended = "foldl (audit_step M w) ?s (listed M w)"
  have "audit_client M s c w = (Inr (audit_step M w s c), w)" for s c
    by (cases "blank (c_referralCode c)")
       (auto simp: audit_client_def audit_step_def Let_def act_simps code_entry_eq [OF ct] entry_of_def
         split: option.split)
  then have fold: "foldA (audit_client M) ?s (listed M w) w = (Inr ?ended, w)"
    by (intro foldA_pure)
  have "\<forall>code \<in> set (duplicate_codes (as_codeUsage ?ended)). codes M w code \<noteq> None"
    using usage_fold [of ?s M w "listed M w"] duplicate_codes_used by fastforce
  then show ?thesis
    using fold missing_fold [of M w ?s "listed M w"]
    by (simp add: auditReferralCodeIndex_def act_simps getAllClients_eq [OF db_inv_typed [OF inv]] listed_def [symmetric])
qed

end

section \<open>Indexing\<close>

text \<open>The index after the entries were added in their order.\<close>

definition with_entries :: "(string \<Rightarrow> string option) \<Rightarrow> MissingEntry list \<Rightarrow> string \<Rightarrow> string option" where
  "with_entries m es code = (case m code of Some u \<Rightarrow> Some u
     | None \<Rightarrow> map_option me_user_principal_id (find (\<lambda>e. me_referral_code e = code) es))"

definition newly :: "(string \<Rightarrow> string option) \<Rightarrow> MissingEntry list \<Rightarrow> string set" where
  "newly m es = {code \<in> me_referral_code ` set es. m code = None}"

lemma with_entries_Cons:
  "with_entries m (e # es) = with_entries (if m (me_referral_code e) = None
     then m(me_referral_code e \<mapsto> me_user_principal_id e) else m) es"
  by (auto simp: with_entries_def fun_eq_iff split: option.split)

lemma newly_Cons:
  "card (newly m (e # es)) = (if m (me_referral_code e) = None
     then Suc (card (newly (m(me_referral_code e \<mapsto> me_user_principal_id e)) es)) else card (newly m es))"
proof (cases "m (me_referral_code e)")
  case None
  have "newly m (e # es) = insert (me_referral_code e) (newly (m(me_referral_code e \<mapsto> me_user_principal_id e)) es)"
    using None by (auto simp: newly_def)
  then show ?thesis using None by (simp add: newly_def)
next
  case (Some u)
  then have "newly m (e # es) = newly m es" by (auto simp: newly_def)
  then show ?thesis using Some by simp
qed

context redis_server
begin

lemma codes_put_code:
  assumes "uid \<noteq> []"
  shows "codes M (put M (CODE_LOOKUP code) (VStr uid) w) = (codes M w)(code \<mapsto> uid)"
  using assms by (cases uid) (auto simp: codes_def strs_put fun_eq_iff key_simps)

lemma codes_typed_put_code: "codes_typed M w \<Longrightarrow> codes_typed M (put M (CODE_LOOKUP code) (VStr uid) w)"
  by (auto simp: codes_typed_def strs_put key_simps)

end

context redis_up
begin

lemma index_fold:
  assumes "codes_typed M w" and "\<forall>e \<in> set es. me_user_principal_id e \<noteq> []"
    and "\<forall>code \<in> set (ix_duplicates r). codes M w code \<noteq> None"
  shows "\<exists>w'. foldA (index_entry M) r es w = (Inr (r\<lparr>ix_indexed := ix_indexed r + int (card (newly (codes M w) es)),
      ix_skipped := ix_skipped r + int (length es) - int (card (newly (codes M w) es))\<rparr>), w') \<and>
    same_db M w w' \<and> codes_typed M w' \<and> codes M w' = with_entries (codes M w) es"
  using assms
proof (induction es arbitrary: r w)
  case Nil
  then show ?case by (auto simp: act_simps with_entries_def newly_def fun_eq_iff split: option.split)
next
  case (Cons e es)
  let ?code = "me_referral_code e" and ?uid = "me_user_principal_id e"
  show ?case
  proof (cases "codes M w ?code")
    case None
    let ?w = "put M (CODE_LOOKUP ?code) (VStr ?uid) w" and ?r = "r\<lparr>ix_indexed := ix_indexed r + 1\<rparr>"
    have notdup: "?code \<notin> set (ix_duplicates r)" using None Cons.prems(3) by auto
    have uid: "?uid \<noteq> []" using Cons.prems(2) by simp
    have codes: "codes M ?w = (codes M w)(?code \<mapsto> ?uid)" by (rule codes_put_code [OF uid])
    have one: "index_entry M r e w = (Inr ?r, ?w)"
      using notdup None by (simp add: index_entry_def Let_def act_simps code_entry_eq [OF Cons.prems(1)])
    have same: "same_db M w ?w" by (rule same_db_put_foreign) simp
    have dups: "\<forall>code \<in> set (ix_duplicates ?r). codes M ?w code \<noteq> None" using Cons.prems(3) codes by simp
    obtain w' where IH: "foldA (index_entry M) ?r es ?w = (Inr (?r\<lparr>ix_indexed := ix_indexed ?r + int (card (newly (codes M ?w) es)),
        ix_skipped := ix_skipped ?r + int (length es) - int (card (newly (codes M ?w) es))\<rparr>), w')"
      "same_db M ?w w'" "codes_typed M w'" "codes M w' = with_entries (codes M ?w) es"
      using Cons.IH [OF codes_typed_put_code [OF Cons.prems(1)] _ dups] Cons.prems(2) by auto
    have "codes M w' = with_entries (codes M w) (e # es)"
      using IH(4) None by (simp add: codes with_entries_Cons)
    moreover have "same_db M w w'" by (rule same_db_trans [OF same IH(2)])
    ultimately show ?thesis
      using IH(1,3) one None by (intro exI [of _ w']) (simp add: act_simps codes newly_Cons)
  next
    case (Some u)
    let ?r = "r\<lparr>ix_skipped := ix_skipped r + 1\<rparr>"
    have one: "index_entry M r e w = (Inr ?r, w)"
      using Some by (simp add: index_entry_def Let_def act_simps code_entry_eq [OF Cons.prems(1)])
    obtain w' where IH: "foldA (index_entry M) ?r es w = (Inr (?r\<lparr>ix_indexed := ix_indexed ?r + int (card (newly (codes M w) es)),
        ix_skipped := ix_skipped ?r + int (length es) - int (card (newly (codes M w) es))\<rparr>), w')"
      "same_db M w w'" "codes_typed M w'" "codes M w' = with_entries (codes M w) es"
      using Cons.IH [OF Cons.prems(1), of ?r] Cons.prems(2,3) by auto
    have "codes M w' = with_entries (codes M w) (e # es)"
      using IH(4) Some by (simp add: with_entries_Cons)
    then show ?thesis
      using IH(1-3) one Some by (intro exI [of _ w']) (simp add: act_simps newly_Cons)
  qed
qed

end


text \<open>The user a code belongs to: the first client who has it, in the order the server lists them.\<close>

definition holder :: "'w redis \<Rightarrow> 'w \<Rightarrow> string \<Rightarrow> string option" where
  "holder M w code = (if blank code then None
     else map_option c_user_principal_id (find (\<lambda>c. c_referralCode c = code) (listed M w)))"

definition completed_index :: "'w redis \<Rightarrow> 'w \<Rightarrow> string \<Rightarrow> string option" where
  "completed_index M w code = (case codes M w code of Some u \<Rightarrow> Some u | None \<Rightarrow> holder M w code)"

lemma find_entry:
  "map_option me_user_principal_id (find (\<lambda>e. me_referral_code e = code) (map entry_of (filter (unindexed M w) cs)))
   = (if blank code \<or> codes M w code \<noteq> None then None
      else map_option c_user_principal_id (find (\<lambda>c. c_referralCode c = code) cs))"
  by (induction cs) (auto simp: entry_of_def unindexed_def)

lemma with_entries_missing:
  "with_entries (codes M w) (map entry_of (filter (unindexed M w) (listed M w))) = completed_index M w"
  by (auto simp: with_entries_def completed_index_def holder_def find_entry fun_eq_iff split: option.split)

lemma holder_None: "holder M w code = None \<longleftrightarrow> blank code \<or> code \<notin> c_referralCode ` set (listed M w)"
  by (auto simp: holder_def find_None_iff)

lemma completed_index_None:
  "completed_index M w code = None \<longleftrightarrow> codes M w code = None \<and> holder M w code = None"
  by (auto simp: completed_index_def split: option.split)

lemma newly_missing:
  "newly (codes M w) (map entry_of (filter (unindexed M w) (listed M w)))
   = {code. codes M w code = None \<and> completed_index M w code \<noteq> None}"
  unfolding completed_index_None holder_None by (auto simp: newly_def unindexed_def entry_of_def image_image)

lemma completed_index_holds:
  "c \<in> set (listed M w) \<Longrightarrow> \<not> blank (c_referralCode c) \<Longrightarrow> completed_index M w (c_referralCode c) \<noteq> None"
  unfolding completed_index_None holder_None by simp

context redis_up
begin

lemma listed_iff:
  assumes "db_inv M w"
  shows "c \<in> set (listed M w) \<longleftrightarrow> clients M w (c_user_principal_id c) = Some c"
  unfolding listed_def listed_clients using db_typed_client [OF db_inv_typed [OF assms]] by blast

lemma index_eq:
  assumes inv: "db_inv M w" and ct: "codes_typed M w"
  shows "\<exists>r w'. indexMissingReferralCodes M w = (Inr r, w') \<and> same_db M w w' \<and> codes_typed M w' \<and>
    codes M w' = completed_index M w \<and> ix_errors r = [] \<and>
    ix_indexed r = int (card {code. codes M w code = None \<and> completed_index M w code \<noteq> None})"
proof -
  let ?es = "map entry_of (filter (unindexed M w) (listed M w))"
  obtain n dups where audit: "auditReferralCodeIndex M w = (Inr \<lparr>au_totalClients = int (length (listed M w)),
      au_indexedCodes = n, au_missingCodes = int (length (filter (unindexed M w) (listed M w))),
      au_duplicateCodes = dups, au_missingEntries = ?es\<rparr>, w)" "\<forall>code \<in> set dups. codes M w code \<noteq> None"
    using audit_eq [OF assms] by blast
  have "c_user_principal_id c \<noteq> []" if "c \<in> set (listed M w)" for c
    using that inv listed_iff [OF inv] by (auto simp: db_inv_def)
  then have ids: "\<forall>e \<in> set ?es. me_user_principal_id e \<noteq> []" by (auto simp: entry_of_def)
  let ?r = "\<lparr>ix_indexed = 0, ix_skipped = 0, ix_errors = [], ix_duplicates = dups\<rparr>"
  show ?thesis
    using index_fold [OF ct ids, of ?r] audit
    by (auto simp: indexMissingReferralCodes_def act_simps newly_missing with_entries_missing)
qed

lemma nothing_missing:
  assumes inv: "db_inv M w" and ct: "codes_typed M w"
    and all: "\<And>c. c \<in> set (listed M w) \<Longrightarrow> \<not> blank (c_referralCode c) \<Longrightarrow> codes M w (c_referralCode c) \<noteq> None"
  shows "\<exists>v. verifyMigration M w = (Inr v, w) \<and> mc_missingCodes v = 0"
    and "\<exists>r. indexMissingReferralCodes M w = (Inr r, w) \<and> ix_indexed r = 0"
proof -
  have "filter (unindexed M w) (listed M w) = []"
    using all by (auto simp: unindexed_def filter_empty_conv)
  then show "\<exists>v. verifyMigration M w = (Inr v, w) \<and> mc_missingCodes v = 0"
    "\<exists>r. indexMissingReferralCodes M w = (Inr r, w) \<and> ix_indexed r = 0"
    using audit_eq [OF inv ct] by (auto simp: verifyMigration_def indexMissingReferralCodes_def act_simps)
qed

lemma listed_codes:
  assumes "db_inv M w" and "clients M w' = clients M w" and "db_inv M w'"
    and "codes M w' = completed_index M w"
  shows "c \<in> set (listed M w') \<Longrightarrow> \<not> blank (c_referralCode c) \<Longrightarrow> codes M w' (c_referralCode c) \<noteq> None"
  using assms completed_index_holds [of c M w] by (simp add: listed_iff)

end

text \<open>Indexing completes the index and changes nothing else. A code with an entry keeps it; a code without one gets the
  first client who has it; the count is that of the new entries; after it nothing is missing, and a second run
  indexes nothing.\<close>

theorem index_completes:
  assumes "redis_up M" and "db_inv M w" and "codes_typed M w"
  shows "\<exists>r w'. indexMissingReferralCodes M w = (Inr r, w') \<and> same_db M w w' \<and>
    codes M w' = completed_index M w \<and> ix_errors r = [] \<and>
    ix_indexed r = int (card {code. codes M w code = None \<and> codes M w' code \<noteq> None}) \<and>
    (\<exists>v. verifyMigration M w' = (Inr v, w') \<and> mc_missingCodes v = 0) \<and>
    (\<exists>r'. indexMissingReferralCodes M w' = (Inr r', w') \<and> ix_indexed r' = 0)"
proof -
  obtain r w' where run: "indexMissingReferralCodes M w = (Inr r, w')" "same_db M w w'" "codes_typed M w'"
    "codes M w' = completed_index M w" "ix_errors r = []"
    "ix_indexed r = int (card {code. codes M w code = None \<and> completed_index M w code \<noteq> None})"
    using redis_up.index_eq [OF assms] by blast
  have inv: "db_inv M w'" and cl: "clients M w' = clients M w"
    using same_db_maps [OF run(2)] assms(2) by simp_all
  note all = redis_up.listed_codes [OF assms(1,2) cl inv run(4)]
  show ?thesis
    using run redis_up.nothing_missing [OF assms(1) inv run(3) all] by auto
qed

theorem index_completes_witness:
  "\<exists>r w'. indexMissingReferralCodes mem_redis demo_world = (Inr r, w') \<and>
     clients mem_redis w' = [''u1'' \<mapsto> demo_client] \<and> codes mem_redis w' ''CODE0001'' = Some ''u1''"
proof -
  have ct: "codes_typed mem_redis demo_world"
    by (simp add: codes_typed_def demo_world_def add_job_def key_simps)
  obtain r w' where run: "indexMissingReferralCodes mem_redis demo_world = (Inr r, w')"
    "same_db mem_redis demo_world w'" "codes mem_redis w' = completed_index mem_redis demo_world"
    using index_completes [OF mem_is_up demo_inv ct] by blast
  have "completed_index mem_redis demo_world ''CODE0001'' = Some ''u1''" by code_simp
  then show ?thesis using run same_db_maps(1) [OF run(2)] demo_maps(1) by simp
qed

section \<open>New codes and the run\<close>

text \<open>Worlds in which clients may have other codes, and nothing else is different.\<close>

definition recoded :: "'w redis \<Rightarrow> 'w \<Rightarrow> 'w \<Rightarrow> bool" where
  "recoded M w w' \<longleftrightarrow> db_inv M w' \<and> codes_typed M w' \<and> jobs M w' = jobs M w \<and>
     dom (clients M w') = dom (clients M w) \<and>
     (\<forall>u c'. clients M w' u = Some c' \<longrightarrow>
        (\<exists>c. clients M w u = Some c \<and> c' = c\<lparr>c_referralCode := c_referralCode c'\<rparr>))"

lemma recoded_refl: "db_inv M w \<Longrightarrow> codes_typed M w \<Longrightarrow> recoded M w w"
  by (simp add: recoded_def)

lemma recoded_trans:
  assumes "recoded M w w'" and "recoded M w' w''"
  shows "recoded M w w''"
proof -
  have "\<exists>c. clients M w u = Some c \<and> c'' = c\<lparr>c_referralCode := c_referralCode c''\<rparr>"
    if c'': "clients M w'' u = Some c''" for u c''
  proof -
    obtain c' where c': "clients M w' u = Some c'" "c'' = c'\<lparr>c_referralCode := c_referralCode c''\<rparr>"
      using assms(2) c'' unfolding recoded_def by blast
    obtain c where c: "clients M w u = Some c" "c' = c\<lparr>c_referralCode := c_referralCode c'\<rparr>"
      using assms(1) c'(1) unfolding recoded_def by blast
    have "c'' = c\<lparr>c_referralCode := c_referralCode c''\<rparr>" by (subst c'(2), subst c(2)) simp
    with c(1) show ?thesis by blast
  qed
  then show ?thesis using assms by (simp add: recoded_def)
qed

lemma recoded_same: "same_db M w' w'' \<Longrightarrow> codes_typed M w'' \<Longrightarrow> recoded M w w' \<Longrightarrow> recoded M w w''"
  using same_db_maps [of M w' w''] by (simp add: recoded_def)


context redis_up
begin

lemma recoded_pure:
  assumes "\<And>w. db_inv M w \<Longrightarrow> codes_typed M w \<Longrightarrow> \<exists>r. m w = (r, w)"
  shows "preserves (recoded M w0) m"
  unfolding preserves_def
proof (intro allI impI)
  fix w assume w: "recoded M w0 w"
  then obtain r where "m w = (r, w)" using assms [of w] by (auto simp: recoded_def)
  with w show "recoded M w0 (snd (m w))" by simp
qed

lemma recoded_reads [keeps_rules]:
  "preserves (recoded M w0) (code_entry M code)" "preserves (recoded M w0) (GET M k)"
  "preserves (recoded M w0) (getAllClients M)" "preserves (recoded M w0) (auditReferralCodeIndex M)"
  by (rule recoded_pure; use code_entry_eq getAllClients_eq audit_eq in fastforce)+

lemma recoded_lookup [keeps_rules]:
  "preserves (recoded M w0) (SET M (CODE_LOOKUP code) (VStr uid))"
  "preserves (recoded M w0) (DEL M (CODE_LOOKUP code))"
proof -
  have put: "recoded M w0 (put M (CODE_LOOKUP code) (VStr uid) w)" if w: "recoded M w0 w" for w
  proof (rule recoded_same [OF same_db_put_foreign codes_typed_put_code w])
    show "codes_typed M w" using w by (simp add: recoded_def)
  qed simp
  have del: "recoded M w0 (dele M (CODE_LOOKUP code) w)" if w: "recoded M w0 w" for w
  proof (rule recoded_same [OF _ _ w])
    show "same_db M w (dele M (CODE_LOOKUP code) w)" by (simp add: same_db_def strs_laws mems_laws)
    show "codes_typed M (dele M (CODE_LOOKUP code) w)" using w by (auto simp: recoded_def codes_typed_def strs_dele)
  qed
  show "preserves (recoded M w0) (SET M (CODE_LOOKUP code) (VStr uid))"
    "preserves (recoded M w0) (DEL M (CODE_LOOKUP code))"
    by (simp_all add: preserves_def put del)
qed

lemma recoded_update [keeps_rules]: "preserves (recoded M w0) (updateClient M uid [ReferralCode code])"
  unfolding preserves_def
proof (intro allI impI)
  fix w assume w: "recoded M w0 w"
  then have inv: "db_inv M w" and ct: "codes_typed M w" by (simp_all add: recoded_def)
  let ?w = "watch M (CLIENT uid) w"
  have same: "recoded M w ?w" "recoded M w (unwatch M ?w)"
    using inv ct codes_strs [OF strs_watch] codes_strs [OF strs_unwatch]
    by (simp_all add: recoded_def same_strs [OF strs_watch] same_strs [OF strs_unwatch])
  have "recoded M w (put_client M uid [ReferralCode code] c ?w)" if c: "clients M w uid = Some c" for c
  proof -
    have "db_inv M (put_client M uid [ReferralCode code] c ?w)"
      using inv c by (intro db_inv_put_client) (simp_all add: proper_client_update_def)
    moreover have "codes_typed M (put_client M uid [ReferralCode code] c ?w)"
      using ct by (simp add: codes_typed_def strs_watch key_simps)
    ultimately show ?thesis using c by (auto simp: recoded_def)
  qed
  then show "recoded M w0 (snd (updateClient M uid [ReferralCode code] w))"
    using same recoded_trans [OF w] by (simp add: updateClient_eq [OF db_inv_typed [OF inv]] split: option.split)
qed

lemma recoded_unique [keeps_rules]: "preserves (recoded M w0) (unique_code M draws)"
proof (induction draws)
  case (Cons draw draws)
  then show ?case unfolding unique_code.simps Let_def by (intro keeps_rules) simp_all
qed (simp add: preserves_throw)

lemma recoded_give [keeps_rules]: "preserves (recoded M w0) (give_new_code M draw code c)"
  unfolding give_new_code_def Let_def generateUniqueReferralCode_def by (intro keeps_rules)

lemma recoded_fix_client [keeps_rules]: "preserves (recoded M w0) (fix_client M draw code s ic)"
  unfolding fix_client_def by (cases s; cases "snd s") (simp_all, (intro keeps_rules)+)

lemma recoded_fix: "preserves (recoded M w0) (fixDuplicateReferralCodes M draw)"
proof -
  have "preserves (recoded M w0) (fix_code M draw s code)" for s code
    unfolding fix_code_def by (cases s) (simp, (intro keeps_rules)+)
  then show ?thesis unfolding fixDuplicateReferralCodes_def by (intro keeps_rules)
qed

end


text \<open>The backup reads the store and writes a file: the store stays.\<close>

definition same_store :: "'w redis \<Rightarrow> 'w \<Rightarrow> 'w \<Rightarrow> bool" where
  "same_store M w w' \<longleftrightarrow> strs M w' = strs M w \<and> mems M w' = mems M w"

context quiet_storage
begin

lemma same_store_command:
  assumes "\<And>w. snd (f w) = w"
  shows "preserves (same_store M w0) (command M f)"
  unfolding preserves_def command_def
proof (intro allI impI)
  fix w assume w: "same_store M w0 w"
  obtain e w1 where a: "attempt M w = (e, w1)" by fastforce
  then have "same_store M w0 w1" using attempt_quiet w by (simp add: same_store_def)
  then show "same_store M w0 (snd (case attempt M w of (e, w') \<Rightarrow> (case e of Some msg \<Rightarrow> (Inl msg, w')
      | None \<Rightarrow> (case f w' of (a, w'') \<Rightarrow> (Inr a, w'')))))"
    using assms [of w1] by (auto simp: a split: option.split prod.split)
qed

lemma same_store_reads [keeps_rules]:
  "preserves (same_store M w0) (KEYS M p)" "preserves (same_store M w0) (read_as M f k)"
proof -
  show "preserves (same_store M w0) (KEYS M p)" unfolding KEYS_def by (rule same_store_command) simp
  have "preserves (same_store M w0) (GET M k)" unfolding GET_def by (rule same_store_command) simp
  then show "preserves (same_store M w0) (read_as M f k)" unfolding read_as_def parse_as_def by (intro keeps_rules)
qed

lemma same_store_disk [keeps_rules]:
  "preserves (same_store M w0) (ACCESS D p)" "preserves (same_store M w0) (MKDIR D p)"
  "preserves (same_store M w0) (WRITE_FILE D p data)"
  by (simp_all add: preserves_def same_store_def ACCESS_def MKDIR_def WRITE_FILE_def syscall_quiet)

lemma same_store_backup: "preserves (same_store M w0) (backupReferralCodeLookups M D num stamp)"
proof -
  have "preserves (same_store M w0) (backup_key M s k)" for s k
    unfolding backup_key_def by (cases s) (simp, (intro keeps_rules)+)
  moreover have "preserves (same_store M w0) (existsSync D p)" for p
    unfolding existsSync_def by (intro keeps_rules)
  ultimately show ?thesis unfolding backupReferralCodeLookups_def Let_def by (intro keeps_rules)
qed

end

context redis_up
begin

lemma fix_result:
  assumes "db_inv M w" and "codes_typed M w"
  shows "\<exists>f w'. (if dups = [] then returnA None
      else bindA (fixDuplicateReferralCodes M draw) (\<lambda>r. returnA (Some r))) w = (Inr f, w') \<and> recoded M w w'"
proof (cases "dups = []")
  case True
  then show ?thesis using recoded_refl [OF assms] by (simp add: act_simps)
next
  case False
  have "total (fix_code M draw s code)" for s code
    unfolding fix_code_def by (cases s) (auto intro!: total_bind total_catch_return)
  then have all: "total (foldA (fix_code M draw) s dups)" for s dups
    by (induction dups arbitrary: s) (auto intro!: total_bind)
  obtain a where audit: "auditReferralCodeIndex M w = (Inr a, w)" using audit_eq [OF assms] by blast
  obtain x w' where "foldA (fix_code M draw) (0, []) (au_duplicateCodes a) w = (Inr x, w')"
    using all unfolding total_def by blast
  with audit have x: "fixDuplicateReferralCodes M draw w = (Inr x, w')"
    by (simp add: fixDuplicateReferralCodes_def act_simps)
  have "recoded M w w'"
    using x preservesD [OF recoded_fix [of w draw] recoded_refl [OF assms]] by simp
  then show ?thesis using x False by (simp add: act_simps)
qed

end

definition every_code_resolves :: "'w redis \<Rightarrow> 'w \<Rightarrow> bool" where
  "every_code_resolves M w \<longleftrightarrow>
     (\<forall>u c. clients M w u = Some c \<longrightarrow> \<not> blank (c_referralCode c) \<longrightarrow> codes M w (c_referralCode c) \<noteq> None)"

context redis_up
begin

lemma every_code_listed:
  assumes "db_inv M w"
  shows "every_code_resolves M w \<longleftrightarrow> filter (unindexed M w) (listed M w) = []"
  using db_typed_client [OF db_inv_typed [OF assms]] listed_iff [OF assms]
  by (fastforce simp: every_code_resolves_def unindexed_def filter_empty_conv)

lemma migrate_rest:
  assumes inv: "db_inv M w" and ct: "codes_typed M w"
  shows "\<exists>r v w'. bindA (indexMissingReferralCodes M) (\<lambda>results. bindA (verifyMigration M) (\<lambda>verification.
      returnA (Migrated f results verification))) w = (Inr (Migrated f r v), w') \<and>
    recoded M w w' \<and> every_code_resolves M w' \<and> mc_missingCodes v = 0 \<and> ix_errors r = []"
proof -
  obtain r w' where run: "indexMissingReferralCodes M w = (Inr r, w')" "same_db M w w'" "codes_typed M w'"
    "codes M w' = completed_index M w" "ix_errors r = []"
    using index_eq [OF assms] by blast
  have inv': "db_inv M w'" and cl: "clients M w' = clients M w"
    using same_db_maps [OF run(2)] inv by simp_all
  note all = listed_codes [OF inv cl inv' run(4)]
  obtain v where v: "verifyMigration M w' = (Inr v, w')" "mc_missingCodes v = 0"
    using nothing_missing(1) [OF inv' run(3) all] by blast
  have "every_code_resolves M w'"
    unfolding every_code_listed [OF inv'] using all by (auto simp: unindexed_def filter_empty_conv)
  moreover have "recoded M w w'" by (rule recoded_same [OF run(2,3) recoded_refl [OF assms]])
  ultimately show ?thesis using run v by (simp add: act_simps)
qed

end

text \<open>C36: A migration that gets past its backup leaves no client with a code that leads nowhere, and changes no client
  but in her code. Whatever codes are drawn: the run answers, every code that is not blank has an entry, no client
  comes or goes, no job changes, and what is verified has nothing missing. When the backup fails nothing has changed.\<close>

theorem migration_resolves:
  assumes "redis_up M" and "quiet_storage M D" and "db_inv M w" and "codes_typed M w"
  shows "case runReferralCodeMigration M D num stamp draw w of
      (Inl _, w') \<Rightarrow> same_store M w w'
    | (Inr e, w') \<Rightarrow> recoded M w w' \<and> every_code_resolves M w' \<and>
        (case e of AllIndexed \<Rightarrow> same_store M w w' | Migrated f r v \<Rightarrow> mc_missingCodes v = 0 \<and> ix_errors r = [])"
proof -
  obtain b w1 where backup: "backupReferralCodeLookups M D num stamp w = (b, w1)" by fastforce
  have same: "same_store M w w1"
    using quiet_storage.same_store_backup [OF assms(2), of w num stamp] backup
    by (metis preserves_def same_store_def snd_conv)
  then have inv1: "db_inv M w1" and ct1: "codes_typed M w1" and r1: "recoded M w w1"
    using same_world [of M w1 w] same_strs [of M w1 w] codes_strs [of M w1 w] assms(3,4)
    by (auto simp: same_store_def recoded_def)
  obtain n dups where audit: "auditReferralCodeIndex M w1 = (Inr \<lparr>au_totalClients = int (length (listed M w1)),
      au_indexedCodes = n, au_missingCodes = int (length (filter (unindexed M w1) (listed M w1))),
      au_duplicateCodes = dups, au_missingEntries = map entry_of (filter (unindexed M w1) (listed M w1))\<rparr>, w1)"
    using redis_up.audit_eq [OF assms(1) inv1 ct1] by blast
  show ?thesis
  proof (cases b)
    case (Inl e)
    then show ?thesis using backup same by (simp add: runReferralCodeMigration_def act_simps)
  next
    case (Inr bk)
    show ?thesis
    proof (cases "filter (unindexed M w1) (listed M w1) = []")
      case True
      then have "every_code_resolves M w1" by (simp add: redis_up.every_code_listed [OF assms(1) inv1])
      with True show ?thesis using Inr backup same audit r1 by (simp add: runReferralCodeMigration_def act_simps)
    next
      case False
      obtain f w2 where new: "(if dups = [] then returnA None
          else bindA (fixDuplicateReferralCodes M draw) (\<lambda>r. returnA (Some r))) w1 = (Inr f, w2)"
        and r2: "recoded M w1 w2"
        using redis_up.fix_result [OF assms(1) inv1 ct1, of dups draw] by blast
      then have inv2: "db_inv M w2" and ct2: "codes_typed M w2" by (simp_all add: recoded_def)
      obtain r v w' where rest: "bindA (indexMissingReferralCodes M) (\<lambda>results. bindA (verifyMigration M) (\<lambda>verification.
          returnA (Migrated f results verification))) w2 = (Inr (Migrated f r v), w')"
        "recoded M w2 w'" "every_code_resolves M w'" "mc_missingCodes v = 0" "ix_errors r = []"
        using redis_up.migrate_rest [OF assms(1) inv2 ct2, of f] by blast
      have "runReferralCodeMigration M D num stamp draw w = (Inr (Migrated f r v), w')"
        using Inr False backup audit new rest(1) by (simp add: runReferralCodeMigration_def thenA_def bindA_apply)
      then show ?thesis using rest recoded_trans [OF recoded_trans [OF r1 r2] rest(2)] by simp
    qed
  qed
qed


lemma box_strs: "strs box_redis (m, d) = strs mem_redis m" "mems box_redis (m, d) = mems mem_redis m"
  by (simp_all add: box_redis_def lift_redis_def fun_eq_iff del: mem_redis_simps)

lemma box_inv: "db_inv box_redis (m, d) = db_inv mem_redis m" "codes_typed box_redis (m, d) = codes_typed mem_redis m"
  by (simp_all add: db_inv_def db_typed_def status_index_def state_index_def user_index_def clients_def jobs_def
    codes_typed_def box_strs del: mem_redis_simps)

theorem migration_resolves_witness:
  "\<exists>f r v w'. runReferralCodeMigration box_redis box_disk (\<lambda>_. []) ''now'' (\<lambda>_ _ _. [])
      (demo_world, \<lparr>fs_files = [], fs_dirs = []\<rparr>) = (Inr (Migrated f r v), w') \<and>
    every_code_resolves box_redis w' \<and> mc_missingCodes v = 0"
proof -
  let ?w = "(demo_world, \<lparr>fs_files = [], fs_dirs = []\<rparr>)"
  let ?run = "runReferralCodeMigration box_redis box_disk (\<lambda>_. []) ''now'' (\<lambda>_ _ _. []) ?w"
  have "codes_typed mem_redis demo_world"
    by (simp add: codes_typed_def demo_world_def add_job_def key_simps)
  then have "case ?run of (Inl _, w') \<Rightarrow> same_store box_redis ?w w'
    | (Inr e, w') \<Rightarrow> recoded box_redis ?w w' \<and> every_code_resolves box_redis w' \<and>
        (case e of AllIndexed \<Rightarrow> same_store box_redis ?w w' | Migrated f r v \<Rightarrow> mc_missingCodes v = 0 \<and> ix_errors r = [])"
    using box_inv demo_inv
    by (intro migration_resolves box.redis_up_axioms box.quiet_storage_axioms) simp_all
  moreover have "case fst ?run of Inr (Migrated _ _ _) \<Rightarrow> True | _ \<Rightarrow> False" by code_simp
  ultimately show ?thesis by (auto split: prod.splits sum.splits migration_end.splits)
qed

end
