(* ===== verification/Configuration.thy ===== *)
theory Configuration
  imports FileFacts HttpResponse
begin

text \<open>
  \<open>config/multijob_config.ts\<close> and \<open>config/rpc_config.ts\<close>: the defaults, what the
  environment makes of them, and the check of the values. A number is an \<open>int option\<close>,
  \<open>None\<close> for the \<open>NaN\<close> that \<open>parseInt\<close> gives for a text that is none; every comparison with
  \<open>NaN\<close> is false. The error names of the configuration are those of \<open>RPCErrorHandler\<close> of
  \<open>utils/error_handler.ts\<close>: the same failures answered over HTTP and over a socket, the details
  JSON values, \<open>None\<close> where the caller gives none.
\<close>

section \<open>Numbers of the environment\<close>

type_synonym environment = "string \<Rightarrow> string option"

definition env_text :: "environment \<Rightarrow> string \<Rightarrow> string \<Rightarrow> string" where
  "env_text env k d = (case env k of Some (c # cs) \<Rightarrow> c # cs | _ \<Rightarrow> d)"

definition js_number_text :: "int option \<Rightarrow> string" where
  "js_number_text n = (case n of Some i \<Rightarrow> show_int i | None \<Rightarrow> ''NaN'')"

text \<open>\<open>parseInt(process.env.K || d)\<close>\<close>

definition env_int :: "environment \<Rightarrow> string \<Rightarrow> int option \<Rightarrow> int option" where
  "env_int env k d = parseInt (env_text env k (js_number_text d))"

definition nan_less :: "int option \<Rightarrow> int option \<Rightarrow> bool" where
  "nan_less a b = (case (a, b) of (Some x, Some y) \<Rightarrow> x < y | _ \<Rightarrow> False)"

definition nan_leq :: "int option \<Rightarrow> int option \<Rightarrow> bool" where
  "nan_leq a b = (case (a, b) of (Some x, Some y) \<Rightarrow> x \<le> y | _ \<Rightarrow> False)"

section \<open>The configuration of the job system\<close>

record CapacityConfig =
  cf_maxConcurrentJobs :: "int option"
  cf_minConcurrentJobs :: "int option"
  cf_maxAllowedCapacity :: "int option"

record JobQueueConfig =
  cf_maxQueueSize :: "int option"
  cf_deliveryDelayMs :: "int option"
  cf_processingTimeoutMs :: "int option"
  cf_jobTimeoutMs :: "int option"
  cf_cleanupIntervalMs :: "int option"
  cf_retryAttempts :: "int option"

record LoadBalancingConfig =
  cf_highUtilizationThreshold :: "int option"
  cf_lowUtilizationThreshold :: "int option"
  cf_autoOptimizationEnabled :: bool
  cf_emergencyRedistributionThreshold :: "int option"

record MonitoringConfig =
  cf_metricsCollectionEnabled :: bool
  cf_capacityCheckIntervalMs :: "int option"
  cf_performanceLogLevel :: string

record MigrationConfig =
  cf_batchSize :: "int option"
  cf_backupEnabled :: bool
  cf_verificationEnabled :: bool

record MultiJobConfig =
  mj_defaultCapacity :: CapacityConfig
  mj_jobQueue :: JobQueueConfig
  mj_loadBalancing :: LoadBalancingConfig
  mj_monitoring :: MonitoringConfig
  mj_migration :: MigrationConfig

definition DEFAULT_MULTIJOB_CONFIG :: MultiJobConfig where
  "DEFAULT_MULTIJOB_CONFIG = \<lparr>
     mj_defaultCapacity = \<lparr>cf_maxConcurrentJobs = Some 3, cf_minConcurrentJobs = Some 1,
       cf_maxAllowedCapacity = Some 10\<rparr>,
     mj_jobQueue = \<lparr>cf_maxQueueSize = Some 50, cf_deliveryDelayMs = Some 100, cf_processingTimeoutMs = Some 30000,
       cf_jobTimeoutMs = Some 300000, cf_cleanupIntervalMs = Some 300000, cf_retryAttempts = Some 3\<rparr>,
     mj_loadBalancing = \<lparr>cf_highUtilizationThreshold = Some 85, cf_lowUtilizationThreshold = Some 30,
       cf_autoOptimizationEnabled = False, cf_emergencyRedistributionThreshold = Some 95\<rparr>,
     mj_monitoring = \<lparr>cf_metricsCollectionEnabled = True, cf_capacityCheckIntervalMs = Some 60000,
       cf_performanceLogLevel = ''info''\<rparr>,
     mj_migration = \<lparr>cf_batchSize = Some 100, cf_backupEnabled = True, cf_verificationEnabled = True\<rparr>\<rparr>"

definition getMultiJobConfig :: "environment \<Rightarrow> MultiJobConfig" where
  "getMultiJobConfig env = \<lparr>
     mj_defaultCapacity = \<lparr>
       cf_maxConcurrentJobs = env_int env ''DEFAULT_MAX_CONCURRENT_JOBS'' (Some 3),
       cf_minConcurrentJobs = env_int env ''DEFAULT_MIN_CONCURRENT_JOBS'' (Some 1),
       cf_maxAllowedCapacity = env_int env ''MAX_ALLOWED_CAPACITY'' (Some 10)\<rparr>,
     mj_jobQueue = \<lparr>
       cf_maxQueueSize = env_int env ''JOB_QUEUE_MAX_SIZE'' (Some 50),
       cf_deliveryDelayMs = env_int env ''JOB_DELIVERY_DELAY_MS'' (Some 100),
       cf_processingTimeoutMs = env_int env ''JOB_PROCESSING_TIMEOUT_MS'' (Some 30000),
       cf_jobTimeoutMs = env_int env ''JOB_TIMEOUT_MS'' (Some 300000),
       cf_cleanupIntervalMs = env_int env ''JOB_CLEANUP_INTERVAL_MS'' (Some 300000),
       cf_retryAttempts = env_int env ''JOB_RETRY_ATTEMPTS'' (Some 3)\<rparr>,
     mj_loadBalancing = \<lparr>
       cf_highUtilizationThreshold = env_int env ''HIGH_UTILIZATION_THRESHOLD'' (Some 85),
       cf_lowUtilizationThreshold = env_int env ''LOW_UTILIZATION_THRESHOLD'' (Some 30),
       cf_autoOptimizationEnabled = (env ''AUTO_OPTIMIZATION_ENABLED'' = Some ''true''),
       cf_emergencyRedistributionThreshold = env_int env ''EMERGENCY_REDISTRIBUTION_THRESHOLD'' (Some 95)\<rparr>,
     mj_monitoring = \<lparr>
       cf_metricsCollectionEnabled = (env ''METRICS_COLLECTION_ENABLED'' \<noteq> Some ''false''),
       cf_capacityCheckIntervalMs = env_int env ''CAPACITY_CHECK_INTERVAL_MS'' (Some 60000),
       cf_performanceLogLevel = env_text env ''PERFORMANCE_LOG_LEVEL'' ''info''\<rparr>,
     mj_migration = \<lparr>
       cf_batchSize = env_int env ''MIGRATION_BATCH_SIZE'' (Some 100),
       cf_backupEnabled = (env ''MIGRATION_BACKUP_ENABLED'' \<noteq> Some ''false''),
       cf_verificationEnabled = (env ''MIGRATION_VERIFICATION_ENABLED'' \<noteq> Some ''false'')\<rparr>\<rparr>"

record ConfigCheck =
  ck_valid :: bool
  ck_errors :: "string list"
  ck_warnings :: "string list"

definition complaints :: "(bool \<times> string) list \<Rightarrow> string list" where
  "complaints ps = map snd (filter fst ps)"

definition config_errors :: "MultiJobConfig \<Rightarrow> (bool \<times> string) list" where
  "config_errors c = (let cap = mj_defaultCapacity c; q = mj_jobQueue c; lb = mj_loadBalancing c; mg = mj_migration c in
    [(nan_less (cf_maxConcurrentJobs cap) (Some 1), ''maxConcurrentJobs must be at least 1''),
     (nan_less (cf_maxAllowedCapacity cap) (cf_maxConcurrentJobs cap), ''maxConcurrentJobs cannot exceed maxAllowedCapacity''),
     (nan_less (cf_maxConcurrentJobs cap) (cf_minConcurrentJobs cap), ''minConcurrentJobs cannot exceed maxConcurrentJobs''),
     (nan_less (cf_maxQueueSize q) (Some 1), ''maxQueueSize must be at least 1''),
     (nan_less (cf_deliveryDelayMs q) (Some 0), ''deliveryDelayMs cannot be negative''),
     (nan_leq (cf_highUtilizationThreshold lb) (cf_lowUtilizationThreshold lb),
        ''highUtilizationThreshold must be greater than lowUtilizationThreshold''),
     (nan_less (Some 100) (cf_highUtilizationThreshold lb) \<or> nan_less (cf_lowUtilizationThreshold lb) (Some 0),
        ''Utilization thresholds must be between 0 and 100''),
     (nan_less (cf_batchSize mg) (Some 1), ''migration batchSize must be at least 1'')])"

definition validateMultiJobConfig :: "MultiJobConfig \<Rightarrow> ConfigCheck" where
  "validateMultiJobConfig c = (let errors = complaints (config_errors c);
       warnings = complaints
         [(nan_less (cf_jobTimeoutMs (mj_jobQueue c)) (Some 10000),
             ''jobTimeoutMs less than 10 seconds may cause premature timeouts''),
          (nan_less (Some 1000) (cf_batchSize (mj_migration c)),
             ''migration batchSize over 1000 may cause memory issues'')]
     in \<lparr>ck_valid = (errors = []), ck_errors = errors, ck_warnings = warnings\<rparr>)"

section \<open>The configuration of the RPC server\<close>

record WebsocketSettings =
  ws_messageTimeout :: "int option"
  ws_maxReturnedMessages :: "int option"
  ws_labelWebsocket :: string
  ws_heartbeatInterval :: "int option"
  ws_connectionTimeout :: "int option"

record JobSettings =
  jb_defaultReward :: "rat option"
  jb_maxJobsPerClient :: "int option"
  jb_jobTimeout :: "int option"
  jb_retryAttempts :: "int option"

record AuthSettings =
  ah_tokenExpiry :: "int option"
  ah_maxFailedAttempts :: "int option"
  ah_rateLimitWindow :: "int option"
  ah_sessionTimeout :: "int option"

record ClientSettings =
  cl_nextClientIdStart :: int
  cl_nextMessageNonceStart :: int
  cl_deadTimeout :: int
  cl_maxReconnectAttempts :: int

record ApiSettings =
  ai_defaultUsageLimit :: "int option"
  ai_apiKeyLength :: "int option"
  ai_referralCodeLength :: int

record ScrapingSettings =
  sc_supportedJobTypes :: "string list"
  sc_maxUrlLength :: int
  sc_defaultJobPriority :: int

record RPCConfig =
  rc_websocket :: WebsocketSettings
  rc_jobs :: JobSettings
  rc_auth :: AuthSettings
  rc_client :: ClientSettings
  rc_api :: ApiSettings
  rc_scraping :: ScrapingSettings

definition DEFAULT_RPC_CONFIG :: RPCConfig where
  "DEFAULT_RPC_CONFIG = \<lparr>
     rc_websocket = \<lparr>ws_messageTimeout = Some (5 * 60 * 1000), ws_maxReturnedMessages = Some 50,
       ws_labelWebsocket = ''websocket'', ws_heartbeatInterval = Some (30 * 1000),
       ws_connectionTimeout = Some (30 * 1000)\<rparr>,
     rc_jobs = \<lparr>jb_defaultReward = Some 1, jb_maxJobsPerClient = Some 5, jb_jobTimeout = Some (10 * 60 * 1000),
       jb_retryAttempts = Some 3\<rparr>,
     rc_auth = \<lparr>ah_tokenExpiry = Some (24 * 60 * 60 * 1000), ah_maxFailedAttempts = Some 5,
       ah_rateLimitWindow = Some (60 * 1000), ah_sessionTimeout = Some (24 * 60 * 60)\<rparr>,
     rc_client = \<lparr>cl_nextClientIdStart = 16, cl_nextMessageNonceStart = 16, cl_deadTimeout = 60 * 60 * 1000,
       cl_maxReconnectAttempts = 5\<rparr>,
     rc_api = \<lparr>ai_defaultUsageLimit = Some 10000, ai_apiKeyLength = Some 32, ai_referralCodeLength = 8\<rparr>,
     rc_scraping = \<lparr>sc_supportedJobTypes = [''TWITTER_POST'', ''TWITTER_PROFILE'', ''TWITTER_FOLLOW_LIST'', ''HTML''],
       sc_maxUrlLength = 2048, sc_defaultJobPriority = 1\<rparr>\<rparr>"

text \<open>\<open>parseFloat(process.env.K || d)\<close>; \<open>num\<close> is the text of a number that is no integer.\<close>

definition env_float :: "(rat \<Rightarrow> string) \<Rightarrow> environment \<Rightarrow> string \<Rightarrow> rat option \<Rightarrow> rat option" where
  "env_float num env k d = parseFloat (env_text env k (case d of Some r \<Rightarrow> show_num num r | None \<Rightarrow> ''NaN''))"

definition loadConfigWithEnvironmentOverrides :: "(rat \<Rightarrow> string) \<Rightarrow> environment \<Rightarrow> RPCConfig \<Rightarrow> RPCConfig" where
  "loadConfigWithEnvironmentOverrides num env base = (let w = rc_websocket base; j = rc_jobs base; a = rc_auth base; p = rc_api base in
     base\<lparr>
       rc_websocket := w\<lparr>
         ws_messageTimeout := env_int env ''WS_MESSAGE_TIMEOUT'' (ws_messageTimeout w),
         ws_maxReturnedMessages := env_int env ''WS_MAX_RETURNED_MESSAGES'' (ws_maxReturnedMessages w),
         ws_heartbeatInterval := env_int env ''WS_HEARTBEAT_INTERVAL'' (ws_heartbeatInterval w),
         ws_connectionTimeout := env_int env ''WS_CONNECTION_TIMEOUT'' (ws_connectionTimeout w)\<rparr>,
       rc_jobs := j\<lparr>
         jb_defaultReward := env_float num env ''JOB_DEFAULT_REWARD'' (jb_defaultReward j),
         jb_maxJobsPerClient := env_int env ''JOB_MAX_PER_CLIENT'' (jb_maxJobsPerClient j),
         jb_jobTimeout := env_int env ''JOB_TIMEOUT'' (jb_jobTimeout j),
         jb_retryAttempts := env_int env ''JOB_RETRY_ATTEMPTS'' (jb_retryAttempts j)\<rparr>,
       rc_auth := a\<lparr>
         ah_tokenExpiry := env_int env ''AUTH_TOKEN_EXPIRY'' (ah_tokenExpiry a),
         ah_maxFailedAttempts := env_int env ''AUTH_MAX_FAILED_ATTEMPTS'' (ah_maxFailedAttempts a),
         ah_rateLimitWindow := env_int env ''AUTH_RATE_LIMIT_WINDOW'' (ah_rateLimitWindow a),
         ah_sessionTimeout := env_int env ''AUTH_SESSION_TIMEOUT'' (ah_sessionTimeout a)\<rparr>,
       rc_api := p\<lparr>
         ai_defaultUsageLimit := env_int env ''API_DEFAULT_USAGE_LIMIT'' (ai_defaultUsageLimit p),
         ai_apiKeyLength := env_int env ''API_KEY_LENGTH'' (ai_apiKeyLength p)\<rparr>\<rparr>)"

text \<open>The manager keeps one configuration; an update replaces whole sections.\<close>

datatype config_section =
    WebsocketSection WebsocketSettings | JobsSection JobSettings | AuthSection AuthSettings
  | ClientSection ClientSettings | ApiSection ApiSettings | ScrapingSection ScrapingSettings

primrec set_section :: "config_section \<Rightarrow> RPCConfig \<Rightarrow> RPCConfig" where
  "set_section (WebsocketSection x) c = c\<lparr>rc_websocket := x\<rparr>"
| "set_section (JobsSection x) c = c\<lparr>rc_jobs := x\<rparr>"
| "set_section (AuthSection x) c = c\<lparr>rc_auth := x\<rparr>"
| "set_section (ClientSection x) c = c\<lparr>rc_client := x\<rparr>"
| "set_section (ApiSection x) c = c\<lparr>rc_api := x\<rparr>"
| "set_section (ScrapingSection x) c = c\<lparr>rc_scraping := x\<rparr>"

definition newRPCConfigManager :: "(rat \<Rightarrow> string) \<Rightarrow> environment \<Rightarrow> RPCConfig option \<Rightarrow> RPCConfig" where
  "newRPCConfigManager num env baseConfig = loadConfigWithEnvironmentOverrides num env
     (case baseConfig of Some c \<Rightarrow> c | None \<Rightarrow> DEFAULT_RPC_CONFIG)"

definition rpc_updateConfig :: "config_section list \<Rightarrow> RPCConfig \<Rightarrow> RPCConfig" where
  "rpc_updateConfig updates config = fold set_section updates config"

section \<open>Names\<close>

datatype RPCErrorType =
    AUTHENTICATION_FAILED
  | INVALID_API_KEY
  | RATE_LIMIT_EXCEEDED
  | SESSION_EXPIRED
  | JOB_NOT_FOUND
  | JOB_ALREADY_ASSIGNED
  | JOB_CREATION_FAILED
  | INVALID_JOB_TYPE
  | NO_DATA_FOUND
  | CLIENT_NOT_FOUND
  | CLIENT_NOT_AVAILABLE
  | CLIENT_DISCONNECTED
  | INVALID_MESSAGE_FORMAT
  | MESSAGE_TOO_LARGE
  | CBOR_DECODE_ERROR
  | SIGNATURE_VERIFICATION_FAILED
  | FILE_NOT_FOUND
  | FILE_UPLOAD_FAILED
  | FILE_TOO_LARGE
  | DATABASE_ERROR
  | REDIS_CONNECTION_ERROR
  | WEBSOCKET_ERROR
  | CANISTER_COMMUNICATION_ERROR
  | INTERNAL_SERVER_ERROR
  | VALIDATION_ERROR
  | TIMEOUT_ERROR
  | UNKNOWN_ERROR

fun error_type_name :: "RPCErrorType \<Rightarrow> string" where
  "error_type_name AUTHENTICATION_FAILED = ''AUTHENTICATION_FAILED''"
| "error_type_name INVALID_API_KEY = ''INVALID_API_KEY''"
| "error_type_name RATE_LIMIT_EXCEEDED = ''RATE_LIMIT_EXCEEDED''"
| "error_type_name SESSION_EXPIRED = ''SESSION_EXPIRED''"
| "error_type_name JOB_NOT_FOUND = ''JOB_NOT_FOUND''"
| "error_type_name JOB_ALREADY_ASSIGNED = ''JOB_ALREADY_ASSIGNED''"
| "error_type_name JOB_CREATION_FAILED = ''JOB_CREATION_FAILED''"
| "error_type_name INVALID_JOB_TYPE = ''INVALID_JOB_TYPE''"
| "error_type_name NO_DATA_FOUND = ''NO_DATA_FOUND''"
| "error_type_name CLIENT_NOT_FOUND = ''CLIENT_NOT_FOUND''"
| "error_type_name CLIENT_NOT_AVAILABLE = ''CLIENT_NOT_AVAILABLE''"
| "error_type_name CLIENT_DISCONNECTED = ''CLIENT_DISCONNECTED''"
| "error_type_name INVALID_MESSAGE_FORMAT = ''INVALID_MESSAGE_FORMAT''"
| "error_type_name MESSAGE_TOO_LARGE = ''MESSAGE_TOO_LARGE''"
| "error_type_name CBOR_DECODE_ERROR = ''CBOR_DECODE_ERROR''"
| "error_type_name SIGNATURE_VERIFICATION_FAILED = ''SIGNATURE_VERIFICATION_FAILED''"
| "error_type_name FILE_NOT_FOUND = ''FILE_NOT_FOUND''"
| "error_type_name FILE_UPLOAD_FAILED = ''FILE_UPLOAD_FAILED''"
| "error_type_name FILE_TOO_LARGE = ''FILE_TOO_LARGE''"
| "error_type_name DATABASE_ERROR = ''DATABASE_ERROR''"
| "error_type_name REDIS_CONNECTION_ERROR = ''REDIS_CONNECTION_ERROR''"
| "error_type_name WEBSOCKET_ERROR = ''WEBSOCKET_ERROR''"
| "error_type_name CANISTER_COMMUNICATION_ERROR = ''CANISTER_COMMUNICATION_ERROR''"
| "error_type_name INTERNAL_SERVER_ERROR = ''INTERNAL_SERVER_ERROR''"
| "error_type_name VALIDATION_ERROR = ''VALIDATION_ERROR''"
| "error_type_name TIMEOUT_ERROR = ''TIMEOUT_ERROR''"
| "error_type_name UNKNOWN_ERROR = ''UNKNOWN_ERROR''"

datatype RPCStatus = S_OK | S_ERROR | S_PENDING | S_PROCESSING | S_COMPLETED | S_FAILED

fun rpc_status_name :: "RPCStatus \<Rightarrow> string" where
  "rpc_status_name S_OK = ''OK''"
| "rpc_status_name S_ERROR = ''ERROR''"
| "rpc_status_name S_PENDING = ''PENDING''"
| "rpc_status_name S_PROCESSING = ''PROCESSING''"
| "rpc_status_name S_COMPLETED = ''COMPLETED''"
| "rpc_status_name S_FAILED = ''FAILED''"

text \<open>The values of \<open>JobType\<close> and \<open>MessageType\<close>.\<close>

definition JobType :: "string list" where
  "JobType = [''TWITTER_POST'', ''TWITTER_PROFILE'', ''TWITTER_FOLLOW_LIST'', ''HTML'']"

definition MessageType :: "string list" where
  "MessageType = [''PING'', ''HEARTBEAT'', ''TWITTER_POST'', ''TWITTER_PROFILE'', ''TWITTER_FOLLOW_LIST'', ''HTML'',
     ''TWITTER_SCRAPE_RESULT'', ''SPEED_TEST'', ''CLIENT_STATUS'', ''JOB_REQUEST'']"

section \<open>What the environment can do\<close>

lemma env_int_unset: "env k = None \<Longrightarrow> env_int env k (Some i) = Some i"
  by (simp add: env_int_def env_text_def js_number_text_def parseInt_show)

lemma env_int_given: "env k = Some (show_int i) \<Longrightarrow> env_int env k d = Some i"
  using parseInt_show [of i] by (cases "show_int i") (auto simp: env_int_def env_text_def parseInt_def)

lemma nan_compare [simp]: "\<not> nan_less None b" "\<not> nan_less a None" "\<not> nan_leq None b" "\<not> nan_leq a None"
  by (auto simp: nan_less_def nan_leq_def split: option.splits)


text \<open>An environment of which no variable is a number.\<close>

definition no_numbers :: "environment \<Rightarrow> bool" where
  "no_numbers env \<longleftrightarrow> (\<forall>k v. env k = Some v \<longrightarrow> parseInt v = None)"

lemma env_int_no_number:
  assumes "no_numbers env"
  shows "env_int env k (Some i) = Some i \<or> env_int env k (Some i) = None"
  using assms parseInt_show [of i]
  by (auto simp: no_numbers_def env_int_def env_text_def js_number_text_def split: option.splits list.splits)

lemma defaults_unset:
  "getMultiJobConfig (\<lambda>_. None) = DEFAULT_MULTIJOB_CONFIG"
  by (simp add: getMultiJobConfig_def DEFAULT_MULTIJOB_CONFIG_def env_int_unset env_text_def)

text \<open>The check of the configuration lets through whatever is no number. With an environment of which no variable
  is a number, a set one turns its setting into NaN, with which every comparison is false, and the configuration counts
  as valid, without a warning.\<close>

theorem garbage_is_valid:
  assumes "no_numbers env"
  shows "ck_valid (validateMultiJobConfig (getMultiJobConfig env))
    \<and> ck_warnings (validateMultiJobConfig (getMultiJobConfig env)) = []"
proof -
  have e: "env_int env k (Some i) = (if env_int env k (Some i) = None then None else Some i)" for k i
    using env_int_no_number [OF assms, of k i] by auto
  have less: "nan_less (env_int env k (Some i)) (Some j) \<Longrightarrow> i < j" "nan_less (Some j) (env_int env k (Some i)) \<Longrightarrow> j < i"
    "nan_less (env_int env k (Some i)) (env_int env l (Some j)) \<Longrightarrow> i < j"
    "nan_leq (env_int env k (Some i)) (env_int env l (Some j)) \<Longrightarrow> i \<le> j" for i j k l
    using e [of k i] e [of l j] by (auto simp: nan_less_def nan_leq_def split: option.splits if_splits)
  have "\<forall>p \<in> set (config_errors (getMultiJobConfig env)). \<not> fst p"
    by (auto simp: config_errors_def getMultiJobConfig_def dest!: less)
  then have "complaints (config_errors (getMultiJobConfig env)) = []"
    by (simp add: complaints_def filter_empty_conv)
  moreover have "ck_warnings (validateMultiJobConfig (getMultiJobConfig env)) = []"
    by (auto simp: validateMultiJobConfig_def complaints_def getMultiJobConfig_def Let_def dest!: less)
  ultimately show ?thesis by (simp add: validateMultiJobConfig_def)
qed

theorem garbage_is_valid_witness:
  "cf_maxQueueSize (mj_jobQueue (getMultiJobConfig (\<lambda>k. Some ''lots''))) = None
   \<and> ck_valid (validateMultiJobConfig (getMultiJobConfig (\<lambda>k. Some ''lots'')))"
proof -
  have none: "parseInt ''lots'' = None" by code_simp
  then have "no_numbers (\<lambda>k. Some ''lots'')" by (simp add: no_numbers_def)
  from garbage_is_valid [OF this] show ?thesis
    by (simp add: getMultiJobConfig_def env_int_def env_text_def none)
qed

section \<open>Answers on a socket\<close>

record RPCError =
  re_type :: RPCErrorType
  re_message :: string
  re_details :: "json option"
  re_timestamp :: int
  re_requestId :: "string option"

record WebSocketErrorResponse =
  wr_error :: RPCError
  wr_status :: RPCStatus

record 'a WebSocketSuccessResponse =
  wo_data :: 'a
  wo_status :: RPCStatus
  wo_timestamp :: int

datatype 'a WebSocketResponse = WsSuccess "'a WebSocketSuccessResponse" | WsError WebSocketErrorResponse

definition createError :: "RPCErrorType \<Rightarrow> string \<Rightarrow> json option \<Rightarrow> string option \<Rightarrow> int \<Rightarrow> RPCError" where
  "createError t msg details requestId now =
     \<lparr>re_type = t, re_message = msg, re_details = details, re_timestamp = now, re_requestId = requestId\<rparr>"

definition createWebSocketSuccess :: "'a \<Rightarrow> RPCStatus \<Rightarrow> int \<Rightarrow> 'a WebSocketSuccessResponse" where
  "createWebSocketSuccess data status now = \<lparr>wo_data = data, wo_status = status, wo_timestamp = now\<rparr>"

definition createWebSocketErrorResponse :: "RPCError \<Rightarrow> RPCStatus \<Rightarrow> WebSocketErrorResponse" where
  "createWebSocketErrorResponse e status = \<lparr>wr_error = e, wr_status = status\<rparr>"

definition ws_error :: "RPCErrorType \<Rightarrow> string \<Rightarrow> json option \<Rightarrow> int \<Rightarrow> WebSocketErrorResponse" where
  "ws_error t msg details now = createWebSocketErrorResponse (createError t msg details None now) S_ERROR"

text \<open>\<open>ApiResponse.error\<close> with details, which are \<open>null\<close> by default.\<close>

definition http_error :: "string \<Rightarrow> int \<Rightarrow> json option \<Rightarrow> json response" where
  "http_error msg code details = (api_error msg code)\<lparr>rp_data := details\<rparr>"

section \<open>The failures\<close>

definition handleAuthErrorHttp :: "string \<Rightarrow> json option \<Rightarrow> json response" where
  "handleAuthErrorHttp msg d = http_error msg 401 d"

definition handleAuthErrorWS :: "string \<Rightarrow> json option \<Rightarrow> int \<Rightarrow> WebSocketErrorResponse" where
  "handleAuthErrorWS msg d now = ws_error AUTHENTICATION_FAILED msg d now"

definition handleValidationErrorHttp :: "string \<Rightarrow> json option \<Rightarrow> json response" where
  "handleValidationErrorHttp msg d = http_error msg 400 d"

definition handleValidationErrorWS :: "string \<Rightarrow> json option \<Rightarrow> int \<Rightarrow> WebSocketErrorResponse" where
  "handleValidationErrorWS msg d now = ws_error VALIDATION_ERROR msg d now"

definition handleNotFoundErrorHttp :: "string \<Rightarrow> json option \<Rightarrow> json response" where
  "handleNotFoundErrorHttp resource d = http_error (resource @ '' not found'') 404 d"

definition handleNotFoundErrorWS :: "string \<Rightarrow> json option \<Rightarrow> int \<Rightarrow> WebSocketErrorResponse" where
  "handleNotFoundErrorWS resource d now = ws_error JOB_NOT_FOUND (resource @ '' not found'') d now"

definition rate_limit_message :: "int \<Rightarrow> int \<Rightarrow> string" where
  "rate_limit_message limit window = ''Rate limit exceeded: '' @ show_int limit @ '' requests per '' @ show_int window @ ''ms''"

definition rate_limit_details :: "int \<Rightarrow> int \<Rightarrow> json" where
  "rate_limit_details limit window = JObj [(''limit'', jint limit), (''window'', jint window)]"

definition handleRateLimitErrorHttp :: "int \<Rightarrow> int \<Rightarrow> json response" where
  "handleRateLimitErrorHttp limit window =
     http_error (rate_limit_message limit window) 429 (Some (rate_limit_details limit window))"

definition handleRateLimitErrorWS :: "int \<Rightarrow> int \<Rightarrow> int \<Rightarrow> WebSocketErrorResponse" where
  "handleRateLimitErrorWS limit window now =
     ws_error RATE_LIMIT_EXCEEDED (rate_limit_message limit window) (Some (rate_limit_details limit window)) now"

definition handleDatabaseErrorHttp :: "string \<Rightarrow> json option \<Rightarrow> json response" where
  "handleDatabaseErrorHttp msg d = http_error msg 500 d"

definition handleDatabaseErrorWS :: "string \<Rightarrow> json option \<Rightarrow> int \<Rightarrow> WebSocketErrorResponse" where
  "handleDatabaseErrorWS msg d now = ws_error DATABASE_ERROR msg d now"

definition handleFileErrorHttp :: "string \<Rightarrow> string \<Rightarrow> json option \<Rightarrow> json response" where
  "handleFileErrorHttp operation msg d =
     (if operation = ''upload'' then http_error msg 400 d
      else if operation = ''notfound'' then http_error msg 404 d
      else if operation = ''toolarge'' then http_error msg 413 d
      else http_error msg 500 d)"

definition handleFileErrorWS :: "string \<Rightarrow> string \<Rightarrow> json option \<Rightarrow> int \<Rightarrow> WebSocketErrorResponse" where
  "handleFileErrorWS operation msg d now = ws_error
     (if operation = ''upload'' then FILE_UPLOAD_FAILED
      else if operation = ''notfound'' then FILE_NOT_FOUND
      else if operation = ''toolarge'' then FILE_TOO_LARGE
      else INTERNAL_SERVER_ERROR) msg d now"

definition handleWebSocketError :: "string \<Rightarrow> json option \<Rightarrow> int \<Rightarrow> WebSocketErrorResponse" where
  "handleWebSocketError msg d now = ws_error WEBSOCKET_ERROR msg d now"

definition handleJobErrorHttp :: "string \<Rightarrow> string \<Rightarrow> json option \<Rightarrow> json response" where
  "handleJobErrorHttp operation msg d =
     (if operation = ''notfound'' then http_error msg 404 d
      else if operation = ''creation'' then http_error msg 400 d
      else if operation = ''assigned'' then http_error msg 409 d
      else if operation = ''invalid_type'' then http_error msg 400 d
      else http_error msg 500 d)"

definition handleJobErrorWS :: "string \<Rightarrow> string \<Rightarrow> json option \<Rightarrow> int \<Rightarrow> WebSocketErrorResponse" where
  "handleJobErrorWS operation msg d now = ws_error
     (if operation = ''notfound'' then JOB_NOT_FOUND
      else if operation = ''invalid_type'' then VALIDATION_ERROR
      else INTERNAL_SERVER_ERROR) msg d now"

definition handleClientErrorHttp :: "string \<Rightarrow> string \<Rightarrow> json option \<Rightarrow> json response" where
  "handleClientErrorHttp operation msg d =
     (if operation = ''notfound'' then http_error msg 404 d
      else if operation = ''unavailable'' then http_error msg 503 d
      else if operation = ''disconnected'' then http_error msg 410 d
      else http_error msg 500 d)"

definition handleClientErrorWS :: "string \<Rightarrow> string \<Rightarrow> json option \<Rightarrow> int \<Rightarrow> WebSocketErrorResponse" where
  "handleClientErrorWS operation msg d now = ws_error
     (if operation = ''notfound'' then CLIENT_NOT_FOUND else INTERNAL_SERVER_ERROR) msg d now"

definition handleInternalErrorHttp :: "string \<Rightarrow> json option \<Rightarrow> json response" where
  "handleInternalErrorHttp msg d = http_error msg 500 d"

definition handleInternalErrorWS :: "string \<Rightarrow> json option \<Rightarrow> int \<Rightarrow> WebSocketErrorResponse" where
  "handleInternalErrorWS msg d now = ws_error INTERNAL_SERVER_ERROR msg d now"

definition timeout_error_message :: "string \<Rightarrow> int \<Rightarrow> string" where
  "timeout_error_message operation ms = ''Operation '' @ operation @ '' timed out after '' @ show_int ms @ ''ms''"

definition timeout_error_details :: "string \<Rightarrow> int \<Rightarrow> json" where
  "timeout_error_details operation ms = JObj [(''operation'', JStr operation), (''timeout'', jint ms)]"

definition handleTimeoutErrorHttp :: "string \<Rightarrow> int \<Rightarrow> json response" where
  "handleTimeoutErrorHttp operation ms =
     http_error (timeout_error_message operation ms) 408 (Some (timeout_error_details operation ms))"

definition handleTimeoutErrorWS :: "string \<Rightarrow> int \<Rightarrow> int \<Rightarrow> WebSocketErrorResponse" where
  "handleTimeoutErrorWS operation ms now =
     ws_error INTERNAL_SERVER_ERROR (timeout_error_message operation ms) (Some (timeout_error_details operation ms)) now"

section \<open>Sending\<close>

text \<open>A member that is \<open>undefined\<close> is read as absent.\<close>

definition given :: "string \<Rightarrow> json option \<Rightarrow> (string \<times> json) list" where
  "given k v = (case v of None \<Rightarrow> [] | Some x \<Rightarrow> [(k, x)])"

definition rpc_error_json :: "RPCError \<Rightarrow> json" where
  "rpc_error_json e = JObj ([(''type'', JStr (error_type_name (re_type e))), (''message'', JStr (re_message e))]
     @ given ''details'' (re_details e) @ [(''timestamp'', jint (re_timestamp e))]
     @ given ''requestId'' (map_option JStr (re_requestId e)))"

definition sendWebSocketError :: "int \<Rightarrow> WebSocketErrorResponse \<Rightarrow> int \<Rightarrow> ServerState \<Rightarrow> ServerState" where
  "sendWebSocketError sid r now = send sid (JObj [(''type'', JStr ''error_response''), (''success'', JBool False),
     (''error'', rpc_error_json (wr_error r)), (''status'', JStr (rpc_status_name (wr_status r))), (''timestamp'', jint now)])"

definition sendWebSocketSuccess :: "int \<Rightarrow> json \<Rightarrow> string \<Rightarrow> int \<Rightarrow> ServerState \<Rightarrow> ServerState" where
  "sendWebSocketSuccess sid data t now = send sid (JObj [(''type'', JStr t), (''success'', JBool True),
     (''data'', data), (''status'', JStr (rpc_status_name S_OK)), (''timestamp'', jint now)])"

section \<open>From a failed result, from an exception\<close>

text \<open>\<open>failure\<close> is the error of the result, if it has one; \<open>whole\<close> is the result itself.\<close>

definition fromDatabaseErrorWS :: "(DatabaseError \<times> string) option \<Rightarrow> json \<Rightarrow> int \<Rightarrow> WebSocketErrorResponse" where
  "fromDatabaseErrorWS failure whole now = (case failure of
     None \<Rightarrow> handleInternalErrorWS ''Unknown database error'' (Some whole) now
   | Some (NotFound, m) \<Rightarrow> handleNotFoundErrorWS m None now
   | Some (AlreadyExists, m) \<Rightarrow> handleValidationErrorWS (''Resource already exists: '' @ m) None now
   | Some (UpdateFailed, m) \<Rightarrow> handleDatabaseErrorWS (''Update failed: '' @ m) None now
   | Some (InvalidInput, m) \<Rightarrow> handleValidationErrorWS m None now
   | Some (_, m) \<Rightarrow> handleDatabaseErrorWS m None now)"

definition fromDatabaseErrorHttp :: "(DatabaseError \<times> string) option \<Rightarrow> json \<Rightarrow> json response" where
  "fromDatabaseErrorHttp failure whole = (case failure of
     None \<Rightarrow> http_error ''Unknown database error'' 500 (Some whole)
   | Some (NotFound, m) \<Rightarrow> http_error m 404 None
   | Some (AlreadyExists, m) \<Rightarrow> http_error (''Resource already exists: '' @ m) 409 None
   | Some (UpdateFailed, m) \<Rightarrow> http_error (''Update failed: '' @ m) 500 None
   | Some (InvalidInput, m) \<Rightarrow> http_error m 400 None
   | Some (_, m) \<Rightarrow> http_error m 500 None)"

definition wrapAsyncWS :: "('w, 'a) act \<Rightarrow> string \<Rightarrow> int \<Rightarrow> ('w, 'a WebSocketResponse) act" where
  "wrapAsyncWS operation errorContext now = catchA
     (bindA operation (\<lambda>result. returnA (WsSuccess (createWebSocketSuccess result S_OK now))))
     (\<lambda>e. returnA (WsError (createWebSocketErrorResponse
        (createError INTERNAL_SERVER_ERROR (errorContext @ '' failed: '' @ e)
          (Some (JObj [(''originalError'', JStr e)])) None now) S_ERROR)))"

definition errorMiddleware :: "string \<Rightarrow> string \<Rightarrow> json response" where
  "errorMiddleware url method = http_error ''Request processing failed'' 500
     (Some (JObj [(''url'', JStr url), (''method'', JStr method)]))"

text \<open>What a handler throws goes to the next error handler.\<close>

definition asyncHandler :: "('w, 'a) act \<Rightarrow> (string \<Rightarrow> ('w, 'a) act) \<Rightarrow> ('w, 'a) act" where
  "asyncHandler handler next_step = catchA handler next_step"

lemma wrapAsyncWS_total: "total (wrapAsyncWS operation errorContext now)"
  unfolding wrapAsyncWS_def by (rule total_catch_return)

text \<open>The two transports agree on the message, but for a missing entity.\<close>

lemma same_message:
  assumes "failure \<noteq> None" and "fst (the failure) \<noteq> NotFound"
  shows "re_message (wr_error (fromDatabaseErrorWS failure whole now)) = rp_message (fromDatabaseErrorHttp failure whole)"
  using assms
  by (auto simp: fromDatabaseErrorWS_def fromDatabaseErrorHttp_def handleInternalErrorWS_def handleValidationErrorWS_def
    handleDatabaseErrorWS_def ws_error_def createWebSocketErrorResponse_def createError_def http_error_def api_error_def
    split: DatabaseError.splits)

lemma missing_named_twice:
  "re_message (wr_error (fromDatabaseErrorWS (Some (NotFound, ''Job not found'')) whole now))
   = ''Job not found not found''"
  by (simp add: fromDatabaseErrorWS_def handleNotFoundErrorWS_def ws_error_def createWebSocketErrorResponse_def
    createError_def)

end
