(* ===== verification/OssQueue.thy ===== *)
theory OssQueue
  imports Prelude
begin

text \<open>
  \<open>ConcurrencyQueue\<close> of \<open>ic_oss_ts/src/queue.ts\<close>: tasks are started in the order they are
  pushed, at most \<open>concurrency\<close> at a time. A task is a number; that the promise of a task is
  fulfilled or rejected is an event, and so are the calls of \<open>push\<close> and \<open>wait\<close>, whose promises
  are numbered. What one event sets off runs to its end before the next.
\<close>

section \<open>State\<close>

datatype settlement = Started | Counted nat | Failed_with string

record ConcurrencyQueue =
  cq_concurrency :: nat
  cq_total :: nat
  cq_aborted :: "string option"
  cq_reject :: "nat option"
  cq_queue :: "(nat \<times> nat) list"
  cq_pending :: "nat list"
  cq_waits :: "(nat \<times> nat list) list"
  cq_promises :: "(nat, settlement) jsmap"
  cq_nextPromise :: nat
  cq_calls :: "(nat \<times> nat) list"

definition new_queue :: "nat \<Rightarrow> ConcurrencyQueue" where
  "new_queue n = \<lparr>cq_concurrency = n, cq_total = 0, cq_aborted = None, cq_reject = None, cq_queue = [],
     cq_pending = [], cq_waits = [], cq_promises = [], cq_nextPromise = 0, cq_calls = []\<rparr>"

text \<open>Settling a promise a second time has no effect.\<close>

definition settle_promise :: "nat \<Rightarrow> settlement \<Rightarrow> ConcurrencyQueue \<Rightarrow> ConcurrencyQueue" where
  "settle_promise p r s = (if map_has (cq_promises s) p then s
     else s\<lparr>cq_promises := map_set p r (cq_promises s)\<rparr>)"

section \<open>Operations\<close>

text \<open>\<open>#next\<close>: a task is called with the number of tasks that run then, itself included.\<close>

definition call_task :: "nat \<Rightarrow> nat \<Rightarrow> ConcurrencyQueue \<Rightarrow> ConcurrencyQueue" where
  "call_task t p s = settle_promise p Started
     (s\<lparr>cq_pending := cq_pending s @ [t], cq_calls := cq_calls s @ [(t, length (cq_pending s) + 1)]\<rparr>)"

primrec start_from :: "(nat \<times> nat) list \<Rightarrow> ConcurrencyQueue \<Rightarrow> ConcurrencyQueue" where
  "start_from [] s = s\<lparr>cq_queue := []\<rparr>"
| "start_from (tp # rest) s = (if length (cq_pending s) < cq_concurrency s
     then start_from rest (call_task (fst tp) (snd tp) s) else s\<lparr>cq_queue := tp # rest\<rparr>)"

definition next_tasks :: "ConcurrencyQueue \<Rightarrow> ConcurrencyQueue" where
  "next_tasks s = start_from (cq_queue s) s"

definition push :: "nat \<Rightarrow> ConcurrencyQueue \<Rightarrow> nat \<times> ConcurrencyQueue" where
  "push t s = (let p = cq_nextPromise s in
     (p, next_tasks (s\<lparr>cq_nextPromise := p + 1, cq_reject := Some p, cq_queue := cq_queue s @ [(t, p)]\<rparr>)))"

text \<open>\<open>Promise.all\<close> of the tasks that run now, and then the count of those that have ended well.\<close>

definition wait :: "ConcurrencyQueue \<Rightarrow> nat \<times> ConcurrencyQueue" where
  "wait s = (let p = cq_nextPromise s; s' = s\<lparr>cq_nextPromise := p + 1, cq_reject := Some p\<rparr> in
     (p, if cq_pending s = [] then settle_promise p (Counted (cq_total s)) s'
         else s'\<lparr>cq_waits := cq_waits s @ [(p, cq_pending s)]\<rparr>))"

definition abort :: "string \<Rightarrow> ConcurrencyQueue \<Rightarrow> ConcurrencyQueue" where
  "abort reason s = (let s' = s\<lparr>cq_aborted := (if cq_aborted s = None then Some reason else cq_aborted s)\<rparr> in
     case cq_reject s of None \<Rightarrow> s' | Some p \<Rightarrow> settle_promise p (Failed_with reason) s')"

definition end_waits :: "nat \<Rightarrow> ConcurrencyQueue \<Rightarrow> ConcurrencyQueue" where
  "end_waits t s = (let ws = map (\<lambda>(p, ts). (p, removeAll t ts)) (cq_waits s) in
     fold (\<lambda>(p, ts) s. settle_promise p (Counted (cq_total s)) s) (filter (\<lambda>(p, ts). ts = []) ws)
       (s\<lparr>cq_waits := filter (\<lambda>(p, ts). ts \<noteq> []) ws\<rparr>))"

definition fail_waits :: "nat \<Rightarrow> string \<Rightarrow> ConcurrencyQueue \<Rightarrow> ConcurrencyQueue" where
  "fail_waits t e s = fold (\<lambda>(p, ts) s. settle_promise p (Failed_with e) s)
     (filter (\<lambda>(p, ts). t \<in> set ts) (cq_waits s)) (s\<lparr>cq_waits := filter (\<lambda>(p, ts). t \<notin> set ts) (cq_waits s)\<rparr>)"

definition task_done :: "nat \<Rightarrow> ConcurrencyQueue \<Rightarrow> ConcurrencyQueue" where
  "task_done t s = next_tasks ((end_waits t (s\<lparr>cq_total := cq_total s + 1\<rparr>))\<lparr>cq_pending := removeAll t (cq_pending s)\<rparr>)"

definition task_failed :: "nat \<Rightarrow> string \<Rightarrow> ConcurrencyQueue \<Rightarrow> ConcurrencyQueue" where
  "task_failed t e s = next_tasks ((fail_waits t e (abort e s))\<lparr>cq_pending := removeAll t (cq_pending s)\<rparr>)"

section \<open>What starting leaves\<close>

lemma settle_promise_simps [simp]:
  "cq_concurrency (settle_promise p r s) = cq_concurrency s" "cq_pending (settle_promise p r s) = cq_pending s"
  "cq_queue (settle_promise p r s) = cq_queue s" "cq_total (settle_promise p r s) = cq_total s"
  "cq_calls (settle_promise p r s) = cq_calls s" "cq_waits (settle_promise p r s) = cq_waits s"
  "cq_nextPromise (settle_promise p r s) = cq_nextPromise s" "cq_reject (settle_promise p r s) = cq_reject s"
  "cq_aborted (settle_promise p r s) = cq_aborted s"
  "map_of (cq_promises (settle_promise p r s)) = (if map_has (cq_promises s) p then map_of (cq_promises s)
     else (map_of (cq_promises s))(p \<mapsto> r))"
  by (simp_all add: settle_promise_def)

lemma fold_settle [simp]:
  "cq_concurrency (fold (\<lambda>(p, ts) s. settle_promise p (f s) s) ws s) = cq_concurrency s"
  "cq_pending (fold (\<lambda>(p, ts) s. settle_promise p (f s) s) ws s) = cq_pending s"
  "cq_queue (fold (\<lambda>(p, ts) s. settle_promise p (f s) s) ws s) = cq_queue s"
  "cq_total (fold (\<lambda>(p, ts) s. settle_promise p (f s) s) ws s) = cq_total s"
  "cq_calls (fold (\<lambda>(p, ts) s. settle_promise p (f s) s) ws s) = cq_calls s"
  "cq_waits (fold (\<lambda>(p, ts) s. settle_promise p (f s) s) ws s) = cq_waits s"
  by (induction ws arbitrary: s) auto

lemma end_waits_simps [simp]:
  "cq_concurrency (end_waits t s) = cq_concurrency s" "cq_pending (end_waits t s) = cq_pending s"
  "cq_queue (end_waits t s) = cq_queue s" "cq_total (end_waits t s) = cq_total s" "cq_calls (end_waits t s) = cq_calls s"
  by (simp_all add: end_waits_def Let_def)

lemma fail_waits_simps [simp]:
  "cq_concurrency (fail_waits t e s) = cq_concurrency s" "cq_pending (fail_waits t e s) = cq_pending s"
  "cq_queue (fail_waits t e s) = cq_queue s" "cq_total (fail_waits t e s) = cq_total s" "cq_calls (fail_waits t e s) = cq_calls s"
  by (simp_all add: fail_waits_def)

lemma abort_simps [simp]:
  "cq_concurrency (abort e s) = cq_concurrency s" "cq_pending (abort e s) = cq_pending s"
  "cq_queue (abort e s) = cq_queue s" "cq_total (abort e s) = cq_total s" "cq_calls (abort e s) = cq_calls s"
  by (simp_all add: abort_def Let_def split: option.split)

text \<open>The tasks that run next: as many as there is room for.\<close>

lemma start_from_eq:
  "length (cq_pending s) \<le> cq_concurrency s \<Longrightarrow>
   \<exists>k \<le> length q. cq_queue (start_from q s) = drop k q \<and> cq_pending (start_from q s) = cq_pending s @ map fst (take k q) \<and>
     map fst (cq_calls (start_from q s)) = map fst (cq_calls s) @ map fst (take k q) \<and>
     cq_total (start_from q s) = cq_total s \<and> cq_concurrency (start_from q s) = cq_concurrency s \<and>
     length (cq_pending (start_from q s)) \<le> cq_concurrency s \<and>
     (drop k q \<noteq> [] \<longrightarrow> length (cq_pending (start_from q s)) = cq_concurrency s)"
proof (induction q arbitrary: s)
  case (Cons tp q)
  show ?case
  proof (cases "length (cq_pending s) < cq_concurrency s")
    case True
    let ?s = "call_task (fst tp) (snd tp) s"
    have s: "cq_pending ?s = cq_pending s @ [fst tp]" "cq_concurrency ?s = cq_concurrency s" "cq_total ?s = cq_total s"
      "map fst (cq_calls ?s) = map fst (cq_calls s) @ [fst tp]"
      by (simp_all add: call_task_def)
    then have "length (cq_pending ?s) \<le> cq_concurrency ?s" using True by simp
    from Cons.IH [OF this] obtain k where "k \<le> length q" "cq_queue (start_from q ?s) = drop k q"
      "cq_pending (start_from q ?s) = cq_pending ?s @ map fst (take k q)"
      "map fst (cq_calls (start_from q ?s)) = map fst (cq_calls ?s) @ map fst (take k q)"
      "cq_total (start_from q ?s) = cq_total ?s" "cq_concurrency (start_from q ?s) = cq_concurrency ?s"
      "length (cq_pending (start_from q ?s)) \<le> cq_concurrency ?s"
      "drop k q \<noteq> [] \<longrightarrow> length (cq_pending (start_from q ?s)) = cq_concurrency ?s" by blast
    then show ?thesis using True s by (intro exI [of _ "Suc k"]) simp
  next
    case False
    then show ?thesis using Cons.prems by (intro exI [of _ 0]) simp
  qed
qed simp


section \<open>Every run of a queue\<close>

text \<open>
  The queues that any order of events can lead to, with the tasks that were pushed and
  the number of those that have ended well.
\<close>

inductive queue_run :: "nat \<Rightarrow> ConcurrencyQueue \<Rightarrow> nat list \<Rightarrow> nat \<Rightarrow> bool" for n where
  fresh: "queue_run n (new_queue n) [] 0"
| pushed: "queue_run n s ts k \<Longrightarrow> t \<notin> set ts \<Longrightarrow> queue_run n (snd (push t s)) (ts @ [t]) k"
| waited: "queue_run n s ts k \<Longrightarrow> queue_run n (snd (wait s)) ts k"
| succeeded_task: "queue_run n s ts k \<Longrightarrow> t \<in> set (cq_pending s) \<Longrightarrow> queue_run n (task_done t s) ts (Suc k)"
| failed_task: "queue_run n s ts k \<Longrightarrow> t \<in> set (cq_pending s) \<Longrightarrow> queue_run n (task_failed t e s) ts k"

definition queue_inv :: "nat \<Rightarrow> ConcurrencyQueue \<Rightarrow> nat list \<Rightarrow> nat \<Rightarrow> bool" where
  "queue_inv n s ts k \<longleftrightarrow> cq_concurrency s = n \<and> length (cq_pending s) \<le> n \<and>
     (cq_queue s \<noteq> [] \<longrightarrow> length (cq_pending s) = n) \<and>
     map fst (cq_calls s) @ map fst (cq_queue s) = ts \<and> cq_total s = k"

lemma next_tasks_inv:
  assumes "cq_concurrency s = n" and "length (cq_pending s) \<le> n"
    and "map fst (cq_calls s) @ map fst (cq_queue s) = ts" and "cq_total s = k"
  shows "queue_inv n (next_tasks s) ts k"
proof -
  let ?q = "cq_queue s" and ?r = "start_from (cq_queue s) s"
  obtain j where j: "j \<le> length ?q" "cq_queue ?r = drop j ?q"
    "map fst (cq_calls ?r) = map fst (cq_calls s) @ map fst (take j ?q)" "cq_total ?r = cq_total s"
    "cq_concurrency ?r = cq_concurrency s" "length (cq_pending ?r) \<le> cq_concurrency s"
    "drop j ?q \<noteq> [] \<longrightarrow> length (cq_pending ?r) = cq_concurrency s"
    using start_from_eq [of s ?q] assms(1,2) by auto
  have "map fst (take j ?q) @ map fst (drop j ?q) = map fst ?q"
    by (simp only: map_append [symmetric] append_take_drop_id)
  then show ?thesis using j assms by (simp add: queue_inv_def next_tasks_def)
qed

lemma removeAll_shorter: "length xs \<le> n \<Longrightarrow> length (removeAll t xs) \<le> n"
  by (simp add: removeAll_filter_not_eq le_trans [OF length_filter_le])

lemma queue_run_inv: "queue_run n s ts k \<Longrightarrow> queue_inv n s ts k"
proof (induction rule: queue_run.induct)
  case fresh
  then show ?case by (simp add: queue_inv_def new_queue_def)
next
  case (pushed s ts k t)
  then show ?case unfolding push_def Let_def snd_conv by (intro next_tasks_inv) (auto simp: queue_inv_def)
next
  case (waited s ts k)
  then show ?case by (auto simp: wait_def Let_def queue_inv_def)
next
  case (succeeded_task s ts k t)
  then show ?case unfolding task_done_def
    by (intro next_tasks_inv) (auto simp: queue_inv_def intro: removeAll_shorter)
next
  case (failed_task s ts k t e)
  then show ?case unfolding task_failed_def
    by (intro next_tasks_inv) (auto simp: queue_inv_def intro: removeAll_shorter)
qed

text \<open>C38: The queue keeps its promise of concurrency. Whatever order tasks are pushed, awaited and end in: at most
  \<open>concurrency\<close> tasks run at a time, none waits while there is room, tasks start in the order they were pushed,
  each once, and the count is that of the tasks that ended well.\<close>

theorem queue_bounded:
  assumes "queue_run n s ts k"
  shows "length (cq_pending s) \<le> n \<and> (length (cq_pending s) < n \<longrightarrow> cq_queue s = []) \<and>
    map fst (cq_calls s) @ map fst (cq_queue s) = ts \<and> cq_total s = k"
  using queue_run_inv [OF assms] by (auto simp: queue_inv_def)

theorem queue_bounded_witness:
  "let s = task_done 7 (snd (push 8 (snd (push 7 (new_queue 1))))) in
     length (cq_pending s) \<le> 1 \<and> map fst (cq_calls s) = [7, 8] \<and> cq_total s = 1"
proof -
  let ?s = "snd (push 8 (snd (push 7 (new_queue 1))))"
  have "queue_run 1 ?s ([] @ [7] @ [8]) 0"
    using pushed [OF pushed [OF fresh [of 1], of 7], of 8] by simp
  moreover have "cq_pending ?s = [7]" by code_simp
  ultimately have "queue_run 1 (task_done 7 ?s) [7, 8] 1"
    using succeeded_task [of 1 ?s "[7, 8]" 0 7] by simp
  from queue_bounded [OF this] show ?thesis
    by (simp add: Let_def) code_simp
qed

end
