(* ===== verification/OssStream.thy ===== *)
theory OssStream
  imports "HOL-Library.Word" Prelude
begin

text \<open>
  \<open>ic_oss_ts/src/stream.ts\<close>: streams of chunks of one size, made from a stream of
  any chunks or from an array, and the reading of a whole stream. A stream is the list of what
  its reads give, one after the other: a chunk, or the error that ends it; after the list a
  read says that it is done.
\<close>

section \<open>Streams\<close>

type_synonym bytes = "8 word list"

type_synonym source = "(string + bytes) list"

definition CHUNK_SIZE :: nat where "CHUNK_SIZE = 256 * 1024"

text \<open>The loop of \<open>pull\<close>, which reads until the buffer holds a chunk.\<close>

datatype fill = Filled bytes source | Ended bytes | Broken string

fun fill_buffer :: "nat \<Rightarrow> bytes \<Rightarrow> source \<Rightarrow> fill" where
  "fill_buffer chunkSize buffer [] = (if chunkSize \<le> length buffer then Filled buffer [] else Ended buffer)"
| "fill_buffer chunkSize buffer (r # rest) = (if chunkSize \<le> length buffer then Filled buffer (r # rest)
     else (case r of Inl e \<Rightarrow> Broken e | Inr val \<Rightarrow> fill_buffer chunkSize (buffer @ val) rest))"

primrec bytes_left :: "source \<Rightarrow> nat" where
  "bytes_left [] = 0"
| "bytes_left (r # rest) = (case r of Inl _ \<Rightarrow> 0 | Inr val \<Rightarrow> length val) + bytes_left rest"

lemma fill_buffer_left:
  "fill_buffer n buffer src = Filled b rest \<Longrightarrow>
     length b + bytes_left rest \<le> length buffer + bytes_left src \<and> n \<le> length b"
  by (induction n buffer src rule: fill_buffer.induct) (fastforce split: if_splits sum.splits)+

text \<open>The pulls of the new stream; a view holds \<open>chunkSize\<close> bytes.\<close>

function fixed_chunks :: "nat \<Rightarrow> bytes \<Rightarrow> source \<Rightarrow> source" where
  "fixed_chunks chunkSize buffer src = (if chunkSize = 0 then [] else
     (case fill_buffer chunkSize buffer src of
        Broken e \<Rightarrow> [Inl e]
      | Ended b \<Rightarrow> if b = [] then [] else [Inr b]
      | Filled b rest \<Rightarrow> Inr (take chunkSize b) # fixed_chunks chunkSize (drop chunkSize b) rest))"
  by pat_completeness auto
termination
proof (relation "measure (\<lambda>(n, buffer, src). length buffer + bytes_left src)", simp)
  fix n buffer src b rest
  assume "n \<noteq> 0" and "fill_buffer n buffer src = Filled b rest"
  with fill_buffer_left [OF this(2)]
  have "length b - n + bytes_left rest < length buffer + bytes_left src" by linarith
  then show "((n, drop n b, rest), n, buffer, src) \<in> measure (\<lambda>(n, buffer, src). length buffer + bytes_left src)"
    by simp
qed

declare fixed_chunks.simps [simp del]

text \<open>A stream of chunks of no bytes cannot be constructed.\<close>

definition streamToFixedChunkSizeReadable :: "nat \<Rightarrow> source \<Rightarrow> string + source" where
  "streamToFixedChunkSizeReadable chunkSize stream =
     (if chunkSize = 0 then Inl ''TypeError'' else Inr (fixed_chunks chunkSize [] stream))"

function array_chunks :: "nat \<Rightarrow> bytes \<Rightarrow> nat \<Rightarrow> source" where
  "array_chunks chunkSize data offset = (let bytesToRead = min chunkSize (length data - offset) in
     if bytesToRead = 0 then []
     else Inr (take bytesToRead (drop offset data)) # array_chunks chunkSize data (offset + bytesToRead))"
  by pat_completeness auto
termination
  by (relation "measure (\<lambda>(n, data, offset). length data - offset)") auto

declare array_chunks.simps [simp del]

definition uint8ArrayToFixedChunkSizeReadable :: "nat \<Rightarrow> bytes \<Rightarrow> string + source" where
  "uint8ArrayToFixedChunkSizeReadable chunkSize data =
     (if chunkSize = 0 then Inl ''TypeError'' else Inr (array_chunks chunkSize data 0))"

section \<open>Reading a stream to its end\<close>

definition set_at :: "nat \<Rightarrow> bytes \<Rightarrow> bytes \<Rightarrow> bytes" where
  "set_at offset chunk data = take offset data @ chunk @ drop (offset + length chunk) data"

definition read_message :: "nat \<Rightarrow> nat \<Rightarrow> string" where
  "read_message expected offset = ''failed to read all data, expected '' @ show_int (int expected) @ '' bytes but got ''
     @ show_int (int offset)"

fun read_loop :: "nat \<Rightarrow> bytes \<Rightarrow> nat \<Rightarrow> source \<Rightarrow> string + bytes" where
  "read_loop expected data offset [] = (if offset \<noteq> expected then Inl (read_message expected offset) else Inr data)"
| "read_loop expected data offset (Inl e # rest) = Inl e"
| "read_loop expected data offset (Inr chunk # rest) = (if offset + length chunk \<le> expected
     then read_loop expected (set_at offset chunk data) (offset + length chunk) rest
     else Inl (read_message expected (offset + length chunk)))"

definition readAll :: "source \<Rightarrow> nat \<Rightarrow> string + bytes" where
  "readAll stream expected = read_loop expected (replicate expected 0) 0 stream"

section \<open>Files\<close>

text \<open>
  What a file may be made of. How \<open>File\<close>, \<open>Blob\<close> and a file of the disk come in chunks is
  theirs: they are streams here. \<open>Uint8Array.from\<close> finds no elements in an \<open>ArrayBuffer\<close>.
\<close>

datatype FileContent =
    A_File string string nat source
  | A_Blob string nat source
  | An_Array bytes
  | An_ArrayBuffer bytes
  | A_Stream source
  | A_Path string

record FileConfig =
  fc_content :: FileContent
  fc_name :: string
  fc_contentType :: string
  fc_size :: "nat option"
  fc_parent :: "int option"
  fc_hash :: "bytes option"

definition text_or :: "string \<Rightarrow> string \<Rightarrow> string" where
  "text_or a b = (if a = [] then b else a)"

definition size_or :: "nat option \<Rightarrow> nat \<Rightarrow> nat option" where
  "size_or a b = (case a of Some (Suc n) \<Rightarrow> Some (Suc n) | _ \<Rightarrow> Some b)"

text \<open>\<open>open_path\<close> is the size and the stream of a file of the disk, \<open>mime\<close> the type of a name.\<close>

definition toFixedChunkSizeReadable ::
  "(string \<Rightarrow> string + nat \<times> source) \<Rightarrow> (string \<Rightarrow> string) \<Rightarrow> (string \<Rightarrow> string option) \<Rightarrow> FileConfig \<Rightarrow>
   string + source \<times> FileConfig" where
  "toFixedChunkSizeReadable open_path basename mime file =
     (let fixed = streamToFixedChunkSizeReadable CHUNK_SIZE;
          with_file = (\<lambda>s f. case s of Inl e \<Rightarrow> Inl e | Inr x \<Rightarrow> Inr (x, f)) in
      case fc_content file of
        A_File name t n s \<Rightarrow> with_file (fixed s) (file\<lparr>fc_name := text_or (fc_name file) name,
          fc_contentType := text_or (fc_contentType file) t, fc_size := size_or (fc_size file) n\<rparr>)
      | A_Blob t n s \<Rightarrow> with_file (fixed s)
          (file\<lparr>fc_contentType := text_or (fc_contentType file) t, fc_size := size_or (fc_size file) n\<rparr>)
      | An_Array data \<Rightarrow> with_file (uint8ArrayToFixedChunkSizeReadable CHUNK_SIZE data) file
      | An_ArrayBuffer data \<Rightarrow> with_file (uint8ArrayToFixedChunkSizeReadable CHUNK_SIZE []) file
      | A_Stream s \<Rightarrow> with_file (fixed s) file
      | A_Path p \<Rightarrow> (let name = text_or (fc_name file) (basename p);
            t = text_or (fc_contentType file) (case mime name of Some m \<Rightarrow> m | None \<Rightarrow> ''application/octet-stream'') in
          (case open_path p of
             Inl e \<Rightarrow> Inl e
           | Inr (n, s) \<Rightarrow> with_file (fixed s) (file\<lparr>fc_name := name, fc_contentType := t, fc_size := Some n\<rparr>))))"

section \<open>Chunks and their sum\<close>

lemma fill_buffer_chunks:
  "case fill_buffer n buffer (map Inr vs) of
     Ended b \<Rightarrow> b = buffer @ concat vs \<and> length b < n
   | Filled b rest \<Rightarrow> n \<le> length b \<and> (\<exists>us. rest = map Inr us \<and> b @ concat us = buffer @ concat vs)
   | Broken _ \<Rightarrow> False"
proof (induction vs arbitrary: buffer)
  case (Cons v vs)
  show ?case
  proof (cases "n \<le> length buffer")
    case True
    have "map Inr (v # vs) = Inr v # map Inr vs" by simp
    then show ?thesis using True by (auto intro!: exI [of _ "v # vs"])
  next
    case False
    then show ?thesis using Cons.IH [of "buffer @ v"] by (simp split: fill.splits)
  qed
qed simp

lemma fixed_chunks_batches:
  "0 < n \<Longrightarrow> fixed_chunks n buffer (map Inr vs) = map Inr (batches n (buffer @ concat vs))"
proof (induction "length buffer + length (concat vs)" arbitrary: buffer vs rule: less_induct)
  case less
  note fb = fill_buffer_chunks [of n buffer vs]
  show ?case
  proof (cases "fill_buffer n buffer (map Inr vs)")
    case (Filled b rest)
    then obtain us where us: "n \<le> length b" "rest = map Inr us" "b @ concat us = buffer @ concat vs" using fb by auto
    have len: "length b + length (concat us) = length buffer + length (concat vs)"
      using arg_cong [OF us(3), of length] by simp
    then have "fixed_chunks n (drop n b) (map Inr us) = map Inr (batches n (drop n b @ concat us))"
      using less.prems us(1) by (intro less.hyps) simp_all
    then have "fixed_chunks n buffer (map Inr vs) = Inr (take n b) # map Inr (batches n (drop n b @ concat us))"
      using less.prems Filled us(2) by (subst fixed_chunks.simps) simp
    moreover have "take n b = take n (b @ concat us)" "drop n b @ concat us = drop n (b @ concat us)"
      using us(1) by simp_all
    moreover have "b @ concat us \<noteq> []" using us(1) less.prems by auto
    ultimately show ?thesis using less.prems us(3) by (subst batches.simps) simp
  next
    case (Ended b)
    have "b = buffer @ concat vs \<and> length b < n" using fb [unfolded Ended fill.case] .
    then have b: "b = buffer @ concat vs" "length b < n" by blast+
    have "batches n b = (if b = [] then [] else [b])"
      using b(2) less.prems by (subst batches.simps) (auto simp: batches.simps)
    then show ?thesis using less.prems Ended b(1) by (subst fixed_chunks.simps) simp
  next
    case (Broken e)
    then show ?thesis using fb by simp
  qed
qed

lemma array_chunks_batches: "0 < n \<Longrightarrow> array_chunks n data offset = map Inr (batches n (drop offset data))"
proof (induction "length data - offset" arbitrary: offset rule: less_induct)
  case less
  let ?k = "min n (length data - offset)"
  show ?case
  proof (cases "length data \<le> offset")
    case True
    then show ?thesis by (subst array_chunks.simps, subst batches.simps) simp
  next
    case False
    then have rec: "array_chunks n data (offset + ?k) = map Inr (batches n (drop (offset + ?k) data))"
      using less.prems by (intro less.hyps) auto
    have "take ?k (drop offset data) = take n (drop offset data)" by (simp add: min_def)
    moreover have "batches n (drop (offset + ?k) data) = batches n (drop n (drop offset data))"
      by (cases "n \<le> length data - offset") (simp_all add: min_def add.commute)
    ultimately show ?thesis
      using False less.prems rec by (subst array_chunks.simps, subst batches.simps) (simp add: Let_def)
  qed
qed

lemma set_at_end:
  "length v \<le> k \<Longrightarrow> set_at (length acc) v (acc @ replicate k 0) = (acc @ v) @ replicate (k - length v) 0"
  by (simp add: set_at_def)

lemma read_loop_sum:
  "length acc \<le> expected \<Longrightarrow>
   (length acc + length (concat vs) = expected \<longrightarrow>
     read_loop expected (acc @ replicate (expected - length acc) 0) (length acc) (map Inr vs) = Inr (acc @ concat vs)) \<and>
   (length acc + length (concat vs) \<noteq> expected \<longrightarrow>
     (\<exists>k. k \<noteq> expected \<and> read_loop expected (acc @ replicate (expected - length acc) 0) (length acc) (map Inr vs)
       = Inl (read_message expected k)))"
proof (induction vs arbitrary: acc)
  case (Cons v vs)
  show ?case
  proof (cases "length acc + length v \<le> expected")
    case True
    then have v: "length v \<le> expected - length acc" by simp
    have "expected - length acc - length v = expected - length (acc @ v)" by simp
    then show ?thesis
      using Cons.IH [of "acc @ v"] True by (simp add: set_at_end [OF v] add.assoc del: append_assoc)
  next
    case False
    then show ?thesis by (auto intro!: exI [of _ "length acc + length v"])
  qed
qed auto

lemma readAll_sum:
  "(length (concat vs) = n \<longrightarrow> readAll (map Inr vs) n = Inr (concat vs)) \<and>
   (length (concat vs) \<noteq> n \<longrightarrow> (\<exists>k. k \<noteq> n \<and> readAll (map Inr vs) n = Inl (read_message n k)))"
  using read_loop_sum [of "[]" n vs] by (simp add: readAll_def)

lemma batches_lengths:
  "0 < n \<Longrightarrow> ys \<in> set (batches n xs) \<Longrightarrow> ys \<noteq> [] \<and> length ys \<le> n"
proof (induction n xs rule: batches.induct)
  case (1 n xs)
  then show ?case by (subst (asm) (2) batches.simps) (auto split: if_splits)
qed

lemma batches_full: "0 < n \<Longrightarrow> ys \<in> set (butlast (batches n xs)) \<Longrightarrow> length ys = n"
proof (induction n xs rule: batches.induct)
  case (1 n xs)
  then have ne: "xs \<noteq> []" by (auto simp: batches.simps)
  then have "batches n xs = take n xs # batches n (drop n xs)"
    using "1.prems"(1) by (subst batches.simps) simp
  moreover have "batches n (drop n xs) \<noteq> [] \<Longrightarrow> n < length xs"
    by (subst (asm) batches.simps) (auto split: if_splits)
  ultimately show ?case using 1 ne by (auto split: if_splits)
qed


text \<open>C37: Cutting a content into chunks loses nothing. Whatever chunks a stream comes in, the new stream holds the same
  bytes in chunks of the given size, the last one shorter but not empty; an array of these bytes gives the same
  stream; and reading all of it with the right size gives the bytes back, with any other size an error.\<close>

theorem chunks_roundtrip:
  assumes "0 < n"
  shows "\<exists>cs. streamToFixedChunkSizeReadable n (map Inr vs) = Inr (map Inr cs) \<and>
    uint8ArrayToFixedChunkSizeReadable n (concat vs) = Inr (map Inr cs) \<and> concat cs = concat vs \<and>
    (\<forall>c \<in> set (butlast cs). length c = n) \<and> (\<forall>c \<in> set cs. c \<noteq> [] \<and> length c \<le> n) \<and>
    readAll (map Inr cs) (length (concat vs)) = Inr (concat vs) \<and>
    (\<forall>k. k \<noteq> length (concat vs) \<longrightarrow> (\<exists>m. readAll (map Inr cs) k = Inl m))"
proof (intro exI [of _ "batches n (concat vs)"] conjI)
  let ?cs = "batches n (concat vs)"
  have sum: "concat ?cs = concat vs" using assms by (rule concat_batches)
  show "streamToFixedChunkSizeReadable n (map Inr vs) = Inr (map Inr ?cs)"
    "uint8ArrayToFixedChunkSizeReadable n (concat vs) = Inr (map Inr ?cs)"
    using assms by (simp_all add: streamToFixedChunkSizeReadable_def uint8ArrayToFixedChunkSizeReadable_def
      fixed_chunks_batches array_chunks_batches)
  show "concat ?cs = concat vs" by (rule sum)
  show "\<forall>c \<in> set (butlast ?cs). length c = n" "\<forall>c \<in> set ?cs. c \<noteq> [] \<and> length c \<le> n"
    using assms batches_full batches_lengths by blast+
  show "readAll (map Inr ?cs) (length (concat vs)) = Inr (concat vs)"
    "\<forall>k. k \<noteq> length (concat vs) \<longrightarrow> (\<exists>m. readAll (map Inr ?cs) k = Inl m)"
    using readAll_sum [of ?cs] sum by auto
qed

theorem chunks_roundtrip_witness:
  "\<exists>cs. streamToFixedChunkSizeReadable 3 (map Inr [[0, 1], [], [2, 3, 4, 5], [6, 7, 8, 9]]) = Inr (map Inr cs)
     \<and> readAll (map Inr cs) 10 = Inr [0, 1, 2, 3, 4, 5, 6, 7, 8, 9]"
  using chunks_roundtrip [of 3 "[[0, 1], [], [2, 3, 4, 5], [6, 7, 8, 9]]"] by (auto simp: eval_nat_numeral)

end
