(* ===== verification/OssUploader.thy ===== *)
theory OssUploader
  imports OssQueue OssStream
begin

text \<open>
  \<open>Uploader\<close> of \<open>ic_oss_ts/src/uploader.ts\<close>. The canister is an argument of \<open>upload\<close>; in
  \<open>upload_chunks\<close>, which is cut at its \<open>await\<close>s, the ends of its calls are events. A task of
  the queue is the number of the chunk it sends; \<open>hashed\<close> are the bytes the hasher was fed.
\<close>

section \<open>State\<close>

definition MAX_FILE_SIZE_PER_CALL :: nat where "MAX_FILE_SIZE_PER_CALL = 1024 * 2048"

record CreateFileInput =
  ci_status :: "int option"
  ci_content :: "bytes option"
  ci_hash :: "bytes option"
  ci_name :: string
  ci_size :: "nat option"
  ci_content_type :: string
  ci_parent :: int

record UpdateFileInput =
  ui_id :: nat
  ui_status :: "int option"
  ui_hash :: bytes
  ui_size :: nat

record UploadFileChunksResult =
  ur_id :: nat
  ur_filled :: nat
  ur_uploadedChunks :: "nat list"
  ur_hash :: "bytes option"

text \<open>\<open>err.data\<close> is the progress so far, what a later call can leave out.\<close>

datatype upload_phase =
    Reading
  | Pushing nat
  | Awaiting nat
  | Updating UpdateFileInput
  | Finished UploadFileChunksResult
  | Threw string

record upload =
  up_queue :: ConcurrencyQueue
  up_stream :: source
  up_chunkIndex :: nat
  up_prevChunkSize :: nat
  up_rt :: UploadFileChunksResult
  up_hashed :: bytes
  up_chunks :: "(nat, bytes) jsmap"
  up_phase :: upload_phase

text \<open>What a call of \<open>upload_chunks\<close> does not change.\<close>

record upload_job =
  uj_sha3 :: "bytes \<Rightarrow> bytes"
  uj_concurrency :: nat
  uj_setReadonly :: bool
  uj_id :: nat
  uj_size :: nat
  uj_hash :: "bytes option"
  uj_excludeChunks :: "nat list"

section \<open>Chunks\<close>

definition upload_chunks :: "upload_job \<Rightarrow> source \<Rightarrow> upload" where
  "upload_chunks J stream = \<lparr>up_queue = new_queue (uj_concurrency J), up_stream = stream, up_chunkIndex = 0,
     up_prevChunkSize = CHUNK_SIZE,
     up_rt = \<lparr>ur_id = uj_id J, ur_filled = 0, ur_uploadedChunks = [], ur_hash = uj_hash J\<rparr>,
     up_hashed = [], up_chunks = [], up_phase = Reading\<rparr>"

definition size_mismatch :: "nat \<Rightarrow> string" where
  "size_mismatch n = ''Prev chunk size mismatch, expected '' @ show_int (int CHUNK_SIZE) @ '' but got '' @ show_int (int n)"

text \<open>
  The tasks that an operation of the queue has called, in their order, each feed their chunk to the
  hasher, unless the hash was given, and call the canister.
\<close>

definition newly_called :: "ConcurrencyQueue \<Rightarrow> ConcurrencyQueue \<Rightarrow> nat list" where
  "newly_called before after = map fst (drop (length (cq_calls before)) (cq_calls after))"

definition with_queue :: "upload_job \<Rightarrow> ConcurrencyQueue \<Rightarrow> upload \<Rightarrow> upload" where
  "with_queue J q s = s\<lparr>up_queue := q, up_hashed := up_hashed s @ (if uj_hash J \<noteq> None then []
     else concat (map (\<lambda>t. the (map_get (up_chunks s) t)) (newly_called (up_queue s) q)))\<rparr>"

text \<open>One turn of the loop over the stream.\<close>

definition read_chunk :: "upload_job \<Rightarrow> upload \<Rightarrow> upload" where
  "read_chunk J s = (case up_stream s of
     [] \<Rightarrow> (case wait (up_queue s) of (p, q) \<Rightarrow> s\<lparr>up_queue := q, up_phase := Awaiting p\<rparr>)
   | Inl e # _ \<Rightarrow> s\<lparr>up_stream := [], up_phase := Threw e\<rparr>
   | Inr chunk # rest \<Rightarrow>
       if up_prevChunkSize s \<noteq> CHUNK_SIZE then s\<lparr>up_phase := Threw (size_mismatch (up_prevChunkSize s))\<rparr>
       else let index = up_chunkIndex s;
                s' = s\<lparr>up_stream := rest, up_prevChunkSize := length chunk, up_chunkIndex := index + 1\<rparr> in
         if index \<in> set (uj_excludeChunks J)
         then s'\<lparr>up_rt := (up_rt s)\<lparr>ur_filled := ur_filled (up_rt s) + length chunk\<rparr>\<rparr>
         else let s2 = s'\<lparr>up_chunks := map_set index chunk (up_chunks s)\<rparr> in
           (case push index (up_queue s) of (p, q) \<Rightarrow> (with_queue J q s2)\<lparr>up_phase := Pushing p\<rparr>))"

text \<open>The loop, or the end of the method, goes on when the promise it awaits is settled.\<close>

definition resume :: "upload_job \<Rightarrow> upload \<Rightarrow> upload option" where
  "resume J s = (case up_phase s of
     Pushing p \<Rightarrow> (case map_get (cq_promises (up_queue s)) p of
         None \<Rightarrow> None
       | Some (Failed_with e) \<Rightarrow> Some (s\<lparr>up_phase := Threw e\<rparr>)
       | Some _ \<Rightarrow> Some (s\<lparr>up_phase := Reading\<rparr>))
   | Awaiting p \<Rightarrow> (case map_get (cq_promises (up_queue s)) p of
         None \<Rightarrow> None
       | Some (Failed_with e) \<Rightarrow> Some (s\<lparr>up_phase := Threw e\<rparr>)
       | Some _ \<Rightarrow> let hash = (case ur_hash (up_rt s) of Some h \<Rightarrow> h | None \<Rightarrow> uj_sha3 J (up_hashed s)) in
           Some (s\<lparr>up_rt := (up_rt s)\<lparr>ur_hash := Some hash\<rparr>,
             up_phase := Updating \<lparr>ui_id = uj_id J, ui_status = (if uj_setReadonly J then Some 1 else None),
               ui_hash = hash, ui_size = uj_size J\<rparr>\<rparr>))
   | _ \<Rightarrow> None)"

datatype event = Turn | Chunk_sent nat | Chunk_failed nat string | Info_updated | Info_failed string

definition chunk_sent :: "upload_job \<Rightarrow> nat \<Rightarrow> upload \<Rightarrow> upload" where
  "chunk_sent J t s = (let rt = up_rt s in
     with_queue J (task_done t (up_queue s)) (s\<lparr>up_rt := rt\<lparr>
       ur_filled := ur_filled rt + length (the (map_get (up_chunks s) t)),
       ur_uploadedChunks := ur_uploadedChunks rt @ [t]\<rparr>\<rparr>))"

text \<open>\<open>None\<close> for an event that cannot happen.\<close>

fun upload_step :: "upload_job \<Rightarrow> event \<Rightarrow> upload \<Rightarrow> upload option" where
  "upload_step J Turn s = (if up_phase s = Reading then Some (read_chunk J s) else resume J s)"
| "upload_step J (Chunk_sent t) s = (if t \<in> set (cq_pending (up_queue s)) then Some (chunk_sent J t s) else None)"
| "upload_step J (Chunk_failed t e) s = (if t \<in> set (cq_pending (up_queue s))
     then Some (with_queue J (task_failed t e (up_queue s)) s) else None)"
| "upload_step J Info_updated s = (case up_phase s of
     Updating _ \<Rightarrow> Some (s\<lparr>up_phase := Finished (up_rt s)\<rparr>) | _ \<Rightarrow> None)"
| "upload_step J (Info_failed e) s = (case up_phase s of
     Updating _ \<Rightarrow> Some (s\<lparr>up_phase := Threw e\<rparr>) | _ \<Rightarrow> None)"

primrec upload_run :: "upload_job \<Rightarrow> event list \<Rightarrow> upload \<Rightarrow> upload option" where
  "upload_run J [] s = Some s"
| "upload_run J (e # es) s = (case upload_step J e s of None \<Rightarrow> None | Some s' \<Rightarrow> upload_run J es s')"

section \<open>The whole of an upload\<close>

text \<open>
  A small file is sent with the call that creates it, a large one, and one of unknown size, in
  chunks. \<open>create\<close> is the call of the canister: an error, or the identifier.
\<close>

datatype upload_start = Uploaded CreateFileInput UploadFileChunksResult | In_chunks CreateFileInput upload_job source

definition start_upload ::
  "(bytes \<Rightarrow> bytes) \<Rightarrow> nat \<Rightarrow> bool \<Rightarrow> (CreateFileInput \<Rightarrow> string + nat) \<Rightarrow> source \<Rightarrow> FileConfig \<Rightarrow>
   string + upload_start" where
  "start_upload sha3 concurrency setReadonly create stream file =
     (let n = (case fc_size file of Some k \<Rightarrow> k | None \<Rightarrow> 0);
          parent = (case fc_parent file of Some p \<Rightarrow> p | None \<Rightarrow> 0) in
      if 0 < n \<and> n \<le> MAX_FILE_SIZE_PER_CALL then
        (case readAll stream n of
           Inl e \<Rightarrow> Inl e
         | Inr content \<Rightarrow>
             let hash = (case fc_hash file of Some h \<Rightarrow> h | None \<Rightarrow> sha3 content);
                 input = \<lparr>ci_status = (if setReadonly then Some 1 else None), ci_content = Some content,
                   ci_hash = Some hash, ci_name = fc_name file, ci_size = Some n,
                   ci_content_type = fc_contentType file, ci_parent = parent\<rparr> in
             (case create input of Inl e \<Rightarrow> Inl e
              | Inr i \<Rightarrow> Inr (Uploaded input \<lparr>ur_id = i, ur_filled = n, ur_uploadedChunks = [], ur_hash = Some hash\<rparr>)))
      else
        let input = \<lparr>ci_status = None, ci_content = None, ci_hash = None, ci_name = fc_name file,
              ci_size = (if 0 < n then Some n else None), ci_content_type = fc_contentType file, ci_parent = parent\<rparr> in
        (case create input of Inl e \<Rightarrow> Inl e
         | Inr i \<Rightarrow> Inr (In_chunks input \<lparr>uj_sha3 = sha3, uj_concurrency = concurrency, uj_setReadonly = setReadonly,
             uj_id = i, uj_size = n, uj_hash = fc_hash file, uj_excludeChunks = []\<rparr> stream)))"

definition upload_file ::
  "(string \<Rightarrow> string + nat \<times> source) \<Rightarrow> (string \<Rightarrow> string) \<Rightarrow> (string \<Rightarrow> string option) \<Rightarrow> (bytes \<Rightarrow> bytes) \<Rightarrow> nat \<Rightarrow>
   bool \<Rightarrow> (CreateFileInput \<Rightarrow> string + nat) \<Rightarrow> FileConfig \<Rightarrow> string + upload_start" where
  "upload_file open_path basename mime sha3 concurrency setReadonly create file =
     (case toFixedChunkSizeReadable open_path basename mime file of
        Inl e \<Rightarrow> Inl e
      | Inr (stream, file') \<Rightarrow> start_upload sha3 concurrency setReadonly create stream file')"

end
