(* ===== verification/OssProperties.thy ===== *)
theory OssProperties
  imports OssUploader "HOL-Library.Multiset"
begin

text \<open>
  What an upload in chunks sends, counts and hashes: the invariant of the uploads of which
  no call fails, and an upload that loses a chunk when one does.
\<close>

section \<open>A chunk that is lost\<close>

lemma newly_called_simps [simp]:
  "newly_called q q = []"
  "cq_calls r = cq_calls q @ xs \<Longrightarrow> newly_called q r = map fst xs"
  by (simp_all add: newly_called_def)

lemmas queue_defs = push_def wait_def task_done_def task_failed_def next_tasks_def call_task_def settle_promise_def
  abort_def end_waits_def fail_waits_def new_queue_def

text \<open>A chunk that fails between two others is lost without a word. The promise that a failure rejects is the one
  of the last push, which is settled by then: the upload goes on, ends well, and its hash is stored, though the chunk
  was never taken.\<close>

theorem failed_chunk_lost:
  assumes "1 \<le> uj_concurrency J" and "uj_excludeChunks J = []" and "length c0 = CHUNK_SIZE"
  shows "\<exists>s r. upload_run J [Turn, Turn, Chunk_failed 0 e, Turn, Turn, Chunk_sent 1, Turn, Turn, Info_updated]
      (upload_chunks J [Inr c0, Inr c1]) = Some s \<and> up_phase s = Finished r \<and> ur_uploadedChunks r = [1] \<and>
    ur_filled r = length c1 \<and> cq_aborted (up_queue s) = Some e"
  using assms
  by (simp add: upload_chunks_def read_chunk_def resume_def chunk_sent_def with_queue_def queue_defs Let_def)


definition resumable :: upload_job where
  "resumable = \<lparr>uj_sha3 = (\<lambda>_. []), uj_concurrency = 16, uj_setReadonly = False, uj_id = 3, uj_size = CHUNK_SIZE + 1,
     uj_hash = None, uj_excludeChunks = []\<rparr>"

theorem failed_chunk_lost_witness:
  "\<exists>s r. upload_run resumable [Turn, Turn, Chunk_failed 0 ''offline'', Turn, Turn, Chunk_sent 1, Turn, Turn, Info_updated]
      (upload_chunks resumable [Inr (replicate CHUNK_SIZE 0), Inr [1]]) = Some s \<and>
    up_phase s = Finished r \<and> ur_uploadedChunks r = [1]"
proof -
  have "1 \<le> uj_concurrency resumable" "uj_excludeChunks resumable = []" by (simp_all add: resumable_def)
  from failed_chunk_lost [OF this length_replicate, of "''offline''" 0 "[1]"]
  show ?thesis by (elim exE conjE; intro exI conjI)
qed

section \<open>Uploads of which no chunk fails\<close>

definition to_send :: "upload_job \<Rightarrow> nat \<Rightarrow> nat list" where
  "to_send J i = filter (\<lambda>t. t \<notin> set (uj_excludeChunks J)) [0..<i]"

definition left_out :: "upload_job \<Rightarrow> nat \<Rightarrow> nat list" where
  "left_out J i = filter (\<lambda>t. t \<in> set (uj_excludeChunks J)) [0..<i]"

definition sum_of :: "bytes list \<Rightarrow> nat list \<Rightarrow> nat" where
  "sum_of cs ts = (\<Sum>t\<leftarrow>ts. length (cs ! t))"

definition called :: "upload \<Rightarrow> nat list" where
  "called s = map fst (cq_calls (up_queue s))"

definition final_hash :: "upload_job \<Rightarrow> bytes \<Rightarrow> bytes" where
  "final_hash J hashed = (case uj_hash J of Some h \<Rightarrow> h | None \<Rightarrow> uj_sha3 J hashed)"

text \<open>What the phase says of the queue.\<close>

definition phase_inv :: "upload_job \<Rightarrow> upload \<Rightarrow> bool" where
  "phase_inv J s \<longleftrightarrow> (let q = up_queue s; rt = up_rt s in case up_phase s of
     Reading \<Rightarrow> cq_queue q = [] \<and> cq_waits q = [] \<and> ur_hash rt = uj_hash J
   | Pushing p \<Rightarrow> cq_waits q = [] \<and> ur_hash rt = uj_hash J \<and>
       (cq_queue q = [] \<and> map_of (cq_promises q) p = Some Started \<or>
        (\<exists>t. cq_queue q = [(t, p)] \<and> map_of (cq_promises q) p = None \<and> p < cq_nextPromise q))
   | Awaiting p \<Rightarrow> up_stream s = [] \<and> cq_queue q = [] \<and> ur_hash rt = uj_hash J \<and>
       (cq_waits q = [] \<and> cq_pending q = [] \<and> (\<exists>k. map_of (cq_promises q) p = Some (Counted k)) \<or>
        cq_waits q = [(p, cq_pending q)] \<and> cq_pending q \<noteq> [] \<and> map_of (cq_promises q) p = None \<and>
          p < cq_nextPromise q)
   | Updating u \<Rightarrow> up_stream s = [] \<and> cq_queue q = [] \<and> cq_pending q = [] \<and> cq_waits q = [] \<and>
       ur_hash rt = Some (final_hash J (up_hashed s)) \<and> ui_hash u = final_hash J (up_hashed s) \<and>
       ui_id u = uj_id J \<and> ui_size u = uj_size J
   | Finished r \<Rightarrow> up_stream s = [] \<and> cq_queue q = [] \<and> cq_pending q = [] \<and> cq_waits q = [] \<and> r = rt \<and>
       ur_hash rt = Some (final_hash J (up_hashed s))
   | Threw _ \<Rightarrow> cq_queue q = [] \<and> cq_waits q = [])"

definition queue_state :: "upload \<Rightarrow> bool" where
  "queue_state s \<longleftrightarrow> (let q = up_queue s in distinct (cq_pending q) \<and>
     mset (cq_pending q) + mset (ur_uploadedChunks (up_rt s)) = mset (called s) \<and>
     (\<forall>p. cq_nextPromise q \<le> p \<longrightarrow> map_of (cq_promises q) p = None))"

definition upload_inv :: "upload_job \<Rightarrow> bytes list \<Rightarrow> upload \<Rightarrow> bool" where
  "upload_inv J cs s \<longleftrightarrow> up_chunkIndex s \<le> length cs \<and> up_stream s = map Inr (drop (up_chunkIndex s) cs) \<and>
     called s @ map fst (cq_queue (up_queue s)) = to_send J (up_chunkIndex s) \<and> queue_state s \<and>
     (\<forall>t \<in> set (to_send J (up_chunkIndex s)). map_of (up_chunks s) t = Some (cs ! t)) \<and>
     ur_filled (up_rt s) = sum_of cs (ur_uploadedChunks (up_rt s)) + sum_of cs (left_out J (up_chunkIndex s)) \<and>
     up_hashed s = (if uj_hash J = None then concat (map ((!) cs) (called s)) else []) \<and>
     phase_inv J s"

lemma upload_inv_start: "upload_inv J cs (upload_chunks J (map Inr cs))"
  by (simp add: upload_inv_def upload_chunks_def called_def to_send_def left_out_def queue_state_def phase_inv_def
    new_queue_def sum_of_def Let_def)

lemma to_send_Suc: "to_send J (Suc i) = to_send J i @ (if i \<in> set (uj_excludeChunks J) then [] else [i])"
  and left_out_Suc: "left_out J (Suc i) = left_out J i @ (if i \<in> set (uj_excludeChunks J) then [i] else [])"
  and to_send_less: "t \<in> set (to_send J i) \<Longrightarrow> t < i"
  and to_send_distinct: "distinct (to_send J i)"
  by (auto simp: to_send_def left_out_def)

lemma next_tasks_short:
  "cq_queue q = [] \<Longrightarrow> next_tasks q = q"
  "cq_queue q = [(t, p)] \<Longrightarrow> next_tasks q =
     (if length (cq_pending q) < cq_concurrency q then (call_task t p q)\<lparr>cq_queue := []\<rparr> else q)"
  by (simp_all add: next_tasks_def)


text \<open>The steps, one by one.\<close>

lemma upload_inv_mismatch:
  "upload_inv J cs s \<Longrightarrow> up_phase s = Reading \<Longrightarrow> upload_inv J cs (s\<lparr>up_phase := Threw m\<rparr>)"
  by (simp only: upload_inv_def phase_inv_def called_def queue_state_def Let_def upload.simps upload_phase.case)
    (auto simp: called_def queue_state_def phase_inv_def Let_def)

lemma next_chunk:
  assumes "map Inr (drop i cs) = Inr c # rest"
  shows "i < length cs" "c = cs ! i" "rest = map Inr (drop (Suc i) cs)"
proof -
  have "drop i cs \<noteq> []" using assms by auto
  then show i: "i < length cs" by simp
  then have "drop i cs = cs ! i # drop (Suc i) cs" by (simp add: Cons_nth_drop_Suc)
  with assms show "c = cs ! i" "rest = map Inr (drop (Suc i) cs)" by simp_all
qed

lemma upload_inv_excluded:
  assumes inv: "upload_inv J cs s" and phase: "up_phase s = Reading" and i: "i = up_chunkIndex s" "i < length cs"
    and ex: "i \<in> set (uj_excludeChunks J)"
  shows "upload_inv J cs (s\<lparr>up_stream := map Inr (drop (Suc i) cs), up_prevChunkSize := n, up_chunkIndex := Suc i,
    up_rt := (up_rt s)\<lparr>ur_filled := ur_filled (up_rt s) + length (cs ! i)\<rparr>\<rparr>)"
  using assms
  by (auto simp: upload_inv_def phase_inv_def called_def queue_state_def Let_def to_send_Suc left_out_Suc sum_of_def)

lemma upload_inv_pushed:
  assumes inv: "upload_inv J cs s" and phase: "up_phase s = Reading" and i: "i = up_chunkIndex s" "i < length cs"
    and ex: "i \<notin> set (uj_excludeChunks J)" and push: "push i (up_queue s) = (p, q)"
    and s2: "s2 = s\<lparr>up_stream := map Inr (drop (Suc i) cs), up_prevChunkSize := n, up_chunkIndex := Suc i,
      up_chunks := map_set i (cs ! i) (up_chunks s)\<rparr>"
  shows "upload_inv J cs ((with_queue J q s2)\<lparr>up_phase := Pushing p\<rparr>)"
proof -
  let ?q = "up_queue s"
  let ?pushed = "?q\<lparr>cq_nextPromise := Suc (cq_nextPromise ?q), cq_reject := Some (cq_nextPromise ?q),
    cq_queue := [(i, cq_nextPromise ?q)]\<rparr>"
  have e1: "cq_queue (up_queue s) = []" using inv phase by (simp add: upload_inv_def phase_inv_def Let_def)
  have e2: "cq_waits (up_queue s) = []" using inv phase by (simp add: upload_inv_def phase_inv_def Let_def)
  have e3: "ur_hash (up_rt s) = uj_hash J" using inv phase by (simp add: upload_inv_def phase_inv_def Let_def)
  note empty = e1 e2 e3
  have pq: "(p, q) = (cq_nextPromise ?q, next_tasks ?pushed)"
    unfolding push [symmetric] using empty by (simp add: push_def Let_def)
  then have p: "p = cq_nextPromise ?q" by (rule Pair_inject)
  from pq have q: "q = next_tasks ?pushed" by (rule Pair_inject)
  have fresh: "map_of (cq_promises ?q) p = None"
    using inv p by (simp add: upload_inv_def queue_state_def Let_def)
  have sent: "called s = to_send J i" using inv empty i by (simp add: upload_inv_def)
  have new: "i \<notin> set (to_send J i)" using to_send_less by blast
  have state: "distinct (cq_pending ?q)"
    "mset (cq_pending ?q) + mset (ur_uploadedChunks (up_rt s)) = mset (called s)"
    "\<forall>p. cq_nextPromise ?q \<le> p \<longrightarrow> map_of (cq_promises ?q) p = None"
    using inv by (simp_all add: upload_inv_def queue_state_def Let_def)
  have pending: "i \<notin> set (cq_pending ?q)"
    using state(2) sent new by (metis set_mset_mset union_iff)
  show ?thesis
  proof (cases "length (cq_pending ?q) < cq_concurrency ?q")
    case True
    then have q1: "q = (call_task i p ?pushed)\<lparr>cq_queue := []\<rparr>"
      using q p by (simp add: next_tasks_short)
    have calls: "cq_calls q = cq_calls ?q @ [(i, Suc (length (cq_pending ?q)))]"
      by (simp add: q1 call_task_def settle_promise_def)
    show ?thesis
      using inv i ex s2 sent state pending fresh empty p phase
      by (simp add: upload_inv_def with_queue_def newly_called_simps(2) [OF calls] calls phase_inv_def called_def queue_state_def
        to_send_Suc left_out_Suc Let_def q1 call_task_def settle_promise_def)
  next
    case False
    then have q1: "q = ?pushed" using q by (simp add: next_tasks_short)
    show ?thesis
      using inv i ex s2 sent state fresh empty p phase
      by (simp add: upload_inv_def with_queue_def newly_called_def phase_inv_def called_def queue_state_def
        to_send_Suc left_out_Suc Let_def q1)
  qed
qed

lemma upload_inv_read:
  assumes inv: "upload_inv J cs s" and phase: "up_phase s = Reading"
  shows "upload_inv J cs (read_chunk J s)"
proof -
  let ?i = "up_chunkIndex s"
  have stream: "up_stream s = map Inr (drop ?i cs)" using inv by (simp add: upload_inv_def)
  show ?thesis
  proof (cases "drop ?i cs")
    case Nil
    then have "up_stream s = []" using stream by simp
    then show ?thesis using inv phase
      by (auto simp: read_chunk_def wait_def upload_inv_def phase_inv_def called_def queue_state_def Let_def)
  next
    case (Cons c rest)
    then have "up_stream s = Inr c # map Inr rest" using stream by simp
    moreover from next_chunk [of ?i cs c "map Inr rest"] Cons
    have c: "?i < length cs" "c = cs ! ?i" "map Inr rest = map Inr (drop (Suc ?i) cs)" by simp_all
    ultimately have s: "up_stream s = Inr (cs ! ?i) # map Inr (drop (Suc ?i) cs)" by simp
    show ?thesis
    proof (cases "up_prevChunkSize s = CHUNK_SIZE")
      case True
      show ?thesis
      proof (cases "?i \<in> set (uj_excludeChunks J)")
        case ex: True
        show ?thesis using upload_inv_excluded [OF inv phase refl c(1) ex] s True ex
          by (simp add: read_chunk_def Let_def)
      next
        case ex: False
        obtain p q where "push ?i (up_queue s) = (p, q)" by fastforce
        from upload_inv_pushed [OF inv phase refl c(1) ex this refl] this s True ex
        show ?thesis by (simp add: read_chunk_def Let_def)
      qed
    next
      case False
      then show ?thesis using upload_inv_mismatch [OF inv phase] s by (simp add: read_chunk_def)
    qed
  qed
qed

text \<open>Only the phase and the hash change when the method goes on.\<close>

lemma upload_inv_phase:
  assumes "upload_inv J cs s" and "phase_inv J (s\<lparr>up_rt := (up_rt s)\<lparr>ur_hash := h\<rparr>, up_phase := f\<rparr>)"
  shows "upload_inv J cs (s\<lparr>up_rt := (up_rt s)\<lparr>ur_hash := h\<rparr>, up_phase := f\<rparr>)"
  using assms by (simp add: upload_inv_def called_def queue_state_def Let_def)

lemma upload_inv_to:
  "upload_inv J cs s \<Longrightarrow> phase_inv J (s\<lparr>up_phase := f\<rparr>) \<Longrightarrow> upload_inv J cs (s\<lparr>up_phase := f\<rparr>)"
  by (simp add: upload_inv_def called_def queue_state_def Let_def)

lemma upload_inv_resumed:
  assumes inv: "upload_inv J cs s" and resumed: "resume J s = Some s'"
  shows "upload_inv J cs s'"
proof -
  have now: "phase_inv J s" using inv by (simp add: upload_inv_def)
  show ?thesis
  proof (cases "up_phase s")
    case (Pushing p)
    then have "map_of (cq_promises (up_queue s)) p = Some Started" "s' = s\<lparr>up_phase := Reading\<rparr>"
      using now resumed by (auto simp: resume_def phase_inv_def Let_def)
    moreover from this have "phase_inv J (s\<lparr>up_phase := Reading\<rparr>)"
      using now Pushing by (auto simp: phase_inv_def Let_def)
    ultimately show ?thesis using upload_inv_to [OF inv] by simp
  next
    case (Awaiting p)
    then obtain k where k: "map_of (cq_promises (up_queue s)) p = Some (Counted k)"
      using now resumed by (auto simp: resume_def phase_inv_def Let_def)
    let ?h = "final_hash J (up_hashed s)"
    let ?u = "\<lparr>ui_id = uj_id J, ui_status = (if uj_setReadonly J then Some 1 else None), ui_hash = ?h, ui_size = uj_size J\<rparr>"
    have hash: "ur_hash (up_rt s) = uj_hash J" using now Awaiting by (auto simp: phase_inv_def Let_def)
    have "s' = s\<lparr>up_rt := (up_rt s)\<lparr>ur_hash := Some ?h\<rparr>, up_phase := Updating ?u\<rparr>"
      using resumed Awaiting k hash by (simp add: resume_def final_hash_def Let_def)
    then show ?thesis using upload_inv_phase [OF inv, where h = "Some ?h" and f = "Updating ?u"] now Awaiting k
      by (auto simp: phase_inv_def Let_def)
  qed (use resumed in \<open>simp_all add: resume_def\<close>)
qed

lemma sent_counts:
  "distinct xs \<Longrightarrow> t \<in> set xs \<Longrightarrow> mset (removeAll t xs) + mset (ys @ [t]) = mset xs + mset ys"
  by (simp add: distinct_remove1_removeAll [symmetric])

lemma task_done_waiting:
  "cq_waits q = [(p, xs)] \<Longrightarrow> cq_queue q = [] \<Longrightarrow> map_of (cq_promises q) p = None \<Longrightarrow>
    task_done t q = q\<lparr>cq_total := cq_total q + 1, cq_pending := removeAll t (cq_pending q),
      cq_waits := (if removeAll t xs = [] then [] else [(p, removeAll t xs)]),
      cq_promises := (if removeAll t xs = [] then map_set p (Counted (cq_total q + 1)) (cq_promises q) else cq_promises q)\<rparr>"
  by (cases q) (simp add: task_done_def end_waits_def next_tasks_def settle_promise_def)

lemma task_done_no_wait:
  "cq_waits q = [] \<Longrightarrow> task_done t q = next_tasks (q\<lparr>cq_total := cq_total q + 1, cq_pending := removeAll t (cq_pending q)\<rparr>)"
  by (cases q) (simp add: task_done_def end_waits_def)

text \<open>The queue calls the chunk that waits, if one does and there is room.\<close>

lemma upload_inv_next:
  assumes inv: "upload_inv J cs s" and waits: "cq_waits (up_queue s) = []"
  shows "upload_inv J cs (with_queue J (next_tasks (up_queue s)) s)"
proof -
  let ?q = "up_queue s"
  consider (none) "cq_queue ?q = []"
    | (one) t p where "up_phase s = Pushing p" "cq_queue ?q = [(t, p)]" "map_of (cq_promises ?q) p = None"
        "p < cq_nextPromise ?q"
    using inv by (auto simp: upload_inv_def phase_inv_def Let_def split: upload_phase.splits)
  then show ?thesis
  proof cases
    case none
    then have "with_queue J (next_tasks ?q) s = s" by (simp add: next_tasks_short with_queue_def)
    then show ?thesis using inv by simp
  next
    case (one t p)
    have order: "called s @ [t] = to_send J (up_chunkIndex s)" using inv one(2) by (simp add: upload_inv_def)
    have "distinct (called s @ [t])" unfolding order by (rule to_send_distinct)
    then have t: "t \<notin> set (called s)" by simp
    have t': "t \<in> set (to_send J (up_chunkIndex s))" unfolding order [symmetric] by simp
    have chunk: "map_of (up_chunks s) t = Some (cs ! t)" using inv t' by (simp add: upload_inv_def)
    have fresh: "t \<notin> set (cq_pending ?q)"
      using inv t unfolding upload_inv_def queue_state_def Let_def by (metis set_mset_mset union_iff)
    show ?thesis
    proof (cases "length (cq_pending ?q) < cq_concurrency ?q")
      case True
      then have new: "next_tasks ?q = (call_task t p ?q)\<lparr>cq_queue := []\<rparr>" using one by (simp add: next_tasks_short)
      have calls: "cq_calls (next_tasks ?q) = cq_calls ?q @ [(t, Suc (length (cq_pending ?q)))]"
        by (simp add: new call_task_def settle_promise_def)
      show ?thesis
        using inv one waits chunk fresh
        by (auto simp: upload_inv_def with_queue_def newly_called_simps(2) [OF calls] calls new call_task_def settle_promise_def
          order [symmetric] called_def queue_state_def phase_inv_def Let_def)
    next
      case False
      then have "next_tasks ?q = ?q" using one by (simp add: next_tasks_short)
      then have "with_queue J (next_tasks ?q) s = s" by (simp add: with_queue_def)
      then show ?thesis using inv by simp
    qed
  qed
qed

lemma upload_inv_sent:
  assumes inv: "upload_inv J cs s" and t: "t \<in> set (cq_pending (up_queue s))"
  shows "upload_inv J cs (chunk_sent J t s)"
proof -
  let ?q = "up_queue s"
  have state: "distinct (cq_pending ?q)"
    "mset (cq_pending ?q) + mset (ur_uploadedChunks (up_rt s)) = mset (called s)"
    using inv by (simp_all add: upload_inv_def queue_state_def Let_def)
  have "t \<in> set (called s)" using state(2) t by (metis set_mset_mset union_iff)
  then have "t \<in> set (to_send J (up_chunkIndex s))" using inv unfolding upload_inv_def by (metis UnCI set_append)
  then have chunk: "map_of (up_chunks s) t = Some (cs ! t)" using inv by (simp add: upload_inv_def)
  note counts = sent_counts [OF state(1) t, of "ur_uploadedChunks (up_rt s)"] distinct_removeAll [OF state(1), of t]
  consider (free) "cq_waits ?q = []"
    | (waiting) p where "up_phase s = Awaiting p" "cq_waits ?q = [(p, cq_pending ?q)]" "cq_queue ?q = []"
        "map_of (cq_promises ?q) p = None" "p < cq_nextPromise ?q"
    using inv by (auto simp: upload_inv_def phase_inv_def Let_def split: upload_phase.splits)
  then show ?thesis
  proof cases
    case free
    let ?done = "?q\<lparr>cq_total := cq_total ?q + 1, cq_pending := removeAll t (cq_pending ?q)\<rparr>"
    let ?s = "s\<lparr>up_queue := ?done, up_rt := (up_rt s)\<lparr>
      ur_filled := ur_filled (up_rt s) + length (cs ! t), ur_uploadedChunks := ur_uploadedChunks (up_rt s) @ [t]\<rparr>\<rparr>"
    have "upload_inv J cs ?s"
      using inv t counts free
      by (simp add: upload_inv_def called_def queue_state_def sum_of_def Let_def del: mset_map)
        (auto simp: phase_inv_def Let_def split: upload_phase.splits)
    from upload_inv_next [OF this] free
    have "upload_inv J cs (with_queue J (next_tasks (up_queue ?s)) ?s)" by simp
    moreover have "chunk_sent J t s = with_queue J (next_tasks (up_queue ?s)) ?s"
      using free chunk
      by (cases "uj_hash J") (simp_all add: chunk_sent_def task_done_no_wait with_queue_def newly_called_def Let_def)
    ultimately show ?thesis by simp
  next
    case (waiting p)
    then show ?thesis using inv t chunk counts
      by (auto simp: upload_inv_def chunk_sent_def with_queue_def newly_called_def task_done_waiting called_def queue_state_def
        sum_of_def phase_inv_def Let_def simp del: mset_map)
  qed
qed

lemma upload_inv_ended:
  assumes inv: "upload_inv J cs s" and "up_phase s = Updating u"
  shows "upload_inv J cs (s\<lparr>up_phase := Finished (up_rt s)\<rparr>)" "upload_inv J cs (s\<lparr>up_phase := Threw e\<rparr>)"
proof -
  have "phase_inv J s" using inv by (simp add: upload_inv_def)
  then have ended: "phase_inv J (s\<lparr>up_phase := Finished (up_rt s)\<rparr>)" "phase_inv J (s\<lparr>up_phase := Threw e\<rparr>)"
    using assms(2) by (simp_all add: phase_inv_def Let_def)
  show "upload_inv J cs (s\<lparr>up_phase := Finished (up_rt s)\<rparr>)" by (rule upload_inv_to [OF inv ended(1)])
  show "upload_inv J cs (s\<lparr>up_phase := Threw e\<rparr>)" by (rule upload_inv_to [OF inv ended(2)])
qed

definition no_chunk_fails :: "event list \<Rightarrow> bool" where
  "no_chunk_fails es \<longleftrightarrow> (\<forall>t e. Chunk_failed t e \<notin> set es)"

lemma upload_inv_step:
  assumes inv: "upload_inv J cs s" and "upload_step J ev s = Some s'" and "\<forall>t e. ev \<noteq> Chunk_failed t e"
  shows "upload_inv J cs s'"
  using assms upload_inv_read [OF inv] upload_inv_resumed [OF inv] upload_inv_sent [OF inv] upload_inv_ended [OF inv]
  by (cases ev) (auto split: if_splits upload_phase.splits)

lemma upload_inv_run:
  "upload_inv J cs s \<Longrightarrow> upload_run J es s = Some s' \<Longrightarrow> no_chunk_fails es \<Longrightarrow> upload_inv J cs s'"
proof (induction es arbitrary: s)
  case (Cons ev es)
  from Cons.prems(2) obtain s1 where s1: "upload_step J ev s = Some s1" "upload_run J es s1 = Some s'"
    by (auto split: option.splits)
  have "upload_inv J cs s1"
    using upload_inv_step [OF Cons.prems(1) s1(1)] Cons.prems(3) by (auto simp: no_chunk_fails_def)
  then show ?case using Cons.IH [of s1] s1(2) Cons.prems(3) by (auto simp: no_chunk_fails_def)
qed simp

lemma sum_of_mset:
  assumes "mset xs = mset ys"
  shows "sum_of cs xs = sum_of cs ys"
proof -
  have "mset (map (\<lambda>t. length (cs ! t)) xs) = mset (map (\<lambda>t. length (cs ! t)) ys)" by (simp add: assms)
  then show ?thesis unfolding sum_of_def by (metis sum_mset_sum_list)
qed

lemma sum_of_parts: "sum_of cs (to_send J n) + sum_of cs (left_out J n) = sum_of cs [0..<n]"
proof (induction n)
  case (Suc n)
  have more: "sum_of cs (xs @ ys) = sum_of cs xs + sum_of cs ys" for xs ys by (simp add: sum_of_def)
  show ?case using Suc.IH by (cases "n \<in> set (uj_excludeChunks J)") (simp_all add: to_send_Suc left_out_Suc more sum_of_def)
qed (simp add: to_send_def left_out_def sum_of_def)

lemma sum_of_all: "sum_of cs [0..<length cs] = length (concat cs)"
proof -
  have "map (\<lambda>t. length (cs ! t)) [0..<length cs] = map length cs" by (rule nth_equalityI) simp_all
  then show ?thesis by (simp add: sum_of_def length_concat)
qed

text \<open>C39: An upload of which no call fails sends each chunk that is not excluded exactly once, whatever the order in
  which the calls end, counts every byte of the file, and stores the hash that was given; without one it hashes the
  chunks that it sent, in the order of the file, and these are not the whole file when an upload is resumed.\<close>

theorem upload_exact:
  assumes "upload_run J es (upload_chunks J (map Inr cs)) = Some s" and "no_chunk_fails es"
    and "up_phase s = Finished r"
  shows "mset (ur_uploadedChunks r) = mset (to_send J (length cs)) \<and> ur_filled r = length (concat cs) \<and>
    (\<forall>t \<in> set (ur_uploadedChunks r). map_of (up_chunks s) t = Some (cs ! t)) \<and>
    ur_hash r = Some (final_hash J (concat (map ((!) cs) (to_send J (length cs)))))"
proof -
  have inv: "upload_inv J cs s" by (rule upload_inv_run [OF upload_inv_start assms(1,2)])
  then have phase: "phase_inv J s" by (simp add: upload_inv_def)
  have ended: "up_stream s = []" "cq_queue (up_queue s) = []" "cq_pending (up_queue s) = []" "up_rt s = r"
    "ur_hash r = Some (final_hash J (up_hashed s))"
    using phase assms(3) by (simp_all add: phase_inv_def Let_def)
  have n: "up_chunkIndex s = length cs" using inv ended(1) by (auto simp: upload_inv_def)
  have calls: "called s = to_send J (length cs)" using inv ended(2) n by (simp add: upload_inv_def)
  have sent: "mset (ur_uploadedChunks r) = mset (to_send J (length cs))"
    using inv ended calls by (simp add: upload_inv_def queue_state_def Let_def)
  have "ur_filled r = sum_of cs (to_send J (length cs)) + sum_of cs (left_out J (length cs))"
    using inv ended(4) n sum_of_mset [OF sent] by (simp add: upload_inv_def)
  then have filled: "ur_filled r = length (concat cs)" by (simp add: sum_of_parts sum_of_all)
  have "\<forall>t \<in> set (ur_uploadedChunks r). map_of (up_chunks s) t = Some (cs ! t)"
    using inv n mset_eq_setD [OF sent] by (simp add: upload_inv_def)
  moreover have "final_hash J (up_hashed s) = final_hash J (concat (map ((!) cs) (to_send J (length cs))))"
    using inv calls by (cases "uj_hash J") (simp_all add: upload_inv_def final_hash_def)
  ultimately show ?thesis using sent filled ended(5) by simp
qed

theorem upload_exact_witness:
  "\<exists>s r. upload_run resumable [Turn, Turn, Turn, Turn, Chunk_sent 1, Turn, Chunk_sent 0, Turn, Info_updated]
      (upload_chunks resumable (map Inr [replicate CHUNK_SIZE 0, [1]])) = Some s \<and> up_phase s = Finished r \<and>
    mset (ur_uploadedChunks r) = {#0, 1#}"
proof -
  let ?es = "[Turn, Turn, Turn, Turn, Chunk_sent 1, Turn, Chunk_sent 0, Turn, Info_updated]"
  let ?cs = "[replicate CHUNK_SIZE 0, [1]]"
  have "\<exists>s r. upload_run resumable ?es (upload_chunks resumable (map Inr ?cs)) = Some s \<and> up_phase s = Finished r"
    by (simp add: resumable_def upload_chunks_def read_chunk_def resume_def chunk_sent_def with_queue_def queue_defs Let_def)
  then obtain s r where s: "upload_run resumable ?es (upload_chunks resumable (map Inr ?cs)) = Some s" "up_phase s = Finished r"
    by blast
  have "no_chunk_fails ?es" by (simp add: no_chunk_fails_def)
  from upload_exact [OF s(1) this s(2)] s show ?thesis
    by (auto simp: to_send_def resumable_def)
qed

end
