(* ===== verification/Spec2Isabelle.thy ===== *)
theory Spec2Isabelle
  imports ReportProperties JobQueueProperties RewardProperties TimeoutProperties DualProperties MarketProperties
    ServerProperties RouteProperties BalanceFix MigrationProperties Configuration OssProperties
begin

text \<open>
  A model of the sela-network backend: the TypeScript server under
  \<open>websocket_server/src\<close>, which keeps browser clients (nodes), scraping jobs,
  API keys, purchases, uptime and rewards in Redis, assigns jobs to clients,
  delivers them over WebSockets and pays for their completion, and of the upload
  client of the object store under \<open>ic-oss/src/ic_oss_ts/src\<close>.

  \<^bold>\<open>Parts and theories.\<close>

  \<^item> \<open>Prelude\<close>: \<open>EntityResult\<close>, the exception-and-state monad of the
    asynchronous methods, the JavaScript library functions in use, insertion-ordered maps.
  \<^item> \<open>DbTypes\<close>, \<open>DbRecords\<close>: \<open>db/types.ts\<close>. Interfaces are records,
    enumerations datatypes (\<open>job_state\<close>, \<open>client_state\<close>, \<open>client_status\<close> give the
    stored strings), \<open>REDIS_KEYS\<close> the key builders.
  \<^item> \<open>Redis\<close>: the server behind the \<open>redis\<close> package, a record of commands
    with the laws of its documentation as locales: \<open>redis_server\<close> (what a command that succeeds
    does; any command may fail), \<open>redis_quiet\<close> (no interference by other connections), \<open>redis_up\<close> (no
    command fails). A store in memory and a store that fails on a list of coin tosses interpret them.
  \<^item> \<open>Database\<close>, \<open>Accounts\<close>: every method of the class in \<open>db/database.ts\<close>;
    \<open>updateClient\<close> with its WATCH/MULTI/EXEC transaction and its 5 attempts (\<open>client_retries 5\<close>, the
    bound of the code, so no fuel is added).
  \<^item> \<open>DatabaseFacts\<close>, \<open>DatabaseEffects\<close>, \<open>DatabaseFaults\<close>,
    \<open>DatabaseProperties\<close>: the abstraction to two maps (\<open>clients\<close>, \<open>jobs\<close>), the invariant \<open>db_inv\<close> of
    the secondary indexes, the effect of every method on the maps, what faults cannot break.
  \<^item> \<open>Pricing\<close>: \<open>utils/pricing.ts\<close>.
  \<^item> \<open>Service\<close>, \<open>ServiceReports\<close>: every function of \<open>db/service.ts\<close>, over the
    database. \<open>ServiceFacts\<close>, \<open>ServiceProperties\<close>, \<open>ReportProperties\<close>: assignment, completion,
    failure, node choice, the reachable states of the service, the reports.
  \<^item> \<open>WaitingJobs\<close>, \<open>JobQueue\<close>, \<open>JobQueueProperties\<close>:
    \<open>services/job_queue_manager.ts\<close>. The promises, counts and timeouts of waiting jobs, and the
    delivery loops of the client queues, cut at their \<open>await\<close>s into the events of a step relation.
  \<^item> \<open>TimeoutMonitor\<close>, \<open>TimeoutProperties\<close>: \<open>services/job_timeout_monitor.ts\<close>, the timers
    and the check that fails the in-progress jobs past the limit.
  \<^item> \<open>ReferralConfig\<close>, \<open>Blockchain\<close>, \<open>Referral\<close>: \<open>config/referral_config.ts\<close>,
    \<open>services/blockchain_service.ts\<close> and \<open>services/referral_service.ts\<close>, codes, chains, tiers,
    limits and the payment of three referrers. \<open>ReferralFacts\<close>, \<open>ReferralProperties\<close>: what the
    keys hold after each operation. The locale \<open>payout\<close> is what the payment of an amount promises,
    \<open>rewarding\<close> extends \<open>redis_up\<close> by it; both are interpreted on the code's
    \<open>sendRewardTransaction\<close>.
  \<^item> \<open>UptimeTracker\<close>, \<open>RewardDistribution\<close>: \<open>services/uptime_tracker.ts\<close>,
    \<open>reward_distribution_service.ts\<close>, \<open>referral_distribution_service.ts\<close>. \<open>UptimeFacts\<close> has
    the reachable states of the tracker and their invariant, \<open>RewardFacts\<close> and \<open>ScheduleFacts\<close>
    the effect of a distribution and of the cron schedules, \<open>RewardProperties\<close> that every
    minute is paid once and exactly.
  \<^item> \<open>Utf8\<close>, \<open>JsonText\<close>, \<open>Disk\<close>: the library under the file services. The decoder of
    \<open>Buffer.toString\<close>, \<open>JSON.stringify\<close>, the functions of \<open>path\<close>, and a file system whose calls
    may fail: the locales \<open>quiet_storage\<close> (what a call does when it succeeds) and \<open>storage\<close> (every
    call is answered), interpreted on a disk in memory and on one that fails on a list of tosses.
  \<^item> \<open>FileStore\<close>, \<open>DualStorage\<close>, \<open>FileService\<close>: \<open>utils/file_utils.ts\<close>,
    \<open>services/file_service.ts\<close>, \<open>can_file_service.ts\<close>, \<open>can_dual_storage_manager.ts\<close>,
    \<open>can_file_sync_service.ts\<close> and \<open>config/can_storage_config.ts\<close>. The calls that are started
    and not awaited are tasks in the state of the manager. \<open>FileFacts\<close>, \<open>FileTyping\<close>,
    \<open>FileProperties\<close>: the round trip of a chunked upload, owners, the types of the records.
    \<open>Vault\<close>: the locales \<open>dual_quiet\<close> and \<open>vault\<close> of the world with a canister, interpreted on one
    in memory and on one that rejects every call. \<open>DualFacts\<close>, \<open>RetryQueue\<close>,
    \<open>DualProperties\<close>: storing and reading back, the retry queue against its abstract pass
    \<open>passed\<close> (locale \<open>retrying\<close>).
  \<^item> \<open>Marketplace\<close>: \<open>services/marketplace_service.ts\<close>, the listing, previews, details with
    their cache, downloads and purchases; \<open>MarketProperties\<close>.
  \<^item> \<open>SessionStore\<close>, \<open>NodeService\<close>: \<open>redis_session_store.ts\<close>, \<open>services/node_service.ts\<close>,
    \<open>auth_service.ts\<close>, \<open>client_capacity_service.ts\<close>.
  \<^item> \<open>Sockets\<close>, \<open>NodeHandler\<close>, \<open>RpcHandler\<close>, \<open>Server\<close>: \<open>types/index.ts\<close>,
    the handlers of \<open>handlers/\<close> and \<open>server.ts\<close>. The state of the server (sessions, open sockets,
    what was sent, events, the maps of the trackers) is beside the world of its services, which are
    collected in the record \<open>env\<close>; a message is the JSON value that is sent. \<open>ServerFacts\<close> and
    \<open>ServerReplies\<close>: a calculus of who sends how many messages, with no assumption on
    the services. \<open>ServerInvariant\<close>: the step relation \<open>serves\<close>, the reachable states and
    the invariant of the sessions. \<open>FileQuiet\<close>, \<open>ServerEffects\<close>, \<open>ServerProperties\<close>: what
    handlers do to clients and jobs.
  \<^item> \<open>HttpResponse\<close>: \<open>api/utils/response.ts\<close> and \<open>api/middleware/auth.ts\<close>; a
    response is its status and its JSON body, a middleware passes a request on or answers it.
    \<open>ScrapeResult\<close>, \<open>RpcRoutes\<close>, \<open>ScrapeRoute\<close>, \<open>MarketRoutes\<close>, \<open>SystemRoutes\<close>:
    the routes of \<open>api/routes/rpc_routes.ts\<close>, the wait of a scrape cut into its start and its end;
    \<open>NodeRoutes\<close>, \<open>FileRoutes\<close>, \<open>ReferralRoutes\<close>, \<open>RewardRoutes\<close>: the other files of
    \<open>api/routes\<close>, one definition per route, named by its verb and path. \<open>RouteFacts\<close>: a route
    that catches everything answers (\<open>answers\<close>), and what a guard lets through;
    \<open>RouteProperties\<close>: keys, owners, the scrape, and that every route answers.
  \<^item> \<open>Configuration\<close>: \<open>config/multijob_config.ts\<close>,
    \<open>config/rpc_config.ts\<close>, \<open>utils/error_handler.ts\<close>; the environment is a partial map of texts.
  \<^item> \<open>BalanceFix\<close>: \<open>scripts/fix_race_condition_victims.ts\<close>,
    what a repair run raises and that a second run finds nobody. \<open>ReferralMigration\<close>,
    \<open>MigrationProperties\<close>: \<open>scripts/migrate_referral_codes.ts\<close>, the index of referral codes
    as a partial map (\<open>codes\<close>), what indexing and a whole run do to it.
  \<^item> \<open>OssStream\<close>, \<open>OssQueue\<close>, \<open>OssUploader\<close>: \<open>stream.ts\<close>, \<open>queue.ts\<close> and
    \<open>uploader.ts\<close>. A stream is the list of what its reads bring; the queue and the upload are cut
    at their \<open>await\<close>s, the ends of tasks and calls are events. The relation \<open>queue_run\<close> has every
    run of a queue, \<open>upload_run\<close> those of an upload, an impossible event being \<open>None\<close>.
    \<open>OssProperties\<close>: the invariant \<open>upload_inv\<close> of the uploads of which no call fails, and one that
    loses a chunk.

  \<^bold>\<open>How code and model correspond.\<close> A method that awaits is a function from the
  world to an error or a value and a world; a thrown exception is \<open>Inl\<close>, a caught one is \<open>catchA\<close>.
  Awaited methods of one request or one message run without interleaving, except in \<open>updateClient\<close>, whose
  transaction may abort at any time, and in the queues, where every order of events is a run. A stored
  value is a tagged record (the JSON text of an interface read back is the record); scraped content
  stays a string and \<open>JSON.parse\<close> is an argument. Counts and time stamps are \<open>int\<close>, amounts \<open>rat\<close>.

  \<^bold>\<open>Parameters.\<close> The Redis server, the clock, random numbers, the parser, the file store
  (\<open>fetch\<close> of \<open>getStoredIdFromJobId\<close> and of completion), the referral service called on
  completion, the listener that delivers a job, the storage canister (a record of its calls), SHA-256,
  \<open>cbor.decode\<close> and the text of a number. Fields of a parsed message have their declared types; a
  field of another type counts as missing, and NaN samples of the speed are left out.

  \<^bold>\<open>Not modelled.\<close> Opening connections and sockets, the mounting of routers and of the
  generated documentation on Express, the closing of a socket at its timeout, the start, signals and
  shutdown of the hybrid server, routes that are commented out, logging and log files, the JSON text of
  \<open>exportConfig\<close> and \<open>importConfig\<close>, the canisters and their bindings, the terminal monitor, the
  manual test of the database. \<open>scripts/migrate_to_multijob.ts\<close> gives clients the list of active jobs
  that older records lack: a stored client of the model always has one, so the states the script starts
  from cannot be written down without weakening the types of the store for every other theorem.
\<close>

end
